(* ===== verification/Prelude.thy ===== *)
theory Prelude
  imports Main "HOL-Library.Char_ord" "HOL-Library.List_Lexorder"
begin

text \<open>
  Shared vocabulary of the development: Python's dynamic values, exceptions as values of a
  sum type, and the built-in text functions the sources call.

  Text is a \<^typ>\<open>string\<close> whose characters are read as the code points below 256, so \<open>len\<close>
  is \<^const>\<open>length\<close> and comparison is by code point.  \<open>str.strip\<close> and \<open>str.lower\<close> are exact
  on that range; \<open>str.upper\<close> is exact except for U+00B5 and U+00FF, whose images lie outside it.
\<close>

section \<open>Results and exceptions\<close>

text \<open>
  The exceptions the modelled code raises or lets escape; \<open>OtherError\<close> is an exception of
  another package, known by its class name.  \<open>GatewayFault\<close> carries the
  \<open>code\<close>, \<open>message\<close> and \<open>status_code\<close> of \<open>gateway/contract.py\<close>.
\<close>

datatype pyexc =
    GatewayFault (fault_code: string) (fault_message: string) (fault_status: int)
  | ReadBackMismatch string
  | WorkflowError string string
  | CheckpointError string string
  | TypeError
  | ValueError
  | KeyError
  | AttributeError
  | IndexError
  | OverflowError
  | DecimalOverflow
  | OtherError string

type_synonym 'a result = "pyexc + 'a"

named_theorems result_simps \<open>inversion of the result combinators\<close>

definition rbind :: "'a result \<Rightarrow> ('a \<Rightarrow> 'b result) \<Rightarrow> 'b result" where
  "rbind m f = (case m of Inl e \<Rightarrow> Inl e | Inr x \<Rightarrow> f x)"

text \<open>A \<open>for\<close> loop or comprehension that stops at the first exception.\<close>

fun rmap :: "('a \<Rightarrow> 'b result) \<Rightarrow> 'a list \<Rightarrow> 'b list result" where
  "rmap f [] = Inr []"
| "rmap f (x # xs) = rbind (f x) (\<lambda>y. rbind (rmap f xs) (\<lambda>ys. Inr (y # ys)))"

text \<open>The same over \<open>enumerate\<close>, counting from \<open>i\<close>.\<close>

fun rmap_from :: "nat \<Rightarrow> (nat \<Rightarrow> 'a \<Rightarrow> 'b result) \<Rightarrow> 'a list \<Rightarrow> 'b list result" where
  "rmap_from i f [] = Inr []"
| "rmap_from i f (x # xs) =
     rbind (f i x) (\<lambda>y. rbind (rmap_from (Suc i) f xs) (\<lambda>ys. Inr (y # ys)))"

definition is_ok :: "'a result \<Rightarrow> bool" where
  "is_ok r = (case r of Inl _ \<Rightarrow> False | Inr _ \<Rightarrow> True)"

lemma rbind_Inr [simp]: "rbind (Inr x) f = f x"
  by (simp add: rbind_def)

lemma rbind_Inl [simp]: "rbind (Inl e) f = Inl e"
  by (simp add: rbind_def)

lemma rbind_eq_Inr [result_simps]: "rbind m f = Inr y \<longleftrightarrow> (\<exists>x. m = Inr x \<and> f x = Inr y)"
  by (cases m) simp_all

lemma rbind_eq_Inl [result_simps]:
  "rbind m f = Inl e \<longleftrightarrow> m = Inl e \<or> (\<exists>x. m = Inr x \<and> f x = Inl e)"
  by (cases m) simp_all

lemma rbind_okE:
  assumes "rbind m f = Inr y"
  obtains x where "m = Inr x" "f x = Inr y"
  using assms by (auto simp: rbind_eq_Inr)

lemma is_ok_simps [simp]: "is_ok (Inr x) = True" "is_ok (Inl e) = False"
  by (simp_all add: is_ok_def)

lemma rmap_ok_iff: "rmap f xs = Inr ys \<longleftrightarrow> list_all2 (\<lambda>x y. f x = Inr y) xs ys"
  by (induction xs arbitrary: ys) (auto simp: result_simps list_all2_Cons1)

lemma rmap_length: "rmap f xs = Inr ys \<Longrightarrow> length ys = length xs"
  by (auto simp: rmap_ok_iff dest: list_all2_lengthD)

lemma rmap_member:
  assumes "rmap f xs = Inr ys" and "y \<in> set ys"
  shows "\<exists>x \<in> set xs. f x = Inr y"
  using assms by (induction xs arbitrary: ys) (auto simp: result_simps)

lemma rmap_from_length: "rmap_from i f xs = Inr ys \<Longrightarrow> length ys = length xs"
  by (induction xs arbitrary: i ys) (auto simp: result_simps)

lemma rmap_from_member:
  assumes "rmap_from i f xs = Inr ys" and "y \<in> set ys"
  shows "\<exists>j x. x \<in> set xs \<and> f j x = Inr y"
  using assms
proof (induction xs arbitrary: i ys)
  case Nil
  then show ?case by simp
next
  case (Cons a xs)
  then obtain b bs where b: "f i a = Inr b" and bs: "rmap_from (Suc i) f xs = Inr bs"
    and ys: "ys = b # bs"
    by (auto simp: result_simps)
  show ?case
  proof (cases "y = b")
    case True
    with b show ?thesis by auto
  next
    case False
    with Cons.prems ys have "y \<in> set bs" by simp
    from Cons.IH [OF bs this] show ?thesis by auto
  qed
qed

lemma rmap_from_exc:
  assumes "rmap_from i f xs = Inl e"
  shows "\<exists>j x. x \<in> set xs \<and> f j x = Inl e"
  using assms by (induction xs arbitrary: i) (fastforce simp: result_simps)+

lemma rmap_exc:
  assumes "rmap f xs = Inl e"
  shows "\<exists>x \<in> set xs. f x = Inl e"
  using assms by (induction xs) (auto simp: result_simps)

text \<open>
  A small calculus of outcomes, used the way a Hoare triple is: whatever the operation raises
  satisfies \<open>P\<close> and whatever it returns satisfies \<open>Q\<close>.  The rules follow the shape of the
  program; a component adds one rule per operation to \<open>outcome_intros\<close>.
\<close>

definition outcome :: "(pyexc \<Rightarrow> bool) \<Rightarrow> ('a \<Rightarrow> bool) \<Rightarrow> 'a result \<Rightarrow> bool" where
  "outcome P Q m = (case m of Inl e \<Rightarrow> P e | Inr x \<Rightarrow> Q x)"

named_theorems outcome_intros \<open>rules of the outcome calculus\<close>

lemma outcome_Inr [simp]: "outcome P Q (Inr x) = Q x" and outcome_Inl [simp]: "outcome P Q (Inl e) = P e"
  by (simp_all add: outcome_def)

lemma outcome_bind:
  assumes "outcome P R m" and "\<And>x. R x \<Longrightarrow> m = Inr x \<Longrightarrow> outcome P Q (f x)"
  shows "outcome P Q (rbind m f)"
  using assms by (cases m) simp_all

lemma outcome_bind_any [outcome_intros]:
  assumes "outcome P (\<lambda>_. True) m" and "\<And>x. m = Inr x \<Longrightarrow> outcome P Q (f x)"
  shows "outcome P Q (rbind m f)"
  using assms by (cases m) simp_all

lemma outcome_if [outcome_intros]:
  assumes "b \<Longrightarrow> outcome P Q m" and "\<not> b \<Longrightarrow> outcome P Q n"
  shows "outcome P Q (if b then m else n)"
  using assms by simp

lemma outcome_let [outcome_intros]: "outcome P Q (f x) \<Longrightarrow> outcome P Q (Let x f)"
  by simp

lemma outcome_prod [outcome_intros]:
  "(\<And>a b. p = (a, b) \<Longrightarrow> outcome P Q (f a b)) \<Longrightarrow> outcome P Q (case p of (a, b) \<Rightarrow> f a b)"
  by (cases p) simp

lemma outcome_option [outcome_intros]:
  assumes "x = None \<Longrightarrow> outcome P Q m" and "\<And>y. x = Some y \<Longrightarrow> outcome P Q (f y)"
  shows "outcome P Q (case x of None \<Rightarrow> m | Some y \<Rightarrow> f y)"
  using assms by (cases x) simp_all

lemma outcome_rmap:
  "(\<And>x. x \<in> set xs \<Longrightarrow> outcome P Q (f x)) \<Longrightarrow> outcome P (list_all Q) (rmap f xs)"
proof (induction xs)
  case (Cons x xs)
  then have "outcome P Q (f x)" "outcome P (list_all Q) (rmap f xs)" by simp_all
  then show ?case by (cases "f x"; cases "rmap f xs") simp_all
qed simp

lemma outcome_rmap_from:
  "(\<And>i x. x \<in> set xs \<Longrightarrow> outcome P Q (f i x)) \<Longrightarrow> outcome P (list_all Q) (rmap_from i f xs)"
proof (induction xs arbitrary: i)
  case (Cons x xs)
  then have "outcome P Q (f i x)" "outcome P (list_all Q) (rmap_from (Suc i) f xs)" by simp_all
  then show ?case by (cases "f i x"; cases "rmap_from (Suc i) f xs") simp_all
qed simp

lemma outcome_mono:
  assumes "outcome P Q m" and "\<And>e. P e \<Longrightarrow> P' e" and "\<And>x. Q x \<Longrightarrow> Q' x"
  shows "outcome P' Q' m"
  using assms by (cases m) simp_all

lemma outcome_True: "outcome (\<lambda>_. True) (\<lambda>_. True) m"
  by (cases m) simp_all

lemma outcome_True_of: "outcome P Q m \<Longrightarrow> outcome P (\<lambda>_. True) m"
  by (cases m) simp_all

lemma outcome_rmap_any:
  "(\<And>x. x \<in> set xs \<Longrightarrow> outcome P (\<lambda>_. True) (f x)) \<Longrightarrow> outcome P (\<lambda>_. True) (rmap f xs)"
  by (rule outcome_True_of [OF outcome_rmap])

lemma outcome_rmap_from_any:
  "(\<And>i x. x \<in> set xs \<Longrightarrow> outcome P (\<lambda>_. True) (f i x)) \<Longrightarrow> outcome P (\<lambda>_. True) (rmap_from i f xs)"
  by (rule outcome_True_of [OF outcome_rmap_from])

lemma outcome_okD: "outcome P Q m \<Longrightarrow> m = Inr x \<Longrightarrow> Q x"
  by simp

lemma outcome_excD: "outcome P Q m \<Longrightarrow> m = Inl e \<Longrightarrow> P e"
  by simp

section \<open>Python values\<close>

text \<open>
  A float is represented by its \<open>repr\<close>, which identifies it; \<open>nan\<close>, \<open>inf\<close> and \<open>-inf\<close> are
  the non-finite ones.  \<open>PDate\<close> is a \<open>datetime.date\<close>.  A dictionary keeps its insertion
  order; its keys are text, as in every JSON object and document the code reads.
\<close>

datatype pyval =
    PNone
  | PBool bool
  | PInt int
  | PFloat string
  | PStr string
  | PDate nat nat nat
  | PList "pyval list"
  | PDict "(string \<times> pyval) list"

text \<open>The checks \<open>isinstance(v, dict)\<close>, \<open>isinstance(v, list)\<close> and \<open>isinstance(v, str)\<close>, inverted.\<close>

lemma case_PDict_ok [result_simps]:
  "(case v of PDict d \<Rightarrow> f d | _ \<Rightarrow> Inl e) = Inr y \<longleftrightarrow> (\<exists>d. v = PDict d \<and> f d = Inr y)"
  by (cases v) simp_all

lemma case_PList_ok [result_simps]:
  "(case v of PList d \<Rightarrow> f d | _ \<Rightarrow> Inl e) = Inr y \<longleftrightarrow> (\<exists>d. v = PList d \<and> f d = Inr y)"
  by (cases v) simp_all

lemma case_PStr_ok [result_simps]:
  "(case v of PStr d \<Rightarrow> f d | _ \<Rightarrow> Inl e) = Inr y \<longleftrightarrow> (\<exists>d. v = PStr d \<and> f d = Inr y)"
  by (cases v) simp_all

lemma case_PInt_ok [result_simps]:
  "(case v of PInt d \<Rightarrow> f d | _ \<Rightarrow> Inl e) = Inr y \<longleftrightarrow> (\<exists>d. v = PInt d \<and> f d = Inr y)"
  by (cases v) simp_all

lemma if_error_ok [result_simps]: "(if b then Inl e else m) = Inr y \<longleftrightarrow> \<not> b \<and> m = Inr y"
  by simp

lemma outcome_PDict [outcome_intros]:
  "P e \<Longrightarrow> (\<And>d. v = PDict d \<Longrightarrow> outcome P Q (f d)) \<Longrightarrow> outcome P Q (case v of PDict d \<Rightarrow> f d | _ \<Rightarrow> Inl e)"
  by (cases v) simp_all

lemma outcome_PList [outcome_intros]:
  "P e \<Longrightarrow> (\<And>d. v = PList d \<Longrightarrow> outcome P Q (f d)) \<Longrightarrow> outcome P Q (case v of PList d \<Rightarrow> f d | _ \<Rightarrow> Inl e)"
  by (cases v) simp_all

lemma outcome_PStr [outcome_intros]:
  "P e \<Longrightarrow> (\<And>d. v = PStr d \<Longrightarrow> outcome P Q (f d)) \<Longrightarrow> outcome P Q (case v of PStr d \<Rightarrow> f d | _ \<Rightarrow> Inl e)"
  by (cases v) simp_all

lemma outcome_PInt [outcome_intros]:
  "P e \<Longrightarrow> (\<And>d. v = PInt d \<Longrightarrow> outcome P Q (f d)) \<Longrightarrow> outcome P Q (case v of PInt d \<Rightarrow> f d | _ \<Rightarrow> Inl e)"
  by (cases v) simp_all

fun nat_str :: "nat \<Rightarrow> string" where
  "nat_str n = (if n < 10 then [char_of (48 + n)] else nat_str (n div 10) @ [char_of (48 + n mod 10)])"

declare nat_str.simps [simp del]

definition int_str :: "int \<Rightarrow> string" where
  "int_str i = (if i < 0 then CHR ''-'' # nat_str (nat (- i)) else nat_str (nat i))"

definition pad2 :: "nat \<Rightarrow> string" where
  "pad2 n = (if n < 10 then CHR ''0'' # nat_str n else nat_str n)"

definition pad4 :: "nat \<Rightarrow> string" where
  "pad4 n = replicate (4 - length (nat_str n)) (CHR ''0'') @ nat_str n"

definition truthy :: "pyval \<Rightarrow> bool" where
  "truthy v = (case v of
      PNone \<Rightarrow> False
    | PBool b \<Rightarrow> b
    | PInt i \<Rightarrow> i \<noteq> 0
    | PFloat r \<Rightarrow> r \<noteq> ''0.0'' \<and> r \<noteq> ''-0.0''
    | PStr s \<Rightarrow> s \<noteq> []
    | PDate _ _ _ \<Rightarrow> True
    | PList xs \<Rightarrow> xs \<noteq> []
    | PDict d \<Rightarrow> d \<noteq> [])"

text \<open>Hashing: \<open>v in frozenset(...)\<close> raises \<open>TypeError\<close> for a list or a dictionary.\<close>

definition hashable :: "pyval \<Rightarrow> bool" where
  "hashable v = (case v of PList _ \<Rightarrow> False | PDict _ \<Rightarrow> False | _ \<Rightarrow> True)"

definition in_texts :: "pyval \<Rightarrow> string list \<Rightarrow> bool result" where
  "in_texts v names =
     (if \<not> hashable v then Inl TypeError
      else Inr (case v of PStr s \<Rightarrow> s \<in> set names | _ \<Rightarrow> False))"

text \<open>\<open>d.get(k)\<close> and \<open>d[k]\<close>.\<close>

definition dget :: "(string \<times> pyval) list \<Rightarrow> string \<Rightarrow> pyval" where
  "dget d k = (case map_of d k of None \<Rightarrow> PNone | Some v \<Rightarrow> v)"

definition dkeys :: "(string \<times> 'v) list \<Rightarrow> string list" where
  "dkeys d = map fst d"

text \<open>\<open>d[k] = v\<close>: in place when the key is present, at the end otherwise.\<close>

fun dict_set :: "('k \<times> 'v) list \<Rightarrow> 'k \<Rightarrow> 'v \<Rightarrow> ('k \<times> 'v) list" where
  "dict_set [] k v = [(k, v)]"
| "dict_set ((k', w) # d) k v = (if k' = k then (k, v) # d else (k', w) # dict_set d k v)"

lemma map_of_dict_set: "map_of (dict_set d k v) = (map_of d)(k \<mapsto> v)"
  by (induction d) (auto simp: fun_eq_iff)

lemma keys_dict_set: "fst ` set (dict_set d k v) = insert k (fst ` set d)"
proof (induction d)
  case (Cons p d)
  then show ?case by (cases p) (simp add: insert_commute)
qed simp

lemma distinct_dict_set: "distinct (map fst d) \<Longrightarrow> distinct (map fst (dict_set d k v))"
proof (induction d)
  case (Cons p d)
  then show ?case using keys_dict_set [of d k v] by (cases p) (auto simp: image_iff)
qed simp

text \<open>
  \<open>==\<close> on values.  \<open>True == 1\<close> and \<open>1 == 1.0\<close> hold in Python; an integer equals a float of
  magnitude below \<open>10^16\<close> when the float's \<open>repr\<close> is the integer followed by \<open>.0\<close>.
  Dictionaries compare without regard to order.
\<close>

definition as_int :: "pyval \<Rightarrow> int option" where
  "as_int v = (case v of PBool b \<Rightarrow> Some (if b then 1 else 0) | PInt i \<Rightarrow> Some i | _ \<Rightarrow> None)"

definition float_is_int :: "string \<Rightarrow> int \<Rightarrow> bool" where
  "float_is_int r i = (r = int_str i @ ''.0'' \<or> i = 0 \<and> r = ''-0.0'')"

definition py_eq_scalar :: "pyval \<Rightarrow> pyval \<Rightarrow> bool" where
  "py_eq_scalar v w = (case (as_int v, as_int w) of
      (Some i, Some j) \<Rightarrow> i = j
    | (Some i, None) \<Rightarrow> (case w of PFloat r \<Rightarrow> float_is_int r i | _ \<Rightarrow> False)
    | (None, Some j) \<Rightarrow> (case v of PFloat r \<Rightarrow> float_is_int r j | _ \<Rightarrow> False)
    | (None, None) \<Rightarrow>
        (case (v, w) of
           (PFloat r, PFloat q) \<Rightarrow> r = q \<and> r \<noteq> ''nan'' \<or> float_is_int r 0 \<and> float_is_int q 0
         | _ \<Rightarrow> v = w))"

fun py_eq :: "pyval \<Rightarrow> pyval \<Rightarrow> bool"
and py_eq_list :: "pyval list \<Rightarrow> pyval list \<Rightarrow> bool"
and py_eq_items :: "(string \<times> pyval) list \<Rightarrow> (string \<times> pyval) list \<Rightarrow> bool" where
  "py_eq (PList xs) (PList ys) = py_eq_list xs ys"
| "py_eq (PDict d) (PDict e) = (length d = length e \<and> py_eq_items d e)"
| "py_eq v w = py_eq_scalar v w"
| "py_eq_list [] [] = True"
| "py_eq_list (x # xs) (y # ys) = (py_eq x y \<and> py_eq_list xs ys)"
| "py_eq_list _ _ = False"
| "py_eq_items [] e = True"
| "py_eq_items ((k, v) # d) e =
     ((case map_of e k of None \<Rightarrow> False | Some w \<Rightarrow> py_eq v w) \<and> py_eq_items d e)"

lemma py_eq_PStr [simp]: "py_eq v (PStr s) \<longleftrightarrow> v = PStr s" "py_eq (PStr s) v \<longleftrightarrow> v = PStr s"
  by (cases v; auto simp: py_eq_scalar_def as_int_def)+

lemma py_eq_scalar_PStr [simp]: "py_eq_scalar v (PStr s) \<longleftrightarrow> v = PStr s" "py_eq_scalar (PStr s) v \<longleftrightarrow> v = PStr s"
  by (cases v; auto simp: py_eq_scalar_def as_int_def)+

lemma py_eq_PInt: "py_eq (PInt i) (PInt j) \<longleftrightarrow> i = j"
  by (simp add: py_eq_scalar_def as_int_def)

lemma py_eq_scalar_PInt [simp]: "py_eq_scalar (PInt i) (PInt j) \<longleftrightarrow> i = j"
  by (simp add: py_eq_scalar_def as_int_def)

section \<open>Text\<close>

text \<open>\<open>str.isspace\<close> below code point 256.\<close>

definition py_space :: "char \<Rightarrow> bool" where
  "py_space c = (let n = of_char c :: nat in
     (9 \<le> n \<and> n \<le> 13) \<or> (28 \<le> n \<and> n \<le> 32) \<or> n = 133 \<or> n = 160)"

definition py_strip :: "string \<Rightarrow> string" where
  "py_strip s = rev (dropWhile py_space (rev (dropWhile py_space s)))"

definition lower_char :: "char \<Rightarrow> char" where
  "lower_char c = (let n = of_char c :: nat in
     if (65 \<le> n \<and> n \<le> 90) \<or> (192 \<le> n \<and> n \<le> 222 \<and> n \<noteq> 215) then char_of (n + 32) else c)"

definition py_lower :: "string \<Rightarrow> string" where
  "py_lower s = map lower_char s"

definition upper_char :: "char \<Rightarrow> string" where
  "upper_char c = (let n = of_char c :: nat in
     if (97 \<le> n \<and> n \<le> 122) \<or> (224 \<le> n \<and> n \<le> 254 \<and> n \<noteq> 247) then [char_of (n - 32)]
     else if n = 223 then ''SS'' else [c])"

definition py_upper :: "string \<Rightarrow> string" where
  "py_upper s = concat (map upper_char s)"

definition is_digit :: "char \<Rightarrow> bool" where
  "is_digit c = (let n = of_char c :: nat in 48 \<le> n \<and> n \<le> 57)"

definition is_lower_hex :: "char \<Rightarrow> bool" where
  "is_lower_hex c = (let n = of_char c :: nat in (48 \<le> n \<and> n \<le> 57) \<or> (97 \<le> n \<and> n \<le> 102))"

definition is_alnum_ascii :: "char \<Rightarrow> bool" where
  "is_alnum_ascii c = (let n = of_char c :: nat in
     (48 \<le> n \<and> n \<le> 57) \<or> (65 \<le> n \<and> n \<le> 90) \<or> (97 \<le> n \<and> n \<le> 122))"

fun digits_val :: "nat \<Rightarrow> string \<Rightarrow> nat" where
  "digits_val acc [] = acc"
| "digits_val acc (c # cs) = digits_val (10 * acc + (of_char c - 48)) cs"

definition has_infix :: "string \<Rightarrow> string \<Rightarrow> bool" where
  "has_infix needle s = (\<exists>i \<in> set [0..<Suc (length s)]. take (length needle) (drop i s) = needle)"

definition ends_with :: "string \<Rightarrow> string \<Rightarrow> bool" where
  "ends_with suffix s = (length suffix \<le> length s \<and> drop (length s - length suffix) s = suffix)"

definition starts_with :: "string \<Rightarrow> string \<Rightarrow> bool" where
  "starts_with prefix s = (take (length prefix) s = prefix)"

lemma nat_str_nonempty [simp]: "nat_str n \<noteq> []"
  by (subst nat_str.simps) simp

lemma dget_simps [simp]:
  "dget [] k = PNone"
  "dget ((k', v) # d) k = (if k = k' then v else dget d k)"
  by (simp_all add: dget_def)

lemma dget_dict_set [simp]: "dget (dict_set d k v) k' = (if k' = k then v else dget d k')"
  by (simp add: dget_def map_of_dict_set)

lemma dkeys_dict_set [simp]: "set (dkeys (dict_set d k v)) = insert k (set (dkeys d))"
  by (simp add: dkeys_def keys_dict_set)

lemma dget_key: "dget d k \<noteq> PNone \<Longrightarrow> k \<in> set (dkeys d)"
  by (cases "map_of d k") (auto simp: dget_def dkeys_def dest!: map_of_SomeD intro: rev_image_eqI)

lemma dget_append: "dget (d @ e) k = (if k \<in> set (dkeys d) then dget d k else dget e k)"
proof (cases "map_of d k")
  case None
  then have "k \<notin> set (dkeys d)" by (simp add: map_of_eq_None_iff dkeys_def)
  with None show ?thesis by (simp add: dget_def map_add_def split: option.splits)
next
  case (Some v)
  then have "k \<in> set (dkeys d)" by (auto simp: dkeys_def dest!: map_of_SomeD intro: rev_image_eqI)
  with Some show ?thesis by (simp add: dget_def)
qed

lemma dkeys_simps [simp]: "dkeys [] = []" "dkeys ((k, v) # d) = k # dkeys d" "dkeys (d @ e) = dkeys d @ dkeys e"
  by (simp_all add: dkeys_def)

lemma dget_of_map: "map_of d k = Some v \<Longrightarrow> dget d k = v"
  by (simp add: dget_def)

lemma in_texts_ok: "in_texts v names = Inr True \<longleftrightarrow> (\<exists>s \<in> set names. v = PStr s)"
  by (auto simp: in_texts_def hashable_def split: pyval.splits)

lemma in_texts_PStr [simp]: "in_texts (PStr s) names = Inr (s \<in> set names)"
  by (simp add: in_texts_def hashable_def)

lemma py_strip_nonempty_imp: "py_strip s \<noteq> [] \<Longrightarrow> s \<noteq> []"
  by (auto simp: py_strip_def)

section \<open>Conversion to text, indexing and iteration\<close>

text \<open>\<open>repr\<close> of text: single quotes unless the text has one and no double quote, and escapes for
  the characters below code point 256 that are not printable.\<close>

definition hex2 :: "nat \<Rightarrow> string" where
  "hex2 n = [if n div 16 < 10 then char_of (48 + n div 16) else char_of (87 + n div 16),
     if n mod 16 < 10 then char_of (48 + n mod 16) else char_of (87 + n mod 16)]"

definition repr_char :: "char \<Rightarrow> char \<Rightarrow> string" where
  "repr_char q c = (let n = of_char c :: nat in
     if c = q \<or> n = 92 then [CHR 92, c]
     else if n = 10 then [CHR 92, CHR ''n'']
     else if n = 13 then [CHR 92, CHR ''r'']
     else if n = 9 then [CHR 92, CHR ''t'']
     else if n < 32 \<or> (127 \<le> n \<and> n \<le> 160) \<or> n = 173 then CHR 92 # CHR ''x'' # hex2 n
     else [c])"

definition repr_str :: "string \<Rightarrow> string" where
  "repr_str s =
     (let q = (if CHR 39 \<in> set s \<and> CHR 34 \<notin> set s then CHR 34 else CHR 39)
      in q # concat (map (repr_char q) s) @ [q])"

fun join_texts :: "string \<Rightarrow> string list \<Rightarrow> string" where
  "join_texts sep [] = []"
| "join_texts sep [x] = x"
| "join_texts sep (x # y # xs) = x @ sep @ join_texts sep (y # xs)"

fun py_repr :: "pyval \<Rightarrow> string" where
  "py_repr PNone = ''None''"
| "py_repr (PBool b) = (if b then ''True'' else ''False'')"
| "py_repr (PInt i) = int_str i"
| "py_repr (PFloat r) = r"
| "py_repr (PStr s) = repr_str s"
| "py_repr (PDate y m d) =
     ''datetime.date('' @ nat_str y @ '', '' @ nat_str m @ '', '' @ nat_str d @ '')''"
| "py_repr (PList xs) = ''['' @ join_texts '', '' (map py_repr xs) @ '']''"
| "py_repr (PDict d) = ''{'' @ join_texts '', '' (map (\<lambda>p. repr_str (fst p) @ '': '' @ py_repr (snd p)) d) @ ''}''"

definition py_str :: "pyval \<Rightarrow> string" where
  "py_str v = (case v of PStr s \<Rightarrow> s | PDate y m d \<Rightarrow> pad4 y @ ''-'' @ pad2 m @ ''-'' @ pad2 d | _ \<Rightarrow> py_repr v)"

text \<open>\<open>v or w\<close>.\<close>

definition py_or :: "pyval \<Rightarrow> pyval \<Rightarrow> pyval" where
  "py_or v w = (if truthy v then v else w)"

text \<open>\<open>d[k]\<close> on a value that should be a dictionary.\<close>

definition dict_at :: "(string \<times> pyval) list \<Rightarrow> string \<Rightarrow> pyval result" where
  "dict_at d k = (case map_of d k of None \<Rightarrow> Inl KeyError | Some v \<Rightarrow> Inr v)"

definition index_at :: "pyval \<Rightarrow> string \<Rightarrow> pyval result" where
  "index_at v k = (case v of PDict d \<Rightarrow> dict_at d k | _ \<Rightarrow> Inl TypeError)"

text \<open>Iteration: a list, the keys of a dictionary or the characters of a text.\<close>

definition py_iter :: "pyval \<Rightarrow> pyval list result" where
  "py_iter v = (case v of
      PList xs \<Rightarrow> Inr xs
    | PDict d \<Rightarrow> Inr (map PStr (dkeys d))
    | PStr s \<Rightarrow> Inr (map (\<lambda>c. PStr [c]) s)
    | _ \<Rightarrow> Inl TypeError)"

lemma dict_at_ok: "dict_at d k = Inr v \<longleftrightarrow> map_of d k = Some v"
  by (auto simp: dict_at_def split: option.splits)

lemma index_at_ok: "index_at v k = Inr w \<longleftrightarrow> (\<exists>d. v = PDict d \<and> map_of d k = Some w)"
  by (cases v) (auto simp: index_at_def dict_at_ok)

lemma py_iter_PList [simp]: "py_iter (PList xs) = Inr xs"
  by (simp add: py_iter_def)

lemma py_str_PStr [simp]: "py_str (PStr s) = s"
  by (simp add: py_str_def)

end
