(* ===== verification/Lifecycle.thy ===== *)
theory Lifecycle
  imports Prelude
begin

text \<open>
  The two deterministic state machines of the Frappe application: the governed action of
  \<open>governance/state.py\<close> with its compare-and-set version, and the Agent Run of
  \<open>agent/state_machine.py\<close>.
\<close>

section \<open>Paths of a transition table\<close>

text \<open>\<open>path succs s ts\<close>: from \<open>s\<close> the table allows the states \<open>ts\<close> to be visited in turn.\<close>

inductive path :: "(string \<Rightarrow> string list) \<Rightarrow> string \<Rightarrow> string list \<Rightarrow> bool" for succs where
  path_Nil: "path succs s []"
| path_Cons: "t \<in> set (succs s) \<Longrightarrow> path succs t ts \<Longrightarrow> path succs s (t # ts)"

inductive_simps path_Nil_iff [simp]: "path succs s []"
inductive_simps path_Cons_iff: "path succs s (t # ts)"

text \<open>What a client of a transition table relies on: the table is closed over its states.\<close>

locale transition_table =
  fixes states :: "string list" and succs :: "string \<Rightarrow> string list"
  assumes closed: "t \<in> set (succs s) \<Longrightarrow> t \<in> set states"
    and unknown: "s \<notin> set states \<Longrightarrow> succs s = []"
begin

lemma path_states: "path succs s ts \<Longrightarrow> set ts \<subseteq> set states"
  by (induction rule: path.induct) (auto dest: closed)

lemma path_terminal: "path succs s ts \<Longrightarrow> succs s = [] \<Longrightarrow> ts = []"
  by (cases ts) (auto simp: path_Cons_iff)

lemma path_append: "path succs s (us @ [t]) \<Longrightarrow> path succs t ts \<Longrightarrow> path succs s (us @ t # ts)"
  by (induction us arbitrary: s) (auto simp: path_Cons_iff)

lemma path_prefix: "path succs s (us @ vs) \<Longrightarrow> path succs s us"
  by (induction us arbitrary: s) (auto simp: path_Cons_iff)

text \<open>A state only entered from the states of \<open>P\<close> is preceded by one of them.\<close>

lemma path_predecessor:
  assumes "path succs s ts" and "g \<in> set ts" and "s \<notin> P"
    and pre: "\<And>u. g \<in> set (succs u) \<Longrightarrow> u \<in> P"
  shows "\<exists>us p vs. ts = us @ p # vs \<and> p \<in> P \<and> g \<in> set vs"
  using assms(1-3)
proof (induction rule: path.induct)
  case (path_Nil s)
  then show ?case by simp
next
  case (path_Cons t s ts)
  from path_Cons.hyps path_Cons.prems pre have "t \<noteq> g" by auto
  with path_Cons.prems have g: "g \<in> set ts" by simp
  show ?case
  proof (cases "t \<in> P")
    case True
    with g show ?thesis by (metis append_Nil)
  next
    case False
    with path_Cons.IH g obtain us p vs where "ts = us @ p # vs" "p \<in> P" "g \<in> set vs"
      by blast
    then show ?thesis by (metis append_Cons)
  qed
qed

end

section \<open>Governed actions (governance/state.py)\<close>

definition ACTION_STATES :: "string list" where
  "ACTION_STATES = [''DRAFT'', ''INVALID'', ''POLICY_REJECTED'', ''AWAITING_APPROVAL'',
     ''APPROVED'', ''DECLINED'', ''EXPIRED'', ''EXECUTED'']"

definition action_TRANSITIONS :: "(string \<times> string list) list" where
  "action_TRANSITIONS =
    [(''DRAFT'', [''INVALID'', ''POLICY_REJECTED'', ''AWAITING_APPROVAL'']),
     (''INVALID'', []),
     (''POLICY_REJECTED'', []),
     (''AWAITING_APPROVAL'', [''APPROVED'', ''DECLINED'', ''EXPIRED'']),
     (''APPROVED'', [''EXECUTED'', ''EXPIRED'']),
     (''DECLINED'', []),
     (''EXPIRED'', []),
     (''EXECUTED'', [])]"

definition table_succs :: "(string \<times> string list) list \<Rightarrow> string \<Rightarrow> string list" where
  "table_succs table s = (case map_of table s of None \<Rightarrow> [] | Some ts \<Rightarrow> ts)"

definition action_validate_transition :: "string \<Rightarrow> string \<Rightarrow> unit result" where
  "action_validate_transition current target =
     (if current \<notin> set (map fst action_TRANSITIONS) \<or> target \<notin> set ACTION_STATES
      then Inl (GatewayFault ''CONFLICT'' ''governed action state is invalid'' 409)
      else if target \<notin> set (table_succs action_TRANSITIONS current)
      then Inl (GatewayFault ''CONFLICT'' ''governed action state transition is not allowed'' 409)
      else Inr ())"

definition transition_state ::
  "string \<Rightarrow> string \<Rightarrow> pyval \<Rightarrow> pyval \<Rightarrow> (string \<times> int) result" where
  "transition_state current target state_version expected_version =
     (case state_version of
        PInt v \<Rightarrow>
          if v < 1
          then Inl (GatewayFault ''CONFLICT'' ''governed action state version is invalid'' 409)
          else if expected_version \<noteq> PNone \<and> \<not> py_eq expected_version state_version
          then Inl (GatewayFault ''CONFLICT'' ''governed action state changed concurrently'' 409)
          else rbind (action_validate_transition current target) (\<lambda>_. Inr (target, v + 1))
      | _ \<Rightarrow> Inl (GatewayFault ''CONFLICT'' ''governed action state version is invalid'' 409))"

section \<open>Agent Runs (agent/state_machine.py)\<close>

definition RUN_STATES :: "string list" where
  "RUN_STATES = [''CREATED'', ''ANALYZING'', ''PROPOSED'', ''AWAITING_APPROVAL'', ''EXECUTING'',
     ''SUCCEEDED'', ''FAILED'', ''CANCELLED'', ''RECONCILIATION_REQUIRED'', ''DECLINED'', ''EXPIRED'']"

definition run_TRANSITIONS :: "(string \<times> string list) list" where
  "run_TRANSITIONS =
    [(''CREATED'', [''ANALYZING'', ''PROPOSED'', ''CANCELLED'', ''EXPIRED'']),
     (''ANALYZING'', [''PROPOSED'', ''FAILED'', ''CANCELLED'', ''CREATED'', ''EXPIRED'']),
     (''PROPOSED'', [''AWAITING_APPROVAL'', ''SUCCEEDED'', ''CANCELLED'', ''EXPIRED'']),
     (''AWAITING_APPROVAL'', [''DECLINED'', ''EXPIRED'', ''EXECUTING'', ''CANCELLED'']),
     (''EXECUTING'', [''SUCCEEDED'', ''FAILED'', ''RECONCILIATION_REQUIRED'', ''CANCELLED'', ''EXPIRED'']),
     (''RECONCILIATION_REQUIRED'', [''SUCCEEDED'', ''FAILED'', ''CANCELLED'', ''EXPIRED'']),
     (''SUCCEEDED'', []),
     (''FAILED'', []),
     (''CANCELLED'', []),
     (''DECLINED'', []),
     (''EXPIRED'', [])]"

definition CANCELLABLE_STATES :: "string list" where
  "CANCELLABLE_STATES = [''CREATED'', ''ANALYZING'']"

definition run_validate_transition :: "string \<Rightarrow> string \<Rightarrow> unit result" where
  "run_validate_transition current target =
     (if current \<notin> set (map fst run_TRANSITIONS)
      then Inl (GatewayFault ''INVALID_TRANSITION'' ''run state is invalid'' 409)
      else if target \<notin> set (table_succs run_TRANSITIONS current)
      then Inl (GatewayFault ''CONFLICT'' ''run state transition is not allowed'' 409)
      else Inr ())"

section \<open>Both tables are transition tables\<close>

lemmas action_table_defs = action_TRANSITIONS_def ACTION_STATES_def table_succs_def
lemmas run_table_defs = run_TRANSITIONS_def RUN_STATES_def table_succs_def

lemma action_succs_cases:
  "t \<in> set (table_succs action_TRANSITIONS s) \<longleftrightarrow>
     (s = ''DRAFT'' \<and> t \<in> {''INVALID'', ''POLICY_REJECTED'', ''AWAITING_APPROVAL''}) \<or>
     (s = ''AWAITING_APPROVAL'' \<and> t \<in> {''APPROVED'', ''DECLINED'', ''EXPIRED''}) \<or>
     (s = ''APPROVED'' \<and> t \<in> {''EXECUTED'', ''EXPIRED''})"
  by (simp add: table_succs_def action_TRANSITIONS_def)

interpretation action_table: transition_table ACTION_STATES "table_succs action_TRANSITIONS"
proof unfold_locales
  fix s t assume "t \<in> set (table_succs action_TRANSITIONS s)"
  then show "t \<in> set ACTION_STATES" by (auto simp: action_succs_cases ACTION_STATES_def)
next
  fix s assume "s \<notin> set ACTION_STATES"
  then show "table_succs action_TRANSITIONS s = []" by (simp add: action_table_defs)
qed

lemma run_succs_into:
  "g \<in> set (table_succs run_TRANSITIONS s) \<Longrightarrow> s \<in> set RUN_STATES \<and> g \<in> set RUN_STATES"
  by (auto simp: run_table_defs split: if_splits)

interpretation run_table: transition_table RUN_STATES "table_succs run_TRANSITIONS"
proof unfold_locales
  fix s t assume "t \<in> set (table_succs run_TRANSITIONS s)"
  then show "t \<in> set RUN_STATES" using run_succs_into by blast
next
  fix s assume "s \<notin> set RUN_STATES"
  then show "table_succs run_TRANSITIONS s = []" by (simp add: run_table_defs)
qed

lemma action_keys: "map fst action_TRANSITIONS = ACTION_STATES"
  by (simp add: action_TRANSITIONS_def ACTION_STATES_def)

lemma run_keys: "set (map fst run_TRANSITIONS) = set RUN_STATES"
  by (auto simp: run_TRANSITIONS_def RUN_STATES_def)

lemma action_validate_ok:
  "action_validate_transition s t = Inr () \<longleftrightarrow> t \<in> set (table_succs action_TRANSITIONS s)"
  using action_table.closed [of t s] action_table.unknown [of s]
  by (auto simp: action_validate_transition_def action_keys)

lemma run_validate_ok:
  "run_validate_transition s t = Inr () \<longleftrightarrow> t \<in> set (table_succs run_TRANSITIONS s)"
  using run_table.unknown [of s]
  unfolding run_validate_transition_def run_keys by auto

lemma transition_state_ok:
  "transition_state s t v e = Inr (s', v') \<longleftrightarrow>
     (\<exists>n. v = PInt n \<and> 1 \<le> n \<and> (e = PNone \<or> py_eq e v) \<and>
       t \<in> set (table_succs action_TRANSITIONS s) \<and> s' = t \<and> v' = n + 1)"
  using action_validate_ok [of s t]
  by (cases v) (auto simp: transition_state_def result_simps)

section \<open>Properties\<close>

text \<open>
  C15: an action can be executed only after it was put up for approval and approved: the only
  way the table leads from \<open>DRAFT\<close> to \<open>EXECUTED\<close> is \<open>AWAITING_APPROVAL\<close>, \<open>APPROVED\<close>,
  \<open>EXECUTED\<close>, and nothing follows it.
\<close>

theorem executed_only_after_approval:
  assumes "path (table_succs action_TRANSITIONS) ''DRAFT'' ts" and "''EXECUTED'' \<in> set ts"
  shows "ts = [''AWAITING_APPROVAL'', ''APPROVED'', ''EXECUTED'']"
proof -
  have end_state: "us = []"
    if "path (table_succs action_TRANSITIONS) s us" "s \<notin> {''DRAFT'', ''AWAITING_APPROVAL'', ''APPROVED''}"
    for s us
    using that action_table.path_terminal [of s us] by (cases us) (auto simp: path_Cons_iff action_succs_cases)
  from assms obtain t1 r1 where 1: "ts = t1 # r1"
    "path (table_succs action_TRANSITIONS) t1 r1" "t1 \<in> {''INVALID'', ''POLICY_REJECTED'', ''AWAITING_APPROVAL''}"
    by (cases ts) (auto simp: path_Cons_iff action_succs_cases)
  have "''EXECUTED'' \<in> set r1" using 1 assms(2) by auto
  moreover from this 1 end_state [of t1 r1] have "t1 = ''AWAITING_APPROVAL''" by auto
  ultimately obtain t2 r2 where 2: "r1 = t2 # r2"
    "path (table_succs action_TRANSITIONS) t2 r2" "t2 \<in> {''APPROVED'', ''DECLINED'', ''EXPIRED''}"
    using 1 by (cases r1) (auto simp: path_Cons_iff action_succs_cases)
  have "''EXECUTED'' \<in> set r2" using 2 \<open>''EXECUTED'' \<in> set r1\<close> by auto
  moreover from this 2 end_state [of t2 r2] have "t2 = ''APPROVED''" by auto
  ultimately obtain t3 r3 where 3: "r2 = t3 # r3"
    "path (table_succs action_TRANSITIONS) t3 r3" "t3 \<in> {''EXECUTED'', ''EXPIRED''}"
    using 2 by (cases r2) (auto simp: path_Cons_iff action_succs_cases)
  with end_state [of t3 r3] have "r3 = []" by auto
  with 1 2 3 \<open>''EXECUTED'' \<in> set r2\<close> \<open>t1 = _\<close> \<open>t2 = _\<close> show ?thesis by auto
qed

theorem executed_only_after_approval_witness:
  "path (table_succs action_TRANSITIONS) ''DRAFT'' [''AWAITING_APPROVAL'', ''APPROVED'', ''EXECUTED'']
   \<and> \<not> path (table_succs action_TRANSITIONS) ''DRAFT'' [''APPROVED'', ''EXECUTED'']"
proof -
  have "path (table_succs action_TRANSITIONS) ''DRAFT'' [''AWAITING_APPROVAL'', ''APPROVED'', ''EXECUTED'']"
    by (simp add: path_Cons_iff action_succs_cases)
  moreover have "\<not> path (table_succs action_TRANSITIONS) ''DRAFT'' [''APPROVED'', ''EXECUTED'']"
    using executed_only_after_approval [of "[''APPROVED'', ''EXECUTED'']"] by auto
  ultimately show ?thesis by blast
qed

text \<open>
  The compare-and-set version lets exactly one of several competing transitions through.
  Once a transition that read version \<open>v\<close> has been applied, every later transition of the
  action that still expects \<open>v\<close> is refused as a concurrent change, whatever its target.
\<close>

theorem stale_transition_refused:
  assumes "transition_state s t (PInt v) (PInt v) = Inr (s', v')"
  shows "s' = t \<and> v' = v + 1 \<and>
    transition_state s' u (PInt v') (PInt v) =
      Inl (GatewayFault ''CONFLICT'' ''governed action state changed concurrently'' 409)"
proof -
  from assms have "1 \<le> v" "s' = t" "v' = v + 1" by (auto simp: transition_state_ok)
  then show ?thesis by (simp add: transition_state_def)
qed

theorem stale_transition_refused_witness:
  "transition_state ''DRAFT'' ''AWAITING_APPROVAL'' (PInt 1) (PInt 1) = Inr (''AWAITING_APPROVAL'', 2) \<and>
   transition_state ''AWAITING_APPROVAL'' ''APPROVED'' (PInt 2) (PInt 1) =
     Inl (GatewayFault ''CONFLICT'' ''governed action state changed concurrently'' 409)"
proof -
  have ok: "transition_state ''DRAFT'' ''AWAITING_APPROVAL'' (PInt 1) (PInt 1) = Inr (''AWAITING_APPROVAL'', 2)"
    by (simp add: transition_state_ok action_succs_cases)
  from stale_transition_refused [OF ok, of "''APPROVED''"] ok show ?thesis by simp
qed

text \<open>
  A Run executes only after it was proposed and awaited approval, in that order: every
  path from \<open>CREATED\<close> that enters \<open>EXECUTING\<close> visits \<open>PROPOSED\<close> before
  \<open>AWAITING_APPROVAL\<close> before \<open>EXECUTING\<close>.
\<close>

theorem run_executes_after_approval:
  assumes "path (table_succs run_TRANSITIONS) ''CREATED'' ts" and "''EXECUTING'' \<in> set ts"
  shows "\<exists>us vs ws. ts = us @ ''PROPOSED'' # vs @ ''AWAITING_APPROVAL'' # ws \<and> ''EXECUTING'' \<in> set ws"
proof -
  have exec: "u \<in> {''AWAITING_APPROVAL''}" if "''EXECUTING'' \<in> set (table_succs run_TRANSITIONS u)" for u
    using that by (auto simp: run_table_defs split: if_splits)
  have await: "u \<in> {''PROPOSED''}" if "''AWAITING_APPROVAL'' \<in> set (table_succs run_TRANSITIONS u)" for u
    using that by (auto simp: run_table_defs split: if_splits)
  from run_table.path_predecessor [OF assms, of "{''AWAITING_APPROVAL''}"] exec
  obtain as bs where 1: "ts = as @ ''AWAITING_APPROVAL'' # bs" "''EXECUTING'' \<in> set bs" by auto
  have "path (table_succs run_TRANSITIONS) ''CREATED'' (as @ [''AWAITING_APPROVAL''])"
    using assms(1) 1(1) run_table.path_prefix [of _ "as @ [''AWAITING_APPROVAL'']" bs] by simp
  from run_table.path_predecessor [OF this, of "''AWAITING_APPROVAL''" "{''PROPOSED''}"] await
  obtain us vs where 2: "as @ [''AWAITING_APPROVAL''] = us @ ''PROPOSED'' # vs"
    "''AWAITING_APPROVAL'' \<in> set vs" by auto
  then obtain vs' where "vs = vs' @ [''AWAITING_APPROVAL'']"
    by (cases vs rule: rev_cases) auto
  with 2 have "as = us @ ''PROPOSED'' # vs'" by auto
  with 1 show ?thesis by auto
qed

theorem run_executes_after_approval_witness:
  "path (table_succs run_TRANSITIONS) ''CREATED'' [''ANALYZING'', ''PROPOSED'', ''AWAITING_APPROVAL'', ''EXECUTING'']
   \<and> \<not> path (table_succs run_TRANSITIONS) ''CREATED'' [''ANALYZING'', ''PROPOSED'', ''EXECUTING'']"
proof -
  have "path (table_succs run_TRANSITIONS) ''CREATED'' [''ANALYZING'', ''PROPOSED'', ''AWAITING_APPROVAL'', ''EXECUTING'']"
    by (simp add: path_Cons_iff run_table_defs)
  moreover have "\<not> path (table_succs run_TRANSITIONS) ''CREATED'' [''ANALYZING'', ''PROPOSED'', ''EXECUTING'']"
  proof
    assume "path (table_succs run_TRANSITIONS) ''CREATED'' [''ANALYZING'', ''PROPOSED'', ''EXECUTING'']"
    from run_executes_after_approval [OF this]
    obtain us vs ws where "[''ANALYZING'', ''PROPOSED'', ''EXECUTING''] =
        us @ ''PROPOSED'' # vs @ ''AWAITING_APPROVAL'' # ws" by auto
    moreover have "''AWAITING_APPROVAL'' \<in> set (us @ ''PROPOSED'' # vs @ ''AWAITING_APPROVAL'' # ws)"
      by simp
    ultimately have "''AWAITING_APPROVAL'' \<in> set [''ANALYZING'', ''PROPOSED'', ''EXECUTING'']"
      by (simp only:)
    then show False by simp
  qed
  ultimately show ?thesis by blast
qed

end
