(* ===== verification/Py_Lib.thy ===== *)
theory Py_Lib
  imports Prelude
begin

text \<open>
  The parts of the Python standard library the sources compute with: \<open>uuid.UUID\<close>,
  \<open>datetime.strptime(_, "%Y-%m-%d")\<close>, \<open>decimal.Decimal\<close> in its default context (28 digits,
  half-even rounding, exponents up to 999999) and \<open>json.dumps\<close> with sorted keys and compact
  separators.  Three services whose results the code only passes on are parameters, bundled in
  the record \<open>pylib\<close>: the SHA-256 digest, the normalisation of an ISO-8601 instant to UTC,
  and the tokenizer of \<open>json.loads\<close>.
\<close>

section \<open>UUID\<close>

function replace_all :: "string \<Rightarrow> string \<Rightarrow> string \<Rightarrow> string" where
  "replace_all old new s =
     (if old = [] \<or> s = [] then s
      else if take (length old) s = old then new @ replace_all old new (drop (length old) s)
      else hd s # replace_all old new (tl s))"
  by pat_completeness auto
termination
  by (relation "measure (\<lambda>(old, new, s). length s)") auto

declare replace_all.simps [simp del]

definition strip_chars :: "string \<Rightarrow> string \<Rightarrow> string" where
  "strip_chars cs s = rev (dropWhile (\<lambda>c. c \<in> set cs) (rev (dropWhile (\<lambda>c. c \<in> set cs) s)))"

definition hex_digit_val :: "char \<Rightarrow> nat option" where
  "hex_digit_val c = (let n = of_char c :: nat in
     if 48 \<le> n \<and> n \<le> 57 then Some (n - 48)
     else if 97 \<le> n \<and> n \<le> 102 then Some (n - 87)
     else if 65 \<le> n \<and> n \<le> 70 then Some (n - 55) else None)"

text \<open>Digits with single underscores between them, as \<open>int(text, 16)\<close> reads them.\<close>

fun hex_digits_val :: "nat \<Rightarrow> string \<Rightarrow> nat option" where
  "hex_digits_val acc [] = Some acc"
| "hex_digits_val acc (c # cs) =
     (if c = CHR ''_''
      then (case cs of [] \<Rightarrow> None | d # ds \<Rightarrow> (case hex_digit_val d of None \<Rightarrow> None | Some v \<Rightarrow> hex_digits_val (16 * acc + v) ds))
      else (case hex_digit_val c of None \<Rightarrow> None | Some v \<Rightarrow> hex_digits_val (16 * acc + v) cs))"

definition py_int16 :: "string \<Rightarrow> int option" where
  "py_int16 text =
     (let s = py_strip text;
          neg = (s \<noteq> [] \<and> hd s = CHR ''-'');
          u = (if s \<noteq> [] \<and> hd s \<in> {CHR ''-'', CHR ''+''} then tl s else s);
          v = (if take 2 u \<in> {''0x'', ''0X''}
               then (if drop 2 u \<noteq> [] \<and> hd (drop 2 u) = CHR ''_'' then drop 3 u else drop 2 u) else u)
      in if v = [] \<or> hd v = CHR ''_'' then None
         else map_option (\<lambda>n. if neg then - int n else int n) (hex_digits_val 0 v))"

definition hex_char :: "nat \<Rightarrow> char" where
  "hex_char n = (if n < 10 then char_of (48 + n) else char_of (87 + n))"

fun hex_pad :: "nat \<Rightarrow> nat \<Rightarrow> string" where
  "hex_pad 0 n = []"
| "hex_pad (Suc k) n = hex_pad k (n div 16) @ [hex_char (n mod 16)]"

definition uuid_groups :: "string \<Rightarrow> string" where
  "uuid_groups h = take 8 h @ ''-'' @ take 4 (drop 8 h) @ ''-'' @ take 4 (drop 12 h) @ ''-'' @
     take 4 (drop 16 h) @ ''-'' @ drop 20 h"

text \<open>\<open>str(UUID(text))\<close>, or \<^const>\<open>None\<close> where the constructor raises \<open>ValueError\<close>.\<close>

definition py_UUID :: "string \<Rightarrow> string option" where
  "py_UUID text =
     (let h = replace_all ''uuid:'' [] (replace_all ''urn:'' [] text);
          h' = replace_all ''-'' [] (strip_chars ''{}'' h)
      in if length h' \<noteq> 32 then None
         else (case py_int16 h' of
                 None \<Rightarrow> None
               | Some i \<Rightarrow> if 0 \<le> i \<and> i < 2 ^ 128 then Some (uuid_groups (hex_pad 32 (nat i))) else None))"

section \<open>Calendar dates\<close>

definition days_in_month :: "nat \<Rightarrow> nat \<Rightarrow> nat" where
  "days_in_month y m =
     (if m = 2 then (if y mod 4 = 0 \<and> (y mod 100 \<noteq> 0 \<or> y mod 400 = 0) then 29 else 28)
      else if m \<in> {4, 6, 9, 11} then 30 else 31)"

definition valid_date :: "nat \<Rightarrow> nat \<Rightarrow> nat \<Rightarrow> bool" where
  "valid_date y m d = (1 \<le> y \<and> y \<le> 9999 \<and> 1 \<le> m \<and> m \<le> 12 \<and> 1 \<le> d \<and> d \<le> days_in_month y m)"

text \<open>The pattern \<open>\d{4}-\d{2}-\d{2}\<close> and \<open>strptime\<close> after it.\<close>

definition date_shape :: "string \<Rightarrow> bool" where
  "date_shape s = (length s = 10 \<and> list_all is_digit (take 4 s) \<and> s ! 4 = CHR ''-'' \<and>
     list_all is_digit (take 2 (drop 5 s)) \<and> s ! 7 = CHR ''-'' \<and> list_all is_digit (drop 8 s))"

definition py_strptime_ymd :: "string \<Rightarrow> bool" where
  "py_strptime_ymd s = valid_date (digits_val 0 (take 4 s)) (digits_val 0 (take 2 (drop 5 s)))
     (digits_val 0 (drop 8 s))"

section \<open>Decimal\<close>

datatype pydec = DFin bool nat int | DInf bool | DNaN

abbreviation (input) dec_prec :: nat where "dec_prec \<equiv> 28"
abbreviation (input) dec_emax :: int where "dec_emax \<equiv> 999999"
abbreviation (input) dec_emin :: int where "dec_emin \<equiv> - 999999"
abbreviation (input) dec_etiny :: int where "dec_etiny \<equiv> - 1000026"

definition ndigits :: "nat \<Rightarrow> nat" where
  "ndigits n = length (nat_str n)"

definition dec_exponent :: "string \<Rightarrow> int option" where
  "dec_exponent s =
     (let ds = (if s \<noteq> [] \<and> hd s \<in> {CHR ''+'', CHR ''-''} then tl s else s)
      in if ds = [] \<or> \<not> list_all is_digit ds then None
         else Some (if hd s = CHR ''-'' then - int (digits_val 0 ds) else int (digits_val 0 ds)))"

definition dec_number :: "bool \<Rightarrow> string \<Rightarrow> pydec option" where
  "dec_number neg s =
     (let ip = takeWhile is_digit s;
          r = dropWhile is_digit s;
          fp = (if r \<noteq> [] \<and> hd r = CHR ''.'' then takeWhile is_digit (tl r) else []);
          r' = (if r \<noteq> [] \<and> hd r = CHR ''.'' then dropWhile is_digit (tl r) else r);
          ex = (if r' = [] then Some 0
                else if hd r' \<in> {CHR ''e'', CHR ''E''} then dec_exponent (tl r') else None)
      in if ip @ fp = [] then None
         else (case ex of None \<Rightarrow> None
               | Some x \<Rightarrow>
                   (let c = digits_val 0 (ip @ fp); e = x - int (length fp) in
                    if e + int (ndigits c) - 1 > 999999999999999999 \<or> e < - 1999999999999999997
                    then None else Some (DFin neg c e))))"

text \<open>\<open>Decimal(text)\<close>; \<^const>\<open>None\<close> is \<open>InvalidOperation\<close>.\<close>

definition py_Decimal :: "string \<Rightarrow> pydec option" where
  "py_Decimal text =
     (let s = filter (\<lambda>c. c \<noteq> CHR ''_'') (py_strip text);
          neg = (s \<noteq> [] \<and> hd s = CHR ''-'');
          u = (if s \<noteq> [] \<and> hd s \<in> {CHR ''-'', CHR ''+''} then tl s else s);
          l = py_lower u
      in if l = ''inf'' \<or> l = ''infinity'' then Some (DInf neg)
         else if take 3 l = ''nan'' \<and> list_all is_digit (drop 3 l) then Some DNaN
         else if take 4 l = ''snan'' \<and> list_all is_digit (drop 4 l) then Some DNaN
         else dec_number neg u)"

definition dec_is_finite :: "pydec \<Rightarrow> bool" where
  "dec_is_finite d = (case d of DFin _ _ _ \<Rightarrow> True | _ \<Rightarrow> False)"

definition dec_signed :: "bool \<Rightarrow> nat \<Rightarrow> int" where
  "dec_signed neg c = (if neg then - int c else int c)"

text \<open>Exact comparison of finite values.\<close>

fun dec_le :: "pydec \<Rightarrow> pydec \<Rightarrow> bool" where
  "dec_le (DFin s c e) (DFin t d f) =
     (let m = min e f in dec_signed s c * 10 ^ nat (e - m) \<le> dec_signed t d * 10 ^ nat (f - m))"
| "dec_le _ _ = False"

definition dec_eq :: "pydec \<Rightarrow> pydec \<Rightarrow> bool" where
  "dec_eq x y = (dec_le x y \<and> dec_le y x)"

definition dec_less :: "pydec \<Rightarrow> pydec \<Rightarrow> bool" where
  "dec_less x y = (dec_le x y \<and> \<not> dec_le y x)"

definition round_half_even :: "nat \<Rightarrow> nat \<Rightarrow> nat" where
  "round_half_even c k = (let q = c div 10 ^ k; r = c mod 10 ^ k in
     if 2 * r > 10 ^ k \<or> (2 * r = 10 ^ k \<and> odd q) then q + 1 else q)"

text \<open>Rounding an exact result into the default context.\<close>

definition dec_shift :: "nat \<Rightarrow> int \<Rightarrow> nat" where
  "dec_shift c e = max (ndigits c - dec_prec)
     (if e + int (ndigits c) - 1 < dec_emin then nat (dec_etiny - e) else 0)"

definition dec_finalize :: "nat \<Rightarrow> int \<Rightarrow> (nat \<times> int) result" where
  "dec_finalize c e =
     (if c = 0 then Inr (0, max dec_etiny (min dec_emax e))
      else
        (let k = dec_shift c e;
             c1 = round_half_even c k; e1 = e + int k;
             c2 = (if ndigits c1 > dec_prec then c1 div 10 else c1);
             e2 = (if ndigits c1 > dec_prec then e1 + 1 else e1)
         in if e2 + int (ndigits c2) - 1 > dec_emax then Inl DecimalOverflow else Inr (c2, e2)))"

function strip_zeros :: "nat \<Rightarrow> int \<Rightarrow> nat \<times> int" where
  "strip_zeros c e = (if c \<noteq> 0 \<and> c mod 10 = 0 then strip_zeros (c div 10) (e + 1) else (c, e))"
  by pat_completeness auto
termination
  by (relation "measure fst") auto

declare strip_zeros.simps [simp del]

fun dec_normalize :: "pydec \<Rightarrow> pydec result" where
  "dec_normalize (DFin s c e) = rbind (dec_finalize c e) (\<lambda>(c', e').
     if c' = 0 then Inr (DFin s 0 0)
     else (case strip_zeros c' e' of (c'', e'') \<Rightarrow> Inr (DFin s c'' e'')))"
| "dec_normalize d = Inr d"

fun dec_mult :: "pydec \<Rightarrow> pydec \<Rightarrow> pydec result" where
  "dec_mult (DFin s c e) (DFin t d f) =
     rbind (dec_finalize (c * d) (e + f)) (\<lambda>(c', e'). Inr (DFin (s \<noteq> t) c' e'))"
| "dec_mult _ _ = Inr DNaN"

fun dec_add :: "pydec \<Rightarrow> pydec \<Rightarrow> pydec result" where
  "dec_add (DFin s c e) (DFin t d f) =
     (let m = min e f;
          x = dec_signed s c * 10 ^ nat (e - m) + dec_signed t d * 10 ^ nat (f - m)
      in rbind (dec_finalize (nat \<bar>x\<bar>) m) (\<lambda>(c', e'). Inr (DFin (x < 0 \<or> x = 0 \<and> s \<and> t) c' e')))"
| "dec_add _ _ = Inr DNaN"

text \<open>\<open>format(d, "f")\<close>.\<close>

definition dec_digits_f :: "nat \<Rightarrow> int \<Rightarrow> string" where
  "dec_digits_f c e =
     (if e \<ge> 0 then (if c = 0 then ''0'' else nat_str c @ replicate (nat e) (CHR ''0''))
      else (let ds = nat_str c; k = nat (- e) in
        if k < length ds then take (length ds - k) ds @ ''.'' @ drop (length ds - k) ds
        else ''0.'' @ replicate (k - length ds) (CHR ''0'') @ ds))"

fun dec_format_f :: "pydec \<Rightarrow> string" where
  "dec_format_f (DFin s c e) = (if s then CHR ''-'' # dec_digits_f c e else dec_digits_f c e)"
| "dec_format_f (DInf s) = (if s then ''-Infinity'' else ''Infinity'')"
| "dec_format_f DNaN = ''NaN''"

section \<open>json.dumps\<close>

text \<open>\<open>str\<close> of an integer of more than 4300 digits raises \<open>ValueError\<close>.\<close>

definition int_digits_ok :: "int \<Rightarrow> bool" where
  "int_digits_ok i = (ndigits (nat \<bar>i\<bar>) \<le> 4300)"

definition json_escape_char :: "char \<Rightarrow> string" where
  "json_escape_char c = (let n = of_char c :: nat in
     if c = CHR ''\"'' then [CHR 92, CHR ''\"'']
     else if n = 92 then [CHR 92, CHR 92]
     else if n = 10 then [CHR 92, CHR ''n'']
     else if n = 13 then [CHR 92, CHR ''r'']
     else if n = 9 then [CHR 92, CHR ''t'']
     else if n = 12 then [CHR 92, CHR ''f'']
     else if n = 8 then [CHR 92, CHR ''b'']
     else if n < 32 then CHR 92 # ''u00'' @ [hex_char (n div 16), hex_char (n mod 16)]
     else [c])"

definition json_string :: "string \<Rightarrow> string" where
  "json_string s = CHR ''\"'' # concat (map json_escape_char s) @ [CHR ''\"'']"

fun join :: "string \<Rightarrow> string list \<Rightarrow> string" where
  "join sep [] = []"
| "join sep [x] = x"
| "join sep (x # y # xs) = x @ sep @ join sep (y # xs)"

fun json_dumps :: "pyval \<Rightarrow> string result"
and json_dumps_list :: "pyval list \<Rightarrow> string list result"
and json_dumps_items :: "(string \<times> pyval) list \<Rightarrow> (string \<times> string) list result" where
  "json_dumps PNone = Inr ''null''"
| "json_dumps (PBool b) = Inr (if b then ''true'' else ''false'')"
| "json_dumps (PInt i) = (if int_digits_ok i then Inr (int_str i) else Inl ValueError)"
| "json_dumps (PFloat r) = (if r \<in> {''nan'', ''inf'', ''-inf''} then Inl ValueError else Inr r)"
| "json_dumps (PStr s) = Inr (json_string s)"
| "json_dumps (PDate y m d) = Inl TypeError"
| "json_dumps (PList xs) = rbind (json_dumps_list xs) (\<lambda>ts. Inr (''['' @ join '','' ts @ '']''))"
| "json_dumps (PDict d) = rbind (json_dumps_items d)
     (\<lambda>kts. Inr (''{'' @ join '','' (map (\<lambda>(k, t). json_string k @ '':'' @ t) (sort_key fst kts)) @ ''}''))"
| "json_dumps_list [] = Inr []"
| "json_dumps_list (x # xs) = rbind (json_dumps x) (\<lambda>t. rbind (json_dumps_list xs) (\<lambda>ts. Inr (t # ts)))"
| "json_dumps_items [] = Inr []"
| "json_dumps_items ((k, v) # d) =
     rbind (json_dumps v) (\<lambda>t. rbind (json_dumps_items d) (\<lambda>kts. Inr ((k, t) # kts)))"

definition utf8_char :: "char \<Rightarrow> string" where
  "utf8_char c = (let n = of_char c :: nat in
     if n < 128 then [c] else [char_of (192 + n div 64), char_of (128 + n mod 64)])"

definition utf8_encode :: "string \<Rightarrow> string" where
  "utf8_encode s = concat (map utf8_char s)"

section \<open>Library services taken as parameters\<close>

text \<open>
  \<open>utc_timestamp text\<close> is the outcome of \<open>datetime.fromisoformat(text)\<close> followed by
  \<open>astimezone(UTC)\<close>, truncation to seconds and rendering with a trailing \<open>Z\<close>: a value, a
  missing timezone, a \<open>ValueError\<close> or an \<open>OverflowError\<close>.
  \<open>json_tokens text\<close> is the value \<open>json.loads\<close> reads, with objects still as the pairs of the
  text in order and the constants \<open>NaN\<close>, \<open>Infinity\<close> and \<open>-Infinity\<close> as floats spelt that
  way (a number too large for a float is \<open>inf\<close>); \<^const>\<open>None\<close> is a \<open>ValueError\<close>.
\<close>

datatype ts_outcome = TsValueError | TsNaive | TsOverflow | TsUtc string

record pylib =
  sha256_hex :: "string \<Rightarrow> string"
  utc_timestamp :: "string \<Rightarrow> ts_outcome"
  json_tokens :: "string \<Rightarrow> pyval option"

section \<open>Facts about the library\<close>

lemma digit_chars [simp]:
  "char_of (48::nat) = CHR ''0''" "char_of (49::nat) = CHR ''1''" "char_of (50::nat) = CHR ''2''"
  "char_of (51::nat) = CHR ''3''" "char_of (52::nat) = CHR ''4''" "char_of (53::nat) = CHR ''5''"
  "char_of (54::nat) = CHR ''6''" "char_of (55::nat) = CHR ''7''" "char_of (56::nat) = CHR ''8''"
  "char_of (57::nat) = CHR ''9''"
  by (simp_all add: char_of_eq_iff)

subsection \<open>UUID\<close>

definition uuid_shape :: "string \<Rightarrow> bool" where
  "uuid_shape s = (\<exists>a b c d e. s = a @ ''-'' @ b @ ''-'' @ c @ ''-'' @ d @ ''-'' @ e \<and>
     length a = 8 \<and> length b = 4 \<and> length c = 4 \<and> length d = 4 \<and> length e = 12 \<and>
     list_all is_lower_hex (a @ b @ c @ d @ e))"

lemma is_lower_hex_hex_char: "n < 16 \<Longrightarrow> is_lower_hex (hex_char n)"
  by (simp add: is_lower_hex_def hex_char_def)

lemma length_hex_pad [simp]: "length (hex_pad k n) = k"
  by (induction k arbitrary: n) simp_all

lemma hex_pad_lower_hex: "list_all is_lower_hex (hex_pad k n)"
  by (induction k arbitrary: n) (simp_all add: is_lower_hex_hex_char)

lemma uuid_groups_shape:
  assumes "length h = 32" and "list_all is_lower_hex h"
  shows "uuid_shape (uuid_groups h)"
  unfolding uuid_shape_def uuid_groups_def
proof (intro exI conjI)
  have "take 8 h @ take 4 (drop 8 h) @ take 4 (drop 12 h) @ take 4 (drop 16 h) @ drop 20 h = h"
    using append_take_drop_id [of 8 h] append_take_drop_id [of 4 "drop 8 h"]
      append_take_drop_id [of 4 "drop 12 h"] append_take_drop_id [of 4 "drop 16 h"] by simp
  then show "list_all is_lower_hex (take 8 h @ take 4 (drop 8 h) @ take 4 (drop 12 h) @ take 4 (drop 16 h) @ drop 20 h)"
    using assms by simp
qed (use assms in simp_all)

lemma py_UUID_shape: "py_UUID t = Some u \<Longrightarrow> uuid_shape u"
  by (auto simp: py_UUID_def Let_def uuid_groups_shape hex_pad_lower_hex split: if_splits option.splits)

lemma replace_all_absent:
  assumes "c \<in> set old" and "c \<notin> set s"
  shows "replace_all old new s = s"
  using assms(2)
proof (induction s)
  case Nil
  then show ?case by (simp add: replace_all.simps)
next
  case (Cons x xs)
  have "take (length old) (x # xs) \<noteq> old"
    using assms(1) Cons.prems by (metis in_set_takeD)
  then show ?case using Cons assms(1) by (auto simp: replace_all.simps [of old new "x # xs"])
qed

lemma replace_all_single: "replace_all [c] [] s = filter (\<lambda>x. x \<noteq> c) s"
  by (induction s) (simp_all add: replace_all.simps)

lemma dropWhile_none: "\<forall>c \<in> set s. \<not> P c \<Longrightarrow> dropWhile P s = s"
  by (cases s) auto

lemma strip_chars_absent: "(\<And>c. c \<in> set s \<Longrightarrow> c \<notin> set cs) \<Longrightarrow> strip_chars cs s = s"
  by (simp add: strip_chars_def dropWhile_none [of s] dropWhile_none [of "rev s"])

lemma py_strip_absent: "(\<And>c. c \<in> set s \<Longrightarrow> \<not> py_space c) \<Longrightarrow> py_strip s = s"
  by (simp add: py_strip_def dropWhile_none [of s] dropWhile_none [of "rev s"])

lemma lower_char_nat:
  "(of_char (lower_char c) :: nat) =
     (if (65 \<le> (of_char c :: nat) \<and> (of_char c :: nat) \<le> 90) \<or>
         (192 \<le> (of_char c :: nat) \<and> (of_char c :: nat) \<le> 222 \<and> (of_char c :: nat) \<noteq> 215)
      then of_char c + 32 else of_char c)"
  by (auto simp: lower_char_def Let_def)

text \<open>Hexadecimal digits in either case.\<close>

definition is_hex :: "char \<Rightarrow> bool" where
  "is_hex c = is_lower_hex (lower_char c)"

lemma is_hex_code:
  "is_hex c \<longleftrightarrow> (let n = of_char c :: nat in
     (48 \<le> n \<and> n \<le> 57) \<or> (65 \<le> n \<and> n \<le> 70) \<or> (97 \<le> n \<and> n \<le> 102))"
  by (auto simp: is_hex_def is_lower_hex_def lower_char_nat Let_def)

lemma is_hex_not:
  assumes "is_hex c"
  shows "c \<noteq> CHR '':''" "c \<noteq> CHR ''{''" "c \<noteq> CHR ''}''" "c \<noteq> CHR ''-''" "c \<noteq> CHR ''+''"
    "c \<noteq> CHR ''_''" "c \<noteq> CHR ''x''" "c \<noteq> CHR ''X''" "\<not> py_space c"
  using assms by (auto simp: is_hex_code py_space_def Let_def)

lemma hex_digit_val_hex:
  "is_hex c \<Longrightarrow> \<exists>v. hex_digit_val c = Some v \<and> v < 16 \<and> hex_char v = lower_char c"
  by (auto simp: is_hex_code hex_digit_val_def hex_char_def lower_char_def Let_def)

lemma hex_digits_val_snoc:
  assumes "list_all is_hex s" and "is_hex c"
  shows "hex_digits_val a (s @ [c]) =
    (case hex_digits_val a s of None \<Rightarrow> None | Some n \<Rightarrow> map_option (\<lambda>v. 16 * n + v) (hex_digit_val c))"
  using assms
proof (induction s arbitrary: a)
  case Nil
  then show ?case using is_hex_not(6) [of c] hex_digit_val_hex [of c] by auto
next
  case (Cons x xs)
  then show ?case using is_hex_not(6) [of x] hex_digit_val_hex [of x] by auto
qed

lemma hex_digits_val_pad:
  assumes "list_all is_hex s"
  shows "\<exists>n. hex_digits_val 0 s = Some n \<and> n < 16 ^ length s \<and> hex_pad (length s) n = py_lower s"
  using assms
proof (induction s rule: rev_induct)
  case Nil
  then show ?case by (simp add: py_lower_def)
next
  case (snoc c s)
  then obtain n where n: "hex_digits_val 0 s = Some n" "n < 16 ^ length s" "hex_pad (length s) n = py_lower s"
    by auto
  from snoc.prems obtain v where v: "hex_digit_val c = Some v" "v < 16" "hex_char v = lower_char c"
    using hex_digit_val_hex by auto
  have "hex_digits_val 0 (s @ [c]) = Some (16 * n + v)"
    using snoc.prems n v by (simp add: hex_digits_val_snoc)
  moreover have "16 * n + v < 16 ^ length (s @ [c])" using n(2) v(2) by simp
  moreover have "hex_pad (length (s @ [c])) (16 * n + v) = py_lower (s @ [c])"
    using n(3) v by (simp add: py_lower_def)
  ultimately show ?case by blast
qed

lemma py_int16_hex:
  assumes "list_all is_hex s" and "s \<noteq> []"
  shows "py_int16 s = map_option int (hex_digits_val 0 s)"
proof -
  have ns: "\<And>c. c \<in> set s \<Longrightarrow> is_hex c" using assms(1) by (simp add: list_all_iff)
  have "py_strip s = s" using ns is_hex_not(9) by (intro py_strip_absent) blast
  moreover have "hd s \<notin> {CHR ''-'', CHR ''+'', CHR ''_''}"
    using ns [of "hd s"] assms(2) is_hex_not(4,5,6) [of "hd s"] by auto
  moreover have "take 2 s \<notin> {''0x'', ''0X''}"
  proof
    assume "take 2 s \<in> {''0x'', ''0X''}"
    then have "CHR ''x'' \<in> set (take 2 s) \<or> CHR ''X'' \<in> set (take 2 s)" by auto
    then have "CHR ''x'' \<in> set s \<or> CHR ''X'' \<in> set s" by (blast dest: in_set_takeD)
    then show False using ns is_hex_not(7,8) by blast
  qed
  ultimately show ?thesis using assms(2) by (auto simp: py_int16_def Let_def)
qed

lemma lower_char_dash: "lower_char c = CHR ''-'' \<longleftrightarrow> c = CHR ''-''"
proof
  assume "lower_char c = CHR ''-''"
  then have "(of_char (lower_char c) :: nat) = 45" by simp
  then have "(of_char c :: nat) = of_char (CHR ''-'')" by (auto simp: lower_char_nat split: if_splits)
  then show "c = CHR ''-''" by (simp only: of_char_eq_iff)
next
  assume "c = CHR ''-''"
  then show "lower_char c = CHR ''-''" by (simp add: lower_char_def)
qed

lemma py_lower_dash_split:
  assumes "py_lower t = x @ ''-'' @ y"
  shows "\<exists>u v. t = u @ ''-'' @ v \<and> py_lower u = x \<and> py_lower v = y"
proof -
  from assms obtain u w where t: "t = u @ w" "x = map lower_char u" "''-'' @ y = map lower_char w"
    by (auto simp: py_lower_def map_eq_append_conv)
  then obtain c v where "w = c # v" "lower_char c = CHR ''-''" "y = map lower_char v"
    by (cases w) auto
  with t show ?thesis by (auto simp: lower_char_dash py_lower_def)
qed

lemma py_UUID_of_shape:
  assumes "uuid_shape (py_lower t)"
  shows "py_UUID t = Some (py_lower t)"
proof -
  from assms obtain a b c d e where s: "py_lower t = a @ ''-'' @ b @ ''-'' @ c @ ''-'' @ d @ ''-'' @ e"
    and len: "length a = 8" "length b = 4" "length c = 4" "length d = 4" "length e = 12"
    and hex: "list_all is_lower_hex (a @ b @ c @ d @ e)"
    by (auto simp: uuid_shape_def)
  from py_lower_dash_split [OF s] obtain A t1 where 1: "t = A @ ''-'' @ t1" "py_lower A = a"
    "py_lower t1 = b @ ''-'' @ c @ ''-'' @ d @ ''-'' @ e" by auto
  from py_lower_dash_split [OF 1(3)] obtain B t2 where 2: "t1 = B @ ''-'' @ t2" "py_lower B = b"
    "py_lower t2 = c @ ''-'' @ d @ ''-'' @ e" by auto
  from py_lower_dash_split [OF 2(3)] obtain C t3 where 3: "t2 = C @ ''-'' @ t3" "py_lower C = c"
    "py_lower t3 = d @ ''-'' @ e" by auto
  from py_lower_dash_split [OF 3(3)] obtain D E where 4: "t3 = D @ ''-'' @ E" "py_lower D = d"
    "py_lower E = e" by auto
  note t = 1(1) [unfolded 2(1) 3(1) 4(1)] and low = 1(2) 2(2) 3(2) 4(2,3)
  define h where "h = A @ B @ C @ D @ E"
  have hx: "list_all is_hex h"
    using hex low by (auto simp: h_def py_lower_def list_all_iff is_hex_def)
  then have hs: "\<And>x. x \<in> set h \<Longrightarrow> is_hex x" by (simp add: list_all_iff)
  have st: "set t = insert (CHR ''-'') (set h)" by (auto simp: t h_def)
  have "CHR '':'' \<notin> set t" using st hs is_hex_not(1) by auto
  then have r1: "replace_all ''uuid:'' [] (replace_all ''urn:'' [] t) = t"
    using replace_all_absent [of "CHR '':''" "''urn:''" t] replace_all_absent [of "CHR '':''" "''uuid:''" t] by simp
  have r2: "strip_chars ''{}'' t = t"
    using st hs is_hex_not(2,3) by (intro strip_chars_absent) auto
  have nd: "\<And>x. x \<in> set h \<Longrightarrow> x \<noteq> CHR ''-''" using hs is_hex_not(4) by blast
  then have r3: "replace_all ''-'' [] t = h"
    by (auto simp: replace_all_single t h_def filter_id_conv)
  have lh: "length h = 32"
    using len low by (auto simp: h_def py_lower_def)
  from hex_digits_val_pad [OF hx] obtain n where n: "hex_digits_val 0 h = Some n" "n < 16 ^ 32"
    "hex_pad 32 n = py_lower h" using lh by auto
  have "uuid_groups (py_lower h) = py_lower t"
    using len low by (simp add: uuid_groups_def h_def s) (simp add: py_lower_def)
  moreover have "py_int16 h = Some (int n)"
    using py_int16_hex [OF hx] n lh by fastforce
  moreover have "int n < 2 ^ 128" using n(2) by simp
  ultimately show ?thesis
    using r1 r2 r3 lh n by (simp add: py_UUID_def Let_def)
qed

end
