(* ===== verification/Py_Decimal.thy ===== *)
theory Py_Decimal
  imports Py_Lib
begin

text \<open>
  Facts about \<open>decimal.Decimal\<close> in its default context: the canonical text of a number, as
  \<open>format(number.normalize(), "f")\<close> prints it, reads back as the same number and prints
  itself again.
\<close>

section \<open>Decimal digits\<close>

lemma of_char_digit [simp]: "n < 10 \<Longrightarrow> of_char (char_of (48 + n) :: char) = (48 + n :: nat)"
  by simp

lemma nat_str_digits: "list_all is_digit (nat_str n)"
proof (induction n rule: nat_str.induct)
  case (1 n)
  have "is_digit (char_of (48 + m :: nat))" if "m < 10" for m
    using that by (simp add: is_digit_def)
  with 1 show ?case by (subst nat_str.simps) auto
qed

lemma digits_val_append: "digits_val a (s @ t) = digits_val (digits_val a s) t"
  by (induction s arbitrary: a) simp_all

lemma digits_val_nat_str [simp]: "digits_val 0 (nat_str n) = n"
proof (induction n rule: nat_str.induct)
  case (1 n)
  then show ?case by (subst nat_str.simps) (simp add: digits_val_append)
qed

lemma digits_val_zeros: "digits_val a (replicate k (CHR ''0'')) = a * 10 ^ k"
  by (induction k arbitrary: a) (simp_all add: algebra_simps)

lemma ndigits_pos [simp]: "0 < ndigits n"
  by (simp add: ndigits_def)

lemma ndigits_neq_0 [simp]: "ndigits n \<noteq> 0"
  by (simp add: ndigits_def)

lemma ndigits_rec: "ndigits n = (if n < 10 then 1 else Suc (ndigits (n div 10)))"
  unfolding ndigits_def by (subst nat_str.simps) simp

lemma ndigits_le_iff: "0 < k \<Longrightarrow> ndigits n \<le> k \<longleftrightarrow> n < 10 ^ k"
proof (induction n arbitrary: k rule: nat_str.induct)
  case (1 n)
  then obtain j where k: "k = Suc j" by (cases k) auto
  show ?case
  proof (cases "n < 10")
    case True
    have "(10::nat) \<le> 10 ^ k" using k by simp
    with True have "n < 10 ^ k" by (rule less_le_trans)
    with True k show ?thesis by (simp add: ndigits_rec [of n])
  next
    case False
    then have "ndigits n \<le> k \<longleftrightarrow> ndigits (n div 10) \<le> j" by (simp add: ndigits_rec [of n] k)
    also have "\<dots> \<longleftrightarrow> n div 10 < 10 ^ j"
    proof (cases "j = 0")
      case True
      have "n div 10 \<noteq> 0" using False by (simp add: div_eq_0_iff)
      with True show ?thesis by simp
    next
      case j: False
      with 1 False show ?thesis by simp
    qed
    also have "\<dots> \<longleftrightarrow> n < 10 ^ k" by (simp add: k less_mult_imp_div_less div_less_iff_less_mult mult.commute)
    finally show ?thesis .
  qed
qed

lemma ndigits_less_iff: "0 < n \<Longrightarrow> k < ndigits n \<longleftrightarrow> 10 ^ k \<le> n"
  using ndigits_le_iff [of k n] by (cases "k = 0") auto

lemma ndigits_mult_pow: "0 < n \<Longrightarrow> ndigits (n * 10 ^ k) = ndigits n + k"
proof -
  assume n: "0 < n"
  have "n < 10 ^ ndigits n" using ndigits_le_iff [of "ndigits n" n] by simp
  then have "n * 10 ^ k < 10 ^ (ndigits n + k)" by (simp add: power_add)
  then have "ndigits (n * 10 ^ k) \<le> ndigits n + k" by (simp add: ndigits_le_iff)
  moreover have "10 ^ (ndigits n - 1) \<le> n" using ndigits_less_iff [OF n, of "ndigits n - 1"] by simp
  then have "10 ^ (ndigits n - 1 + k) \<le> n * 10 ^ k" by (simp add: power_add)
  then have "ndigits n - 1 + k < ndigits (n * 10 ^ k)" using n by (simp add: ndigits_less_iff)
  ultimately show ?thesis using ndigits_pos [of n] by linarith
qed

section \<open>Rounding and normalisation\<close>

text \<open>The normalised non-zero finite values of the default context.\<close>

definition dec_normal :: "nat \<Rightarrow> int \<Rightarrow> bool" where
  "dec_normal c e = (c mod 10 \<noteq> 0 \<and> ndigits c \<le> 28 \<and> e + int (ndigits c) - 1 \<le> 999999 \<and> - 1000026 \<le> e)"

lemma strip_zeros_spec:
  assumes "0 < c" and "strip_zeros c e = (c', e')"
  shows "c' mod 10 \<noteq> 0 \<and> e \<le> e' \<and> c = c' * 10 ^ nat (e' - e)"
  using assms
proof (induction c e arbitrary: c' e' rule: strip_zeros.induct)
  case (1 c e)
  show ?case
  proof (cases "c mod 10 = 0")
    case True
    with 1 have IH: "c' mod 10 \<noteq> 0 \<and> e + 1 \<le> e' \<and> c div 10 = c' * 10 ^ nat (e' - (e + 1))"
      by (auto simp: strip_zeros.simps [of c e])
    then have "nat (e' - e) = Suc (nat (e' - (e + 1)))" by linarith
    with IH True show ?thesis by (auto simp: algebra_simps)
  next
    case False
    with "1.prems" show ?thesis by (simp add: strip_zeros.simps [of c e])
  qed
qed

lemma strip_zeros_mult:
  "c mod 10 \<noteq> 0 \<Longrightarrow> strip_zeros (c * 10 ^ n) e = (c, e + int n)"
proof (induction n arbitrary: e)
  case 0
  then show ?case by (simp add: strip_zeros.simps)
next
  case (Suc n)
  have "c * 10 ^ Suc n mod 10 = 0" "c * 10 ^ Suc n div 10 = c * 10 ^ n" "c * 10 ^ Suc n \<noteq> 0"
    using Suc.prems by (auto intro: ccontr)
  then have "strip_zeros (c * 10 ^ Suc n) e = strip_zeros (c * 10 ^ n) (e + 1)"
    by (subst strip_zeros.simps) (simp del: power_Suc)
  with Suc show ?case by simp
qed

lemma round_half_even_bounds:
  "c div 10 ^ k \<le> round_half_even c k \<and> round_half_even c k \<le> c div 10 ^ k + 1"
  by (simp add: round_half_even_def Let_def)

lemma round_half_even_exact: "round_half_even (c * 10 ^ k) k = c"
  by (simp add: round_half_even_def)

lemma round_half_even_0 [simp]: "round_half_even c 0 = c"
  by (simp add: round_half_even_def)

text \<open>A value that already fits the context is returned as it is.\<close>

lemma dec_finalize_fits:
  assumes "0 < c" "ndigits c \<le> 28" "e + int (ndigits c) - 1 \<le> 999999" "- 1000026 \<le> e"
  shows "dec_finalize c e = Inr (c, e)"
proof -
  have "dec_shift c e = 0" using assms by (auto simp: dec_shift_def)
  then show ?thesis using assms by (simp add: dec_finalize_def Let_def)
qed

lemma dec_finalize_fits_scaled:
  assumes "dec_normal c e" and "0 \<le> e"
  shows "\<exists>j. j \<le> nat e \<and> dec_finalize (c * 10 ^ nat e) 0 = Inr (c * 10 ^ j, int (nat e - j))"
proof -
  from assms have c: "0 < c" "ndigits c \<le> 28" "e + int (ndigits c) - 1 \<le> 999999"
    by (auto simp: dec_normal_def intro: ccontr)
  let ?n = "nat e" and ?k = "ndigits c + nat e - 28"
  have d: "ndigits (c * 10 ^ ?n) = ndigits c + ?n" using c by (simp add: ndigits_mult_pow)
  have k: "?k \<le> ?n" using c by simp
  have "round_half_even (c * 10 ^ ?n) ?k = c * 10 ^ (?n - ?k)"
  proof -
    have "c * 10 ^ ?n = c * 10 ^ (?n - ?k) * 10 ^ ?k"
      using k by (simp flip: power_add add: mult.assoc)
    then show ?thesis by (metis round_half_even_exact)
  qed
  moreover have "ndigits (c * 10 ^ (?n - ?k)) = ndigits c + (?n - ?k)" using c by (simp add: ndigits_mult_pow)
  moreover have "dec_shift (c * 10 ^ ?n) 0 = ?k" using d by (simp add: dec_shift_def)
  moreover have "ndigits c + (?n - ?k) \<le> 28" "int ?k + int (ndigits c + (?n - ?k)) - 1 \<le> 999999"
    using c k assms(2) by linarith+
  ultimately have "dec_finalize (c * 10 ^ ?n) 0 = Inr (c * 10 ^ (?n - ?k), int ?k)"
    using c(1) by (simp add: dec_finalize_def Let_def)
  moreover have "?k = ?n - (?n - ?k)" using k by simp
  ultimately show ?thesis by (intro exI [of _ "?n - ?k"]) simp
qed

lemma dec_finalize_normal:
  assumes "0 < c" and "dec_finalize c e = Inr (c', e')" and "c' \<noteq> 0"
  shows "ndigits c' \<le> 28 \<and> e' + int (ndigits c') - 1 \<le> 999999 \<and> - 1000026 \<le> e'"
proof -
  define k where "k = dec_shift c e"
  define c1 where "c1 = round_half_even c k"
  have res: "c' = (if ndigits c1 > 28 then c1 div 10 else c1)"
    "e' = (if ndigits c1 > 28 then e + int k + 1 else e + int k)" "e' + int (ndigits c') - 1 \<le> 999999"
    using assms by (auto simp: dec_finalize_def Let_def simp flip: c1_def k_def split: if_splits)
  have k: "ndigits c \<le> 28 + k" "- 1000026 \<le> e + int k"
    by (auto simp: k_def dec_shift_def)
  have "c < 10 ^ ndigits c" using ndigits_le_iff [of "ndigits c" c] by simp
  also have "\<dots> \<le> 10 ^ (28 + k)" by (rule power_increasing [OF k(1)]) simp
  finally have "c div 10 ^ k < 10 ^ 28" by (simp add: power_add div_less_iff_less_mult)
  then have "c1 \<le> 10 ^ 28" using round_half_even_bounds [of c k] by (simp add: c1_def)
  then have "c1 div 10 < 10 ^ 28" by simp
  then have "ndigits (c1 div 10) \<le> 28" by (simp add: ndigits_le_iff)
  then have "ndigits c' \<le> 28" by (simp add: res(1))
  moreover have "- 1000026 \<le> e'" using res(2) k(2) by auto
  ultimately show ?thesis using res(3) by blast
qed

lemma dec_normalize_normal:
  assumes "dec_normalize (DFin s c e) = Inr (DFin s' c' e')" and "c' \<noteq> 0"
  shows "s' = s \<and> dec_normal c' e'"
proof -
  from assms(1) obtain c1 e1 where f: "dec_finalize c e = Inr (c1, e1)"
    by (auto simp: result_simps)
  obtain c2 e2 where "strip_zeros c1 e1 = (c2, e2)" by fastforce
  with assms f have 1: "dec_finalize c e = Inr (c1, e1)" "c1 \<noteq> 0" "s' = s"
    "strip_zeros c1 e1 = (c', e')" by (auto split: if_splits)
  have "0 < c" using 1 by (auto simp: dec_finalize_def intro: ccontr)
  from dec_finalize_normal [OF this 1(1,2)] have n: "ndigits c1 \<le> 28" "e1 + int (ndigits c1) - 1 \<le> 999999"
    "- 1000026 \<le> e1" by auto
  from strip_zeros_spec [OF _ 1(4)] 1(2) have s: "c' mod 10 \<noteq> 0" "e1 \<le> e'" "c1 = c' * 10 ^ nat (e' - e1)"
    by auto
  then have "ndigits c1 = ndigits c' + nat (e' - e1)" using 1(2) assms(2) by (simp add: ndigits_mult_pow)
  with n s 1(3) show ?thesis by (auto simp: dec_normal_def)
qed

lemma dec_normalize_canonical:
  assumes "dec_normal c e"
  shows "dec_normalize (DFin s (if 0 \<le> e then c * 10 ^ nat e else c) (min e 0)) = Inr (DFin s c e)"
proof (cases "0 \<le> e")
  case True
  from dec_finalize_fits_scaled [OF assms True] obtain j where j: "j \<le> nat e"
    "dec_finalize (c * 10 ^ nat e) 0 = Inr (c * 10 ^ j, int (nat e - j))" by auto
  have c: "c mod 10 \<noteq> 0" using assms by (simp add: dec_normal_def)
  then have "c \<noteq> 0" by (auto intro: ccontr)
  with j c True show ?thesis by (simp add: strip_zeros_mult)
next
  case False
  have c: "c mod 10 \<noteq> 0" "ndigits c \<le> 28" "e + int (ndigits c) - 1 \<le> 999999" "- 1000026 \<le> e"
    using assms by (auto simp: dec_normal_def)
  then have "0 < c" by (auto intro: ccontr)
  with c dec_finalize_fits [of c e] False show ?thesis
    using strip_zeros_mult [of c 0 e] by simp
qed

section \<open>Reading the canonical text\<close>

lemma takeWhile_digits: "list_all is_digit s \<Longrightarrow> takeWhile is_digit (s @ t) = s @ takeWhile is_digit t"
  by (induction s) auto

lemma dropWhile_digits: "list_all is_digit s \<Longrightarrow> dropWhile is_digit (s @ t) = dropWhile is_digit t"
  by (induction s) auto

lemma is_digit_not:
  assumes "is_digit c"
  shows "c \<noteq> CHR ''_''" "c \<noteq> CHR ''-''" "c \<noteq> CHR ''+''" "c \<noteq> CHR ''.''" "\<not> py_space c"
    "lower_char c = c" "c \<noteq> CHR ''i''" "c \<noteq> CHR ''n''" "c \<noteq> CHR ''s''"
  using assms by (auto simp: is_digit_def py_space_def lower_char_def Let_def)

lemma py_Decimal_plain:
  assumes ne: "s \<noteq> []" and hd: "is_digit (hd s)"
    and chars: "\<forall>c \<in> set s. is_digit c \<or> c = CHR ''.''"
  shows "py_Decimal s = dec_number False s"
proof -
  have sp: "py_strip s = s"
    using chars is_digit_not(5) by (intro py_strip_absent) (auto simp: py_space_def)
  have fl: "filter (\<lambda>c. c \<noteq> CHR ''_'') s = s"
    using chars is_digit_not(1) by (auto simp: filter_id_conv)
  obtain x xs where s: "s = x # xs" using ne by (cases s) auto
  have x: "is_digit x" using hd s by simp
  have low: "py_lower s = x # py_lower xs" using is_digit_not(6) [OF x] by (simp add: s py_lower_def)
  have ne: "x \<noteq> CHR ''i''" "x \<noteq> CHR ''n''" "x \<noteq> CHR ''s''" "x \<noteq> CHR ''-''" "x \<noteq> CHR ''+''"
    using is_digit_not [OF x] by auto
  then have words: "py_lower s \<noteq> ''inf''" "py_lower s \<noteq> ''infinity''" "take 3 (py_lower s) \<noteq> ''nan''"
    "take 4 (py_lower s) \<noteq> ''snan''" using low by auto
  have "hd s \<noteq> CHR ''-''" "hd s \<noteq> CHR ''+''" using ne s by auto
  with words show ?thesis by (simp add: py_Decimal_def Let_def sp fl)
qed

lemma dec_number_fixed:
  assumes "list_all is_digit a" "list_all is_digit b" "a \<noteq> []"
    and "- int (length b) + int (ndigits (digits_val 0 (a @ b))) - 1 \<le> 999999999999999999"
    and "- 1999999999999999997 \<le> - int (length b)"
  shows "dec_number s (a @ ''.'' @ b) = Some (DFin s (digits_val 0 (a @ b)) (- int (length b)))"
    and "b = [] \<Longrightarrow> dec_number s a = Some (DFin s (digits_val 0 a) 0)"
proof -
  have nd: "\<not> is_digit (CHR ''.'')" by (simp add: is_digit_def)
  have 1: "takeWhile is_digit (a @ ''.'' @ b) = a" "dropWhile is_digit (a @ ''.'' @ b) = ''.'' @ b"
    using assms(1) nd by (simp_all add: takeWhile_digits dropWhile_digits)
  have 2: "takeWhile is_digit b = b" "dropWhile is_digit b = []"
    using takeWhile_digits [OF assms(2), of "[]"] dropWhile_digits [OF assms(2), of "[]"] by simp_all
  have 3: "takeWhile is_digit a = a" "dropWhile is_digit a = []"
    using takeWhile_digits [OF assms(1), of "[]"] dropWhile_digits [OF assms(1), of "[]"] by simp_all
  show "dec_number s (a @ ''.'' @ b) = Some (DFin s (digits_val 0 (a @ b)) (- int (length b)))"
    using assms(3-) by (simp add: dec_number_def Let_def 1 [simplified] 2)
  show "dec_number s a = Some (DFin s (digits_val 0 a) 0)" if "b = []"
    using assms(3-) that by (simp add: dec_number_def Let_def 3)
qed

lemma list_all_take_drop: "list_all P s \<Longrightarrow> list_all P (take k s) \<and> list_all P (drop k s)"
  by (metis append_take_drop_id list_all_append)

lemma hd_digit: "list_all is_digit s \<Longrightarrow> s \<noteq> [] \<Longrightarrow> is_digit (hd s)"
  by (cases s) auto

text \<open>The printed digits of a normalised value, read as a number.\<close>

lemma py_Decimal_digits_f:
  assumes "dec_normal c e"
  shows "py_Decimal (dec_digits_f c e) = Some (DFin False (if 0 \<le> e then c * 10 ^ nat e else c) (min e 0))"
proof -
  from assms have c: "0 < c" "ndigits c \<le> 28" "e + int (ndigits c) - 1 \<le> 999999" "- 1000026 \<le> e"
    by (auto simp: dec_normal_def intro: ccontr)
  have ds: "list_all is_digit (nat_str c)" by (rule nat_str_digits)
  have zs: "list_all is_digit (replicate k (CHR ''0''))" for k
    by (induction k) (auto simp: is_digit_def)
  consider "0 \<le> e" | "e < 0" "nat (- e) < ndigits c" | "e < 0" "ndigits c \<le> nat (- e)" by linarith
  then show ?thesis
  proof cases
    case 1
    let ?s = "nat_str c @ replicate (nat e) (CHR ''0'')"
    have s: "dec_digits_f c e = ?s" "list_all is_digit ?s" using 1 c ds zs by (simp_all add: dec_digits_f_def)
    have v: "digits_val 0 ?s = c * 10 ^ nat e" by (simp add: digits_val_append digits_val_zeros)
    have "py_Decimal ?s = dec_number False ?s"
      using s(2) by (intro py_Decimal_plain) (auto simp: hd_digit list_all_iff)
    moreover have "ndigits (digits_val 0 ?s) = ndigits c + nat e" using c v by (simp add: ndigits_mult_pow)
    then have "dec_number False ?s = Some (DFin False (digits_val 0 ?s) 0)"
      using dec_number_fixed(2) [of ?s "[]" False] s(2) c 1 by simp
    ultimately show ?thesis using 1 s(1) v by simp
  next
    case 2
    let ?k = "length (nat_str c) - nat (- e)"
    let ?a = "take ?k (nat_str c)" and ?b = "drop ?k (nat_str c)"
    have s: "dec_digits_f c e = ?a @ ''.'' @ ?b" using 2 by (simp add: dec_digits_f_def Let_def ndigits_def)
    have ab: "list_all is_digit ?a" "list_all is_digit ?b" using list_all_take_drop [OF ds] by auto
    have a: "?a \<noteq> []" using 2 by (simp add: ndigits_def)
    have lb: "length ?b = nat (- e)" using 2 by (simp add: ndigits_def)
    have "py_Decimal (?a @ ''.'' @ ?b) = dec_number False (?a @ ''.'' @ ?b)"
    proof (rule py_Decimal_plain)
      show "is_digit (hd (?a @ ''.'' @ ?b))" using hd_digit [OF ab(1) a] a by simp
      show "\<forall>x \<in> set (?a @ ''.'' @ ?b). is_digit x \<or> x = CHR ''.''"
        using ab by (auto simp: list_all_iff)
    qed simp
    moreover have "dec_number False (?a @ ''.'' @ ?b) = Some (DFin False (digits_val 0 (?a @ ?b)) (- int (length ?b)))"
    proof (rule dec_number_fixed(1) [OF ab a])
      have "digits_val 0 (?a @ ?b) = c" by (simp only: append_take_drop_id digits_val_nat_str)
      then have "ndigits (digits_val 0 (?a @ ?b)) \<le> 28" using c by (simp only:)
      then show "- int (length ?b) + int (ndigits (digits_val 0 (?a @ ?b))) - 1 \<le> 999999999999999999"
        by linarith
      show "- 1999999999999999997 \<le> - int (length ?b)" using c lb by linarith
    qed
    moreover have "- int (length ?b) = e" using lb 2 by linarith
    ultimately show ?thesis using s 2(1) by (simp only: append_take_drop_id digits_val_nat_str) simp
  next
    case 3
    let ?b = "replicate (nat (- e) - length (nat_str c)) (CHR ''0'') @ nat_str c"
    have s: "dec_digits_f c e = ''0'' @ ''.'' @ ?b" using 3 by (simp add: dec_digits_f_def Let_def ndigits_def)
    have b: "list_all is_digit ?b" using ds zs by simp
    have lb: "length ?b = nat (- e)" using 3 by (simp add: ndigits_def)
    have v: "digits_val 0 (''0'' @ ?b) = c" by (simp add: digits_val_append digits_val_zeros)
    have "py_Decimal (''0'' @ ''.'' @ ?b) = dec_number False (''0'' @ ''.'' @ ?b)"
      using b by (intro py_Decimal_plain) (auto simp: list_all_iff is_digit_def)
    moreover have "dec_number False (''0'' @ ''.'' @ ?b) = Some (DFin False (digits_val 0 (''0'' @ ?b)) (- int (length ?b)))"
      using c 3 lb v by (intro dec_number_fixed(1) b) (auto simp: is_digit_def)
    ultimately show ?thesis using s 3 v lb by simp
  qed
qed

section \<open>The smallest accepted quantity\<close>

lemma dec_min_le_iff:
  "dec_le (DFin False 1 (- 18)) (DFin False c e) \<longleftrightarrow> 0 < c \<and> - 18 \<le> e + int (ndigits c) - 1"
proof (cases "c = 0")
  case True
  have "(0::int) < 10 ^ nat (- 18 - min (- 18) e)" by simp
  then have "\<not> (10 ^ nat (- 18 - min (- 18) e) :: int) \<le> 0" by linarith
  with True show ?thesis by (simp add: Let_def dec_signed_def)
next
  case False
  show ?thesis
  proof (cases "e \<le> - 18")
    case True
    then have m: "min (- 18) e = e" by simp
    have "dec_le (DFin False 1 (- 18)) (DFin False c e) \<longleftrightarrow> (10 ^ nat (- 18 - e) :: int) \<le> int c"
      by (simp only: dec_le.simps Let_def m dec_signed_def) simp
    also have "\<dots> \<longleftrightarrow> 10 ^ nat (- 18 - e) \<le> c" by (metis of_nat_le_iff of_nat_numeral of_nat_power)
    also have "\<dots> \<longleftrightarrow> nat (- 18 - e) < ndigits c" using False by (simp add: ndigits_less_iff)
    finally show ?thesis using False True by auto
  next
    case big: False
    then have m: "min (- 18) e = - 18" by simp
    have "dec_le (DFin False 1 (- 18)) (DFin False c e) \<longleftrightarrow> (1::int) \<le> int c * 10 ^ nat (e + 18)"
      by (simp only: dec_le.simps Let_def m dec_signed_def) simp
    moreover have "1 \<le> int c * 10 ^ nat (e + 18)" using False by (simp add: int_one_le_iff_zero_less)
    ultimately show ?thesis using False big ndigits_pos [of c] by linarith
  qed
qed

lemma dec_min_neg: "\<not> dec_le (DFin False 1 (- 18)) (DFin True c e)"
proof -
  define m where "m = min (- 18) e"
  have "- int c * 10 ^ nat (e - m) \<le> 0" by simp
  moreover have "(0::int) < 10 ^ nat (- 18 - m)" by simp
  ultimately have "\<not> (10 ^ nat (- 18 - m) :: int) \<le> - int c * 10 ^ nat (e - m)" by linarith
  then show ?thesis by (simp add: Let_def dec_signed_def m_def)
qed

text \<open>Rounding never takes an accepted quantity below the minimum.\<close>

lemma dec_normalize_min:
  assumes "dec_le (DFin False 1 (- 18)) (DFin False c e)"
    and "dec_normalize (DFin False c e) = Inr (DFin s c' e')"
  shows "c' \<noteq> 0 \<and> - 18 \<le> e' + int (ndigits c') - 1"
proof -
  from assms(1) have c: "0 < c" "- 18 \<le> e + int (ndigits c) - 1" by (auto simp only: dec_min_le_iff)
  define k where "k = ndigits c - 28"
  have sh: "dec_shift c e = k" using c by (simp add: dec_shift_def k_def)
  define c1 where "c1 = round_half_even c k"
  obtain c2 e2 where f: "dec_finalize c e = Inr (c2, e2)" and
    n: "(if c2 = 0 then Inr (DFin False 0 0) else (case strip_zeros c2 e2 of (c'', e'') \<Rightarrow> Inr (DFin False c'' e''))) =
      (Inr (DFin s c' e') :: pydec result)"
    using assms(2) by (auto simp: result_simps)
  have r: "c2 = (if ndigits c1 > 28 then c1 div 10 else c1)" "e2 = (if ndigits c1 > 28 then e + int k + 1 else e + int k)"
    using f c by (auto simp: dec_finalize_def Let_def sh simp flip: c1_def split: if_splits)
  have "k < ndigits c" by (simp add: k_def)
  then have "10 ^ (ndigits c - 1 - k) * 10 ^ k \<le> c"
    using ndigits_less_iff [OF c(1), of "ndigits c - 1"] by (simp flip: power_add)
  then have q: "10 ^ (ndigits c - 1 - k) \<le> c1"
    using round_half_even_bounds [of c k] unfolding c1_def
    by (meson le_trans less_eq_div_iff_mult_less_eq zero_less_numeral zero_less_power)
  have c1: "0 < c1" using q by (metis less_le_trans zero_less_numeral zero_less_power)
  then have d1: "ndigits c - k \<le> ndigits c1" using q ndigits_less_iff [OF c1, of "ndigits c - 1 - k"] by simp
  have d2: "int (ndigits c2) + e2 = int (ndigits c1) + e + int k"
    using r ndigits_rec [of c1] by (auto split: if_splits)
  have "c2 \<noteq> 0" using r c1 ndigits_rec [of c1] by (auto simp: div_eq_0_iff split: if_splits)
  then have s: "strip_zeros c2 e2 = (c', e')" using n by (auto split: prod.splits)
  from strip_zeros_spec [OF _ s] \<open>c2 \<noteq> 0\<close> have z: "e2 \<le> e'" "c2 = c' * 10 ^ nat (e' - e2)" "c' \<noteq> 0" by auto
  then have "ndigits c2 = ndigits c' + nat (e' - e2)" by (simp add: ndigits_mult_pow)
  with z d1 d2 c(2) \<open>k < ndigits c\<close> show ?thesis by auto
qed

end
