(* ===== verification/Gateway_Contract.thy ===== *)
theory Gateway_Contract
  imports Py_Decimal
begin

text \<open>
  The typed boundary of the ERP tool gateway, \<open>gateway/contract.py\<close>: strict objects, bounded
  text, canonical UUIDs, tool input with paging bounds, and the request envelope with its
  all-or-nothing workflow metadata.  Values arrive as decoded JSON, a \<^typ>\<open>pyval\<close>.
\<close>

section \<open>Data\<close>

definition SCHEMA_VERSION :: string where "SCHEMA_VERSION = ''1''"
definition MAX_PAGE_SIZE :: int where "MAX_PAGE_SIZE = 50"

record ToolCall =
  tc_name :: string
  tc_version :: string
  tc_input :: "(string \<times> pyval) list"

record GatewayRequest =
  rq_run_id :: string
  rq_capability :: string
  rq_correlation_id :: string
  rq_tool :: ToolCall
  rq_invocation_id :: "string option"
  rq_plan_version :: "int option"
  rq_step_id :: "string option"
  rq_args_digest :: "string option"

record InputField =
  if_parse :: "pyval \<Rightarrow> pyval result"
  if_required :: bool
  if_default :: pyval

section \<open>Operations\<close>

definition invalid_input :: "string \<Rightarrow> pyexc" where
  "invalid_input msg = GatewayFault ''INVALID_INPUT'' msg 400"

definition strict_object ::
  "pyval \<Rightarrow> string list \<Rightarrow> string \<Rightarrow> string list option \<Rightarrow> (string \<times> pyval) list result" where
  "strict_object value fs label required_fields =
     (case value of
        PDict d \<Rightarrow>
          (let required = (case required_fields of None \<Rightarrow> fs | Some r \<Rightarrow> if r = [] then fs else r)
           in if \<not> set (dkeys d) \<subseteq> set fs \<or> \<not> set required \<subseteq> set (dkeys d)
              then Inl (invalid_input (label @ '' fields are invalid''))
              else Inr d)
      | _ \<Rightarrow> Inl (invalid_input (label @ '' must be an object'')))"

definition gw_required_text :: "pyval \<Rightarrow> string \<Rightarrow> nat \<Rightarrow> string result" where
  "gw_required_text value label max_length =
     (case value of
        PStr s \<Rightarrow> if s = [] \<or> length s > max_length then Inl (invalid_input (label @ '' is invalid'')) else Inr s
      | _ \<Rightarrow> Inl (invalid_input (label @ '' is invalid'')))"

definition bounded_text :: "pyval \<Rightarrow> string \<Rightarrow> nat \<Rightarrow> string result" where
  "bounded_text value label max_length = gw_required_text value label max_length"

definition optional_text :: "pyval \<Rightarrow> string \<Rightarrow> nat \<Rightarrow> string option result" where
  "optional_text value label max_length =
     (if value = PNone then Inr None
      else rbind (gw_required_text value label max_length) (\<lambda>s. Inr (Some s)))"

definition canonical_uuid :: "pyval \<Rightarrow> string \<Rightarrow> string result" where
  "canonical_uuid value label =
     rbind (gw_required_text value label 36) (\<lambda>text.
       case py_UUID text of
         None \<Rightarrow> Inl (invalid_input (label @ '' is invalid''))
       | Some normalized \<Rightarrow>
           if py_lower text \<noteq> normalized then Inl (invalid_input (label @ '' is invalid''))
           else Inr normalized)"

definition correlation_id :: "pyval \<Rightarrow> string result" where
  "correlation_id value = canonical_uuid value ''correlation_id''"

definition hex_digest :: "pyval \<Rightarrow> string \<Rightarrow> string result" where
  "hex_digest value label =
     rbind (gw_required_text value label 64) (\<lambda>text.
       if length text \<noteq> 64 \<or> \<not> list_all is_lower_hex text
       then Inl (invalid_input (label @ '' is invalid''))
       else Inr text)"

definition positive_int :: "pyval \<Rightarrow> string \<Rightarrow> int \<Rightarrow> int result" where
  "positive_int value label maximum =
     (case value of
        PInt i \<Rightarrow> if i < 0 \<or> i > maximum then Inl (invalid_input (label @ '' is invalid'')) else Inr i
      | _ \<Rightarrow> Inl (invalid_input (label @ '' is invalid'')))"

definition int_field :: "string \<Rightarrow> int \<Rightarrow> int \<Rightarrow> InputField" where
  "int_field label maximum dflt =
     \<lparr>if_parse = (\<lambda>value. rbind (positive_int value label maximum) (\<lambda>i. Inr (PInt i))),
      if_required = False, if_default = PInt dflt\<rparr>"

definition all_input_fields :: "(string \<times> InputField) list \<Rightarrow> int \<Rightarrow> (string \<times> InputField) list" where
  "all_input_fields fs max_page_size =
     dict_set (dict_set fs ''offset'' (int_field ''offset'' 10000 0))
       ''limit'' (int_field ''limit'' max_page_size 20)"

definition parse_field :: "(string \<times> pyval) list \<Rightarrow> string \<times> InputField \<Rightarrow> (string \<times> pyval) result" where
  "parse_field payload = (\<lambda>(name, field).
     case map_of payload name of
       Some v \<Rightarrow> rbind (if_parse field v) (\<lambda>w. Inr (name, w))
     | None \<Rightarrow> if if_required field then rbind (if_parse field (if_default field)) (\<lambda>w. Inr (name, w))
               else Inr (name, if_default field))"

definition parse_tool_input ::
  "(string \<times> pyval) list \<Rightarrow> (string \<times> InputField) list \<Rightarrow> int \<Rightarrow> (string \<times> pyval) list result" where
  "parse_tool_input payload fs max_page_size =
     (let all_fields = all_input_fields fs max_page_size in
      if \<not> set (dkeys payload) \<subseteq> set (dkeys all_fields) \<or>
         \<not> list_all (\<lambda>(name, field). if_required field \<longrightarrow> name \<in> set (dkeys payload)) all_fields
      then Inl (invalid_input ''tool.input fields are invalid'')
      else rbind (rmap (parse_field payload) all_fields) (\<lambda>parsed.
        if py_eq (dget parsed ''limit'') (PInt 0) then Inl (invalid_input ''limit is invalid'')
        else Inr parsed))"

definition metadata_fields :: "string list" where
  "metadata_fields = [''invocation_id'', ''plan_version'', ''step_id'', ''args_digest'']"

definition parse_metadata ::
  "(string \<times> pyval) list \<Rightarrow> (string option \<times> int option \<times> string option \<times> string option) result" where
  "parse_metadata body =
     (let present = map (\<lambda>f. f \<in> set (dkeys body)) metadata_fields in
      if True \<in> set present \<and> False \<in> set present
      then Inl (invalid_input ''workflow invocation metadata is incomplete'')
      else if False \<notin> set present then
        rbind (hex_digest (dget body ''invocation_id'') ''invocation_id'') (\<lambda>invocation_id.
        rbind (positive_int (dget body ''plan_version'') ''plan_version'' 10000) (\<lambda>plan_version.
        if plan_version < 1 then Inl (invalid_input ''plan_version is invalid'') else
        rbind (gw_required_text (dget body ''step_id'') ''step_id'' 64) (\<lambda>step_id.
        rbind (hex_digest (dget body ''args_digest'') ''args_digest'') (\<lambda>args_digest.
        Inr (Some invocation_id, Some plan_version, Some step_id, Some args_digest)))))
      else Inr (None, None, None, None))"

definition request_required :: "string list" where
  "request_required = [''schema_version'', ''run_id'', ''capability'', ''correlation_id'', ''tool'']"

definition parse_request :: "pyval \<Rightarrow> GatewayRequest result" where
  "parse_request payload =
     rbind (strict_object payload (request_required @ metadata_fields) ''request'' (Some request_required)) (\<lambda>body.
     if \<not> py_eq (dget body ''schema_version'') (PStr SCHEMA_VERSION)
     then Inl (GatewayFault ''UNSUPPORTED_VERSION'' ''schema version is not supported'' 400) else
     rbind (strict_object (dget body ''tool'') [''name'', ''version'', ''input''] ''tool'' None) (\<lambda>tool.
     case dget tool ''input'' of
       PDict input \<Rightarrow>
         rbind (parse_metadata body) (\<lambda>(invocation_id, plan_version, step_id, args_digest).
         rbind (canonical_uuid (dget body ''run_id'') ''run_id'') (\<lambda>run_id.
         rbind (gw_required_text (dget body ''capability'') ''capability'' 512) (\<lambda>capability.
         rbind (correlation_id (dget body ''correlation_id'')) (\<lambda>cid.
         rbind (gw_required_text (dget tool ''name'') ''tool.name'' 200) (\<lambda>name.
         rbind (gw_required_text (dget tool ''version'') ''tool.version'' 20) (\<lambda>version.
         Inr \<lparr>rq_run_id = run_id, rq_capability = capability, rq_correlation_id = cid,
              rq_tool = \<lparr>tc_name = name, tc_version = version, tc_input = input\<rparr>,
              rq_invocation_id = invocation_id, rq_plan_version = plan_version,
              rq_step_id = step_id, rq_args_digest = args_digest\<rparr>))))))
     | _ \<Rightarrow> Inl (invalid_input ''tool.input must be an object'')))"

definition error_response :: "pyexc \<Rightarrow> string option \<Rightarrow> pyval" where
  "error_response fault cid =
     PDict [(''ok'', PBool False), (''schema_version'', PStr SCHEMA_VERSION),
       (''correlation_id'', (case cid of None \<Rightarrow> PNone | Some c \<Rightarrow> PStr c)),
       (''error'', PDict [(''code'', PStr (fault_code fault)), (''message'', PStr (fault_message fault)),
         (''retryable'', PBool (fault_code fault \<in> {''TIMEOUT'', ''ERP_ERROR''}))])]"

section \<open>Facts shared with the governance contracts\<close>

text \<open>A fault with one of the given codes: what a fail-closed boundary may raise.\<close>

definition fault_in :: "string set \<Rightarrow> pyexc \<Rightarrow> bool" where
  "fault_in codes e = (\<exists>c m s. e = GatewayFault c m s \<and> c \<in> codes)"

lemma fault_in_invalid [simp]: "''INVALID_INPUT'' \<in> codes \<Longrightarrow> fault_in codes (invalid_input m)"
  by (simp add: fault_in_def invalid_input_def)

lemma fault_in_fault [simp]: "fault_in codes (GatewayFault c m s) \<longleftrightarrow> c \<in> codes"
  by (simp add: fault_in_def)

abbreviation (input) faults :: "string set \<Rightarrow> 'a result \<Rightarrow> bool" where
  "faults codes \<equiv> outcome (fault_in codes) (\<lambda>_. True)"

lemma strict_object_ok:
  "strict_object v fs l r = Inr d \<longleftrightarrow>
     v = PDict d \<and> set (dkeys d) \<subseteq> set fs \<and>
     set (case r of None \<Rightarrow> fs | Some r \<Rightarrow> if r = [] then fs else r) \<subseteq> set (dkeys d)"
  unfolding strict_object_def Let_def by (auto simp: result_simps)

lemma strict_object_faults [outcome_intros]:
  "''INVALID_INPUT'' \<in> codes \<Longrightarrow> faults codes (strict_object v fs l r)"
  unfolding strict_object_def by (intro outcome_intros) simp_all

lemma gw_required_text_ok:
  "gw_required_text v l n = Inr s \<longleftrightarrow> v = PStr s \<and> s \<noteq> [] \<and> length s \<le> n"
  unfolding gw_required_text_def by (auto simp: result_simps)

lemma gw_required_text_faults [outcome_intros]:
  "''INVALID_INPUT'' \<in> codes \<Longrightarrow> faults codes (gw_required_text v l n)"
  unfolding gw_required_text_def by (intro outcome_intros) simp_all

lemma length_py_lower [simp]: "length (py_lower s) = length s"
  by (simp add: py_lower_def)

lemma uuid_shape_length: "uuid_shape s \<Longrightarrow> length s = 36"
  by (auto simp: uuid_shape_def)

lemma canonical_uuid_ok:
  "canonical_uuid v l = Inr u \<longleftrightarrow> (\<exists>t. v = PStr t \<and> u = py_lower t \<and> uuid_shape u)"
proof
  assume "canonical_uuid v l = Inr u"
  then show "\<exists>t. v = PStr t \<and> u = py_lower t \<and> uuid_shape u"
    by (auto simp: canonical_uuid_def rbind_eq_Inr gw_required_text_ok dest: py_UUID_shape
        split: option.splits if_splits)
next
  assume "\<exists>t. v = PStr t \<and> u = py_lower t \<and> uuid_shape u"
  then obtain t where t: "v = PStr t" "u = py_lower t" "uuid_shape (py_lower t)" by auto
  then have "length t = 36" using uuid_shape_length by fastforce
  then have "gw_required_text v l 36 = Inr t" using t by (auto simp: gw_required_text_ok)
  then show "canonical_uuid v l = Inr u"
    using t by (simp add: canonical_uuid_def py_UUID_of_shape)
qed

lemma canonical_uuid_text:
  "py_lower t = u \<Longrightarrow> uuid_shape u \<Longrightarrow> canonical_uuid (PStr t) l = Inr u"
  unfolding canonical_uuid_ok by blast

lemma canonical_uuid_faults [outcome_intros]:
  "''INVALID_INPUT'' \<in> codes \<Longrightarrow> faults codes (canonical_uuid v l)"
  unfolding canonical_uuid_def by (intro outcome_intros) simp_all

lemma hex_digest_ok:
  "hex_digest v l = Inr s \<longleftrightarrow> v = PStr s \<and> length s = 64 \<and> list_all is_lower_hex s"
proof -
  have len: "t \<noteq> [] \<and> length t \<le> 64" if "length t = 64" for t :: string using that by fastforce
  show ?thesis
    unfolding hex_digest_def rbind_eq_Inr gw_required_text_ok if_error_ok sum.inject using len by blast
qed

lemma hex_digest_faults [outcome_intros]:
  "''INVALID_INPUT'' \<in> codes \<Longrightarrow> faults codes (hex_digest v l)"
  unfolding hex_digest_def by (intro outcome_intros) simp_all

lemma positive_int_ok: "positive_int v l m = Inr i \<longleftrightarrow> v = PInt i \<and> 0 \<le> i \<and> i \<le> m"
  unfolding positive_int_def by (auto simp: result_simps)

lemma positive_int_faults [outcome_intros]:
  "''INVALID_INPUT'' \<in> codes \<Longrightarrow> faults codes (positive_int v l m)"
  unfolding positive_int_def by (intro outcome_intros) simp_all

text \<open>The workflow metadata is absent or complete.\<close>

definition metadata_ok ::
  "string option \<times> int option \<times> string option \<times> string option \<Rightarrow> bool" where
  "metadata_ok m \<longleftrightarrow> m = (None, None, None, None) \<or>
    (\<exists>i p s a. m = (Some i, Some p, Some s, Some a) \<and>
      length i = 64 \<and> list_all is_lower_hex i \<and> 1 \<le> p \<and> p \<le> 10000 \<and>
      s \<noteq> [] \<and> length s \<le> 64 \<and> length a = 64 \<and> list_all is_lower_hex a)"

lemma parse_metadata_outcome:
  "''INVALID_INPUT'' \<in> codes \<Longrightarrow> outcome (fault_in codes) metadata_ok (parse_metadata body)"
  unfolding parse_metadata_def
  by (intro outcome_intros)
    (simp_all add: metadata_ok_def hex_digest_ok positive_int_ok gw_required_text_ok)

lemma parse_metadata_faults [outcome_intros]:
  "''INVALID_INPUT'' \<in> codes \<Longrightarrow> faults codes (parse_metadata body)"
  by (rule outcome_mono [OF parse_metadata_outcome]) simp_all

lemma rmap_parse_field_keys:
  "rmap (parse_field payload) fs = Inr ps \<Longrightarrow> map fst ps = map fst fs"
  by (induction fs arbitrary: ps) (auto simp: result_simps parse_field_def split: option.splits if_splits)

lemma rmap_parse_field_lookup:
  assumes "rmap (parse_field payload) fs = Inr ps" and "map_of fs k = Some f"
  shows "\<exists>w. map_of ps k = Some w \<and> parse_field payload (k, f) = Inr (k, w)"
  using assms
  by (induction fs arbitrary: ps)
    (auto simp: result_simps parse_field_def split: option.splits if_splits)

lemma all_input_fields_lookup:
  "map_of (all_input_fields fs m) ''offset'' = Some (int_field ''offset'' 10000 0)"
  "map_of (all_input_fields fs m) ''limit'' = Some (int_field ''limit'' m 20)"
  by (simp_all add: all_input_fields_def map_of_dict_set)

lemma int_field_value:
  assumes "parse_field payload (k, int_field l m d) = Inr (k, w)"
  shows "(\<exists>i. w = PInt i \<and> 0 \<le> i \<and> i \<le> m) \<or> w = PInt d"
  using assms by (auto simp: parse_field_def int_field_def result_simps positive_int_ok split: option.splits)

section \<open>Properties\<close>

text \<open>
  C16: the gateway envelope is closed and typed.  A request that parses carried schema version 1
  and only known fields; its run and correlation ids are canonical lower-case UUIDs, its
  capability is 1 to 512 characters, and its workflow metadata is either absent altogether or
  complete, with two SHA-256 digests, a plan version from 1 to 10000 and a step id.
\<close>

theorem parse_request_sound:
  assumes "parse_request payload = Inr r"
  shows "(\<exists>body. payload = PDict body \<and> set (dkeys body) \<subseteq> set (request_required @ metadata_fields) \<and>
            dget body ''schema_version'' = PStr SCHEMA_VERSION) \<and>
    uuid_shape (rq_run_id r) \<and> uuid_shape (rq_correlation_id r) \<and>
    0 < length (rq_capability r) \<and> length (rq_capability r) \<le> 512 \<and>
    metadata_ok (rq_invocation_id r, rq_plan_version r, rq_step_id r, rq_args_digest r)"
proof -
  from assms obtain body where
    body: "strict_object payload (request_required @ metadata_fields) ''request'' (Some request_required) = Inr body"
    unfolding parse_request_def by (elim rbind_okE)
  then have payload: "payload = PDict body" "set (dkeys body) \<subseteq> set (request_required @ metadata_fields)"
    by (simp_all add: strict_object_ok)
  have "outcome (\<lambda>_. True) (\<lambda>r. dget body ''schema_version'' = PStr SCHEMA_VERSION \<and>
      uuid_shape (rq_run_id r) \<and> uuid_shape (rq_correlation_id r) \<and>
      0 < length (rq_capability r) \<and> length (rq_capability r) \<le> 512 \<and>
      metadata_ok (rq_invocation_id r, rq_plan_version r, rq_step_id r, rq_args_digest r))
    (parse_request payload)"
    unfolding parse_request_def body rbind_Inr
    by (intro outcome_intros outcome_True)
      (auto simp: canonical_uuid_ok correlation_id_def gw_required_text_ok
        dest!: outcome_okD [OF parse_metadata_outcome [OF UNIV_I]])
  with assms payload show ?thesis by auto
qed

definition sample_request :: pyval where
  "sample_request = PDict
     [(''schema_version'', PStr ''1''), (''run_id'', PStr ''0F8FAD5B-D9CB-469F-A165-70867728950E''),
      (''capability'', PStr ''cap''), (''correlation_id'', PStr ''0f8fad5b-d9cb-469f-a165-70867728950e''),
      (''tool'', PDict [(''name'', PStr ''item.lookup''), (''version'', PStr ''1''), (''input'', PDict [])])]"

lemma sample_uuid: "uuid_shape ''0f8fad5b-d9cb-469f-a165-70867728950e''"
  unfolding uuid_shape_def
  by (rule exI [of _ "''0f8fad5b''"], rule exI [of _ "''d9cb''"], rule exI [of _ "''469f''"],
      rule exI [of _ "''a165''"], rule exI [of _ "''70867728950e''"]) (simp add: is_lower_hex_def)

lemma sample_uuid_upper: "py_lower ''0F8FAD5B-D9CB-469F-A165-70867728950E'' = ''0f8fad5b-d9cb-469f-a165-70867728950e''"
  by code_simp

lemma sample_uuid_lower: "py_lower ''0f8fad5b-d9cb-469f-a165-70867728950e'' = ''0f8fad5b-d9cb-469f-a165-70867728950e''"
  by code_simp

lemma sample_request_parses:
  "parse_request sample_request = Inr
     \<lparr>rq_run_id = ''0f8fad5b-d9cb-469f-a165-70867728950e'', rq_capability = ''cap'',
      rq_correlation_id = ''0f8fad5b-d9cb-469f-a165-70867728950e'',
      rq_tool = \<lparr>tc_name = ''item.lookup'', tc_version = ''1'', tc_input = []\<rparr>,
      rq_invocation_id = None, rq_plan_version = None, rq_step_id = None, rq_args_digest = None\<rparr>"
proof -
  have 1: "canonical_uuid (PStr ''0F8FAD5B-D9CB-469F-A165-70867728950E'') l = Inr ''0f8fad5b-d9cb-469f-a165-70867728950e''"
    "canonical_uuid (PStr ''0f8fad5b-d9cb-469f-a165-70867728950e'') l = Inr ''0f8fad5b-d9cb-469f-a165-70867728950e''" for l
    by (rule canonical_uuid_text [OF sample_uuid_upper sample_uuid],
        rule canonical_uuid_text [OF sample_uuid_lower sample_uuid])
  show ?thesis
    by (simp add: parse_request_def sample_request_def strict_object_def request_required_def metadata_fields_def
        dkeys_def SCHEMA_VERSION_def parse_metadata_def 1 gw_required_text_def correlation_id_def)
qed

theorem parse_request_sound_witness:
  "uuid_shape ''0f8fad5b-d9cb-469f-a165-70867728950e'' \<and> is_ok (parse_request sample_request)"
  using parse_request_sound [OF sample_request_parses] sample_request_parses by simp




end
