(* ===== verification/Governance_Contracts.thy ===== *)
theory Governance_Contracts
  imports Gateway_Contract
begin

text \<open>
  The parser and canonicalisation boundary of governed ERP actions, \<open>governance/contracts.py\<close>:
  scalar parsers, the payload grammars of the thirteen action types, the proposed action with
  its content digest, policy and approval decisions, and execution receipts.  Operations follow
  the order of the source, so that the first check that fails decides the fault.
\<close>

section \<open>Constants\<close>

definition P2P_SCHEMA_VERSION :: string where "P2P_SCHEMA_VERSION = ''2''"

definition ACTION_TYPES :: "string list" where
  "ACTION_TYPES =
     [''CREATE_MR_DRAFT'', ''CREATE_PO_DRAFT'', ''SUBMIT_PO'', ''CANCEL_PO'', ''CREATE_PR_DRAFT'',
      ''SUBMIT_PR'', ''CANCEL_PR'', ''CREATE_PI_DRAFT'', ''SUBMIT_PI'', ''CANCEL_PI'',
      ''CREATE_PAYMENT_ENTRY_DRAFT'', ''SUBMIT_PAYMENT_ENTRY'', ''CANCEL_PAYMENT_ENTRY'']"

definition P2P_ACTION_TYPES :: "string list" where
  "P2P_ACTION_TYPES = filter (\<lambda>t. t \<notin> {''CREATE_MR_DRAFT'', ''CREATE_PO_DRAFT''}) ACTION_TYPES"

definition ENABLED_P2P_ACTION_TYPES :: "string list" where
  "ENABLED_P2P_ACTION_TYPES =
     [''SUBMIT_PO'', ''CANCEL_PO'', ''CREATE_PR_DRAFT'', ''SUBMIT_PR'', ''CANCEL_PR'',
      ''CREATE_PI_DRAFT'', ''SUBMIT_PI'', ''CANCEL_PI'', ''CREATE_PAYMENT_ENTRY_DRAFT'',
      ''SUBMIT_PAYMENT_ENTRY'', ''CANCEL_PAYMENT_ENTRY'']"

definition RISK_CLASSES :: "string list" where
  "RISK_CLASSES = [''LOW'', ''MEDIUM'', ''HIGH'']"

definition APPROVAL_CLASSES :: "string list" where
  "APPROVAL_CLASSES = [''INITIATOR_CONFIRMATION'', ''INDEPENDENT_APPROVER'']"

definition DRAFT_APPROVAL_CLASS :: string where "DRAFT_APPROVAL_CLASS = ''INITIATOR_CONFIRMATION''"
definition REVALIDATION_RULE :: string where "REVALIDATION_RULE = ''FULL_PRE_EXECUTE_RECHECK_V1''"
definition P2P_REVALIDATION_RULE :: string where "P2P_REVALIDATION_RULE = ''FULL_PRE_EXECUTE_RECHECK_P2P_V1''"

definition TARGET_DOCTYPES :: "(string \<times> string) list" where
  "TARGET_DOCTYPES =
     [(''CREATE_MR_DRAFT'', ''Material Request''), (''CREATE_PO_DRAFT'', ''Purchase Order''),
      (''SUBMIT_PO'', ''Purchase Order''), (''CANCEL_PO'', ''Purchase Order''),
      (''CREATE_PR_DRAFT'', ''Purchase Receipt''), (''SUBMIT_PR'', ''Purchase Receipt''),
      (''CANCEL_PR'', ''Purchase Receipt''), (''CREATE_PI_DRAFT'', ''Purchase Invoice''),
      (''SUBMIT_PI'', ''Purchase Invoice''), (''CANCEL_PI'', ''Purchase Invoice''),
      (''CREATE_PAYMENT_ENTRY_DRAFT'', ''Payment Entry''), (''SUBMIT_PAYMENT_ENTRY'', ''Payment Entry''),
      (''CANCEL_PAYMENT_ENTRY'', ''Payment Entry'')]"

definition ACTION_SCHEMA_VERSIONS :: "(string \<times> string) list" where
  "ACTION_SCHEMA_VERSIONS =
     [(''CREATE_MR_DRAFT'', SCHEMA_VERSION), (''CREATE_PO_DRAFT'', SCHEMA_VERSION)] @
     map (\<lambda>t. (t, P2P_SCHEMA_VERSION)) P2P_ACTION_TYPES"

definition RECEIPT_STATES :: "string list" where
  "RECEIPT_STATES =
     [''SUCCEEDED'', ''FAILED'', ''RECONCILIATION_REQUIRED'', ''RECONCILED_SUCCESS'',
      ''RECONCILED_FAILURE'', ''MANUAL_INTERVENTION'']"

definition RESPONSE_CATEGORIES :: "string list" where
  "RESPONSE_CATEGORIES =
     [''ERP_SUCCESS'', ''ERP_VALIDATION_ERROR'', ''ERP_PERMISSION_ERROR'', ''ERP_NOT_FOUND'',
      ''TIMEOUT'', ''UNCERTAIN_RESULT'', ''CONFLICT'']"

section \<open>Scalars\<close>

definition gov_invalid :: "string \<Rightarrow> bool \<Rightarrow> pyexc" where
  "gov_invalid msg conflict =
     GatewayFault (if conflict then ''CONFLICT'' else ''INVALID_INPUT'') msg (if conflict then 409 else 400)"

text \<open>The fault every scalar parser raises.\<close>

definition bad_field :: "string \<Rightarrow> pyexc" where
  "bad_field label = gov_invalid (label @ '' is invalid'') False"

definition required_text :: "pyval \<Rightarrow> string \<Rightarrow> nat \<Rightarrow> string result" where
  "required_text value label maximum =
     (case value of
        PStr s \<Rightarrow> if s = [] \<or> length s > maximum \<or> py_strip s = [] then Inl (bad_field label) else Inr s
      | _ \<Rightarrow> Inl (bad_field label))"

definition gov_uuid :: "pyval \<Rightarrow> string \<Rightarrow> string result" where
  "gov_uuid value label =
     rbind (required_text value label 36) (\<lambda>text.
       case py_UUID text of
         None \<Rightarrow> Inl (bad_field label)
       | Some normalized \<Rightarrow>
           if py_lower text \<noteq> normalized then Inl (bad_field label) else Inr normalized)"

definition digest_shape :: "string \<Rightarrow> bool" where
  "digest_shape s = (length s = 64 \<and> list_all is_lower_hex s)"

definition gov_digest :: "pyval \<Rightarrow> string \<Rightarrow> string result" where
  "gov_digest value label =
     rbind (required_text value label 64) (\<lambda>text.
       if \<not> digest_shape text then Inl (bad_field label) else Inr text)"

definition gov_timestamp :: "pylib \<Rightarrow> pyval \<Rightarrow> string \<Rightarrow> string result" where
  "gov_timestamp lib value label =
     rbind (required_text value label 64) (\<lambda>text.
       case utc_timestamp lib (replace_all ''Z'' ''+00:00'' text) of
         TsValueError \<Rightarrow> Inl (bad_field label)
       | TsNaive \<Rightarrow> Inl (gov_invalid (label @ '' must include a timezone'') False)
       | TsOverflow \<Rightarrow> Inl OverflowError
       | TsUtc normalized \<Rightarrow> Inr normalized)"

definition gov_date :: "pyval \<Rightarrow> string \<Rightarrow> string result" where
  "gov_date value label =
     rbind (required_text value label 10) (\<lambda>text.
       if \<not> date_shape text then Inl (bad_field label)
       else if \<not> py_strptime_ymd text then Inl (bad_field label) else Inr text)"

definition dec_min :: pydec where "dec_min = DFin False 1 (- 18)"

text \<open>\<open>Decimal(str(value))\<close> for a text or an integer; \<^const>\<open>None\<close> is any other type, or
  \<open>InvalidOperation\<close>, or the \<open>ValueError\<close> of an integer too long to print.\<close>

definition decimal_of :: "pyval \<Rightarrow> pydec option" where
  "decimal_of value =
     (case value of
        PStr s \<Rightarrow> py_Decimal s
      | PInt i \<Rightarrow> if int_digits_ok i then py_Decimal (int_str i) else None
      | _ \<Rightarrow> None)"

definition gov_decimal :: "pyval \<Rightarrow> string \<Rightarrow> pydec \<Rightarrow> string result" where
  "gov_decimal value label minimum =
     (case decimal_of value of
        None \<Rightarrow> Inl (bad_field label)
      | Some number \<Rightarrow>
          if \<not> dec_is_finite number \<or> dec_less number minimum then Inl (bad_field label)
          else rbind (dec_normalize number) (\<lambda>n.
            let normalized = dec_format_f n in
            Inr (if normalized = ''-0'' \<or> normalized = [] then ''0'' else normalized)))"

definition gov_object ::
  "pyval \<Rightarrow> string list \<Rightarrow> string list \<Rightarrow> string \<Rightarrow> (string \<times> pyval) list result" where
  "gov_object value fs required label =
     (case value of
        PDict d \<Rightarrow>
          if \<not> set (dkeys d) \<subseteq> set fs \<or> \<not> set required \<subseteq> set (dkeys d)
          then Inl (gov_invalid (label @ '' fields are invalid'') False) else Inr d
      | _ \<Rightarrow> Inl (gov_invalid (label @ '' must be an object'') False))"

definition gov_list :: "pyval \<Rightarrow> string \<Rightarrow> nat \<Rightarrow> pyval list result" where
  "gov_list value label maximum =
     (case value of
        PList xs \<Rightarrow> if xs = [] \<or> length xs > maximum then Inl (bad_field label) else Inr xs
      | _ \<Rightarrow> Inl (bad_field label))"

definition ref_list :: "pyval \<Rightarrow> string \<Rightarrow> string list result" where
  "ref_list value label =
     rbind (gov_list value label 128) (\<lambda>values.
     rbind (rmap (\<lambda>item. required_text item (label @ '' item'') 256) values) (\<lambda>texts.
       let refs = sort (remdups texts) in
       if length refs \<noteq> length values
       then Inl (gov_invalid (label @ '' contains duplicate references'') False) else Inr refs))"

definition key_char :: "char \<Rightarrow> bool" where
  "key_char c = (is_alnum_ascii c \<or> c \<in> set ''._:-'')"

definition idempotency_shape :: "string \<Rightarrow> bool" where
  "idempotency_shape s = (8 \<le> length s \<and> length s \<le> 128 \<and> is_alnum_ascii (hd s) \<and> list_all key_char (tl s))"

definition idempotency_key :: "pyval \<Rightarrow> string result" where
  "idempotency_key value =
     rbind (required_text value ''idempotency_key'' 128) (\<lambda>text.
       if \<not> idempotency_shape text then Inl (bad_field ''idempotency_key'') else Inr text)"

section \<open>Payloads\<close>

text \<open>The loop body shared by the optional text fields: an absent or null entry is dropped.\<close>

definition add_optional_text ::
  "(string \<times> pyval) list \<Rightarrow> string \<Rightarrow> nat \<Rightarrow> (string \<times> pyval) list \<Rightarrow> (string \<times> pyval) list result" where
  "add_optional_text raw key maximum parsed =
     (if dget raw key = PNone then Inr parsed
      else rbind (required_text (dget raw key) key maximum) (\<lambda>s. Inr (dict_set parsed key (PStr s))))"

definition item_fields :: "string \<Rightarrow> string list" where
  "item_fields action_type =
     (if action_type = ''CREATE_MR_DRAFT''
      then [''item_code'', ''qty'', ''uom'', ''schedule_date'', ''warehouse'', ''description'']
      else [''item_code'', ''qty'', ''uom'', ''rate'', ''schedule_date'', ''warehouse'', ''description'', ''material_request''])"

definition item_required :: "string \<Rightarrow> string list" where
  "item_required action_type =
     (if action_type = ''CREATE_MR_DRAFT''
      then [''item_code'', ''qty'', ''schedule_date'', ''warehouse'']
      else [''item_code'', ''qty'', ''uom'', ''rate'', ''schedule_date'', ''warehouse''])"

definition parse_item :: "pyval \<Rightarrow> string \<Rightarrow> nat \<Rightarrow> pyval result" where
  "parse_item value action_type index =
     rbind (gov_object value (item_fields action_type) (item_required action_type)
        (''payload.items['' @ nat_str index @ '']'')) (\<lambda>raw.
     rbind (required_text (dget raw ''item_code'') ''item_code'' 140) (\<lambda>item_code.
     rbind (gov_decimal (dget raw ''qty'') ''qty'' dec_min) (\<lambda>qty.
     rbind (gov_date (dget raw ''schedule_date'') ''schedule_date'') (\<lambda>schedule_date.
     rbind (required_text (dget raw ''warehouse'') ''warehouse'' 140) (\<lambda>warehouse.
     rbind (add_optional_text raw ''uom'' 140
        [(''item_code'', PStr item_code), (''qty'', PStr qty),
         (''schedule_date'', PStr schedule_date), (''warehouse'', PStr warehouse)]) (\<lambda>p1.
     rbind (add_optional_text raw ''description'' 2000 p1) (\<lambda>p2.
     rbind (add_optional_text raw ''material_request'' 140 p2) (\<lambda>p3.
       if action_type = ''CREATE_PO_DRAFT''
       then rbind (gov_decimal (dget raw ''rate'') ''rate'' dec_min) (\<lambda>rate.
         Inr (PDict (dict_set p3 ''rate'' (PStr rate))))
       else Inr (PDict p3)))))))))"

definition parse_source_payload :: "string \<Rightarrow> pyval \<Rightarrow> (string \<times> pyval) list result" where
  "parse_source_payload action_type value =
     rbind (gov_object value [''company'', ''source_doctype'', ''source_name'', ''reason'']
        [''company'', ''source_doctype'', ''source_name''] ''payload'') (\<lambda>raw.
     case map_of TARGET_DOCTYPES action_type of
       None \<Rightarrow> Inl KeyError
     | Some expected \<Rightarrow>
     rbind (required_text (dget raw ''source_doctype'') ''source_doctype'' 80) (\<lambda>source_doctype.
     if source_doctype \<noteq> expected then Inl (bad_field ''source_doctype'') else
     rbind (required_text (dget raw ''company'') ''company'' 140) (\<lambda>company.
     rbind (required_text (dget raw ''source_name'') ''source_name'' 140) (\<lambda>source_name.
     add_optional_text raw ''reason'' 2000
       [(''company'', PStr company), (''source_doctype'', PStr source_doctype), (''source_name'', PStr source_name)]))))"

definition line_required :: "string \<Rightarrow> string list" where
  "line_required action_type =
     [''source_row'', ''item_code'', ''qty''] @
     (if action_type \<in> {''CREATE_PR_DRAFT'', ''CREATE_PI_DRAFT''} then [''uom'', ''warehouse''] else []) @
     (if action_type = ''CREATE_PI_DRAFT'' then [''rate''] else [])"

definition parse_line_item :: "string \<Rightarrow> string list \<Rightarrow> nat \<Rightarrow> pyval \<Rightarrow> (string \<times> pyval) result" where
  "parse_line_item action_type source_rows index raw =
     rbind (gov_object raw
        [''source_row'', ''item_code'', ''qty'', ''uom'', ''warehouse'', ''rate'', ''description'']
        (line_required action_type) (''payload.items['' @ nat_str index @ '']'')) (\<lambda>item.
     rbind (required_text (dget item ''source_row'') ''source_row'' 140) (\<lambda>source_row.
     if source_row \<in> set source_rows then Inl (gov_invalid ''source_row must be unique'' False) else
     rbind (required_text (dget item ''item_code'') ''item_code'' 140) (\<lambda>item_code.
     rbind (gov_decimal (dget item ''qty'') ''qty'' dec_min) (\<lambda>qty.
     rbind (add_optional_text item ''uom'' 140
       [(''source_row'', PStr source_row), (''item_code'', PStr item_code), (''qty'', PStr qty)]) (\<lambda>p1.
     rbind (add_optional_text item ''warehouse'' 140 p1) (\<lambda>p2.
     rbind (add_optional_text item ''description'' 2000 p2) (\<lambda>p3.
       if action_type = ''CREATE_PI_DRAFT''
       then rbind (gov_decimal (dget item ''rate'') ''rate'' dec_min) (\<lambda>rate.
         Inr (source_row, PDict (dict_set p3 ''rate'' (PStr rate))))
       else Inr (source_row, PDict p3))))))))"

fun parse_line_rows :: "string \<Rightarrow> string list \<Rightarrow> nat \<Rightarrow> pyval list \<Rightarrow> pyval list result" where
  "parse_line_rows action_type source_rows index [] = Inr []"
| "parse_line_rows action_type source_rows index (raw # rest) =
     rbind (parse_line_item action_type source_rows index raw) (\<lambda>(source_row, parsed).
     rbind (parse_line_rows action_type (source_row # source_rows) (Suc index) rest) (\<lambda>result.
       Inr (parsed # result)))"

definition parse_line_items :: "pyval \<Rightarrow> string \<Rightarrow> pyval list result" where
  "parse_line_items value action_type =
     rbind (gov_list value ''items'' 100) (\<lambda>raw_items. parse_line_rows action_type [] 0 raw_items)"

definition parse_draft_payload :: "string \<Rightarrow> pyval \<Rightarrow> (string \<times> pyval) list result" where
  "parse_draft_payload action_type value =
     rbind (gov_object value
        [''company'', ''source_doctype'', ''source_name'', ''transaction_date'', ''items'', ''reason'']
        [''company'', ''source_doctype'', ''source_name'', ''transaction_date'', ''items''] ''payload'') (\<lambda>raw.
     rbind (required_text (dget raw ''source_doctype'') ''source_doctype'' 80) (\<lambda>source_doctype.
     if source_doctype \<notin> {''Purchase Order'', ''Purchase Receipt''} then Inl (bad_field ''source_doctype'')
     else if action_type = ''CREATE_PR_DRAFT'' \<and> source_doctype \<noteq> ''Purchase Order'' then Inl (bad_field ''source_doctype'')
     else if action_type = ''CREATE_PI_DRAFT'' \<and> source_doctype \<noteq> ''Purchase Receipt'' then Inl (bad_field ''source_doctype'')
     else
     rbind (required_text (dget raw ''company'') ''company'' 140) (\<lambda>company.
     rbind (required_text (dget raw ''source_name'') ''source_name'' 140) (\<lambda>source_name.
     rbind (gov_date (dget raw ''transaction_date'') ''transaction_date'') (\<lambda>transaction_date.
     rbind (parse_line_items (dget raw ''items'') action_type) (\<lambda>items.
     add_optional_text raw ''reason'' 2000
       [(''company'', PStr company), (''source_doctype'', PStr source_doctype), (''source_name'', PStr source_name),
        (''transaction_date'', PStr transaction_date), (''items'', PList items)]))))))"

definition payment_required :: "string list" where
  "payment_required =
     [''company'', ''source_doctype'', ''source_name'', ''party_type'', ''party'', ''payment_type'', ''posting_date'',
      ''paid_from'', ''paid_to'', ''paid_amount'', ''received_amount'', ''references'']"

definition parse_reference :: "nat \<Rightarrow> pyval \<Rightarrow> pyval result" where
  "parse_reference index reference =
     rbind (gov_object reference [''reference_doctype'', ''reference_name'', ''allocated_amount'']
        [''reference_doctype'', ''reference_name'', ''allocated_amount'']
        (''payload.references['' @ nat_str index @ '']'')) (\<lambda>item.
     if \<not> py_eq (dget item ''reference_doctype'') (PStr ''Purchase Invoice'') then Inl (bad_field ''reference_doctype'') else
     rbind (required_text (dget item ''reference_name'') ''reference_name'' 140) (\<lambda>reference_name.
     rbind (gov_decimal (dget item ''allocated_amount'') ''allocated_amount'' dec_min) (\<lambda>allocated_amount.
     Inr (PDict [(''reference_doctype'', PStr ''Purchase Invoice''), (''reference_name'', PStr reference_name),
       (''allocated_amount'', PStr allocated_amount)]))))"

definition add_optional_currency ::
  "(string \<times> pyval) list \<Rightarrow> string \<Rightarrow> (string \<times> pyval) list \<Rightarrow> (string \<times> pyval) list result" where
  "add_optional_currency raw key parsed =
     (if dget raw key = PNone then Inr parsed
      else rbind (required_text (dget raw key) key 3) (\<lambda>s. Inr (dict_set parsed key (PStr (py_upper s)))))"

definition parse_payment_payload :: "string \<Rightarrow> pyval \<Rightarrow> (string \<times> pyval) list result" where
  "parse_payment_payload action_type value =
     rbind (gov_object value (payment_required @ [''source_currency'', ''target_currency'', ''reason''])
        payment_required ''payload'') (\<lambda>raw.
     rbind (required_text (dget raw ''source_doctype'') ''source_doctype'' 80) (\<lambda>source_doctype.
     if source_doctype \<noteq> ''Purchase Invoice'' then Inl (bad_field ''source_doctype'') else
     rbind (required_text (dget raw ''payment_type'') ''payment_type'' 40) (\<lambda>payment_type.
     if payment_type \<notin> {''Pay'', ''Receive'', ''Internal Transfer''} then Inl (bad_field ''payment_type'') else
     rbind (gov_list (dget raw ''references'') ''references'' 100) (\<lambda>refs.
     rbind (rmap_from 0 parse_reference refs) (\<lambda>parsed_refs.
     rbind (required_text (dget raw ''company'') ''company'' 140) (\<lambda>company.
     rbind (required_text (dget raw ''source_name'') ''source_name'' 140) (\<lambda>source_name.
     rbind (required_text (dget raw ''party_type'') ''party_type'' 40) (\<lambda>party_type.
     rbind (required_text (dget raw ''party'') ''party'' 140) (\<lambda>party.
     rbind (gov_date (dget raw ''posting_date'') ''posting_date'') (\<lambda>posting_date.
     rbind (required_text (dget raw ''paid_from'') ''paid_from'' 140) (\<lambda>paid_from.
     rbind (required_text (dget raw ''paid_to'') ''paid_to'' 140) (\<lambda>paid_to.
     rbind (gov_decimal (dget raw ''paid_amount'') ''paid_amount'' dec_min) (\<lambda>paid_amount.
     rbind (gov_decimal (dget raw ''received_amount'') ''received_amount'' dec_min) (\<lambda>received_amount.
     rbind (add_optional_currency raw ''source_currency''
       [(''company'', PStr company), (''source_doctype'', PStr source_doctype), (''source_name'', PStr source_name),
        (''party_type'', PStr party_type), (''party'', PStr party), (''payment_type'', PStr payment_type),
        (''posting_date'', PStr posting_date), (''paid_from'', PStr paid_from), (''paid_to'', PStr paid_to),
        (''paid_amount'', PStr paid_amount), (''received_amount'', PStr received_amount),
        (''references'', PList parsed_refs)]) (\<lambda>p1.
     rbind (add_optional_currency raw ''target_currency'' p1) (\<lambda>p2.
     add_optional_text raw ''reason'' 2000 p2))))))))))))))))"

definition SOURCE_ACTIONS :: "string list" where
  "SOURCE_ACTIONS =
     [''SUBMIT_PO'', ''CANCEL_PO'', ''SUBMIT_PR'', ''CANCEL_PR'', ''SUBMIT_PI'', ''CANCEL_PI'',
      ''SUBMIT_PAYMENT_ENTRY'', ''CANCEL_PAYMENT_ENTRY'']"

definition parse_p2p_payload :: "string \<Rightarrow> pyval \<Rightarrow> (string \<times> pyval) list result" where
  "parse_p2p_payload action_type value =
     (if action_type \<in> set SOURCE_ACTIONS then parse_source_payload action_type value
      else if action_type \<in> {''CREATE_PR_DRAFT'', ''CREATE_PI_DRAFT''} then parse_draft_payload action_type value
      else if action_type = ''CREATE_PAYMENT_ENTRY_DRAFT'' then parse_payment_payload action_type value
      else Inl (bad_field ''action_type''))"

definition MR_FIELDS :: "string list" where
  "MR_FIELDS = [''company'', ''transaction_date'', ''material_request_type'', ''items'']"

definition PO_FIELDS :: "string list" where
  "PO_FIELDS = [''company'', ''supplier'', ''transaction_date'', ''schedule_date'', ''currency'', ''buying_price_list'', ''items'']"

definition MATERIAL_TYPES :: "string list" where
  "MATERIAL_TYPES = [''Purchase'', ''Manufacture'', ''Material Transfer'', ''Material Issue'', ''Subcontracting'']"

definition parse_payload :: "string \<Rightarrow> pyval \<Rightarrow> (string \<times> pyval) list result" where
  "parse_payload action_type value =
     (if action_type \<noteq> ''CREATE_MR_DRAFT'' \<and> action_type \<noteq> ''CREATE_PO_DRAFT'' then
        (if action_type \<in> set P2P_ACTION_TYPES then parse_p2p_payload action_type value
         else Inl (bad_field ''action_type''))
      else
        (let fs = (if action_type = ''CREATE_MR_DRAFT'' then MR_FIELDS else PO_FIELDS) in
         rbind (gov_object value fs fs ''payload'') (\<lambda>raw.
         rbind (required_text (dget raw ''company'') ''company'' 140) (\<lambda>company.
         rbind (gov_date (dget raw ''transaction_date'') ''transaction_date'') (\<lambda>transaction_date.
         rbind (gov_list (dget raw ''items'') ''items'' 100) (\<lambda>raw_items.
         rbind (rmap_from 0 (\<lambda>index item. parse_item item action_type index) raw_items) (\<lambda>items.
         let parsed = [(''company'', PStr company), (''transaction_date'', PStr transaction_date), (''items'', PList items)] in
         if action_type = ''CREATE_MR_DRAFT'' then
           rbind (required_text (dget raw ''material_request_type'') ''material_request_type'' 40) (\<lambda>material_type.
           if material_type \<notin> set MATERIAL_TYPES then Inl (bad_field ''material_request_type'')
           else Inr (parsed @ [(''material_request_type'', PStr material_type)]))
         else
           rbind (required_text (dget raw ''supplier'') ''supplier'' 140) (\<lambda>supplier.
           rbind (gov_date (dget raw ''schedule_date'') ''schedule_date'') (\<lambda>schedule_date.
           rbind (required_text (dget raw ''currency'') ''currency'' 3) (\<lambda>currency.
           rbind (required_text (dget raw ''buying_price_list'') ''buying_price_list'' 140) (\<lambda>buying_price_list.
           Inr (parsed @ [(''supplier'', PStr supplier), (''schedule_date'', PStr schedule_date),
             (''currency'', PStr (py_upper currency)), (''buying_price_list'', PStr buying_price_list)]))))))))))))"

section \<open>What the scalar parsers accept\<close>

definition good_text :: "nat \<Rightarrow> string \<Rightarrow> bool" where
  "good_text n s = (s \<noteq> [] \<and> length s \<le> n \<and> py_strip s \<noteq> [])"

named_theorems parse_ok \<open>exactly what each parser accepts\<close>

lemma required_text_ok [parse_ok]: "required_text v l n = Inr s \<longleftrightarrow> v = PStr s \<and> good_text n s"
  unfolding required_text_def good_text_def by (auto simp: result_simps)

lemma py_strip_no_space: "s \<noteq> [] \<Longrightarrow> (\<And>c. c \<in> set s \<Longrightarrow> \<not> py_space c) \<Longrightarrow> py_strip s \<noteq> []"
  by (simp add: py_strip_absent)

lemma good_text_no_space:
  "s \<noteq> [] \<Longrightarrow> length s \<le> n \<Longrightarrow> (\<And>c. c \<in> set s \<Longrightarrow> \<not> py_space c) \<Longrightarrow> good_text n s"
  by (simp add: good_text_def py_strip_no_space)

lemma is_lower_hex_not_space: "is_lower_hex c \<Longrightarrow> \<not> py_space c"
  by (auto simp: is_lower_hex_def py_space_def Let_def)

lemma key_char_not_space: "key_char c \<Longrightarrow> \<not> py_space c"
  by (auto simp: key_char_def is_alnum_ascii_def py_space_def Let_def)

lemma digest_shape_good: "digest_shape s \<Longrightarrow> good_text 64 s"
  by (rule good_text_no_space) (auto simp: digest_shape_def list_all_iff dest: is_lower_hex_not_space)

lemma uuid_shape_good: "uuid_shape s \<Longrightarrow> good_text 36 s"
proof (rule good_text_no_space)
  assume u: "uuid_shape s"
  then show "length s \<le> 36" by (simp add: uuid_shape_length)
  show "s \<noteq> []" using u by (auto simp: uuid_shape_def)
  fix c assume "c \<in> set s"
  then have "is_lower_hex c \<or> c = CHR ''-''" using u by (auto simp: uuid_shape_def list_all_iff)
  then show "\<not> py_space c" by (auto simp: is_lower_hex_not_space) (simp add: py_space_def)
qed

lemma date_shape_good: "date_shape s \<Longrightarrow> good_text 10 s"
proof (rule good_text_no_space)
  assume d: "date_shape s"
  then have len: "length s = 10" by (simp add: date_shape_def)
  then show "length s \<le> 10" "s \<noteq> []" by auto
  have split: "s = take 4 s @ [s ! 4] @ take 2 (drop 5 s) @ [s ! 7] @ drop 8 s"
    using len by (simp add: list_eq_iff_nth_eq nth_append nth_Cons' numeral_nat less_Suc_eq)
  fix c assume "c \<in> set s"
  then have "c \<in> set (take 4 s @ [s ! 4] @ take 2 (drop 5 s) @ [s ! 7] @ drop 8 s)" using split by metis
  then have "is_digit c \<or> c = CHR ''-''" using d by (auto simp: date_shape_def list_all_iff)
  then show "\<not> py_space c" by (auto simp: is_digit_def py_space_def Let_def)
qed

lemma idempotency_shape_good: "idempotency_shape s \<Longrightarrow> good_text 128 s"
proof (rule good_text_no_space)
  assume i: "idempotency_shape s"
  then show "length s \<le> 128" "s \<noteq> []" by (auto simp: idempotency_shape_def)
  fix c assume "c \<in> set s"
  then have "key_char c" using i by (cases s) (auto simp: idempotency_shape_def key_char_def list_all_iff)
  then show "\<not> py_space c" by (rule key_char_not_space)
qed

lemma gov_digest_ok [parse_ok]: "gov_digest v l = Inr s \<longleftrightarrow> v = PStr s \<and> digest_shape s"
  unfolding gov_digest_def rbind_eq_Inr required_text_ok if_error_ok using digest_shape_good by auto

lemma gov_date_ok [parse_ok]: "gov_date v l = Inr s \<longleftrightarrow> v = PStr s \<and> date_shape s \<and> py_strptime_ymd s"
  unfolding gov_date_def rbind_eq_Inr required_text_ok if_error_ok using date_shape_good by auto

lemma idempotency_key_ok [parse_ok]: "idempotency_key v = Inr s \<longleftrightarrow> v = PStr s \<and> idempotency_shape s"
  unfolding idempotency_key_def rbind_eq_Inr required_text_ok if_error_ok
  using idempotency_shape_good by auto

lemma gov_uuid_ok: "gov_uuid v l = Inr u \<longleftrightarrow> (\<exists>t. v = PStr t \<and> u = py_lower t \<and> uuid_shape u \<and> good_text 36 t)"
  (is "_ \<longleftrightarrow> ?R")
proof
  assume "gov_uuid v l = Inr u"
  then show ?R
    by (auto simp: gov_uuid_def rbind_eq_Inr required_text_ok dest: py_UUID_shape
        split: option.splits if_splits)
next
  assume ?R
  then show "gov_uuid v l = Inr u"
    using py_UUID_of_shape by (auto simp: gov_uuid_def rbind_eq_Inr required_text_ok)
qed

lemma py_lower_lower_hex: "list_all is_lower_hex s \<Longrightarrow> py_lower s = s"
  by (induction s) (auto simp: py_lower_def lower_char_def is_lower_hex_def Let_def)

lemma py_lower_append [simp]: "py_lower (s @ t) = py_lower s @ py_lower t"
  by (simp add: py_lower_def)

lemma uuid_shape_lower: "uuid_shape u \<Longrightarrow> py_lower u = u"
proof -
  have "lower_char (CHR ''-'') = CHR ''-''" by (simp add: lower_char_dash)
  then have "py_lower (CHR ''-'' # s) = CHR ''-'' # py_lower s" for s by (simp add: py_lower_def)
  then show "uuid_shape u \<Longrightarrow> py_lower u = u" by (auto simp: uuid_shape_def py_lower_lower_hex)
qed

lemma gov_uuid_idem: "gov_uuid v l = Inr u \<Longrightarrow> gov_uuid (PStr u) l' = Inr u"
  by (auto simp: gov_uuid_ok uuid_shape_lower uuid_shape_good)

lemma gov_object_ok [parse_ok]:
  "gov_object v fs r l = Inr d \<longleftrightarrow> v = PDict d \<and> set (dkeys d) \<subseteq> set fs \<and> set r \<subseteq> set (dkeys d)"
  unfolding gov_object_def by (auto simp: result_simps)

lemma gov_list_ok [parse_ok]: "gov_list v l n = Inr xs \<longleftrightarrow> v = PList xs \<and> xs \<noteq> [] \<and> length xs \<le> n"
  unfolding gov_list_def by (auto simp: result_simps)

named_theorems reparse \<open>a normalised value parses to itself\<close>

lemma required_text_reparse [reparse]: "good_text n s \<Longrightarrow> required_text (PStr s) l n = Inr s"
  by (simp add: required_text_ok)

lemma gov_digest_reparse [reparse]: "digest_shape s \<Longrightarrow> gov_digest (PStr s) l = Inr s"
  by (simp add: gov_digest_ok)

lemma gov_date_reparse [reparse]: "date_shape s \<Longrightarrow> py_strptime_ymd s \<Longrightarrow> gov_date (PStr s) l = Inr s"
  by (simp add: gov_date_ok)

lemma idempotency_key_reparse [reparse]: "idempotency_shape s \<Longrightarrow> idempotency_key (PStr s) = Inr s"
  by (simp add: idempotency_key_ok)

lemma gov_object_reparse [reparse]:
  "set (dkeys d) \<subseteq> set fs \<Longrightarrow> set r \<subseteq> set (dkeys d) \<Longrightarrow> gov_object (PDict d) fs r l = Inr d"
  by (simp add: gov_object_ok)

lemma gov_list_reparse [reparse]: "xs \<noteq> [] \<Longrightarrow> length xs \<le> n \<Longrightarrow> gov_list (PList xs) l n = Inr xs"
  by (simp add: gov_list_ok)

lemma gov_uuid_reparse [reparse]: "uuid_shape u \<Longrightarrow> gov_uuid (PStr u) l = Inr u"
  by (simp add: gov_uuid_ok uuid_shape_lower uuid_shape_good)

text \<open>A reference list is returned sorted and free of duplicates, and then reads as itself.\<close>

definition refs_ok :: "string list \<Rightarrow> bool" where
  "refs_ok refs = (refs \<noteq> [] \<and> length refs \<le> 128 \<and> list_all (good_text 256) refs \<and> sorted refs \<and> distinct refs)"

lemma rmap_required_text:
  "rmap (\<lambda>item. required_text item l n) vs = Inr ts \<longleftrightarrow> vs = map PStr ts \<and> list_all (good_text n) ts"
proof (induction vs arbitrary: ts)
  case (Cons v vs)
  have "rmap (\<lambda>item. required_text item l n) (v # vs) = Inr ts \<longleftrightarrow>
      (\<exists>s ss. v = PStr s \<and> good_text n s \<and> vs = map PStr ss \<and> list_all (good_text n) ss \<and> ts = s # ss)"
    by (simp only: rmap.simps rbind_eq_Inr required_text_ok Cons.IH sum.inject) blast
  then show ?case by (cases ts) auto
qed auto

lemma ref_list_sound: "ref_list v l = Inr refs \<Longrightarrow> refs_ok refs"
proof -
  assume "ref_list v l = Inr refs"
  then obtain vs ts where "gov_list v l 128 = Inr vs"
    and "rmap (\<lambda>item. required_text item (l @ '' item'') 256) vs = Inr ts"
    and refs: "refs = sort (remdups ts)" "length (sort (remdups ts)) = length vs"
    unfolding ref_list_def rbind_eq_Inr Let_def if_error_ok by auto
  then have ts: "ts \<noteq> []" "length ts \<le> 128" "list_all (good_text 256) ts" "vs = map PStr ts"
    by (auto simp: parse_ok rmap_required_text)
  with refs have "refs = sort (remdups ts)" "length refs = length ts" by simp_all
  note ts = ts this
  moreover from refs ts have "distinct ts" by (metis distinct_remdups length_map length_remdups_eq length_sort)
  moreover have "sort ts \<noteq> []" using ts(1) by (metis set_empty set_sort)
  ultimately show "refs_ok refs" by (simp add: refs_ok_def list_all_iff distinct_remdups_id)
qed

lemma ref_list_of_ok: "refs_ok refs \<Longrightarrow> ref_list (PList (map PStr refs)) l = Inr refs"
  by (auto simp: ref_list_def result_simps parse_ok rmap_required_text refs_ok_def distinct_remdups_id
      sorted_sort_id Let_def)

subsection \<open>Decimals\<close>

lemma dec_le_total: "dec_le (DFin s c e) (DFin t d f) \<or> dec_le (DFin t d f) (DFin s c e)"
  by (auto simp: Let_def min.commute [of f e])

lemma dec_digits_f_plain: "0 < c \<Longrightarrow> dec_digits_f c e \<noteq> [] \<and> dec_digits_f c e \<noteq> ''-0''"
proof -
  assume "0 < c"
  have "is_digit (hd (nat_str c))" using nat_str_digits [of c] by (cases "nat_str c") auto
  then have "hd (nat_str c) \<noteq> CHR ''-''" by (auto simp: is_digit_def)
  moreover have "nat_str c \<noteq> []" by simp
  ultimately show ?thesis using \<open>0 < c\<close>
    by (cases "nat_str c") (auto simp: dec_digits_f_def Let_def take_Cons' split: if_splits)
qed

lemma gov_decimal_form:
  assumes "gov_decimal v l dec_min = Inr s"
  shows "\<exists>c e. dec_normal c e \<and> - 18 \<le> e + int (ndigits c) - 1 \<and> s = dec_digits_f c e"
proof -
  from assms obtain n m where n: "decimal_of v = Some n" "dec_is_finite n" "\<not> dec_less n dec_min"
    and m: "dec_normalize n = Inr m"
    and s: "s = (let f = dec_format_f m in if f = ''-0'' \<or> f = [] then ''0'' else f)"
    by (auto simp: gov_decimal_def result_simps Let_def split: option.splits if_splits)
  from n(2) obtain b c e where nf: "n = DFin b c e" by (cases n) (auto simp: dec_is_finite_def)
  have le: "dec_le dec_min n"
    using n(3) dec_le_total [of False 1 "- 18" b c e] by (auto simp: dec_less_def dec_min_def nf)
  then have b: "b = False" using dec_min_neg [of c e] by (cases b) (auto simp: dec_min_def nf)
  obtain c' e' where mf: "m = DFin b c' e'"
    using m by (auto simp: nf result_simps split: if_splits prod.splits)
  have "c' \<noteq> 0 \<and> - 18 \<le> e' + int (ndigits c') - 1"
    using dec_normalize_min [of c e b c' e'] le m by (simp add: nf mf b dec_min_def del: dec_normalize.simps)
  moreover have "dec_normal c' e'"
    using dec_normalize_normal [of b c e b c' e'] m calculation by (simp add: nf mf del: dec_normalize.simps)
  moreover have "s = dec_digits_f c' e'"
    using s b dec_digits_f_plain [of c' e'] calculation by (simp add: mf Let_def)
  ultimately show ?thesis by blast
qed

lemma gov_decimal_of_form:
  assumes "dec_normal c e" and "- 18 \<le> e + int (ndigits c) - 1"
  shows "gov_decimal (PStr (dec_digits_f c e)) l dec_min = Inr (dec_digits_f c e)"
proof -
  let ?c = "if 0 \<le> e then c * 10 ^ nat e else c" and ?e = "min e 0"
  have c: "0 < c" using assms(1) by (auto simp: dec_normal_def intro: ccontr)
  have nd: "?e + int (ndigits ?c) - 1 = e + int (ndigits c) - 1"
    using ndigits_mult_pow [OF c, of "nat e"] by simp
  have "dec_le dec_min (DFin False ?c ?e)"
    unfolding dec_min_def dec_min_le_iff using c assms(2) nd by simp
  then have "\<not> dec_less (DFin False ?c ?e) dec_min" by (simp add: dec_less_def)
  then show ?thesis
    using py_Decimal_digits_f [OF assms(1)] dec_normalize_canonical [OF assms(1), of False] dec_digits_f_plain [OF c, of e]
    by (simp add: gov_decimal_def decimal_of_def dec_is_finite_def Let_def del: dec_normalize.simps)
qed

lemma gov_decimal_idem:
  "gov_decimal v l dec_min = Inr s \<Longrightarrow> gov_decimal (PStr s) l' dec_min = Inr s"
  using gov_decimal_form gov_decimal_of_form by blast

section \<open>What the scalar parsers raise\<close>

text \<open>The faults of the parsers, and the two exceptions that escape them.\<close>

definition parser_exc :: "pyexc \<Rightarrow> bool" where
  "parser_exc e \<longleftrightarrow> fault_in {''INVALID_INPUT''} e \<or> e = DecimalOverflow"

lemma parser_exc_invalid [simp]: "parser_exc (gov_invalid m False)" "parser_exc (bad_field l)"
  by (simp_all add: parser_exc_def gov_invalid_def bad_field_def)

lemma required_text_exc [outcome_intros]: "outcome parser_exc (\<lambda>_. True) (required_text v l n)"
  unfolding required_text_def by (intro outcome_intros) simp_all

lemma gov_uuid_exc [outcome_intros]: "outcome parser_exc (\<lambda>_. True) (gov_uuid v l)"
  unfolding gov_uuid_def by (intro outcome_intros) simp_all

lemma gov_digest_exc [outcome_intros]: "outcome parser_exc (\<lambda>_. True) (gov_digest v l)"
  unfolding gov_digest_def by (intro outcome_intros) simp_all

lemma gov_date_exc [outcome_intros]: "outcome parser_exc (\<lambda>_. True) (gov_date v l)"
  unfolding gov_date_def by (intro outcome_intros) simp_all

lemma dec_normalize_exc [outcome_intros]: "outcome parser_exc (\<lambda>_. True) (dec_normalize n)"
  by (cases n) (auto simp: dec_finalize_def Let_def parser_exc_def intro!: outcome_intros)

lemma gov_decimal_exc [outcome_intros]: "outcome parser_exc (\<lambda>_. True) (gov_decimal v l m)"
  unfolding gov_decimal_def by (intro outcome_intros) simp_all

lemma gov_object_exc [outcome_intros]: "outcome parser_exc (\<lambda>_. True) (gov_object v fs r l)"
  unfolding gov_object_def by (intro outcome_intros) simp_all

lemma gov_list_exc [outcome_intros]: "outcome parser_exc (\<lambda>_. True) (gov_list v l n)"
  unfolding gov_list_def by (intro outcome_intros) simp_all

lemma ref_list_exc [outcome_intros]: "outcome parser_exc (\<lambda>_. True) (ref_list v l)"
  unfolding ref_list_def
  by (intro outcome_intros outcome_rmap_any) simp_all

lemma idempotency_key_exc [outcome_intros]: "outcome parser_exc (\<lambda>_. True) (idempotency_key v)"
  unfolding idempotency_key_def by (intro outcome_intros) simp_all

end
