(* ===== verification/Governance_Actions.thy ===== *)
theory Governance_Actions
  imports Governance_Contracts
begin

text \<open>
  The second half of \<open>governance/contracts.py\<close>: strict JSON objects, canonical JSON, the
  proposed action and its digest, policy and approval decisions, and execution receipts.
\<close>

section \<open>JSON transport\<close>

fun reject_duplicate_from :: "(string \<times> pyval) list \<Rightarrow> (string \<times> pyval) list \<Rightarrow> (string \<times> pyval) list result" where
  "reject_duplicate_from result [] = Inr result"
| "reject_duplicate_from result ((key, v) # pairs) =
     (if key \<in> set (dkeys result) then Inl ValueError
      else reject_duplicate_from (dict_set result key v) pairs)"

definition reject_duplicate_pairs :: "(string \<times> pyval) list \<Rightarrow> (string \<times> pyval) list result" where
  "reject_duplicate_pairs pairs = reject_duplicate_from [] pairs"

definition reject_constant :: "string \<Rightarrow> pyval result" where
  "reject_constant value = Inl ValueError"

text \<open>The two hooks \<open>json.loads\<close> calls: on every constant and, innermost first, on every object.\<close>

fun json_hooks :: "pyval \<Rightarrow> pyval result"
and json_hooks_list :: "pyval list \<Rightarrow> pyval list result"
and json_hooks_items :: "(string \<times> pyval) list \<Rightarrow> (string \<times> pyval) list result" where
  "json_hooks (PFloat r) = (if r \<in> {''NaN'', ''Infinity'', ''-Infinity''} then reject_constant r else Inr (PFloat r))"
| "json_hooks (PList xs) = rbind (json_hooks_list xs) (\<lambda>ys. Inr (PList ys))"
| "json_hooks (PDict d) = rbind (json_hooks_items d) (\<lambda>e. rbind (reject_duplicate_pairs e) (\<lambda>r. Inr (PDict r)))"
| "json_hooks v = Inr v"
| "json_hooks_list [] = Inr []"
| "json_hooks_list (x # xs) = rbind (json_hooks x) (\<lambda>y. rbind (json_hooks_list xs) (\<lambda>ys. Inr (y # ys)))"
| "json_hooks_items [] = Inr []"
| "json_hooks_items ((k, v) # d) = rbind (json_hooks v) (\<lambda>w. rbind (json_hooks_items d) (\<lambda>e. Inr ((k, w) # e)))"

definition parse_json_object :: "pylib \<Rightarrow> pyval \<Rightarrow> (string \<times> pyval) list result" where
  "parse_json_object lib value =
     (case value of
        PStr s \<Rightarrow>
          if length (utf8_encode s) > 2000000 then Inl (bad_field ''JSON object'')
          else (case json_tokens lib s of
                  None \<Rightarrow> Inl (bad_field ''JSON object'')
                | Some tokens \<Rightarrow>
                    (case json_hooks tokens of
                       Inr (PDict d) \<Rightarrow> Inr d
                     | _ \<Rightarrow> Inl (bad_field ''JSON object'')))
      | _ \<Rightarrow> Inl (bad_field ''JSON object''))"

definition canonical_json :: "pyval \<Rightarrow> string result" where
  "canonical_json value =
     (case json_dumps value of
        Inl e \<Rightarrow> Inl (bad_field ''canonical JSON value'')
      | Inr text \<Rightarrow> Inr (utf8_encode text))"

section \<open>Proposed actions\<close>

record ProposedAction =
  pa_schema_version :: string
  pa_action_type :: string
  pa_run_id :: string
  pa_action_id :: string
  pa_initiator :: string
  pa_payload :: "(string \<times> pyval) list"
  pa_evidence_refs :: "string list"
  pa_calculation_refs :: "string list"
  pa_risk_class :: string
  pa_approval_class :: string
  pa_snapshot_ref :: string
  pa_idempotency_key :: string
  pa_expires_at :: string
  pa_revalidation_rule :: pyval
  pa_proposal_digest :: string
  pa_summary :: string
  pa_correlation_id :: string

definition action_to_dict :: "ProposedAction \<Rightarrow> bool \<Rightarrow> (string \<times> pyval) list" where
  "action_to_dict a include_display =
     [(''schema_version'', PStr (pa_schema_version a)), (''action_type'', PStr (pa_action_type a)),
      (''run_id'', PStr (pa_run_id a)), (''action_id'', PStr (pa_action_id a)),
      (''initiator'', PStr (pa_initiator a)), (''payload'', PDict (pa_payload a)),
      (''evidence_refs'', PList (map PStr (pa_evidence_refs a))),
      (''calculation_refs'', PList (map PStr (pa_calculation_refs a))),
      (''risk_class'', PStr (pa_risk_class a)), (''approval_class'', PStr (pa_approval_class a)),
      (''snapshot_ref'', PStr (pa_snapshot_ref a)), (''idempotency_key'', PStr (pa_idempotency_key a)),
      (''expires_at'', PStr (pa_expires_at a)), (''revalidation_rule'', pa_revalidation_rule a),
      (''proposal_digest'', PStr (pa_proposal_digest a)), (''correlation_id'', PStr (pa_correlation_id a))] @
     (if include_display then [(''summary'', PStr (pa_summary a))] else [])"

definition ACTION_FIELDS :: "string list" where
  "ACTION_FIELDS =
     [''schema_version'', ''action_type'', ''run_id'', ''action_id'', ''initiator'', ''payload'', ''evidence_refs'',
      ''calculation_refs'', ''risk_class'', ''approval_class'', ''snapshot_ref'', ''idempotency_key'',
      ''expires_at'', ''revalidation_rule'', ''proposal_digest'', ''summary'', ''correlation_id'']"

definition ACTION_REQUIRED :: "string list" where
  "ACTION_REQUIRED = filter (\<lambda>f. f \<notin> {''proposal_digest'', ''summary''}) ACTION_FIELDS"

text \<open>\<open>d.pop(key, None)\<close>.\<close>

definition dict_pop :: "string \<Rightarrow> (string \<times> pyval) list \<Rightarrow> (string \<times> pyval) list" where
  "dict_pop key d = filter (\<lambda>(k, v). k \<noteq> key) d"

definition canonical_proposal_bytes :: "ProposedAction \<Rightarrow> string result" where
  "canonical_proposal_bytes action =
     (let material = action_to_dict action False
      in canonical_json (PDict (dict_pop ''correlation_id'' (dict_pop ''proposal_digest'' material))))"

definition proposal_digest :: "pylib \<Rightarrow> ProposedAction \<Rightarrow> string result" where
  "proposal_digest lib action = rbind (canonical_proposal_bytes action) (\<lambda>bytes. Inr (sha256_hex lib bytes))"

definition known_class :: "pyval \<Rightarrow> string list \<Rightarrow> string" where
  "known_class value classes = (case value of PStr s \<Rightarrow> if s \<in> set classes then s else [] | _ \<Rightarrow> [])"

definition expected_approval :: "string \<Rightarrow> string" where
  "expected_approval action_type =
     (if action_type \<in> {''CREATE_MR_DRAFT'', ''CREATE_PO_DRAFT''} then DRAFT_APPROVAL_CLASS else ''INDEPENDENT_APPROVER'')"

definition expected_rule :: "string \<Rightarrow> string" where
  "expected_rule action_type =
     (if action_type \<notin> set P2P_ACTION_TYPES then REVALIDATION_RULE else P2P_REVALIDATION_RULE)"

text \<open>The last part of \<open>build_proposed_action\<close>: the class and rule checks and the digest.\<close>

definition check_action :: "pylib \<Rightarrow> pyval \<Rightarrow> ProposedAction \<Rightarrow> ProposedAction result" where
  "check_action lib supplied action =
     (if pa_risk_class action \<notin> set RISK_CLASSES \<or> pa_approval_class action \<notin> set APPROVAL_CLASSES
      then Inl (bad_field ''risk_class or approval_class'')
      else if pa_approval_class action \<noteq> expected_approval (pa_action_type action)
      then Inl (gov_invalid ''Draft actions require initiator confirmation; P2P actions require independent approval'' False)
      else if \<not> py_eq (pa_revalidation_rule action) (PStr (expected_rule (pa_action_type action)))
      then Inl (bad_field ''revalidation_rule'')
      else rbind (proposal_digest lib action) (\<lambda>computed.
        if supplied = PNone then Inr (action\<lparr>pa_proposal_digest := computed\<rparr>)
        else rbind (gov_digest supplied ''proposal_digest'') (\<lambda>d.
          if d \<noteq> computed then Inl (gov_invalid ''proposal_digest conflicts with typed content'' True)
          else Inr (action\<lparr>pa_proposal_digest := computed\<rparr>))))"

definition action_raw :: "pylib \<Rightarrow> pyval \<Rightarrow> (string \<times> pyval) list result" where
  "action_raw lib value =
     rbind (case value of
              PStr s \<Rightarrow> parse_json_object lib value
            | _ \<Rightarrow> gov_object value ACTION_FIELDS ACTION_REQUIRED ''proposed action'') (\<lambda>raw.
     if \<not> set (dkeys raw) \<subseteq> set ACTION_FIELDS \<or> \<not> set ACTION_REQUIRED \<subseteq> set (dkeys raw)
     then Inl (gov_invalid ''proposed action fields or schema version are invalid'' False) else Inr raw)"

definition parse_summary :: "(string \<times> pyval) list \<Rightarrow> string result" where
  "parse_summary raw =
     (if dget raw ''summary'' = PNone then Inr [] else required_text (dget raw ''summary'') ''summary'' 2000)"

definition action_body ::
  "pylib \<Rightarrow> (string \<times> pyval) list \<Rightarrow> string \<Rightarrow> string \<Rightarrow> ProposedAction result" where
  "action_body lib raw action_type expected_schema =
     rbind (parse_summary raw) (\<lambda>summary.
     rbind (idempotency_key (dget raw ''idempotency_key'')) (\<lambda>key.
     rbind (gov_uuid (dget raw ''run_id'') ''run_id'') (\<lambda>run_id.
     rbind (gov_uuid (dget raw ''action_id'') ''action_id'') (\<lambda>action_id.
     rbind (required_text (dget raw ''initiator'') ''initiator'' 140) (\<lambda>initiator.
     rbind (parse_payload action_type (dget raw ''payload'')) (\<lambda>payload.
     rbind (ref_list (dget raw ''evidence_refs'') ''evidence_refs'') (\<lambda>evidence_refs.
     rbind (ref_list (dget raw ''calculation_refs'') ''calculation_refs'') (\<lambda>calculation_refs.
     rbind (required_text (dget raw ''snapshot_ref'') ''snapshot_ref'' 256) (\<lambda>snapshot_ref.
     rbind (gov_timestamp lib (dget raw ''expires_at'') ''expires_at'') (\<lambda>expires_at.
     rbind (gov_uuid (dget raw ''correlation_id'') ''correlation_id'') (\<lambda>cid.
     Inr \<lparr>pa_schema_version = expected_schema, pa_action_type = action_type, pa_run_id = run_id,
          pa_action_id = action_id, pa_initiator = initiator, pa_payload = payload,
          pa_evidence_refs = evidence_refs, pa_calculation_refs = calculation_refs,
          pa_risk_class = known_class (dget raw ''risk_class'') RISK_CLASSES,
          pa_approval_class = known_class (dget raw ''approval_class'') APPROVAL_CLASSES,
          pa_snapshot_ref = snapshot_ref, pa_idempotency_key = key, pa_expires_at = expires_at,
          pa_revalidation_rule = dget raw ''revalidation_rule'', pa_proposal_digest = [],
          pa_summary = summary, pa_correlation_id = cid\<rparr>)))))))))))"

definition build_proposed_action :: "pylib \<Rightarrow> pyval \<Rightarrow> ProposedAction result" where
  "build_proposed_action lib value =
     rbind (action_raw lib value) (\<lambda>raw.
     rbind (in_texts (dget raw ''action_type'') ACTION_TYPES) (\<lambda>known.
     case dget raw ''action_type'' of
       PStr action_type \<Rightarrow>
         if \<not> known then Inl (bad_field ''action_type'') else
         (case map_of ACTION_SCHEMA_VERSIONS action_type of
            None \<Rightarrow> Inl KeyError
          | Some expected_schema \<Rightarrow>
              if \<not> py_eq (dget raw ''schema_version'') (PStr expected_schema)
              then Inl (gov_invalid ''proposed action fields or schema version are invalid'' False)
              else rbind (action_body lib raw action_type expected_schema)
                (check_action lib (dget raw ''proposal_digest'')))
     | _ \<Rightarrow> Inl (bad_field ''action_type'')))"

section \<open>Policy and approval decisions\<close>

record PolicyDecision =
  pd_decision_id :: string
  pd_action_id :: string
  pd_proposal_digest :: string
  pd_actor :: string
  pd_checks :: "(string \<times> pyval) list"
  pd_matched_rule :: string
  pd_rule_version :: string
  pd_outcome :: pyval
  pd_reason :: string
  pd_snapshot_ref :: string
  pd_expires_at :: string
  pd_decided_at :: string
  pd_correlation_id :: string

definition POLICY_FIELDS :: "string list" where
  "POLICY_FIELDS =
     [''decision_id'', ''action_id'', ''proposal_digest'', ''actor'', ''checks'', ''matched_rule'', ''rule_version'',
      ''outcome'', ''reason'', ''snapshot_ref'', ''expires_at'', ''decided_at'', ''correlation_id'']"

definition CHECKS :: "string list" where
  "CHECKS = [''identity'', ''scope'', ''permission'', ''deterministic'', ''workflow_policy'']"

definition CHECK_VALUES :: "string list" where
  "CHECK_VALUES = [''PASS'', ''FAIL'', ''UNKNOWN'']"

fun any_not_in :: "pyval list \<Rightarrow> string list \<Rightarrow> bool result" where
  "any_not_in [] names = Inr False"
| "any_not_in (x # xs) names = rbind (in_texts x names) (\<lambda>b. if b then any_not_in xs names else Inr True)"

definition parse_policy_decision :: "pylib \<Rightarrow> pyval \<Rightarrow> PolicyDecision result" where
  "parse_policy_decision lib value =
     rbind (gov_object value POLICY_FIELDS POLICY_FIELDS ''policy decision'') (\<lambda>raw.
     rbind (gov_object (dget raw ''checks'') CHECKS CHECKS ''policy checks'') (\<lambda>checks.
     let parsed_checks = map (\<lambda>key. (key, dget checks key)) (sort CHECKS) in
     rbind (any_not_in (map snd parsed_checks) CHECK_VALUES) (\<lambda>unknown.
     if unknown then Inl (bad_field ''policy check'') else
     rbind (in_texts (dget raw ''outcome'') [''ALLOW'', ''REJECT'']) (\<lambda>known.
     if \<not> known \<or> py_eq (dget raw ''outcome'') (PStr ''ALLOW'') \<and> list_ex (\<lambda>v. \<not> py_eq v (PStr ''PASS'')) (map snd parsed_checks)
     then Inl (bad_field ''policy outcome'') else
     rbind (gov_uuid (dget raw ''decision_id'') ''decision_id'') (\<lambda>decision_id.
     rbind (gov_uuid (dget raw ''action_id'') ''action_id'') (\<lambda>action_id.
     rbind (gov_digest (dget raw ''proposal_digest'') ''proposal_digest'') (\<lambda>digest.
     rbind (required_text (dget raw ''actor'') ''actor'' 140) (\<lambda>actor.
     rbind (required_text (dget raw ''matched_rule'') ''matched_rule'' 256) (\<lambda>matched_rule.
     rbind (required_text (dget raw ''rule_version'') ''rule_version'' 64) (\<lambda>rule_version.
     rbind (required_text (dget raw ''reason'') ''reason'' 2000) (\<lambda>reason.
     rbind (required_text (dget raw ''snapshot_ref'') ''snapshot_ref'' 256) (\<lambda>snapshot_ref.
     rbind (gov_timestamp lib (dget raw ''expires_at'') ''expires_at'') (\<lambda>expires_at.
     rbind (gov_timestamp lib (dget raw ''decided_at'') ''decided_at'') (\<lambda>decided_at.
     rbind (gov_uuid (dget raw ''correlation_id'') ''correlation_id'') (\<lambda>cid.
     Inr \<lparr>pd_decision_id = decision_id, pd_action_id = action_id, pd_proposal_digest = digest,
          pd_actor = actor, pd_checks = parsed_checks, pd_matched_rule = matched_rule,
          pd_rule_version = rule_version, pd_outcome = dget raw ''outcome'', pd_reason = reason,
          pd_snapshot_ref = snapshot_ref, pd_expires_at = expires_at, pd_decided_at = decided_at,
          pd_correlation_id = cid\<rparr>)))))))))))))))"

record ApprovalDecision =
  ad_decision_id :: string
  ad_action_id :: string
  ad_proposal_digest :: string
  ad_actor :: string
  ad_decision :: pyval
  ad_matched_rule :: string
  ad_snapshot_ref :: string
  ad_expires_at :: string
  ad_reason :: string
  ad_decided_at :: string
  ad_correlation_id :: string

definition APPROVAL_FIELDS :: "string list" where
  "APPROVAL_FIELDS =
     [''decision_id'', ''action_id'', ''proposal_digest'', ''actor'', ''decision'', ''matched_rule'', ''snapshot_ref'',
      ''expires_at'', ''reason'', ''decided_at'', ''correlation_id'']"

definition parse_approval_decision :: "pylib \<Rightarrow> pyval \<Rightarrow> ApprovalDecision result" where
  "parse_approval_decision lib value =
     rbind (gov_object value APPROVAL_FIELDS APPROVAL_FIELDS ''approval decision'') (\<lambda>raw.
     rbind (in_texts (dget raw ''decision'') [''ALLOW'', ''DECLINE'', ''CHANGES_REQUESTED'']) (\<lambda>known.
     if \<not> known then Inl (bad_field ''approval decision'') else
     rbind (gov_uuid (dget raw ''decision_id'') ''decision_id'') (\<lambda>decision_id.
     rbind (gov_uuid (dget raw ''action_id'') ''action_id'') (\<lambda>action_id.
     rbind (gov_digest (dget raw ''proposal_digest'') ''proposal_digest'') (\<lambda>digest.
     rbind (required_text (dget raw ''actor'') ''actor'' 140) (\<lambda>actor.
     rbind (required_text (dget raw ''matched_rule'') ''matched_rule'' 256) (\<lambda>matched_rule.
     rbind (required_text (dget raw ''snapshot_ref'') ''snapshot_ref'' 256) (\<lambda>snapshot_ref.
     rbind (gov_timestamp lib (dget raw ''expires_at'') ''expires_at'') (\<lambda>expires_at.
     rbind (required_text (dget raw ''reason'') ''reason'' 2000) (\<lambda>reason.
     rbind (gov_timestamp lib (dget raw ''decided_at'') ''decided_at'') (\<lambda>decided_at.
     rbind (gov_uuid (dget raw ''correlation_id'') ''correlation_id'') (\<lambda>cid.
     Inr \<lparr>ad_decision_id = decision_id, ad_action_id = action_id, ad_proposal_digest = digest,
          ad_actor = actor, ad_decision = dget raw ''decision'', ad_matched_rule = matched_rule,
          ad_snapshot_ref = snapshot_ref, ad_expires_at = expires_at, ad_reason = reason,
          ad_decided_at = decided_at, ad_correlation_id = cid\<rparr>))))))))))))"

section \<open>Execution receipts\<close>

record ExecutionReceipt =
  er_receipt_id :: string
  er_action_id :: string
  er_run_id :: string
  er_idempotency_key :: string
  er_initiator :: string
  er_approver :: "string option"
  er_executor :: string
  er_proposal_digest :: string
  er_target_doctype :: pyval
  er_target_name :: "string option"
  er_verified_fields :: "(string \<times> pyval) list"
  er_response_category :: pyval
  er_failure_category :: "string option"
  er_final_state :: pyval
  er_started_at :: string
  er_completed_at :: "string option"
  er_correlation_id :: string
  er_reconciliation_evidence :: "(string \<times> pyval) list option"

definition RECEIPT_REQUIRED :: "string list" where
  "RECEIPT_REQUIRED =
     [''receipt_id'', ''action_id'', ''run_id'', ''idempotency_key'', ''initiator'', ''executor'', ''proposal_digest'',
      ''target_doctype'', ''target_name'', ''verified_fields'', ''response_category'', ''failure_category'',
      ''final_state'', ''started_at'', ''correlation_id'']"

definition RECEIPT_FIELDS :: "string list" where
  "RECEIPT_FIELDS = RECEIPT_REQUIRED @ [''approver'', ''completed_at'', ''reconciliation_evidence'']"

definition SENSITIVE_WORDS :: "string list" where
  "SENSITIVE_WORDS = [''secret'', ''password'', ''token'', ''authorization'', ''cookie'', ''capability'']"

definition sensitive_key :: "string \<Rightarrow> bool" where
  "sensitive_key key = list_ex (\<lambda>w. has_infix w (py_lower key)) SENSITIVE_WORDS"

definition safe_field :: "string \<Rightarrow> string \<times> pyval \<Rightarrow> (string \<times> pyval) result" where
  "safe_field label = (\<lambda>(key, item).
     rbind (required_text (PStr key) (label @ '' key'') 80) (\<lambda>safe_key.
     if sensitive_key safe_key then Inl (gov_invalid (label @ '' contains a sensitive key'') False)
     else if (case item of PList _ \<Rightarrow> True | PDict _ \<Rightarrow> True | PDate _ _ _ \<Rightarrow> True | _ \<Rightarrow> False)
     then Inl (gov_invalid (label @ '' contains an invalid value'') False)
     else if (case item of PFloat r \<Rightarrow> r \<in> {''nan'', ''inf'', ''-inf''} | _ \<Rightarrow> False)
     then Inl (gov_invalid (label @ '' contains a non-finite value'') False)
     else Inr (safe_key, item)))"

definition safe_fields :: "pyval \<Rightarrow> string \<Rightarrow> bool \<Rightarrow> (string \<times> pyval) list result" where
  "safe_fields value label required =
     (if value = PNone \<and> \<not> required then Inr []
      else (case value of
              PDict d \<Rightarrow>
                if required \<and> d = [] \<or> length d > 64 then Inl (bad_field label)
                else rmap (safe_field label) d
            | _ \<Rightarrow> Inl (bad_field label)))"

definition optional_value :: "pyval \<Rightarrow> (pyval \<Rightarrow> 'a result) \<Rightarrow> 'a option result" where
  "optional_value value parse =
     (if value = PNone then Inr None else rbind (parse value) (\<lambda>x. Inr (Some x)))"

definition SUCCESS_STATES :: "string list" where
  "SUCCESS_STATES = [''SUCCEEDED'', ''RECONCILED_SUCCESS'']"

text \<open>The outcome part of \<open>create_execution_receipt\<close>: target identity, verified fields and
  the demands on a successful state.\<close>

definition receipt_outcome ::
  "(string \<times> pyval) list \<Rightarrow> (string option \<times> (string \<times> pyval) list) result" where
  "receipt_outcome raw =
     rbind (in_texts (dget raw ''final_state'') RECEIPT_STATES) (\<lambda>state_known.
     if \<not> state_known then Inl (bad_field ''receipt state or response category'') else
     rbind (in_texts (dget raw ''response_category'') RESPONSE_CATEGORIES) (\<lambda>category_known.
     if \<not> category_known then Inl (bad_field ''receipt state or response category'') else
     let target_doctype = dget raw ''target_doctype'';
         success = dget raw ''final_state'' \<in> set (map PStr SUCCESS_STATES) in
     rbind (if target_doctype = PNone then Inr True else in_texts target_doctype (map snd TARGET_DOCTYPES)) (\<lambda>target_known.
     if \<not> target_known then Inl (bad_field ''receipt target doctype'') else
     rbind (optional_value (dget raw ''target_name'') (\<lambda>v. required_text v ''target_name'' 140)) (\<lambda>target_name.
     if target_doctype = PNone \<and> target_name \<noteq> None \<or> target_doctype \<noteq> PNone \<and> target_name = None
     then Inl (gov_invalid ''receipt target identity is incomplete'' False) else
     rbind (safe_fields (dget raw ''verified_fields'') ''verified_fields'' success) (\<lambda>verified.
     if success \<and> (\<not> truthy target_doctype \<or> target_name = None \<or> verified = [] \<or>
        \<not> py_eq (dget raw ''response_category'') (PStr ''ERP_SUCCESS''))
     then Inl (gov_invalid ''successful receipt requires verified ERP outcome'' False)
     else if success \<and> dget raw ''failure_category'' \<noteq> PNone
     then Inl (gov_invalid ''successful receipt cannot contain failure category'' False)
     else Inr (target_name, verified))))))"

definition create_execution_receipt :: "pylib \<Rightarrow> pyval \<Rightarrow> ExecutionReceipt result" where
  "create_execution_receipt lib value =
     rbind (gov_object value RECEIPT_FIELDS RECEIPT_REQUIRED ''execution receipt'') (\<lambda>raw.
     rbind (receipt_outcome raw) (\<lambda>(target_name, verified).
     rbind (optional_value (dget raw ''failure_category'') (\<lambda>v. required_text v ''failure_category'' 80)) (\<lambda>failure.
     rbind (optional_value (dget raw ''completed_at'') (\<lambda>v. gov_timestamp lib v ''completed_at'')) (\<lambda>completed.
     rbind (optional_value (dget raw ''reconciliation_evidence'')
       (\<lambda>v. safe_fields v ''reconciliation_evidence'' False)) (\<lambda>reconciliation.
     rbind (gov_uuid (dget raw ''receipt_id'') ''receipt_id'') (\<lambda>receipt_id.
     rbind (gov_uuid (dget raw ''action_id'') ''action_id'') (\<lambda>action_id.
     rbind (gov_uuid (dget raw ''run_id'') ''run_id'') (\<lambda>run_id.
     rbind (idempotency_key (dget raw ''idempotency_key'')) (\<lambda>key.
     rbind (required_text (dget raw ''initiator'') ''initiator'' 140) (\<lambda>initiator.
     rbind (optional_value (dget raw ''approver'') (\<lambda>v. required_text v ''approver'' 140)) (\<lambda>approver.
     rbind (required_text (dget raw ''executor'') ''executor'' 140) (\<lambda>executor.
     rbind (gov_digest (dget raw ''proposal_digest'') ''proposal_digest'') (\<lambda>digest.
     rbind (gov_timestamp lib (dget raw ''started_at'') ''started_at'') (\<lambda>started_at.
     rbind (gov_uuid (dget raw ''correlation_id'') ''correlation_id'') (\<lambda>cid.
     Inr \<lparr>er_receipt_id = receipt_id, er_action_id = action_id, er_run_id = run_id,
          er_idempotency_key = key, er_initiator = initiator, er_approver = approver,
          er_executor = executor, er_proposal_digest = digest, er_target_doctype = dget raw ''target_doctype'',
          er_target_name = target_name, er_verified_fields = verified,
          er_response_category = dget raw ''response_category'', er_failure_category = failure,
          er_final_state = dget raw ''final_state'', er_started_at = started_at,
          er_completed_at = completed, er_correlation_id = cid,
          er_reconciliation_evidence = reconciliation\<rparr>)))))))))))))))"

end
