(* ===== verification/Action_Roundtrip.thy ===== *)
theory Action_Roundtrip
  imports Governance_Actions
begin

text \<open>
  Reparsing.  A governance record is rebuilt from its persisted fields on every read, so the
  parsers of \<open>governance/contracts.py\<close> must accept what they produced.  The lemmas show, parser
  by parser, that a normalised value parses to itself, and the properties lift this to whole
  proposed actions.
\<close>

section \<open>Optional fields\<close>

lemma add_optional_text_ok:
  "add_optional_text raw k n p = Inr q \<longleftrightarrow>
     (dget raw k = PNone \<and> q = p) \<or> (\<exists>s. dget raw k = PStr s \<and> good_text n s \<and> q = dict_set p k (PStr s))"
  by (auto simp: add_optional_text_def result_simps parse_ok)

lemma add_optional_text_effect:
  assumes "add_optional_text raw k n p = Inr q"
  shows "dget q k' = (if k' = k \<and> dget raw k \<noteq> PNone then dget raw k else dget p k')"
    and "set (dkeys q) = set (dkeys p) \<union> (if dget raw k = PNone then {} else {k})"
  using assms by (auto simp: add_optional_text_ok)

lemma add_optional_text_cong:
  "dget raw k = dget raw' k \<Longrightarrow> add_optional_text raw k n p = add_optional_text raw' k n p"
  by (simp add: add_optional_text_def)

lemma py_strip_blank: "py_strip s = [] \<longleftrightarrow> (\<forall>c \<in> set s. py_space c)"
proof
  assume "py_strip s = []"
  then have "\<forall>c \<in> set (dropWhile py_space s). py_space c" by (simp add: py_strip_def dropWhile_eq_Nil_conv)
  then show "\<forall>c \<in> set s. py_space c"
    by (metis dropWhile_eq_Nil_conv hd_dropWhile list.set_sel(1))
qed (auto simp: py_strip_def dropWhile_eq_Nil_conv dest: set_dropWhileD)

lemma upper_char_nonspace: "\<not> py_space c \<Longrightarrow> \<exists>d \<in> set (upper_char c). \<not> py_space d"
  by (auto simp: upper_char_def py_space_def Let_def)

lemma py_upper_nonblank: "py_strip s \<noteq> [] \<Longrightarrow> py_strip (py_upper s) \<noteq> []"
  unfolding py_strip_blank py_upper_def using upper_char_nonspace by fastforce

lemma upper_char_upper: "d \<in> set (upper_char c) \<Longrightarrow> upper_char d = [d]"
  by (auto simp: upper_char_def Let_def split: if_splits)

lemma py_upper_idem: "py_upper (py_upper s) = py_upper s"
proof -
  have "concat (map upper_char t) = t" if "\<forall>d \<in> set t. upper_char d = [d]" for t
    using that by (induction t) auto
  then show ?thesis using upper_char_upper by (simp add: py_upper_def)
qed

lemma good_text_upper: "good_text n s \<Longrightarrow> length (py_upper s) \<le> n \<Longrightarrow> good_text n (py_upper s)"
  using py_upper_nonblank [of s] py_strip_nonempty_imp [of "py_upper s"] by (simp add: good_text_def)

lemma add_optional_currency_ok:
  "add_optional_currency raw k p = Inr q \<longleftrightarrow>
     (dget raw k = PNone \<and> q = p) \<or>
     (\<exists>s. dget raw k = PStr s \<and> good_text 3 s \<and> q = dict_set p k (PStr (py_upper s)))"
  by (auto simp: add_optional_currency_def result_simps parse_ok)

section \<open>Items\<close>

text \<open>
  A key that is required but null is accepted and dropped by the parsers; the result then
  lacks a required key.  \<open>item_complete\<close> rules this case out.
\<close>

definition item_complete :: "string list \<Rightarrow> pyval \<Rightarrow> bool" where
  "item_complete required v = (case v of PDict d \<Rightarrow> set required \<subseteq> set (dkeys d) | _ \<Rightarrow> False)"

lemma parse_item_idem:
  assumes "parse_item v t i = Inr p" and "item_complete (item_required t) p"
    and t: "t = ''CREATE_MR_DRAFT'' \<or> t = ''CREATE_PO_DRAFT''"
  shows "parse_item p t j = Inr p"
proof -
  from assms(1) obtain raw item_code qty date wh p1 p2 p3 where
    obj: "set (dkeys raw) \<subseteq> set (item_fields t)"
    and ic: "dget raw ''item_code'' = PStr item_code" "good_text 140 item_code"
    and qty: "gov_decimal (dget raw ''qty'') ''qty'' dec_min = Inr qty"
    and date: "dget raw ''schedule_date'' = PStr date" "date_shape date" "py_strptime_ymd date"
    and wh: "dget raw ''warehouse'' = PStr wh" "good_text 140 wh"
    and p1: "add_optional_text raw ''uom'' 140
        [(''item_code'', PStr item_code), (''qty'', PStr qty), (''schedule_date'', PStr date), (''warehouse'', PStr wh)] = Inr p1"
    and p2: "add_optional_text raw ''description'' 2000 p1 = Inr p2"
    and p3: "add_optional_text raw ''material_request'' 140 p2 = Inr p3"
    and rest: "(if t = ''CREATE_PO_DRAFT''
       then rbind (gov_decimal (dget raw ''rate'') ''rate'' dec_min) (\<lambda>rate. Inr (PDict (dict_set p3 ''rate'' (PStr rate))))
       else Inr (PDict p3)) = Inr p"
    unfolding parse_item_def rbind_eq_Inr parse_ok by blast
  obtain q where q: "p = PDict q" using assms(2) by (auto simp: item_complete_def split: pyval.splits)
  obtain rate where rate: "t = ''CREATE_PO_DRAFT'' \<Longrightarrow> gov_decimal (dget raw ''rate'') ''rate'' dec_min = Inr rate \<and> q = dict_set p3 ''rate'' (PStr rate)"
    and norate: "t \<noteq> ''CREATE_PO_DRAFT'' \<Longrightarrow> q = p3"
    using rest q by (auto simp: rbind_eq_Inr split: if_splits)
  note eff = add_optional_text_effect(1) [OF p1] add_optional_text_effect(1) [OF p2] add_optional_text_effect(1) [OF p3]
  note keys = add_optional_text_effect(2) [OF p1] add_optional_text_effect(2) [OF p2] add_optional_text_effect(2) [OF p3]
  have get: "dget q ''item_code'' = PStr item_code" "dget q ''qty'' = PStr qty"
    "dget q ''schedule_date'' = PStr date" "dget q ''warehouse'' = PStr wh"
    "dget q ''uom'' = dget raw ''uom''" "dget q ''description'' = dget raw ''description''"
    "dget q ''material_request'' = dget raw ''material_request''"
    using rate norate by (cases "t = ''CREATE_PO_DRAFT''"; simp add: eff)+
  have "set (dkeys q) \<subseteq> set (item_fields t)"
    using rate norate obj t dget_key [of raw "''uom''"] dget_key [of raw "''description''"] dget_key [of raw "''material_request''"]
    by (cases "t = ''CREATE_PO_DRAFT''"; auto simp: keys item_fields_def split: if_splits)
  moreover have "set (item_required t) \<subseteq> set (dkeys q)"
    using assms(2) by (simp add: q item_complete_def)
  moreover have "gov_decimal (PStr qty) ''qty'' dec_min = Inr qty" using qty by (rule gov_decimal_idem)
  moreover have "gov_decimal (dget q ''rate'') ''rate'' dec_min = Inr rate" if "t = ''CREATE_PO_DRAFT''"
    using rate [OF that] gov_decimal_idem by auto
  ultimately show ?thesis
    unfolding parse_item_def q using ic wh date p1 p2 p3 rate norate
    by (simp add: get reparse add_optional_text_cong [of q _ raw])
qed

lemma parse_line_item_idem:
  assumes "parse_line_item t seen i v = Inr (row, p)" and "item_complete (line_required t) p"
  shows "parse_line_item t seen j p = Inr (row, p)"
proof -
  let ?fs = "[''source_row'', ''item_code'', ''qty'', ''uom'', ''warehouse'', ''rate'', ''description'']"
  from assms(1) obtain raw sr item_code qty p1 p2 p3 where
    obj: "set (dkeys raw) \<subseteq> set ?fs"
    and sr: "dget raw ''source_row'' = PStr sr" "good_text 140 sr" "sr \<notin> set seen"
    and ic: "dget raw ''item_code'' = PStr item_code" "good_text 140 item_code"
    and qty: "gov_decimal (dget raw ''qty'') ''qty'' dec_min = Inr qty"
    and p1: "add_optional_text raw ''uom'' 140
        [(''source_row'', PStr sr), (''item_code'', PStr item_code), (''qty'', PStr qty)] = Inr p1"
    and p2: "add_optional_text raw ''warehouse'' 140 p1 = Inr p2"
    and p3: "add_optional_text raw ''description'' 2000 p2 = Inr p3"
    and rest: "(if t = ''CREATE_PI_DRAFT''
       then rbind (gov_decimal (dget raw ''rate'') ''rate'' dec_min) (\<lambda>rate. Inr (sr, PDict (dict_set p3 ''rate'' (PStr rate))))
       else Inr (sr, PDict p3)) = Inr (row, p)"
    unfolding parse_line_item_def rbind_eq_Inr parse_ok if_error_ok by blast
  obtain q where q: "p = PDict q" using assms(2) by (auto simp: item_complete_def split: pyval.splits)
  obtain rate where rate: "t = ''CREATE_PI_DRAFT'' \<Longrightarrow> gov_decimal (dget raw ''rate'') ''rate'' dec_min = Inr rate \<and> q = dict_set p3 ''rate'' (PStr rate)"
    and norate: "t \<noteq> ''CREATE_PI_DRAFT'' \<Longrightarrow> q = p3" and row: "row = sr"
    using rest q by (auto simp: rbind_eq_Inr split: if_splits)
  note eff = add_optional_text_effect(1) [OF p1] add_optional_text_effect(1) [OF p2] add_optional_text_effect(1) [OF p3]
  note keys = add_optional_text_effect(2) [OF p1] add_optional_text_effect(2) [OF p2] add_optional_text_effect(2) [OF p3]
  have get: "dget q ''source_row'' = PStr sr" "dget q ''item_code'' = PStr item_code" "dget q ''qty'' = PStr qty"
    "dget q ''uom'' = dget raw ''uom''" "dget q ''warehouse'' = dget raw ''warehouse''"
    "dget q ''description'' = dget raw ''description''"
    using rate norate by (cases "t = ''CREATE_PI_DRAFT''"; simp add: eff)+
  have "set (dkeys q) \<subseteq> set ?fs"
    using rate norate by (cases "t = ''CREATE_PI_DRAFT''"; auto simp: keys split: if_splits)
  moreover have "set (line_required t) \<subseteq> set (dkeys q)"
    using assms(2) by (simp add: q item_complete_def)
  moreover have "gov_decimal (PStr qty) ''qty'' dec_min = Inr qty" using qty by (rule gov_decimal_idem)
  moreover have "gov_decimal (dget q ''rate'') ''rate'' dec_min = Inr rate" if "t = ''CREATE_PI_DRAFT''"
    using rate [OF that] gov_decimal_idem by auto
  ultimately show ?thesis
    unfolding parse_line_item_def q row using sr ic p1 p2 p3 rate norate
    by (simp add: get reparse add_optional_text_cong [of q _ raw])
qed

lemma parse_line_rows_idem:
  assumes "parse_line_rows t seen i vs = Inr ps" and "list_all (item_complete (line_required t)) ps"
  shows "parse_line_rows t seen j ps = Inr ps"
  using assms
proof (induction vs arbitrary: seen i j ps)
  case (Cons v vs)
  from Cons.prems(1) obtain row q qs where q: "parse_line_item t seen i v = Inr (row, q)"
    and qs: "parse_line_rows t (row # seen) (Suc i) vs = Inr qs" and ps: "ps = q # qs"
    by (auto simp: rbind_eq_Inr split: prod.splits)
  from Cons.prems(2) ps have c: "item_complete (line_required t) q" "list_all (item_complete (line_required t)) qs"
    by simp_all
  from parse_line_item_idem [OF q c(1), of j] Cons.IH [OF qs c(2), of "Suc j"] ps show ?case by simp
qed simp

lemma parse_line_rows_length: "parse_line_rows t seen i vs = Inr ps \<Longrightarrow> length ps = length vs"
  by (induction vs arbitrary: seen i ps) (auto simp: rbind_eq_Inr split: prod.splits)

lemma rmap_from_idem:
  assumes "rmap_from i f xs = Inr ys" and "list_all P ys"
    and "\<And>k j x y. f k x = Inr y \<Longrightarrow> P y \<Longrightarrow> f j y = Inr y"
  shows "rmap_from j f ys = Inr ys"
  using assms(1,2)
proof (induction xs arbitrary: i j ys)
  case (Cons x xs)
  from Cons.prems(1) obtain b bs where b: "f i x = Inr b" "rmap_from (Suc i) f xs = Inr bs" "ys = b # bs"
    by (auto simp: rbind_eq_Inr)
  with Cons.prems(2) assms(3) [OF b(1), of j] Cons.IH [OF b(2), of "Suc j"] show ?case by simp
qed simp

lemma parse_reference_idem: "parse_reference i v = Inr p \<Longrightarrow> parse_reference j p = Inr p"
proof -
  assume "parse_reference i v = Inr p"
  then obtain item rn aa where rn: "good_text 140 rn"
    and aa: "gov_decimal (dget item ''allocated_amount'') ''allocated_amount'' dec_min = Inr aa"
    and p: "p = PDict [(''reference_doctype'', PStr ''Purchase Invoice''), (''reference_name'', PStr rn),
       (''allocated_amount'', PStr aa)]"
    unfolding parse_reference_def rbind_eq_Inr parse_ok if_error_ok by blast
  show "parse_reference j p = Inr p"
    unfolding parse_reference_def p using rn gov_decimal_idem [OF aa] by (simp add: reparse)
qed

section \<open>Payloads\<close>

text \<open>What a normalised payload must satisfy to be read again: no required key was null, and
  no currency grew beyond three characters when upper-cased.\<close>

definition currency_fits :: "(string \<times> pyval) list \<Rightarrow> string \<Rightarrow> bool" where
  "currency_fits p k = (case dget p k of PStr s \<Rightarrow> length s \<le> 3 | _ \<Rightarrow> True)"

definition payload_complete :: "string \<Rightarrow> (string \<times> pyval) list \<Rightarrow> bool" where
  "payload_complete t p =
     ((case dget p ''items'' of
         PList items \<Rightarrow>
           list_all (item_complete (if t \<in> {''CREATE_PR_DRAFT'', ''CREATE_PI_DRAFT''} then line_required t
             else item_required t)) items
       | _ \<Rightarrow> True) \<and>
      list_all (currency_fits p) [''currency'', ''source_currency'', ''target_currency''])"

lemma parse_source_payload_idem:
  assumes "parse_source_payload t v = Inr p"
  shows "parse_source_payload t (PDict p) = Inr p"
proof -
  from assms obtain raw expected company sn where
    e: "map_of TARGET_DOCTYPES t = Some expected" "good_text 80 expected"
    and c: "good_text 140 company" "good_text 140 sn"
    and p: "add_optional_text raw ''reason'' 2000
      [(''company'', PStr company), (''source_doctype'', PStr expected), (''source_name'', PStr sn)] = Inr p"
    unfolding parse_source_payload_def rbind_eq_Inr parse_ok if_error_ok
    by (auto simp: rbind_eq_Inr parse_ok split: option.splits if_splits)
  note eff = add_optional_text_effect(1) [OF p] add_optional_text_effect(2) [OF p]
  have get: "dget p ''company'' = PStr company" "dget p ''source_doctype'' = PStr expected"
    "dget p ''source_name'' = PStr sn" "dget p ''reason'' = dget raw ''reason''"
    by (simp_all add: eff)
  have "gov_object (PDict p) [''company'', ''source_doctype'', ''source_name'', ''reason'']
      [''company'', ''source_doctype'', ''source_name''] ''payload'' = Inr p"
    by (rule gov_object_reparse) (auto simp: eff)
  then show ?thesis
    unfolding parse_source_payload_def using e c p
    by (simp add: get reparse add_optional_text_cong [of p _ raw])
qed

lemma parse_draft_payload_idem:
  assumes "parse_draft_payload t v = Inr p" and "payload_complete t p"
    and t: "t \<in> {''CREATE_PR_DRAFT'', ''CREATE_PI_DRAFT''}"
  shows "parse_draft_payload t (PDict p) = Inr p"
proof -
  let ?req = "[''company'', ''source_doctype'', ''source_name'', ''transaction_date'', ''items'']"
  from assms(1) obtain raw sd company sn td raws items where
    sd: "good_text 80 sd" "sd \<in> {''Purchase Order'', ''Purchase Receipt''}"
      "\<not> (t = ''CREATE_PR_DRAFT'' \<and> sd \<noteq> ''Purchase Order'')" "\<not> (t = ''CREATE_PI_DRAFT'' \<and> sd \<noteq> ''Purchase Receipt'')"
    and c: "good_text 140 company" "good_text 140 sn" "date_shape td" "py_strptime_ymd td"
    and raws: "raws \<noteq> []" "length raws \<le> 100" and items: "parse_line_rows t [] 0 raws = Inr items"
    and p: "add_optional_text raw ''reason'' 2000
       [(''company'', PStr company), (''source_doctype'', PStr sd), (''source_name'', PStr sn),
        (''transaction_date'', PStr td), (''items'', PList items)] = Inr p"
    unfolding parse_draft_payload_def parse_line_items_def rbind_eq_Inr parse_ok if_error_ok by blast
  note eff = add_optional_text_effect(1) [OF p] add_optional_text_effect(2) [OF p]
  have get: "dget p ''company'' = PStr company" "dget p ''source_doctype'' = PStr sd"
    "dget p ''source_name'' = PStr sn" "dget p ''transaction_date'' = PStr td" "dget p ''items'' = PList items"
    "dget p ''reason'' = dget raw ''reason''"
    by (simp_all add: eff)
  have "list_all (item_complete (line_required t)) items"
    using assms(2) t by (simp only: payload_complete_def get if_True pyval.case)
  then have rows: "parse_line_rows t [] 0 items = Inr items" by (rule parse_line_rows_idem [OF items])
  have ne: "items \<noteq> []" "length items \<le> 100" using parse_line_rows_length [OF items] raws by auto
  have "gov_object (PDict p) (?req @ [''reason'']) ?req ''payload'' = Inr p"
    by (rule gov_object_reparse) (auto simp: eff)
  then show ?thesis
    unfolding parse_draft_payload_def parse_line_items_def using sd c ne rows p
    by (simp add: get reparse add_optional_text_cong [of p _ raw])
qed

lemma add_optional_currency_effect:
  assumes "add_optional_currency raw k p = Inr q"
  shows "k' \<noteq> k \<Longrightarrow> dget q k' = dget p k'"
    and "set (dkeys q) = set (dkeys p) \<union> (if dget raw k = PNone then {} else {k})"
    and "dget raw k = PNone \<Longrightarrow> dget q k = dget p k"
  using assms by (auto simp: add_optional_currency_ok)

lemma add_optional_currency_again:
  assumes "add_optional_currency raw k b = Inr q" and "dget b k = PNone"
    and "dget p k = dget q k" and "currency_fits p k"
  shows "add_optional_currency p k b = Inr q"
proof (cases "dget raw k = PNone")
  case True
  with assms show ?thesis by (auto simp: add_optional_currency_ok)
next
  case False
  with assms(1) obtain s where s: "good_text 3 s" "q = dict_set b k (PStr (py_upper s))"
    by (auto simp: add_optional_currency_ok)
  with assms(3,4) have "dget p k = PStr (py_upper s)" "good_text 3 (py_upper s)"
    by (auto simp: currency_fits_def good_text_upper)
  with s show ?thesis by (simp add: add_optional_currency_def reparse py_upper_idem)
qed

lemma parse_payment_payload_idem:
  assumes "parse_payment_payload t v = Inr p" and "payload_complete t p"
  shows "parse_payment_payload t (PDict p) = Inr p"
proof -
  from assms(1) obtain raw sd pt refs prefs company sn ptype party pdate pfrom pto pa ra p1 p2 where
    sd: "dget raw ''source_doctype'' = PStr sd" "good_text 80 sd" "sd = ''Purchase Invoice''"
    and pt: "dget raw ''payment_type'' = PStr pt" "good_text 40 pt" "pt \<in> {''Pay'', ''Receive'', ''Internal Transfer''}"
    and refs: "dget raw ''references'' = PList refs" "refs \<noteq> []" "length refs \<le> 100" "rmap_from 0 parse_reference refs = Inr prefs"
    and c: "dget raw ''company'' = PStr company" "good_text 140 company" "dget raw ''source_name'' = PStr sn" "good_text 140 sn"
      "dget raw ''party_type'' = PStr ptype" "good_text 40 ptype" "dget raw ''party'' = PStr party" "good_text 140 party"
      "dget raw ''posting_date'' = PStr pdate" "date_shape pdate" "py_strptime_ymd pdate"
      "dget raw ''paid_from'' = PStr pfrom" "good_text 140 pfrom" "dget raw ''paid_to'' = PStr pto" "good_text 140 pto"
    and pa: "gov_decimal (dget raw ''paid_amount'') ''paid_amount'' dec_min = Inr pa"
    and ra: "gov_decimal (dget raw ''received_amount'') ''received_amount'' dec_min = Inr ra"
    and p1: "add_optional_currency raw ''source_currency''
       [(''company'', PStr company), (''source_doctype'', PStr sd), (''source_name'', PStr sn),
        (''party_type'', PStr ptype), (''party'', PStr party), (''payment_type'', PStr pt),
        (''posting_date'', PStr pdate), (''paid_from'', PStr pfrom), (''paid_to'', PStr pto),
        (''paid_amount'', PStr pa), (''received_amount'', PStr ra), (''references'', PList prefs)] = Inr p1"
    and p2: "add_optional_currency raw ''target_currency'' p1 = Inr p2"
    and p3: "add_optional_text raw ''reason'' 2000 p2 = Inr p"
    unfolding parse_payment_payload_def rbind_eq_Inr parse_ok if_error_ok not_not by blast
  note eff = add_optional_text_effect(1) [OF p3] add_optional_currency_effect(1) [OF p2] add_optional_currency_effect(1) [OF p1]
  note keys = add_optional_text_effect(2) [OF p3] add_optional_currency_effect(2) [OF p2] add_optional_currency_effect(2) [OF p1]
  have get: "dget p ''company'' = PStr company" "dget p ''source_doctype'' = PStr sd"
    "dget p ''source_name'' = PStr sn" "dget p ''party_type'' = PStr ptype" "dget p ''party'' = PStr party"
    "dget p ''payment_type'' = PStr pt" "dget p ''posting_date'' = PStr pdate" "dget p ''paid_from'' = PStr pfrom"
    "dget p ''paid_to'' = PStr pto" "dget p ''paid_amount'' = PStr pa" "dget p ''received_amount'' = PStr ra"
    "dget p ''references'' = PList prefs" "dget p ''reason'' = dget raw ''reason''"
    "dget p ''source_currency'' = dget p1 ''source_currency''" "dget p ''target_currency'' = dget p2 ''target_currency''"
    "dget p1 ''target_currency'' = PNone"
    by (simp_all add: eff)
  have prefs: "rmap_from 0 parse_reference prefs = Inr prefs" "prefs \<noteq> []" "length prefs \<le> 100"
    using rmap_from_idem [OF refs(4), of "\<lambda>_. True"] parse_reference_idem rmap_from_length [OF refs(4)] refs(2,3)
    by (auto simp: list_all_iff)
  have fits: "currency_fits p ''source_currency''" "currency_fits p ''target_currency''"
    using assms(2) by (simp_all add: payload_complete_def)
  have again: "add_optional_currency p ''source_currency''
       [(''company'', PStr company), (''source_doctype'', PStr sd), (''source_name'', PStr sn),
        (''party_type'', PStr ptype), (''party'', PStr party), (''payment_type'', PStr pt),
        (''posting_date'', PStr pdate), (''paid_from'', PStr pfrom), (''paid_to'', PStr pto),
        (''paid_amount'', PStr pa), (''received_amount'', PStr ra), (''references'', PList prefs)] = Inr p1"
    "add_optional_currency p ''target_currency'' p1 = Inr p2"
    by (rule add_optional_currency_again [OF p1 _ get(14) fits(1)], simp)
      (rule add_optional_currency_again [OF p2 get(16) get(15) fits(2)])
  have "gov_object (PDict p) (payment_required @ [''source_currency'', ''target_currency'', ''reason'']) payment_required ''payload'' = Inr p"
    by (rule gov_object_reparse) (auto simp: keys payment_required_def)
  then show ?thesis
    unfolding parse_payment_payload_def using sd pt(2,3) c prefs p3 again gov_decimal_idem [OF pa] gov_decimal_idem [OF ra]
    by (simp add: get reparse add_optional_text_cong [of p _ raw])
qed

lemma parse_mr_po_idem:
  assumes "parse_payload t v = Inr p" and "payload_complete t p"
    and t: "t = ''CREATE_MR_DRAFT'' \<or> t = ''CREATE_PO_DRAFT''"
  shows "parse_payload t (PDict p) = Inr p"
proof -
  let ?fs = "if t = ''CREATE_MR_DRAFT'' then MR_FIELDS else PO_FIELDS"
  let ?base = "\<lambda>company td items. [(''company'', PStr company), (''transaction_date'', PStr td), (''items'', PList items)]"
  from t have nt: "\<not> (t \<noteq> ''CREATE_MR_DRAFT'' \<and> t \<noteq> ''CREATE_PO_DRAFT'')" by blast
  from assms(1) obtain raw company td raws items where
    c: "good_text 140 company" "date_shape td" "py_strptime_ymd td"
    and raws: "raws \<noteq> []" "length raws \<le> 100"
    and items: "rmap_from 0 (\<lambda>i v. parse_item v t i) raws = Inr items"
    and rest: "(if t = ''CREATE_MR_DRAFT'' then
           rbind (required_text (dget raw ''material_request_type'') ''material_request_type'' 40) (\<lambda>mt.
           if mt \<notin> set MATERIAL_TYPES then Inl (bad_field ''material_request_type'')
           else Inr (?base company td items @ [(''material_request_type'', PStr mt)]))
         else
           rbind (required_text (dget raw ''supplier'') ''supplier'' 140) (\<lambda>su.
           rbind (gov_date (dget raw ''schedule_date'') ''schedule_date'') (\<lambda>sd.
           rbind (required_text (dget raw ''currency'') ''currency'' 3) (\<lambda>cu.
           rbind (required_text (dget raw ''buying_price_list'') ''buying_price_list'' 140) (\<lambda>pl.
           Inr (?base company td items @ [(''supplier'', PStr su), (''schedule_date'', PStr sd),
             (''currency'', PStr (py_upper cu)), (''buying_price_list'', PStr pl)])))))) = Inr p"
    unfolding parse_payload_def Let_def if_not_P [OF nt] rbind_eq_Inr parse_ok by blast
  have get: "dget p ''items'' = PList items"
    using rest by (auto simp: rbind_eq_Inr split: if_splits)
  have "list_all (item_complete (item_required t)) items"
    using assms(2) t by (auto simp: payload_complete_def get)
  then have again: "rmap_from 0 (\<lambda>i v. parse_item v t i) items = Inr items"
    using parse_item_idem [OF _ _ t] by (intro rmap_from_idem [OF items])
  have ne: "items \<noteq> []" "length items \<le> 100" using rmap_from_length [OF items] raws by auto
  show ?thesis
  proof (cases "t = ''CREATE_MR_DRAFT''")
    case True
    with rest obtain mt where mt: "good_text 40 mt" "mt \<in> set MATERIAL_TYPES"
      "p = ?base company td items @ [(''material_request_type'', PStr mt)]"
      by (auto simp: rbind_eq_Inr parse_ok split: if_splits)
    with True c ne again show ?thesis by (simp add: parse_payload_def reparse MR_FIELDS_def)
  next
    case False
    with rest obtain su sd cu pl where po: "good_text 140 su" "date_shape sd" "py_strptime_ymd sd" "good_text 3 cu" "good_text 140 pl"
      "p = ?base company td items @ [(''supplier'', PStr su), (''schedule_date'', PStr sd),
             (''currency'', PStr (py_upper cu)), (''buying_price_list'', PStr pl)]"
      by (auto simp: rbind_eq_Inr parse_ok)
    moreover have "good_text 3 (py_upper cu)"
      using assms(2) po by (auto simp: payload_complete_def currency_fits_def intro: good_text_upper)
    ultimately show ?thesis using False t c ne again
      by (simp add: parse_payload_def reparse PO_FIELDS_def py_upper_idem)
  qed
qed

lemma parse_payload_idem:
  assumes "parse_payload t v = Inr p" and "payload_complete t p"
  shows "parse_payload t (PDict p) = Inr p"
proof (cases "t = ''CREATE_MR_DRAFT'' \<or> t = ''CREATE_PO_DRAFT''")
  case True
  with assms parse_mr_po_idem show ?thesis by blast
next
  case False
  then have eq: "parse_payload t w = (if t \<in> set P2P_ACTION_TYPES then parse_p2p_payload t w else Inl (bad_field ''action_type''))" for w
    by (simp add: parse_payload_def)
  from assms(1) have "parse_p2p_payload t v = Inr p" by (simp add: eq split: if_splits)
  then have "parse_p2p_payload t (PDict p) = Inr p"
    using parse_source_payload_idem parse_draft_payload_idem [OF _ assms(2)] parse_payment_payload_idem [OF _ assms(2)]
    by (auto simp: parse_p2p_payload_def split: if_splits)
  with assms(1) show ?thesis by (simp add: eq split: if_splits)
qed

section \<open>Proposed actions\<close>

text \<open>
  What the action parser relies on of the two library services: a digest is 64 lower-case
  hexadecimal digits, and a normalised instant, written with \<open>Z\<close>, reads as itself.
\<close>

definition pylib_ok :: "pylib \<Rightarrow> bool" where
  "pylib_ok lib \<longleftrightarrow>
     (\<forall>b. digest_shape (sha256_hex lib b)) \<and>
     (\<forall>t u. utc_timestamp lib t = TsUtc u \<longrightarrow>
        good_text 64 u \<and> utc_timestamp lib (replace_all ''Z'' ''+00:00'' u) = TsUtc u)"

lemma gov_timestamp_reparse:
  assumes lib: "pylib_ok lib" and ok: "gov_timestamp lib v l = Inr u"
  shows "gov_timestamp lib (PStr u) l' = Inr u"
proof -
  from ok obtain t where "utc_timestamp lib t = TsUtc u"
    unfolding gov_timestamp_def rbind_eq_Inr by (elim exE conjE) (simp split: ts_outcome.split_asm)
  with lib have "good_text 64 u" "utc_timestamp lib (replace_all ''Z'' ''+00:00'' u) = TsUtc u"
    by (auto simp: pylib_ok_def)
  then show ?thesis by (simp add: gov_timestamp_def reparse)
qed

lemma canonical_proposal_bytes_display [simp]:
  "canonical_proposal_bytes (a\<lparr>pa_proposal_digest := d\<rparr>) = canonical_proposal_bytes a"
  "canonical_proposal_bytes (a\<lparr>pa_summary := d\<rparr>) = canonical_proposal_bytes a"
  "canonical_proposal_bytes (a\<lparr>pa_correlation_id := d\<rparr>) = canonical_proposal_bytes a"
  by (simp_all add: canonical_proposal_bytes_def action_to_dict_def dict_pop_def)

lemma proposal_digest_display [simp]:
  "proposal_digest lib (a\<lparr>pa_proposal_digest := d\<rparr>) = proposal_digest lib a"
  "proposal_digest lib (a\<lparr>pa_summary := d\<rparr>) = proposal_digest lib a"
  by (simp_all add: proposal_digest_def)

lemma check_action_iff:
  "check_action lib s b = Inr a \<longleftrightarrow>
    (\<exists>d. proposal_digest lib b = Inr d \<and> a = b\<lparr>pa_proposal_digest := d\<rparr> \<and>
      (s = PNone \<or> s = PStr d \<and> digest_shape d)) \<and>
    pa_risk_class b \<in> set RISK_CLASSES \<and> pa_approval_class b \<in> set APPROVAL_CLASSES \<and>
    pa_approval_class b = expected_approval (pa_action_type b) \<and>
    pa_revalidation_rule b = PStr (expected_rule (pa_action_type b))"
  (is "?L \<longleftrightarrow> ?R")
proof -
  have "(if s = PNone then Inr (b\<lparr>pa_proposal_digest := d\<rparr>)
      else rbind (gov_digest s ''proposal_digest'') (\<lambda>e. if e \<noteq> d then Inl x else Inr (b\<lparr>pa_proposal_digest := d\<rparr>))) = Inr a
    \<longleftrightarrow> a = b\<lparr>pa_proposal_digest := d\<rparr> \<and> (s = PNone \<or> s = PStr d \<and> digest_shape d)" for d x
    by (cases "s = PNone") (simp_all only: if_True if_False rbind_eq_Inr gov_digest_ok if_error_ok, auto)
  then show ?thesis
    unfolding check_action_def if_error_ok rbind_eq_Inr by (simp only: py_eq_PStr) blast
qed

lemma check_action_again:
  assumes "check_action lib s b = Inr a" and "pylib_ok lib"
  shows "check_action lib (PStr (pa_proposal_digest a)) b = Inr a"
proof -
  have "digest_shape d" if "proposal_digest lib b = Inr d" for d
    using assms(2) that by (auto simp: proposal_digest_def rbind_eq_Inr pylib_ok_def)
  with assms(1) show ?thesis unfolding check_action_iff by auto
qed

lemma check_action_summary:
  assumes "check_action lib s b = Inr a"
  shows "check_action lib s (b\<lparr>pa_summary := x\<rparr>) = Inr (a\<lparr>pa_summary := x\<rparr>)"
  using assms unfolding check_action_iff by auto

lemma build_proposed_action_ok:
  assumes "build_proposed_action lib v = Inr a"
  shows "\<exists>raw t sv b. action_raw lib v = Inr raw \<and> dget raw ''action_type'' = PStr t \<and> t \<in> set ACTION_TYPES \<and>
    map_of ACTION_SCHEMA_VERSIONS t = Some sv \<and> dget raw ''schema_version'' = PStr sv \<and>
    action_body lib raw t sv = Inr b \<and> check_action lib (dget raw ''proposal_digest'') b = Inr a"
proof -
  from assms obtain raw k where raw: "action_raw lib v = Inr raw" and k: "in_texts (dget raw ''action_type'') ACTION_TYPES = Inr k"
    and rest: "(case dget raw ''action_type'' of
       PStr t \<Rightarrow> if \<not> k then Inl (bad_field ''action_type'') else
         (case map_of ACTION_SCHEMA_VERSIONS t of None \<Rightarrow> Inl KeyError
          | Some sv \<Rightarrow> if \<not> py_eq (dget raw ''schema_version'') (PStr sv)
              then Inl (gov_invalid ''proposed action fields or schema version are invalid'' False)
              else rbind (action_body lib raw t sv) (check_action lib (dget raw ''proposal_digest'')))
     | _ \<Rightarrow> Inl (bad_field ''action_type'')) = Inr a"
    unfolding build_proposed_action_def rbind_eq_Inr by blast
  from rest obtain t where t: "dget raw ''action_type'' = PStr t" by (auto simp: result_simps)
  with k have k': "k \<longleftrightarrow> t \<in> set ACTION_TYPES" by simp
  from rest t obtain sv b where "k" "map_of ACTION_SCHEMA_VERSIONS t = Some sv" "dget raw ''schema_version'' = PStr sv"
    "action_body lib raw t sv = Inr b" "check_action lib (dget raw ''proposal_digest'') b = Inr a"
    by (auto simp: rbind_eq_Inr split: option.splits if_splits)
  with raw t k' show ?thesis by blast
qed

text \<open>The dictionary form of an action, read back field by field.\<close>

lemma action_raw_dict:
  "action_raw lib (PDict (action_to_dict a d)) = Inr (action_to_dict a d)"
  by (simp add: action_raw_def reparse action_to_dict_def ACTION_FIELDS_def ACTION_REQUIRED_def)

lemma action_dict_get:
  "dget (action_to_dict a d) ''schema_version'' = PStr (pa_schema_version a)"
  "dget (action_to_dict a d) ''action_type'' = PStr (pa_action_type a)"
  "dget (action_to_dict a d) ''run_id'' = PStr (pa_run_id a)"
  "dget (action_to_dict a d) ''action_id'' = PStr (pa_action_id a)"
  "dget (action_to_dict a d) ''initiator'' = PStr (pa_initiator a)"
  "dget (action_to_dict a d) ''payload'' = PDict (pa_payload a)"
  "dget (action_to_dict a d) ''evidence_refs'' = PList (map PStr (pa_evidence_refs a))"
  "dget (action_to_dict a d) ''calculation_refs'' = PList (map PStr (pa_calculation_refs a))"
  "dget (action_to_dict a d) ''risk_class'' = PStr (pa_risk_class a)"
  "dget (action_to_dict a d) ''approval_class'' = PStr (pa_approval_class a)"
  "dget (action_to_dict a d) ''snapshot_ref'' = PStr (pa_snapshot_ref a)"
  "dget (action_to_dict a d) ''idempotency_key'' = PStr (pa_idempotency_key a)"
  "dget (action_to_dict a d) ''expires_at'' = PStr (pa_expires_at a)"
  "dget (action_to_dict a d) ''revalidation_rule'' = pa_revalidation_rule a"
  "dget (action_to_dict a d) ''proposal_digest'' = PStr (pa_proposal_digest a)"
  "dget (action_to_dict a d) ''correlation_id'' = PStr (pa_correlation_id a)"
  "dget (action_to_dict a d) ''summary'' = (if d then PStr (pa_summary a) else PNone)"
  by (simp_all add: action_to_dict_def)

lemma known_class_reparse: "s \<in> set cs \<Longrightarrow> known_class (PStr s) cs = s"
  by (simp add: known_class_def)

text \<open>What a parsed body holds.\<close>

definition body_ok :: "pylib \<Rightarrow> ProposedAction \<Rightarrow> bool" where
  "body_ok lib b \<longleftrightarrow>
     (pa_summary b = [] \<or> good_text 2000 (pa_summary b)) \<and> idempotency_shape (pa_idempotency_key b) \<and>
     uuid_shape (pa_run_id b) \<and> uuid_shape (pa_action_id b) \<and> uuid_shape (pa_correlation_id b) \<and>
     good_text 140 (pa_initiator b) \<and> good_text 256 (pa_snapshot_ref b) \<and>
     (\<exists>v. parse_payload (pa_action_type b) v = Inr (pa_payload b)) \<and>
     refs_ok (pa_evidence_refs b) \<and> refs_ok (pa_calculation_refs b) \<and>
     (\<exists>v. gov_timestamp lib v ''expires_at'' = Inr (pa_expires_at b))"

lemma parse_summary_ok: "parse_summary raw = Inr s \<Longrightarrow> s = [] \<or> good_text 2000 s"
  by (auto simp: parse_summary_def parse_ok split: if_splits)

lemma gov_uuid_shape: "gov_uuid v l = Inr u \<Longrightarrow> uuid_shape u"
  by (auto simp: gov_uuid_ok)

lemma action_body_ok:
  "action_body lib raw t sv = Inr b \<Longrightarrow> body_ok lib b \<and> pa_action_type b = t \<and> pa_schema_version b = sv"
  unfolding action_body_def rbind_eq_Inr body_ok_def
  by (elim exE conjE) (auto simp: parse_ok dest: parse_summary_ok gov_uuid_shape ref_list_sound)

lemma action_body_again:
  assumes "body_ok lib b" and "pylib_ok lib" and "payload_complete (pa_action_type b) (pa_payload b)"
    and "pa_risk_class b \<in> set RISK_CLASSES" "pa_approval_class b \<in> set APPROVAL_CLASSES"
    and a: "a = b\<lparr>pa_proposal_digest := d\<rparr>" and disp: "disp \<longrightarrow> pa_summary b \<noteq> []"
  shows "action_body lib (action_to_dict a disp) (pa_action_type b) (pa_schema_version b) =
    Inr (b\<lparr>pa_proposal_digest := [], pa_summary := (if disp then pa_summary b else [])\<rparr>)"
proof -
  have "parse_payload (pa_action_type b) (PDict (pa_payload b)) = Inr (pa_payload b)"
    using assms(1,3) parse_payload_idem by (auto simp: body_ok_def)
  moreover have "gov_timestamp lib (PStr (pa_expires_at b)) ''expires_at'' = Inr (pa_expires_at b)"
    using assms(1,2) gov_timestamp_reparse by (auto simp: body_ok_def)
  moreover have "parse_summary (action_to_dict a disp) = Inr (if disp then pa_summary b else [])"
    using assms(1) disp a by (auto simp: parse_summary_def action_dict_get reparse body_ok_def)
  ultimately show ?thesis
    using assms(1,4,5) by (simp add: action_body_def action_dict_get a reparse body_ok_def ref_list_of_ok known_class_reparse)
qed

lemma action_body_digest_empty: "action_body lib raw t sv = Inr b \<Longrightarrow> pa_proposal_digest b = []"
  unfolding action_body_def rbind_eq_Inr by auto

lemma build_again:
  assumes "build_proposed_action lib v = Inr a" and lib: "pylib_ok lib"
    and "payload_complete (pa_action_type a) (pa_payload a)" and disp: "disp \<longrightarrow> pa_summary a \<noteq> []"
  shows "build_proposed_action lib (PDict (action_to_dict a disp)) =
    Inr (a\<lparr>pa_summary := (if disp then pa_summary a else [])\<rparr>)"
proof -
  from build_proposed_action_ok [OF assms(1)] obtain raw t sv b where
    t: "t \<in> set ACTION_TYPES" "map_of ACTION_SCHEMA_VERSIONS t = Some sv"
    and body: "action_body lib raw t sv = Inr b" and chk: "check_action lib (dget raw ''proposal_digest'') b = Inr a"
    by blast
  note ok = action_body_ok [OF body] and emp = action_body_digest_empty [OF body]
  from chk [unfolded check_action_iff] obtain d where a: "a = b\<lparr>pa_proposal_digest := d\<rparr>"
    and cls: "pa_risk_class b \<in> set RISK_CLASSES" "pa_approval_class b \<in> set APPROVAL_CLASSES" by blast
  have "action_body lib (action_to_dict a disp) t sv = Inr (b\<lparr>pa_summary := (if disp then pa_summary b else [])\<rparr>)"
    using action_body_again [OF _ lib _ cls a, of disp] ok assms(3) disp emp by (simp add: a)
  moreover have "check_action lib (PStr (pa_proposal_digest a)) (b\<lparr>pa_summary := (if disp then pa_summary b else [])\<rparr>) =
      Inr (a\<lparr>pa_summary := (if disp then pa_summary b else [])\<rparr>)"
    by (rule check_action_summary [OF check_action_again [OF chk lib]])
  moreover have "pa_action_type a = t" "pa_schema_version a = sv" "pa_summary a = pa_summary b" using ok a by simp_all
  ultimately show ?thesis
    using t by (simp add: build_proposed_action_def action_raw_dict action_dict_get)
qed

end
