(* ===== verification/Canonical_Json.thy ===== *)
theory Canonical_Json
  imports Action_Roundtrip
begin

text \<open>
  Canonical JSON is unambiguous.  The digest of a proposed action binds its reviewed content
  only if two contents never share their canonical bytes.  The theory shows that
  \<open>_canonical_json\<close> is injective, up to the order of dictionary keys, on the values a proposed
  action is made of: text, lists and dictionaries of text.
\<close>

section \<open>Text trees and their canonical form\<close>

fun text_tree :: "pyval \<Rightarrow> bool" where
  "text_tree (PStr s) = True"
| "text_tree (PList xs) = (\<forall>x \<in> set xs. text_tree x)"
| "text_tree (PDict d) = (distinct (map fst d) \<and> (\<forall>p \<in> set d. text_tree (snd p)))"
| "text_tree _ = False"

text \<open>Dictionaries sorted by key, at every level.\<close>

fun canon :: "pyval \<Rightarrow> pyval"
and canon_list :: "pyval list \<Rightarrow> pyval list"
and canon_items :: "(string \<times> pyval) list \<Rightarrow> (string \<times> pyval) list" where
  "canon (PList xs) = PList (canon_list xs)"
| "canon (PDict d) = PDict (sort_key fst (canon_items d))"
| "canon v = v"
| "canon_list [] = []"
| "canon_list (x # xs) = canon x # canon_list xs"
| "canon_items [] = []"
| "canon_items ((k, v) # d) = (k, canon v) # canon_items d"

lemma canon_list_map: "canon_list xs = map canon xs"
  by (induction xs) simp_all

lemma canon_items_map: "canon_items d = map (\<lambda>p. (fst p, canon (snd p))) d"
  by (induction d) auto

lemma sort_key_fst_map:
  "sort_key fst (map (\<lambda>p. (fst p, g (snd p))) d) = map (\<lambda>p. (fst p, g (snd p))) (sort_key fst d)"
proof -
  have "insort_key fst (fst p, g (snd p)) (map (\<lambda>p. (fst p, g (snd p))) ys) =
      map (\<lambda>p. (fst p, g (snd p))) (insort_key fst p ys)" for p ys
    by (induction ys) auto
  note step = this
  show ?thesis by (induction d) (simp_all add: step)
qed

lemma canon_dict: "canon (PDict d) = PDict (map (\<lambda>p. (fst p, canon (snd p))) (sort_key fst d))"
  by (simp add: canon_items_map sort_key_fst_map)

section \<open>Prefix-free text\<close>

lemma of_hex_char: "n < 16 \<Longrightarrow> of_char (hex_char n) = (if n < 10 then 48 + n else 87 + n :: nat)"
  by (simp add: hex_char_def)

lemma hex_char_inj:
  assumes "m < 16" "n < 16" "hex_char m = hex_char n"
  shows "m = n"
proof -
  have "(if m < 10 then 48 + m else 87 + m) = (if n < 10 then 48 + n else 87 + n :: nat)"
    using assms(3) of_hex_char [OF assms(1)] of_hex_char [OF assms(2)] by metis
  then show ?thesis by (simp split: if_splits)
qed

lemma hex_pair_inj:
  assumes "m < 32" "n < 32" "hex_char (m div 16) = hex_char (n div 16)" "hex_char (m mod 16) = hex_char (n mod 16)"
  shows "m = n"
proof -
  have "m div 16 = n div 16" using assms by (intro hex_char_inj) simp_all
  moreover have "m mod 16 = n mod 16" using assms by (intro hex_char_inj) simp_all
  ultimately show ?thesis by (metis div_mult_mod_eq)
qed

text \<open>The three forms of an escape.\<close>

definition short_escapes :: "(nat \<times> char) list" where
  "short_escapes = [(34, CHR ''\"''), (92, CHR 92), (10, CHR ''n''), (13, CHR ''r''), (9, CHR ''t''), (12, CHR ''f''), (8, CHR ''b'')]"

lemma short_escapes_inj: "(m, e) \<in> set short_escapes \<Longrightarrow> (n, e) \<in> set short_escapes \<Longrightarrow> m = n"
  by (auto simp: short_escapes_def)

lemma short_escapes_u: "(m, CHR ''u'') \<notin> set short_escapes"
  by (simp add: short_escapes_def)

lemma json_escape_char_forms:
  "(json_escape_char c = [c] \<and> of_char c \<noteq> (34::nat) \<and> of_char c \<noteq> (92::nat)) \<or>
   (\<exists>e. json_escape_char c = [CHR 92, e] \<and> (of_char c, e) \<in> set short_escapes) \<or>
   (json_escape_char c = [CHR 92, CHR ''u'', CHR ''0'', CHR ''0'', hex_char (of_char c div 16), hex_char (of_char c mod 16)] \<and>
      of_char c < (32::nat))"
proof -
  have "c = CHR ''\"'' \<longleftrightarrow> of_char c = (34::nat)"
  proof
    assume "of_char c = (34::nat)"
    then have "(of_char c :: nat) = of_char (CHR ''\"'')" by simp
    then show "c = CHR ''\"''" by (simp only: of_char_eq_iff)
  qed simp
  then show ?thesis unfolding json_escape_char_def Let_def short_escapes_def by simp
qed

lemma json_escape_char_prefix_free:
  assumes "json_escape_char c @ x = json_escape_char d @ y"
  shows "c = d \<and> x = y"
proof -
  have code: "c = d" if "(of_char c :: nat) = of_char d" using that by (simp only: of_char_eq_iff)
  have bs: "of_char (CHR 92) = (92::nat)" by simp
  show ?thesis
    using json_escape_char_forms [of c] json_escape_char_forms [of d]
  proof (elim disjE exE conjE)
    fix e f assume e: "json_escape_char c = [CHR 92, e]" "(of_char c, e) \<in> set short_escapes"
      and f: "json_escape_char d = [CHR 92, f]" "(of_char d, f) \<in> set short_escapes"
    have ef: "e = f" "x = y" using assms unfolding e(1) f(1) by simp_all
    from code [OF short_escapes_inj [OF e(2)]] f(2) ef show ?thesis by blast
  next
    assume "of_char c < (32::nat)" "of_char d < (32::nat)"
      "json_escape_char c = [CHR 92, CHR ''u'', CHR ''0'', CHR ''0'', hex_char (of_char c div 16), hex_char (of_char c mod 16)]"
      "json_escape_char d = [CHR 92, CHR ''u'', CHR ''0'', CHR ''0'', hex_char (of_char d div 16), hex_char (of_char d mod 16)]"
    then show ?thesis using assms hex_pair_inj [of "of_char c" "of_char d"] code by auto
  qed (use assms bs short_escapes_u in auto)
qed

lemma json_escape_char_no_quote: "json_escape_char c @ x \<noteq> CHR ''\"'' # y"
  using json_escape_char_forms [of c] by auto

lemma json_chars_prefix_free:
  assumes "concat (map json_escape_char s) @ CHR ''\"'' # x = concat (map json_escape_char t) @ CHR ''\"'' # y"
  shows "s = t \<and> x = y"
  using assms
proof (induction s arbitrary: t)
  case Nil
  show ?case
  proof (cases t)
    case (Cons d t')
    with Nil json_escape_char_no_quote [of d "concat (map json_escape_char t') @ CHR ''\"'' # y" x]
    show ?thesis by simp
  qed (use Nil in simp)
next
  case (Cons c s)
  then obtain d t' where t: "t = d # t'"
    using json_escape_char_no_quote [of c "concat (map json_escape_char s) @ CHR ''\"'' # x" y] by (cases t) auto
  with Cons.prems have "json_escape_char c @ (concat (map json_escape_char s) @ CHR ''\"'' # x) =
      json_escape_char d @ (concat (map json_escape_char t') @ CHR ''\"'' # y)" by simp
  from json_escape_char_prefix_free [OF this] Cons.IH [of t'] t show ?case by simp
qed

lemma json_string_prefix_free:
  assumes "json_string s @ x = json_string t @ y"
  shows "s = t \<and> x = y"
  using assms json_chars_prefix_free [of s x t y] by (simp add: json_string_def)

section \<open>Values\<close>

text \<open>Text that follows the first element of a list or object.\<close>

fun json_tail :: "char \<Rightarrow> string list \<Rightarrow> string \<Rightarrow> string" where
  "json_tail close [] r = close # r"
| "json_tail close (t # ts) r = CHR '','' # t @ json_tail close ts r"

lemma join_tail: "join '','' (t # ts) @ close # r = t @ json_tail close ts r"
  by (induction ts arbitrary: t) simp_all

text \<open>On text trees \<open>json_dumps\<close> is total; \<open>jtext\<close> is its result.\<close>

fun jtext :: "pyval \<Rightarrow> string" where
  "jtext v = (case json_dumps v of Inl _ \<Rightarrow> [] | Inr s \<Rightarrow> s)"

declare jtext.simps [simp del]

definition jpair :: "string \<times> pyval \<Rightarrow> string" where
  "jpair p = json_string (fst p) @ '':'' @ jtext (snd p)"

lemma json_dumps_list_total:
  assumes "\<And>x. x \<in> set xs \<Longrightarrow> json_dumps x = Inr (jtext x)"
  shows "json_dumps_list xs = Inr (map jtext xs)"
  using assms by (induction xs) simp_all

lemma json_dumps_items_total:
  assumes "\<And>p. p \<in> set d \<Longrightarrow> json_dumps (snd p) = Inr (jtext (snd p))"
  shows "json_dumps_items d = Inr (map (\<lambda>p. (fst p, jtext (snd p))) d)"
  using assms
proof (induction d)
  case (Cons p d)
  then have "json_dumps (snd p) = Inr (jtext (snd p))" "json_dumps_items d = Inr (map (\<lambda>p. (fst p, jtext (snd p))) d)"
    by simp_all
  then show ?case by (cases p) simp
qed simp

lemma json_dumps_text_tree: "text_tree v \<Longrightarrow> json_dumps v = Inr (jtext v)"
proof (induction v rule: text_tree.induct)
  case (2 xs)
  then have "json_dumps_list xs = Inr (map jtext xs)" by (intro json_dumps_list_total) simp
  then show ?case by (simp add: jtext.simps)
next
  case (3 d)
  then have "json_dumps_items d = Inr (map (\<lambda>p. (fst p, jtext (snd p))) d)"
    by (intro json_dumps_items_total) simp
  then show ?case by (simp add: jtext.simps)
qed (simp_all add: jtext.simps)

lemma jtext_str: "jtext (PStr s) = json_string s"
  by (simp add: jtext.simps)

lemma jtext_list: "text_tree (PList xs) \<Longrightarrow> jtext (PList xs) = ''['' @ join '','' (map jtext xs) @ '']''"
  using json_dumps_list_total [of xs] json_dumps_text_tree by (simp add: jtext.simps [of "PList xs"])

lemma jtext_dict:
  "text_tree (PDict d) \<Longrightarrow> jtext (PDict d) = ''{'' @ join '','' (map jpair (sort_key fst d)) @ ''}''"
  using json_dumps_items_total [of d] json_dumps_text_tree
  by (simp add: jtext.simps [of "PDict d"] sort_key_fst_map jpair_def [abs_def] comp_def)

lemma jtext_head:
  assumes "text_tree v"
  obtains s where "v = PStr s" "jtext v = CHR ''\"'' # tl (jtext v)"
  | xs where "v = PList xs" "jtext v = CHR ''['' # tl (jtext v)"
  | d where "v = PDict d" "jtext v = CHR ''{'' # tl (jtext v)"
  using assms by (cases v) (simp_all add: jtext_list jtext_dict jtext_str json_string_def)

text \<open>Sequences of prefix-free texts between delimiters are prefix-free.\<close>

definition separates :: "'a set \<Rightarrow> 'a set \<Rightarrow> ('a \<Rightarrow> string) \<Rightarrow> ('a \<Rightarrow> 'b) \<Rightarrow> bool" where
  "separates A B f g = (\<forall>x \<in> A. \<forall>y \<in> B. \<forall>r r'. f x @ r = f y @ r' \<longrightarrow> g x = g y \<and> r = r')"

lemma separatesD: "separates A B f g \<Longrightarrow> x \<in> A \<Longrightarrow> y \<in> B \<Longrightarrow> f x @ r = f y @ r' \<Longrightarrow> g x = g y \<and> r = r'"
  unfolding separates_def by blast

lemma separates_Cons:
  assumes "separates (set (x # xs)) (set (y # ys)) f g"
  shows "separates (set xs) (set ys) f g"
proof -
  have "set xs \<subseteq> set (x # xs)" "set ys \<subseteq> set (y # ys)" by auto
  with assms show ?thesis unfolding separates_def by blast
qed

lemma json_tail_prefix_free:
  assumes "separates (set xs) (set ys) f g" and "close \<noteq> CHR '',''"
    and "json_tail close (map f xs) r = json_tail close (map f ys) r'"
  shows "map g xs = map g ys \<and> r = r'"
  using assms
proof (induction xs arbitrary: ys)
  case Nil
  then show ?case by (cases ys) auto
next
  case (Cons x xs)
  then obtain y ys' where ys: "ys = y # ys'" by (cases ys) auto
  have "g x = g y \<and> json_tail close (map f xs) r = json_tail close (map f ys') r'"
    by (rule separatesD [OF Cons.prems(1)]) (use Cons.prems(3) ys in simp_all)
  moreover from this have "map g xs = map g ys' \<and> r = r'"
    by (intro Cons.IH separates_Cons [OF Cons.prems(1) [unfolded ys]] Cons.prems(2)) simp
  ultimately show ?case using ys by simp
qed

lemma json_seq_prefix_free:
  assumes sep: "separates (set xs) (set ys) f g" and close: "close \<noteq> CHR '',''"
    and nonempty: "\<forall>x \<in> set xs \<union> set ys. \<exists>c z. f x = c # z \<and> c \<noteq> close"
    and eq: "join '','' (map f xs) @ close # r = join '','' (map f ys) @ close # r'"
  shows "map g xs = map g ys \<and> r = r'"
proof (cases xs)
  case Nil
  show ?thesis
  proof (cases ys)
    case (Cons y ys')
    then have "close # r = f y @ json_tail close (map f ys') r'" using eq Nil by (simp add: join_tail)
    moreover obtain c z where "f y = c # z" "c \<noteq> close" using nonempty Cons by auto
    ultimately show ?thesis by simp
  qed (use eq Nil in simp)
next
  case (Cons x xs')
  then have 1: "join '','' (map f xs) @ close # r = f x @ json_tail close (map f xs') r" by (simp add: join_tail)
  obtain c z where "f x = c # z" "c \<noteq> close" using nonempty Cons by auto
  then obtain y ys' where ys: "ys = y # ys'" using eq 1 by (cases ys) simp_all
  then have "f x @ json_tail close (map f xs') r = f y @ json_tail close (map f ys') r'"
    using eq 1 by (simp add: join_tail)
  then have "g x = g y \<and> json_tail close (map f xs') r = json_tail close (map f ys') r'"
    by (rule separatesD [OF sep, rotated 2]) (simp_all add: Cons ys)
  moreover from this have "map g xs' = map g ys' \<and> r = r'"
    by (intro json_tail_prefix_free [OF separates_Cons [OF sep [unfolded Cons ys]] close]) simp
  ultimately show ?thesis using Cons ys by simp
qed

lemma jtext_no_close:
  "text_tree v \<Longrightarrow> \<exists>c z. jtext v = c # z \<and> c \<noteq> CHR '']'' \<and> c \<noteq> CHR ''}''"
  by (cases v) (simp_all add: jtext_list jtext_dict jtext_str json_string_def)

lemma jtext_prefix_free:
  assumes "text_tree v" and "text_tree w" and "jtext v @ r = jtext w @ r'"
  shows "canon v = canon w \<and> r = r'"
  using assms
proof (induction v arbitrary: w r r' rule: text_tree.induct)
  case (1 s)
  then obtain t where w: "w = PStr t"
    by (cases w) (simp_all add: jtext_list jtext_dict jtext_str json_string_def)
  with 1 json_string_prefix_free [of s r t r'] show ?case by (simp add: jtext_str)
next
  case (2 xs)
  then obtain ys where w: "w = PList ys"
    by (cases w) (simp_all add: jtext_list jtext_dict jtext_str json_string_def)
  have "separates (set xs) (set ys) jtext canon"
    unfolding separates_def
  proof (intro ballI allI impI)
    fix x y r r' assume xy: "x \<in> set xs" "y \<in> set ys" "jtext x @ r = jtext y @ r'"
    with 2(2,3) w have "text_tree x" "text_tree y" by simp_all
    then show "canon x = canon y \<and> r = r'" by (rule 2(1) [OF xy(1) _ _ xy(3)])
  qed
  moreover have "join '','' (map jtext xs) @ CHR '']'' # r = join '','' (map jtext ys) @ CHR '']'' # r'"
    using 2(2-4) w by (simp add: jtext_list)
  moreover have "\<forall>x \<in> set xs \<union> set ys. \<exists>c z. jtext x = c # z \<and> c \<noteq> CHR '']''"
    using 2(2,3) w jtext_no_close by fastforce
  ultimately have "map canon xs = map canon ys \<and> r = r'" by (intro json_seq_prefix_free) simp_all
  then show ?case using w by (simp add: canon_list_map)
next
  case (3 d)
  then obtain e where w: "w = PDict e"
    by (cases w) (simp_all add: jtext_list jtext_dict jtext_str json_string_def)
  let ?g = "\<lambda>p. (fst p, canon (snd p))" and ?D = "sort_key fst d" and ?E = "sort_key fst e"
  have "separates (set ?D) (set ?E) jpair ?g"
    unfolding separates_def
  proof (intro ballI allI impI)
    fix p q r r' assume pq: "p \<in> set ?D" "q \<in> set ?E" "jpair p @ r = jpair q @ r'"
    then have "json_string (fst p) @ '':'' @ jtext (snd p) @ r = json_string (fst q) @ '':'' @ jtext (snd q) @ r'"
      by (simp add: jpair_def)
    from json_string_prefix_free [OF this] have "fst p = fst q" "jtext (snd p) @ r = jtext (snd q) @ r'" by simp_all
    moreover have "text_tree (snd p)" "text_tree (snd q)" "p \<in> set d" using 3(2,3) w pq by simp_all
    ultimately show "?g p = ?g q \<and> r = r'" using 3(1) by blast
  qed
  moreover have "join '','' (map jpair ?D) @ CHR ''}'' # r = join '','' (map jpair ?E) @ CHR ''}'' # r'"
    using 3(2-4) w by (simp add: jtext_dict)
  moreover have "\<forall>x \<in> set ?D \<union> set ?E. \<exists>c z. jpair x = c # z \<and> c \<noteq> CHR ''}''"
    by (auto simp: jpair_def json_string_def)
  ultimately have "map ?g ?D = map ?g ?E \<and> r = r'" by (intro json_seq_prefix_free) simp_all
  then show ?case using w by (simp only: canon_dict)
qed simp_all

section \<open>UTF-8\<close>

lemma utf8_char_prefix_free:
  assumes "utf8_char c @ x = utf8_char d @ y"
  shows "c = d \<and> x = y"
proof -
  let ?m = "of_char c :: nat" and ?n = "of_char d :: nat"
  have code: "c = d" if "?m = ?n" using that by (simp only: of_char_eq_iff)
  have hi: "of_char (char_of (192 + k div 64) :: char) = 192 + k div 64"
    and lo: "of_char (char_of (128 + k mod 64) :: char) = 128 + k mod 64" if "k < 256" for k :: nat
  proof -
    have "k div 64 < 4" using that by auto
    then show "of_char (char_of (192 + k div 64) :: char) = 192 + k div 64" by simp
    have "k mod 64 < 64" by simp
    then have "128 + k mod 64 < 256" by linarith
    then show "of_char (char_of (128 + k mod 64) :: char) = 128 + k mod 64" by simp
  qed
  have lead: "(of_char (hd (utf8_char e)) :: nat) < 128 \<longleftrightarrow> (of_char e :: nat) < 128" for e
    using hi [of "of_char e"] by (simp add: utf8_char_def Let_def)
  have "hd (utf8_char c) = hd (utf8_char d)"
    using assms by (cases "utf8_char c"; cases "utf8_char d") (auto simp: utf8_char_def Let_def split: if_splits)
  then have same: "?m < 128 \<longleftrightarrow> ?n < 128" using lead [of c] lead [of d] by simp
  show ?thesis
  proof (cases "?m < 128")
    case True
    with same assms show ?thesis by (simp add: utf8_char_def Let_def)
  next
    case False
    with same assms have eq: "char_of (192 + ?m div 64) = (char_of (192 + ?n div 64) :: char)"
      "char_of (128 + ?m mod 64) = (char_of (128 + ?n mod 64) :: char)" "x = y"
      by (simp_all add: utf8_char_def Let_def)
    have "192 + ?m div 64 = 192 + ?n div 64" "128 + ?m mod 64 = 128 + ?n mod 64"
      using arg_cong [OF eq(1), of "of_char :: char \<Rightarrow> nat"] arg_cong [OF eq(2), of "of_char :: char \<Rightarrow> nat"]
      by (simp_all only: hi [OF nat_of_char_less_256] lo [OF nat_of_char_less_256])
    then have "?m div 64 = ?n div 64" "?m mod 64 = ?n mod 64" by simp_all
    then have "?m = ?n" by (metis div_mult_mod_eq)
    with code eq(3) show ?thesis by blast
  qed
qed

lemma utf8_char_nonempty [simp]: "utf8_char c \<noteq> []"
  by (simp add: utf8_char_def Let_def)

lemma utf8_encode_inj: "utf8_encode s = utf8_encode t \<Longrightarrow> s = t"
proof (induction s arbitrary: t)
  case Nil
  then show ?case by (cases t) (simp_all add: utf8_encode_def)
next
  case (Cons c s)
  then obtain d t' where t: "t = d # t'" by (cases t) (simp_all add: utf8_encode_def)
  have "utf8_char c @ utf8_encode s = utf8_char d @ utf8_encode t'"
    using Cons.prems by (simp add: t utf8_encode_def)
  from utf8_char_prefix_free [OF this] Cons.IH [of t'] t show ?case by simp
qed

lemma canonical_json_inj:
  assumes "text_tree v" and "text_tree w" and "canonical_json v = canonical_json w"
  shows "canon v = canon w"
proof -
  have "utf8_encode (jtext v) = utf8_encode (jtext w)"
    using assms(3) json_dumps_text_tree [OF assms(1)] json_dumps_text_tree [OF assms(2)]
    by (simp add: canonical_json_def)
  then have "jtext v = jtext w" by (rule utf8_encode_inj)
  with jtext_prefix_free [OF assms(1,2), of "[]" "[]"] show ?thesis by simp
qed

lemma canonical_json_total: "text_tree v \<Longrightarrow> canonical_json v = Inr (utf8_encode (jtext v))"
  by (simp add: canonical_json_def json_dumps_text_tree)

end
