(* ===== verification/Action_Properties.thy ===== *)
theory Action_Properties
  imports Canonical_Json
begin

text \<open>
  The properties of \<open>governance/contracts.py\<close>: what a proposed action, a decision and a receipt
  guarantee once parsed, that they can be read back, and that the digest binds the content.
\<close>

section \<open>A proposed action is a tree of text\<close>

declare text_tree.simps(3) [simp del]

lemma text_tree_dict [simp]:
  "text_tree (PDict [])"
  "text_tree (PDict ((k, v) # d)) \<longleftrightarrow> k \<notin> set (dkeys d) \<and> text_tree v \<and> text_tree (PDict d)"
  by (auto simp: text_tree.simps(3) dkeys_def)

lemma text_tree_list [simp]: "text_tree (PList (map PStr ss))"
  by simp

lemma text_tree_dict_set:
  assumes "text_tree (PDict d)" and "text_tree v"
  shows "text_tree (PDict (dict_set d k v))"
  using assms by (induction d) auto

lemma add_optional_text_tree:
  "add_optional_text raw k n p = Inr q \<Longrightarrow> text_tree (PDict p) \<longrightarrow> text_tree (PDict q)"
  by (auto simp: add_optional_text_ok intro: text_tree_dict_set)

lemma add_optional_currency_tree:
  "add_optional_currency raw k p = Inr q \<Longrightarrow> text_tree (PDict p) \<longrightarrow> text_tree (PDict q)"
  by (auto simp: add_optional_currency_ok intro: text_tree_dict_set)

lemmas text_tree_steps = add_optional_text_tree add_optional_currency_tree

abbreviation (input) yields :: "('a \<Rightarrow> bool) \<Rightarrow> 'a result \<Rightarrow> bool" where
  "yields \<equiv> outcome (\<lambda>_. True)"

lemma parse_item_tree: "yields text_tree (parse_item v t i)"
  unfolding parse_item_def
  by (intro outcome_intros outcome_True) (auto dest!: text_tree_steps intro: text_tree_dict_set)

lemma parse_line_item_tree: "yields (\<lambda>p. text_tree (snd p)) (parse_line_item t seen i v)"
  unfolding parse_line_item_def
  by (intro outcome_intros outcome_True) (auto dest!: text_tree_steps intro: text_tree_dict_set)

lemma parse_line_rows_tree: "yields (list_all text_tree) (parse_line_rows t seen i vs)"
proof (induction vs arbitrary: seen i)
  case (Cons v vs)
  show ?case unfolding parse_line_rows.simps
    by (rule outcome_bind [OF parse_line_item_tree], rule outcome_prod, rule outcome_bind [OF Cons.IH]) simp
qed simp

lemma parse_reference_tree: "yields text_tree (parse_reference i v)"
  unfolding parse_reference_def by (intro outcome_intros outcome_True) auto

lemma parse_source_payload_tree: "yields (\<lambda>p. text_tree (PDict p)) (parse_source_payload t v)"
  unfolding parse_source_payload_def
  by (intro outcome_intros outcome_True) (auto simp: outcome_def split: sum.splits dest!: text_tree_steps)

lemma text_tree_PList: "list_all text_tree xs \<Longrightarrow> text_tree (PList xs)"
  by (simp add: list_all_iff)

lemma parse_line_items_tree: "parse_line_items v t = Inr items \<Longrightarrow> text_tree (PList items)"
  by (auto simp: parse_line_items_def rbind_eq_Inr list_all_iff dest!: outcome_okD [OF parse_line_rows_tree])

lemma parse_draft_payload_tree: "yields (\<lambda>p. text_tree (PDict p)) (parse_draft_payload t v)"
  unfolding parse_draft_payload_def
  by (intro outcome_intros outcome_True)
    (auto simp: outcome_def split: sum.splits dest!: text_tree_steps parse_line_items_tree)

lemma parse_references_tree: "rmap_from 0 parse_reference refs = Inr ps \<Longrightarrow> text_tree (PList ps)"
  by (rule text_tree_PList, rule outcome_okD [OF outcome_rmap_from [OF parse_reference_tree]])

lemma parse_items_tree: "rmap_from 0 (\<lambda>i v. parse_item v t i) vs = Inr ps \<Longrightarrow> text_tree (PList ps)"
  by (rule text_tree_PList, rule outcome_okD [OF outcome_rmap_from [OF parse_item_tree]])

lemma parse_payment_payload_tree: "yields (\<lambda>p. text_tree (PDict p)) (parse_payment_payload t v)"
  unfolding parse_payment_payload_def
  by (intro outcome_intros outcome_True)
    (simp_all add: outcome_def split: sum.split, (drule parse_references_tree, auto dest!: text_tree_steps)?)

lemma parse_payload_tree: "yields (\<lambda>p. text_tree (PDict p)) (parse_payload t v)"
  unfolding parse_payload_def parse_p2p_payload_def
  by (intro outcome_intros outcome_True parse_source_payload_tree parse_draft_payload_tree parse_payment_payload_tree)
    (auto dest!: parse_items_tree)

section \<open>The digest binds the content\<close>

lemma canon_dget:
  assumes "canon (PDict d) = canon (PDict e)" and "distinct (map fst d)" and "distinct (map fst e)"
  shows "canon (dget d k) = canon (dget e k)"
proof -
  let ?g = "\<lambda>p. (fst p, canon (snd p))"
  have "set (map ?g (sort_key fst d)) = set (map ?g (sort_key fst e))"
    using assms(1) unfolding canon_dict by simp
  then have "set (map ?g d) = set (map ?g e)" by simp
  moreover have "distinct (map fst (map ?g d))" "distinct (map fst (map ?g e))"
    using assms(2,3) by (simp_all add: comp_def)
  ultimately have "map_of (map ?g d) = map_of (map ?g e)" by (simp add: map_of_inject_set)
  moreover have "map_of (map ?g f) k = map_option canon (map_of f k)" for f :: "(string \<times> pyval) list"
    using map_of_map [of canon f] by (simp add: case_prod_unfold)
  ultimately have "map_option canon (map_of d k) = map_option canon (map_of e k)" by metis
  then show ?thesis by (auto simp: dget_def split: option.splits)
qed

definition reviewed_content :: "ProposedAction \<Rightarrow> (string \<times> pyval) list" where
  "reviewed_content a = dict_pop ''correlation_id'' (dict_pop ''proposal_digest'' (action_to_dict a False))"

lemma reviewed_content_tree:
  assumes "text_tree (PDict (pa_payload a))" and "pa_revalidation_rule a = PStr r"
  shows "text_tree (PDict (reviewed_content a))"
  using assms by (simp add: reviewed_content_def action_to_dict_def dict_pop_def del: text_tree.simps(2))

text \<open>Two actions with the same reviewed content: every reviewed field agrees, the payload up to
  the order of its keys.\<close>

definition same_reviewed :: "ProposedAction \<Rightarrow> ProposedAction \<Rightarrow> bool" where
  "same_reviewed a b \<longleftrightarrow>
     pa_schema_version a = pa_schema_version b \<and> pa_action_type a = pa_action_type b \<and>
     pa_run_id a = pa_run_id b \<and> pa_action_id a = pa_action_id b \<and> pa_initiator a = pa_initiator b \<and>
     canon (PDict (pa_payload a)) = canon (PDict (pa_payload b)) \<and>
     pa_evidence_refs a = pa_evidence_refs b \<and> pa_calculation_refs a = pa_calculation_refs b \<and>
     pa_risk_class a = pa_risk_class b \<and> pa_approval_class a = pa_approval_class b \<and>
     pa_snapshot_ref a = pa_snapshot_ref b \<and> pa_idempotency_key a = pa_idempotency_key b \<and>
     pa_expires_at a = pa_expires_at b \<and> pa_revalidation_rule a = pa_revalidation_rule b"

lemma canon_texts [simp]: "canon (PList (map PStr ss)) = PList (map PStr ss)"
  by (simp add: canon_list_map comp_def)

lemma map_PStr_inj: "map PStr xs = map PStr ys \<longleftrightarrow> xs = ys"
  by (simp add: inj_on_def inj_map_eq_map)

lemma same_reviewed_of_canon:
  assumes "canon (PDict (reviewed_content a)) = canon (PDict (reviewed_content b))"
    and "pa_revalidation_rule a = PStr r" and "pa_revalidation_rule b = PStr q"
  shows "same_reviewed a b"
proof -
  have "distinct (map fst (reviewed_content c))" for c
    by (simp add: reviewed_content_def action_to_dict_def dict_pop_def)
  then have get: "canon (dget (reviewed_content a) k) = canon (dget (reviewed_content b) k)" for k
    using canon_dget [OF assms(1)] by blast
  note defs = reviewed_content_def action_to_dict_def dict_pop_def
  show ?thesis
    unfolding same_reviewed_def
    using get [of "''schema_version''"] get [of "''action_type''"] get [of "''run_id''"] get [of "''action_id''"]
      get [of "''initiator''"] get [of "''payload''"] get [of "''evidence_refs''"] get [of "''calculation_refs''"]
      get [of "''risk_class''"] get [of "''approval_class''"] get [of "''snapshot_ref''"] get [of "''idempotency_key''"]
      get [of "''expires_at''"] get [of "''revalidation_rule''"] assms(2,3)
    by (simp add: defs map_PStr_inj del: canon.simps(2) canon.simps(1))
qed

text \<open>What every parsed action satisfies, as one fact for the properties.\<close>

lemma built_action:
  assumes "build_proposed_action lib v = Inr a"
  shows "body_ok lib a" and "pa_action_type a \<in> set ACTION_TYPES"
    and "map_of ACTION_SCHEMA_VERSIONS (pa_action_type a) = Some (pa_schema_version a)"
    and "pa_risk_class a \<in> set RISK_CLASSES" and "pa_approval_class a = expected_approval (pa_action_type a)"
    and "pa_revalidation_rule a = PStr (expected_rule (pa_action_type a))"
    and "proposal_digest lib a = Inr (pa_proposal_digest a)"
    and "text_tree (PDict (pa_payload a))"
proof -
  from build_proposed_action_ok [OF assms] obtain raw t sv b where
    t: "t \<in> set ACTION_TYPES" "map_of ACTION_SCHEMA_VERSIONS t = Some sv"
    and body: "action_body lib raw t sv = Inr b" and chk: "check_action lib (dget raw ''proposal_digest'') b = Inr a"
    by blast
  note ok = action_body_ok [OF body]
  from chk [unfolded check_action_iff] obtain d where d: "proposal_digest lib b = Inr d" "a = b\<lparr>pa_proposal_digest := d\<rparr>"
    and cls: "pa_risk_class b \<in> set RISK_CLASSES" "pa_approval_class b = expected_approval (pa_action_type b)"
      "pa_revalidation_rule b = PStr (expected_rule (pa_action_type b))" by blast
  have "body_ok lib (b\<lparr>pa_proposal_digest := d\<rparr>) = body_ok lib b" by (simp add: body_ok_def)
  then show "body_ok lib a" using ok d by simp
  show "pa_action_type a \<in> set ACTION_TYPES" "map_of ACTION_SCHEMA_VERSIONS (pa_action_type a) = Some (pa_schema_version a)"
    "pa_risk_class a \<in> set RISK_CLASSES" "pa_approval_class a = expected_approval (pa_action_type a)"
    "pa_revalidation_rule a = PStr (expected_rule (pa_action_type a))" "proposal_digest lib a = Inr (pa_proposal_digest a)"
    using t ok d cls by simp_all
  show "text_tree (PDict (pa_payload a))"
    using ok d outcome_okD [OF parse_payload_tree] by (auto simp: body_ok_def)
qed

lemma p2p_action_iff: "t \<in> set P2P_ACTION_TYPES \<longleftrightarrow> t \<in> set ACTION_TYPES \<and> t \<notin> {''CREATE_MR_DRAFT'', ''CREATE_PO_DRAFT''}"
  by (auto simp only: P2P_ACTION_TYPES_def set_filter mem_Collect_eq)

lemma action_schema_version:
  assumes "t \<in> set ACTION_TYPES"
  shows "map_of ACTION_SCHEMA_VERSIONS t = Some (if t \<in> {''CREATE_MR_DRAFT'', ''CREATE_PO_DRAFT''} then ''1'' else ''2'')"
  using assms p2p_action_iff [of t]
  by (auto simp: ACTION_SCHEMA_VERSIONS_def map_of_map_restrict restrict_map_def SCHEMA_VERSION_def P2P_SCHEMA_VERSION_def)

section \<open>A sample action\<close>

text \<open>A submission of a purchase order, for the witnesses.  The library services are replaced
  by constant functions.\<close>

definition sample_lib :: pylib where
  "sample_lib = \<lparr>sha256_hex = (\<lambda>_. replicate 64 (CHR ''0'')),
     utc_timestamp = (\<lambda>t. if t = ''2026-01-01T00:00:00+00:00'' then TsUtc ''2026-01-01T00:00:00Z'' else TsValueError),
     json_tokens = (\<lambda>_. None)\<rparr>"

definition sample_payload :: "(string \<times> pyval) list" where
  "sample_payload = [(''company'', PStr ''Acme''), (''source_doctype'', PStr ''Purchase Order''), (''source_name'', PStr ''PO-1'')]"

definition sample_action :: "(string \<times> pyval) list" where
  "sample_action =
     [(''schema_version'', PStr ''2''), (''action_type'', PStr ''SUBMIT_PO''),
      (''run_id'', PStr ''0f8fad5b-d9cb-469f-a165-70867728950e''), (''action_id'', PStr ''0f8fad5b-d9cb-469f-a165-70867728950e''),
      (''initiator'', PStr ''buyer''), (''payload'', PDict sample_payload),
      (''evidence_refs'', PList [PStr ''e1'']), (''calculation_refs'', PList [PStr ''c1'']),
      (''risk_class'', PStr ''HIGH''), (''approval_class'', PStr ''INDEPENDENT_APPROVER''),
      (''snapshot_ref'', PStr ''s1''), (''idempotency_key'', PStr ''key-0001''),
      (''expires_at'', PStr ''2026-01-01T00:00:00Z''), (''revalidation_rule'', PStr ''FULL_PRE_EXECUTE_RECHECK_P2P_V1''),
      (''correlation_id'', PStr ''0f8fad5b-d9cb-469f-a165-70867728950e''), (''summary'', PStr ''Submit'')]"

definition sample_built :: ProposedAction where
  "sample_built =
     \<lparr>pa_schema_version = ''2'', pa_action_type = ''SUBMIT_PO'',
      pa_run_id = ''0f8fad5b-d9cb-469f-a165-70867728950e'', pa_action_id = ''0f8fad5b-d9cb-469f-a165-70867728950e'',
      pa_initiator = ''buyer'', pa_payload = sample_payload, pa_evidence_refs = [''e1''], pa_calculation_refs = [''c1''],
      pa_risk_class = ''HIGH'', pa_approval_class = ''INDEPENDENT_APPROVER'', pa_snapshot_ref = ''s1'',
      pa_idempotency_key = ''key-0001'', pa_expires_at = ''2026-01-01T00:00:00Z'',
      pa_revalidation_rule = PStr ''FULL_PRE_EXECUTE_RECHECK_P2P_V1'', pa_proposal_digest = replicate 64 (CHR ''0''),
      pa_summary = ''Submit'', pa_correlation_id = ''0f8fad5b-d9cb-469f-a165-70867728950e''\<rparr>"

lemma sample_texts:
  "good_text 140 ''buyer''" "good_text 140 ''Acme''" "good_text 80 ''Purchase Order''" "good_text 140 ''PO-1''"
  "good_text 256 ''e1''" "good_text 256 ''c1''" "good_text 256 ''s1''" "good_text 2000 ''Submit''"
  "good_text 64 ''2026-01-01T00:00:00Z''" "idempotency_shape ''key-0001''"
  by (code_simp)+

lemma sample_replace: "replace_all ''Z'' ''+00:00'' ''2026-01-01T00:00:00Z'' = ''2026-01-01T00:00:00+00:00''"
  by (simp add: replace_all.simps)

lemma sample_lib_ok: "pylib_ok sample_lib"
  by (auto simp: pylib_ok_def sample_lib_def digest_shape_def list_all_iff is_lower_hex_def sample_texts sample_replace
      split: if_splits)

lemma sample_refs: "ref_list (PList [PStr ''e1'']) l = Inr [''e1'']" "ref_list (PList [PStr ''c1'']) l = Inr [''c1'']"
  using ref_list_of_ok [of "[''e1'']"] ref_list_of_ok [of "[''c1'']"] by (simp_all add: refs_ok_def sample_texts)

lemma sample_payload_parses: "parse_payload ''SUBMIT_PO'' (PDict sample_payload) = Inr sample_payload"
  by (simp add: parse_payload_def P2P_ACTION_TYPES_def ACTION_TYPES_def parse_p2p_payload_def SOURCE_ACTIONS_def
      parse_source_payload_def sample_payload_def reparse TARGET_DOCTYPES_def sample_texts add_optional_text_def)

lemma sample_build: "build_proposed_action sample_lib (PDict sample_action) = Inr sample_built"
proof -
  have raw: "action_raw sample_lib (PDict sample_action) = Inr sample_action"
    by (simp add: action_raw_def reparse ACTION_FIELDS_def ACTION_REQUIRED_def sample_action_def)
  have body: "action_body sample_lib sample_action ''SUBMIT_PO'' ''2'' = Inr (sample_built\<lparr>pa_proposal_digest := []\<rparr>)"
    by (simp add: action_body_def sample_action_def parse_summary_def reparse sample_texts sample_uuid sample_refs
        sample_payload_parses known_class_def RISK_CLASSES_def APPROVAL_CLASSES_def gov_timestamp_def sample_lib_def
        sample_replace sample_built_def)
  have "text_tree (PDict (reviewed_content (sample_built\<lparr>pa_proposal_digest := []\<rparr>)))"
    by (simp add: reviewed_content_def action_to_dict_def dict_pop_def sample_built_def sample_payload_def)
  then have "proposal_digest sample_lib (sample_built\<lparr>pa_proposal_digest := []\<rparr>) = Inr (replicate 64 (CHR ''0''))"
    using canonical_json_total
    by (simp add: proposal_digest_def canonical_proposal_bytes_def reviewed_content_def sample_lib_def)
  then have "check_action sample_lib PNone (sample_built\<lparr>pa_proposal_digest := []\<rparr>) = Inr sample_built"
    unfolding check_action_iff
    by (simp add: sample_built_def RISK_CLASSES_def APPROVAL_CLASSES_def expected_approval_def expected_rule_def
        P2P_ACTION_TYPES_def ACTION_TYPES_def P2P_REVALIDATION_RULE_def)
  moreover have "dget sample_action ''action_type'' = PStr ''SUBMIT_PO''" "dget sample_action ''schema_version'' = PStr ''2''"
    "dget sample_action ''proposal_digest'' = PNone" "''SUBMIT_PO'' \<in> set ACTION_TYPES"
    by (simp_all add: sample_action_def ACTION_TYPES_def)
  ultimately show ?thesis
    using body action_schema_version [of "''SUBMIT_PO''"] by (simp add: build_proposed_action_def raw)
qed

section \<open>Properties\<close>

text \<open>
  C19: approval is decided by the action type alone.  Whatever a caller supplies, an action that
  parses has one of the thirteen types and the schema version of that type; a material request
  or purchase order draft needs the initiator's confirmation, and every procure-to-pay action
  an independent approver; the revalidation rule is the one of its class, and the stored digest
  is the SHA-256 of its own canonical bytes.
\<close>

theorem build_binds_approval:
  assumes "build_proposed_action lib v = Inr a"
  shows "pa_action_type a \<in> set ACTION_TYPES \<and>
    (if pa_action_type a \<in> {''CREATE_MR_DRAFT'', ''CREATE_PO_DRAFT''}
     then pa_schema_version a = ''1'' \<and> pa_approval_class a = ''INITIATOR_CONFIRMATION'' \<and>
       pa_revalidation_rule a = PStr ''FULL_PRE_EXECUTE_RECHECK_V1''
     else pa_schema_version a = ''2'' \<and> pa_approval_class a = ''INDEPENDENT_APPROVER'' \<and>
       pa_revalidation_rule a = PStr ''FULL_PRE_EXECUTE_RECHECK_P2P_V1'') \<and>
    pa_risk_class a \<in> {''LOW'', ''MEDIUM'', ''HIGH''} \<and>
    (\<exists>bytes. canonical_proposal_bytes a = Inr bytes \<and> pa_proposal_digest a = sha256_hex lib bytes)"
proof -
  note b = built_action [OF assms]
  have "\<exists>bytes. canonical_proposal_bytes a = Inr bytes \<and> pa_proposal_digest a = sha256_hex lib bytes"
    using b(7) by (auto simp: proposal_digest_def rbind_eq_Inr)
  moreover have "pa_risk_class a \<in> {''LOW'', ''MEDIUM'', ''HIGH''}" using b(4) by (simp add: RISK_CLASSES_def)
  moreover have "pa_schema_version a = (if pa_action_type a \<in> {''CREATE_MR_DRAFT'', ''CREATE_PO_DRAFT''} then ''1'' else ''2'')"
    using b(3) action_schema_version [OF b(2)] by simp
  ultimately show ?thesis
    using b(2,5,6) p2p_action_iff [of "pa_action_type a"]
    by (simp add: expected_approval_def expected_rule_def DRAFT_APPROVAL_CLASS_def REVALIDATION_RULE_def P2P_REVALIDATION_RULE_def)
qed

theorem build_binds_approval_witness:
  "is_ok (build_proposed_action sample_lib (PDict sample_action)) \<and>
   pa_approval_class sample_built = ''INDEPENDENT_APPROVER'' \<and> pa_schema_version sample_built = ''2''"
  using build_binds_approval [OF sample_build] sample_build by (simp add: sample_built_def)

lemma same_content_of_digest:
  assumes "build_proposed_action lib v = Inr a" and "build_proposed_action lib w = Inr b"
    and "pa_proposal_digest a = pa_proposal_digest b"
    and "\<And>x y. canonical_proposal_bytes a = Inr x \<Longrightarrow> canonical_proposal_bytes b = Inr y \<Longrightarrow>
      sha256_hex lib x = sha256_hex lib y \<Longrightarrow> x = y"
  shows "same_reviewed a b"
proof -
  note ba = built_action [OF assms(1)] and bb = built_action [OF assms(2)]
  from ba(7) bb(7) obtain x y where xy: "canonical_proposal_bytes a = Inr x" "canonical_proposal_bytes b = Inr y"
    "sha256_hex lib x = pa_proposal_digest a" "sha256_hex lib y = pa_proposal_digest b"
    by (auto simp: proposal_digest_def rbind_eq_Inr)
  with assms(3,4) have "canonical_proposal_bytes a = canonical_proposal_bytes b" by simp
  then have "canonical_json (PDict (reviewed_content a)) = canonical_json (PDict (reviewed_content b))"
    by (simp add: canonical_proposal_bytes_def reviewed_content_def)
  then have "canon (PDict (reviewed_content a)) = canon (PDict (reviewed_content b))"
    by (intro canonical_json_inj reviewed_content_tree [OF ba(8,6)] reviewed_content_tree [OF bb(8,6)])
  then show ?thesis by (rule same_reviewed_of_canon [OF _ ba(6) bb(6)])
qed

text \<open>
  C8: the digest is tamper-evident.  If two parsed actions carry the same proposal digest, and
  SHA-256 does not collide on their canonical bytes, then every reviewed field of the two is
  the same, and their payloads differ at most in the order of keys.
\<close>

theorem digest_binds_content:
  assumes "build_proposed_action lib v = Inr a" and "build_proposed_action lib w = Inr b"
    and "pa_proposal_digest a = pa_proposal_digest b"
    and "\<And>x y. canonical_proposal_bytes a = Inr x \<Longrightarrow> canonical_proposal_bytes b = Inr y \<Longrightarrow>
      sha256_hex lib x = sha256_hex lib y \<Longrightarrow> x = y"
  shows "same_reviewed a b"
  using same_content_of_digest [OF assms] .

theorem digest_binds_content_witness:
  "same_reviewed sample_built (sample_built\<lparr>pa_summary := []\<rparr>)"
proof -
  have again: "build_proposed_action sample_lib (PDict (action_to_dict sample_built False)) = Inr (sample_built\<lparr>pa_summary := []\<rparr>)"
    using build_again [OF sample_build sample_lib_ok, of False]
    by (simp add: payload_complete_def sample_built_def sample_payload_def currency_fits_def)
  show ?thesis by (rule digest_binds_content [OF sample_build again]) simp_all
qed



text \<open>
  A supplied digest must match.  If an action parses with no digest supplied, then the same
  fields with any other well-formed digest raise \<open>CONFLICT\<close> with status 409, and with the
  computed digest give the same action.
\<close>

theorem supplied_digest_checked:
  assumes "build_proposed_action lib (PDict d) = Inr a" and "dget d ''proposal_digest'' = PNone"
    and "digest_shape s"
  shows "build_proposed_action lib (PDict (dict_set d ''proposal_digest'' (PStr s))) =
    (if s = pa_proposal_digest a then Inr a
     else Inl (GatewayFault ''CONFLICT'' ''proposal_digest conflicts with typed content'' 409))"
proof -
  let ?d = "dict_set d ''proposal_digest'' (PStr s)"
  from build_proposed_action_ok [OF assms(1)] obtain t sv b where
    raw: "action_raw lib (PDict d) = Inr d"
    and t: "dget d ''action_type'' = PStr t" "t \<in> set ACTION_TYPES" "map_of ACTION_SCHEMA_VERSIONS t = Some sv"
      "dget d ''schema_version'' = PStr sv"
    and body: "action_body lib d t sv = Inr b" and chk: "check_action lib (dget d ''proposal_digest'') b = Inr a"
    by (auto simp: action_raw_def rbind_eq_Inr parse_ok split: if_splits)
  have "action_raw lib (PDict ?d) = Inr ?d"
    using raw by (auto simp: action_raw_def rbind_eq_Inr parse_ok ACTION_FIELDS_def ACTION_REQUIRED_def split: if_splits)
  moreover have "action_body lib ?d t sv = action_body lib d t sv" by (simp add: action_body_def parse_summary_def)
  then have "action_body lib ?d t sv = Inr b" using body by simp
  moreover have "check_action lib (PStr s) b = (if s = pa_proposal_digest a then Inr a
     else Inl (GatewayFault ''CONFLICT'' ''proposal_digest conflicts with typed content'' 409))"
    using chk assms(2,3) unfolding check_action_iff
    by (auto simp: check_action_def reparse gov_invalid_def)
  ultimately show ?thesis using t by (simp add: build_proposed_action_def)
qed

theorem supplied_digest_checked_witness:
  "build_proposed_action sample_lib (PDict (dict_set sample_action ''proposal_digest'' (PStr (replicate 64 (CHR ''1''))))) =
     Inl (GatewayFault ''CONFLICT'' ''proposal_digest conflicts with typed content'' 409)"
proof -
  have "dget sample_action ''proposal_digest'' = PNone" by (simp add: sample_action_def)
  moreover have "digest_shape (replicate 64 (CHR ''1''))" by (simp add: digest_shape_def list_all_iff is_lower_hex_def)
  moreover have "replicate 64 (CHR ''1'') \<noteq> pa_proposal_digest sample_built" by (simp add: sample_built_def)
  ultimately show ?thesis using supplied_digest_checked [OF sample_build] by simp
qed

end
