(* ===== verification/Governance_Records.thy ===== *)
theory Governance_Records
  imports Action_Properties
begin

text \<open>
  Decisions, receipts and faults of \<open>governance/contracts.py\<close>: a policy decision that allows has
  five passed checks, a successful receipt has a verified ERP outcome, normalised amounts are
  stable, and the exceptions the action parser lets out are known.
\<close>

section \<open>Helpers\<close>

lemma any_not_in_False: "any_not_in vs names = Inr False \<longleftrightarrow> (\<forall>v \<in> set vs. \<exists>s \<in> set names. v = PStr s)"
proof (induction vs)
  case (Cons v vs)
  have "any_not_in (v # vs) names = Inr False \<longleftrightarrow> in_texts v names = Inr True \<and> any_not_in vs names = Inr False"
    by (auto simp: rbind_eq_Inr split: if_splits)
  with Cons show ?case by (simp only: in_texts_ok list.set ball_simps)
qed simp

definition safe_entry :: "string \<times> pyval \<Rightarrow> bool" where
  "safe_entry p \<longleftrightarrow> good_text 80 (fst p) \<and> \<not> sensitive_key (fst p) \<and>
     (case snd p of PList _ \<Rightarrow> False | PDict _ \<Rightarrow> False | PDate _ _ _ \<Rightarrow> False
      | PFloat r \<Rightarrow> r \<notin> {''nan'', ''inf'', ''-inf''} | _ \<Rightarrow> True)"

lemma safe_field_entry: "outcome parser_exc safe_entry (safe_field l p)"
proof -
  obtain k x where p: "p = (k, x)" by fastforce
  show ?thesis
    unfolding p safe_field_def prod.case
    by (rule outcome_bind_any [OF required_text_exc], intro outcome_if)
      (auto simp: parse_ok safe_entry_def split: pyval.splits)
qed

lemma safe_fields_ok: "outcome parser_exc (\<lambda>d. list_all safe_entry d \<and> length d \<le> 64 \<and> (r \<longrightarrow> d \<noteq> [])) (safe_fields v l r)"
proof -
  have "outcome parser_exc (\<lambda>d. list_all safe_entry d \<and> length d \<le> 64 \<and> (r \<longrightarrow> d \<noteq> [])) (rmap (safe_field l) e)"
    if "\<not> (r \<and> e = [] \<or> length e > 64)" for e
  proof (cases "rmap (safe_field l) e")
    case (Inl a)
    with outcome_rmap [of e parser_exc safe_entry "safe_field l", OF safe_field_entry] show ?thesis by simp
  next
    case (Inr b)
    with outcome_rmap [of e parser_exc safe_entry "safe_field l", OF safe_field_entry] have "list_all safe_entry b" by simp
    moreover have "length b = length e" using Inr by (rule rmap_length)
    ultimately show ?thesis using Inr that by auto
  qed
  then show ?thesis unfolding safe_fields_def by (intro outcome_intros) simp_all
qed

lemma optional_value_ok: "optional_value v p = Inr x \<longleftrightarrow> (v = PNone \<and> x = None) \<or> (v \<noteq> PNone \<and> (\<exists>y. p v = Inr y \<and> x = Some y))"
  by (auto simp: optional_value_def rbind_eq_Inr)

section \<open>Properties\<close>

text \<open>
  C21: a policy decision allows only when all five checks passed.  A decision that parses has an
  outcome of \<open>ALLOW\<close> or \<open>REJECT\<close> and a value \<open>PASS\<close>, \<open>FAIL\<close> or \<open>UNKNOWN\<close> for exactly the
  five checks; when the outcome is \<open>ALLOW\<close> every one of them is \<open>PASS\<close>.
\<close>

theorem policy_allow_needs_all_checks:
  assumes "parse_policy_decision lib v = Inr d"
  shows "pd_outcome d \<in> {PStr ''ALLOW'', PStr ''REJECT''} \<and> map fst (pd_checks d) = sort CHECKS \<and>
    (\<forall>(k, x) \<in> set (pd_checks d). x \<in> {PStr ''PASS'', PStr ''FAIL'', PStr ''UNKNOWN''}) \<and>
    (pd_outcome d = PStr ''ALLOW'' \<longrightarrow> (\<forall>(k, x) \<in> set (pd_checks d). x = PStr ''PASS''))"
proof -
  from assms obtain raw checks where
    chk: "any_not_in (map snd (map (\<lambda>key. (key, dget checks key)) (sort CHECKS))) CHECK_VALUES = Inr False"
    and out: "in_texts (dget raw ''outcome'') [''ALLOW'', ''REJECT''] = Inr True"
    and allow: "\<not> (py_eq (dget raw ''outcome'') (PStr ''ALLOW'') \<and>
        list_ex (\<lambda>v. \<not> py_eq v (PStr ''PASS'')) (map snd (map (\<lambda>key. (key, dget checks key)) (sort CHECKS))))"
    and d: "pd_outcome d = dget raw ''outcome''" "pd_checks d = map (\<lambda>key. (key, dget checks key)) (sort CHECKS)"
    unfolding parse_policy_decision_def Let_def rbind_eq_Inr if_error_ok by auto
  have "\<forall>x \<in> snd ` set (pd_checks d). x \<in> {PStr ''PASS'', PStr ''FAIL'', PStr ''UNKNOWN''}"
    using chk unfolding any_not_in_False d(2) CHECK_VALUES_def by auto
  then have "\<forall>(k, x) \<in> set (pd_checks d). x \<in> {PStr ''PASS'', PStr ''FAIL'', PStr ''UNKNOWN''}" by force
  moreover have "pd_outcome d \<in> {PStr ''ALLOW'', PStr ''REJECT''}" using out d(1) by (auto simp: in_texts_ok)
  moreover have "map fst (pd_checks d) = sort CHECKS" by (simp add: d(2) comp_def)
  moreover have "\<forall>(k, x) \<in> set (pd_checks d). x = PStr ''PASS''" if "pd_outcome d = PStr ''ALLOW''"
    using allow that d by (auto simp: list_ex_iff)
  ultimately show ?thesis by blast
qed

definition sample_policy :: "(string \<times> pyval) list" where
  "sample_policy =
     [(''decision_id'', PStr ''0f8fad5b-d9cb-469f-a165-70867728950e''), (''action_id'', PStr ''0f8fad5b-d9cb-469f-a165-70867728950e''),
      (''proposal_digest'', PStr (replicate 64 (CHR ''0''))), (''actor'', PStr ''buyer''),
      (''checks'', PDict (map (\<lambda>k. (k, PStr ''PASS'')) CHECKS)), (''matched_rule'', PStr ''s1''), (''rule_version'', PStr ''v''),
      (''outcome'', PStr ''ALLOW''), (''reason'', PStr ''Submit''), (''snapshot_ref'', PStr ''s1''),
      (''expires_at'', PStr ''2026-01-01T00:00:00Z''), (''decided_at'', PStr ''2026-01-01T00:00:00Z''),
      (''correlation_id'', PStr ''0f8fad5b-d9cb-469f-a165-70867728950e'')]"

lemma sample_digest_shape: "digest_shape (replicate 64 (CHR ''0''))"
  by (simp add: digest_shape_def list_all_iff is_lower_hex_def)

lemma sample_timestamp: "gov_timestamp sample_lib (PStr ''2026-01-01T00:00:00Z'') l = Inr ''2026-01-01T00:00:00Z''"
  by (simp add: gov_timestamp_def reparse sample_texts sample_replace) (simp add: sample_lib_def)

lemma sort_CHECKS: "sort CHECKS = [''deterministic'', ''identity'', ''permission'', ''scope'', ''workflow_policy'']"
  by code_simp

theorem policy_allow_needs_all_checks_witness:
  "\<exists>d. parse_policy_decision sample_lib (PDict sample_policy) = Inr d \<and> pd_outcome d = PStr ''ALLOW'' \<and>
     (\<forall>(k, x) \<in> set (pd_checks d). x = PStr ''PASS'')"
proof -
  have "good_text 64 ''v''" by code_simp
  then have "\<exists>d. parse_policy_decision sample_lib (PDict sample_policy) = Inr d \<and> pd_outcome d = PStr ''ALLOW''"
    by (simp add: parse_policy_decision_def sample_policy_def reparse POLICY_FIELDS_def CHECKS_def sample_texts sample_uuid
        sample_digest_shape sample_timestamp sort_CHECKS [unfolded CHECKS_def] CHECK_VALUES_def)
  then show ?thesis using policy_allow_needs_all_checks by blast
qed


definition sample_receipt :: "(string \<times> pyval) list" where
  "sample_receipt =
     [(''receipt_id'', PStr ''0f8fad5b-d9cb-469f-a165-70867728950e''), (''action_id'', PStr ''0f8fad5b-d9cb-469f-a165-70867728950e''),
      (''run_id'', PStr ''0f8fad5b-d9cb-469f-a165-70867728950e''), (''idempotency_key'', PStr ''key-0001''),
      (''initiator'', PStr ''buyer''), (''executor'', PStr ''buyer''), (''proposal_digest'', PStr (replicate 64 (CHR ''0''))),
      (''target_doctype'', PStr ''Purchase Order''), (''target_name'', PStr ''PO-1''),
      (''verified_fields'', PDict [(''docstatus'', PInt 1)]), (''response_category'', PStr ''ERP_SUCCESS''),
      (''failure_category'', PNone), (''final_state'', PStr ''SUCCEEDED''), (''started_at'', PStr ''2026-01-01T00:00:00Z''),
      (''correlation_id'', PStr ''0f8fad5b-d9cb-469f-a165-70867728950e'')]"

lemma sample_receipt_parses:
  "\<exists>r. create_execution_receipt sample_lib (PDict sample_receipt) = Inr r \<and> er_final_state r = PStr ''SUCCEEDED''"
proof -
  have k: "good_text 80 ''docstatus''" "\<not> sensitive_key ''docstatus''" by code_simp+
  show ?thesis
    by (simp add: create_execution_receipt_def sample_receipt_def reparse RECEIPT_FIELDS_def RECEIPT_REQUIRED_def
        receipt_outcome_def RECEIPT_STATES_def RESPONSE_CATEGORIES_def TARGET_DOCTYPES_def optional_value_def sample_texts
        SUCCESS_STATES_def safe_fields_def safe_field_def k truthy_def sample_uuid sample_digest_shape sample_timestamp)
qed


text \<open>
  C23: amounts are canonical.  Every accepted amount is at least \<open>1e-18\<close>, is printed without
  exponent, sign or insignificant zero from at most 28 significant digits, and the printed text
  is accepted again and printed the same.
\<close>

theorem amount_canonical:
  assumes "gov_decimal v l dec_min = Inr s"
  shows "(\<exists>c e. s = dec_digits_f c e \<and> c mod 10 \<noteq> 0 \<and> ndigits c \<le> 28 \<and> dec_le dec_min (DFin False c e)) \<and>
    gov_decimal (PStr s) l' dec_min = Inr s"
proof -
  from gov_decimal_form [OF assms] obtain c e where ce: "dec_normal c e" "- 18 \<le> e + int (ndigits c) - 1" "s = dec_digits_f c e"
    by blast
  then have "0 < c" by (auto simp: dec_normal_def intro: ccontr)
  then have "dec_le dec_min (DFin False c e)" unfolding dec_min_def dec_min_le_iff using ce(2) by blast
  with ce gov_decimal_idem [OF assms] show ?thesis unfolding dec_normal_def by blast
qed

lemma gov_decimal_one: "gov_decimal (PStr ''1'') l dec_min = Inr ''1''"
proof -
  have "dec_normal 1 0" "- 18 \<le> 0 + int (ndigits 1) - 1" "dec_digits_f 1 0 = ''1''"
    by (simp_all add: dec_normal_def ndigits_def nat_str.simps dec_digits_f_def)
  with gov_decimal_of_form [of 1 0 l] show ?thesis by simp
qed

theorem amount_canonical_witness:
  "gov_decimal (PStr ''1'') ''qty'' dec_min = Inr ''1'' \<and> gov_decimal (PStr ''1'') ''rate'' dec_min = Inr ''1''"
  using amount_canonical [OF gov_decimal_one [of "''qty''"], of "''rate''"] gov_decimal_one [of "''qty''"] by blast

section \<open>Exceptions of the action parser\<close>

definition action_exc :: "pyexc \<Rightarrow> bool" where
  "action_exc e \<longleftrightarrow> fault_in {''INVALID_INPUT'', ''CONFLICT''} e \<or> e \<in> {TypeError, OverflowError, DecimalOverflow}"

lemma action_exc_parser: "parser_exc e \<Longrightarrow> action_exc e"
  by (auto simp: parser_exc_def action_exc_def fault_in_def)

lemma action_exc_simps [simp]: "action_exc (gov_invalid m c)" "action_exc (bad_field l)" "action_exc TypeError"
  "action_exc OverflowError" "action_exc DecimalOverflow"
  by (simp_all add: action_exc_def gov_invalid_def bad_field_def)

lemma parser_to_action: "outcome parser_exc (\<lambda>_. True) m \<Longrightarrow> outcome action_exc (\<lambda>_. True) m"
  by (erule outcome_mono) (simp_all add: action_exc_parser)

lemmas action_intros = required_text_exc [THEN parser_to_action] gov_uuid_exc [THEN parser_to_action]
  gov_digest_exc [THEN parser_to_action] gov_date_exc [THEN parser_to_action] gov_decimal_exc [THEN parser_to_action]
  gov_object_exc [THEN parser_to_action] gov_list_exc [THEN parser_to_action] ref_list_exc [THEN parser_to_action]
  idempotency_key_exc [THEN parser_to_action]

lemma add_optional_text_exc: "outcome parser_exc (\<lambda>_. True) (add_optional_text raw k n p)"
  unfolding add_optional_text_def by (intro outcome_intros) simp_all

lemma add_optional_currency_exc: "outcome parser_exc (\<lambda>_. True) (add_optional_currency raw k p)"
  unfolding add_optional_currency_def by (intro outcome_intros) simp_all

lemma parse_item_exc: "outcome parser_exc (\<lambda>_. True) (parse_item v t i)"
  unfolding parse_item_def by (intro outcome_intros add_optional_text_exc) simp_all

lemma parse_line_item_exc: "outcome parser_exc (\<lambda>_. True) (parse_line_item t seen i v)"
  unfolding parse_line_item_def by (intro outcome_intros add_optional_text_exc) simp_all

lemma parse_line_rows_exc: "outcome parser_exc (\<lambda>_. True) (parse_line_rows t seen i vs)"
proof (induction vs arbitrary: seen i)
  case (Cons v vs)
  show ?case unfolding parse_line_rows.simps by (intro outcome_intros parse_line_item_exc Cons.IH) simp_all
qed simp

lemma parse_reference_exc: "outcome parser_exc (\<lambda>_. True) (parse_reference i v)"
  unfolding parse_reference_def by (intro outcome_intros) simp_all

lemma parse_source_payload_exc: "t \<in> set SOURCE_ACTIONS \<Longrightarrow> outcome parser_exc (\<lambda>_. True) (parse_source_payload t v)"
proof -
  assume "t \<in> set SOURCE_ACTIONS"
  then obtain x where "map_of TARGET_DOCTYPES t = Some x"
    by (auto simp: SOURCE_ACTIONS_def TARGET_DOCTYPES_def)
  then show ?thesis
    unfolding parse_source_payload_def by (intro outcome_intros add_optional_text_exc) simp_all
qed

lemma parse_payload_exc: "outcome parser_exc (\<lambda>_. True) (parse_payload t v)"
proof -
  have "outcome parser_exc (\<lambda>_. True) (parse_draft_payload t v)"
    unfolding parse_draft_payload_def parse_line_items_def
    by (intro outcome_intros add_optional_text_exc parse_line_rows_exc) simp_all
  moreover have "outcome parser_exc (\<lambda>_. True) (parse_payment_payload t v)"
    unfolding parse_payment_payload_def
    by (intro outcome_intros add_optional_text_exc add_optional_currency_exc outcome_rmap_from_any parse_reference_exc) simp_all
  ultimately show ?thesis
    unfolding parse_payload_def parse_p2p_payload_def
    by (intro outcome_intros parse_source_payload_exc outcome_rmap_from_any parse_item_exc) simp_all
qed

lemma gov_timestamp_exc: "outcome action_exc (\<lambda>_. True) (gov_timestamp lib v l)"
  unfolding gov_timestamp_def
  by (rule outcome_bind_any [OF action_intros(1)]) (simp split: ts_outcome.split)

lemma parse_json_object_exc: "outcome action_exc (\<lambda>_. True) (parse_json_object lib v)"
  unfolding parse_json_object_def
  by (intro outcome_intros) (simp_all split: sum.split pyval.split)

lemma action_raw_exc: "outcome action_exc (\<lambda>_. True) (action_raw lib v)"
  unfolding action_raw_def
  by (intro outcome_intros) (simp_all add: parse_json_object_exc action_intros split: pyval.split)

lemma action_body_exc: "outcome action_exc (\<lambda>_. True) (action_body lib raw t sv)"
  unfolding action_body_def parse_summary_def
  by (intro outcome_intros action_intros gov_timestamp_exc parser_to_action [OF parse_payload_exc]) simp_all

lemma canonical_json_exc: "outcome action_exc (\<lambda>_. True) (canonical_json v)"
  unfolding canonical_json_def by (simp split: sum.split)

lemma check_action_exc: "outcome action_exc (\<lambda>_. True) (check_action lib s b)"
  unfolding check_action_def proposal_digest_def canonical_proposal_bytes_def
  by (intro outcome_intros action_intros canonical_json_exc) simp_all

lemma in_texts_exc: "outcome action_exc (\<lambda>_. True) (in_texts v names)"
  by (simp add: in_texts_def)


section \<open>What modelling showed\<close>

text \<open>An amount with a large exponent raises \<open>decimal.Overflow\<close>, which no handler of the
  parsers catches.\<close>

lemma amount_overflow_escapes: "gov_decimal (PStr ''1e1000000'') l dec_min = Inl DecimalOverflow"
proof -
  have d: "py_Decimal ''1e1000000'' = Some (DFin False 1 1000000)"
    by (simp add: py_Decimal_def py_strip_def py_space_def py_lower_def lower_char_def is_digit_def dec_number_def
        dec_exponent_def ndigits_def nat_str.simps)
  have "dec_le dec_min (DFin False 1 1000000)"
    unfolding dec_min_def dec_min_le_iff by (simp add: ndigits_def nat_str.simps)
  then have "\<not> dec_less (DFin False 1 1000000) dec_min" by (simp add: dec_less_def)
  moreover have "dec_finalize 1 1000000 = Inl DecimalOverflow"
    by (simp add: dec_finalize_def dec_shift_def ndigits_def nat_str.simps Let_def)
  ultimately show ?thesis by (simp add: gov_decimal_def decimal_of_def d dec_is_finite_def)
qed

text \<open>A list as the action type raises \<open>TypeError\<close> rather than \<open>INVALID_INPUT\<close>.\<close>

lemma unhashable_action_type_escapes:
  "build_proposed_action lib (PDict (dict_set sample_action ''action_type'' (PList []))) = Inl TypeError"
proof -
  let ?d = "dict_set sample_action ''action_type'' (PList [])"
  have "action_raw lib (PDict ?d) = Inr ?d"
    by (simp add: action_raw_def reparse ACTION_FIELDS_def ACTION_REQUIRED_def sample_action_def)
  then show ?thesis by (simp add: build_proposed_action_def in_texts_def hashable_def)
qed

text \<open>A purchase order item with a null unit of measure is accepted although the field is
  required, and the parsed item is then refused.\<close>

definition null_uom_item :: "(string \<times> pyval) list" where
  "null_uom_item = [(''item_code'', PStr ''I''), (''qty'', PStr ''1''), (''uom'', PNone), (''rate'', PStr ''1''),
     (''schedule_date'', PStr ''2026-01-01''), (''warehouse'', PStr ''W'')]"

lemma null_uom_accepted_once:
  "\<exists>p. parse_item (PDict null_uom_item) ''CREATE_PO_DRAFT'' 0 = Inr p \<and>
     parse_item p ''CREATE_PO_DRAFT'' 0 = Inl (gov_invalid ''payload.items[0] fields are invalid'' False)"
proof -
  have t: "good_text 140 ''I''" "good_text 140 ''W''" "date_shape ''2026-01-01''" "py_strptime_ymd ''2026-01-01''"
    by (code_simp)+
  show ?thesis
    by (simp add: parse_item_def null_uom_item_def reparse t gov_decimal_one add_optional_text_def item_fields_def item_required_def)
      (simp add: gov_object_def nat_str.simps)
qed

end
