(* ===== verification/Execution_Contracts.thy ===== *)
theory Execution_Contracts
  imports Governance_Records
begin

text \<open>
  Pure contracts of the governed writes, \<open>governance/execution_contracts.py\<close>: the values an action
  may write, the execution key, the comparison of an ERP document with the approved payload
  (read-back), receipt evidence, reconciliation and the mapping of failures.

  An ERP document is a \<^const>\<open>PDict\<close> of its fields; \<open>_value\<close> reads a field of a mapping and of a
  document alike.  \<open>str\<close> is applied to values of at most 4300 digits.
\<close>

section \<open>Reconciliation\<close>

record ReconciliationClassification =
  rc_result_status :: string
  rc_reason :: string
  rc_can_retry :: bool

definition make_classification :: "string \<Rightarrow> string \<Rightarrow> bool \<Rightarrow> ReconciliationClassification result" where
  "make_classification result_status reason can_retry =
     (if result_status \<notin> {''RECONCILIATION_REQUIRED'', ''RECONCILED_SUCCESS'', ''RECONCILED_FAILURE'', ''MANUAL_INTERVENTION''}
      then Inl (GatewayFault ''INVALID_INPUT'' ''reconciliation status is invalid'' 400)
      else if reason = [] \<or> length reason > 2000 \<or> can_retry
      then Inl (GatewayFault ''INVALID_INPUT'' ''reconciliation result is invalid'' 400)
      else Inr \<lparr>rc_result_status = result_status, rc_reason = reason, rc_can_retry = can_retry\<rparr>)"

definition classify_reconciliation :: "int \<Rightarrow> int \<Rightarrow> bool \<Rightarrow> bool \<Rightarrow> ReconciliationClassification result" where
  "classify_reconciliation candidate_count matching_count lease_expired failure_evidence_complete =
     (if candidate_count < 0 \<or> matching_count < 0 \<or> matching_count > candidate_count
      then Inl (GatewayFault ''INVALID_INPUT'' ''reconciliation candidate counts are invalid'' 400)
      else if candidate_count = 1 \<and> matching_count = 1
      then make_classification ''RECONCILED_SUCCESS'' ''one complete ERP match'' False
      else if candidate_count > 0
      then make_classification ''MANUAL_INTERVENTION'' ''candidate count or critical fields are ambiguous'' False
      else if \<not> lease_expired
      then make_classification ''RECONCILIATION_REQUIRED'' ''execution lease is still active'' False
      else if failure_evidence_complete
      then make_classification ''RECONCILED_FAILURE'' ''lease ended with no matching ERP document and complete failure evidence'' False
      else make_classification ''MANUAL_INTERVENTION'' ''no ERP document but failure evidence is incomplete'' False)"

section \<open>Values of the writes\<close>

text \<open>\<open>for key in keys: if key in source: target[key] = source[key]\<close>.\<close>

fun copy_present :: "string list \<Rightarrow> (string \<times> pyval) list \<Rightarrow> (string \<times> pyval) list" where
  "copy_present [] d = []"
| "copy_present (k # ks) d = (case map_of d k of None \<Rightarrow> copy_present ks d | Some v \<Rightarrow> (k, v) # copy_present ks d)"

text \<open>\<open>key: source[key]\<close> for each key in turn.\<close>

definition copy_fields :: "string list \<Rightarrow> pyval \<Rightarrow> (string \<times> pyval) list result" where
  "copy_fields keys v = rmap (\<lambda>k. rbind (index_at v k) (\<lambda>x. Inr (k, x))) keys"

definition present_fields :: "string list \<Rightarrow> pyval \<Rightarrow> (string \<times> pyval) list" where
  "present_fields keys v = (case v of PDict d \<Rightarrow> copy_present keys d | _ \<Rightarrow> [])"

definition material_request_item :: "pyval \<Rightarrow> pyval result" where
  "material_request_item raw_item =
     rbind (copy_fields [''item_code'', ''qty'', ''warehouse'', ''schedule_date''] raw_item) (\<lambda>item.
       Inr (PDict (item @ present_fields [''uom'', ''description''] raw_item)))"

definition material_request_values :: "ProposedAction \<Rightarrow> (string \<times> pyval) list result" where
  "material_request_values action =
     (if pa_action_type action \<noteq> ''CREATE_MR_DRAFT''
      then Inl (GatewayFault ''INVALID_INPUT'' ''only CREATE_MR_DRAFT is supported'' 400)
      else
        (let payload = PDict (pa_payload action) in
         rbind (copy_fields [''material_request_type'', ''company'', ''transaction_date''] payload) (\<lambda>head.
         rbind (index_at payload ''items'') (\<lambda>raw_items.
         rbind (py_iter raw_items) (\<lambda>rows.
         rbind (rmap material_request_item rows) (\<lambda>items.
         Inr ([(''doctype'', PStr ''Material Request''), (''naming_series'', PStr ''MAT-MR-.YYYY.-'')] @ head @
           [(''items'', PList items)])))))))"

definition purchase_order_item :: "pyval \<Rightarrow> pyval result" where
  "purchase_order_item raw_item =
     rbind (copy_fields [''item_code'', ''qty'', ''uom''] raw_item) (\<lambda>front.
     rbind (copy_fields [''rate'', ''warehouse'', ''schedule_date''] raw_item) (\<lambda>back.
       Inr (PDict (front @ [(''conversion_factor'', PInt 1)] @ back @
         present_fields [''description'', ''material_request''] raw_item))))"

definition purchase_order_values :: "ProposedAction \<Rightarrow> (string \<times> pyval) list result" where
  "purchase_order_values action =
     (if pa_action_type action \<noteq> ''CREATE_PO_DRAFT''
      then Inl (GatewayFault ''INVALID_INPUT'' ''only CREATE_PO_DRAFT is supported'' 400)
      else
        (let payload = PDict (pa_payload action) in
         rbind (copy_fields [''supplier'', ''company'', ''transaction_date'', ''schedule_date'', ''currency'', ''buying_price_list''] payload) (\<lambda>head.
         rbind (index_at payload ''items'') (\<lambda>raw_items.
         rbind (py_iter raw_items) (\<lambda>rows.
         rbind (rmap purchase_order_item rows) (\<lambda>items.
         Inr ([(''doctype'', PStr ''Purchase Order''), (''naming_series'', PStr ''PUR-ORD-.YYYY.-'')] @ head @
           [(''conversion_rate'', PInt 1), (''items'', PList items)])))))))"

section \<open>Reading documents\<close>

definition exec_value_or :: "pyval \<Rightarrow> string \<Rightarrow> pyval \<Rightarrow> pyval" where
  "exec_value_or source field dflt =
     (case source of PDict d \<Rightarrow> (case map_of d field of None \<Rightarrow> dflt | Some v \<Rightarrow> v) | _ \<Rightarrow> dflt)"

abbreviation (input) exec_value :: "pyval \<Rightarrow> string \<Rightarrow> pyval" where
  "exec_value source field \<equiv> exec_value_or source field PNone"

text \<open>\<open>str(v or "")\<close>.\<close>

definition text_or_empty :: "pyval \<Rightarrow> string" where
  "text_or_empty v = py_str (py_or v (PStr []))"

definition exec_decimal :: "pyval \<Rightarrow> string \<Rightarrow> pydec result" where
  "exec_decimal value field =
     (case py_Decimal (py_str value) of
        None \<Rightarrow> Inl (ReadBackMismatch (field @ '' is not numeric''))
      | Some number \<Rightarrow>
          if \<not> dec_is_finite number then Inl (ReadBackMismatch (field @ '' is not finite'')) else Inr number)"

definition same_text :: "pyval \<Rightarrow> pyval \<Rightarrow> string \<Rightarrow> unit result" where
  "same_text actual expected field =
     (if text_or_empty actual \<noteq> text_or_empty expected
      then Inl (ReadBackMismatch (field @ '' does not match approved payload'')) else Inr ())"

text \<open>\<open>if not condition: raise ReadBackMismatch(message)\<close>.\<close>

definition require_match :: "bool \<Rightarrow> string \<Rightarrow> unit result" where
  "require_match condition message = (if condition then Inr () else Inl (ReadBackMismatch message))"

text \<open>\<open>format(number.normalize(), "f")\<close>.\<close>

definition format_normal :: "pydec \<Rightarrow> string result" where
  "format_normal number = rbind (dec_normalize number) (\<lambda>n. Inr (dec_format_f n))"

definition line_amount :: "pyval \<Rightarrow> pydec result" where
  "line_amount item =
     rbind (index_at item ''qty'') (\<lambda>q.
     rbind (exec_decimal q ''qty'') (\<lambda>qty.
     rbind (index_at item ''rate'') (\<lambda>r.
     rbind (exec_decimal r ''rate'') (\<lambda>rate.
     dec_mult qty rate))))"

fun calculation_lines :: "pydec \<Rightarrow> pyval list \<Rightarrow> (string list \<times> pydec) result" where
  "calculation_lines acc [] = Inr ([], acc)"
| "calculation_lines acc (item # rest) =
     rbind (line_amount item) (\<lambda>amount.
     rbind (format_normal amount) (\<lambda>text.
     rbind (dec_add acc amount) (\<lambda>acc'.
     rbind (calculation_lines acc' rest) (\<lambda>(texts, final). Inr (text # texts, final)))))"

definition purchase_order_calculation :: "ProposedAction \<Rightarrow> (string \<times> pyval) list result" where
  "purchase_order_calculation action =
     (if pa_action_type action \<noteq> ''CREATE_PO_DRAFT''
      then Inl (GatewayFault ''INVALID_INPUT'' ''only CREATE_PO_DRAFT is supported'' 400)
      else
         rbind (dict_at (pa_payload action) ''items'') (\<lambda>raw_items.
         rbind (py_iter raw_items) (\<lambda>rows.
         rbind (calculation_lines (DFin False 0 0) rows) (\<lambda>(line_amounts, sum).
         rbind (dict_at (pa_payload action) ''currency'') (\<lambda>currency.
         rbind (format_normal sum) (\<lambda>total_amount.
         Inr [(''currency'', PStr (py_str currency)), (''line_amounts'', PList (map PStr line_amounts)),
           (''total_amount'', PStr total_amount), (''basis'', PStr ''qty * rate; rate must match ERPNext Item Price'')]))))))"

section \<open>Execution key\<close>

record ExecutionKey =
  ek_action_type :: string
  ek_target_doctype :: string
  ek_company :: string
  ek_warehouse :: string
  ek_proposal_digest :: string
  ek_idempotency_key :: string

definition execution_key_tuple :: "ExecutionKey \<Rightarrow> string list" where
  "execution_key_tuple k =
     [ek_action_type k, ek_target_doctype k, ek_company k, ek_warehouse k, ek_proposal_digest k, ek_idempotency_key k]"

text \<open>The warehouses of the items that have one, in order; the code keeps them as a set.\<close>

fun item_warehouses :: "pyval list \<Rightarrow> string list result" where
  "item_warehouses [] = Inr []"
| "item_warehouses (item # items) =
     (case item of
        PDict d \<Rightarrow>
          rbind (item_warehouses items) (\<lambda>ws.
            Inr (if truthy (dget d ''warehouse'') then py_str (dget d ''warehouse'') # ws else ws))
      | _ \<Rightarrow> Inl AttributeError)"

definition execution_key :: "ProposedAction \<Rightarrow> ExecutionKey result" where
  "execution_key action =
     (case map_of TARGET_DOCTYPES (pa_action_type action) of
        None \<Rightarrow> Inl (GatewayFault ''INVALID_INPUT'' ''unsupported governed action'' 400)
      | Some target \<Rightarrow>
          rbind (py_iter (exec_value_or (PDict (pa_payload action)) ''items'' (PList []))) (\<lambda>items.
          rbind (item_warehouses items) (\<lambda>ws.
          let warehouses = remdups ws;
              source_ref = text_or_empty (dget (pa_payload action) ''source_name'') in
          if warehouses = [] \<and> source_ref = []
          then Inl (GatewayFault ''INVALID_INPUT'' ''execution scope is incomplete'' 400)
          else if length warehouses > 1
          then Inl (GatewayFault ''INVALID_INPUT'' ''execution requires one warehouse scope'' 400)
          else rbind (dict_at (pa_payload action) ''company'') (\<lambda>company.
            Inr \<lparr>ek_action_type = pa_action_type action, ek_target_doctype = target, ek_company = py_str company,
                 ek_warehouse = (case warehouses of [] \<Rightarrow> source_ref | w # _ \<Rightarrow> w),
                 ek_proposal_digest = pa_proposal_digest action,
                 ek_idempotency_key = pa_idempotency_key action\<rparr>))))"

section \<open>Procure-to-pay values\<close>

text \<open>\<open>target: source[key]\<close> for each pair of names in turn.\<close>

definition rename_fields :: "(string \<times> string) list \<Rightarrow> pyval \<Rightarrow> (string \<times> pyval) list result" where
  "rename_fields names v = rmap (\<lambda>(target, key). rbind (index_at v key) (\<lambda>x. Inr (target, x))) names"

definition pr_value_item :: "pyval \<Rightarrow> pyval \<Rightarrow> pyval result" where
  "pr_value_item payload item =
     rbind (copy_fields [''item_code'', ''qty'', ''uom'', ''warehouse''] item) (\<lambda>row.
     rbind (index_at payload ''source_name'') (\<lambda>source.
     rbind (index_at item ''source_row'') (\<lambda>source_row.
     Inr (PDict (row @ [(''purchase_order'', source), (''po_detail'', source_row)])))))"

definition pi_value_item :: "pyval \<Rightarrow> pyval \<Rightarrow> pyval result" where
  "pi_value_item payload item =
     rbind (copy_fields [''item_code'', ''qty'', ''rate''] item) (\<lambda>row.
     rbind (index_at payload ''source_name'') (\<lambda>source.
     rbind (index_at item ''source_row'') (\<lambda>source_row.
     Inr (PDict (row @ [(''purchase_receipt'', source), (''pr_detail'', source_row)])))))"

definition p2p_values :: "ProposedAction \<Rightarrow> (string \<times> pyval) list result" where
  "p2p_values action =
     (let payload = PDict (pa_payload action) in
      if pa_action_type action = ''CREATE_PR_DRAFT'' then
        rbind (rename_fields [(''company'', ''company''), (''posting_date'', ''transaction_date'')] payload) (\<lambda>head.
        rbind (index_at payload ''items'') (\<lambda>raw. rbind (py_iter raw) (\<lambda>rows.
        rbind (rmap (pr_value_item payload) rows) (\<lambda>items.
        Inr ([(''doctype'', PStr ''Purchase Receipt'')] @ head @ [(''items'', PList items)])))))
      else if pa_action_type action = ''CREATE_PI_DRAFT'' then
        rbind (rename_fields [(''company'', ''company''), (''posting_date'', ''transaction_date'')] payload) (\<lambda>head.
        rbind (index_at payload ''items'') (\<lambda>raw. rbind (py_iter raw) (\<lambda>rows.
        rbind (rmap (pi_value_item payload) rows) (\<lambda>items.
        Inr ([(''doctype'', PStr ''Purchase Invoice'')] @ head @
          [(''supplier'', py_or (dget (pa_payload action) ''supplier'') (PStr [])), (''items'', PList items)])))))
      else if pa_action_type action = ''CREATE_PAYMENT_ENTRY_DRAFT'' then
        rbind (copy_fields [''company'', ''payment_type'', ''posting_date'', ''party_type'', ''party'', ''paid_from'',
          ''paid_to'', ''paid_amount'', ''received_amount''] payload) (\<lambda>head.
        rbind (index_at payload ''references'') (\<lambda>references.
        Inr ([(''doctype'', PStr ''Payment Entry'')] @ head @
          [(''source_exchange_rate'', PInt 1), (''target_exchange_rate'', PInt 1), (''references'', references)])))
      else Inl (GatewayFault ''INVALID_INPUT'' ''action does not create a P2P draft'' 400))"

section \<open>Read-back of drafts\<close>

text \<open>\<open>for field in fields: _same_text(_value(actual, field), expected[field], prefix + field)\<close>.\<close>

fun same_fields :: "string list \<Rightarrow> pyval \<Rightarrow> pyval \<Rightarrow> string \<Rightarrow> unit result" where
  "same_fields [] actual expected prefix = Inr ()"
| "same_fields (f # fs) actual expected prefix =
     rbind (index_at expected f) (\<lambda>e.
     rbind (same_text (exec_value actual f) e (prefix @ f)) (\<lambda>_. same_fields fs actual expected prefix))"

text \<open>The same comparison of one field when the approved entry is present and not null.\<close>

definition same_if_approved :: "string \<Rightarrow> pyval \<Rightarrow> pyval \<Rightarrow> string \<Rightarrow> unit result" where
  "same_if_approved field actual expected label =
     (if exec_value expected field = PNone then Inr ()
      else same_text actual (exec_value expected field) label)"

text \<open>\<open>_decimal(actual[field]) == _decimal(expected[field])\<close>, returning the number read.\<close>

definition same_number :: "string \<Rightarrow> pyval \<Rightarrow> pyval \<Rightarrow> string \<Rightarrow> string \<Rightarrow> pydec result" where
  "same_number field actual expected label suffix =
     rbind (exec_decimal (exec_value actual field) label) (\<lambda>a.
     rbind (index_at expected field) (\<lambda>ev.
     rbind (exec_decimal ev label) (\<lambda>e.
     rbind (require_match (dec_eq a e) (label @ suffix)) (\<lambda>_. Inr a))))"

definition mr_item_evidence :: "nat \<Rightarrow> pyval \<Rightarrow> pyval \<Rightarrow> (string \<times> pyval) list result" where
  "mr_item_evidence index actual expected =
     (let prefix = ''item_'' @ nat_str index @ ''.'';
          fs = [''item_code'', ''warehouse'', ''schedule_date''] in
      rbind (same_fields fs actual expected prefix) (\<lambda>_.
      rbind (same_number ''qty'' actual expected (prefix @ ''qty'') '' does not match approved payload'') (\<lambda>qty.
      rbind (format_normal qty) (\<lambda>qty_text.
      let actual_uom = text_or_empty (exec_value actual ''uom'') in
      rbind (same_if_approved ''uom'' (PStr actual_uom) expected (prefix @ ''uom'')) (\<lambda>_.
      rbind (same_if_approved ''description'' (exec_value actual ''description'') expected (prefix @ ''description'')) (\<lambda>_.
      Inr (map (\<lambda>f. (prefix @ f, PStr (py_str (exec_value actual f)))) fs @
        [(prefix @ ''qty'', PStr qty_text), (prefix @ ''uom'', PStr actual_uom)])))))))"

text \<open>\<open>zip(actual_items, expected_items, strict=True)\<close> over lists of the same length.\<close>

definition zip_evidence ::
  "(nat \<Rightarrow> pyval \<Rightarrow> pyval \<Rightarrow> (string \<times> pyval) list result) \<Rightarrow> pyval list \<Rightarrow> pyval list \<Rightarrow> (string \<times> pyval) list result" where
  "zip_evidence check actuals expecteds =
     rbind (rmap_from 0 (\<lambda>i (a, e). check i a e) (zip actuals expecteds)) (\<lambda>evs. Inr (concat evs))"

text \<open>The sequence check and the item count shared by both verifications.\<close>

definition actual_rows :: "pyval \<Rightarrow> (string \<times> pyval) list \<Rightarrow> (pyval list \<times> pyval list) result" where
  "actual_rows doc values =
     (case exec_value_or doc ''items'' (PList []) of
        PList actual_items \<Rightarrow>
          rbind (dict_at values ''items'') (\<lambda>v.
          rbind (py_iter v) (\<lambda>expected_items.
          rbind (require_match (length actual_items = length expected_items) ''item count does not match approved payload'')
            (\<lambda>_. Inr (actual_items, expected_items))))
      | _ \<Rightarrow> Inl (ReadBackMismatch ''items are not a sequence''))"

definition texts_of :: "string list \<Rightarrow> pyval \<Rightarrow> (string \<times> pyval) list" where
  "texts_of fs doc = map (\<lambda>f. (f, PStr (py_str (exec_value doc f)))) fs"

definition verify_material_request_read_back :: "ProposedAction \<Rightarrow> pyval \<Rightarrow> (string \<times> pyval) list result" where
  "verify_material_request_read_back action doc =
     rbind (material_request_values action) (\<lambda>values.
     rbind (require_match (py_eq (exec_value doc ''docstatus'') (PInt 0)) ''Material Request is not a Draft'') (\<lambda>_.
     rbind (same_fields [''company'', ''material_request_type'', ''transaction_date''] doc (PDict values) []) (\<lambda>_.
     rbind (actual_rows doc values) (\<lambda>(actual_items, expected_items).
     rbind (zip_evidence mr_item_evidence actual_items expected_items) (\<lambda>rows.
     Inr ([(''docstatus'', PInt 0)] @ texts_of [''company'', ''material_request_type'', ''transaction_date''] doc @
       [(''items_count'', PInt (int (length actual_items)))] @ rows))))))"

definition po_material_request :: "pyval \<Rightarrow> pyval \<Rightarrow> string \<Rightarrow> string result" where
  "po_material_request actual expected prefix =
     (let actual_mr = text_or_empty (exec_value actual ''material_request'') in
      if exec_value expected ''material_request'' \<noteq> PNone
      then rbind (same_text (PStr actual_mr) (exec_value expected ''material_request'') (prefix @ ''material_request'')) (\<lambda>_. Inr actual_mr)
      else rbind (require_match (actual_mr = []) (prefix @ ''material_request was added outside the approved payload'')) (\<lambda>_. Inr actual_mr))"

definition po_item_evidence :: "nat \<Rightarrow> pyval \<Rightarrow> pyval \<Rightarrow> (string \<times> pyval) list result" where
  "po_item_evidence index actual expected =
     (let prefix = ''item_'' @ nat_str index @ ''.'';
          fs = [''item_code'', ''warehouse'', ''schedule_date'', ''uom''];
          mismatch = '' does not match approved payload'' in
      rbind (same_fields fs actual expected prefix) (\<lambda>_.
      rbind (same_number ''conversion_factor'' actual expected (prefix @ ''conversion_factor'') mismatch) (\<lambda>conversion.
      rbind (format_normal conversion) (\<lambda>conversion_text.
      rbind (same_number ''qty'' actual expected (prefix @ ''qty'') mismatch) (\<lambda>qty.
      rbind (format_normal qty) (\<lambda>qty_text.
      rbind (same_number ''rate'' actual expected (prefix @ ''rate'') mismatch) (\<lambda>rate.
      rbind (format_normal rate) (\<lambda>rate_text.
      rbind (exec_decimal (exec_value actual ''amount'') (prefix @ ''amount'')) (\<lambda>amount.
      rbind (dec_mult qty rate) (\<lambda>expected_amount.
      rbind (require_match (dec_eq amount expected_amount) (prefix @ ''amount does not match qty multiplied by rate'')) (\<lambda>_.
      rbind (format_normal amount) (\<lambda>amount_text.
      rbind (po_material_request actual expected prefix) (\<lambda>actual_mr.
      rbind (same_if_approved ''description'' (exec_value actual ''description'') expected (prefix @ ''description'')) (\<lambda>_.
      Inr (map (\<lambda>f. (prefix @ f, PStr (py_str (exec_value actual f)))) fs @
        [(prefix @ ''conversion_factor'', PStr conversion_text), (prefix @ ''qty'', PStr qty_text),
         (prefix @ ''rate'', PStr rate_text), (prefix @ ''amount'', PStr amount_text),
         (prefix @ ''material_request'', PStr actual_mr)])))))))))))))))"

definition verify_purchase_order_read_back :: "ProposedAction \<Rightarrow> pyval \<Rightarrow> (string \<times> pyval) list result" where
  "verify_purchase_order_read_back action doc =
     rbind (purchase_order_values action) (\<lambda>values.
     rbind (require_match (py_eq (exec_value doc ''docstatus'') (PInt 0)) ''Purchase Order is not a Draft'') (\<lambda>_.
     rbind (same_fields [''supplier'', ''company'', ''currency'', ''buying_price_list'', ''transaction_date''] doc (PDict values) []) (\<lambda>_.
     rbind (same_number ''conversion_rate'' doc (PDict values) ''conversion_rate'' '' does not match approved payload'') (\<lambda>conversion_rate.
     rbind (same_fields [''schedule_date''] doc (PDict values) []) (\<lambda>_.
     rbind (actual_rows doc values) (\<lambda>(actual_items, expected_items).
     rbind (format_normal conversion_rate) (\<lambda>rate_text.
     rbind (zip_evidence po_item_evidence actual_items expected_items) (\<lambda>rows.
     Inr ([(''docstatus'', PInt 0)] @
       texts_of [''supplier'', ''company'', ''currency'', ''buying_price_list'', ''transaction_date''] doc @
       [(''conversion_rate'', PStr rate_text)] @ texts_of [''schedule_date''] doc @
       [(''items_count'', PInt (int (length actual_items)))] @ rows)))))))))"

section \<open>Read-back of procure-to-pay documents\<close>

definition expected_docstatus :: "string \<Rightarrow> int" where
  "expected_docstatus action_type =
     (if starts_with ''CANCEL_'' action_type then 2 else if starts_with ''SUBMIT_'' action_type then 1 else 0)"

text \<open>\<open>v in {1, 2}\<close>.\<close>

definition later_docstatus :: "pyval \<Rightarrow> bool result" where
  "later_docstatus v = (if \<not> hashable v then Inl TypeError else Inr (py_eq v (PInt 1) \<or> py_eq v (PInt 2)))"

definition status_check :: "int \<Rightarrow> bool \<Rightarrow> pyval \<Rightarrow> unit result" where
  "status_check expected_status allow_later actual =
     (if py_eq actual (PInt expected_status) then Inr ()
      else rbind (if allow_later \<and> expected_status = 0 then later_docstatus actual else Inr False) (\<lambda>later.
        require_match later ''target status does not match action''))"

text \<open>The dictionary \<open>{item[key]: item for item in items}\<close>.\<close>

fun index_rows :: "string \<Rightarrow> pyval list \<Rightarrow> (pyval \<times> pyval) list \<Rightarrow> (pyval \<times> pyval) list result" where
  "index_rows key [] acc = Inr acc"
| "index_rows key (item # items) acc =
     rbind (index_at item key) (\<lambda>k.
       if \<not> hashable k then Inl TypeError else index_rows key items (dict_set acc k item))"

definition pi_amounts :: "pyval \<Rightarrow> pyval \<Rightarrow> string \<Rightarrow> pydec \<Rightarrow> (string \<times> pyval) list result" where
  "pi_amounts actual expected prefix qty =
     rbind (same_number ''rate'' actual expected (prefix @ ''rate'') '' does not match'') (\<lambda>rate.
     rbind (exec_decimal (exec_value actual ''amount'') (prefix @ ''amount'')) (\<lambda>amount.
     rbind (dec_mult qty rate) (\<lambda>product.
     rbind (require_match (dec_eq amount product) (prefix @ ''amount does not match qty multiplied by rate'')) (\<lambda>_.
     rbind (format_normal rate) (\<lambda>rate_text.
     rbind (format_normal amount) (\<lambda>amount_text.
     Inr [(prefix @ ''rate'', PStr rate_text), (prefix @ ''amount'', PStr amount_text)]))))))"

text \<open>One row of a receipt or invoice draft; returns the source row it accounts for.\<close>

definition p2p_row ::
  "string \<Rightarrow> string \<Rightarrow> (string \<times> pyval) list \<Rightarrow> (pyval \<times> pyval) list \<Rightarrow> string list \<Rightarrow> nat \<Rightarrow> pyval \<Rightarrow>
   (string \<times> (string \<times> pyval) list) result" where
  "p2p_row source_link parent_link payload expected_by_source seen index actual =
     (let prefix = ''item_'' @ nat_str index @ ''.'';
          source_row = text_or_empty (exec_value actual source_link) in
      case map_of expected_by_source (PStr source_row) of
        None \<Rightarrow> Inl (ReadBackMismatch ''P2P draft source rows do not match'')
      | Some expected \<Rightarrow>
        if source_row \<in> set seen then Inl (ReadBackMismatch ''P2P draft source rows do not match'') else
        rbind (index_at expected ''item_code'') (\<lambda>expected_code.
        let actual_code = text_or_empty (exec_value actual ''item_code'') in
        rbind (require_match (py_eq (PStr actual_code) expected_code) (prefix @ ''item_code does not match'')) (\<lambda>_.
        rbind (index_at expected ''source_row'') (\<lambda>expected_row.
        rbind (same_text (PStr source_row) expected_row (prefix @ source_link)) (\<lambda>_.
        rbind (dict_at payload ''source_name'') (\<lambda>source_name.
        rbind (same_text (exec_value actual parent_link) source_name (prefix @ parent_link)) (\<lambda>_.
        rbind (same_if_approved ''warehouse'' (exec_value actual ''warehouse'') expected (prefix @ ''warehouse'')) (\<lambda>_.
        rbind (same_if_approved ''uom'' (exec_value actual ''uom'') expected (prefix @ ''uom'')) (\<lambda>_.
        rbind (same_number ''qty'' actual expected (prefix @ ''qty'') '' does not match'') (\<lambda>qty.
        rbind (format_normal qty) (\<lambda>qty_text.
        rbind (if source_link = ''pr_detail'' then pi_amounts actual expected prefix qty else Inr []) (\<lambda>amounts.
        Inr (source_row,
          [(prefix @ ''item_code'', PStr actual_code), (prefix @ ''qty'', PStr qty_text),
           (prefix @ source_link, PStr (py_str (exec_value actual source_link))),
           (prefix @ parent_link, PStr (py_str (exec_value actual parent_link))),
           (prefix @ ''warehouse'', PStr (text_or_empty (exec_value actual ''warehouse''))),
           (prefix @ ''uom'', PStr (text_or_empty (exec_value actual ''uom'')))] @ amounts)))))))))))))"

fun p2p_rows ::
  "string \<Rightarrow> string \<Rightarrow> (string \<times> pyval) list \<Rightarrow> (pyval \<times> pyval) list \<Rightarrow> string list \<Rightarrow> nat \<Rightarrow> pyval list \<Rightarrow>
   (string list \<times> (string \<times> pyval) list) result" where
  "p2p_rows source_link parent_link payload expected_by_source seen index [] = Inr (seen, [])"
| "p2p_rows source_link parent_link payload expected_by_source seen index (actual # rest) =
     rbind (p2p_row source_link parent_link payload expected_by_source seen index actual) (\<lambda>(row, evidence).
     rbind (p2p_rows source_link parent_link payload expected_by_source (row # seen) (Suc index) rest) (\<lambda>(final, more).
     Inr (final, evidence @ more)))"

definition read_back_lines :: "ProposedAction \<Rightarrow> pyval \<Rightarrow> (string \<times> pyval) list result" where
  "read_back_lines action doc =
     (let payload = pa_payload action;
          pr = (pa_action_type action = ''CREATE_PR_DRAFT'');
          source_link = (if pr then ''purchase_order_item'' else ''pr_detail'');
          parent_link = (if pr then ''purchase_order'' else ''purchase_receipt'') in
      case exec_value_or doc ''items'' (PList []) of
        PList rows \<Rightarrow>
          rbind (dict_at payload ''items'') (\<lambda>v.
          rbind (py_iter v) (\<lambda>items.
          rbind (require_match (length rows = length items) ''P2P draft item count does not match'') (\<lambda>_.
          rbind (dict_at payload ''transaction_date'') (\<lambda>date.
          rbind (same_text (exec_value doc ''posting_date'') date ''posting_date'') (\<lambda>_.
          rbind (dict_at payload ''source_name'') (\<lambda>source_name.
          rbind (index_rows ''source_row'' items []) (\<lambda>expected_by_source.
          rbind (p2p_rows source_link parent_link payload expected_by_source [] 0 rows) (\<lambda>(seen, evidence).
          rbind (require_match (set (map PStr seen) = set (map fst expected_by_source)) ''P2P draft source rows do not match'') (\<lambda>_.
          Inr ([(''source_name'', PStr (py_str source_name)),
            (''posting_date'', PStr (py_str (exec_value doc ''posting_date''))),
            (''items_count'', PInt (int (length rows)))] @ evidence))))))))))
      | _ \<Rightarrow> Inl (ReadBackMismatch ''P2P draft item count does not match''))"

text \<open>Payment references.\<close>

fun index_by_name :: "pyval list \<Rightarrow> (string \<times> pyval) list \<Rightarrow> (string \<times> pyval) list result" where
  "index_by_name [] acc = Inr acc"
| "index_by_name (item # items) acc =
     rbind (index_at item ''reference_name'') (\<lambda>n. index_by_name items (dict_set acc (py_str n) item))"

definition reference_check ::
  "(string \<times> pyval) list \<Rightarrow> string list \<Rightarrow> nat \<Rightarrow> pyval \<Rightarrow> string result" where
  "reference_check expected_by_name seen index reference =
     (let prefix = ''reference_'' @ nat_str index @ ''.'';
          name = text_or_empty (exec_value reference ''reference_name'') in
      case map_of expected_by_name name of
        None \<Rightarrow> Inl (ReadBackMismatch ''payment references do not match'')
      | Some expected \<Rightarrow>
        if name \<in> set seen then Inl (ReadBackMismatch ''payment references do not match'') else
        rbind (index_at expected ''reference_doctype'') (\<lambda>dt.
        rbind (same_text (exec_value reference ''reference_doctype'') dt (prefix @ ''reference_doctype'')) (\<lambda>_.
        rbind (same_number ''allocated_amount'' reference expected (prefix @ ''allocated_amount'') '' does not match'') (\<lambda>_.
        Inr name))))"

fun reference_checks :: "(string \<times> pyval) list \<Rightarrow> string list \<Rightarrow> nat \<Rightarrow> pyval list \<Rightarrow> string list result" where
  "reference_checks expected_by_name seen index [] = Inr seen"
| "reference_checks expected_by_name seen index (r # rs) =
     rbind (reference_check expected_by_name seen index r) (\<lambda>name.
       reference_checks expected_by_name (name # seen) (Suc index) rs)"

text \<open>\<open>references[0].reference_name\<close>.\<close>

definition first_reference_name :: "pyval list \<Rightarrow> string result" where
  "first_reference_name refs =
     (case refs of
        [] \<Rightarrow> Inl IndexError
      | r # _ \<Rightarrow> (case r of PDict d \<Rightarrow> (case map_of d ''reference_name'' of None \<Rightarrow> Inl AttributeError | Some v \<Rightarrow> Inr (py_str v))
                 | _ \<Rightarrow> Inl AttributeError))"

definition PAYMENT_TEXTS :: "string list" where
  "PAYMENT_TEXTS = [''party_type'', ''party'', ''payment_type'', ''paid_from'', ''paid_to'']"

definition read_back_payment :: "ProposedAction \<Rightarrow> pyval \<Rightarrow> (string \<times> pyval) list result" where
  "read_back_payment action doc =
     (let payload = PDict (pa_payload action) in
      rbind (same_fields PAYMENT_TEXTS doc payload []) (\<lambda>_.
      rbind (same_number ''paid_amount'' doc payload ''paid_amount'' '' does not match'') (\<lambda>paid.
      rbind (same_number ''received_amount'' doc payload ''received_amount'' '' does not match'') (\<lambda>received.
      rbind (exec_decimal (exec_value doc ''total_allocated_amount'') ''total_allocated_amount'') (\<lambda>allocated.
      rbind (require_match (dec_eq allocated paid) ''total_allocated_amount does not match paid_amount'') (\<lambda>_.
      rbind (exec_decimal (exec_value doc ''unallocated_amount'') ''unallocated_amount'') (\<lambda>unallocated.
      rbind (require_match (dec_eq unallocated (DFin False 0 0)) ''unallocated_amount must be zero'') (\<lambda>_.
      rbind (py_iter (py_or (exec_value_or doc ''references'' (PList [])) (PList []))) (\<lambda>actual_references.
      rbind (index_at payload ''references'') (\<lambda>v.
      rbind (py_iter v) (\<lambda>expected_references.
      rbind (require_match (length actual_references = length expected_references) ''payment reference count does not match'') (\<lambda>_.
      rbind (index_by_name expected_references []) (\<lambda>expected_by_name.
      rbind (reference_checks expected_by_name [] 0 actual_references) (\<lambda>seen.
      rbind (require_match (set seen = set (map fst expected_by_name)) ''payment references do not match'') (\<lambda>_.
      rbind (format_normal paid) (\<lambda>paid_text.
      rbind (format_normal received) (\<lambda>received_text.
      rbind (format_normal allocated) (\<lambda>allocated_text.
      rbind (format_normal unallocated) (\<lambda>unallocated_text.
      rbind (first_reference_name actual_references) (\<lambda>reference_name.
      rbind (exec_decimal (exec_value (hd actual_references) ''allocated_amount'') ''reference_allocated_amount'') (\<lambda>first_allocated.
      rbind (format_normal first_allocated) (\<lambda>first_text.
      Inr (texts_of PAYMENT_TEXTS doc @
        [(''paid_amount'', PStr paid_text), (''received_amount'', PStr received_text),
         (''total_allocated_amount'', PStr allocated_text), (''unallocated_amount'', PStr unallocated_text),
         (''reference_name'', PStr reference_name), (''reference_allocated_amount'', PStr first_text),
         (''references_count'', PInt (int (length expected_references)))])))))))))))))))))))))))"

definition p2p_read_back :: "ProposedAction \<Rightarrow> pyval \<Rightarrow> bool \<Rightarrow> (string \<times> pyval) list result" where
  "p2p_read_back action doc allow_later_docstatus =
     (let t = pa_action_type action; payload = pa_payload action; status = expected_docstatus t in
      case map_of TARGET_DOCTYPES t of
        None \<Rightarrow> Inl KeyError
      | Some expected_target \<Rightarrow>
        rbind (require_match (py_str (py_or (exec_value_or doc ''doctype'' (PStr expected_target)) (PStr expected_target)) = expected_target)
          ''target DocType does not match action'') (\<lambda>_.
        rbind (status_check status allow_later_docstatus (exec_value doc ''docstatus'')) (\<lambda>_.
        rbind (same_fields [''company''] doc (PDict payload) []) (\<lambda>_.
        let actual_name = text_or_empty (exec_value doc ''name'');
            verified = [(''doctype'', PStr expected_target), (''docstatus'', PInt status),
              (''company'', PStr (py_str (exec_value doc ''company'')))] in
        rbind (require_match (\<not> (actual_name \<noteq> [] \<and> (starts_with ''SUBMIT_'' t \<or> starts_with ''CANCEL_'' t) \<and>
            actual_name \<noteq> text_or_empty (dget payload ''source_name''))) ''target name does not match source document'') (\<lambda>_.
        rbind (if t \<in> set SOURCE_ACTIONS
               then rbind (dict_at payload ''source_name'') (\<lambda>s. Inr [(''source_name'', PStr (py_str s))])
               else if t \<in> {''CREATE_PR_DRAFT'', ''CREATE_PI_DRAFT''} then read_back_lines action doc
               else if t = ''CREATE_PAYMENT_ENTRY_DRAFT'' then read_back_payment action doc
               else Inr []) (\<lambda>more.
        Inr (verified @ more)))))))"

section \<open>Receipt evidence\<close>

definition PI_MUTABLE_RECEIPT_FIELDS :: "string list" where
  "PI_MUTABLE_RECEIPT_FIELDS = [''status'', ''outstanding_amount'']"

definition PAYMENT_MUTABLE_RECEIPT_FIELDS :: "string list" where
  "PAYMENT_MUTABLE_RECEIPT_FIELDS = [''purchase_invoice_status'', ''purchase_invoice_outstanding_amount'']"

definition CANCEL_MUTABLE_RECEIPT_FIELDS :: "(string \<times> string list) list" where
  "CANCEL_MUTABLE_RECEIPT_FIELDS =
     [(''CANCEL_PR'', []), (''CANCEL_PI'', []),
      (''CANCEL_PAYMENT_ENTRY'', [''purchase_invoice_status'', ''purchase_invoice_outstanding_amount'']),
      (''CANCEL_PO'', [])]"

definition stable_items :: "string list \<Rightarrow> string list \<Rightarrow> (string \<times> pyval) list \<Rightarrow> (string \<times> pyval) list" where
  "stable_items mutable_fields suffixes items =
     filter (\<lambda>(key, v). key \<notin> set mutable_fields \<and> \<not> list_ex (\<lambda>s. ends_with s key) suffixes) items"

definition p2p_receipt_evidence_matches ::
  "ProposedAction \<Rightarrow> (string \<times> pyval) list \<Rightarrow> (string \<times> pyval) list \<Rightarrow> bool" where
  "p2p_receipt_evidence_matches action recorded current =
     (let t = pa_action_type action in
      if starts_with ''CANCEL_'' t then
        (let fs = (case map_of CANCEL_MUTABLE_RECEIPT_FIELDS t of None \<Rightarrow> [] | Some fs \<Rightarrow> fs);
             stable = stable_items fs [''.po_received_qty'', ''.po_per_received'', ''.pr_per_billed'', ''.po_per_billed'']
         in py_eq (PDict (stable recorded)) (PDict (stable current)))
      else if t \<notin> {''SUBMIT_PI'', ''SUBMIT_PAYMENT_ENTRY''} then py_eq (PDict recorded) (PDict current)
      else
        (let stable = stable_items (if t = ''SUBMIT_PI'' then PI_MUTABLE_RECEIPT_FIELDS else PAYMENT_MUTABLE_RECEIPT_FIELDS)
               [''.pr_billed_amt'', ''.pr_per_billed'', ''.po_per_billed'']
         in py_eq (PDict (stable recorded)) (PDict (stable current))))"

section \<open>Mapping of failures\<close>

text \<open>\<open>type(error).__name__\<close> of the exceptions of the model.\<close>

fun exc_name :: "pyexc \<Rightarrow> string" where
  "exc_name (GatewayFault c m s) = ''GatewayFault''"
| "exc_name (ReadBackMismatch m) = ''ReadBackMismatch''"
| "exc_name (WorkflowError c m) = ''WorkflowError''"
| "exc_name (CheckpointError c m) = ''CheckpointError''"
| "exc_name TypeError = ''TypeError''"
| "exc_name ValueError = ''ValueError''"
| "exc_name KeyError = ''KeyError''"
| "exc_name AttributeError = ''AttributeError''"
| "exc_name IndexError = ''IndexError''"
| "exc_name OverflowError = ''OverflowError''"
| "exc_name DecimalOverflow = ''Overflow''"
| "exc_name (OtherError n) = n"

definition map_execution_error :: "pyexc \<Rightarrow> string \<times> string \<times> int" where
  "map_execution_error error =
     (case error of
        GatewayFault code msg status \<Rightarrow>
          if code \<in> {''PERMISSION_DENIED'', ''ERP_PERMISSION_ERROR''} then (''ERP_PERMISSION_ERROR'', code, 403)
          else if code \<in> {''CONFLICT'', ''STALE'', ''POLICY_REJECTED'', ''EXPIRED''} then (''CONFLICT'', code, 409)
          else if code \<in> {''UNCERTAIN_RESULT'', ''TIMEOUT''} then (''UNCERTAIN_RESULT'', code, 503)
          else (''ERP_VALIDATION_ERROR'', code, status)
      | _ \<Rightarrow>
          (let name = exc_name error in
           if name \<in> {''PermissionError'', ''NotPermittedError''} then (''ERP_PERMISSION_ERROR'', name, 403)
           else if name = ''DoesNotExistError'' then (''ERP_NOT_FOUND'', name, 404)
           else if name \<in> {''ValidationError'', ''MandatoryError'', ''LinkValidationError'', ''InvalidStatusError'',
               ''UniqueValidationError'', ''ReadBackMismatch'', ''TimestampMismatchError''}
           then (''ERP_VALIDATION_ERROR'', name, 422)
           else (''UNCERTAIN_RESULT'', ''UNEXPECTED_EXECUTION_ERROR'', 503)))"

end
