(* ===== verification/Execution_Properties.thy ===== *)
theory Execution_Properties
  imports Execution_Contracts
begin

text \<open>
  The read-back and reconciliation contracts of \<open>governance/execution_contracts.py\<close>: what a verified
  document has in common with the approved payload, what the execution key identifies, and that
  no outcome authorises another write.
\<close>

section \<open>Fields and numbers\<close>

definition field_of :: "pyval \<Rightarrow> string \<Rightarrow> pyval option" where
  "field_of v k = (case v of PDict d \<Rightarrow> map_of d k | _ \<Rightarrow> None)"

definition number_of :: "pyval \<Rightarrow> pydec option" where
  "number_of v = (case py_Decimal (py_str v) of Some n \<Rightarrow> if dec_is_finite n then Some n else None | None \<Rightarrow> None)"

lemma index_at_field: "index_at v k = Inr x \<longleftrightarrow> field_of v k = Some x"
  by (cases v) (auto simp: index_at_def dict_at_ok field_of_def)

lemma exec_value_field: "exec_value_or v k d = (case field_of v k of None \<Rightarrow> d | Some x \<Rightarrow> x)"
  by (cases v) (auto simp: exec_value_or_def field_of_def)

lemma exec_decimal_number: "exec_decimal v l = Inr n \<longleftrightarrow> number_of v = Some n"
  by (auto simp: exec_decimal_def number_of_def split: option.splits)

lemma require_match_ok: "require_match b m = Inr u \<longleftrightarrow> b"
  by (simp add: require_match_def)

lemma same_text_ok: "same_text a e l = Inr u \<longleftrightarrow> text_or_empty a = text_or_empty e"
  by (simp add: same_text_def)

lemma same_fields_ok:
  "same_fields fs a e p = Inr u \<longleftrightarrow>
     (\<forall>f \<in> set fs. \<exists>x. field_of e f = Some x \<and> text_or_empty (exec_value a f) = text_or_empty x)"
  by (induction fs) (auto simp: rbind_eq_Inr index_at_field same_text_ok)

lemma same_fields_values:
  "same_fields fs a e p = Inr u \<Longrightarrow> f \<in> set fs \<Longrightarrow> text_or_empty (exec_value a f) = text_or_empty (exec_value e f)"
  by (auto simp: same_fields_ok exec_value_field)

text \<open>Equality of two fields as numbers.\<close>

definition equal_numbers :: "string \<Rightarrow> pyval \<Rightarrow> pyval \<Rightarrow> bool" where
  "equal_numbers f a e = (\<exists>n m. number_of (exec_value a f) = Some n \<and> number_of (exec_value e f) = Some m \<and> dec_eq n m)"

lemma same_number_ok:
  assumes "same_number f a e l s = Inr n"
  shows "number_of (exec_value a f) = Some n \<and> equal_numbers f a e"
proof -
  from assms obtain v m where "number_of (exec_value a f) = Some n" "field_of e f = Some v" "number_of v = Some m" "dec_eq n m"
    by (auto simp: same_number_def rbind_eq_Inr exec_decimal_number index_at_field require_match_ok)
  moreover from this have "exec_value e f = v" by (simp add: exec_value_field)
  ultimately show ?thesis unfolding equal_numbers_def by blast
qed

lemma same_if_approved_ok:
  "same_if_approved f a e l = Inr u \<longleftrightarrow> exec_value e f = PNone \<or> text_or_empty a = text_or_empty (exec_value e f)"
  by (simp add: same_if_approved_def same_text_ok)

lemma copy_fields_lookup:
  assumes "copy_fields ks v = Inr d"
  shows "map_of d k = (if k \<in> set ks then field_of v k else None)" and "\<forall>k \<in> set ks. field_of v k \<noteq> None"
proof -
  have "map_of d k = (if k \<in> set ks then field_of v k else None) \<and> (\<forall>k \<in> set ks. field_of v k \<noteq> None)"
    using assms unfolding copy_fields_def
    by (induction ks arbitrary: d) (auto simp: rbind_eq_Inr index_at_field)
  then show "map_of d k = (if k \<in> set ks then field_of v k else None)" "\<forall>k \<in> set ks. field_of v k \<noteq> None" by simp_all
qed

lemma copy_present_lookup: "map_of (copy_present ks d) k = (if k \<in> set ks then map_of d k else None)"
  by (induction ks) (auto split: option.splits)

lemma present_fields_lookup: "map_of (present_fields ks v) k = (if k \<in> set ks then field_of v k else None)"
  by (cases v) (auto simp: present_fields_def copy_present_lookup field_of_def)

lemma map_of_parts:
  assumes "map_of f k = (if k \<in> A then x else None)" and "map_of b k = (if k \<in> B then x else None)"
    and "map_of p k = (if k \<in> C then x else None)" and "k \<noteq> c" and "k \<in> A \<union> B \<union> C"
  shows "map_of (f @ [(c, y)] @ b @ p) k = x"
  using assms by (cases x) (auto simp: map_add_def split: if_splits option.splits)

section \<open>Purchase order drafts\<close>

lemma purchase_order_item_fields:
  assumes "purchase_order_item v = Inr e"
    and "k \<in> {''item_code'', ''qty'', ''uom'', ''rate'', ''warehouse'', ''schedule_date'', ''description'', ''material_request''}"
  shows "field_of e k = field_of v k"
proof -
  from assms(1) obtain f b where f: "copy_fields [''item_code'', ''qty'', ''uom''] v = Inr f"
    and b: "copy_fields [''rate'', ''warehouse'', ''schedule_date''] v = Inr b"
    and e: "e = PDict (f @ [(''conversion_factor'', PInt 1)] @ b @ present_fields [''description'', ''material_request''] v)"
    by (auto simp: purchase_order_item_def rbind_eq_Inr)
  have "k \<noteq> ''conversion_factor''" using assms(2) by auto
  then have "map_of (f @ [(''conversion_factor'', PInt 1)] @ b @ present_fields [''description'', ''material_request''] v) k = field_of v k"
    by (rule map_of_parts [OF copy_fields_lookup(1) [OF f] copy_fields_lookup(1) [OF b] present_fields_lookup]) (use assms(2) in auto)
  then show ?thesis by (simp add: e field_of_def)
qed

lemma purchase_order_item_value:
  "purchase_order_item v = Inr e \<Longrightarrow>
     k \<in> {''item_code'', ''qty'', ''uom'', ''rate'', ''warehouse'', ''schedule_date'', ''description'', ''material_request''} \<Longrightarrow>
     exec_value e k = exec_value v k"
  using purchase_order_item_fields [of v e k] by (simp add: exec_value_field)

text \<open>A document row agrees with an approved purchase order line.\<close>

definition po_row_matches :: "pyval \<Rightarrow> pyval \<Rightarrow> bool" where
  "po_row_matches actual item \<longleftrightarrow>
     (\<forall>f \<in> {''item_code'', ''warehouse'', ''schedule_date'', ''uom''}.
        text_or_empty (exec_value actual f) = text_or_empty (exec_value item f)) \<and>
     equal_numbers ''qty'' actual item \<and> equal_numbers ''rate'' actual item \<and>
     (\<exists>q r p a. number_of (exec_value actual ''qty'') = Some q \<and> number_of (exec_value actual ''rate'') = Some r \<and>
        dec_mult q r = Inr p \<and> number_of (exec_value actual ''amount'') = Some a \<and> dec_eq a p) \<and>
     text_or_empty (exec_value actual ''material_request'') = text_or_empty (exec_value item ''material_request'')"

lemma text_or_empty_simps [simp]: "text_or_empty PNone = []" "text_or_empty (PStr s) = s"
  by (auto simp: text_or_empty_def py_or_def truthy_def)

lemma po_material_request_ok:
  "po_material_request a e p = Inr s \<Longrightarrow>
     text_or_empty (exec_value a ''material_request'') = text_or_empty (exec_value e ''material_request'')"
  by (auto simp: po_material_request_def Let_def rbind_eq_Inr same_text_ok require_match_ok split: if_splits)

lemma po_item_evidence_ok:
  assumes "po_item_evidence i actual e = Inr ev" and "purchase_order_item item = Inr e"
  shows "po_row_matches actual item"
proof -
  let ?p = "''item_'' @ nat_str i @ ''.''" and ?fs = "[''item_code'', ''warehouse'', ''schedule_date'', ''uom'']"
  from assms(1) obtain q r p a mr l1 l2 l3 s1 s2 where
    f: "same_fields ?fs actual e ?p = Inr ()"
    and q: "same_number ''qty'' actual e l1 s1 = Inr q" and r: "same_number ''rate'' actual e l2 s2 = Inr r"
    and a: "exec_decimal (exec_value actual ''amount'') l3 = Inr a" and p: "dec_mult q r = Inr p" "dec_eq a p"
    and mr: "po_material_request actual e ?p = Inr mr"
    unfolding po_item_evidence_def Let_def rbind_eq_Inr require_match_ok by auto
  note val = purchase_order_item_value [OF assms(2)]
  have "\<forall>f \<in> set ?fs. text_or_empty (exec_value actual f) = text_or_empty (exec_value item f)"
    using same_fields_values [OF f] by (simp add: val)
  moreover have "equal_numbers ''qty'' actual item" "equal_numbers ''rate'' actual item"
    using same_number_ok [OF q] same_number_ok [OF r] by (auto simp: equal_numbers_def val)
  moreover have "\<exists>q r p a. number_of (exec_value actual ''qty'') = Some q \<and> number_of (exec_value actual ''rate'') = Some r \<and>
        dec_mult q r = Inr p \<and> number_of (exec_value actual ''amount'') = Some a \<and> dec_eq a p"
    using same_number_ok [OF q] same_number_ok [OF r] a p by (auto simp: exec_decimal_number)
  moreover have "text_or_empty (exec_value actual ''material_request'') = text_or_empty (exec_value item ''material_request'')"
    using po_material_request_ok [OF mr] by (simp add: val)
  ultimately show ?thesis unfolding po_row_matches_def by simp
qed

lemma rmap_from_nth:
  "rmap_from i f xs = Inr ys \<Longrightarrow> j < length xs \<Longrightarrow> f (i + j) (xs ! j) = Inr (ys ! j)"
proof (induction xs arbitrary: i j ys)
  case (Cons x xs)
  then obtain b bs where b: "f i x = Inr b" "rmap_from (Suc i) f xs = Inr bs" "ys = b # bs"
    by (auto simp: rbind_eq_Inr)
  then show ?case using Cons.IH [of "Suc i" bs "j - 1"] Cons.prems(2) by (cases j) auto
qed simp

lemma rmap_nth: "rmap f xs = Inr ys \<Longrightarrow> j < length xs \<Longrightarrow> f (xs ! j) = Inr (ys ! j)"
  by (auto simp: rmap_ok_iff dest: list_all2_nthD)

lemma zip_evidence_nth:
  assumes "zip_evidence chk as es = Inr ev" and "length as = length es" and "j < length as"
  shows "\<exists>x. chk j (as ! j) (es ! j) = Inr x"
proof -
  from assms(1) obtain evs where "rmap_from 0 (\<lambda>i (a, e). chk i a e) (zip as es) = Inr evs"
    by (auto simp: zip_evidence_def rbind_eq_Inr)
  from rmap_from_nth [OF this, of j] assms(2,3) show ?thesis by auto
qed

lemma actual_rows_ok:
  "actual_rows doc values = Inr (as, es) \<Longrightarrow>
     exec_value_or doc ''items'' (PList []) = PList as \<and> length as = length es \<and>
     (\<exists>v. map_of values ''items'' = Some v \<and> py_iter v = Inr es)"
  unfolding actual_rows_def by (auto simp: result_simps dict_at_ok require_match_ok)

lemma purchase_order_values_ok:
  assumes "purchase_order_values a = Inr values"
  shows "\<exists>v rows items. map_of (pa_payload a) ''items'' = Some v \<and> py_iter v = Inr rows \<and>
     rmap purchase_order_item rows = Inr items \<and> map_of values ''items'' = Some (PList items)"
    and "f \<in> {''supplier'', ''company'', ''transaction_date'', ''schedule_date'', ''currency'', ''buying_price_list''} \<Longrightarrow>
     map_of values f = map_of (pa_payload a) f"
proof -
  let ?h = "[''supplier'', ''company'', ''transaction_date'', ''schedule_date'', ''currency'', ''buying_price_list'']"
  from assms obtain head v rows items where h: "copy_fields ?h (PDict (pa_payload a)) = Inr head"
    and v: "map_of (pa_payload a) ''items'' = Some v" "py_iter v = Inr rows" "rmap purchase_order_item rows = Inr items"
    and vals: "values = [(''doctype'', PStr ''Purchase Order''), (''naming_series'', PStr ''PUR-ORD-.YYYY.-'')] @ head @
           [(''conversion_rate'', PInt 1), (''items'', PList items)]"
    unfolding purchase_order_values_def Let_def if_error_ok rbind_eq_Inr index_at_ok by auto
  note look = copy_fields_lookup(1) [OF h]
  have "map_of values ''items'' = Some (PList items)" using look [of "''items''"] by (simp add: vals map_add_def)
  with v show "\<exists>v rows items. map_of (pa_payload a) ''items'' = Some v \<and> py_iter v = Inr rows \<and>
     rmap purchase_order_item rows = Inr items \<and> map_of values ''items'' = Some (PList items)" by blast
  assume "f \<in> {''supplier'', ''company'', ''transaction_date'', ''schedule_date'', ''currency'', ''buying_price_list''}"
  then show "map_of values f = map_of (pa_payload a) f"
    using look [of f] copy_fields_lookup(2) [OF h] by (auto simp: vals map_add_def field_of_def split: option.splits)
qed

section \<open>Procure-to-pay draft lines\<close>

lemma index_rows_lookup:
  assumes "index_rows key items acc = Inr d"
  shows "\<forall>k v. map_of d k = Some v \<longrightarrow> map_of acc k = Some v \<or> (v \<in> set items \<and> field_of v key = Some k)"
    and "set (map fst d) = set (map fst acc) \<union> {k. \<exists>v \<in> set items. field_of v key = Some k}"
proof -
  have "(\<forall>k v. map_of d k = Some v \<longrightarrow> map_of acc k = Some v \<or> (v \<in> set items \<and> field_of v key = Some k)) \<and>
    set (map fst d) = set (map fst acc) \<union> {k. \<exists>v \<in> set items. field_of v key = Some k}"
    using assms
  proof (induction items arbitrary: acc)
    case (Cons x xs)
    then obtain k where k: "field_of x key = Some k" "index_rows key xs (dict_set acc k x) = Inr d"
      by (auto simp: rbind_eq_Inr index_at_field split: if_splits)
    from Cons.IH [OF k(2)] k(1) show ?case
      by (auto simp: map_of_dict_set keys_dict_set split: if_splits)
  qed simp
  then show "\<forall>k v. map_of d k = Some v \<longrightarrow> map_of acc k = Some v \<or> (v \<in> set items \<and> field_of v key = Some k)"
    "set (map fst d) = set (map fst acc) \<union> {k. \<exists>v \<in> set items. field_of v key = Some k}" by simp_all
qed

text \<open>A document row agrees with an approved receipt or invoice line.\<close>

definition p2p_row_matches :: "string \<Rightarrow> string \<Rightarrow> pyval \<Rightarrow> pyval \<Rightarrow> pyval \<Rightarrow> bool" where
  "p2p_row_matches source_link parent_link source_name actual item \<longleftrightarrow>
     field_of item ''source_row'' = Some (PStr (text_or_empty (exec_value actual source_link))) \<and>
     text_or_empty (exec_value actual parent_link) = text_or_empty source_name \<and>
     exec_value item ''item_code'' = PStr (text_or_empty (exec_value actual ''item_code'')) \<and>
     equal_numbers ''qty'' actual item \<and>
     (\<forall>f \<in> {''warehouse'', ''uom''}. exec_value item f \<noteq> PNone \<longrightarrow>
        text_or_empty (exec_value actual f) = text_or_empty (exec_value item f)) \<and>
     (source_link = ''pr_detail'' \<longrightarrow> equal_numbers ''rate'' actual item \<and>
        (\<exists>q r p a. number_of (exec_value actual ''qty'') = Some q \<and> number_of (exec_value actual ''rate'') = Some r \<and>
           dec_mult q r = Inr p \<and> number_of (exec_value actual ''amount'') = Some a \<and> dec_eq a p))"

lemma p2p_row_ok:
  assumes "p2p_row sl pl payload ebs seen i actual = Inr (row, ev)"
  shows "row = text_or_empty (exec_value actual sl)" "row \<notin> set seen"
    "\<exists>item sn. map_of ebs (PStr row) = Some item \<and> map_of payload ''source_name'' = Some sn \<and>
       (field_of item ''source_row'' = Some (PStr row) \<longrightarrow> p2p_row_matches sl pl sn actual item)"
proof -
  let ?row = "text_or_empty (exec_value actual sl)"
  from assms obtain item where item: "map_of ebs (PStr ?row) = Some item"
    by (auto simp: p2p_row_def Let_def split: option.splits)
  from assms obtain ec sn q l1 s1 am l2 l3 p u1 u2 where
    r: "?row \<notin> set seen" "row = ?row"
    and ec: "field_of item ''item_code'' = Some ec" "py_eq (PStr (text_or_empty (exec_value actual ''item_code''))) ec"
    and sn: "map_of payload ''source_name'' = Some sn" "text_or_empty (exec_value actual pl) = text_or_empty sn"
    and wh: "same_if_approved ''warehouse'' (exec_value actual ''warehouse'') item l2 = Inr u1"
    and uom: "same_if_approved ''uom'' (exec_value actual ''uom'') item l3 = Inr u2"
    and q: "same_number ''qty'' actual item l1 s1 = Inr q"
    and am: "(if sl = ''pr_detail'' then pi_amounts actual item p q else Inr []) = Inr am"
    unfolding p2p_row_def Let_def item option.case if_error_ok rbind_eq_Inr require_match_ok same_text_ok
      index_at_field dict_at_ok sum.inject prod.inject by blast
  show "row = ?row" "row \<notin> set seen" using r by simp_all
  have pi: "equal_numbers ''rate'' actual item \<and> (\<exists>r p a. number_of (exec_value actual ''rate'') = Some r \<and>
      dec_mult q r = Inr p \<and> number_of (exec_value actual ''amount'') = Some a \<and> dec_eq a p)" if "sl = ''pr_detail''"
  proof -
    from am that have "pi_amounts actual item p q = Inr am" by simp
    then obtain rt a pr la lb where "same_number ''rate'' actual item la lb = Inr rt" "number_of (exec_value actual ''amount'') = Some a"
      "dec_mult q rt = Inr pr" "dec_eq a pr"
      unfolding pi_amounts_def rbind_eq_Inr require_match_ok exec_decimal_number by blast
    with same_number_ok show ?thesis by blast
  qed
  have "p2p_row_matches sl pl sn actual item" if "field_of item ''source_row'' = Some (PStr row)"
    unfolding p2p_row_matches_def
    using that r sn ec same_number_ok [OF q] wh uom pi
    by (auto simp: exec_value_field same_if_approved_ok)
  with item r sn show "\<exists>item sn. map_of ebs (PStr row) = Some item \<and> map_of payload ''source_name'' = Some sn \<and>
       (field_of item ''source_row'' = Some (PStr row) \<longrightarrow> p2p_row_matches sl pl sn actual item)" by blast
qed

lemma p2p_rows_ok:
  assumes "p2p_rows sl pl payload ebs seen i rows = Inr (final, ev)" and "distinct seen"
  shows "distinct final \<and> final = rev (map (\<lambda>r. text_or_empty (exec_value r sl)) rows) @ seen \<and>
    (\<forall>r \<in> set rows. \<exists>item sn. map_of ebs (PStr (text_or_empty (exec_value r sl))) = Some item \<and>
       map_of payload ''source_name'' = Some sn \<and>
       (field_of item ''source_row'' = Some (PStr (text_or_empty (exec_value r sl))) \<longrightarrow> p2p_row_matches sl pl sn r item))"
  using assms
proof (induction rows arbitrary: seen i ev)
  case (Cons r rs)
  from Cons.prems(1) obtain row e1 e2 where r: "p2p_row sl pl payload ebs seen i r = Inr (row, e1)"
    and rs: "p2p_rows sl pl payload ebs (row # seen) (Suc i) rs = Inr (final, e2)"
    by (auto simp: rbind_eq_Inr split: prod.splits)
  note ok = p2p_row_ok [OF r]
  from Cons.prems(2) ok(2) have "distinct (row # seen)" by simp
  note ih = Cons.IH [OF rs this]
  show ?case
  proof (intro conjI)
    show "distinct final" using ih by (rule conjunct1)
    show "final = rev (map (\<lambda>r. text_or_empty (exec_value r sl)) (r # rs)) @ seen" using ih ok(1) by simp
  qed (use ih ok in auto)
qed simp

section \<open>Properties\<close>

text \<open>
  C25: reconciliation never authorises a retry.  For candidate counts that make sense the
  classification is defined; it reports success only for exactly one candidate that matches,
  failure only when no candidate exists, the lease has expired and the failure evidence is
  complete, and in no case permits another write.  Counts that make no sense are refused.
\<close>

theorem classify_reconciliation_correct:
  "if 0 \<le> matching \<and> matching \<le> candidates
   then \<exists>r. classify_reconciliation candidates matching expired evidence = Inr r \<and> \<not> rc_can_retry r \<and>
     (rc_result_status r = ''RECONCILED_SUCCESS'' \<longleftrightarrow> candidates = 1 \<and> matching = 1) \<and>
     (rc_result_status r = ''RECONCILED_FAILURE'' \<longleftrightarrow> candidates = 0 \<and> expired \<and> evidence) \<and>
     (rc_result_status r = ''RECONCILIATION_REQUIRED'' \<longleftrightarrow> candidates = 0 \<and> \<not> expired) \<and>
     rc_result_status r \<in> set RECEIPT_STATES
   else \<exists>m. classify_reconciliation candidates matching expired evidence = Inl (GatewayFault ''INVALID_INPUT'' m 400)"
  by (auto simp: classify_reconciliation_def make_classification_def RECEIPT_STATES_def)


definition sample_po_line :: pyval where
  "sample_po_line = PDict [(''item_code'', PStr ''I''), (''qty'', PStr ''1''), (''schedule_date'', PStr ''2026-01-01''),
     (''warehouse'', PStr ''W''), (''uom'', PStr ''Nos''), (''rate'', PStr ''1'')]"

definition sample_po_action :: ProposedAction where
  "sample_po_action = sample_built\<lparr>pa_action_type := ''CREATE_PO_DRAFT'', pa_payload :=
     [(''company'', PStr ''Acme''), (''transaction_date'', PStr ''2026-01-01''), (''items'', PList [sample_po_line]),
      (''supplier'', PStr ''S''), (''schedule_date'', PStr ''2026-01-01''), (''currency'', PStr ''EUR''), (''buying_price_list'', PStr ''P'')]\<rparr>"

definition sample_po_doc :: pyval where
  "sample_po_doc = PDict [(''docstatus'', PInt 0), (''supplier'', PStr ''S''), (''company'', PStr ''Acme''),
     (''currency'', PStr ''EUR''), (''buying_price_list'', PStr ''P''), (''transaction_date'', PStr ''2026-01-01''),
     (''schedule_date'', PStr ''2026-01-01''), (''conversion_rate'', PInt 1),
     (''items'', PList [PDict [(''item_code'', PStr ''I''), (''warehouse'', PStr ''W''), (''schedule_date'', PStr ''2026-01-01''),
        (''uom'', PStr ''Nos''), (''conversion_factor'', PInt 1), (''qty'', PInt 1), (''rate'', PStr ''1''), (''amount'', PStr ''1'')]])]"

lemma sample_one: "py_Decimal ''1'' = Some (DFin False 1 0)"
  by (simp add: py_Decimal_def py_strip_def py_space_def py_lower_def lower_char_def is_digit_def dec_number_def
      ndigits_def nat_str.simps)

lemma sample_one_number: "exec_decimal (PStr ''1'') l = Inr (DFin False 1 0)" "exec_decimal (PInt 1) l = Inr (DFin False 1 0)"
  by (simp_all add: exec_decimal_def sample_one py_str_def int_str_def nat_str.simps dec_is_finite_def)

lemma sample_one_arith: "dec_mult (DFin False 1 0) (DFin False 1 0) = Inr (DFin False 1 0)"
  "format_normal (DFin False 1 0) = Inr ''1''" "dec_eq (DFin False 1 0) (DFin False 1 0)"
  using dec_finalize_fits [of 1 0]
  by (simp_all add: format_normal_def ndigits_def nat_str.simps strip_zeros.simps dec_digits_f_def dec_eq_def)

lemma sample_po_verifies: "is_ok (verify_purchase_order_read_back sample_po_action sample_po_doc)"
  by (simp add: verify_purchase_order_read_back_def sample_po_action_def sample_po_doc_def sample_po_line_def
      purchase_order_values_def copy_fields_def index_at_def dict_at_def purchase_order_item_def present_fields_def
      require_match_def exec_value_or_def same_text_def text_or_empty_def same_number_def sample_one_number sample_one_arith
      actual_rows_def zip_evidence_def po_item_evidence_def po_material_request_def same_if_approved_def
      py_or_def truthy_def Let_def del: dec_mult.simps One_nat_def)


text \<open>
  C27: a verified receipt or invoice draft accounts for every approved line exactly once.  When
  the read-back of a purchase receipt or purchase invoice draft succeeds, the source links of
  the document rows are pairwise distinct and are exactly the source rows of the approved lines,
  and every document row agrees with an approved line on source row, parent document, item,
  exact quantity, warehouse and unit where approved, and for invoices on rate and amount.
\<close>

theorem p2p_draft_read_back_sound:
  assumes "p2p_read_back action doc later = Inr evidence"
    and "pa_action_type action \<in> {''CREATE_PR_DRAFT'', ''CREATE_PI_DRAFT''}"
  shows "\<exists>sl pl rows v items sn.
    (sl, pl) = (if pa_action_type action = ''CREATE_PR_DRAFT'' then (''purchase_order_item'', ''purchase_order'')
                else (''pr_detail'', ''purchase_receipt'')) \<and>
    exec_value_or doc ''items'' (PList []) = PList rows \<and>
    map_of (pa_payload action) ''items'' = Some v \<and> py_iter v = Inr items \<and>
    map_of (pa_payload action) ''source_name'' = Some sn \<and> length rows = length items \<and>
    distinct (map (\<lambda>r. text_or_empty (exec_value r sl)) rows) \<and>
    {PStr (text_or_empty (exec_value r sl)) | r. r \<in> set rows} = {k. \<exists>item \<in> set items. field_of item ''source_row'' = Some k} \<and>
    (\<forall>r \<in> set rows. \<exists>item \<in> set items. p2p_row_matches sl pl sn r item)"
proof -
  let ?pr = "pa_action_type action = ''CREATE_PR_DRAFT''"
  define sl where "sl = (if ?pr then ''purchase_order_item'' else ''pr_detail'')"
  define pl where "pl = (if ?pr then ''purchase_order'' else ''purchase_receipt'')"
  have ns: "pa_action_type action \<notin> set SOURCE_ACTIONS" using assms(2) by (auto simp: SOURCE_ACTIONS_def)
  from assms(1) obtain ev where "read_back_lines action doc = Inr ev"
    using assms(2) ns unfolding p2p_read_back_def Let_def
    by (auto simp: rbind_eq_Inr require_match_ok split: option.splits)
  then obtain rows v items sn ebs seen e2 where
    rows: "exec_value_or doc ''items'' (PList []) = PList rows"
    and v: "map_of (pa_payload action) ''items'' = Some v" "py_iter v = Inr items" "length rows = length items"
    and sn: "map_of (pa_payload action) ''source_name'' = Some sn"
    and ebs: "index_rows ''source_row'' items [] = Inr ebs"
    and pr: "p2p_rows sl pl (pa_payload action) ebs [] 0 rows = Inr (seen, e2)"
    and all: "set (map PStr seen) = set (map fst ebs)"
    unfolding read_back_lines_def Let_def case_PList_ok rbind_eq_Inr require_match_ok dict_at_ok sl_def pl_def
    by (auto simp: rbind_eq_Inr require_match_ok split: prod.splits)
  note ok = p2p_rows_ok [OF pr distinct.simps(1) [THEN iffD2, OF TrueI]]
  note idx = index_rows_lookup [OF ebs]
  have matches: "\<forall>r \<in> set rows. \<exists>item \<in> set items. p2p_row_matches sl pl sn r item"
  proof
    fix r assume "r \<in> set rows"
    with ok sn obtain item where "map_of ebs (PStr (text_or_empty (exec_value r sl))) = Some item"
      "field_of item ''source_row'' = Some (PStr (text_or_empty (exec_value r sl))) \<longrightarrow> p2p_row_matches sl pl sn r item"
      by auto
    with idx(1) show "\<exists>item \<in> set items. p2p_row_matches sl pl sn r item" by fastforce
  qed
  have dist: "distinct (map (\<lambda>r. text_or_empty (exec_value r sl)) rows)"
    using ok by (metis append_Nil2 distinct_rev)
  have "{PStr (text_or_empty (exec_value r sl)) | r. r \<in> set rows} = set (map PStr seen)" using ok by auto
  then have keys: "{PStr (text_or_empty (exec_value r sl)) | r. r \<in> set rows} = {k. \<exists>item \<in> set items. field_of item ''source_row'' = Some k}"
    using all idx(2) by simp
  have "(sl, pl) = (if ?pr then (''purchase_order_item'', ''purchase_order'') else (''pr_detail'', ''purchase_receipt''))"
    by (simp add: sl_def pl_def)
  then show ?thesis
    by (intro exI conjI) (rule rows v sn dist keys matches | assumption)+
qed

definition sample_pr_action :: ProposedAction where
  "sample_pr_action = sample_built\<lparr>pa_action_type := ''CREATE_PR_DRAFT'', pa_payload :=
     [(''company'', PStr ''Acme''), (''source_doctype'', PStr ''Purchase Order''), (''source_name'', PStr ''PO-1''),
      (''transaction_date'', PStr ''2026-01-01''),
      (''items'', PList [PDict [(''source_row'', PStr ''r1''), (''item_code'', PStr ''I''), (''qty'', PStr ''1''),
         (''uom'', PStr ''Nos''), (''warehouse'', PStr ''W'')]])]\<rparr>"

definition sample_pr_doc :: pyval where
  "sample_pr_doc = PDict [(''docstatus'', PInt 0), (''company'', PStr ''Acme''), (''posting_date'', PStr ''2026-01-01''),
     (''items'', PList [PDict [(''purchase_order_item'', PStr ''r1''), (''purchase_order'', PStr ''PO-1''), (''item_code'', PStr ''I''),
        (''qty'', PInt 1), (''uom'', PStr ''Nos''), (''warehouse'', PStr ''W'')]])]"

lemma sample_pr_verifies: "is_ok (p2p_read_back sample_pr_action sample_pr_doc False)"
  by (simp add: p2p_read_back_def sample_pr_action_def sample_pr_doc_def TARGET_DOCTYPES_def require_match_def exec_value_or_def
      py_or_def truthy_def expected_docstatus_def starts_with_def status_check_def index_at_def dict_at_def same_text_def
      text_or_empty_def SOURCE_ACTIONS_def read_back_lines_def hashable_def p2p_row_def same_if_approved_def same_number_def
      sample_one_number sample_one_arith Let_def del: One_nat_def)

theorem p2p_draft_read_back_sound_witness:
  "is_ok (p2p_read_back sample_pr_action sample_pr_doc False) \<and>
   (\<exists>rows. exec_value_or sample_pr_doc ''items'' (PList []) = PList rows \<and>
      distinct (map (\<lambda>r. text_or_empty (exec_value r ''purchase_order_item'')) rows))"
proof -
  from sample_pr_verifies obtain ev where ev: "p2p_read_back sample_pr_action sample_pr_doc False = Inr ev"
    by (cases "p2p_read_back sample_pr_action sample_pr_doc False") auto
  have t: "pa_action_type sample_pr_action = ''CREATE_PR_DRAFT''" by (simp add: sample_pr_action_def)
  from p2p_draft_read_back_sound [OF ev] t sample_pr_verifies show ?thesis by auto
qed


lemma sample_execution_key: "\<exists>k. execution_key sample_built = Inr k"
  by (simp add: execution_key_def sample_built_def TARGET_DOCTYPES_def exec_value_or_def sample_payload_def dict_at_def
      text_or_empty_def py_or_def truthy_def)


text \<open>
  Failures map to a closed set of categories.  Whatever exception ends a governed write,
  its public category is one of the response categories and never success; an exception that is
  not recognised is reported as uncertain with status 503, so that it is reconciled rather than
  taken for a failure, and a mismatch found by the read-back is a validation error.
\<close>

theorem map_execution_error_categories:
  "fst (map_execution_error e) \<in> set RESPONSE_CATEGORIES - {''ERP_SUCCESS''} \<and>
   map_execution_error (ReadBackMismatch m) = (''ERP_VALIDATION_ERROR'', ''ReadBackMismatch'', 422) \<and>
   map map_execution_error [TypeError, ValueError, KeyError, AttributeError, IndexError, OverflowError, DecimalOverflow] =
     replicate 7 (''UNCERTAIN_RESULT'', ''UNEXPECTED_EXECUTION_ERROR'', 503)"
proof -
  have "map_execution_error (ReadBackMismatch m) = (''ERP_VALIDATION_ERROR'', ''ReadBackMismatch'', 422)"
    by (simp add: map_execution_error_def)
  moreover have "fst (map_execution_error e) \<in> C" if "{''ERP_PERMISSION_ERROR'', ''CONFLICT'', ''UNCERTAIN_RESULT'', ''ERP_VALIDATION_ERROR'', ''ERP_NOT_FOUND''} \<subseteq> C" for C
  proof -
    have branch: "fst (if b then x else y) \<in> C" if "fst x \<in> C" "fst y \<in> C" for b and x y :: "string \<times> string \<times> int"
      using that by simp
    show ?thesis
      unfolding map_execution_error_def using that by (cases e) (simp_all only: pyexc.case Let_def, (intro branch; simp)+)
  qed
  moreover have "{''ERP_PERMISSION_ERROR'', ''CONFLICT'', ''UNCERTAIN_RESULT'', ''ERP_VALIDATION_ERROR'', ''ERP_NOT_FOUND''}
      \<subseteq> set RESPONSE_CATEGORIES - {''ERP_SUCCESS''}" by (simp add: RESPONSE_CATEGORIES_def)
  ultimately have "fst (map_execution_error e) \<in> set RESPONSE_CATEGORIES - {''ERP_SUCCESS''}"
    "map_execution_error (ReadBackMismatch m) = (''ERP_VALIDATION_ERROR'', ''ReadBackMismatch'', 422)"
    by blast+
  moreover have "map map_execution_error [TypeError, ValueError, KeyError, AttributeError, IndexError, OverflowError, DecimalOverflow] =
     replicate 7 (''UNCERTAIN_RESULT'', ''UNEXPECTED_EXECUTION_ERROR'', 503)"
    by (simp add: map_execution_error_def numeral_nat)
  ultimately show ?thesis by blast
qed

end
