(* ===== verification/Agent_Contracts.thy ===== *)
theory Agent_Contracts
  imports Canonical_Json
begin

text \<open>
  The public contracts of the agent runtime, \<open>agent/contracts.py\<close>: the closed set of read tools,
  JSON values, and tool observations bound to the digest of their summary.
  A model class is a record; the constraints and validators it declares are one predicate, since
  the validation library collects every failure into one \<open>ValueError\<close>.
\<close>

section \<open>Values\<close>

definition TOOL_NAMES :: "string list" where
  "TOOL_NAMES = [''item.lookup'', ''supplier.lookup'', ''stock.projected'', ''demand.open'',
     ''material_request.open'', ''purchase_order.open'']"

text \<open>The type \<open>JsonValue\<close> and \<open>_validate_json_value\<close>.\<close>

fun json_typed :: "pyval \<Rightarrow> bool" where
  "json_typed (PDate _ _ _) = False"
| "json_typed (PList xs) = list_all json_typed xs"
| "json_typed (PDict d) = (distinct (map fst d) \<and> list_all (\<lambda>p. json_typed (snd p)) d)"
| "json_typed _ = True"

fun validate_json_value :: "pyval \<Rightarrow> bool" where
  "validate_json_value (PFloat r) = (r \<notin> {''nan'', ''inf'', ''-inf''})"
| "validate_json_value (PList xs) = list_all validate_json_value xs"
| "validate_json_value (PDict d) = list_all (\<lambda>p. validate_json_value (snd p)) d"
| "validate_json_value _ = True"

text \<open>The pattern \<open>^[0-9a-f]{64}$\<close> of digests and evidence references.\<close>

definition sha_DIGEST :: "string \<Rightarrow> bool" where
  "sha_DIGEST s = (length s = 64 \<and> list_all is_lower_hex s)"

text \<open>\<open>canonical_json\<close> of the agent runtime returns the text itself.\<close>

definition agent_canonical_json :: "pyval \<Rightarrow> string result" where
  "agent_canonical_json v = json_dumps v"

definition opt_max :: "nat \<Rightarrow> string option \<Rightarrow> bool" where
  "opt_max n v = (case v of None \<Rightarrow> True | Some s \<Rightarrow> length s \<le> n)"

definition text_between :: "nat \<Rightarrow> nat \<Rightarrow> string \<Rightarrow> bool" where
  "text_between lo hi s = (lo \<le> length s \<and> length s \<le> hi)"

section \<open>Observations\<close>

record Observation =
  ob_step :: int
  ob_tool_name :: string
  ob_ok :: bool
  ob_summary :: string
  ob_digest :: string
  ob_error_code :: "string option"
  ob_retryable :: bool

definition valid_observation :: "pylib \<Rightarrow> Observation \<Rightarrow> bool" where
  "valid_observation lib o' =
     (1 \<le> ob_step o' \<and> ob_step o' \<le> 64 \<and> ob_tool_name o' \<in> set TOOL_NAMES \<and> text_between 1 4000 (ob_summary o') \<and>
      sha_DIGEST (ob_digest o') \<and> opt_max 80 (ob_error_code o') \<and>
      ob_digest o' = sha256_hex lib (utf8_encode (ob_summary o')))"

text \<open>\<open>observation_from_summary\<close>: the digest is computed, so only the other constraints can fail.\<close>

definition observation_from_summary ::
  "pylib \<Rightarrow> int \<Rightarrow> string \<Rightarrow> bool \<Rightarrow> string \<Rightarrow> string option \<Rightarrow> bool \<Rightarrow> Observation result" where
  "observation_from_summary lib step tool ok summary code retryable =
     (let o' = \<lparr>ob_step = step, ob_tool_name = tool, ob_ok = ok, ob_summary = summary,
                ob_digest = sha256_hex lib (utf8_encode summary), ob_error_code = code, ob_retryable = retryable\<rparr>
      in if valid_observation lib o' then Inr o' else Inl ValueError)"

section \<open>Actions\<close>

record AgentAction =
  ac_step :: int
  ac_tool_name :: string
  ac_args :: "(string \<times> pyval) list"
  ac_correlation_id :: string

definition valid_action :: "AgentAction \<Rightarrow> bool" where
  "valid_action a = (1 \<le> ac_step a \<and> ac_step a \<le> 64 \<and> ac_tool_name a \<in> set TOOL_NAMES \<and>
     json_typed (PDict (ac_args a)) \<and> validate_json_value (PDict (ac_args a)) \<and> is_ok (json_dumps (PDict (ac_args a))) \<and>
     uuid_shape (ac_correlation_id a))"

text \<open>The key under which a repeated call is recognised.\<close>

definition call_key :: "AgentAction \<Rightarrow> string result" where
  "call_key a = agent_canonical_json (PDict [(''tool_name'', PStr (ac_tool_name a)), (''args'', PDict (ac_args a))])"

end
