(* ===== verification/Workflow_Contracts.thy ===== *)
theory Workflow_Contracts
  imports Agent_Contracts
begin

text \<open>
  The data model of durable workflows, \<open>workflow/contracts.py\<close> of the agent runtime: plan steps,
  clarification requests, governed-action intents and the checkpointed workflow state, with the
  constraints and validators their classes declare, the plan check \<open>validate_plan_dag\<close>, and the
  two directions of the wire format (\<open>model_dump(mode="json")\<close> and strict JSON validation).

  A model class is a record.  Its field constraints and validators are one predicate:
  \<open>*_shape\<close> for what the class itself checks, \<open>valid_*\<close> with the nested models added.
  The validation library collects every failure into one \<open>ValueError\<close>, so the order of the
  checks is not observable.  A frozen model is only changed by \<open>model_copy\<close>, which does not
  validate: it is a record update.  A UUID is its canonical text, an instant is a number of
  microseconds, and \<open>schema_version\<close>, which can only be \<open>"1"\<close>, appears in the wire format only.
\<close>

section \<open>Services taken as parameters\<close>

text \<open>
  \<open>iso_parse\<close> is \<open>datetime.fromisoformat\<close> (\<^const>\<open>None\<close> where it raises \<open>ValueError\<close>), \<open>iso_format\<close>
  renders an instant in UTC with milliseconds, \<open>uuid_text\<close> reads the UUIDs the validation library
  accepts and \<open>uuid_url\<close> is \<open>uuid5(NAMESPACE_URL, name)\<close>.
\<close>

datatype iso_time = Naive | Instant int

record wflib =
  wf_py :: pylib
  iso_parse :: "string \<Rightarrow> iso_time option"
  iso_format :: "int \<Rightarrow> string"
  uuid_text :: "string \<Rightarrow> string option"
  uuid_url :: "string \<Rightarrow> string"

section \<open>Models\<close>

definition WORKFLOW_STATUSES :: "string list" where
  "WORKFLOW_STATUSES = [''READY'', ''RUNNING'', ''INTERRUPTED'', ''SUCCEEDED'', ''FAILED'', ''CANCELLED'', ''EXPIRED'']"

definition STEP_STATUSES :: "string list" where
  "STEP_STATUSES = [''PENDING'', ''READY'', ''RUNNING'', ''WAITING'', ''SUCCEEDED'', ''FAILED'', ''SKIPPED'', ''CANCELLED'']"

definition REPLAN_REASONS :: "string list" where
  "REPLAN_REASONS = [''INPUT_CLARIFIED'', ''TOOL_ERROR'', ''OBSERVATION_CONFLICT'', ''STATE_DRIFT'', ''NO_PROGRESS'']"

definition STEP_TYPES :: "string list" where
  "STEP_TYPES = [''TOOL'', ''CLARIFICATION'', ''GOVERNED_ACTION'', ''FINALIZE'']"

definition ANSWER_TYPES :: "string list" where
  "ANSWER_TYPES = [''TEXT'', ''CHOICE'', ''BOOLEAN'', ''NUMBER'']"

text \<open>The pattern \<open>^[a-z][a-z0-9_-]{0,63}$\<close>, and a digest that may be absent.\<close>

definition is_lower_ascii :: "char \<Rightarrow> bool" where
  "is_lower_ascii c = (let n = of_char c :: nat in 97 \<le> n \<and> n \<le> 122)"

definition STEP_ID :: "string \<Rightarrow> bool" where
  "STEP_ID s = (s \<noteq> [] \<and> length s \<le> 64 \<and> is_lower_ascii (hd s) \<and>
     list_all (\<lambda>c. is_lower_ascii c \<or> is_digit c \<or> c = CHR ''_'' \<or> c = CHR ''-'') (tl s))"

definition check_digest :: "string option \<Rightarrow> bool" where
  "check_digest v = (case v of None \<Rightarrow> True | Some s \<Rightarrow> sha_DIGEST s)"

definition check_json_mapping :: "(string \<times> pyval) list \<Rightarrow> bool" where
  "check_json_mapping d =
     (json_typed (PDict d) \<and> validate_json_value (PDict d) \<and> is_ok (json_dumps (PDict d)))"

record WorkflowBudget =
  wb_max_steps :: int
  wb_max_elapsed_ms :: int
  wb_max_observation_bytes :: int

definition default_budget :: WorkflowBudget where
  "default_budget = \<lparr>wb_max_steps = 64, wb_max_elapsed_ms = 300000, wb_max_observation_bytes = 4000\<rparr>"

definition valid_budget :: "WorkflowBudget \<Rightarrow> bool" where
  "valid_budget b = (1 \<le> wb_max_steps b \<and> wb_max_steps b \<le> 256 \<and>
     1000 \<le> wb_max_elapsed_ms b \<and> wb_max_elapsed_ms b \<le> 3600000 \<and>
     128 \<le> wb_max_observation_bytes b \<and> wb_max_observation_bytes b \<le> 32000)"

record ClarificationRequest =
  cr_interrupt_id :: string
  cr_question :: string
  cr_answer_type :: string
  cr_answer_max_length :: int
  cr_choices :: "string list"

definition reject_control_text :: "string \<Rightarrow> bool" where
  "reject_control_text s = list_all (\<lambda>c. \<not> ((of_char c :: nat) < 32 \<and> c \<notin> {CHR 10, CHR 9})) s"

definition validate_choices :: "string list \<Rightarrow> bool" where
  "validate_choices cs = (distinct cs \<and> list_all (\<lambda>c. py_strip c \<noteq> [] \<and> length c \<le> 200) cs)"

definition validate_answer_shape :: "ClarificationRequest \<Rightarrow> bool" where
  "validate_answer_shape c = (if cr_answer_type c = ''CHOICE'' then cr_choices c \<noteq> [] else cr_choices c = [])"

definition valid_clarification :: "ClarificationRequest \<Rightarrow> bool" where
  "valid_clarification c =
     (uuid_shape (cr_interrupt_id c) \<and> 1 \<le> length (cr_question c) \<and> length (cr_question c) \<le> 1000 \<and>
      reject_control_text (cr_question c) \<and> cr_answer_type c \<in> set ANSWER_TYPES \<and>
      1 \<le> cr_answer_max_length c \<and> cr_answer_max_length c \<le> 4000 \<and>
      length (cr_choices c) \<le> 32 \<and> validate_choices (cr_choices c) \<and> validate_answer_shape c)"

record GovernedActionIntent =
  ga_run_id :: string
  ga_goal_version :: int
  ga_run_version :: int
  ga_action_type :: string
  ga_source_doctype :: string
  ga_source_name :: string
  ga_items :: "(string \<times> pyval) list list"
  ga_payment :: "(string \<times> pyval) list option"
  ga_reason :: string

definition valid_intent :: "GovernedActionIntent \<Rightarrow> bool" where
  "valid_intent g =
     (uuid_shape (ga_run_id g) \<and> 0 \<le> ga_goal_version g \<and> ga_goal_version g \<le> 1000000 \<and>
      0 \<le> ga_run_version g \<and> ga_run_version g \<le> 1000000 \<and>
      text_between 1 80 (ga_action_type g) \<and> text_between 1 80 (ga_source_doctype g) \<and>
      text_between 1 140 (ga_source_name g) \<and> length (ga_items g) \<le> 100 \<and>
      list_all check_json_mapping (ga_items g) \<and>
      (case ga_payment g of None \<Rightarrow> True | Some p \<Rightarrow> check_json_mapping p) \<and> text_between 1 500 (ga_reason g))"

record PlanStep =
  ps_step_id :: string
  ps_order :: int
  ps_type :: string
  ps_depends_on :: "string list"
  ps_allowed_tools :: "string list"
  ps_tool_name :: "string option"
  ps_clarification :: "ClarificationRequest option"
  ps_governed_action :: "GovernedActionIntent option"
  ps_parameters :: "(string \<times> pyval) list"
  ps_status :: string
  ps_observation_digest :: "string option"
  ps_error :: "string option"
  ps_completed_at :: "string option"

definition validate_dependencies :: "string list \<Rightarrow> bool" where
  "validate_dependencies ds = (distinct ds \<and> list_all STEP_ID ds)"

text \<open>\<open>validate_tool_shape\<close>: what each type of step declares, and what each outcome carries.\<close>

definition declared_contract :: "PlanStep \<Rightarrow> bool" where
  "declared_contract s =
     (if ps_type s = ''TOOL'' then
        (case ps_tool_name s of None \<Rightarrow> False | Some t \<Rightarrow> t \<in> set (ps_allowed_tools s)) \<and>
        ps_clarification s = None \<and> ps_governed_action s = None
      else if ps_type s = ''CLARIFICATION'' then
        ps_clarification s \<noteq> None \<and> ps_tool_name s = None \<and> ps_allowed_tools s = [] \<and> ps_governed_action s = None
      else if ps_type s = ''GOVERNED_ACTION'' then
        ps_governed_action s \<noteq> None \<and> ps_tool_name s = None \<and> ps_allowed_tools s = [] \<and> ps_clarification s = None
      else ps_tool_name s = None \<and> ps_allowed_tools s = [] \<and> ps_clarification s = None \<and> ps_governed_action s = None)"

definition status_evidence :: "PlanStep \<Rightarrow> bool" where
  "status_evidence s =
     ((ps_status s = ''SUCCEEDED'' \<longrightarrow> ps_observation_digest s \<noteq> None \<and> ps_completed_at s \<noteq> None) \<and>
      (ps_status s \<in> {''FAILED'', ''CANCELLED''} \<longrightarrow> (case ps_error s of None \<Rightarrow> False | Some e \<Rightarrow> e \<noteq> [])))"

definition validate_tool_shape :: "PlanStep \<Rightarrow> bool" where
  "validate_tool_shape s = (declared_contract s \<and> status_evidence s)"

definition step_shape :: "PlanStep \<Rightarrow> bool" where
  "step_shape s =
     (STEP_ID (ps_step_id s) \<and> 1 \<le> ps_order s \<and> ps_order s \<le> 256 \<and> ps_type s \<in> set STEP_TYPES \<and>
      length (ps_depends_on s) \<le> 32 \<and> validate_dependencies (ps_depends_on s) \<and>
      length (ps_allowed_tools s) \<le> 6 \<and> set (ps_allowed_tools s) \<subseteq> set TOOL_NAMES \<and>
      (case ps_tool_name s of None \<Rightarrow> True | Some t \<Rightarrow> t \<in> set TOOL_NAMES) \<and>
      check_json_mapping (ps_parameters s) \<and> ps_status s \<in> set STEP_STATUSES \<and>
      check_digest (ps_observation_digest s) \<and> opt_max 500 (ps_error s) \<and> opt_max 64 (ps_completed_at s) \<and>
      validate_tool_shape s)"

definition valid_step :: "PlanStep \<Rightarrow> bool" where
  "valid_step s = (step_shape s \<and>
     (case ps_clarification s of None \<Rightarrow> True | Some c \<Rightarrow> valid_clarification c) \<and>
     (case ps_governed_action s of None \<Rightarrow> True | Some g \<Rightarrow> valid_intent g))"

record WorkflowState =
  ws_run_id :: string
  ws_revision :: int
  ws_plan_version :: int
  ws_graph_version :: string
  ws_status :: string
  ws_current :: "string option"
  ws_steps :: "PlanStep list"
  ws_clarification :: "ClarificationRequest option"
  ws_replan_reason :: "string option"
  ws_budget :: WorkflowBudget
  ws_deadline :: string
  ws_trace_id :: string
  ws_stop_reason :: "string option"
  ws_crash_recovered :: bool

section \<open>The plan check\<close>

text \<open>
  The depth-first search of \<open>validate_plan_dag\<close>.  \<open>visiting\<close> is restored when a call returns, so
  only \<open>visited\<close> is threaded through; \<open>graph\<close> is the dictionary from step to dependencies, and a
  key outside it is a \<open>KeyError\<close>.  The dependencies are a set in the source: the result is
  shown below not to depend on the order in which they are tried.
\<close>

type_synonym dep_graph = "(string \<times> string list) list"

text \<open>Each level of recursion adds a step of the graph to \<open>visiting\<close>.\<close>

definition unvisited :: "dep_graph \<Rightarrow> string set \<Rightarrow> nat" where
  "unvisited graph visiting = card (fst ` set graph - visiting)"

lemma unvisited_insert:
  assumes "map_of graph s = Some ds" and "s \<notin> visiting"
  shows "unvisited graph (insert s visiting) < unvisited graph visiting"
proof -
  have "s \<in> fst ` set graph" using assms(1) by (force dest: map_of_SomeD)
  then show ?thesis
    unfolding unvisited_def using assms(2) by (intro psubset_card_mono) auto
qed

function (sequential) visit :: "dep_graph \<Rightarrow> string set \<Rightarrow> string set \<Rightarrow> string \<Rightarrow> string set result"
and visit_each :: "dep_graph \<Rightarrow> string set \<Rightarrow> string set \<Rightarrow> string list \<Rightarrow> string set result" where
  "visit graph visiting visited s =
     (if s \<in> visiting then Inl ValueError
      else if s \<in> visited then Inr visited
      else (case map_of graph s of
              None \<Rightarrow> Inl KeyError
            | Some ds \<Rightarrow> rbind (visit_each graph (insert s visiting) visited ds) (\<lambda>v. Inr (insert s v))))"
| "visit_each graph visiting visited [] = Inr visited"
| "visit_each graph visiting visited (d # ds) =
     (case visit graph visiting visited d of
        Inl e \<Rightarrow> Inl e
      | Inr v \<Rightarrow> visit_each graph visiting v ds)"
  by pat_completeness auto

termination
  by (relation "measures [\<lambda>x. case x of Inl (g, i, _, _) \<Rightarrow> unvisited g i | Inr (g, i, _, _) \<Rightarrow> unvisited g i,
        \<lambda>x. case x of Inl _ \<Rightarrow> 0 | Inr (_, _, _, ds) \<Rightarrow> Suc (length ds)]")
    (auto simp: unvisited_insert)

declare visit.simps [simp del]

definition step_graph :: "PlanStep list \<Rightarrow> dep_graph" where
  "step_graph steps = map (\<lambda>s. (ps_step_id s, ps_depends_on s)) steps"

definition validate_plan_dag :: "PlanStep list \<Rightarrow> unit result" where
  "validate_plan_dag steps =
     (let ids = map ps_step_id steps in
      if \<not> distinct ids then Inl ValueError
      else if map ps_order steps \<noteq> map int [1..<length steps + 1] then Inl ValueError
      else if list_ex (\<lambda>s. list_ex (\<lambda>d. d \<notin> set ids) (ps_depends_on s)) steps then Inl ValueError
      else rbind (visit_each (step_graph steps) {} {} ids) (\<lambda>_. Inr ()))"

section \<open>The workflow state\<close>

definition parse_deadline :: "wflib \<Rightarrow> string \<Rightarrow> int result" where
  "parse_deadline lib value =
     (case iso_parse lib (replace_all ''Z'' ''+00:00'' value) of
        None \<Rightarrow> Inl ValueError
      | Some Naive \<Rightarrow> Inl ValueError
      | Some (Instant t) \<Rightarrow> Inr t)"

definition TERMINAL :: "string list" where
  "TERMINAL = [''SUCCEEDED'', ''FAILED'', ''CANCELLED'', ''EXPIRED'']"

definition validate_state_shape :: "WorkflowState \<Rightarrow> bool" where
  "validate_state_shape s =
     ((if ws_status s = ''INTERRUPTED'' then ws_clarification s \<noteq> None \<and> ws_current s \<noteq> None
       else ws_clarification s = None) \<and>
      (case ws_current s of None \<Rightarrow> True | Some i \<Rightarrow> i \<in> set (map ps_step_id (ws_steps s))) \<and>
      (ws_status s \<in> set TERMINAL \<longrightarrow> (case ws_stop_reason s of None \<Rightarrow> False | Some r \<Rightarrow> r \<noteq> [])))"

definition state_shape :: "wflib \<Rightarrow> WorkflowState \<Rightarrow> bool" where
  "state_shape lib s =
     (uuid_shape (ws_run_id s) \<and> 0 \<le> ws_revision s \<and> 1 \<le> ws_plan_version s \<and> ws_plan_version s \<le> 10000 \<and>
      text_between 1 80 (ws_graph_version s) \<and> ws_status s \<in> set WORKFLOW_STATUSES \<and>
      1 \<le> length (ws_steps s) \<and> length (ws_steps s) \<le> 256 \<and> is_ok (validate_plan_dag (ws_steps s)) \<and>
      (case ws_replan_reason s of None \<Rightarrow> True | Some r \<Rightarrow> r \<in> set REPLAN_REASONS) \<and>
      text_between 1 64 (ws_deadline s) \<and> is_ok (parse_deadline lib (ws_deadline s)) \<and> uuid_shape (ws_trace_id s) \<and>
      opt_max 500 (ws_stop_reason s) \<and> validate_state_shape s)"

definition valid_state :: "wflib \<Rightarrow> WorkflowState \<Rightarrow> bool" where
  "valid_state lib s = (state_shape lib s \<and> list_all valid_step (ws_steps s) \<and> valid_budget (ws_budget s) \<and>
     (case ws_clarification s of None \<Rightarrow> True | Some c \<Rightarrow> valid_clarification c))"

text \<open>Construction of a state from Python values: nested models are taken as they are.\<close>

definition make_state :: "wflib \<Rightarrow> WorkflowState \<Rightarrow> WorkflowState result" where
  "make_state lib s = (if state_shape lib s then Inr s else Inl ValueError)"

record WorkflowResult =
  wr_state :: WorkflowState
  wr_observations :: "string list"
  wr_resumed :: bool

section \<open>Equality of steps\<close>

text \<open>\<open>==\<close> on models compares field by field, and dictionaries without regard to order.\<close>

definition intent_eq :: "GovernedActionIntent \<Rightarrow> GovernedActionIntent \<Rightarrow> bool" where
  "intent_eq a b =
     (a\<lparr>ga_items := [], ga_payment := None\<rparr> = b\<lparr>ga_items := [], ga_payment := None\<rparr> \<and>
      py_eq (PList (map PDict (ga_items a))) (PList (map PDict (ga_items b))) \<and>
      (case (ga_payment a, ga_payment b) of
         (None, None) \<Rightarrow> True | (Some p, Some q) \<Rightarrow> py_eq (PDict p) (PDict q) | _ \<Rightarrow> False))"

definition step_eq :: "PlanStep \<Rightarrow> PlanStep \<Rightarrow> bool" where
  "step_eq a b =
     (a\<lparr>ps_parameters := [], ps_governed_action := None\<rparr> = b\<lparr>ps_parameters := [], ps_governed_action := None\<rparr> \<and>
      py_eq (PDict (ps_parameters a)) (PDict (ps_parameters b)) \<and>
      (case (ps_governed_action a, ps_governed_action b) of
         (None, None) \<Rightarrow> True | (Some g, Some h) \<Rightarrow> intent_eq g h | _ \<Rightarrow> False))"

section \<open>Facts about the plan check\<close>

text \<open>The dependency relation of a graph: a step to what it depends on.\<close>

definition dep_rel :: "dep_graph \<Rightarrow> (string \<times> string) set" where
  "dep_rel graph = {(s, d). \<exists>ds. map_of graph s = Some ds \<and> d \<in> set ds}"

lemma dep_rel_iff: "map_of graph s = Some ds \<Longrightarrow> (s, d) \<in> dep_rel graph \<longleftrightarrow> d \<in> set ds"
  by (simp add: dep_rel_def)

text \<open>An error is the report of a true cycle, or of a step outside the graph.\<close>

lemma visit_error:
  "visit g visiting visited s = Inl e \<Longrightarrow> \<forall>v \<in> visiting. (v, s) \<in> (dep_rel g)\<^sup>+ \<Longrightarrow>
     fst ` dep_rel g \<union> snd ` dep_rel g \<subseteq> fst ` set g \<Longrightarrow> s \<in> fst ` set g \<Longrightarrow>
     e = ValueError \<and> (\<exists>c. (c, c) \<in> (dep_rel g)\<^sup>+)"
  "visit_each g visiting visited ds = Inl e \<Longrightarrow> \<forall>v \<in> visiting. \<forall>d \<in> set ds. (v, d) \<in> (dep_rel g)\<^sup>+ \<Longrightarrow>
     fst ` dep_rel g \<union> snd ` dep_rel g \<subseteq> fst ` set g \<Longrightarrow> set ds \<subseteq> fst ` set g \<Longrightarrow>
     e = ValueError \<and> (\<exists>c. (c, c) \<in> (dep_rel g)\<^sup>+)"
proof (induction g visiting visited s and g visiting visited ds arbitrary: e and e rule: visit_visit_each.induct)
  case (1 graph visiting visited s)
  show ?case
  proof (cases "s \<in> visiting")
    case True
    with 1(2,3) show ?thesis by (auto simp: visit.simps [of graph])
  next
    case False
    from 1(5) obtain ds where ds: "map_of graph s = Some ds"
      by (metis map_of_eq_None_iff option.exhaust)
    from 1(2) False ds have notin: "s \<notin> visited"
      and err: "visit_each graph (insert s visiting) visited ds = Inl e"
      by (auto simp: visit.simps [of graph] result_simps split: if_splits)
    have step: "(s, d) \<in> dep_rel graph" if "d \<in> set ds" for d using that ds by (simp add: dep_rel_iff)
    have "\<forall>v \<in> insert s visiting. \<forall>d \<in> set ds. (v, d) \<in> (dep_rel graph)\<^sup>+"
      using 1(3) step by (auto intro: trancl_into_trancl)
    moreover have "set ds \<subseteq> fst ` set graph" using 1(4) step by (force simp: image_iff)
    ultimately show ?thesis using 1(1) [OF False notin ds err _ 1(4)] by blast
  qed
next
  case (2 graph visiting visited)
  then show ?case by simp
next
  case (3 graph visiting visited d ds)
  show ?case
  proof (cases "visit graph visiting visited d")
    case (Inl e')
    with 3(3-6) show ?thesis using 3(1) [of e'] by simp
  next
    case (Inr v)
    with 3(3-6) show ?thesis using 3(2) [of v e] by simp
  qed
qed

text \<open>A set of steps closed under dependencies with no step on a cycle.\<close>

definition settled :: "dep_graph \<Rightarrow> string set \<Rightarrow> bool" where
  "settled g V = ((\<forall>v \<in> V. \<forall>d. (v, d) \<in> dep_rel g \<longrightarrow> d \<in> V) \<and> (\<forall>v \<in> V. (v, v) \<notin> (dep_rel g)\<^sup>+))"

lemma settled_trancl:
  assumes "settled g V" and "(v, w) \<in> (dep_rel g)\<^sup>+" and "v \<in> V"
  shows "w \<in> V"
  using assms(2,3) by (induction rule: trancl.induct) (use assms(1) in \<open>auto simp: settled_def\<close>)

lemma settled_insert:
  assumes "settled g V" and "\<forall>d. (s, d) \<in> dep_rel g \<longrightarrow> d \<in> V"
  shows "settled g (insert s V)"
proof -
  have "(s, s) \<notin> (dep_rel g)\<^sup>+"
  proof
    assume c: "(s, s) \<in> (dep_rel g)\<^sup>+"
    then obtain d where d: "(s, d) \<in> dep_rel g" "(d, s) \<in> (dep_rel g)\<^sup>*" by (meson tranclD)
    with assms(2) have "d \<in> V" by blast
    with d(2) have "s \<in> V"
      using settled_trancl [OF assms(1)] by (auto simp: rtrancl_eq_or_trancl)
    with c assms(1) show False by (auto simp: settled_def)
  qed
  with assms show ?thesis by (auto simp: settled_def)
qed

lemma visit_settled:
  "visit g visiting visited s = Inr V \<Longrightarrow> settled g visited \<Longrightarrow> settled g V \<and> visited \<subseteq> V \<and> s \<in> V"
  "visit_each g visiting visited ds = Inr V \<Longrightarrow> settled g visited \<Longrightarrow> settled g V \<and> visited \<subseteq> V \<and> set ds \<subseteq> V"
proof (induction g visiting visited s and g visiting visited ds arbitrary: V and V rule: visit_visit_each.induct)
  case (1 graph visiting visited s)
  then show ?case
  proof (cases "s \<in> visited")
    case True
    with 1(2,3) show ?thesis by (auto simp: visit.simps [of graph] split: if_splits)
  next
    case False
    with 1(2) obtain ds W where ds: "s \<notin> visiting" "map_of graph s = Some ds"
      "visit_each graph (insert s visiting) visited ds = Inr W" "V = insert s W"
      by (auto simp: visit.simps [of graph] result_simps split: if_splits option.splits)
    with 1(1) [OF ds(1) False ds(2,3) 1(3)] show ?thesis
      using settled_insert [of graph W s] by (auto simp: dep_rel_iff)
  qed
next
  case (2 graph visiting visited)
  then show ?case by simp
next
  case (3 graph visiting visited d ds)
  then obtain v where v: "visit graph visiting visited d = Inr v" "visit_each graph visiting v ds = Inr V"
    by (auto split: sum.splits)
  with 3(1) [OF v(1) 3(4)] 3(2) [OF v(1) v(2)] show ?case by auto
qed

text \<open>The relation of the steps of a plan.\<close>

definition plan_rel :: "PlanStep list \<Rightarrow> (string \<times> string) set" where
  "plan_rel steps = {(ps_step_id s, d) | s d. s \<in> set steps \<and> d \<in> set (ps_depends_on s)}"

lemma plan_rel_UN: "plan_rel steps = (\<Union>x \<in> set steps. {ps_step_id x} \<times> set (ps_depends_on x))"
  by (auto simp: plan_rel_def)

lemma dep_rel_step_graph:
  assumes "distinct (map ps_step_id steps)"
  shows "dep_rel (step_graph steps) = plan_rel steps"
proof -
  have "map_of (step_graph steps) i = Some ds \<longleftrightarrow> (\<exists>s \<in> set steps. ps_step_id s = i \<and> ps_depends_on s = ds)" for i ds
    using assms by (auto simp: step_graph_def map_of_eq_Some_iff comp_def image_iff)
  then show ?thesis by (fastforce simp: dep_rel_def plan_rel_def)
qed

lemma fst_step_graph: "fst ` set (step_graph steps) = set (map ps_step_id steps)"
  by (force simp: step_graph_def)

lemma visit_each_plan:
  assumes dis: "distinct (map ps_step_id steps)"
    and known: "\<forall>s \<in> set steps. set (ps_depends_on s) \<subseteq> set (map ps_step_id steps)"
  shows "is_ok (visit_each (step_graph steps) {} {} (map ps_step_id steps)) \<longleftrightarrow> acyclic (plan_rel steps)"
proof (cases "visit_each (step_graph steps) {} {} (map ps_step_id steps)")
  case (Inl e)
  have "fst ` dep_rel (step_graph steps) \<union> snd ` dep_rel (step_graph steps) \<subseteq> fst ` set (step_graph steps)"
    using known by (force simp: dep_rel_step_graph [OF dis] fst_step_graph plan_rel_def)
  from visit_error(2) [OF Inl _ this] have "\<not> acyclic (plan_rel steps)"
    by (auto simp: fst_step_graph dep_rel_step_graph [OF dis] acyclic_def)
  with Inl show ?thesis by simp
next
  case (Inr V)
  from visit_settled(2) [OF Inr] have V: "settled (step_graph steps) V" "set (map ps_step_id steps) \<subseteq> V"
    by (auto simp: settled_def)
  have "acyclic (plan_rel steps)"
  proof (rule acyclicI, intro allI notI)
    fix x assume c: "(x, x) \<in> (plan_rel steps)\<^sup>+"
    then have "x \<in> set (map ps_step_id steps)" by (auto dest!: tranclD simp: plan_rel_def)
    with c V show False by (auto simp: settled_def dep_rel_step_graph [OF dis])
  qed
  with Inr show ?thesis by simp
qed

definition plan_ok :: "PlanStep list \<Rightarrow> bool" where
  "plan_ok steps = (distinct (map ps_step_id steps) \<and> map ps_order steps = map int [1..<length steps + 1] \<and>
     (\<forall>s \<in> set steps. set (ps_depends_on s) \<subseteq> set (map ps_step_id steps)) \<and> acyclic (plan_rel steps))"

lemma validate_plan_dag_iff: "validate_plan_dag steps = Inr () \<longleftrightarrow> plan_ok steps"
proof -
  have "list_ex (\<lambda>s. list_ex (\<lambda>d. d \<notin> set (map ps_step_id steps)) (ps_depends_on s)) steps \<longleftrightarrow>
      \<not> (\<forall>s \<in> set steps. set (ps_depends_on s) \<subseteq> set (map ps_step_id steps))"
    by (auto simp: list_ex_iff)
  moreover have "rbind m (\<lambda>_. Inr ()) = Inr () \<longleftrightarrow> is_ok m" for m :: "string set result"
    by (cases m) simp_all
  ultimately show ?thesis
    unfolding validate_plan_dag_def plan_ok_def Let_def using visit_each_plan [of steps] by auto
qed

lemma is_ok_validate_plan_dag [simp]: "is_ok (validate_plan_dag steps) = plan_ok steps"
  using validate_plan_dag_iff [of steps] by (cases "validate_plan_dag steps") auto

lemma validate_plan_dag_error:
  assumes "validate_plan_dag steps = Inl e"
  shows "e = ValueError"
proof (cases "distinct (map ps_step_id steps) \<and>
    \<not> list_ex (\<lambda>s. list_ex (\<lambda>d. d \<notin> set (map ps_step_id steps)) (ps_depends_on s)) steps")
  case True
  then have "fst ` dep_rel (step_graph steps) \<union> snd ` dep_rel (step_graph steps) \<subseteq> fst ` set (step_graph steps)"
    by (force simp: dep_rel_step_graph fst_step_graph plan_rel_def list_ex_iff)
  with True assms visit_error(2) [of "step_graph steps" "{}" "{}" "map ps_step_id steps" e] show ?thesis
    by (auto simp: validate_plan_dag_def Let_def result_simps fst_step_graph split: if_splits)
next
  case False
  with assms show ?thesis by (auto simp: validate_plan_dag_def Let_def split: if_splits)
qed

section \<open>Properties\<close>

text \<open>
  C29: the plan check decides exactly the intended condition, and terminates on every plan: it accepts
  when step ids are unique, orders count from one, every dependency is a step of the plan and
  the dependency relation has no cycle, and raises \<open>ValueError\<close> otherwise.
\<close>

theorem validate_plan_dag_decides:
  "validate_plan_dag steps =
     (if distinct (map ps_step_id steps) \<and> map ps_order steps = map int [1..<length steps + 1] \<and>
         \<Union> (set ` ps_depends_on ` set steps) \<subseteq> ps_step_id ` set steps \<and>
         acyclic {(ps_step_id s, d) | s d. s \<in> set steps \<and> d \<in> set (ps_depends_on s)}
      then Inr () else Inl ValueError)"
proof -
  have "(distinct (map ps_step_id steps) \<and> map ps_order steps = map int [1..<length steps + 1] \<and>
         \<Union> (set ` ps_depends_on ` set steps) \<subseteq> ps_step_id ` set steps \<and>
         acyclic {(ps_step_id s, d) | s d. s \<in> set steps \<and> d \<in> set (ps_depends_on s)}) \<longleftrightarrow> plan_ok steps"
    unfolding plan_ok_def plan_rel_def by auto
  then show ?thesis
    using validate_plan_dag_iff [of steps] validate_plan_dag_error [of steps]
    by (cases "validate_plan_dag steps") auto
qed

end
