(* ===== verification/Workflow_Wire.thy ===== *)
theory Workflow_Wire
  imports Workflow_Contracts
begin

text \<open>
  The JSON form of the workflow models: \<open>model_dump(mode="json")\<close> writes every field, and
  \<open>model_validate_json\<close> reads it back in strict mode, with no unknown field, no conversion
  between types, the declared defaults for absent fields, and every constraint and validator checked.
\<close>

section \<open>Writing\<close>

definition dump_opt :: "('a \<Rightarrow> pyval) \<Rightarrow> 'a option \<Rightarrow> pyval" where
  "dump_opt f v = (case v of None \<Rightarrow> PNone | Some x \<Rightarrow> f x)"

definition dump_texts :: "string list \<Rightarrow> pyval" where
  "dump_texts xs = PList (map PStr xs)"

definition clarification_fields :: "ClarificationRequest \<Rightarrow> (string \<times> pyval) list" where
  "clarification_fields c =
     [(''schema_version'', PStr ''1''), (''interrupt_id'', PStr (cr_interrupt_id c)), (''question'', PStr (cr_question c)),
      (''answer_type'', PStr (cr_answer_type c)), (''answer_max_length'', PInt (cr_answer_max_length c)),
      (''choices'', dump_texts (cr_choices c))]"

definition intent_fields :: "GovernedActionIntent \<Rightarrow> (string \<times> pyval) list" where
  "intent_fields g =
     [(''schema_version'', PStr ''1''), (''run_id'', PStr (ga_run_id g)), (''goal_version'', PInt (ga_goal_version g)),
      (''run_version'', PInt (ga_run_version g)), (''action_type'', PStr (ga_action_type g)),
      (''source_doctype'', PStr (ga_source_doctype g)), (''source_name'', PStr (ga_source_name g)),
      (''items'', PList (map PDict (ga_items g))), (''payment'', dump_opt PDict (ga_payment g)), (''reason'', PStr (ga_reason g))]"

definition step_fields :: "PlanStep \<Rightarrow> (string \<times> pyval) list" where
  "step_fields s =
     [(''schema_version'', PStr ''1''), (''step_id'', PStr (ps_step_id s)), (''order'', PInt (ps_order s)),
      (''type'', PStr (ps_type s)), (''depends_on'', dump_texts (ps_depends_on s)),
      (''allowed_tools'', dump_texts (ps_allowed_tools s)), (''tool_name'', dump_opt PStr (ps_tool_name s)),
      (''clarification'', dump_opt (\<lambda>c. PDict (clarification_fields c)) (ps_clarification s)),
      (''governed_action'', dump_opt (\<lambda>g. PDict (intent_fields g)) (ps_governed_action s)),
      (''parameters'', PDict (ps_parameters s)), (''status'', PStr (ps_status s)),
      (''observation_digest'', dump_opt PStr (ps_observation_digest s)), (''error'', dump_opt PStr (ps_error s)),
      (''completed_at'', dump_opt PStr (ps_completed_at s))]"

definition budget_fields :: "WorkflowBudget \<Rightarrow> (string \<times> pyval) list" where
  "budget_fields b = [(''max_steps'', PInt (wb_max_steps b)), (''max_elapsed_ms'', PInt (wb_max_elapsed_ms b)),
     (''max_observation_bytes'', PInt (wb_max_observation_bytes b))]"

definition state_fields :: "WorkflowState \<Rightarrow> (string \<times> pyval) list" where
  "state_fields s =
     [(''schema_version'', PStr ''1''), (''run_id'', PStr (ws_run_id s)), (''revision'', PInt (ws_revision s)),
      (''plan_version'', PInt (ws_plan_version s)), (''graph_version'', PStr (ws_graph_version s)),
      (''status'', PStr (ws_status s)), (''current_step_id'', dump_opt PStr (ws_current s)),
      (''steps'', PList (map (\<lambda>x. PDict (step_fields x)) (ws_steps s))),
      (''clarification'', dump_opt (\<lambda>c. PDict (clarification_fields c)) (ws_clarification s)),
      (''replan_reason'', dump_opt PStr (ws_replan_reason s)), (''budget'', PDict (budget_fields (ws_budget s))),
      (''deadline'', PStr (ws_deadline s)), (''trace_id'', PStr (ws_trace_id s)),
      (''stop_reason'', dump_opt PStr (ws_stop_reason s)), (''crash_recovered'', PBool (ws_crash_recovered s))]"

definition state_dump :: "WorkflowState \<Rightarrow> pyval" where
  "state_dump s = PDict (state_fields s)"

section \<open>Reading\<close>

definition j_text :: "pyval \<Rightarrow> string result" where
  "j_text v = (case v of PStr s \<Rightarrow> Inr s | _ \<Rightarrow> Inl ValueError)"

definition j_int :: "pyval \<Rightarrow> int result" where
  "j_int v = (case v of PInt i \<Rightarrow> Inr i | _ \<Rightarrow> Inl ValueError)"

definition j_bool :: "pyval \<Rightarrow> bool result" where
  "j_bool v = (case v of PBool b \<Rightarrow> Inr b | _ \<Rightarrow> Inl ValueError)"

definition j_uuid :: "wflib \<Rightarrow> pyval \<Rightarrow> string result" where
  "j_uuid lib v = (case v of PStr t \<Rightarrow> (case uuid_text lib t of None \<Rightarrow> Inl ValueError | Some u \<Rightarrow> Inr u) | _ \<Rightarrow> Inl ValueError)"

definition j_opt :: "(pyval \<Rightarrow> 'a result) \<Rightarrow> pyval \<Rightarrow> 'a option result" where
  "j_opt f v = (if v = PNone then Inr None else rbind (f v) (\<lambda>x. Inr (Some x)))"

definition j_list :: "(pyval \<Rightarrow> 'a result) \<Rightarrow> pyval \<Rightarrow> 'a list result" where
  "j_list f v = (case v of PList xs \<Rightarrow> rmap f xs | _ \<Rightarrow> Inl ValueError)"

definition j_dict :: "pyval \<Rightarrow> (string \<times> pyval) list result" where
  "j_dict v = (case v of PDict d \<Rightarrow> Inr d | _ \<Rightarrow> Inl ValueError)"

text \<open>\<open>extra="forbid"\<close>, a required field and a field with a default.\<close>

definition j_object :: "string list \<Rightarrow> pyval \<Rightarrow> (string \<times> pyval) list result" where
  "j_object known v = (case v of PDict d \<Rightarrow> if set (dkeys d) \<subseteq> set known then Inr d else Inl ValueError | _ \<Rightarrow> Inl ValueError)"

definition j_req :: "(string \<times> pyval) list \<Rightarrow> string \<Rightarrow> (pyval \<Rightarrow> 'a result) \<Rightarrow> 'a result" where
  "j_req d k f = (case map_of d k of None \<Rightarrow> Inl ValueError | Some v \<Rightarrow> f v)"

definition j_default :: "(string \<times> pyval) list \<Rightarrow> string \<Rightarrow> 'a \<Rightarrow> (pyval \<Rightarrow> 'a result) \<Rightarrow> 'a result" where
  "j_default d k x f = (case map_of d k of None \<Rightarrow> Inr x | Some v \<Rightarrow> f v)"

definition j_version :: "(string \<times> pyval) list \<Rightarrow> unit result" where
  "j_version d = rbind (j_default d ''schema_version'' ''1'' j_text) (\<lambda>v. if v = ''1'' then Inr () else Inl ValueError)"

definition checked :: "('a \<Rightarrow> bool) \<Rightarrow> 'a \<Rightarrow> 'a result" where
  "checked P x = (if P x then Inr x else Inl ValueError)"

lemma checked_ok: "checked P x = Inr y \<longleftrightarrow> P x \<and> y = x"
  by (auto simp: checked_def)

definition clarification_of :: "wflib \<Rightarrow> pyval \<Rightarrow> ClarificationRequest result" where
  "clarification_of lib v =
     rbind (j_object [''schema_version'', ''interrupt_id'', ''question'', ''answer_type'', ''answer_max_length'', ''choices''] v) (\<lambda>d.
     rbind (j_version d) (\<lambda>_. rbind (j_req d ''interrupt_id'' (j_uuid lib)) (\<lambda>i. rbind (j_req d ''question'' j_text) (\<lambda>q.
     rbind (j_req d ''answer_type'' j_text) (\<lambda>t. rbind (j_default d ''answer_max_length'' 500 j_int) (\<lambda>n.
     rbind (j_default d ''choices'' [] (j_list j_text)) (\<lambda>cs.
       checked valid_clarification
         \<lparr>cr_interrupt_id = i, cr_question = q, cr_answer_type = t, cr_answer_max_length = n, cr_choices = cs\<rparr>)))))))"

definition intent_of :: "wflib \<Rightarrow> pyval \<Rightarrow> GovernedActionIntent result" where
  "intent_of lib v =
     rbind (j_object [''schema_version'', ''run_id'', ''goal_version'', ''run_version'', ''action_type'', ''source_doctype'',
         ''source_name'', ''items'', ''payment'', ''reason''] v) (\<lambda>d.
     rbind (j_version d) (\<lambda>_. rbind (j_req d ''run_id'' (j_uuid lib)) (\<lambda>r. rbind (j_req d ''goal_version'' j_int) (\<lambda>g.
     rbind (j_req d ''run_version'' j_int) (\<lambda>w. rbind (j_req d ''action_type'' j_text) (\<lambda>a.
     rbind (j_req d ''source_doctype'' j_text) (\<lambda>sd. rbind (j_req d ''source_name'' j_text) (\<lambda>sn.
     rbind (j_default d ''items'' [] (j_list j_dict)) (\<lambda>its. rbind (j_default d ''payment'' None (j_opt j_dict)) (\<lambda>p.
     rbind (j_req d ''reason'' j_text) (\<lambda>re.
       checked valid_intent
         \<lparr>ga_run_id = r, ga_goal_version = g, ga_run_version = w, ga_action_type = a, ga_source_doctype = sd,
          ga_source_name = sn, ga_items = its, ga_payment = p, ga_reason = re\<rparr>)))))))))))"

definition step_of :: "wflib \<Rightarrow> pyval \<Rightarrow> PlanStep result" where
  "step_of lib v =
     rbind (j_object [''schema_version'', ''step_id'', ''order'', ''type'', ''depends_on'', ''allowed_tools'', ''tool_name'',
         ''clarification'', ''governed_action'', ''parameters'', ''status'', ''observation_digest'', ''error'', ''completed_at''] v) (\<lambda>d.
     rbind (j_version d) (\<lambda>_. rbind (j_req d ''step_id'' j_text) (\<lambda>i. rbind (j_req d ''order'' j_int) (\<lambda>n.
     rbind (j_req d ''type'' j_text) (\<lambda>t. rbind (j_default d ''depends_on'' [] (j_list j_text)) (\<lambda>ds.
     rbind (j_default d ''allowed_tools'' [] (j_list j_text)) (\<lambda>ts. rbind (j_default d ''tool_name'' None (j_opt j_text)) (\<lambda>tn.
     rbind (j_default d ''clarification'' None (j_opt (clarification_of lib))) (\<lambda>c.
     rbind (j_default d ''governed_action'' None (j_opt (intent_of lib))) (\<lambda>g.
     rbind (j_default d ''parameters'' [] j_dict) (\<lambda>p. rbind (j_default d ''status'' ''PENDING'' j_text) (\<lambda>st.
     rbind (j_default d ''observation_digest'' None (j_opt j_text)) (\<lambda>od. rbind (j_default d ''error'' None (j_opt j_text)) (\<lambda>e.
     rbind (j_default d ''completed_at'' None (j_opt j_text)) (\<lambda>ca.
       checked valid_step
         \<lparr>ps_step_id = i, ps_order = n, ps_type = t, ps_depends_on = ds, ps_allowed_tools = ts, ps_tool_name = tn,
          ps_clarification = c, ps_governed_action = g, ps_parameters = p, ps_status = st,
          ps_observation_digest = od, ps_error = e, ps_completed_at = ca\<rparr>)))))))))))))))"

definition budget_of :: "pyval \<Rightarrow> WorkflowBudget result" where
  "budget_of v =
     rbind (j_object [''max_steps'', ''max_elapsed_ms'', ''max_observation_bytes''] v) (\<lambda>d.
     rbind (j_default d ''max_steps'' 64 j_int) (\<lambda>a. rbind (j_default d ''max_elapsed_ms'' 300000 j_int) (\<lambda>b.
     rbind (j_default d ''max_observation_bytes'' 4000 j_int) (\<lambda>c.
       checked valid_budget \<lparr>wb_max_steps = a, wb_max_elapsed_ms = b, wb_max_observation_bytes = c\<rparr>))))"

definition state_of :: "wflib \<Rightarrow> pyval \<Rightarrow> WorkflowState result" where
  "state_of lib v =
     rbind (j_object [''schema_version'', ''run_id'', ''revision'', ''plan_version'', ''graph_version'', ''status'',
         ''current_step_id'', ''steps'', ''clarification'', ''replan_reason'', ''budget'', ''deadline'', ''trace_id'',
         ''stop_reason'', ''crash_recovered''] v) (\<lambda>d.
     rbind (j_version d) (\<lambda>_. rbind (j_req d ''run_id'' (j_uuid lib)) (\<lambda>r. rbind (j_default d ''revision'' 0 j_int) (\<lambda>n.
     rbind (j_default d ''plan_version'' 1 j_int) (\<lambda>pv. rbind (j_default d ''graph_version'' ''workflow-v1'' j_text) (\<lambda>gv.
     rbind (j_default d ''status'' ''READY'' j_text) (\<lambda>st. rbind (j_default d ''current_step_id'' None (j_opt j_text)) (\<lambda>cu.
     rbind (j_req d ''steps'' (j_list (step_of lib))) (\<lambda>ss.
     rbind (j_default d ''clarification'' None (j_opt (clarification_of lib))) (\<lambda>c.
     rbind (j_default d ''replan_reason'' None (j_opt j_text)) (\<lambda>rr. rbind (j_default d ''budget'' default_budget budget_of) (\<lambda>b.
     rbind (j_req d ''deadline'' j_text) (\<lambda>dl. rbind (j_req d ''trace_id'' (j_uuid lib)) (\<lambda>tr.
     rbind (j_default d ''stop_reason'' None (j_opt j_text)) (\<lambda>sr. rbind (j_default d ''crash_recovered'' False j_bool) (\<lambda>cr.
       checked (valid_state lib)
         \<lparr>ws_run_id = r, ws_revision = n, ws_plan_version = pv, ws_graph_version = gv, ws_status = st, ws_current = cu,
          ws_steps = ss, ws_clarification = c, ws_replan_reason = rr, ws_budget = b, ws_deadline = dl, ws_trace_id = tr,
          ws_stop_reason = sr, ws_crash_recovered = cr\<rparr>))))))))))))))))"

section \<open>Key order\<close>

text \<open>The JSON text lists every object in key order, so the dictionaries of a state that is read back
  are those that were written, in key order; Python's \<open>==\<close> does not distinguish them.\<close>

definition mapping_canon :: "(string \<times> pyval) list \<Rightarrow> (string \<times> pyval) list" where
  "mapping_canon d = map (\<lambda>p. (fst p, canon (snd p))) (sort_key fst d)"

definition intent_canon :: "GovernedActionIntent \<Rightarrow> GovernedActionIntent" where
  "intent_canon g = g\<lparr>ga_items := map mapping_canon (ga_items g), ga_payment := map_option mapping_canon (ga_payment g)\<rparr>"

definition step_canon :: "PlanStep \<Rightarrow> PlanStep" where
  "step_canon s = s\<lparr>ps_parameters := mapping_canon (ps_parameters s), ps_governed_action := map_option intent_canon (ps_governed_action s)\<rparr>"

definition state_canon :: "WorkflowState \<Rightarrow> WorkflowState" where
  "state_canon s = s\<lparr>ws_steps := map step_canon (ws_steps s)\<rparr>"

lemma canon_PDict: "canon (PDict d) = PDict (mapping_canon d)"
  by (simp only: canon_dict mapping_canon_def)

lemma canon_PList: "canon (PList xs) = PList (map canon xs)"
  by (simp add: canon_list_map)

lemma set_mapping_canon: "set (mapping_canon d) = (\<lambda>p. (fst p, canon (snd p))) ` set d"
  by (simp add: mapping_canon_def)

lemma keys_mapping_canon: "set (dkeys (mapping_canon d)) = set (dkeys d)"
  by (simp add: dkeys_def set_mapping_canon image_image)

lemma distinct_mapping_canon [simp]: "distinct (map fst (mapping_canon d)) = distinct (map fst d)"
proof -
  have "set (map fst (mapping_canon d)) = set (map fst d)" "length (map fst (mapping_canon d)) = length (map fst d)"
    by (simp_all add: set_mapping_canon image_image) (simp add: mapping_canon_def)
  then show ?thesis by (metis card_distinct distinct_card)
qed

lemma map_of_mapping_canon:
  assumes "distinct (map fst d)"
  shows "map_of (mapping_canon d) k = map_option canon (map_of d k)"
proof (cases "map_of d k")
  case None
  then have "k \<notin> fst ` set (mapping_canon d)" by (simp add: map_of_eq_None_iff set_mapping_canon image_image)
  then have "map_of (mapping_canon d) k = None" by (simp add: map_of_eq_None_iff)
  with None show ?thesis by simp
next
  case (Some v)
  then have "(k, canon v) \<in> set (mapping_canon d)" by (force simp: set_mapping_canon dest: map_of_SomeD)
  with Some assms show ?thesis by (simp add: map_of_is_SomeI)
qed

lemma json_dumps_list_ok: "is_ok (json_dumps_list xs) = list_all (\<lambda>x. is_ok (json_dumps x)) xs"
proof (induction xs)
  case (Cons x xs)
  then show ?case by (cases "json_dumps x"; cases "json_dumps_list xs") simp_all
qed simp

lemma json_dumps_items_ok: "is_ok (json_dumps_items d) = list_all (\<lambda>p. is_ok (json_dumps (snd p))) d"
proof (induction d)
  case (Cons p d)
  then show ?case by (cases p; cases "json_dumps (snd p)"; cases "json_dumps_items d") simp_all
qed simp

lemma json_dumps_ok:
  "is_ok (json_dumps (PList xs)) = list_all (\<lambda>x. is_ok (json_dumps x)) xs"
  "is_ok (json_dumps (PDict d)) = list_all (\<lambda>p. is_ok (json_dumps (snd p))) d"
  by (simp_all flip: json_dumps_list_ok json_dumps_items_ok) (cases "json_dumps_list xs"; cases "json_dumps_items d"; simp)+

text \<open>The checks on a JSON value do not depend on key order.\<close>

definition json_good :: "pyval \<Rightarrow> bool" where
  "json_good v = (json_typed v \<and> validate_json_value v \<and> is_ok (json_dumps v))"

lemma json_good_simps:
  "json_good (PList xs) = list_all json_good xs"
  "json_good (PDict d) = (distinct (map fst d) \<and> list_all (\<lambda>p. json_good (snd p)) d)"
  by (auto simp: json_good_def json_dumps_ok list_all_iff simp del: json_dumps.simps)

lemma json_good_canon: "json_good v \<Longrightarrow> json_good (canon v)"
proof (induction v)
  case (PList xs)
  then show ?case by (simp add: canon_PList json_good_simps list_all_iff del: canon.simps)
next
  case (PDict d)
  then have "\<forall>p \<in> set d. json_good (canon (snd p))"
    by (auto simp: json_good_simps list_all_iff elim!: ballE)
  with PDict.prems show ?case by (simp add: canon_PDict json_good_simps list_all_iff set_mapping_canon del: canon.simps)
qed simp_all

lemma check_json_mapping_good: "check_json_mapping d = json_good (PDict d)"
  by (simp add: check_json_mapping_def json_good_def)

lemma check_json_mapping_canon: "check_json_mapping d \<Longrightarrow> check_json_mapping (mapping_canon d)"
  using json_good_canon [of "PDict d"] by (simp only: check_json_mapping_good canon_PDict)

lemma valid_intent_canon: "valid_intent g \<Longrightarrow> valid_intent (intent_canon g)"
  by (auto simp: valid_intent_def intent_canon_def list_all_iff check_json_mapping_canon split: option.splits)

lemma step_canon_simps [simp]:
  "ps_step_id (step_canon s) = ps_step_id s" "ps_order (step_canon s) = ps_order s" "ps_depends_on (step_canon s) = ps_depends_on s"
  "ps_status (step_canon s) = ps_status s"
  by (simp_all add: step_canon_def)

lemma valid_step_canon: "valid_step s \<Longrightarrow> valid_step (step_canon s)"
proof -
  assume v: "valid_step s"
  have "declared_contract (step_canon s) = declared_contract s"
    by (cases "ps_tool_name s") (simp_all add: declared_contract_def step_canon_def)
  with v show ?thesis
    using check_json_mapping_canon valid_intent_canon
    by (auto simp: valid_step_def step_shape_def validate_tool_shape_def status_evidence_def step_canon_def split: option.splits)
qed

section \<open>Reading back what was written\<close>

named_theorems wire \<open>reading the JSON form of a model\<close>

lemma j_canon [wire]:
  "distinct (map fst d) \<Longrightarrow> map_of d k = Some v \<Longrightarrow> j_req (mapping_canon d) k f = f (canon v)"
  "distinct (map fst d) \<Longrightarrow> map_of d k = Some v \<Longrightarrow> j_default (mapping_canon d) k x f = f (canon v)"
  by (simp_all add: j_req_def j_default_def map_of_mapping_canon)

lemma canon_scalars [wire]: "canon (PStr s) = PStr s" "canon (PInt i) = PInt i" "canon (PBool b) = PBool b" "canon PNone = PNone"
  by simp_all

lemma canon_dump_texts [wire]: "canon (dump_texts xs) = dump_texts xs"
  by (simp add: dump_texts_def canon_list_map)

lemma j_scalars [wire]: "j_text (PStr s) = Inr s" "j_int (PInt i) = Inr i" "j_bool (PBool b) = Inr b" "j_dict (PDict d) = Inr d"
  by (simp_all add: j_text_def j_int_def j_bool_def j_dict_def)

lemma rmap_map: "(\<And>x. x \<in> set xs \<Longrightarrow> f (g x) = Inr (h x)) \<Longrightarrow> rmap f (map g xs) = Inr (map h xs)"
  by (induction xs) simp_all

lemma j_list_texts [wire]: "j_list j_text (dump_texts xs) = Inr xs"
  using rmap_map [of xs j_text PStr id] by (simp add: j_list_def dump_texts_def j_scalars)

lemma j_opt_dump [wire]: "j_opt j_text (canon (dump_opt PStr v)) = Inr v"
  by (cases v) (simp_all add: j_opt_def dump_opt_def j_scalars)

lemma j_opt_model:
  assumes "\<And>x. v = Some x \<Longrightarrow> f (canon (PDict (g x))) = Inr (h x)"
  shows "j_opt f (canon (dump_opt (\<lambda>x. PDict (g x)) v)) = Inr (map_option h v)"
  using assms by (cases v) (simp_all add: j_opt_def dump_opt_def canon_PDict del: canon.simps(2))

lemma j_version_1 [wire]:
  "distinct (map fst d) \<Longrightarrow> map_of d ''schema_version'' = Some (PStr ''1'') \<Longrightarrow> j_version (mapping_canon d) = Inr ()"
  by (simp add: j_version_def wire)

lemma j_object_canon: "set (dkeys d) \<subseteq> set known \<Longrightarrow> j_object known (canon (PDict d)) = Inr (mapping_canon d)"
  by (simp add: j_object_def canon_PDict keys_mapping_canon del: canon.simps(2))

text \<open>The validation library reads a canonical UUID as itself.\<close>

definition uuid_ok :: "wflib \<Rightarrow> bool" where
  "uuid_ok lib = (\<forall>u. uuid_shape u \<longrightarrow> uuid_text lib u = Some u)"

lemma j_uuid_canonical: "uuid_ok lib \<Longrightarrow> uuid_shape u \<Longrightarrow> j_uuid lib (PStr u) = Inr u"
  by (simp add: uuid_ok_def j_uuid_def)

lemma clarification_fields_get [wire]:
  "distinct (map fst (clarification_fields c))"
  "map_of (clarification_fields c) ''schema_version'' = Some (PStr ''1'')"
  "map_of (clarification_fields c) ''interrupt_id'' = Some (PStr (cr_interrupt_id c))"
  "map_of (clarification_fields c) ''question'' = Some (PStr (cr_question c))"
  "map_of (clarification_fields c) ''answer_type'' = Some (PStr (cr_answer_type c))"
  "map_of (clarification_fields c) ''answer_max_length'' = Some (PInt (cr_answer_max_length c))"
  "map_of (clarification_fields c) ''choices'' = Some (dump_texts (cr_choices c))"
  by (simp_all add: clarification_fields_def)

lemma intent_fields_get [wire]:
  "distinct (map fst (intent_fields g))"
  "map_of (intent_fields g) ''schema_version'' = Some (PStr ''1'')"
  "map_of (intent_fields g) ''run_id'' = Some (PStr (ga_run_id g))"
  "map_of (intent_fields g) ''goal_version'' = Some (PInt (ga_goal_version g))"
  "map_of (intent_fields g) ''run_version'' = Some (PInt (ga_run_version g))"
  "map_of (intent_fields g) ''action_type'' = Some (PStr (ga_action_type g))"
  "map_of (intent_fields g) ''source_doctype'' = Some (PStr (ga_source_doctype g))"
  "map_of (intent_fields g) ''source_name'' = Some (PStr (ga_source_name g))"
  "map_of (intent_fields g) ''items'' = Some (PList (map PDict (ga_items g)))"
  "map_of (intent_fields g) ''payment'' = Some (dump_opt PDict (ga_payment g))"
  "map_of (intent_fields g) ''reason'' = Some (PStr (ga_reason g))"
  by (simp_all add: intent_fields_def)

lemma step_fields_get [wire]:
  "distinct (map fst (step_fields s))"
  "map_of (step_fields s) ''schema_version'' = Some (PStr ''1'')"
  "map_of (step_fields s) ''step_id'' = Some (PStr (ps_step_id s))"
  "map_of (step_fields s) ''order'' = Some (PInt (ps_order s))"
  "map_of (step_fields s) ''type'' = Some (PStr (ps_type s))"
  "map_of (step_fields s) ''depends_on'' = Some (dump_texts (ps_depends_on s))"
  "map_of (step_fields s) ''allowed_tools'' = Some (dump_texts (ps_allowed_tools s))"
  "map_of (step_fields s) ''tool_name'' = Some (dump_opt PStr (ps_tool_name s))"
  "map_of (step_fields s) ''clarification'' = Some (dump_opt (\<lambda>c. PDict (clarification_fields c)) (ps_clarification s))"
  "map_of (step_fields s) ''governed_action'' = Some (dump_opt (\<lambda>g. PDict (intent_fields g)) (ps_governed_action s))"
  "map_of (step_fields s) ''parameters'' = Some (PDict (ps_parameters s))"
  "map_of (step_fields s) ''status'' = Some (PStr (ps_status s))"
  "map_of (step_fields s) ''observation_digest'' = Some (dump_opt PStr (ps_observation_digest s))"
  "map_of (step_fields s) ''error'' = Some (dump_opt PStr (ps_error s))"
  "map_of (step_fields s) ''completed_at'' = Some (dump_opt PStr (ps_completed_at s))"
  by (simp_all add: step_fields_def)

lemma budget_fields_get [wire]:
  "distinct (map fst (budget_fields b))"
  "map_of (budget_fields b) ''max_steps'' = Some (PInt (wb_max_steps b))"
  "map_of (budget_fields b) ''max_elapsed_ms'' = Some (PInt (wb_max_elapsed_ms b))"
  "map_of (budget_fields b) ''max_observation_bytes'' = Some (PInt (wb_max_observation_bytes b))"
  by (simp_all add: budget_fields_def)

lemma state_fields_get [wire]:
  "distinct (map fst (state_fields s))"
  "map_of (state_fields s) ''schema_version'' = Some (PStr ''1'')"
  "map_of (state_fields s) ''run_id'' = Some (PStr (ws_run_id s))"
  "map_of (state_fields s) ''revision'' = Some (PInt (ws_revision s))"
  "map_of (state_fields s) ''plan_version'' = Some (PInt (ws_plan_version s))"
  "map_of (state_fields s) ''graph_version'' = Some (PStr (ws_graph_version s))"
  "map_of (state_fields s) ''status'' = Some (PStr (ws_status s))"
  "map_of (state_fields s) ''current_step_id'' = Some (dump_opt PStr (ws_current s))"
  "map_of (state_fields s) ''steps'' = Some (PList (map (\<lambda>x. PDict (step_fields x)) (ws_steps s)))"
  "map_of (state_fields s) ''clarification'' = Some (dump_opt (\<lambda>c. PDict (clarification_fields c)) (ws_clarification s))"
  "map_of (state_fields s) ''replan_reason'' = Some (dump_opt PStr (ws_replan_reason s))"
  "map_of (state_fields s) ''budget'' = Some (PDict (budget_fields (ws_budget s)))"
  "map_of (state_fields s) ''deadline'' = Some (PStr (ws_deadline s))"
  "map_of (state_fields s) ''trace_id'' = Some (PStr (ws_trace_id s))"
  "map_of (state_fields s) ''stop_reason'' = Some (dump_opt PStr (ws_stop_reason s))"
  "map_of (state_fields s) ''crash_recovered'' = Some (PBool (ws_crash_recovered s))"
  by (simp_all add: state_fields_def)

lemma clarification_eta [wire]:
  "\<lparr>cr_interrupt_id = cr_interrupt_id c, cr_question = cr_question c, cr_answer_type = cr_answer_type c,
    cr_answer_max_length = cr_answer_max_length c, cr_choices = cr_choices c\<rparr> = c"
  by simp

lemma intent_eta [wire]:
  "\<lparr>ga_run_id = ga_run_id g, ga_goal_version = ga_goal_version g, ga_run_version = ga_run_version g, ga_action_type = ga_action_type g,
    ga_source_doctype = ga_source_doctype g, ga_source_name = ga_source_name g, ga_items = x, ga_payment = y, ga_reason = ga_reason g\<rparr>
   = g\<lparr>ga_items := x, ga_payment := y\<rparr>"
  by simp

lemma step_eta [wire]:
  "\<lparr>ps_step_id = ps_step_id s, ps_order = ps_order s, ps_type = ps_type s, ps_depends_on = ps_depends_on s,
    ps_allowed_tools = ps_allowed_tools s, ps_tool_name = ps_tool_name s, ps_clarification = ps_clarification s,
    ps_governed_action = x, ps_parameters = y, ps_status = ps_status s, ps_observation_digest = ps_observation_digest s,
    ps_error = ps_error s, ps_completed_at = ps_completed_at s\<rparr> = s\<lparr>ps_parameters := y, ps_governed_action := x\<rparr>"
  by simp

lemma budget_eta [wire]:
  "\<lparr>wb_max_steps = wb_max_steps b, wb_max_elapsed_ms = wb_max_elapsed_ms b, wb_max_observation_bytes = wb_max_observation_bytes b\<rparr> = b"
  by simp

lemma state_eta [wire]:
  "\<lparr>ws_run_id = ws_run_id s, ws_revision = ws_revision s, ws_plan_version = ws_plan_version s, ws_graph_version = ws_graph_version s,
    ws_status = ws_status s, ws_current = ws_current s, ws_steps = x, ws_clarification = ws_clarification s,
    ws_replan_reason = ws_replan_reason s, ws_budget = ws_budget s, ws_deadline = ws_deadline s, ws_trace_id = ws_trace_id s,
    ws_stop_reason = ws_stop_reason s, ws_crash_recovered = ws_crash_recovered s\<rparr> = s\<lparr>ws_steps := x\<rparr>"
  by simp

lemma clarification_roundtrip:
  assumes "uuid_ok lib" and "valid_clarification c"
  shows "clarification_of lib (canon (PDict (clarification_fields c))) = Inr c"
proof -
  have "uuid_shape (cr_interrupt_id c)" using assms(2) by (simp add: valid_clarification_def)
  moreover have "set (dkeys (clarification_fields c)) \<subseteq>
      set [''schema_version'', ''interrupt_id'', ''question'', ''answer_type'', ''answer_max_length'', ''choices'']"
    by (simp add: clarification_fields_def)
  ultimately show ?thesis
    using assms by (simp add: clarification_of_def j_object_canon wire j_uuid_canonical checked_def del: canon.simps list.set)
qed

lemma intent_roundtrip:
  assumes "uuid_ok lib" and "valid_intent g"
  shows "intent_of lib (canon (PDict (intent_fields g))) = Inr (intent_canon g)"
proof -
  have "uuid_shape (ga_run_id g)" using assms(2) by (simp add: valid_intent_def)
  moreover have "set (dkeys (intent_fields g)) \<subseteq> set [''schema_version'', ''run_id'', ''goal_version'', ''run_version'',
      ''action_type'', ''source_doctype'', ''source_name'', ''items'', ''payment'', ''reason'']"
    by (simp add: intent_fields_def)
  moreover have "j_list j_dict (canon (PList (map PDict (ga_items g)))) = Inr (map mapping_canon (ga_items g))"
    using rmap_map [of "ga_items g" j_dict "\<lambda>d. canon (PDict d)" mapping_canon]
    by (simp add: j_list_def canon_PList comp_def canon_PDict wire del: canon.simps)
  moreover have "j_opt j_dict (canon (dump_opt PDict (ga_payment g))) = Inr (map_option mapping_canon (ga_payment g))"
    by (rule j_opt_model) (simp add: canon_PDict wire del: canon.simps)
  moreover have "valid_intent (intent_canon g)" by (rule valid_intent_canon [OF assms(2)])
  ultimately show ?thesis
    using assms(1) by (simp add: intent_of_def j_object_canon wire j_uuid_canonical checked_def intent_canon_def del: canon.simps list.set)
qed

lemma budget_roundtrip:
  assumes "valid_budget b"
  shows "budget_of (canon (PDict (budget_fields b))) = Inr b"
proof -
  have "set (dkeys (budget_fields b)) \<subseteq> set [''max_steps'', ''max_elapsed_ms'', ''max_observation_bytes'']"
    by (simp add: budget_fields_def)
  with assms show ?thesis by (simp add: budget_of_def j_object_canon wire checked_def del: canon.simps list.set)
qed

lemma j_opt_clarification:
  assumes "uuid_ok lib" and "case v of None \<Rightarrow> True | Some c \<Rightarrow> valid_clarification c"
  shows "j_opt (clarification_of lib) (canon (dump_opt (\<lambda>c. PDict (clarification_fields c)) v)) = Inr v"
  using j_opt_model [of v "clarification_of lib" clarification_fields id] clarification_roundtrip [OF assms(1)] assms(2)
  by (cases v) simp_all

lemma step_roundtrip:
  assumes "uuid_ok lib" and "valid_step s"
  shows "step_of lib (canon (PDict (step_fields s))) = Inr (step_canon s)"
proof -
  have v: "case ps_clarification s of None \<Rightarrow> True | Some c \<Rightarrow> valid_clarification c"
    "case ps_governed_action s of None \<Rightarrow> True | Some g \<Rightarrow> valid_intent g"
    using assms(2) by (simp_all add: valid_step_def)
  have "set (dkeys (step_fields s)) \<subseteq> set [''schema_version'', ''step_id'', ''order'', ''type'', ''depends_on'', ''allowed_tools'',
      ''tool_name'', ''clarification'', ''governed_action'', ''parameters'', ''status'', ''observation_digest'', ''error'', ''completed_at'']"
    by (simp add: step_fields_def)
  moreover have "j_opt (intent_of lib) (canon (dump_opt (\<lambda>g. PDict (intent_fields g)) (ps_governed_action s))) =
      Inr (map_option intent_canon (ps_governed_action s))"
    by (rule j_opt_model) (use intent_roundtrip [OF assms(1)] v(2) in auto)
  moreover have "j_dict (canon (PDict (ps_parameters s))) = Inr (mapping_canon (ps_parameters s))"
    by (simp add: canon_PDict wire del: canon.simps)
  moreover have "valid_step (step_canon s)" by (rule valid_step_canon [OF assms(2)])
  ultimately show ?thesis
    using j_opt_clarification [OF assms(1) v(1)]
    by (simp add: step_of_def j_object_canon wire checked_def step_canon_def del: canon.simps list.set)
qed

lemma valid_state_canon:
  assumes "valid_state lib s"
  shows "valid_state lib (state_canon s)"
proof -
  have ids: "map ps_step_id (map step_canon (ws_steps s)) = map ps_step_id (ws_steps s)" by (simp add: comp_def)
  have "plan_rel (map step_canon (ws_steps s)) = plan_rel (ws_steps s)"
    by (simp add: plan_rel_UN)
  then have "plan_ok (map step_canon (ws_steps s)) = plan_ok (ws_steps s)"
    unfolding plan_ok_def by (simp add: comp_def image_image)
  moreover have "validate_state_shape (state_canon s) = validate_state_shape s"
    by (cases "ws_current s") (simp_all add: validate_state_shape_def state_canon_def ids image_image)
  moreover have "list_all valid_step (map step_canon (ws_steps s))"
    using assms valid_step_canon by (auto simp: valid_state_def list_all_iff)
  ultimately show ?thesis using assms by (simp add: valid_state_def state_shape_def state_canon_def)
qed

lemma state_roundtrip:
  assumes "uuid_ok lib" and "valid_state lib s"
  shows "state_of lib (canon (state_dump s)) = Inr (state_canon s)"
proof -
  have v: "uuid_shape (ws_run_id s)" "uuid_shape (ws_trace_id s)" "valid_budget (ws_budget s)"
    "case ws_clarification s of None \<Rightarrow> True | Some c \<Rightarrow> valid_clarification c"
    using assms(2) by (simp_all add: valid_state_def state_shape_def)
  have "set (dkeys (state_fields s)) \<subseteq> set [''schema_version'', ''run_id'', ''revision'', ''plan_version'', ''graph_version'', ''status'',
      ''current_step_id'', ''steps'', ''clarification'', ''replan_reason'', ''budget'', ''deadline'', ''trace_id'', ''stop_reason'', ''crash_recovered'']"
    by (simp add: state_fields_def)
  moreover have "j_list (step_of lib) (canon (PList (map (\<lambda>x. PDict (step_fields x)) (ws_steps s)))) = Inr (map step_canon (ws_steps s))"
    using rmap_map [of "ws_steps s" "step_of lib" "\<lambda>x. canon (PDict (step_fields x))" step_canon] step_roundtrip [OF assms(1)] assms(2)
    by (simp add: j_list_def canon_PList comp_def valid_state_def list_all_iff del: canon.simps)
  moreover have "valid_state lib (state_canon s)" by (rule valid_state_canon [OF assms(2)])
  ultimately show ?thesis
    using j_opt_clarification [OF assms(1) v(4)] j_uuid_canonical [OF assms(1)] v budget_roundtrip [OF v(3)]
    by (simp add: state_of_def state_dump_def j_object_canon wire checked_def state_canon_def del: canon.simps list.set)
qed

lemma state_of_valid: "state_of lib v = Inr s \<Longrightarrow> valid_state lib s"
  by (auto simp: state_of_def result_simps checked_ok)

end
