(* ===== verification/Checkpoint.thy ===== *)
theory Checkpoint
  imports Workflow_Wire
begin

text \<open>
  The durable checkpoint store, \<open>workflow/checkpoint.py\<close>: its two tables as lists of rows, one
  definition per method of \<open>SQLiteCheckpointStore\<close>, each a transaction that returns the
  outcome and the tables after it.  \<open>up\<close> says whether the database can be opened and written in
  this call; where it cannot, the call reports \<open>CHECKPOINT_UNAVAILABLE\<close> and changes nothing.
  Clock readings are arguments, in the order of the calls.
\<close>

section \<open>Errors\<close>

definition checkpoint_conflict :: "string \<Rightarrow> pyexc" where
  "checkpoint_conflict detail = CheckpointError ''CHECKPOINT_CONFLICT'' detail"

definition checkpoint_incompatible :: "string \<Rightarrow> pyexc" where
  "checkpoint_incompatible detail = CheckpointError ''CHECKPOINT_INCOMPATIBLE'' detail"

definition checkpoint_unavailable :: "string \<Rightarrow> pyexc" where
  "checkpoint_unavailable detail = CheckpointError ''CHECKPOINT_UNAVAILABLE'' detail"

definition checkpoint_not_found :: pyexc where
  "checkpoint_not_found = CheckpointError ''CHECKPOINT_NOT_FOUND'' ''checkpoint is not available''"

section \<open>Secrets are refused\<close>

definition CK_KEY_WORDS :: "string list" where
  "CK_KEY_WORDS = [''capability'', ''authorization'', ''cookie'', ''password'', ''passwd'', ''secret'', ''apikey'', ''api_key'',
     ''api-key'', ''bearer'', ''token'', ''prompt'']"

definition ck_SENSITIVE_KEY :: "string \<Rightarrow> bool" where
  "ck_SENSITIVE_KEY k = list_ex (\<lambda>w. has_infix w (py_lower k)) CK_KEY_WORDS"

text \<open>
  The pattern of secret-like text: one of the words on its own, a colon or an equals sign, and a
  value.  \<open>word_char\<close> is \<open>\w\<close> below code point 256.
\<close>

definition CK_TEXT_WORDS :: "string list" where
  "CK_TEXT_WORDS = [''apikey'', ''api_key'', ''api-key'', ''bearer'', ''token'', ''secret'', ''password'', ''passwd'', ''capability'',
     ''authorization'', ''cookie'']"

definition word_char :: "char \<Rightarrow> bool" where
  "word_char c = (let n = of_char c :: nat in
     is_alnum_ascii c \<or> n = 95 \<or> n \<in> {170, 178, 179, 181, 185, 186, 188, 189, 190} \<or>
     (192 \<le> n \<and> n \<noteq> 215 \<and> n \<noteq> 247))"

definition word_at :: "string \<Rightarrow> nat \<Rightarrow> bool" where
  "word_at s i = (i < length s \<and> word_char (s ! i))"

definition word_boundary :: "string \<Rightarrow> nat \<Rightarrow> bool" where
  "word_boundary s i = ((0 < i \<and> word_at s (i - 1)) \<noteq> word_at s i)"

definition assigns_value :: "string \<Rightarrow> bool" where
  "assigns_value s = (case dropWhile py_space s of
     [] \<Rightarrow> False
   | c # r \<Rightarrow> (c = CHR '':'' \<or> c = CHR ''='') \<and> dropWhile py_space r \<noteq> [])"

definition ck_SENSITIVE_TEXT :: "string \<Rightarrow> bool" where
  "ck_SENSITIVE_TEXT s = list_ex (\<lambda>i. word_boundary s i \<and> list_ex (\<lambda>w.
     starts_with w (py_lower (drop i s)) \<and> word_boundary s (i + length w) \<and> assigns_value (drop (i + length w) s)) CK_TEXT_WORDS)
     [0..<length s + 1]"

fun safe_payload :: "pyval \<Rightarrow> unit result"
and safe_items :: "pyval list \<Rightarrow> unit result"
and safe_entries :: "(string \<times> pyval) list \<Rightarrow> unit result" where
  "safe_payload (PStr s) =
     (if ck_SENSITIVE_TEXT s then Inl (checkpoint_incompatible ''checkpoint contains a secret-like value'') else Inr ())"
| "safe_payload (PList xs) = safe_items xs"
| "safe_payload (PDict d) = safe_entries d"
| "safe_payload v = Inr ()"
| "safe_items [] = Inr ()"
| "safe_items (x # xs) = rbind (safe_payload x) (\<lambda>_. safe_items xs)"
| "safe_entries [] = Inr ()"
| "safe_entries ((k, v) # d) =
     (if ck_SENSITIVE_KEY k then Inl (checkpoint_incompatible ''checkpoint contains a forbidden field'')
      else rbind (safe_payload v) (\<lambda>_. safe_entries d))"

section \<open>Tables\<close>

record ck_row =
  ck_revision :: int
  ck_schema :: string
  ck_payload :: string
  ck_status :: string
  ck_lease :: "string option"
  ck_lease_expires :: "string option"
  ck_updated :: string

record ck_entry =
  ch_run :: string
  ch_revision :: int
  ch_status :: string
  ch_saved_at :: string

record ckdb =
  ck_rows :: "(string \<times> ck_row) list"
  ck_history :: "ck_entry list"

definition CHECKPOINT_SCHEMA_VERSION :: string where
  "CHECKPOINT_SCHEMA_VERSION = ''1''"

definition encode_state :: "WorkflowState \<Rightarrow> string result" where
  "encode_state s = rbind (safe_payload (state_dump s)) (\<lambda>_.
     case agent_canonical_json (state_dump s) of
       Inl e \<Rightarrow> Inl (checkpoint_incompatible ''checkpoint state is not JSON safe'')
     | Inr t \<Rightarrow> Inr t)"

text \<open>
  \<open>json.loads\<close> of the payload: the tokens with the non-finite constants as floats, and objects
  as dictionaries, in which a repeated key keeps its last value.
\<close>

fun loads_value :: "pyval \<Rightarrow> pyval"
and loads_list :: "pyval list \<Rightarrow> pyval list"
and loads_items :: "(string \<times> pyval) list \<Rightarrow> (string \<times> pyval) list \<Rightarrow> (string \<times> pyval) list" where
  "loads_value (PFloat r) = PFloat (if r = ''NaN'' then ''nan'' else if r = ''Infinity'' then ''inf''
     else if r = ''-Infinity'' then ''-inf'' else r)"
| "loads_value (PList xs) = PList (loads_list xs)"
| "loads_value (PDict d) = PDict (loads_items [] d)"
| "loads_value v = v"
| "loads_list [] = []"
| "loads_list (x # xs) = loads_value x # loads_list xs"
| "loads_items acc [] = acc"
| "loads_items acc ((k, v) # d) = loads_items (dict_set acc k (loads_value v)) d"

definition json_loads :: "wflib \<Rightarrow> string \<Rightarrow> pyval result" where
  "json_loads lib t = (case json_tokens (wf_py lib) t of None \<Rightarrow> Inl ValueError | Some v \<Rightarrow> Inr (loads_value v))"

text \<open>The body of the \<open>try\<close> in \<open>load\<close>: an error of the store itself passes, any other becomes
  \<open>CHECKPOINT_INCOMPATIBLE\<close>.\<close>

definition validate_payload :: "wflib \<Rightarrow> pyval \<Rightarrow> WorkflowState result" where
  "validate_payload lib v = rbind (agent_canonical_json v) (\<lambda>_. state_of lib v)"

definition decode_payload :: "wflib \<Rightarrow> string \<Rightarrow> WorkflowState result" where
  "decode_payload lib t = rbind (json_loads lib t) (\<lambda>v. rbind (safe_payload v) (\<lambda>_.
     case v of
       PDict d \<Rightarrow> if \<not> py_eq (dget d ''schema_version'') (PStr ''1'') then Inl ValueError else validate_payload lib v
     | _ \<Rightarrow> Inl ValueError))"

definition ck_reraise :: "pyexc \<Rightarrow> pyexc" where
  "ck_reraise e = (case e of CheckpointError c d \<Rightarrow> e | _ \<Rightarrow> checkpoint_incompatible ''checkpoint payload is invalid'')"

definition ck_load :: "wflib \<Rightarrow> bool \<Rightarrow> ckdb \<Rightarrow> string \<Rightarrow> WorkflowState result" where
  "ck_load lib up db run =
     (if \<not> up then Inl (checkpoint_unavailable ''checkpoint load failed'')
      else (case map_of (ck_rows db) run of
              None \<Rightarrow> Inl checkpoint_not_found
            | Some row \<Rightarrow>
                if ck_schema row \<noteq> CHECKPOINT_SCHEMA_VERSION
                then Inl (checkpoint_incompatible ''unknown checkpoint schema version'')
                else (case decode_payload lib (ck_payload row) of Inl e \<Rightarrow> Inl (ck_reraise e) | Inr s \<Rightarrow> Inr s)))"

definition lease_expiry :: "wflib \<Rightarrow> int \<Rightarrow> int \<Rightarrow> string option \<Rightarrow> string option" where
  "lease_expiry lib seconds now lease = map_option (\<lambda>_. iso_format lib (now + seconds * 1000000)) lease"

definition lease_matches :: "wflib \<Rightarrow> int \<Rightarrow> ck_row \<Rightarrow> string option \<Rightarrow> bool" where
  "lease_matches lib now row lease =
     (case ck_lease row of
        None \<Rightarrow> lease = None
      | Some stored \<Rightarrow>
          lease = Some stored \<and>
          (case ck_lease_expires row of
             None \<Rightarrow> False
           | Some t \<Rightarrow> t \<noteq> [] \<and> (case parse_deadline lib t of Inl _ \<Rightarrow> False | Inr e \<Rightarrow> e > now)))"

text \<open>Whether a row is leased to someone, as \<open>acquire_lease\<close> and \<open>recoverable\<close> ask: an expiry that
  cannot be read counts as active.\<close>

definition lease_active :: "wflib \<Rightarrow> int \<Rightarrow> ck_row \<Rightarrow> bool" where
  "lease_active lib now row =
     (case (ck_lease row, ck_lease_expires row) of
        (Some l, Some t) \<Rightarrow> l \<noteq> [] \<and> t \<noteq> [] \<and> (case parse_deadline lib t of Inl _ \<Rightarrow> True | Inr e \<Rightarrow> e > now)
      | _ \<Rightarrow> False)"

definition ck_recorded :: "ckdb \<Rightarrow> string \<Rightarrow> int \<Rightarrow> bool" where
  "ck_recorded db run n = list_ex (\<lambda>h. ch_run h = run \<and> ch_revision h = n) (ck_history db)"

definition ck_note :: "WorkflowState \<Rightarrow> string \<Rightarrow> ck_entry" where
  "ck_note s now = \<lparr>ch_run = ws_run_id s, ch_revision = ws_revision s, ch_status = ws_status s, ch_saved_at = now\<rparr>"

definition ck_create ::
  "wflib \<Rightarrow> int \<Rightarrow> bool \<Rightarrow> int \<Rightarrow> int \<Rightarrow> ckdb \<Rightarrow> WorkflowState \<Rightarrow> string option \<Rightarrow> unit result \<times> ckdb" where
  "ck_create lib seconds up t1 t2 db s lease =
     (case encode_state s of
        Inl e \<Rightarrow> (Inl e, db)
      | Inr payload \<Rightarrow>
          if \<not> up then (Inl (checkpoint_unavailable ''checkpoint create failed''), db)
          else if ws_run_id s \<in> fst ` set (ck_rows db) \<or> ck_recorded db (ws_run_id s) (ws_revision s)
          then (Inl (checkpoint_conflict ''checkpoint already exists''), db)
          else (Inr (), db\<lparr>ck_rows := ck_rows db @ [(ws_run_id s,
                  \<lparr>ck_revision = ws_revision s, ck_schema = CHECKPOINT_SCHEMA_VERSION, ck_payload = payload,
                   ck_status = ws_status s, ck_lease = lease, ck_lease_expires = lease_expiry lib seconds t2 lease,
                   ck_updated = iso_format lib t1\<rparr>)],
                ck_history := ck_history db @ [ck_note s (iso_format lib t1)]\<rparr>))"

definition ck_save ::
  "wflib \<Rightarrow> int \<Rightarrow> bool \<Rightarrow> int \<Rightarrow> int \<Rightarrow> int \<Rightarrow> ckdb \<Rightarrow> WorkflowState \<Rightarrow> int \<Rightarrow> string option \<Rightarrow> bool \<Rightarrow> unit result \<times> ckdb" where
  "ck_save lib seconds up t1 t2 t3 db s expected lease keep =
     (if ws_revision s \<noteq> expected + 1
      then (Inl (checkpoint_conflict ''state revision must increment exactly once''), db)
      else (case encode_state s of
              Inl e \<Rightarrow> (Inl e, db)
            | Inr payload \<Rightarrow>
                if \<not> up then (Inl (checkpoint_unavailable ''checkpoint save failed''), db)
                else (case map_of (ck_rows db) (ws_run_id s) of
                        None \<Rightarrow> (Inl checkpoint_not_found, db)
                      | Some row \<Rightarrow>
                          if ck_revision row \<noteq> expected
                          then (Inl (checkpoint_conflict ''checkpoint changed concurrently''), db)
                          else if \<not> lease_matches lib t2 row lease
                          then (Inl (checkpoint_conflict ''checkpoint lease is not held''), db)
                          else if ck_recorded db (ws_run_id s) (ws_revision s)
                          then (Inl (checkpoint_unavailable ''checkpoint save failed''), db)
                          else (Inr (), db\<lparr>ck_rows := dict_set (ck_rows db) (ws_run_id s)
                                  \<lparr>ck_revision = ws_revision s, ck_schema = CHECKPOINT_SCHEMA_VERSION, ck_payload = payload,
                                   ck_status = ws_status s, ck_lease = (if keep then lease else None),
                                   ck_lease_expires = (if keep then lease_expiry lib seconds t3 lease else None),
                                   ck_updated = iso_format lib t1\<rparr>,
                                ck_history := ck_history db @ [ck_note s (iso_format lib t1)]\<rparr>))))"

definition ck_acquire ::
  "wflib \<Rightarrow> int \<Rightarrow> bool \<Rightarrow> string \<Rightarrow> int \<Rightarrow> ckdb \<Rightarrow> string \<Rightarrow> int \<Rightarrow> string result \<times> ckdb" where
  "ck_acquire lib seconds up token now db run expected =
     (if \<not> up then (Inl (checkpoint_unavailable ''checkpoint lease acquisition failed''), db)
      else (case map_of (ck_rows db) run of
              None \<Rightarrow> (Inl checkpoint_not_found, db)
            | Some row \<Rightarrow>
                if ck_revision row \<noteq> expected
                then (Inl (checkpoint_conflict ''checkpoint changed concurrently''), db)
                else if lease_active lib now row
                then (Inl (checkpoint_conflict ''checkpoint lease is active''), db)
                else (Inr token, db\<lparr>ck_rows := dict_set (ck_rows db) run
                        (row\<lparr>ck_lease := Some token, ck_lease_expires := Some (iso_format lib (now + seconds * 1000000))\<rparr>)\<rparr>)))"

definition ck_release :: "bool \<Rightarrow> ckdb \<Rightarrow> string \<Rightarrow> string \<Rightarrow> unit result \<times> ckdb" where
  "ck_release up db run lease =
     (if \<not> up then (Inl (checkpoint_unavailable ''checkpoint lease release failed''), db)
      else (case map_of (ck_rows db) run of
              None \<Rightarrow> (Inr (), db)
            | Some row \<Rightarrow>
                if ck_lease row = Some lease
                then (Inr (), db\<lparr>ck_rows := dict_set (ck_rows db) run (row\<lparr>ck_lease := None, ck_lease_expires := None\<rparr>)\<rparr>)
                else (Inr (), db)))"

definition ck_recover_row :: "wflib \<Rightarrow> int \<Rightarrow> ck_row \<Rightarrow> WorkflowState option" where
  "ck_recover_row lib now row =
     (if lease_active lib now row \<or> ck_schema row \<noteq> CHECKPOINT_SCHEMA_VERSION then None
      else (case rbind (json_loads lib (ck_payload row)) (\<lambda>v. rbind (safe_payload v) (\<lambda>_. validate_payload lib v)) of
              Inl e \<Rightarrow> None | Inr s \<Rightarrow> Some s))"

definition ck_recoverable :: "wflib \<Rightarrow> bool \<Rightarrow> int \<Rightarrow> ckdb \<Rightarrow> WorkflowState list result" where
  "ck_recoverable lib up now db =
     (if \<not> up then Inl (checkpoint_unavailable ''checkpoint scan failed'')
      else Inr (List.map_filter (ck_recover_row lib now)
             (sort_key ck_updated (filter (\<lambda>r. ck_status r \<in> {''READY'', ''RUNNING'', ''INTERRUPTED''}) (map snd (ck_rows db))))))"

definition ck_history_of :: "bool \<Rightarrow> ckdb \<Rightarrow> string \<Rightarrow> (int \<times> string \<times> string) list result" where
  "ck_history_of up db run =
     (if \<not> up then Inl (checkpoint_unavailable ''checkpoint history load failed'')
      else Inr (map (\<lambda>h. (ch_revision h, ch_status h, ch_saved_at h))
             (sort_key ch_revision (filter (\<lambda>h. ch_run h = run) (ck_history db)))))"

end
