(* ===== verification/Workflow_Engine.thy ===== *)
theory Workflow_Engine
  imports Workflow_Contracts
begin

text \<open>
  The deterministic plan-and-execute engine, \<open>workflow/engine.py\<close>: one definition per method of
  \<open>WorkflowEngine\<close>.  A method that reads the clock takes the readings as arguments, in the order
  of the calls (\<open>now\<close> for the deadline check, \<open>at\<close> for the completion time).  A result is a
  \<open>model_copy\<close>: nothing is validated again, so that the states the engine produces satisfy the
  validators of \<open>WorkflowState\<close> is a theorem, not a check.
\<close>

section \<open>Operations\<close>

abbreviation (input) workflow_conflict :: "string \<Rightarrow> pyexc" where
  "workflow_conflict detail \<equiv> WorkflowError ''WORKFLOW_CONFLICT'' detail"

abbreviation (input) workflow_invalid :: "string \<Rightarrow> pyexc" where
  "workflow_invalid detail \<equiv> WorkflowError ''WORKFLOW_INVALID'' detail"

definition now_iso :: "wflib \<Rightarrow> int \<Rightarrow> string" where
  "now_iso lib t = iso_format lib t"

definition create_state ::
  "wflib \<Rightarrow> string \<Rightarrow> string \<Rightarrow> string option \<Rightarrow> PlanStep list \<Rightarrow> string \<Rightarrow> string \<Rightarrow> WorkflowState result" where
  "create_state lib uuid4 run_id trace_id steps deadline graph_version =
     rbind (validate_plan_dag steps) (\<lambda>_. make_state lib
       \<lparr>ws_run_id = run_id, ws_revision = 0, ws_plan_version = 1, ws_graph_version = ''workflow-v1'',
        ws_status = ''READY'', ws_current = None, ws_steps = steps, ws_clarification = None,
        ws_replan_reason = None, ws_budget = default_budget, ws_deadline = deadline,
        ws_trace_id = (case trace_id of None \<Rightarrow> uuid4 | Some t \<Rightarrow> t), ws_stop_reason = None, ws_crash_recovered = False\<rparr>)"

definition ensure_not_expired :: "wflib \<Rightarrow> int \<Rightarrow> WorkflowState \<Rightarrow> unit result" where
  "ensure_not_expired lib now s = rbind (parse_deadline lib (ws_deadline s)) (\<lambda>d.
     if d \<le> now then Inl (WorkflowError ''WORKFLOW_EXPIRED'' ''workflow deadline expired'') else Inr ())"

definition ensure_running :: "wflib \<Rightarrow> int \<Rightarrow> WorkflowState \<Rightarrow> unit result" where
  "ensure_running lib now s = rbind (ensure_not_expired lib now s) (\<lambda>_.
     if ws_status s \<noteq> ''RUNNING'' then Inl (workflow_conflict ''workflow is not running'') else Inr ())"

definition is_expired :: "wflib \<Rightarrow> int \<Rightarrow> WorkflowState \<Rightarrow> bool result" where
  "is_expired lib now s = rbind (parse_deadline lib (ws_deadline s)) (\<lambda>d. Inr (d \<le> now))"

definition find_step :: "PlanStep list \<Rightarrow> string \<Rightarrow> PlanStep option" where
  "find_step steps i = find (\<lambda>x. ps_step_id x = i) steps"

definition get_step :: "WorkflowState \<Rightarrow> string \<Rightarrow> PlanStep result" where
  "get_step s i = (case find_step (ws_steps s) i of
     None \<Rightarrow> Inl (workflow_invalid ''step is unknown'') | Some x \<Rightarrow> Inr x)"

definition update_at :: "PlanStep list \<Rightarrow> string \<Rightarrow> (PlanStep \<Rightarrow> PlanStep) \<Rightarrow> PlanStep list" where
  "update_at steps i f = map (\<lambda>x. if ps_step_id x = i then f x else x) steps"

definition replace_step :: "PlanStep list \<Rightarrow> string \<Rightarrow> (PlanStep \<Rightarrow> PlanStep) \<Rightarrow> PlanStep list result" where
  "replace_step steps i f =
     (if i \<in> set (map ps_step_id steps) then Inr (update_at steps i f) else Inl (workflow_invalid ''step is unknown''))"

text \<open>The steps that are done, and the first step that may run.\<close>

definition done_ids :: "PlanStep list \<Rightarrow> string list" where
  "done_ids steps = map ps_step_id (filter (\<lambda>x. ps_status x = ''SUCCEEDED'') steps)"

definition runnable :: "PlanStep list \<Rightarrow> PlanStep \<Rightarrow> bool" where
  "runnable steps x = (ps_status x \<in> {''PENDING'', ''READY''} \<and> set (ps_depends_on x) \<subseteq> set (done_ids steps))"

definition next_runnable :: "PlanStep list \<Rightarrow> PlanStep option" where
  "next_runnable steps = find (runnable steps) steps"

definition ready_step :: "WorkflowState \<Rightarrow> PlanStep option result" where
  "ready_step s =
     (if ws_status s \<noteq> ''RUNNING'' then Inr None
      else (case ws_current s of
              None \<Rightarrow> Inr (next_runnable (ws_steps s))
            | Some i \<Rightarrow> rbind (get_step s i) (\<lambda>x.
                if ps_status x \<in> {''RUNNING'', ''WAITING''} then Inr None else Inr (next_runnable (ws_steps s)))))"

definition engine_start :: "wflib \<Rightarrow> int \<Rightarrow> WorkflowState \<Rightarrow> WorkflowState result" where
  "engine_start lib now s =
     rbind (ensure_not_expired lib now s) (\<lambda>_.
     if ws_status s \<noteq> ''READY'' then Inl (workflow_conflict ''workflow is not ready'')
     else rbind (ready_step (s\<lparr>ws_status := ''RUNNING''\<rparr>)) (\<lambda>r. case r of
            None \<Rightarrow> Inl (workflow_invalid ''workflow has no executable step'')
          | Some x \<Rightarrow> rbind (replace_step (ws_steps s) (ps_step_id x) (\<lambda>y. y\<lparr>ps_status := ''READY''\<rparr>)) (\<lambda>steps.
              Inr (s\<lparr>ws_status := ''RUNNING'', ws_steps := steps, ws_revision := ws_revision s + 1\<rparr>))))"

definition begin_step :: "wflib \<Rightarrow> int \<Rightarrow> WorkflowState \<Rightarrow> string \<Rightarrow> WorkflowState result" where
  "begin_step lib now s i =
     rbind (ensure_running lib now s) (\<lambda>_. rbind (get_step s i) (\<lambda>x. rbind (ready_step s) (\<lambda>r.
     if ps_status x \<notin> {''PENDING'', ''READY''} \<or> (case r of None \<Rightarrow> True | Some y \<Rightarrow> ps_step_id y \<noteq> i)
     then Inl (workflow_conflict ''step is not ready'')
     else rbind (replace_step (ws_steps s) i (\<lambda>y. y\<lparr>ps_status := ''RUNNING''\<rparr>)) (\<lambda>steps.
       Inr (s\<lparr>ws_current := Some i, ws_steps := steps, ws_revision := ws_revision s + 1\<rparr>)))))"

definition wait_for_governed_action :: "wflib \<Rightarrow> int \<Rightarrow> WorkflowState \<Rightarrow> string \<Rightarrow> WorkflowState result" where
  "wait_for_governed_action lib now s i =
     rbind (ensure_running lib now s) (\<lambda>_. rbind (get_step s i) (\<lambda>x.
     if ps_status x \<noteq> ''RUNNING'' \<or> ps_type x \<noteq> ''GOVERNED_ACTION''
     then Inl (workflow_conflict ''step is not waiting for a governed action'')
     else rbind (replace_step (ws_steps s) i (\<lambda>y. y\<lparr>ps_status := ''WAITING''\<rparr>)) (\<lambda>steps.
       Inr (s\<lparr>ws_steps := steps, ws_current := Some i, ws_revision := ws_revision s + 1\<rparr>))))"

text \<open>What \<open>complete_step\<close> and \<open>complete_governed_action\<close> do with a finished step.\<close>

definition succeeded :: "wflib \<Rightarrow> int \<Rightarrow> string \<Rightarrow> PlanStep \<Rightarrow> PlanStep" where
  "succeeded lib at digest x = x\<lparr>ps_status := ''SUCCEEDED'', ps_observation_digest := Some digest,
     ps_completed_at := Some (now_iso lib at), ps_error := None\<rparr>"

definition settle :: "WorkflowState \<Rightarrow> PlanStep list \<Rightarrow> string \<Rightarrow> WorkflowState" where
  "settle s steps reason =
     (if list_all (\<lambda>x. ps_status x \<in> {''SUCCEEDED'', ''SKIPPED''}) steps
      then s\<lparr>ws_steps := steps, ws_current := None, ws_status := ''SUCCEEDED'', ws_stop_reason := Some reason,
             ws_revision := ws_revision s + 1\<rparr>
      else s\<lparr>ws_steps := steps, ws_current := map_option ps_step_id (next_runnable steps),
             ws_revision := ws_revision s + 1\<rparr>)"

definition complete_governed_action ::
  "wflib \<Rightarrow> int \<Rightarrow> int \<Rightarrow> WorkflowState \<Rightarrow> string \<Rightarrow> string \<Rightarrow> WorkflowState result" where
  "complete_governed_action lib now at s i digest =
     rbind (ensure_running lib now s) (\<lambda>_.
     if length digest \<noteq> 64 \<or> list_ex (\<lambda>c. \<not> is_lower_hex c) digest
     then Inl (WorkflowError ''INVALID_OBSERVATION'' ''governed action Receipt digest is invalid'')
     else rbind (get_step s i) (\<lambda>x.
       if ps_status x \<noteq> ''WAITING'' \<or> ps_type x \<noteq> ''GOVERNED_ACTION''
       then Inl (workflow_conflict ''governed action is not waiting for a Receipt'')
       else Inr (settle s (update_at (ws_steps s) i (\<lambda>_. succeeded lib at digest x)) ''governed action Receipt recorded'')))"

definition complete_step :: "wflib \<Rightarrow> int \<Rightarrow> int \<Rightarrow> WorkflowState \<Rightarrow> Observation \<Rightarrow> WorkflowState result" where
  "complete_step lib now at s obs =
     rbind (ensure_running lib now s) (\<lambda>_. case ws_current s of
       None \<Rightarrow> Inl (workflow_conflict ''no running step'')
     | Some i \<Rightarrow> rbind (get_step s i) (\<lambda>x.
         if ps_status x \<noteq> ''RUNNING'' \<or> ps_tool_name x \<noteq> Some (ob_tool_name obs)
         then Inl (workflow_conflict ''observation does not belong to running step'')
         else Inr (settle s (update_at (ws_steps s) i (\<lambda>_. succeeded lib at (ob_digest obs) x)) ''workflow completed'')))"

text \<open>The running step of \<open>fail_step\<close> and \<open>interrupt\<close>.\<close>

definition running_step :: "WorkflowState \<Rightarrow> PlanStep result" where
  "running_step s = (case ws_current s of
     None \<Rightarrow> Inl (workflow_conflict ''no running step'')
   | Some i \<Rightarrow> rbind (get_step s i) (\<lambda>x.
       if ps_status x \<noteq> ''RUNNING'' then Inl (workflow_conflict ''step is not running'') else Inr x))"

definition failure_text :: "string \<Rightarrow> string \<Rightarrow> string" where
  "failure_text code detail = take 500 (code @ '': '' @ detail)"

definition fail_step :: "wflib \<Rightarrow> int \<Rightarrow> WorkflowState \<Rightarrow> string \<Rightarrow> string \<Rightarrow> WorkflowState result" where
  "fail_step lib now s code detail =
     rbind (ensure_running lib now s) (\<lambda>_. rbind (running_step s) (\<lambda>x.
       Inr (s\<lparr>ws_steps := update_at (ws_steps s) (ps_step_id x)
                (\<lambda>_. x\<lparr>ps_status := ''FAILED'', ps_error := Some (failure_text code detail)\<rparr>),
              ws_status := ''FAILED'', ws_current := Some (ps_step_id x),
              ws_stop_reason := Some (failure_text code detail), ws_revision := ws_revision s + 1\<rparr>)))"

definition interrupt :: "wflib \<Rightarrow> int \<Rightarrow> WorkflowState \<Rightarrow> ClarificationRequest \<Rightarrow> WorkflowState result" where
  "interrupt lib now s request =
     rbind (ensure_running lib now s) (\<lambda>_. rbind (running_step s) (\<lambda>x.
     rbind (replace_step (ws_steps s) (ps_step_id x) (\<lambda>y. y\<lparr>ps_status := ''WAITING''\<rparr>)) (\<lambda>steps.
       Inr (s\<lparr>ws_steps := steps, ws_status := ''INTERRUPTED'', ws_clarification := Some request,
              ws_revision := ws_revision s + 1\<rparr>))))"

definition recovery_text :: string where
  "recovery_text = ''MANUAL_RECOVERY_REQUIRED: inspect uncertain tool result''"

definition check_answer :: "ClarificationRequest \<Rightarrow> pyval \<Rightarrow> string result" where
  "check_answer request answer = (case answer of
     PStr a \<Rightarrow>
       if py_strip a = [] \<or> int (length a) > cr_answer_max_length request
       then Inl (WorkflowError ''INVALID_ANSWER'' ''clarification answer is invalid'')
       else if cr_answer_type request = ''CHOICE'' \<and> a \<notin> set (cr_choices request)
       then Inl (WorkflowError ''INVALID_ANSWER'' ''clarification answer is not an allowed choice'')
       else Inr a
   | _ \<Rightarrow> Inl (WorkflowError ''INVALID_ANSWER'' ''clarification answer is invalid''))"

definition recover_uncertain :: "WorkflowState \<Rightarrow> string \<Rightarrow> WorkflowState result" where
  "recover_uncertain s a =
     (if a \<noteq> ''inspect''
      then Inl (WorkflowError ''MANUAL_RECOVERY_REQUIRED'' ''a new plan version is required before retrying an uncertain tool'')
      else (case ws_current s of
              None \<Rightarrow> Inl (workflow_conflict ''no recoverable step'')
            | Some i \<Rightarrow> rbind (replace_step (ws_steps s) i
                (\<lambda>y. y\<lparr>ps_status := ''FAILED'', ps_error := Some recovery_text\<rparr>)) (\<lambda>steps.
                Inr (s\<lparr>ws_status := ''FAILED'', ws_steps := steps, ws_clarification := None,
                       ws_stop_reason := Some recovery_text, ws_replan_reason := Some ''STATE_DRIFT'',
                       ws_revision := ws_revision s + 1\<rparr>))))"

definition accepted_digest :: "wflib \<Rightarrow> string" where
  "accepted_digest lib = sha256_hex (wf_py lib) ''clarification-answer-accepted''"

definition engine_resume :: "wflib \<Rightarrow> int \<Rightarrow> int \<Rightarrow> WorkflowState \<Rightarrow> string \<Rightarrow> pyval \<Rightarrow> WorkflowState result" where
  "engine_resume lib now at s interrupt_id answer =
     rbind (ensure_not_expired lib now s) (\<lambda>_.
     (case (if ws_status s \<noteq> ''INTERRUPTED'' then None else ws_clarification s) of
        None \<Rightarrow> Inl (workflow_conflict ''workflow is not waiting for clarification'')
      | Some request \<Rightarrow>
          if cr_interrupt_id request \<noteq> interrupt_id
          then Inl (WorkflowError ''INTERRUPT_CONFLICT'' ''interrupt is no longer current'')
          else rbind (check_answer request answer) (\<lambda>a.
            if ws_crash_recovered s then recover_uncertain s a
            else rbind (replace_step (ws_steps s) (case ws_current s of None \<Rightarrow> [] | Some i \<Rightarrow> i)
                         (succeeded lib at (accepted_digest lib))) (\<lambda>steps.
              Inr (s\<lparr>ws_status := ''RUNNING'', ws_steps := steps, ws_current := None, ws_clarification := None,
                     ws_replan_reason := Some ''INPUT_CLARIFIED'', ws_revision := ws_revision s + 1\<rparr>)))))"

text \<open>The three guards of \<open>replan\<close>; \<open>completed\<close> and \<open>old_steps\<close> are dictionaries, so a later step
  with the same id wins.\<close>

definition last_step :: "PlanStep list \<Rightarrow> string \<Rightarrow> PlanStep option" where
  "last_step steps i = map_of (rev (map (\<lambda>x. (ps_step_id x, x)) steps)) i"

definition keeps_completed :: "PlanStep list \<Rightarrow> PlanStep list \<Rightarrow> bool" where
  "keeps_completed old new =
     (let completed = filter (\<lambda>x. ps_status x = ''SUCCEEDED'') old in
      list_all (\<lambda>x. case (find_step new (ps_step_id x), last_step completed (ps_step_id x)) of
                      (Some y, Some z) \<Rightarrow> step_eq y z | _ \<Rightarrow> False) completed)"

definition fresh_status :: "PlanStep list \<Rightarrow> PlanStep \<Rightarrow> unit result" where
  "fresh_status old x =
     (case last_step old (ps_step_id x) of
        None \<Rightarrow> if ps_status x \<notin> {''PENDING'', ''READY''}
                then Inl (WorkflowError ''PLAN_CONFLICT'' ''new steps must start pending'') else Inr ()
      | Some y \<Rightarrow> if ps_status y \<noteq> ''SUCCEEDED'' \<and> ps_status x \<notin> {''PENDING'', ''READY''}
                then Inl (WorkflowError ''PLAN_CONFLICT'' ''unstarted steps cannot be completed by replan'') else Inr ())"

definition replan :: "wflib \<Rightarrow> int \<Rightarrow> WorkflowState \<Rightarrow> PlanStep list \<Rightarrow> string \<Rightarrow> WorkflowState result" where
  "replan lib now s steps reason =
     rbind (ensure_not_expired lib now s) (\<lambda>_. rbind (validate_plan_dag steps) (\<lambda>_.
     if \<not> keeps_completed (ws_steps s) steps
     then Inl (WorkflowError ''PLAN_CONFLICT'' ''completed steps cannot be modified'')
     else if list_ex (\<lambda>x. ps_status x = ''RUNNING'') steps
     then Inl (WorkflowError ''PLAN_CONFLICT'' ''replacement plan cannot contain running steps'')
     else rbind (rmap (fresh_status (ws_steps s)) steps) (\<lambda>_.
       Inr (s\<lparr>ws_steps := steps, ws_plan_version := ws_plan_version s + 1, ws_revision := ws_revision s + 1,
              ws_status := ''RUNNING'', ws_current := None, ws_clarification := None,
              ws_replan_reason := Some reason, ws_stop_reason := None\<rparr>))))"

definition engine_cancel :: "WorkflowState \<Rightarrow> string \<Rightarrow> WorkflowState result" where
  "engine_cancel s detail =
     (if ws_status s \<in> set TERMINAL then Inl (workflow_conflict ''workflow is terminal'')
      else Inr (s\<lparr>ws_status := ''CANCELLED'', ws_stop_reason := Some (take 500 detail),
                  ws_revision := ws_revision s + 1, ws_clarification := None\<rparr>))"

definition engine_expire :: "WorkflowState \<Rightarrow> WorkflowState" where
  "engine_expire s =
     (if ws_status s \<in> set TERMINAL then s
      else s\<lparr>ws_status := ''EXPIRED'', ws_stop_reason := Some ''workflow deadline expired'',
             ws_revision := ws_revision s + 1, ws_clarification := None\<rparr>)"

definition engine_result :: "WorkflowState \<Rightarrow> string list \<Rightarrow> bool \<Rightarrow> WorkflowResult result" where
  "engine_result s observations resumed =
     (if length observations \<le> 256
      then Inr \<lparr>wr_state = s, wr_observations = observations, wr_resumed = resumed\<rparr> else Inl ValueError)"

end
