(* ===== verification/Workflow_Invariants.thy ===== *)
theory Workflow_Invariants
  imports Workflow_Engine
begin

text \<open>
  What the engine's operations keep.  \<open>engine_step\<close> is one successful call of any operation with
  inputs that satisfy their own contracts; the lemmas show, one operation at a time, that
  the validators of \<open>WorkflowState\<close> still hold although no operation runs them, that the step in progress
  is the current one, and that a step only starts after its dependencies succeeded.
\<close>

section \<open>Calls\<close>

inductive engine_step :: "wflib \<Rightarrow> WorkflowState \<Rightarrow> WorkflowState \<Rightarrow> bool" for lib where
  es_start: "engine_start lib now s = Inr s' \<Longrightarrow> engine_step lib s s'"
| es_begin: "begin_step lib now s i = Inr s' \<Longrightarrow> engine_step lib s s'"
| es_wait: "wait_for_governed_action lib now s i = Inr s' \<Longrightarrow> engine_step lib s s'"
| es_receipt: "complete_governed_action lib now at s i digest = Inr s' \<Longrightarrow> engine_step lib s s'"
| es_complete: "complete_step lib now at s obs = Inr s' \<Longrightarrow> valid_observation (wf_py lib) obs \<Longrightarrow> engine_step lib s s'"
| es_fail: "fail_step lib now s code detail = Inr s' \<Longrightarrow> engine_step lib s s'"
| es_interrupt: "interrupt lib now s request = Inr s' \<Longrightarrow> valid_clarification request \<Longrightarrow> engine_step lib s s'"
| es_resume: "engine_resume lib now at s interrupt_id answer = Inr s' \<Longrightarrow> engine_step lib s s'"
| es_replan: "replan lib now s steps reason = Inr s' \<Longrightarrow> steps \<noteq> [] \<Longrightarrow> list_all valid_step steps \<Longrightarrow>
    reason \<in> set REPLAN_REASONS \<Longrightarrow> ws_plan_version s < 10000 \<Longrightarrow> engine_step lib s s'"
| es_cancel: "engine_cancel s detail = Inr s' \<Longrightarrow> detail \<noteq> [] \<Longrightarrow> engine_step lib s s'"
| es_expire: "engine_expire s = s' \<Longrightarrow> engine_step lib s s'"

text \<open>What is assumed of the parameters: a UTC time with milliseconds is short text, and SHA-256
  digests are 64 hexadecimal digits.\<close>

definition wflib_ok :: "wflib \<Rightarrow> bool" where
  "wflib_ok lib = ((\<forall>t. length (iso_format lib t) \<le> 64) \<and> (\<forall>b. sha_DIGEST (sha256_hex (wf_py lib) b)))"

section \<open>Replacing one step\<close>

text \<open>The place of a step in the plan.\<close>

definition node :: "PlanStep \<Rightarrow> string \<times> int \<times> string list" where
  "node x = (ps_step_id x, ps_order x, ps_depends_on x)"

definition put :: "PlanStep list \<Rightarrow> PlanStep \<Rightarrow> PlanStep \<Rightarrow> PlanStep list" where
  "put steps x y = update_at steps (ps_step_id x) (\<lambda>_. y)"

lemma plan_ok_nodes:
  assumes "map node a = map node b"
  shows "plan_ok a \<longleftrightarrow> plan_ok b"
proof -
  have "plan_rel c = {(fst n, d) | n d. n \<in> set (map node c) \<and> d \<in> set (snd (snd n))}" for c
    by (fastforce simp: plan_rel_def node_def)
  then have "plan_ok c \<longleftrightarrow> (let ns = map node c in distinct (map fst ns) \<and> map (fst \<circ> snd) ns = map int [1..<length ns + 1] \<and>
      (\<forall>n \<in> set ns. set (snd (snd n)) \<subseteq> set (map fst ns)) \<and>
      acyclic {(fst n, d) | n d. n \<in> set ns \<and> d \<in> set (snd (snd n))})" for c
    by (simp add: plan_ok_def Let_def comp_def image_image del: upt_Suc) (simp add: node_def image_image)
  then show ?thesis by (simp only: assms)
qed

lemma plan_ok_distinct: "plan_ok steps \<Longrightarrow> distinct (map ps_step_id steps)"
  by (simp add: plan_ok_def)

lemma same_id:
  assumes "plan_ok steps" and "x \<in> set steps" and "y \<in> set steps" and "ps_step_id x = ps_step_id y"
  shows "x = y"
  using assms plan_ok_distinct [of steps] by (auto simp: distinct_map inj_on_def)

lemma find_step_member: "find_step steps i = Some x \<Longrightarrow> x \<in> set steps \<and> ps_step_id x = i"
  by (auto simp: find_step_def find_Some_iff)

lemma get_step_ok: "get_step s i = Inr x \<Longrightarrow> x \<in> set (ws_steps s) \<and> ps_step_id x = i"
  by (auto simp: get_step_def dest: find_step_member split: option.splits)

lemma update_at_put:
  assumes "plan_ok steps" and "x \<in> set steps" and "ps_step_id x = i"
  shows "update_at steps i f = put steps x (f x)"
  unfolding put_def update_at_def
proof (rule map_cong [OF refl])
  fix y assume "y \<in> set steps"
  with same_id [OF assms(1) this assms(2)] assms(3)
  show "(if ps_step_id y = i then f y else y) = (if ps_step_id y = ps_step_id x then f x else y)" by auto
qed

lemma set_put:
  assumes "plan_ok steps" and "x \<in> set steps"
  shows "set (put steps x y) = insert y (set steps - {x})"
  using assms same_id [OF assms(1) _ assms(2)] by (auto simp: put_def update_at_def image_iff)

lemma map_node_put:
  assumes "plan_ok steps" and "x \<in> set steps" and "node y = node x"
  shows "map node (put steps x y) = map node steps"
  using assms same_id [OF assms(1) _ assms(2)] by (auto simp: put_def update_at_def)

lemma plan_ok_put:
  "plan_ok steps \<Longrightarrow> x \<in> set steps \<Longrightarrow> node y = node x \<Longrightarrow> plan_ok (put steps x y)"
  using plan_ok_nodes [OF map_node_put] by blast

lemma length_put [simp]: "length (put steps x y) = length steps"
  by (simp add: put_def update_at_def)

lemma ids_put:
  "plan_ok steps \<Longrightarrow> x \<in> set steps \<Longrightarrow> node y = node x \<Longrightarrow> map ps_step_id (put steps x y) = map ps_step_id steps"
  by (auto simp: put_def update_at_def node_def)

lemma valid_steps_put:
  "plan_ok steps \<Longrightarrow> x \<in> set steps \<Longrightarrow> list_all valid_step steps \<Longrightarrow> valid_step y \<Longrightarrow> list_all valid_step (put steps x y)"
  by (auto simp: list_all_iff set_put)

lemma set_done_ids: "set (done_ids steps) = {ps_step_id x | x. x \<in> set steps \<and> ps_status x = ''SUCCEEDED''}"
  by (auto simp: done_ids_def)

lemma done_put:
  assumes "plan_ok steps" and "x \<in> set steps" and "ps_status x \<noteq> ''SUCCEEDED''"
  shows "set (done_ids steps) \<subseteq> set (done_ids (put steps x y))"
  using assms by (auto simp: set_done_ids set_put)

lemma node_updates [simp]:
  "node (x\<lparr>ps_status := a\<rparr>) = node x" "node (x\<lparr>ps_error := b\<rparr>) = node x"
  "node (x\<lparr>ps_observation_digest := b\<rparr>) = node x" "node (x\<lparr>ps_completed_at := b\<rparr>) = node x"
  by (simp_all add: node_def)

section \<open>Steps stay valid\<close>

lemma declared_contract_updates [simp]:
  "declared_contract (x\<lparr>ps_status := a\<rparr>) = declared_contract x" "declared_contract (x\<lparr>ps_error := b\<rparr>) = declared_contract x"
  "declared_contract (x\<lparr>ps_observation_digest := b\<rparr>) = declared_contract x"
  "declared_contract (x\<lparr>ps_completed_at := b\<rparr>) = declared_contract x"
  by (cases "ps_tool_name x"; simp add: declared_contract_def)+

lemma valid_step_status:
  assumes "valid_step x" and "st \<in> {''READY'', ''RUNNING'', ''WAITING''}"
  shows "valid_step (x\<lparr>ps_status := st\<rparr>)"
  using assms
  by (auto simp: valid_step_def step_shape_def validate_tool_shape_def status_evidence_def STEP_STATUSES_def)

lemma valid_step_succeeded:
  assumes "valid_step x" and "sha_DIGEST d" and "wflib_ok lib"
  shows "valid_step (succeeded lib at d x)"
  using assms
  by (auto simp: valid_step_def step_shape_def validate_tool_shape_def status_evidence_def
      STEP_STATUSES_def succeeded_def check_digest_def opt_max_def now_iso_def wflib_ok_def)

lemma valid_step_failed:
  assumes "valid_step x" and "e \<noteq> []" and "length e \<le> 500"
  shows "valid_step (x\<lparr>ps_status := ''FAILED'', ps_error := Some e\<rparr>)"
  using assms
  by (auto simp: valid_step_def step_shape_def validate_tool_shape_def status_evidence_def
      STEP_STATUSES_def opt_max_def)

lemma node_succeeded [simp]: "node (succeeded lib at d x) = node x"
  and status_succeeded [simp]: "ps_status (succeeded lib at d x) = ''SUCCEEDED''"
  by (simp_all add: succeeded_def node_def)

lemma failure_text_ok: "failure_text code detail \<noteq> [] \<and> length (failure_text code detail) \<le> 500"
  by (simp add: failure_text_def)

lemma recovery_text_ok: "recovery_text \<noteq> [] \<and> length recovery_text \<le> 500"
  by (simp add: recovery_text_def)

section \<open>Coherence of a state\<close>

definition active :: "PlanStep \<Rightarrow> bool" where
  "active x = (ps_status x \<in> {''RUNNING'', ''WAITING''})"

definition started :: "PlanStep \<Rightarrow> bool" where
  "started x = (ps_status x \<in> {''RUNNING'', ''WAITING'', ''SUCCEEDED'', ''FAILED''})"

definition coherent :: "WorkflowState \<Rightarrow> bool" where
  "coherent s =
     ((\<forall>x \<in> set (ws_steps s). active x \<longrightarrow> ws_current s = Some (ps_step_id x)) \<and>
      (ws_status s = ''INTERRUPTED'' \<longrightarrow>
         (\<exists>x \<in> set (ws_steps s). ws_current s = Some (ps_step_id x) \<and> ps_status x = ''WAITING'')) \<and>
      (\<forall>x \<in> set (ws_steps s). started x \<longrightarrow> set (ps_depends_on x) \<subseteq> set (done_ids (ws_steps s))))"

lemma coherent_active: "coherent s \<Longrightarrow> x \<in> set (ws_steps s) \<Longrightarrow> active x \<Longrightarrow> ws_current s = Some (ps_step_id x)"
  unfolding coherent_def by blast

lemma coherent_deps:
  "coherent s \<Longrightarrow> x \<in> set (ws_steps s) \<Longrightarrow> started x \<Longrightarrow> set (ps_depends_on x) \<subseteq> set (done_ids (ws_steps s))"
  unfolding coherent_def by blast

lemma coherent_put:
  assumes p: "plan_ok (ws_steps s)" and c: "coherent s" and x: "x \<in> set (ws_steps s)" and n: "node y = node x"
    and ns: "ps_status x \<noteq> ''SUCCEEDED''" and st: "ws_steps s' = put (ws_steps s) x y"
    and others: "\<forall>z \<in> set (ws_steps s). z \<noteq> x \<longrightarrow> active z \<longrightarrow> ws_current s' = Some (ps_step_id z)"
    and ay: "active y \<Longrightarrow> ws_current s' = Some (ps_step_id x)"
    and sy: "started y \<Longrightarrow> set (ps_depends_on x) \<subseteq> set (done_ids (ws_steps s))"
    and iy: "ws_status s' = ''INTERRUPTED'' \<Longrightarrow> ws_current s' = Some (ps_step_id x) \<and> ps_status y = ''WAITING''"
  shows "coherent s'"
proof -
  have idy: "ps_step_id y = ps_step_id x" and dy: "ps_depends_on y = ps_depends_on x" using n by (simp_all add: node_def)
  have set': "set (ws_steps s') = insert y (set (ws_steps s) - {x})" using st set_put [OF p x] by simp
  have mono: "set (done_ids (ws_steps s)) \<subseteq> set (done_ids (ws_steps s'))" using done_put [OF p x ns] st by simp
  have "\<forall>z \<in> set (ws_steps s'). active z \<longrightarrow> ws_current s' = Some (ps_step_id z)"
    using others ay idy by (auto simp: set')
  moreover have "\<forall>z \<in> set (ws_steps s'). started z \<longrightarrow> set (ps_depends_on z) \<subseteq> set (done_ids (ws_steps s'))"
  proof
    fix z assume "z \<in> set (ws_steps s')"
    then consider "z = y" | "z \<in> set (ws_steps s)" using set' by blast
    then show "started z \<longrightarrow> set (ps_depends_on z) \<subseteq> set (done_ids (ws_steps s'))"
      using coherent_deps [OF c, of z] mono sy dy by cases auto
  qed
  moreover have "ws_status s' = ''INTERRUPTED'' \<longrightarrow>
      (\<exists>z \<in> set (ws_steps s'). ws_current s' = Some (ps_step_id z) \<and> ps_status z = ''WAITING'')"
    using iy idy unfolding set' by auto
  ultimately show ?thesis unfolding coherent_def by blast
qed

text \<open>When the current step is in progress, nothing else is.\<close>

lemma only_active:
  assumes "plan_ok (ws_steps s)" and "coherent s" and "x \<in> set (ws_steps s)" and "active x"
  shows "\<forall>z \<in> set (ws_steps s). z \<noteq> x \<longrightarrow> \<not> active z"
proof (intro ballI impI notI)
  fix z assume z: "z \<in> set (ws_steps s)" "z \<noteq> x" "active z"
  have "ps_step_id z = ps_step_id x"
    using coherent_active [OF assms(2) z(1,3)] coherent_active [OF assms(2-4)] by simp
  with same_id [OF assms(1) z(1) assms(3)] z(2) show False by simp
qed

lemma active_deps:
  "coherent s \<Longrightarrow> x \<in> set (ws_steps s) \<Longrightarrow> active x \<Longrightarrow> set (ps_depends_on x) \<subseteq> set (done_ids (ws_steps s))"
  by (erule (1) coherent_deps) (auto simp: active_def started_def)

lemma coherent_same_steps:
  "coherent s \<Longrightarrow> ws_steps s' = ws_steps s \<Longrightarrow> ws_current s' = ws_current s \<Longrightarrow> ws_status s' \<noteq> ''INTERRUPTED'' \<Longrightarrow> coherent s'"
  by (simp add: coherent_def)

lemma next_runnable_ok: "next_runnable steps = Some x \<Longrightarrow> x \<in> set steps \<and> runnable steps x"
  by (auto simp: next_runnable_def find_Some_iff)

text \<open>A step is only offered while nothing is in progress.\<close>

lemma ready_step_ok:
  assumes "plan_ok (ws_steps s)" and "coherent s" and "ready_step s = Inr (Some x)"
  shows "x \<in> set (ws_steps s) \<and> runnable (ws_steps s) x \<and> (\<forall>z \<in> set (ws_steps s). \<not> active z)"
proof -
  have nx: "next_runnable (ws_steps s) = Some x"
    using assms(3) by (auto simp: ready_step_def result_simps split: if_splits option.splits)
  have "\<not> active z" if z: "z \<in> set (ws_steps s)" for z
  proof
    assume a: "active z"
    with assms(2) z have cur: "ws_current s = Some (ps_step_id z)" by (auto simp: coherent_def)
    then obtain y where y: "get_step s (ps_step_id z) = Inr y" "\<not> active y"
      using assms(3) by (auto simp: ready_step_def result_simps active_def split: if_splits)
    from get_step_ok [OF y(1)] have "y = z" using same_id [OF assms(1)] z by blast
    with y(2) a show False by simp
  qed
  with next_runnable_ok [OF nx] show ?thesis by blast
qed

section \<open>What each operation did\<close>

text \<open>The characteristic effect of each operation on a state whose plan is in order.\<close>

lemma ensure_running_ok: "ensure_running lib now s = Inr u \<longleftrightarrow> ensure_not_expired lib now s = Inr () \<and> ws_status s = ''RUNNING''"
  by (auto simp: ensure_running_def result_simps)

lemma replace_step_ok:
  assumes "plan_ok steps"
  shows "replace_step steps i f = Inr steps' \<longleftrightarrow> (\<exists>x \<in> set steps. ps_step_id x = i \<and> steps' = put steps x (f x))"
proof -
  have "update_at steps i f = put steps x (f x)" if "x \<in> set steps" "ps_step_id x = i" for x
    using update_at_put [OF assms] that by blast
  then show ?thesis by (auto simp: replace_step_def image_iff)
qed

lemma start_effect:
  assumes "plan_ok (ws_steps s)" and "engine_start lib now s = Inr s'"
  obtains x where "x \<in> set (ws_steps s)" "runnable (ws_steps s) x" "ws_status s = ''READY''"
    "s' = s\<lparr>ws_status := ''RUNNING'', ws_steps := put (ws_steps s) x (x\<lparr>ps_status := ''READY''\<rparr>),
            ws_revision := ws_revision s + 1\<rparr>"
proof -
  from assms obtain r x where r: "ready_step (s\<lparr>ws_status := ''RUNNING''\<rparr>) = Inr (Some r)" "ws_status s = ''READY''"
    "x \<in> set (ws_steps s)" "ps_step_id x = ps_step_id r"
    "s' = s\<lparr>ws_status := ''RUNNING'', ws_steps := put (ws_steps s) x (x\<lparr>ps_status := ''READY''\<rparr>),
            ws_revision := ws_revision s + 1\<rparr>"
    by (auto simp: engine_start_def result_simps replace_step_ok split: option.splits)
  from r(1) have "next_runnable (ws_steps s) = Some r"
    by (auto simp: ready_step_def result_simps split: option.splits if_splits)
  from next_runnable_ok [OF this] r same_id [OF assms(1)] that show ?thesis by metis
qed

lemma begin_effect:
  assumes "plan_ok (ws_steps s)" and "begin_step lib now s i = Inr s'"
  obtains x where "ready_step s = Inr (Some x)" "x \<in> set (ws_steps s)" "ps_step_id x = i" "ws_status s = ''RUNNING''"
    "s' = s\<lparr>ws_current := Some i, ws_steps := put (ws_steps s) x (x\<lparr>ps_status := ''RUNNING''\<rparr>),
            ws_revision := ws_revision s + 1\<rparr>"
proof -
  from assms obtain r x where r: "ready_step s = Inr (Some r)" "ps_step_id r = i" "ws_status s = ''RUNNING''"
    "x \<in> set (ws_steps s)" "ps_step_id x = i"
    "s' = s\<lparr>ws_current := Some i, ws_steps := put (ws_steps s) x (x\<lparr>ps_status := ''RUNNING''\<rparr>),
            ws_revision := ws_revision s + 1\<rparr>"
    by (auto simp: begin_step_def result_simps replace_step_ok ensure_running_ok split: option.splits if_splits)
  from r(1) have "next_runnable (ws_steps s) = Some r"
    by (auto simp: ready_step_def result_simps split: option.splits if_splits)
  from next_runnable_ok [OF this] r same_id [OF assms(1)] have "x = r" by metis
  with r that show ?thesis by blast
qed

lemma wait_effect:
  assumes "plan_ok (ws_steps s)" and "wait_for_governed_action lib now s i = Inr s'"
  obtains x where "x \<in> set (ws_steps s)" "ps_step_id x = i" "ps_status x = ''RUNNING''" "ws_status s = ''RUNNING''"
    "ps_type x = ''GOVERNED_ACTION''"
    "s' = s\<lparr>ws_steps := put (ws_steps s) x (x\<lparr>ps_status := ''WAITING''\<rparr>), ws_current := Some i,
            ws_revision := ws_revision s + 1\<rparr>"
proof -
  from assms obtain x y where x: "get_step s i = Inr y" "ps_status y = ''RUNNING''" "ps_type y = ''GOVERNED_ACTION''"
    "ws_status s = ''RUNNING''" "x \<in> set (ws_steps s)" "ps_step_id x = i"
    "s' = s\<lparr>ws_steps := put (ws_steps s) x (x\<lparr>ps_status := ''WAITING''\<rparr>), ws_current := Some i,
            ws_revision := ws_revision s + 1\<rparr>"
    by (auto simp: wait_for_governed_action_def result_simps replace_step_ok ensure_running_ok split: if_splits)
  with get_step_ok [OF x(1)] same_id [OF assms(1)] that show ?thesis by metis
qed

lemma receipt_effect:
  assumes "plan_ok (ws_steps s)" and "complete_governed_action lib now at s i digest = Inr s'"
  obtains x where "x \<in> set (ws_steps s)" "ps_step_id x = i" "ps_status x = ''WAITING''" "ws_status s = ''RUNNING''"
    "ps_type x = ''GOVERNED_ACTION''" "sha_DIGEST digest"
    "s' = settle s (put (ws_steps s) x (succeeded lib at digest x)) ''governed action Receipt recorded''"
proof -
  from assms obtain x where x: "get_step s i = Inr x" "ps_status x = ''WAITING''" "ps_type x = ''GOVERNED_ACTION''"
    "ws_status s = ''RUNNING''" "sha_DIGEST digest"
    "s' = settle s (update_at (ws_steps s) i (\<lambda>_. succeeded lib at digest x)) ''governed action Receipt recorded''"
    by (auto simp: complete_governed_action_def result_simps ensure_running_ok sha_DIGEST_def list_ex_iff list_all_iff
        split: if_splits)
  with get_step_ok [OF x(1)] update_at_put [OF assms(1)] that show ?thesis by metis
qed

lemma complete_effect:
  assumes "plan_ok (ws_steps s)" and "complete_step lib now at s obs = Inr s'"
  obtains x where "x \<in> set (ws_steps s)" "ws_current s = Some (ps_step_id x)" "ps_status x = ''RUNNING''"
    "ws_status s = ''RUNNING''" "ps_tool_name x = Some (ob_tool_name obs)"
    "s' = settle s (put (ws_steps s) x (succeeded lib at (ob_digest obs) x)) ''workflow completed''"
proof -
  from assms obtain x i where x: "get_step s i = Inr x" "ws_current s = Some i" "ps_status x = ''RUNNING''"
    "ws_status s = ''RUNNING''" "ps_tool_name x = Some (ob_tool_name obs)"
    "s' = settle s (update_at (ws_steps s) i (\<lambda>_. succeeded lib at (ob_digest obs) x)) ''workflow completed''"
    by (auto simp: complete_step_def result_simps ensure_running_ok split: if_splits option.splits)
  with get_step_ok [OF x(1)] update_at_put [OF assms(1)] that show ?thesis by metis
qed

lemma running_step_ok:
  "running_step s = Inr x \<Longrightarrow> x \<in> set (ws_steps s) \<and> ws_current s = Some (ps_step_id x) \<and> ps_status x = ''RUNNING''"
  by (auto simp: running_step_def result_simps dest: get_step_ok split: option.splits if_splits)

lemma fail_effect:
  assumes "plan_ok (ws_steps s)" and "fail_step lib now s code detail = Inr s'"
  obtains x where "x \<in> set (ws_steps s)" "ws_current s = Some (ps_step_id x)" "ps_status x = ''RUNNING''"
    "ws_status s = ''RUNNING''"
    "s' = s\<lparr>ws_steps := put (ws_steps s) x (x\<lparr>ps_status := ''FAILED'', ps_error := Some (failure_text code detail)\<rparr>),
            ws_status := ''FAILED'', ws_current := Some (ps_step_id x),
            ws_stop_reason := Some (failure_text code detail), ws_revision := ws_revision s + 1\<rparr>"
proof -
  from assms obtain x where x: "running_step s = Inr x" "ws_status s = ''RUNNING''"
    "s' = s\<lparr>ws_steps := put (ws_steps s) x (x\<lparr>ps_status := ''FAILED'', ps_error := Some (failure_text code detail)\<rparr>),
            ws_status := ''FAILED'', ws_current := Some (ps_step_id x),
            ws_stop_reason := Some (failure_text code detail), ws_revision := ws_revision s + 1\<rparr>"
    by (auto simp: fail_step_def result_simps ensure_running_ok put_def)
  with running_step_ok [OF x(1)] that show ?thesis by blast
qed

lemma interrupt_effect:
  assumes "plan_ok (ws_steps s)" and "interrupt lib now s request = Inr s'"
  obtains x where "x \<in> set (ws_steps s)" "ws_current s = Some (ps_step_id x)" "ps_status x = ''RUNNING''"
    "ws_status s = ''RUNNING''"
    "s' = s\<lparr>ws_steps := put (ws_steps s) x (x\<lparr>ps_status := ''WAITING''\<rparr>), ws_status := ''INTERRUPTED'',
            ws_clarification := Some request, ws_revision := ws_revision s + 1\<rparr>"
proof -
  from assms obtain y x where x: "running_step s = Inr x" "ws_status s = ''RUNNING''"
    "y \<in> set (ws_steps s)" "ps_step_id y = ps_step_id x"
    "s' = s\<lparr>ws_steps := put (ws_steps s) y (y\<lparr>ps_status := ''WAITING''\<rparr>), ws_status := ''INTERRUPTED'',
            ws_clarification := Some request, ws_revision := ws_revision s + 1\<rparr>"
    by (auto simp: interrupt_def result_simps ensure_running_ok replace_step_ok)
  with running_step_ok [OF x(1)] same_id [OF assms(1)] that show ?thesis by metis
qed

lemma resume_effect:
  assumes p: "plan_ok (ws_steps s)" and c: "coherent s" and "engine_resume lib now at s interrupt_id answer = Inr s'"
  obtains x where "x \<in> set (ws_steps s)" "ws_current s = Some (ps_step_id x)" "ps_status x = ''WAITING''"
    "\<not> ws_crash_recovered s"
    "s' = s\<lparr>ws_status := ''RUNNING'', ws_steps := put (ws_steps s) x (succeeded lib at (accepted_digest lib) x),
            ws_current := None, ws_clarification := None, ws_replan_reason := Some ''INPUT_CLARIFIED'',
            ws_revision := ws_revision s + 1\<rparr>"
  | x where "x \<in> set (ws_steps s)" "ws_current s = Some (ps_step_id x)" "ps_status x = ''WAITING''"
    "ws_crash_recovered s"
    "s' = s\<lparr>ws_status := ''FAILED'', ws_steps := put (ws_steps s) x (x\<lparr>ps_status := ''FAILED'', ps_error := Some recovery_text\<rparr>),
            ws_clarification := None, ws_stop_reason := Some recovery_text, ws_replan_reason := Some ''STATE_DRIFT'',
            ws_revision := ws_revision s + 1\<rparr>"
proof -
  from assms(3) have int: "ws_status s = ''INTERRUPTED''"
    by (auto simp: engine_resume_def result_simps split: if_splits option.splits)
  with c obtain x where x: "x \<in> set (ws_steps s)" "ws_current s = Some (ps_step_id x)" "ps_status x = ''WAITING''"
    by (auto simp: coherent_def)
  have put: "replace_step (ws_steps s) (ps_step_id x) f = Inr (put (ws_steps s) x (f x))" for f
    using x(1) update_at_put [OF p x(1)] by (simp add: replace_step_def)
  show thesis
  proof (cases "ws_crash_recovered s")
    case True
    with assms(3) x put have "s' = s\<lparr>ws_status := ''FAILED'',
        ws_steps := put (ws_steps s) x (x\<lparr>ps_status := ''FAILED'', ps_error := Some recovery_text\<rparr>),
        ws_clarification := None, ws_stop_reason := Some recovery_text, ws_replan_reason := Some ''STATE_DRIFT'',
        ws_revision := ws_revision s + 1\<rparr>"
      by (auto simp: engine_resume_def recover_uncertain_def result_simps split: if_splits option.splits)
    with True x that(2) show thesis by blast
  next
    case False
    with assms(3) x put have "s' = s\<lparr>ws_status := ''RUNNING'',
        ws_steps := put (ws_steps s) x (succeeded lib at (accepted_digest lib) x),
        ws_current := None, ws_clarification := None, ws_replan_reason := Some ''INPUT_CLARIFIED'',
        ws_revision := ws_revision s + 1\<rparr>"
      by (auto simp: engine_resume_def result_simps split: if_splits option.splits)
    with False x that(1) show thesis by blast
  qed
qed

lemma last_step_of:
  assumes "distinct (map ps_step_id steps)" and "x \<in> set steps"
  shows "last_step steps (ps_step_id x) = Some x"
proof -
  have "distinct (map fst (rev (map (\<lambda>x. (ps_step_id x, x)) steps)))"
    using assms(1) by (simp add: comp_def rev_map [symmetric])
  then show ?thesis unfolding last_step_def using assms(2) by (intro map_of_is_SomeI) auto
qed

lemma last_step_member: "last_step steps i = Some x \<Longrightarrow> x \<in> set steps \<and> ps_step_id x = i"
  unfolding last_step_def by (auto dest!: map_of_SomeD)

text \<open>
  A replacement plan keeps every completed step, equal to the old one, and starts everything else
  afresh.
\<close>

lemma replan_effect:
  assumes p: "plan_ok (ws_steps s)" and r: "replan lib now s steps reason = Inr s'"
  shows "plan_ok steps"
    and "s' = s\<lparr>ws_steps := steps, ws_plan_version := ws_plan_version s + 1, ws_revision := ws_revision s + 1,
            ws_status := ''RUNNING'', ws_current := None, ws_clarification := None,
            ws_replan_reason := Some reason, ws_stop_reason := None\<rparr>"
    and "\<And>x. x \<in> set (ws_steps s) \<Longrightarrow> ps_status x = ''SUCCEEDED'' \<Longrightarrow> \<exists>y \<in> set steps. step_eq y x"
    and "\<And>y. y \<in> set steps \<Longrightarrow> ps_status y \<in> {''PENDING'', ''READY''} \<or>
          (\<exists>x \<in> set (ws_steps s). ps_status x = ''SUCCEEDED'' \<and> step_eq y x)"
proof -
  from r have v: "validate_plan_dag steps = Inr ()" and k: "keeps_completed (ws_steps s) steps"
    and run: "\<not> list_ex (\<lambda>x. ps_status x = ''RUNNING'') steps" and f: "is_ok (rmap (fresh_status (ws_steps s)) steps)"
    and s': "s' = s\<lparr>ws_steps := steps, ws_plan_version := ws_plan_version s + 1, ws_revision := ws_revision s + 1,
            ws_status := ''RUNNING'', ws_current := None, ws_clarification := None,
            ws_replan_reason := Some reason, ws_stop_reason := None\<rparr>"
    by (auto simp: replan_def result_simps split: if_splits)
  show ok: "plan_ok steps" using v by (simp add: validate_plan_dag_iff)
  show "s' = s\<lparr>ws_steps := steps, ws_plan_version := ws_plan_version s + 1, ws_revision := ws_revision s + 1,
            ws_status := ''RUNNING'', ws_current := None, ws_clarification := None,
            ws_replan_reason := Some reason, ws_stop_reason := None\<rparr>" by (rule s')
  have d: "distinct (map ps_step_id (filter (\<lambda>x. ps_status x = ''SUCCEEDED'') (ws_steps s)))"
    using plan_ok_distinct [OF p] by (rule distinct_map_filter)
  have kept: "\<exists>y. find_step steps (ps_step_id x) = Some y \<and> step_eq y x"
    if "x \<in> set (ws_steps s)" "ps_status x = ''SUCCEEDED''" for x
    using k that last_step_of [OF d, of x] by (auto simp: keeps_completed_def Let_def list_all_iff split: option.splits)
  then show "\<exists>y \<in> set steps. step_eq y x" if "x \<in> set (ws_steps s)" "ps_status x = ''SUCCEEDED''" for x
    using that find_step_member by blast
  fix y assume y: "y \<in> set steps"
  from f obtain us where "rmap (fresh_status (ws_steps s)) steps = Inr us" by (auto simp: is_ok_def split: sum.splits)
  then have "fresh_status (ws_steps s) y = Inr ()"
    using y by (auto simp: rmap_ok_iff list_all2_conv_all_nth in_set_conv_nth)
  then consider "ps_status y \<in> {''PENDING'', ''READY''}"
    | x where "last_step (ws_steps s) (ps_step_id y) = Some x" "ps_status x = ''SUCCEEDED''"
    by (auto simp: fresh_status_def split: option.splits if_splits)
  then show "ps_status y \<in> {''PENDING'', ''READY''} \<or> (\<exists>x \<in> set (ws_steps s). ps_status x = ''SUCCEEDED'' \<and> step_eq y x)"
  proof cases
    case 1
    then show ?thesis by simp
  next
    case (2 x)
    with last_step_member [OF 2(1)] kept obtain z where z: "find_step steps (ps_step_id x) = Some z" "step_eq z x" by blast
    with find_step_member [OF z(1)] last_step_member [OF 2(1)] same_id [OF ok _ y] have "z = y" by metis
    with z 2 last_step_member [OF 2(1)] show ?thesis by blast
  qed
qed

section \<open>Preservation\<close>

definition sound :: "wflib \<Rightarrow> WorkflowState \<Rightarrow> bool" where
  "sound lib s = (valid_state lib s \<and> coherent s)"

lemma valid_state_plan: "valid_state lib s \<Longrightarrow> plan_ok (ws_steps s)"
  by (simp add: valid_state_def state_shape_def)

lemma valid_state_step: "valid_state lib s \<Longrightarrow> x \<in> set (ws_steps s) \<Longrightarrow> valid_step x"
  by (simp add: valid_state_def list_all_iff)

lemma valid_running: "valid_state lib s \<Longrightarrow> ws_status s \<noteq> ''INTERRUPTED'' \<Longrightarrow> ws_clarification s = None"
  by (simp add: valid_state_def state_shape_def validate_state_shape_def)

text \<open>The conditions an updated state has to meet again when one step was replaced.\<close>

lemma valid_state_put:
  assumes v: "valid_state lib s" and x: "x \<in> set (ws_steps s)" and n: "node y = node x" and y: "valid_step y"
    and same: "ws_run_id s' = ws_run_id s" "ws_plan_version s' = ws_plan_version s" "ws_graph_version s' = ws_graph_version s"
      "ws_deadline s' = ws_deadline s" "ws_trace_id s' = ws_trace_id s" "ws_budget s' = ws_budget s"
      "ws_revision s' = ws_revision s + 1" "ws_steps s' = put (ws_steps s) x y"
    and st: "ws_status s' \<in> set WORKFLOW_STATUSES" "case ws_replan_reason s' of None \<Rightarrow> True | Some r \<Rightarrow> r \<in> set REPLAN_REASONS"
      "opt_max 500 (ws_stop_reason s')" "validate_state_shape s'"
      "case ws_clarification s' of None \<Rightarrow> True | Some c \<Rightarrow> valid_clarification c"
  shows "valid_state lib s'"
  using v st valid_steps_put [OF valid_state_plan [OF v] x _ y] plan_ok_put [OF valid_state_plan [OF v] x n]
  unfolding valid_state_def state_shape_def same by simp

lemma replan_reason_ok: "valid_state lib s \<Longrightarrow> case ws_replan_reason s of None \<Rightarrow> True | Some r \<Rightarrow> r \<in> set REPLAN_REASONS"
  and stop_reason_ok: "valid_state lib s \<Longrightarrow> opt_max 500 (ws_stop_reason s)"
  and shape_ok: "valid_state lib s \<Longrightarrow> validate_state_shape s"
  by (simp_all add: valid_state_def state_shape_def)

lemma current_known:
  "valid_state lib s \<Longrightarrow> ws_current s = Some i \<Longrightarrow> i \<in> ps_step_id ` set (ws_steps s)"
  by (auto simp: valid_state_def state_shape_def validate_state_shape_def)

lemma image_ids_put:
  "plan_ok steps \<Longrightarrow> x \<in> set steps \<Longrightarrow> node y = node x \<Longrightarrow> ps_step_id ` set (put steps x y) = ps_step_id ` set steps"
  using ids_put [of steps x y] by (metis list.set_map)

lemmas shape_defs = validate_state_shape_def WORKFLOW_STATUSES_def TERMINAL_def REPLAN_REASONS_def opt_max_def

lemma settle_steps [simp]: "ws_steps (settle s steps r) = steps"
  by (simp add: settle_def)

lemma settle_valid:
  assumes v: "valid_state lib s" and r: "ws_status s = ''RUNNING''" and x: "x \<in> set (ws_steps s)" and n: "node y = node x"
    and y: "valid_step y" and reason: "reason \<noteq> []" "length reason \<le> 500"
  shows "valid_state lib (settle s (put (ws_steps s) x y) reason)"
proof (rule valid_state_put [OF v x n y])
  let ?s' = "settle s (put (ws_steps s) x y) reason"
  have cl: "ws_clarification s = None" using valid_running [OF v] r by simp
  have "i \<in> ps_step_id ` set (put (ws_steps s) x y)" if "map_option ps_step_id (next_runnable (put (ws_steps s) x y)) = Some i" for i
    using that next_runnable_ok by auto
  then show "validate_state_shape ?s'"
    using r cl reason by (auto simp: settle_def shape_defs split: option.splits)
  show "case ws_clarification ?s' of None \<Rightarrow> True | Some c \<Rightarrow> valid_clarification c" using cl by (simp add: settle_def)
  show "case ws_replan_reason ?s' of None \<Rightarrow> True | Some r \<Rightarrow> r \<in> set REPLAN_REASONS"
    using replan_reason_ok [OF v] by (simp add: settle_def)
  show "opt_max 500 (ws_stop_reason ?s')" using stop_reason_ok [OF v] reason by (simp add: settle_def opt_max_def)
qed (simp_all add: settle_def r WORKFLOW_STATUSES_def)

lemma settle_coherent:
  assumes p: "plan_ok (ws_steps s)" and c: "coherent s" and x: "x \<in> set (ws_steps s)" "active x" and n: "node y = node x"
    and y: "ps_status y = ''SUCCEEDED''" and r: "ws_status s = ''RUNNING''"
  shows "coherent (settle s (put (ws_steps s) x y) reason)"
proof (rule coherent_put [OF p c x(1) n])
  show "ps_status x \<noteq> ''SUCCEEDED''" using x(2) by (auto simp: active_def)
  show "\<forall>z \<in> set (ws_steps s). z \<noteq> x \<longrightarrow> active z \<longrightarrow> ws_current (settle s (put (ws_steps s) x y) reason) = Some (ps_step_id z)"
    using only_active [OF p c x] by blast
  show "set (ps_depends_on x) \<subseteq> set (done_ids (ws_steps s))" using active_deps [OF c x] .
qed (use y r in \<open>auto simp: active_def settle_def split: if_splits\<close>)

text \<open>Both parts of soundness for a state in which one step was replaced.\<close>

lemma put_sound:
  assumes "sound lib s" and x: "x \<in> set (ws_steps s)" and n: "node y = node x" and y: "valid_step y"
    and ns: "ps_status x \<noteq> ''SUCCEEDED''"
    and same: "ws_run_id s' = ws_run_id s" "ws_plan_version s' = ws_plan_version s" "ws_graph_version s' = ws_graph_version s"
      "ws_deadline s' = ws_deadline s" "ws_trace_id s' = ws_trace_id s" "ws_budget s' = ws_budget s"
      "ws_revision s' = ws_revision s + 1" "ws_steps s' = put (ws_steps s) x y"
    and st: "ws_status s' \<in> set WORKFLOW_STATUSES" "ws_replan_reason s' = ws_replan_reason s \<or> ws_replan_reason s' \<in> Some ` set REPLAN_REASONS"
      "ws_stop_reason s' = ws_stop_reason s \<or> opt_max 500 (ws_stop_reason s')"
      "case ws_clarification s' of None \<Rightarrow> True | Some c \<Rightarrow> valid_clarification c"
      "(ws_status s' = ''INTERRUPTED'') = (ws_clarification s' \<noteq> None)"
      "ws_current s' \<in> {None, Some (ps_step_id x), ws_current s}"
      "ws_status s' \<in> set TERMINAL \<Longrightarrow> case ws_stop_reason s' of None \<Rightarrow> False | Some r \<Rightarrow> r \<noteq> []"
    and co: "\<forall>z \<in> set (ws_steps s). z \<noteq> x \<longrightarrow> active z \<longrightarrow> ws_current s' = Some (ps_step_id z)"
      "active y \<Longrightarrow> ws_current s' = Some (ps_step_id x)"
      "started y \<Longrightarrow> set (ps_depends_on x) \<subseteq> set (done_ids (ws_steps s))"
      "ws_status s' = ''INTERRUPTED'' \<Longrightarrow> ws_current s' = Some (ps_step_id x) \<and> ps_status y = ''WAITING''"
  shows "sound lib s'"
proof -
  from assms(1) have v: "valid_state lib s" and c: "coherent s" by (simp_all add: sound_def)
  note p = valid_state_plan [OF v]
  have "i \<in> ps_step_id ` set (ws_steps s')" if "ws_current s' = Some i" for i
    using st(6) that current_known [OF v] x image_ids_put [OF p x n] same(8) by auto
  then have "validate_state_shape s'"
    using st(5,7) co(4) by (cases "ws_current s'") (auto simp: validate_state_shape_def)
  moreover have "case ws_replan_reason s' of None \<Rightarrow> True | Some r \<Rightarrow> r \<in> set REPLAN_REASONS"
    using st(2) replan_reason_ok [OF v] by (auto split: option.splits)
  moreover have "opt_max 500 (ws_stop_reason s')" using st(3) stop_reason_ok [OF v] by auto
  ultimately have "valid_state lib s'"
    using st(1,4) by (intro valid_state_put [OF v x n y]) (simp_all add: same)
  moreover have "coherent s'" by (rule coherent_put [OF p c x n ns same(8)]) (use co in blast)+
  ultimately show ?thesis by (simp add: sound_def)
qed

lemma soundD: "sound lib s \<Longrightarrow> plan_ok (ws_steps s)" "sound lib s \<Longrightarrow> coherent s"
  "sound lib s \<Longrightarrow> x \<in> set (ws_steps s) \<Longrightarrow> valid_step x"
  "sound lib s \<Longrightarrow> ws_status s \<noteq> ''INTERRUPTED'' \<Longrightarrow> ws_clarification s = None"
  by (auto simp: sound_def dest: valid_state_plan valid_state_step valid_running)

lemma start_sound:
  assumes s: "sound lib s" and r: "engine_start lib now s = Inr s'"
  shows "sound lib s'"
proof -
  from start_effect [OF soundD(1) [OF s] r] obtain x where x: "x \<in> set (ws_steps s)" "runnable (ws_steps s) x" "ws_status s = ''READY''"
    and s': "s' = s\<lparr>ws_status := ''RUNNING'', ws_steps := put (ws_steps s) x (x\<lparr>ps_status := ''READY''\<rparr>),
            ws_revision := ws_revision s + 1\<rparr>" .
  have "valid_step (x\<lparr>ps_status := ''READY''\<rparr>)" by (rule valid_step_status [OF soundD(3) [OF s x(1)]]) simp
  then show ?thesis
    by (rule put_sound [OF s x(1), rotated])
      (use s' x soundD(4) [OF s] coherent_active [OF soundD(2) [OF s]] in \<open>auto simp: runnable_def active_def started_def WORKFLOW_STATUSES_def TERMINAL_def\<close>)
qed

lemma begin_sound:
  assumes s: "sound lib s" and r: "begin_step lib now s i = Inr s'"
  shows "sound lib s'"
proof -
  from begin_effect [OF soundD(1) [OF s] r] obtain x where x: "ready_step s = Inr (Some x)" "x \<in> set (ws_steps s)" "ps_step_id x = i"
      "ws_status s = ''RUNNING''"
    and s': "s' = s\<lparr>ws_current := Some i, ws_steps := put (ws_steps s) x (x\<lparr>ps_status := ''RUNNING''\<rparr>),
            ws_revision := ws_revision s + 1\<rparr>" .
  have "valid_step (x\<lparr>ps_status := ''RUNNING''\<rparr>)" by (rule valid_step_status [OF soundD(3) [OF s x(2)]]) simp
  then show ?thesis
    by (rule put_sound [OF s x(2), rotated])
      (use s' x soundD(4) [OF s] ready_step_ok [OF soundD(1,2) [OF s] x(1)] in \<open>auto simp: runnable_def WORKFLOW_STATUSES_def TERMINAL_def\<close>)
qed

lemma wait_sound:
  assumes s: "sound lib s" and r: "wait_for_governed_action lib now s i = Inr s'"
  shows "sound lib s'"
proof -
  from wait_effect [OF soundD(1) [OF s] r] obtain x where x: "x \<in> set (ws_steps s)" "ps_step_id x = i" "ps_status x = ''RUNNING''"
      "ws_status s = ''RUNNING''"
    and s': "s' = s\<lparr>ws_steps := put (ws_steps s) x (x\<lparr>ps_status := ''WAITING''\<rparr>), ws_current := Some i,
            ws_revision := ws_revision s + 1\<rparr>" .
  from x have a: "active x" by (simp add: active_def)
  have "valid_step (x\<lparr>ps_status := ''WAITING''\<rparr>)" by (rule valid_step_status [OF soundD(3) [OF s x(1)]]) simp
  then show ?thesis
    by (rule put_sound [OF s x(1), rotated])
      (use s' x soundD(4) [OF s] only_active [OF soundD(1,2) [OF s] x(1) a] active_deps [OF soundD(2) [OF s] x(1) a]
        in \<open>auto simp: WORKFLOW_STATUSES_def TERMINAL_def\<close>)
qed

lemma fail_sound:
  assumes s: "sound lib s" and r: "fail_step lib now s code detail = Inr s'"
  shows "sound lib s'"
proof -
  let ?e = "failure_text code detail"
  from fail_effect [OF soundD(1) [OF s] r] obtain x where x: "x \<in> set (ws_steps s)" "ws_current s = Some (ps_step_id x)"
      "ps_status x = ''RUNNING''" "ws_status s = ''RUNNING''"
    and s': "s' = s\<lparr>ws_steps := put (ws_steps s) x (x\<lparr>ps_status := ''FAILED'', ps_error := Some ?e\<rparr>),
            ws_status := ''FAILED'', ws_current := Some (ps_step_id x), ws_stop_reason := Some ?e, ws_revision := ws_revision s + 1\<rparr>" .
  from x have a: "active x" by (simp add: active_def)
  have "valid_step (x\<lparr>ps_status := ''FAILED'', ps_error := Some ?e\<rparr>)"
    using valid_step_failed [OF soundD(3) [OF s x(1)]] failure_text_ok by blast
  then show ?thesis
    by (rule put_sound [OF s x(1), rotated])
      (use s' x soundD(4) [OF s] failure_text_ok [of code detail] only_active [OF soundD(1,2) [OF s] x(1) a] active_deps [OF soundD(2) [OF s] x(1) a]
        in \<open>auto simp: WORKFLOW_STATUSES_def TERMINAL_def active_def opt_max_def\<close>)
qed

lemma interrupt_sound:
  assumes s: "sound lib s" and r: "interrupt lib now s request = Inr s'" and q: "valid_clarification request"
  shows "sound lib s'"
proof -
  from interrupt_effect [OF soundD(1) [OF s] r] obtain x where x: "x \<in> set (ws_steps s)" "ws_current s = Some (ps_step_id x)"
      "ps_status x = ''RUNNING''" "ws_status s = ''RUNNING''"
    and s': "s' = s\<lparr>ws_steps := put (ws_steps s) x (x\<lparr>ps_status := ''WAITING''\<rparr>), ws_status := ''INTERRUPTED'',
            ws_clarification := Some request, ws_revision := ws_revision s + 1\<rparr>" .
  from x have a: "active x" by (simp add: active_def)
  have "valid_step (x\<lparr>ps_status := ''WAITING''\<rparr>)" by (rule valid_step_status [OF soundD(3) [OF s x(1)]]) simp
  then show ?thesis
    by (rule put_sound [OF s x(1), rotated])
      (use s' x q only_active [OF soundD(1,2) [OF s] x(1) a] active_deps [OF soundD(2) [OF s] x(1) a]
        in \<open>auto simp: WORKFLOW_STATUSES_def TERMINAL_def\<close>)
qed

lemma settle_sound:
  assumes s: "sound lib s" and "ws_status s = ''RUNNING''" and x: "x \<in> set (ws_steps s)" "active x" and d: "sha_DIGEST d"
    and lib: "wflib_ok lib" and "reason \<noteq> []" "length reason \<le> 500"
  shows "sound lib (settle s (put (ws_steps s) x (succeeded lib at d x)) reason)"
  using settle_valid [of lib s x "succeeded lib at d x" reason] settle_coherent [of s x "succeeded lib at d x" reason]
    valid_step_succeeded [OF soundD(3) [OF s x(1)] d lib, of at] assms soundD(1) [OF s] by (simp add: sound_def)

lemma receipt_sound:
  assumes s: "sound lib s" and lib: "wflib_ok lib" and r: "complete_governed_action lib now at s i digest = Inr s'"
  shows "sound lib s'"
proof -
  from receipt_effect [OF soundD(1) [OF s] r] obtain x where "x \<in> set (ws_steps s)" "ps_status x = ''WAITING''" "ws_status s = ''RUNNING''"
      "sha_DIGEST digest" "s' = settle s (put (ws_steps s) x (succeeded lib at digest x)) ''governed action Receipt recorded''" .
  with settle_sound [OF s _ _ _ _ lib] show ?thesis by (simp add: active_def)
qed

lemma complete_sound:
  assumes s: "sound lib s" and lib: "wflib_ok lib" and r: "complete_step lib now at s obs = Inr s'"
    and o: "valid_observation (wf_py lib) obs"
  shows "sound lib s'"
proof -
  from complete_effect [OF soundD(1) [OF s] r] obtain x where "x \<in> set (ws_steps s)" "ps_status x = ''RUNNING''" "ws_status s = ''RUNNING''"
      "s' = settle s (put (ws_steps s) x (succeeded lib at (ob_digest obs) x)) ''workflow completed''" .
  moreover have "sha_DIGEST (ob_digest obs)" using o unfolding valid_observation_def by blast
  ultimately show ?thesis using settle_sound [OF s _ _ _ _ lib] by (simp add: active_def)
qed

lemma resume_sound:
  assumes s: "sound lib s" and lib: "wflib_ok lib" and r: "engine_resume lib now at s interrupt_id answer = Inr s'"
  shows "sound lib s'"
proof -
  have dig: "sha_DIGEST (accepted_digest lib)" using lib by (simp add: wflib_ok_def accepted_digest_def)
  show ?thesis
  proof (rule resume_effect [OF soundD(1,2) [OF s] r])
    fix x assume x: "x \<in> set (ws_steps s)" "ws_current s = Some (ps_step_id x)" "ps_status x = ''WAITING''"
      and s': "s' = s\<lparr>ws_status := ''RUNNING'', ws_steps := put (ws_steps s) x (succeeded lib at (accepted_digest lib) x),
            ws_current := None, ws_clarification := None, ws_replan_reason := Some ''INPUT_CLARIFIED'', ws_revision := ws_revision s + 1\<rparr>"
    from x have a: "active x" by (simp add: active_def)
    from valid_step_succeeded [OF soundD(3) [OF s x(1)] dig lib] show ?thesis
      by (rule put_sound [OF s x(1), rotated])
        (use s' x only_active [OF soundD(1,2) [OF s] x(1) a] active_deps [OF soundD(2) [OF s] x(1) a]
          in \<open>auto simp: WORKFLOW_STATUSES_def TERMINAL_def REPLAN_REASONS_def active_def\<close>)
  next
    fix x assume x: "x \<in> set (ws_steps s)" "ws_current s = Some (ps_step_id x)" "ps_status x = ''WAITING''"
      and s': "s' = s\<lparr>ws_status := ''FAILED'', ws_steps := put (ws_steps s) x (x\<lparr>ps_status := ''FAILED'', ps_error := Some recovery_text\<rparr>),
            ws_clarification := None, ws_stop_reason := Some recovery_text, ws_replan_reason := Some ''STATE_DRIFT'', ws_revision := ws_revision s + 1\<rparr>"
    from x have a: "active x" by (simp add: active_def)
    have "valid_step (x\<lparr>ps_status := ''FAILED'', ps_error := Some recovery_text\<rparr>)"
      using valid_step_failed [OF soundD(3) [OF s x(1)]] recovery_text_ok by blast
    then show ?thesis
      by (rule put_sound [OF s x(1), rotated])
        (use s' x recovery_text_ok only_active [OF soundD(1,2) [OF s] x(1) a] active_deps [OF soundD(2) [OF s] x(1) a]
          in \<open>auto simp: WORKFLOW_STATUSES_def TERMINAL_def REPLAN_REASONS_def active_def opt_max_def\<close>)
  qed
qed

text \<open>The part of a step that \<open>step_eq\<close> compares literally: everything but the two dictionaries.\<close>

definition evidence :: "PlanStep \<Rightarrow> PlanStep" where
  "evidence x = x\<lparr>ps_parameters := [], ps_governed_action := None\<rparr>"

lemma step_eq_evidence: "step_eq y x \<Longrightarrow> evidence y = evidence x"
  by (simp add: step_eq_def evidence_def)

lemma evidence_fields:
  assumes "evidence y = evidence x"
  shows "node y = node x" "ps_status y = ps_status x" "ps_depends_on y = ps_depends_on x" "ps_step_id y = ps_step_id x"
    "ps_observation_digest y = ps_observation_digest x" "ps_completed_at y = ps_completed_at x"
  using assms unfolding evidence_def node_def by (cases y, cases x, simp)+

lemma replan_sound:
  assumes s: "sound lib s" and r: "replan lib now s steps reason = Inr s'" and ne: "steps \<noteq> []"
    and vs: "list_all valid_step steps" and re: "reason \<in> set REPLAN_REASONS" and pv: "ws_plan_version s < 10000"
  shows "sound lib s'"
proof -
  note eff = replan_effect [OF soundD(1) [OF s] r]
  from s have v: "valid_state lib s" by (simp add: sound_def)
  have "ps_order (last steps) = int (length steps)"
  proof -
    have o: "map ps_order steps = map int [1..<length steps + 1]" using eff(1) by (simp add: plan_ok_def)
    have "ps_order (last steps) = last (map ps_order steps)" using ne by (simp add: last_map)
    also have "\<dots> = int (length steps)" unfolding o using ne by (cases steps) (simp_all add: last_map)
    finally show ?thesis .
  qed
  moreover have "valid_step (last steps)" using vs ne by (simp add: list_all_iff)
  ultimately have "length steps \<le> 256" by (simp add: valid_step_def step_shape_def)
  then have "valid_state lib s'"
    using v eff(1,2) ne vs re pv
    by (cases steps) (auto simp: valid_state_def state_shape_def shape_defs opt_max_def)
  moreover have "coherent s'"
  proof -
    have act: "\<not> active y" if "y \<in> set steps" for y
      using eff(4) [OF that] evidence_fields(2) [OF step_eq_evidence] by (fastforce simp: active_def)
    have mono: "set (done_ids (ws_steps s)) \<subseteq> set (done_ids steps)"
    proof
      fix i assume "i \<in> set (done_ids (ws_steps s))"
      then obtain x where x: "x \<in> set (ws_steps s)" "ps_status x = ''SUCCEEDED''" "i = ps_step_id x" by (auto simp: set_done_ids)
      from eff(3) [OF x(1,2)] obtain y where y: "y \<in> set steps" "step_eq y x" by blast
      with x evidence_fields(2,4) [OF step_eq_evidence [OF y(2)]] show "i \<in> set (done_ids steps)"
        by (auto simp: set_done_ids intro!: exI [of _ y])
    qed
    have "set (ps_depends_on y) \<subseteq> set (done_ids steps)" if y: "y \<in> set steps" and "started y" for y
    proof -
      from eff(4) [OF y] \<open>started y\<close> obtain x where x: "x \<in> set (ws_steps s)" "ps_status x = ''SUCCEEDED''" "step_eq y x"
        by (auto simp: started_def)
      then have "set (ps_depends_on x) \<subseteq> set (done_ids (ws_steps s))"
        using coherent_deps [OF soundD(2) [OF s] x(1)] by (simp add: started_def)
      with mono evidence_fields(3) [OF step_eq_evidence [OF x(3)]] show ?thesis by auto
    qed
    with act show ?thesis using eff(2) by (simp add: coherent_def)
  qed
  ultimately show ?thesis by (simp add: sound_def)
qed

lemma close_sound:
  assumes s: "sound lib s" and st: "st \<in> {''CANCELLED'', ''EXPIRED''}" and r: "r \<noteq> []" "length r \<le> 500"
  shows "sound lib (s\<lparr>ws_status := st, ws_stop_reason := Some r, ws_revision := ws_revision s + 1, ws_clarification := None\<rparr>)"
    (is "sound lib ?s'")
proof -
  have "coherent ?s'" by (rule coherent_same_steps [OF soundD(2) [OF s]]) (use st in auto)
  moreover have "valid_state lib ?s'"
  proof -
    from s have v: "valid_state lib s" by (simp add: sound_def)
    have "validate_state_shape ?s'" using shape_ok [OF v] st r by (cases "ws_current s") (auto simp: validate_state_shape_def)
    moreover have "st \<in> set WORKFLOW_STATUSES" using st by (auto simp: WORKFLOW_STATUSES_def)
    ultimately show ?thesis using v r unfolding valid_state_def state_shape_def by (simp add: opt_max_def)
  qed
  ultimately show ?thesis by (simp add: sound_def)
qed

lemma cancel_sound:
  assumes "sound lib s" and "engine_cancel s detail = Inr s'" and "detail \<noteq> []"
  shows "sound lib s'"
  using close_sound [OF assms(1), of "''CANCELLED''" "take 500 detail"] assms(2,3)
  by (simp add: engine_cancel_def split: if_splits)

lemma expire_sound: "sound lib s \<Longrightarrow> sound lib (engine_expire s)"
  using close_sound [of lib s "''EXPIRED''" "''workflow deadline expired''"] by (simp add: engine_expire_def)

lemma engine_step_sound:
  assumes "engine_step lib s s'" and "wflib_ok lib" and "sound lib s"
  shows "sound lib s'"
  using assms
  by (cases rule: engine_step.cases)
    (blast intro: start_sound begin_sound wait_sound receipt_sound complete_sound fail_sound interrupt_sound
      resume_sound replan_sound cancel_sound expire_sound)+

end
