(* ===== verification/Workflow_Runner.thy ===== *)
theory Workflow_Runner
  imports Workflow_Invariants
begin

text \<open>
  The sequential runner shared by the fixed, ReAct and plan modes, \<open>workflow/engines.py\<close>.
  \<open>execute j x\<close> is the outcome of the \<open>j\<close>-th call of the caller's executor, the text of an
  exception or an observation; \<open>clk k\<close> is the \<open>k\<close>-th reading of the clock.
\<close>

section \<open>The loop ends\<close>

definition open_steps :: "PlanStep list \<Rightarrow> nat" where
  "open_steps steps = length (filter (\<lambda>x. ps_status x \<noteq> ''SUCCEEDED'') steps)"

lemma open_steps_less:
  assumes "x \<in> set steps" and "ps_status x \<noteq> ''SUCCEEDED''"
    and "\<And>y. y \<in> set steps \<Longrightarrow> ps_status (f y) = ''SUCCEEDED'' \<or> f y = y" and "ps_status (f x) = ''SUCCEEDED''"
  shows "open_steps (map f steps) < open_steps steps"
proof -
  have le: "open_steps (map f ys) \<le> open_steps ys" if "set ys \<subseteq> set steps" for ys
    using that
  proof (induction ys)
    case (Cons y ys)
    then show ?case using assms(3) [of y] by (auto simp: open_steps_def)
  qed (simp add: open_steps_def)
  from assms(1) obtain as bs where s: "steps = as @ x # bs" by (meson split_list)
  then have "open_steps (map f as) \<le> open_steps as" "open_steps (map f bs) \<le> open_steps bs" by (auto intro!: le)
  with s assms(2,4) show ?thesis by (simp add: open_steps_def)
qed

lemma settle_progress:
  assumes "ready_step s = Inr (Some x)" and "begin_step lib t s (ps_step_id x) = Inr s1" and "complete_step lib t' t'' s1 obs = Inr s2"
  shows "open_steps (ws_steps s2) < open_steps (ws_steps s)"
proof -
  have "next_runnable (ws_steps s) = Some x"
    using assms(1) by (auto simp: ready_step_def result_simps split: option.splits if_splits)
  from next_runnable_ok [OF this] have x: "x \<in> set (ws_steps s)" "ps_status x \<noteq> ''SUCCEEDED''" by (auto simp: runnable_def)
  from assms(2) have s1: "ws_steps s1 = update_at (ws_steps s) (ps_step_id x) (\<lambda>y. y\<lparr>ps_status := ''RUNNING''\<rparr>)"
    "ws_current s1 = Some (ps_step_id x)"
    by (auto simp: begin_step_def replace_step_def result_simps split: if_splits)
  from assms(3) s1(2) obtain z where "ws_steps s2 = update_at (ws_steps s1) (ps_step_id x) (\<lambda>_. succeeded lib t'' (ob_digest obs) z)"
    by (auto simp: complete_step_def result_simps split: if_splits)
  then have "ws_steps s2 = map (\<lambda>y. if ps_step_id y = ps_step_id x then succeeded lib t'' (ob_digest obs) z else y) (ws_steps s)"
    using s1(1) by (simp add: update_at_def)
  then show ?thesis using open_steps_less [OF x] by simp
qed

section \<open>The runner\<close>

definition or_text :: "string option \<Rightarrow> string \<Rightarrow> string" where
  "or_text v d = (case v of None \<Rightarrow> d | Some t \<Rightarrow> if t = [] then d else t)"

function run_loop ::
  "wflib \<Rightarrow> (nat \<Rightarrow> int) \<Rightarrow> (nat \<Rightarrow> PlanStep \<Rightarrow> string + Observation) \<Rightarrow> nat \<Rightarrow> nat \<Rightarrow> WorkflowState \<Rightarrow> string list \<Rightarrow> WorkflowResult result" where
  "run_loop lib clk execute k j s obs =
     (if ws_status s \<noteq> ''RUNNING'' then engine_result s obs False
      else (case ready_step s of
        Inl e \<Rightarrow> Inl e
      | Inr None \<Rightarrow> Inl (WorkflowError ''WORKFLOW_INVALID'' ''running workflow has no ready step'')
      | Inr (Some x) \<Rightarrow>
          (case begin_step lib (clk k) s (ps_step_id x) of
             Inl e \<Rightarrow> Inl e
           | Inr s1 \<Rightarrow>
               (case execute j x of
                  Inl text \<Rightarrow>
                    rbind (fail_step lib (clk (k + 1)) s1 ''TOOL_ERROR'' (or_text (Some (take 400 text)) ''tool failed''))
                      (\<lambda>s2. engine_result s2 obs False)
                | Inr ob \<Rightarrow>
                    if \<not> ob_ok ob
                    then rbind (fail_step lib (clk (k + 1)) s1 (or_text (ob_error_code ob) ''TOOL_ERROR'') (ob_summary ob))
                           (\<lambda>s2. engine_result s2 obs False)
                    else (case complete_step lib (clk (k + 1)) (clk (k + 2)) s1 ob of
                            Inl e \<Rightarrow> Inl e
                          | Inr s2 \<Rightarrow> run_loop lib clk execute (k + 3) (j + 1) s2 (obs @ [ob_digest ob]))))))"
  by pat_completeness auto
termination
  by (relation "measure (\<lambda>(lib, clk, execute, k, j, s, obs). open_steps (ws_steps s))") (auto intro: settle_progress)

declare run_loop.simps [simp del]

definition runner_run ::
  "wflib \<Rightarrow> (nat \<Rightarrow> int) \<Rightarrow> (nat \<Rightarrow> PlanStep \<Rightarrow> string + Observation) \<Rightarrow> WorkflowState \<Rightarrow> WorkflowResult result" where
  "runner_run lib clk execute s =
     (if ws_status s = ''READY'' then rbind (engine_start lib (clk 0) s) (\<lambda>s1. run_loop lib clk execute 1 0 s1 [])
      else run_loop lib clk execute 0 0 s [])"

section \<open>Progress\<close>

text \<open>While work is open and nothing has failed, some step can run: the dependency relation is
  finite and has no cycle.\<close>

lemma some_runnable:
  assumes p: "plan_ok steps" and st: "\<forall>x \<in> set steps. ps_status x \<in> {''PENDING'', ''READY'', ''SUCCEEDED''}"
    and o: "\<exists>x \<in> set steps. ps_status x \<noteq> ''SUCCEEDED''"
  obtains x where "next_runnable steps = Some x"
proof -
  let ?U = "ps_step_id ` {x \<in> set steps. ps_status x \<noteq> ''SUCCEEDED''}"
  have "finite (plan_rel steps)" by (simp add: plan_rel_UN)
  moreover have "acyclic (plan_rel steps)" using p by (simp add: plan_ok_def)
  ultimately have "wf ((plan_rel steps)\<inverse>)" by (rule finite_acyclic_wf_converse)
  moreover have "?U \<noteq> {}" using o by auto
  ultimately obtain i where i: "i \<in> ?U" "\<And>d. (d, i) \<in> (plan_rel steps)\<inverse> \<Longrightarrow> d \<notin> ?U"
    using wfE_min' [of "(plan_rel steps)\<inverse>" ?U] by blast
  then obtain x where x: "x \<in> set steps" "ps_status x \<noteq> ''SUCCEEDED''" "i = ps_step_id x" by auto
  have "set (ps_depends_on x) \<subseteq> set (done_ids steps)"
  proof
    fix d assume d: "d \<in> set (ps_depends_on x)"
    with x have "(d, i) \<in> (plan_rel steps)\<inverse>" by (auto simp: plan_rel_def)
    with i(2) have "d \<notin> ?U" by blast
    moreover have "d \<in> ps_step_id ` set steps" using p x(1) d by (auto simp: plan_ok_def)
    ultimately show "d \<in> set (done_ids steps)" by (auto simp: set_done_ids)
  qed
  with x st have "runnable steps x" by (auto simp: runnable_def)
  with x(1) have "next_runnable steps \<noteq> None" by (auto simp: next_runnable_def find_None_iff)
  with that show thesis by blast
qed

lemma ready_when_idle:
  assumes "valid_state lib s" and "ws_status s = ''RUNNING''" and "\<forall>x \<in> set (ws_steps s). \<not> active x"
  shows "ready_step s = Inr (next_runnable (ws_steps s))"
proof (cases "ws_current s")
  case (Some i)
  with assms(1) have "i \<in> set (map ps_step_id (ws_steps s))" by (auto simp: valid_state_def state_shape_def validate_state_shape_def)
  then obtain x where "find_step (ws_steps s) i = Some x"
    by (cases "find_step (ws_steps s) i") (auto simp: find_step_def find_None_iff)
  with find_step_member [OF this] assms Some show ?thesis by (auto simp: ready_step_def get_step_def active_def)
qed (use assms in \<open>simp add: ready_step_def\<close>)

section \<open>A run that succeeds\<close>

lemma get_step_of: "plan_ok (ws_steps s) \<Longrightarrow> x \<in> set (ws_steps s) \<Longrightarrow> get_step s (ps_step_id x) = Inr x"
proof -
  assume p: "plan_ok (ws_steps s)" and x: "x \<in> set (ws_steps s)"
  then obtain y where y: "find_step (ws_steps s) (ps_step_id x) = Some y"
    by (cases "find_step (ws_steps s) (ps_step_id x)") (auto simp: find_step_def find_None_iff)
  with find_step_member [OF y] same_id [OF p _ x] show ?thesis by (simp add: get_step_def)
qed

lemma not_expired: "parse_deadline lib (ws_deadline s) = Inr d \<Longrightarrow> now < d \<Longrightarrow> ensure_not_expired lib now s = Inr ()"
  by (simp add: ensure_not_expired_def)

text \<open>One round on an idle state: the step is taken, its observation recorded.\<close>

lemma round_trip:
  assumes s: "sound lib s" and run: "ws_status s = ''RUNNING''" and r: "ready_step s = Inr (Some x)"
    and d: "parse_deadline lib (ws_deadline s) = Inr d" and t: "t < d" "t' < d"
    and tool: "ps_tool_name x = Some (ob_tool_name obs)"
  defines "x1 \<equiv> x\<lparr>ps_status := ''RUNNING''\<rparr>"
  defines "s1 \<equiv> s\<lparr>ws_current := Some (ps_step_id x), ws_steps := put (ws_steps s) x x1, ws_revision := ws_revision s + 1\<rparr>"
  shows "begin_step lib t s (ps_step_id x) = Inr s1"
    and "complete_step lib t' t'' s1 obs =
      Inr (settle s1 (put (ws_steps s1) x1 (succeeded lib t'' (ob_digest obs) x1)) ''workflow completed'')"
    and "x \<in> set (ws_steps s)" and "plan_ok (ws_steps s1)" and "x1 \<in> set (ws_steps s1)"
proof -
  note p = soundD(1) [OF s]
  from ready_step_ok [OF p soundD(2) [OF s] r] have x: "x \<in> set (ws_steps s)" "runnable (ws_steps s) x" by auto
  then have st: "ps_status x \<in> {''PENDING'', ''READY''}" by (simp add: runnable_def)
  have put: "replace_step (ws_steps s) (ps_step_id x) (\<lambda>y. y\<lparr>ps_status := ''RUNNING''\<rparr>) = Inr (put (ws_steps s) x x1)"
    using update_at_put [OF p x(1)] x(1) by (simp add: replace_step_def x1_def)
  show "begin_step lib t s (ps_step_id x) = Inr s1"
    using run r st put get_step_of [OF p x(1)] not_expired [OF d t(1)]
    by (simp add: begin_step_def ensure_running_def s1_def)
  show p1: "plan_ok (ws_steps s1)" using plan_ok_put [OF p x(1), of x1] by (simp add: s1_def x1_def)
  show x1: "x1 \<in> set (ws_steps s1)" using set_put [OF p x(1), of x1] by (simp add: s1_def)
  have "get_step s1 (ps_step_id x) = Inr x1" using get_step_of [OF p1 x1] by (simp add: x1_def)
  moreover have "ensure_running lib t' s1 = Inr ()"
    using not_expired [of lib s1 d t'] d t run by (simp add: ensure_running_def s1_def)
  ultimately show "complete_step lib t' t'' s1 obs =
      Inr (settle s1 (put (ws_steps s1) x1 (succeeded lib t'' (ob_digest obs) x1)) ''workflow completed'')"
    using tool update_at_put [OF p1 x1, of "ps_step_id x" "\<lambda>_. succeeded lib t'' (ob_digest obs) x1"]
    by (simp add: complete_step_def s1_def x1_def)
  show "x \<in> set (ws_steps s)" by (rule x(1))
qed

definition tool_plan :: "PlanStep list \<Rightarrow> bool" where
  "tool_plan steps = list_all (\<lambda>x. ps_type x = ''TOOL'' \<and> ps_status x \<in> {''PENDING'', ''READY'', ''SUCCEEDED''}) steps"

definition answers :: "wflib \<Rightarrow> (nat \<Rightarrow> PlanStep \<Rightarrow> string + Observation) \<Rightarrow> PlanStep list \<Rightarrow> bool" where
  "answers lib execute steps = (\<forall>j x. ps_tool_name x \<in> ps_tool_name ` set steps \<longrightarrow>
     (\<exists>ob. execute j x = Inr ob \<and> ob_ok ob \<and> ps_tool_name x = Some (ob_tool_name ob) \<and> valid_observation (wf_py lib) ob))"

lemma answers_mono:
  "ps_tool_name ` set a \<subseteq> ps_tool_name ` set b \<Longrightarrow> answers lib execute b \<Longrightarrow> answers lib execute a"
  unfolding answers_def by blast

lemma settle_status:
  "ws_status (settle s steps r) =
     (if list_all (\<lambda>x. ps_status x \<in> {''SUCCEEDED'', ''SKIPPED''}) steps then ''SUCCEEDED'' else ws_status s)"
  by (simp add: settle_def)

lemma settle_deadline: "ws_deadline (settle s steps r) = ws_deadline s"
  by (simp add: settle_def)

lemma tool_plan_idle: "tool_plan steps \<Longrightarrow> x \<in> set steps \<Longrightarrow> \<not> active x"
  by (auto simp: tool_plan_def list_all_iff active_def)

lemma open_steps_zero: "open_steps steps = 0 \<longleftrightarrow> (\<forall>x \<in> set steps. ps_status x = ''SUCCEEDED'')"
  by (auto simp: open_steps_def filter_empty_conv)

lemma run_loop_completes:
  assumes lib: "wflib_ok lib" and clk: "\<And>k. clk k < d"
  shows "sound lib s \<Longrightarrow> ws_status s = ''RUNNING'' \<Longrightarrow> tool_plan (ws_steps s) \<Longrightarrow> 0 < open_steps (ws_steps s) \<Longrightarrow>
    parse_deadline lib (ws_deadline s) = Inr d \<Longrightarrow> answers lib execute (ws_steps s) \<Longrightarrow>
    length obs + open_steps (ws_steps s) \<le> 256 \<Longrightarrow>
    \<exists>r. run_loop lib clk execute k j s obs = Inr r \<and> ws_status (wr_state r) = ''SUCCEEDED'' \<and>
        (\<forall>x \<in> set (ws_steps (wr_state r)). ps_status x = ''SUCCEEDED'')"
proof (induction "open_steps (ws_steps s)" arbitrary: s k j obs rule: less_induct)
  case (less s)
  note s = less.prems(1)
  have idle: "\<forall>x \<in> set (ws_steps s). \<not> active x" using tool_plan_idle [OF less.prems(3)] by blast
  obtain x where x: "next_runnable (ws_steps s) = Some x"
    using some_runnable [OF soundD(1) [OF s]] less.prems(3,4) open_steps_zero [of "ws_steps s"]
    by (auto simp: tool_plan_def list_all_iff)
  have r: "ready_step s = Inr (Some x)"
    using ready_when_idle [of lib s] s less.prems(2) idle x by (simp add: sound_def)
  have xin: "x \<in> set (ws_steps s)" using next_runnable_ok [OF x] by simp
  then obtain ob where ob: "execute j x = Inr ob" "ob_ok ob" "ps_tool_name x = Some (ob_tool_name ob)" "valid_observation (wf_py lib) ob"
    using less.prems(6) unfolding answers_def by blast
  define x1 where "x1 = x\<lparr>ps_status := ''RUNNING''\<rparr>"
  define s1 where "s1 = s\<lparr>ws_current := Some (ps_step_id x), ws_steps := put (ws_steps s) x x1, ws_revision := ws_revision s + 1\<rparr>"
  define y where "y = succeeded lib (clk (k + 2)) (ob_digest ob) x1"
  define s2 where "s2 = settle s1 (put (ws_steps s1) x1 y) ''workflow completed''"
  note rt = round_trip [OF s less.prems(2) r less.prems(5) clk [of k] clk [of "k + 1"] ob(3), folded x1_def, folded s1_def]
  have b: "begin_step lib (clk k) s (ps_step_id x) = Inr s1" and c: "complete_step lib (clk (k + 1)) (clk (k + 2)) s1 ob = Inr s2"
    using rt(1) rt(2) [of "clk (k + 2)"] by (simp_all add: s2_def y_def)
  have step: "run_loop lib clk execute k j s obs = run_loop lib clk execute (k + 3) (j + 1) s2 (obs @ [ob_digest ob])"
    using less.prems(2) r b ob c by (simp add: run_loop.simps [of lib clk execute k j s])
  have dec: "open_steps (ws_steps s2) < open_steps (ws_steps s)" by (rule settle_progress [OF r b c])
  have s2: "sound lib s2" by (rule complete_sound [OF begin_sound [OF s b] lib c ob(4)])
  have mem: "set (ws_steps s2) = insert y (set (ws_steps s1) - {x1})" "set (ws_steps s1) = insert x1 (set (ws_steps s) - {x})"
    using set_put [OF rt(4,5), of y] set_put [OF soundD(1) [OF s] xin, of x1] by (simp_all add: s2_def s1_def)
  have y: "ps_type y = ps_type x" "ps_tool_name y = ps_tool_name x" "ps_status y = ''SUCCEEDED''"
    by (simp_all add: y_def x1_def succeeded_def)
  have tp: "tool_plan (ws_steps s2)"
    using less.prems(3) xin y mem by (auto simp: tool_plan_def list_all_iff)
  show ?case
  proof (cases "open_steps (ws_steps s2) = 0")
    case True
    then have all: "\<forall>x \<in> set (ws_steps s2). ps_status x = ''SUCCEEDED''" by (simp add: open_steps_zero)
    then have "list_all (\<lambda>x. ps_status x \<in> {''SUCCEEDED'', ''SKIPPED''}) (ws_steps s2)" by (simp add: list_all_iff)
    then have "ws_status s2 = ''SUCCEEDED''" by (simp only: s2_def settle_steps settle_status if_True)
    with all step less.prems(7) dec show ?thesis
      by (auto simp: run_loop.simps [of lib clk execute _ _ s2] engine_result_def)
  next
    case False
    then obtain z where "z \<in> set (ws_steps s2)" "ps_status z \<noteq> ''SUCCEEDED''" by (auto simp: open_steps_zero)
    with tp have "\<not> list_all (\<lambda>x. ps_status x \<in> {''SUCCEEDED'', ''SKIPPED''}) (ws_steps s2)"
      by (fastforce simp: tool_plan_def list_all_iff)
    then have "ws_status s2 = ws_status s1" by (simp only: s2_def settle_steps settle_status if_False)
    then have "ws_status s2 = ''RUNNING'' \<and> ws_deadline s2 = ws_deadline s"
      using less.prems(2) by (simp add: s1_def s2_def settle_deadline)
    moreover have "answers lib execute (ws_steps s2)"
      by (rule answers_mono [OF _ less.prems(6)]) (use mem xin y(2) in auto)
    ultimately show ?thesis
      using less.hyps [OF dec s2 _ tp, of "obs @ [ob_digest ob]" "k + 3" "j + 1"] False dec less.prems(5,7) step by simp
  qed
qed

end
