(* ===== verification/Workflow_Runtime.thy ===== *)
theory Workflow_Runtime
  imports Checkpoint Workflow_Runner
begin

text \<open>
  The workflow service, \<open>workflow/runtime.py\<close>: the engine and the checkpoint store composed.  A method
  is a function of the world, which it returns with the outcome: the tables of the store, how
  often the clock was read and a token drawn, and the calls made to the Gateway, each with the tables
  at that moment.  An exception keeps what was stored before it.

  The environment holds what the methods only receive: the library services, the clock, whether the
  database answers, lease tokens, the answers of the Gateway adapter, the text of an exception
  and the two questions put to the user, which are not Latin text.
\<close>

section \<open>The world\<close>

datatype tool_outcome =
    ToolOk Observation
  | ToolFailure string
  | ToolRaise string

record rtenv =
  rt_lib :: wflib
  rt_clock :: "nat \<Rightarrow> int"
  rt_up :: "nat \<Rightarrow> bool"
  rt_token :: "nat \<Rightarrow> string"
  rt_tool :: "nat \<Rightarrow> AgentAction \<Rightarrow> tool_outcome"
  rt_uuid4 :: string
  rt_seconds :: int
  rt_exc_text :: "pyexc \<Rightarrow> string"
  rt_question :: string
  rt_crash_question :: string

record tool_call =
  tc_run :: string
  tc_plan_version :: int
  tc_step_id :: string
  tc_action :: AgentAction
  tc_db :: ckdb

record world =
  w_db :: ckdb
  w_tick :: nat
  w_tokens :: nat
  w_calls :: "tool_call list"

type_synonym 'a rt = "world \<Rightarrow> 'a result \<times> world"

definition rt_return :: "'a \<Rightarrow> 'a rt" where
  "rt_return x w = (Inr x, w)"

definition rt_raise :: "pyexc \<Rightarrow> 'a rt" where
  "rt_raise e w = (Inl e, w)"

definition rt_bind :: "'a rt \<Rightarrow> ('a \<Rightarrow> 'b rt) \<Rightarrow> 'b rt" where
  "rt_bind m f w = (case m w of (Inl e, w') \<Rightarrow> (Inl e, w') | (Inr x, w') \<Rightarrow> f x w')"

text \<open>\<open>try: m except Exception: h; raise\<close>: the handler's own exception replaces the first.\<close>

definition rt_cleanup :: "'a rt \<Rightarrow> unit rt \<Rightarrow> 'a rt" where
  "rt_cleanup m h w = (case m w of
     (Inr x, w') \<Rightarrow> (Inr x, w')
   | (Inl e, w') \<Rightarrow> (case h w' of (Inl e', w'') \<Rightarrow> (Inl e', w'') | (Inr _, w'') \<Rightarrow> (Inl e, w'')))"

text \<open>A pure operation that reads the clock once, or twice.\<close>

definition rt_at :: "rtenv \<Rightarrow> (int \<Rightarrow> 'a result) \<Rightarrow> 'a rt" where
  "rt_at env f w = (f (rt_clock env (w_tick w)), w\<lparr>w_tick := w_tick w + 1\<rparr>)"

definition rt_at2 :: "rtenv \<Rightarrow> (int \<Rightarrow> int \<Rightarrow> 'a result) \<Rightarrow> 'a rt" where
  "rt_at2 env f w = (f (rt_clock env (w_tick w)) (rt_clock env (w_tick w + 1)), w\<lparr>w_tick := w_tick w + 2\<rparr>)"

definition st_load :: "rtenv \<Rightarrow> string \<Rightarrow> WorkflowState rt" where
  "st_load env run w = (ck_load (rt_lib env) (rt_up env (w_tick w)) (w_db w) run, w\<lparr>w_tick := w_tick w + 1\<rparr>)"

definition st_create :: "rtenv \<Rightarrow> WorkflowState \<Rightarrow> unit rt" where
  "st_create env s w =
     (case ck_create (rt_lib env) (rt_seconds env) (rt_up env (w_tick w)) (rt_clock env (w_tick w)) (rt_clock env (w_tick w + 1)) (w_db w) s None of
        (r, db) \<Rightarrow> (r, w\<lparr>w_db := db, w_tick := w_tick w + 2\<rparr>))"

definition st_save :: "rtenv \<Rightarrow> WorkflowState \<Rightarrow> int \<Rightarrow> string option \<Rightarrow> bool \<Rightarrow> unit rt" where
  "st_save env s expected lease keep w =
     (case ck_save (rt_lib env) (rt_seconds env) (rt_up env (w_tick w)) (rt_clock env (w_tick w)) (rt_clock env (w_tick w + 1))
        (rt_clock env (w_tick w + 2)) (w_db w) s expected lease keep of
        (r, db) \<Rightarrow> (r, w\<lparr>w_db := db, w_tick := w_tick w + 3\<rparr>))"

definition st_acquire :: "rtenv \<Rightarrow> string \<Rightarrow> int \<Rightarrow> string rt" where
  "st_acquire env run expected w =
     (case ck_acquire (rt_lib env) (rt_seconds env) (rt_up env (w_tick w)) (rt_token env (w_tokens w)) (rt_clock env (w_tick w)) (w_db w) run expected of
        (r, db) \<Rightarrow> (r, w\<lparr>w_db := db, w_tick := w_tick w + 1, w_tokens := w_tokens w + 1\<rparr>))"

definition st_release :: "rtenv \<Rightarrow> string \<Rightarrow> string \<Rightarrow> unit rt" where
  "st_release env run lease w =
     (case ck_release (rt_up env (w_tick w)) (w_db w) run lease of (r, db) \<Rightarrow> (r, w\<lparr>w_db := db, w_tick := w_tick w + 1\<rparr>))"

section \<open>Requests and plans\<close>

text \<open>
  What \<open>_advance\<close> uses of a request: whether it is a \<open>WorkflowRequest\<close>, which carries a capability,
  and its correlation id.
\<close>

record adv_request =
  ar_capable :: bool
  ar_correlation_id :: string

definition capability_ok :: "string \<Rightarrow> bool" where
  "capability_ok token = (length token = 43 \<and> list_all (\<lambda>c. is_alnum_ascii c \<or> c = CHR ''_'' \<or> c = CHR ''-'') token)"

text \<open>\<open>str.casefold\<close> below code point 256, U+00B5 apart.  The third cue of \<open>default_plan\<close> is not Latin text.\<close>

definition py_casefold :: "string \<Rightarrow> string" where
  "py_casefold s = concat (map (\<lambda>c. if (of_char c :: nat) = 223 then ''ss'' else [lower_char c]) s)"

definition needs_clarification :: "string \<Rightarrow> bool" where
  "needs_clarification goal = (has_infix ''clarif'' (py_casefold goal) \<or> has_infix ''which warehouse'' (py_casefold goal))"

definition warehouse_clarification :: "rtenv \<Rightarrow> string \<Rightarrow> ClarificationRequest" where
  "warehouse_clarification env run =
     \<lparr>cr_interrupt_id = uuid_url (rt_lib env) (''synora:workflow:'' @ run @ '':warehouse''), cr_question = rt_question env,
      cr_answer_type = ''TEXT'', cr_answer_max_length = 140, cr_choices = []\<rparr>"

definition plain_step :: "string \<Rightarrow> int \<Rightarrow> string \<Rightarrow> string list \<Rightarrow> PlanStep" where
  "plain_step i n t deps =
     \<lparr>ps_step_id = i, ps_order = n, ps_type = t, ps_depends_on = deps, ps_allowed_tools = [], ps_tool_name = None,
      ps_clarification = None, ps_governed_action = None, ps_parameters = [], ps_status = ''PENDING'',
      ps_observation_digest = None, ps_error = None, ps_completed_at = None\<rparr>"

definition default_plan :: "rtenv \<Rightarrow> string \<Rightarrow> string \<Rightarrow> PlanStep list" where
  "default_plan env goal run =
     (let first = (if needs_clarification goal
                   then [(plain_step ''warehouse-clarification'' 1 ''CLARIFICATION'' [])\<lparr>ps_clarification := Some (warehouse_clarification env run)\<rparr>]
                   else [])
      in first @ [(plain_step ''open-material-requests'' (int (length first) + 1) ''TOOL'' (map ps_step_id first))
           \<lparr>ps_allowed_tools := [''material_request.open''], ps_tool_name := Some ''material_request.open'',
            ps_parameters := [(''offset'', PInt 0), (''limit'', PInt 20)]\<rparr>])"

definition p2p_step_id :: "rtenv \<Rightarrow> GovernedActionIntent \<Rightarrow> string result" where
  "p2p_step_id env g = rbind (agent_canonical_json (PDict (intent_fields g))) (\<lambda>t.
     Inr (''p2p-'' @ int_str (ga_goal_version g) @ ''-'' @ int_str (ga_run_version g) @ ''-'' @
          take 16 (sha256_hex (wf_py (rt_lib env)) (utf8_encode t))))"

definition p2p_step :: "GovernedActionIntent \<Rightarrow> string \<Rightarrow> int \<Rightarrow> string list \<Rightarrow> PlanStep result" where
  "p2p_step g i n deps = checked step_shape ((plain_step i n ''GOVERNED_ACTION'' deps)\<lparr>ps_governed_action := Some g\<rparr>)"

section \<open>Advancing a workflow\<close>

text \<open>
  How the body of \<open>_advance\<close> ends: it returns a state and the \<open>resumed\<close> flag, or raises, with
  the values of \<open>current\<close> and \<open>held_lease\<close> at that point; \<open>Inl\<close> is a \<open>ToolExecutionFailure\<close>.
\<close>

datatype adv_end =
    AdvReturn WorkflowState bool
  | AdvRaise "string + pyexc" WorkflowState "string option"

definition hold_lease :: "rtenv \<Rightarrow> WorkflowState \<Rightarrow> string option \<Rightarrow> string rt" where
  "hold_lease env s held = (case held of
     Some l \<Rightarrow> if l \<noteq> [] then rt_return l else st_acquire env (ws_run_id s) (ws_revision s)
   | None \<Rightarrow> st_acquire env (ws_run_id s) (ws_revision s))"

definition step_action :: "adv_request \<Rightarrow> PlanStep \<Rightarrow> string \<Rightarrow> AgentAction" where
  "step_action rq x tool = \<lparr>ac_step = ps_order x, ac_tool_name = tool, ac_args = ps_parameters x, ac_correlation_id = ar_correlation_id rq\<rparr>"

text \<open>One call of the Gateway adapter, recorded in the world.\<close>

definition call_tool :: "rtenv \<Rightarrow> WorkflowState \<Rightarrow> PlanStep \<Rightarrow> AgentAction \<Rightarrow> world \<Rightarrow> tool_outcome \<times> world" where
  "call_tool env s x a w =
     (rt_tool env (length (w_calls w)) a,
      w\<lparr>w_calls := w_calls w @ [\<lparr>tc_run = ws_run_id s, tc_plan_version = ws_plan_version s, tc_step_id = ps_step_id x,
          tc_action = a, tc_db = w_db w\<rparr>]\<rparr>)"

text \<open>Save a state and return it, or raise.\<close>

definition save_return :: "rtenv \<Rightarrow> WorkflowState \<Rightarrow> WorkflowState \<Rightarrow> string \<Rightarrow> world \<Rightarrow> (adv_end + WorkflowState) \<times> world" where
  "save_return env s s' lease w =
     (case st_save env s' (ws_revision s) (Some lease) False w of
        (Inl e, w') \<Rightarrow> (Inl (AdvRaise (Inr e) s (Some lease)), w')
      | (Inr _, w') \<Rightarrow> (Inl (AdvReturn s' False), w'))"

text \<open>What happens to the step \<open>x\<close> that \<open>s\<close> records as running: \<open>Inr\<close> is the state after its completion.\<close>

definition dispatch :: "rtenv \<Rightarrow> adv_request \<Rightarrow> PlanStep \<Rightarrow> WorkflowState \<Rightarrow> string \<Rightarrow> world \<Rightarrow> (adv_end + WorkflowState) \<times> world" where
  "dispatch env rq x s lease w =
     (let fail = (\<lambda>e w. (Inl (AdvRaise e s (Some lease)), w)) in
      if ps_type x = ''CLARIFICATION'' then
        (case ps_clarification x of
           None \<Rightarrow> fail (Inr (WorkflowError ''WORKFLOW_INVALID'' ''clarification step is incomplete'')) w
         | Some c \<Rightarrow> (case rt_at env (\<lambda>t. interrupt (rt_lib env) t s c) w of
               (Inl e, w1) \<Rightarrow> fail (Inr e) w1
             | (Inr s2, w1) \<Rightarrow> save_return env s s2 lease w1))
      else if ps_type x = ''GOVERNED_ACTION'' then
        (case rt_at env (\<lambda>t. wait_for_governed_action (rt_lib env) t s (ps_step_id x)) w of
           (Inl e, w1) \<Rightarrow> fail (Inr e) w1
         | (Inr s2, w1) \<Rightarrow> save_return env s s2 lease w1)
      else (case ps_tool_name x of
          None \<Rightarrow> fail (Inr (WorkflowError ''WORKFLOW_INVALID'' ''tool step is incomplete'')) w
        | Some tool \<Rightarrow>
            if \<not> ar_capable rq then fail (Inr (WorkflowError ''WORKFLOW_INVALID'' ''P2P request cannot execute a tool step'')) w
            else if \<not> valid_action (step_action rq x tool) then fail (Inr ValueError) w
            else (case call_tool env s x (step_action rq x tool) w of
                (ToolFailure code, w1) \<Rightarrow> fail (Inl code) w1
              | (ToolRaise text, w1) \<Rightarrow> fail (Inr (OtherError text)) w1
              | (ToolOk obs, w1) \<Rightarrow>
                  (case rt_at2 env (\<lambda>t t'. complete_step (rt_lib env) t t' s obs) w1 of
                     (Inl e, w2) \<Rightarrow> fail (Inr e) w2
                   | (Inr s2, w2) \<Rightarrow>
                       (case st_save env s2 (ws_revision s) (Some lease) False w2 of
                          (Inl e, w3) \<Rightarrow> fail (Inr e) w3
                        | (Inr _, w3) \<Rightarrow> (Inr s2, w3))))))"

lemma dispatch_completes:
  assumes "dispatch env rq x s lease w = (Inr s2, w')"
  shows "\<exists>t t' obs. complete_step (rt_lib env) t t' s obs = Inr s2"
  using assms
  by (auto simp: dispatch_def save_return_def rt_at_def rt_at2_def Let_def
      split: if_splits option.splits sum.splits prod.splits tool_outcome.splits)

lemma adv_progress:
  assumes "ready_step s = Inr (Some x)" and "rt_at env (\<lambda>t. begin_step (rt_lib env) t s (ps_step_id x)) w1 = (Inr s1, w2)"
    and "dispatch env rq x s1 lease w3 = (Inr s2, w4)"
  shows "open_steps (ws_steps s2) < open_steps (ws_steps s)"
proof -
  from assms(2) have "begin_step (rt_lib env) (rt_clock env (w_tick w1)) s (ps_step_id x) = Inr s1" by (simp add: rt_at_def)
  with dispatch_completes [OF assms(3)] settle_progress [OF assms(1)] show ?thesis by blast
qed

text \<open>Take a ready step, record it as running under a lease, and dispatch it, until the workflow leaves RUNNING.\<close>

function adv_loop :: "rtenv \<Rightarrow> adv_request \<Rightarrow> WorkflowState \<Rightarrow> bool \<Rightarrow> string option \<Rightarrow> world \<Rightarrow> adv_end \<times> world" where
  "adv_loop env rq s moved held w =
     (if ws_status s \<noteq> ''RUNNING'' then (AdvReturn s moved, w)
      else (case ready_step s of
        Inl e \<Rightarrow> (AdvRaise (Inr e) s held, w)
      | Inr None \<Rightarrow> (AdvRaise (Inr (WorkflowError ''WORKFLOW_INVALID'' ''running workflow has no ready step'')) s held, w)
      | Inr (Some x) \<Rightarrow>
          (case hold_lease env s held w of
             (Inl e, w1) \<Rightarrow> (AdvRaise (Inr e) s held, w1)
           | (Inr lease, w1) \<Rightarrow>
               (case rt_at env (\<lambda>t. begin_step (rt_lib env) t s (ps_step_id x)) w1 of
                  (Inl e, w2) \<Rightarrow> (AdvRaise (Inr e) s (Some lease), w2)
                | (Inr s1, w2) \<Rightarrow>
                    (case st_save env s1 (ws_revision s) (Some lease) True w2 of
                       (Inl e, w3) \<Rightarrow> (AdvRaise (Inr e) s (Some lease), w3)
                     | (Inr _, w3) \<Rightarrow>
                         (case dispatch env rq x s1 lease w3 of
                            (Inl end', w4) \<Rightarrow> (end', w4)
                          | (Inr s2, w4) \<Rightarrow> adv_loop env rq s2 True None w4))))))"
  by pat_completeness auto
termination
  by (relation "measure (\<lambda>(env, rq, s, moved, held, w). open_steps (ws_steps s))") (auto intro: adv_progress [OF _ sym sym])

declare adv_loop.simps [simp del]

text \<open>The start of a fresh workflow, then the checks before the loop.\<close>

definition adv_start :: "rtenv \<Rightarrow> WorkflowState \<Rightarrow> string option \<Rightarrow> world \<Rightarrow> (adv_end + WorkflowState \<times> string option) \<times> world" where
  "adv_start env s lease w =
     (if ws_status s \<noteq> ''READY'' then (Inr (s, lease), w)
      else (case hold_lease env s lease w of
          (Inl e, w1) \<Rightarrow> (Inl (AdvRaise (Inr e) s lease), w1)
        | (Inr l, w1) \<Rightarrow>
            (case rt_at env (\<lambda>t. engine_start (rt_lib env) t s) w1 of
               (Inl e, w2) \<Rightarrow> (Inl (AdvRaise (Inr e) s (Some l)), w2)
             | (Inr s1, w2) \<Rightarrow>
                 (case st_save env s1 (ws_revision s) (Some l) True w2 of
                    (Inl e, w3) \<Rightarrow> (Inl (AdvRaise (Inr e) s (Some l)), w3)
                  | (Inr _, w3) \<Rightarrow> (Inr (s1, Some l), w3)))))"

definition adv_body :: "rtenv \<Rightarrow> adv_request \<Rightarrow> WorkflowState \<Rightarrow> string option \<Rightarrow> world \<Rightarrow> adv_end \<times> world" where
  "adv_body env rq s lease w =
     (case adv_start env s lease w of
        (Inl end', w1) \<Rightarrow> (end', w1)
      | (Inr (s1, held), w1) \<Rightarrow>
          let moved = (ws_status s = ''READY'') in
          if ws_status s1 \<in> {''INTERRUPTED'', ''SUCCEEDED'', ''FAILED'', ''CANCELLED'', ''EXPIRED''} then (AdvReturn s1 moved, w1)
          else (case ws_current s1 of
              None \<Rightarrow> adv_loop env rq s1 moved held w1
            | Some i \<Rightarrow>
                (case find_step (ws_steps s1) i of
                   None \<Rightarrow> (AdvRaise (Inr (OtherError [])) s1 held, w1)
                 | Some x \<Rightarrow>
                     if ps_status x = ''RUNNING''
                     then (AdvRaise (Inr (WorkflowError ''UNCERTAIN_TOOL_RESULT''
                            ''a running tool has no durable result; manual recovery is required'')) s1 held, w1)
                     else adv_loop env rq s1 moved held w1)))"

definition release_held :: "rtenv \<Rightarrow> WorkflowState \<Rightarrow> string option \<Rightarrow> unit rt" where
  "release_held env s held = (case held of
     Some l \<Rightarrow> if l \<noteq> [] then st_release env (ws_run_id s) l else rt_return ()
   | None \<Rightarrow> rt_return ())"

text \<open>The \<open>except\<close> clauses of \<open>_advance\<close>.\<close>

definition adv_tool_failure :: "rtenv \<Rightarrow> string \<Rightarrow> WorkflowState \<Rightarrow> string option \<Rightarrow> WorkflowResult rt" where
  "adv_tool_failure env code s held =
     (if (case held of None \<Rightarrow> False | Some l \<Rightarrow> l \<noteq> []) \<and> ws_status s = ''RUNNING'' \<and>
         (case ws_current s of None \<Rightarrow> False | Some i \<Rightarrow> i \<noteq> [])
      then rt_bind (rt_at env (\<lambda>t. fail_step (rt_lib env) t s ''TOOL_ERROR'' code)) (\<lambda>f.
           let f' = f\<lparr>ws_replan_reason := Some ''TOOL_ERROR''\<rparr> in
           rt_bind (st_save env f' (ws_revision s) held False) (\<lambda>_ w. (engine_result f' [] True, w)))
      else rt_raise (WorkflowError ''TOOL_ERROR'' ''tool execution failed''))"

definition adv_finish :: "rtenv \<Rightarrow> adv_end \<Rightarrow> WorkflowResult rt" where
  "adv_finish env end' = (case end' of
     AdvReturn s moved \<Rightarrow> (\<lambda>w. (engine_result s [] moved, w))
   | AdvRaise (Inl code) s held \<Rightarrow> adv_tool_failure env code s held
   | AdvRaise (Inr e) s held \<Rightarrow>
       (case e of
          CheckpointError c d \<Rightarrow> rt_raise e
        | WorkflowError c d \<Rightarrow> rt_bind (release_held env s held) (\<lambda>_. rt_raise e)
        | _ \<Rightarrow> rt_bind (release_held env s held) (\<lambda>_.
            rt_raise (WorkflowError ''TOOL_ERROR'' (or_text (Some (take 400 (rt_exc_text env e))) ''workflow execution failed'')))))"

definition advance :: "rtenv \<Rightarrow> adv_request \<Rightarrow> WorkflowState \<Rightarrow> string option \<Rightarrow> WorkflowResult rt" where
  "advance env rq s lease w = (case adv_body env rq s lease w of (end', w') \<Rightarrow> adv_finish env end' w')"

section \<open>The service\<close>

record start_request =
  sr_run_id :: string
  sr_correlation_id :: string
  sr_goal :: string
  sr_deadline :: "string option"
  sr_steps :: "PlanStep list option"

definition default_deadline :: "rtenv \<Rightarrow> int \<Rightarrow> string" where
  "default_deadline env t = iso_format (rt_lib env) (t + 24 * 3600 * 1000000)"

definition rt_start :: "rtenv \<Rightarrow> start_request \<Rightarrow> WorkflowResult rt" where
  "rt_start env rq =
     (let steps = (case sr_steps rq of None \<Rightarrow> default_plan env (sr_goal rq) (sr_run_id rq)
                   | Some xs \<Rightarrow> if xs = [] then default_plan env (sr_goal rq) (sr_run_id rq) else xs) in
      rt_bind (rt_at env (\<lambda>t. create_state (rt_lib env) (rt_uuid4 env) (sr_run_id rq) (Some (sr_correlation_id rq)) steps
                 (or_text (sr_deadline rq) (default_deadline env t)) ''workflow-v1'')) (\<lambda>initial w.
        case st_create env initial w of
          (Inr _, w1) \<Rightarrow> advance env \<lparr>ar_capable = True, ar_correlation_id = sr_correlation_id rq\<rparr> initial None w1
        | (Inl e, w1) \<Rightarrow>
            (case e of
               CheckpointError code d \<Rightarrow>
                 if code = ''CHECKPOINT_CONFLICT''
                 then rt_bind (st_load env (sr_run_id rq))
                        (\<lambda>s. advance env \<lparr>ar_capable = True, ar_correlation_id = sr_correlation_id rq\<rparr> s None) w1
                 else (Inl e, w1)
             | _ \<Rightarrow> (Inl e, w1))))"

text \<open>Change the stored state of a run under a lease: \<open>resume\<close>, \<open>status\<close>, \<open>cancel\<close>, completion and replanning.\<close>

definition under_lease :: "rtenv \<Rightarrow> string \<Rightarrow> WorkflowState \<Rightarrow> WorkflowState rt \<Rightarrow> (WorkflowState \<Rightarrow> bool) \<Rightarrow> (WorkflowState \<times> string) rt" where
  "under_lease env run s change keep =
     rt_bind (st_acquire env run (ws_revision s)) (\<lambda>lease.
       rt_cleanup (rt_bind change (\<lambda>s'. rt_bind (st_save env s' (ws_revision s) (Some lease) (keep s')) (\<lambda>_. rt_return (s', lease))))
         (st_release env run lease))"

definition stale :: pyexc where
  "stale = CheckpointError ''CHECKPOINT_CONFLICT'' ''workflow revision is stale''"

record p2p_request =
  pr_run_id :: string
  pr_correlation_id :: string
  pr_deadline :: string
  pr_intent :: GovernedActionIntent

text \<open>\<open>==\<close> between an optional intent and the requested one.\<close>

definition is_intent :: "GovernedActionIntent option \<Rightarrow> GovernedActionIntent \<Rightarrow> bool" where
  "is_intent v g = (case v of None \<Rightarrow> False | Some h \<Rightarrow> intent_eq h g)"

definition p2p_load :: "rtenv \<Rightarrow> p2p_request \<Rightarrow> string \<Rightarrow> WorkflowState rt" where
  "p2p_load env rq i w =
     (case st_load env (pr_run_id rq) w of
        (Inr s, w1) \<Rightarrow> (Inr s, w1)
      | (Inl e, w1) \<Rightarrow>
          if (case e of CheckpointError code d \<Rightarrow> code \<noteq> ''CHECKPOINT_NOT_FOUND'' | _ \<Rightarrow> True) then (Inl e, w1)
          else (case rbind (p2p_step (pr_intent rq) i 1 []) (\<lambda>x.
                  create_state (rt_lib env) (rt_uuid4 env) (pr_run_id rq) (Some (pr_correlation_id rq)) [x] (pr_deadline rq) ''workflow-v1'') of
              Inl e' \<Rightarrow> (Inl e', w1)
            | Inr initial \<Rightarrow> rt_bind (st_create env initial) (\<lambda>_. rt_return initial) w1))"

definition p2p_replan :: "rtenv \<Rightarrow> p2p_request \<Rightarrow> string \<Rightarrow> WorkflowState \<Rightarrow> WorkflowResult rt" where
  "p2p_replan env rq i s =
     (case p2p_step (pr_intent rq) i (int (length (ws_steps s)) + 1) (if ws_steps s = [] then [] else [ps_step_id (last (ws_steps s))]) of
        Inl e \<Rightarrow> rt_raise e
      | Inr x \<Rightarrow>
          rt_bind (under_lease env (pr_run_id rq) s (rt_at env (\<lambda>t. replan (rt_lib env) t s (ws_steps s @ [x]) ''NO_PROGRESS'')) (\<lambda>_. False))
            (\<lambda>(s', lease). advance env \<lparr>ar_capable = False, ar_correlation_id = pr_correlation_id rq\<rparr> s' None))"

definition plan_governed_action :: "rtenv \<Rightarrow> p2p_request \<Rightarrow> WorkflowResult rt" where
  "plan_governed_action env rq =
     (case p2p_step_id env (pr_intent rq) of
        Inl e \<Rightarrow> rt_raise e
      | Inr i \<Rightarrow> rt_bind (p2p_load env rq i) (\<lambda>s.
          let current = (case ws_current s of None \<Rightarrow> None | Some c \<Rightarrow> if c = [] then None else find_step (ws_steps s) c) in
          case (case current of None \<Rightarrow> None | Some x \<Rightarrow> if ps_status x \<in> {''RUNNING'', ''WAITING''} then Some x else None) of
            Some x \<Rightarrow>
              if ps_type x = ''GOVERNED_ACTION'' \<and> is_intent (ps_governed_action x) (pr_intent rq)
              then (\<lambda>w. (engine_result s [] False, w))
              else rt_raise (WorkflowError ''WORKFLOW_CONFLICT'' ''another governed P2P candidate is already current'')
          | None \<Rightarrow>
              if ws_status s = ''READY'' then
                (if length (ws_steps s) = 1 \<and> is_intent (ps_governed_action (hd (ws_steps s))) (pr_intent rq)
                 then advance env \<lparr>ar_capable = False, ar_correlation_id = pr_correlation_id rq\<rparr> s None
                 else rt_raise (WorkflowError ''WORKFLOW_CONFLICT'' ''workflow has an incompatible pending plan''))
              else if ws_status s \<in> {''FAILED'', ''CANCELLED'', ''EXPIRED'', ''INTERRUPTED''}
              then rt_raise (WorkflowError ''WORKFLOW_CONFLICT'' ''workflow cannot accept a new P2P candidate'')
              else if i \<in> set (map ps_step_id (ws_steps s))
              then rt_raise (WorkflowError ''WORKFLOW_CONFLICT'' ''P2P candidate identity was already used'')
              else p2p_replan env rq i s))"

text \<open>The request of \<open>resume\<close>, \<open>cancel\<close> and completion names the revision the caller saw.\<close>

definition load_at :: "rtenv \<Rightarrow> string \<Rightarrow> int \<Rightarrow> WorkflowState rt" where
  "load_at env run n = rt_bind (st_load env run) (\<lambda>s. if ws_revision s \<noteq> n then rt_raise stale else rt_return s)"

definition rt_resume :: "rtenv \<Rightarrow> string \<Rightarrow> string \<Rightarrow> int \<Rightarrow> string \<Rightarrow> string \<Rightarrow> WorkflowResult rt" where
  "rt_resume env run corr n interrupt_id answer =
     rt_bind (load_at env run n) (\<lambda>s.
     rt_bind (under_lease env run s (rt_at2 env (\<lambda>t t'. engine_resume (rt_lib env) t t' s interrupt_id (PStr answer))) (\<lambda>s'. ws_status s' = ''RUNNING''))
       (\<lambda>(s', lease).
          if ws_status s' \<noteq> ''RUNNING'' then (\<lambda>w. (engine_result s' [] True, w))
          else advance env \<lparr>ar_capable = True, ar_correlation_id = corr\<rparr> s' (Some lease)))"

definition rt_status :: "rtenv \<Rightarrow> string \<Rightarrow> WorkflowResult rt" where
  "rt_status env run =
     rt_bind (st_load env run) (\<lambda>s.
       if ws_status s \<in> set TERMINAL then (\<lambda>w. (engine_result s [] False, w))
       else rt_bind (rt_at env (\<lambda>t. is_expired (rt_lib env) t s)) (\<lambda>expired.
              if \<not> expired then (\<lambda>w. (engine_result s [] False, w))
              else rt_bind (under_lease env run s (rt_return (engine_expire s)) (\<lambda>_. False)) (\<lambda>(s', lease) w. (engine_result s' [] False, w))))"

definition rt_cancel :: "rtenv \<Rightarrow> string \<Rightarrow> int \<Rightarrow> WorkflowResult rt" where
  "rt_cancel env run n =
     rt_bind (load_at env run n) (\<lambda>s.
     rt_bind (under_lease env run s (\<lambda>w. (engine_cancel s ''cancelled'', w)) (\<lambda>_. False)) (\<lambda>(s', lease) w. (engine_result s' [] False, w)))"

definition rt_complete_governed_action :: "rtenv \<Rightarrow> string \<Rightarrow> int \<Rightarrow> string \<Rightarrow> string \<Rightarrow> WorkflowResult rt" where
  "rt_complete_governed_action env run n i digest =
     rt_bind (load_at env run n) (\<lambda>s.
     rt_bind (under_lease env run s (rt_at2 env (\<lambda>t t'. complete_governed_action (rt_lib env) t t' s i digest)) (\<lambda>_. False))
       (\<lambda>(s', lease) w. (engine_result s' [] True, w)))"

text \<open>Recovery after a crash: a step found running is turned into a question to the user.\<close>

definition crash_clarification :: "rtenv \<Rightarrow> WorkflowState \<Rightarrow> ClarificationRequest" where
  "crash_clarification env s =
     \<lparr>cr_interrupt_id = uuid_url (rt_lib env) (''synora:workflow:'' @ ws_run_id s @ '':crash:'' @ int_str (ws_revision s)),
      cr_question = rt_crash_question env, cr_answer_type = ''CHOICE'', cr_answer_max_length = 20, cr_choices = [''inspect'']\<rparr>"

definition recover_one :: "rtenv \<Rightarrow> WorkflowState \<Rightarrow> nat rt" where
  "recover_one env s =
     (case ws_current s of
        None \<Rightarrow> rt_return 0
      | Some i \<Rightarrow>
          if ws_status s \<noteq> ''RUNNING'' then rt_return 0
          else (case find_step (ws_steps s) i of
              None \<Rightarrow> rt_raise (OtherError ''coroutine raised StopIteration'')
            | Some x \<Rightarrow>
                if ps_status x \<noteq> ''RUNNING'' then rt_return 0
                else rt_bind (st_acquire env (ws_run_id s) (ws_revision s)) (\<lambda>lease.
                  case checked valid_clarification (crash_clarification env s) of
                    Inl e \<Rightarrow> rt_raise e
                  | Inr c \<Rightarrow>
                      rt_bind (rt_cleanup
                        (rt_bind (rt_at env (\<lambda>t. interrupt (rt_lib env) t s c)) (\<lambda>s'.
                           st_save env (s'\<lparr>ws_crash_recovered := True, ws_replan_reason := Some ''STATE_DRIFT''\<rparr>) (ws_revision s) (Some lease) False))
                        (st_release env (ws_run_id s) lease)) (\<lambda>_. rt_return 1))))"

fun recover_all :: "rtenv \<Rightarrow> WorkflowState list \<Rightarrow> nat rt" where
  "recover_all env [] = rt_return 0"
| "recover_all env (s # ss) = rt_bind (recover_one env s) (\<lambda>n. rt_bind (recover_all env ss) (\<lambda>m. rt_return (n + m)))"

definition rt_recover :: "rtenv \<Rightarrow> nat rt" where
  "rt_recover env =
     rt_bind (\<lambda>w. (ck_recoverable (rt_lib env) (rt_up env (w_tick w)) (rt_clock env (w_tick w)) (w_db w), w\<lparr>w_tick := w_tick w + 1\<rparr>))
       (recover_all env)"

end
