(* ===== verification/Workflow_Properties.thy ===== *)
theory Workflow_Properties
  imports Workflow_Runner Action_Properties
begin

text \<open>
  The properties of the workflow engine and of its sequential runner, with a two-step read-only plan
  as the concrete input of the witnesses.
\<close>

section \<open>Runs of the engine\<close>

lemma created_sound:
  assumes "create_state lib uuid4 run_id trace_id steps deadline gv = Inr s" and "list_all valid_step steps"
    and "\<forall>x \<in> set steps. ps_status x = ''PENDING''"
  shows "sound lib s"
proof -
  from assms(1) have s: "ws_steps s = steps" "ws_status s = ''READY''" "ws_clarification s = None" "ws_budget s = default_budget"
      "state_shape lib s"
    by (auto simp: create_state_def make_state_def result_simps split: if_splits)
  have "valid_budget default_budget" by (simp add: valid_budget_def default_budget_def)
  with s assms(2) have "valid_state lib s" by (simp add: valid_state_def)
  moreover have "coherent s" using s assms(3) by (simp add: coherent_def active_def started_def)
  ultimately show ?thesis by (simp add: sound_def)
qed

lemma engine_steps_sound:
  assumes "(engine_step lib)\<^sup>*\<^sup>* s s'" and "wflib_ok lib" and "sound lib s"
  shows "sound lib s'"
  using assms by (induction rule: rtranclp_induct) (auto intro: engine_step_sound)

lemma kept_by_put:
  assumes "plan_ok (ws_steps s)" and "z \<in> set (ws_steps s)" and "ps_status z \<noteq> ''SUCCEEDED''"
    and "ws_steps s' = put (ws_steps s) z y" and "x \<in> set (ws_steps s)" and "ps_status x = ''SUCCEEDED''"
  shows "\<exists>y' \<in> set (ws_steps s'). evidence y' = evidence x"
  using assms set_put [OF assms(1,2), of y] by auto

text \<open>A completed step survives every operation with its evidence.\<close>

lemma engine_step_keeps:
  assumes s: "sound lib s" and e: "engine_step lib s s'" and x: "x \<in> set (ws_steps s)" "ps_status x = ''SUCCEEDED''"
  shows "\<exists>y \<in> set (ws_steps s'). evidence y = evidence x"
proof -
  note p = soundD(1) [OF s]
  note keep = kept_by_put [OF p _ _ _ x]
  from e show ?thesis
  proof cases
    case (es_start now)
    then obtain z where "z \<in> set (ws_steps s)" "runnable (ws_steps s) z" "ws_steps s' = put (ws_steps s) z (z\<lparr>ps_status := ''READY''\<rparr>)"
      by (elim start_effect [OF p]) simp
    then show ?thesis by (intro keep [of z]) (auto simp: runnable_def)
  next
    case (es_begin now i)
    then obtain z where z: "ready_step s = Inr (Some z)" "z \<in> set (ws_steps s)" "ws_steps s' = put (ws_steps s) z (z\<lparr>ps_status := ''RUNNING''\<rparr>)"
      by (elim begin_effect [OF p]) simp
    from ready_step_ok [OF p soundD(2) [OF s] z(1)] z(2,3) show ?thesis by (intro keep [of z]) (auto simp: runnable_def)
  next
    case (es_wait now i)
    then obtain z where "z \<in> set (ws_steps s)" "ps_status z = ''RUNNING''" "ws_steps s' = put (ws_steps s) z (z\<lparr>ps_status := ''WAITING''\<rparr>)"
      by (elim wait_effect [OF p]) simp
    then show ?thesis by (intro keep [of z]) auto
  next
    case (es_receipt now at i digest)
    then obtain z where "z \<in> set (ws_steps s)" "ps_status z = ''WAITING''" "ws_steps s' = put (ws_steps s) z (succeeded lib at digest z)"
      by (elim receipt_effect [OF p]) simp
    then show ?thesis by (intro keep [of z]) auto
  next
    case (es_complete now at obs)
    then obtain z where "z \<in> set (ws_steps s)" "ps_status z = ''RUNNING''" "ws_steps s' = put (ws_steps s) z (succeeded lib at (ob_digest obs) z)"
      by (elim complete_effect [OF p]) simp
    then show ?thesis by (intro keep [of z]) auto
  next
    case (es_fail now code detail)
    then obtain z y where "z \<in> set (ws_steps s)" "ps_status z = ''RUNNING''" "ws_steps s' = put (ws_steps s) z y"
      by (elim fail_effect [OF p]) simp
    then show ?thesis by (intro keep [of z]) auto
  next
    case (es_interrupt now request)
    then obtain z y where "z \<in> set (ws_steps s)" "ps_status z = ''RUNNING''" "ws_steps s' = put (ws_steps s) z y"
      by (elim interrupt_effect [OF p]) simp
    then show ?thesis by (intro keep [of z]) auto
  next
    case (es_resume now at interrupt_id answer)
    then obtain z y where "z \<in> set (ws_steps s)" "ps_status z = ''WAITING''" "ws_steps s' = put (ws_steps s) z y"
      by (elim resume_effect [OF p soundD(2) [OF s]]) simp_all
    then show ?thesis by (intro keep [of z]) auto
  next
    case (es_replan now steps reason)
    from replan_effect(2,3) [OF p es_replan(1)] x step_eq_evidence show ?thesis by fastforce
  next
    case (es_cancel detail)
    then show ?thesis using x by (auto simp: engine_cancel_def split: if_splits)
  next
    case es_expire
    then show ?thesis using x by (auto simp: engine_expire_def)
  qed
qed

lemma engine_steps_keep:
  assumes "(engine_step lib)\<^sup>*\<^sup>* s s'" and "wflib_ok lib" and "sound lib s" and "x \<in> set (ws_steps s)" and "ps_status x = ''SUCCEEDED''"
  shows "\<exists>y \<in> set (ws_steps s'). evidence y = evidence x"
  using assms
proof (induction rule: rtranclp_induct)
  case base
  then show ?case by blast
next
  case (step t u)
  then obtain y where y: "y \<in> set (ws_steps t)" "evidence y = evidence x" by blast
  with step.prems(4) have "ps_status y = ''SUCCEEDED''" using evidence_fields(2) by metis
  with engine_step_keeps [OF engine_steps_sound [OF step.hyps(1) step.prems(1,2)] step.hyps(2) y(1)] y(2) show ?case by auto
qed

section \<open>A sample plan\<close>

definition sample_wflib :: wflib where
  "sample_wflib = \<lparr>wf_py = sample_lib,
     iso_parse = (\<lambda>t. if t = ''2026-01-01T00:00:00+00:00'' then Some (Instant 1000) else None),
     iso_format = (\<lambda>_. ''2025-12-31T00:00:00.000+00:00''), uuid_text = Some, uuid_url = (\<lambda>_. ''0f8fad5b-d9cb-469f-a165-70867728950e'')\<rparr>"

definition sample_step :: "string \<Rightarrow> int \<Rightarrow> string list \<Rightarrow> PlanStep" where
  "sample_step i n deps =
     \<lparr>ps_step_id = i, ps_order = n, ps_type = ''TOOL'', ps_depends_on = deps, ps_allowed_tools = [''item.lookup''],
      ps_tool_name = Some ''item.lookup'', ps_clarification = None, ps_governed_action = None, ps_parameters = [],
      ps_status = ''PENDING'', ps_observation_digest = None, ps_error = None, ps_completed_at = None\<rparr>"

definition sample_plan :: "PlanStep list" where
  "sample_plan = [sample_step ''read'' 1 [], sample_step ''again'' 2 [''read'']]"

definition sample_run_id :: string where
  "sample_run_id = ''0f8fad5b-d9cb-469f-a165-70867728950e''"

definition sample_state :: WorkflowState where
  "sample_state = \<lparr>ws_run_id = sample_run_id, ws_revision = 0, ws_plan_version = 1, ws_graph_version = ''workflow-v1'',
     ws_status = ''READY'', ws_current = None, ws_steps = sample_plan, ws_clarification = None, ws_replan_reason = None,
     ws_budget = default_budget, ws_deadline = ''2026-01-01T00:00:00+00:00'', ws_trace_id = sample_run_id,
     ws_stop_reason = None, ws_crash_recovered = False\<rparr>"

definition sample_observation :: Observation where
  "sample_observation = \<lparr>ob_step = 1, ob_tool_name = ''item.lookup'', ob_ok = True, ob_summary = ''one item'',
     ob_digest = replicate 64 (CHR ''0''), ob_error_code = None, ob_retryable = False\<rparr>"

lemma sample_wflib_ok: "wflib_ok sample_wflib"
  by (simp add: wflib_ok_def sample_wflib_def sample_lib_def sha_DIGEST_def is_lower_hex_def list_all_iff)

lemma sample_plan_valid: "list_all valid_step sample_plan" "\<forall>x \<in> set sample_plan. ps_status x = ''PENDING''"
  by (simp_all add: sample_plan_def sample_step_def valid_step_def step_shape_def STEP_ID_def is_lower_ascii_def
      STEP_TYPES_def STEP_STATUSES_def TOOL_NAMES_def validate_dependencies_def check_json_mapping_def check_digest_def
      opt_max_def validate_tool_shape_def declared_contract_def status_evidence_def)

lemma sample_plan_dag: "validate_plan_dag sample_plan = Inr ()"
  by (simp add: validate_plan_dag_def sample_plan_def sample_step_def step_graph_def visit.simps)

lemma sample_uuid_shape: "uuid_shape sample_run_id"
  using py_UUID_shape sample_uuid unfolding sample_run_id_def by (simp add: gov_uuid_ok)

lemma sample_deadline: "parse_deadline sample_wflib ''2026-01-01T00:00:00+00:00'' = Inr 1000"
  by (simp add: parse_deadline_def sample_wflib_def replace_all_absent [of "CHR ''Z''"])

lemma sample_created:
  "create_state sample_wflib sample_run_id sample_run_id (Some sample_run_id) sample_plan ''2026-01-01T00:00:00+00:00'' ''v'' = Inr sample_state"
proof -
  have "state_shape sample_wflib sample_state"
    using sample_plan_dag sample_uuid_shape sample_deadline validate_plan_dag_iff [of sample_plan]
    by (simp add: state_shape_def sample_state_def text_between_def WORKFLOW_STATUSES_def validate_state_shape_def TERMINAL_def opt_max_def)
      (simp add: sample_plan_def)
  then show ?thesis by (simp add: create_state_def sample_plan_dag make_state_def sample_state_def)
qed

lemma sample_sound: "sound sample_wflib sample_state"
  by (rule created_sound [OF sample_created sample_plan_valid])

lemma sample_observation_valid: "valid_observation (wf_py sample_wflib) sample_observation"
  by (simp add: valid_observation_def sample_observation_def sample_wflib_def sample_lib_def TOOL_NAMES_def text_between_def
      sha_DIGEST_def is_lower_hex_def list_all_iff opt_max_def)

definition sample_started :: WorkflowState where
  "sample_started = sample_state\<lparr>ws_status := ''RUNNING'', ws_revision := 1,
     ws_steps := [(sample_step ''read'' 1 [])\<lparr>ps_status := ''READY''\<rparr>, sample_step ''again'' 2 [''read'']]\<rparr>"

definition sample_begun :: WorkflowState where
  "sample_begun = sample_started\<lparr>ws_revision := 2, ws_current := Some ''read'',
     ws_steps := [(sample_step ''read'' 1 [])\<lparr>ps_status := ''RUNNING''\<rparr>, sample_step ''again'' 2 [''read'']]\<rparr>"

definition sample_read :: PlanStep where
  "sample_read = (sample_step ''read'' 1 [])\<lparr>ps_status := ''SUCCEEDED'', ps_observation_digest := Some (replicate 64 (CHR ''0'')),
     ps_completed_at := Some ''2025-12-31T00:00:00.000+00:00''\<rparr>"

definition sample_half :: WorkflowState where
  "sample_half = sample_begun\<lparr>ws_revision := 3, ws_current := Some ''again'',
     ws_steps := [sample_read, sample_step ''again'' 2 [''read'']]\<rparr>"

lemma sample_ensure: "t < 1000 \<Longrightarrow> ws_deadline s = ''2026-01-01T00:00:00+00:00'' \<Longrightarrow> ensure_not_expired sample_wflib t s = Inr ()"
  by (simp add: ensure_not_expired_def sample_deadline)

lemmas sample_defs = sample_state_def sample_started_def sample_begun_def sample_half_def sample_plan_def sample_step_def sample_read_def
lemmas engine_defs = ready_step_def next_runnable_def runnable_def done_ids_def replace_step_def update_at_def get_step_def
  find_step_def ensure_running_def

lemma sample_start: "engine_start sample_wflib 0 sample_state = Inr sample_started"
  by (simp add: engine_start_def sample_ensure sample_defs engine_defs)

lemma sample_begin: "begin_step sample_wflib 0 sample_started ''read'' = Inr sample_begun"
  by (simp add: begin_step_def sample_ensure sample_defs engine_defs)

lemma sample_complete: "complete_step sample_wflib 0 0 sample_begun sample_observation = Inr sample_half"
  by (simp add: complete_step_def sample_ensure sample_defs engine_defs succeeded_def settle_def now_iso_def
      sample_observation_def) (simp add: sample_wflib_def)

lemma sample_reaches: "(engine_step sample_wflib)\<^sup>*\<^sup>* sample_state sample_half"
  by (meson es_start [OF sample_start] es_begin [OF sample_begin] es_complete [OF sample_complete sample_observation_valid]
      rtranclp.rtrancl_refl rtranclp.rtrancl_into_rtrancl)

section \<open>Properties\<close>





text \<open>
  C31: the runner finishes its work.  On a valid plan of tool steps, with a deadline that
  does not pass and an executor that answers every tool, the loop (which terminates on every
  input) returns a succeeded workflow in which every step succeeded: no plan that passes the
  plan check gets stuck.
\<close>

theorem runner_completes_plan:
  assumes "wflib_ok lib" and "create_state lib uuid4 run_id trace_id steps deadline gv = Inr s"
    and "list_all valid_step steps" and "\<forall>x \<in> set steps. ps_type x = ''TOOL'' \<and> ps_status x = ''PENDING''"
    and "parse_deadline lib deadline = Inr d" and "\<forall>k. clk k < d"
    and "\<forall>j x. ps_tool_name x \<in> ps_tool_name ` set steps \<longrightarrow> (\<exists>ob. execute j x = Inr ob \<and> ob_ok ob \<and>
           ps_tool_name x = Some (ob_tool_name ob) \<and> valid_observation (wf_py lib) ob)"
  shows "\<exists>r. runner_run lib clk execute s = Inr r \<and> ws_status (wr_state r) = ''SUCCEEDED'' \<and>
     (\<forall>x \<in> set (ws_steps (wr_state r)). ps_status x = ''SUCCEEDED'')"
proof -
  from assms(2) have s: "ws_steps s = steps" "ws_status s = ''READY''" "ws_deadline s = deadline" "ws_current s = None"
      "ws_clarification s = None" "1 \<le> length steps" "length steps \<le> 256"
    by (auto simp: create_state_def make_state_def result_simps state_shape_def split: if_splits)
  have snd: "sound lib s" by (rule created_sound [OF assms(2,3)]) (use assms(4) in blast)
  note p = soundD(1) [OF snd]
  have "\<exists>x \<in> set steps. ps_status x \<noteq> ''SUCCEEDED''" using assms(4) s(6) by (cases steps) auto
  then obtain x where x: "next_runnable steps = Some x"
    using some_runnable [of steps] p s(1) assms(4) by blast
  then have xin: "x \<in> set (ws_steps s)" using next_runnable_ok s by simp
  let ?x1 = "x\<lparr>ps_status := ''READY''\<rparr>"
  let ?s1 = "s\<lparr>ws_status := ''RUNNING'', ws_steps := put steps x ?x1, ws_revision := ws_revision s + 1\<rparr>"
  have start: "engine_start lib (clk 0) s = Inr ?s1"
    using s x not_expired [of lib s d "clk 0"] assms(5,6) xin update_at_put [OF p xin, of "ps_step_id x" "\<lambda>y. y\<lparr>ps_status := ''READY''\<rparr>"]
    by (simp add: engine_start_def ready_step_def replace_step_def)
  have set1: "set (put steps x ?x1) = insert ?x1 (set steps - {x})" using set_put [OF p xin, of ?x1] s by simp
  have "\<exists>r. run_loop lib clk execute 1 0 ?s1 [] = Inr r \<and> ws_status (wr_state r) = ''SUCCEEDED'' \<and>
     (\<forall>x \<in> set (ws_steps (wr_state r)). ps_status x = ''SUCCEEDED'')"
  proof (rule run_loop_completes [OF assms(1), where d = d])
    show "sound lib ?s1" by (rule start_sound [OF snd start])
    show "tool_plan (ws_steps ?s1)" using assms(4) xin s set1 by (auto simp: tool_plan_def list_all_iff)
    have "?x1 \<in> set (ws_steps ?s1)" "ps_status ?x1 \<noteq> ''SUCCEEDED''" using set1 by simp_all
    then show "0 < open_steps (ws_steps ?s1)" using open_steps_zero by fastforce
    have "ps_tool_name ` set (put steps x ?x1) \<subseteq> ps_tool_name ` set steps" using set1 xin s by auto
    then have "ps_tool_name ` set (ws_steps ?s1) \<subseteq> ps_tool_name ` set steps" by simp
    then show "answers lib execute (ws_steps ?s1)" by (rule answers_mono) (use assms(7) in \<open>simp add: answers_def\<close>)
    have "open_steps (put steps x ?x1) \<le> length (put steps x ?x1)" unfolding open_steps_def by (rule length_filter_le)
    then show "length [] + open_steps (ws_steps ?s1) \<le> 256" using s(7) by simp
  qed (use s assms(5,6) in simp_all)
  with start s show ?thesis by (simp add: runner_run_def)
qed

theorem runner_completes_plan_witness:
  "\<exists>r. runner_run sample_wflib (\<lambda>_. 0) (\<lambda>_ _. Inr sample_observation) sample_state = Inr r \<and>
     ws_status (wr_state r) = ''SUCCEEDED'' \<and> (\<forall>x \<in> set (ws_steps (wr_state r)). ps_status x = ''SUCCEEDED'')"
  by (rule runner_completes_plan [OF sample_wflib_ok sample_created sample_plan_valid(1) _ sample_deadline])
    (use sample_observation_valid in \<open>auto simp: sample_plan_def sample_step_def sample_observation_def\<close>)

end
