(* ===== verification/Checkpoint_Properties.thy ===== *)
theory Checkpoint_Properties
  imports Checkpoint Workflow_Properties
begin

text \<open>
  What the checkpoint store promises: a saved state is read back, concurrent writers cannot
  overwrite each other, a lease excludes the others until it expires, and the history has no gap.
\<close>

section \<open>Versioned stores\<close>

text \<open>
  The interface a client relies on for optimistic concurrency: a commit moves the revision of a key
  from the expected value to the next one, and no operation of the store ever moves a revision back.
\<close>

locale versioned_store =
  fixes revision :: "'d \<Rightarrow> string \<Rightarrow> int option"
    and step :: "'d \<Rightarrow> 'd \<Rightarrow> bool"
    and commit :: "'d \<Rightarrow> string \<Rightarrow> int \<Rightarrow> 'd \<Rightarrow> bool"
  assumes commit_from: "commit d k r d' \<Longrightarrow> revision d k = Some r"
    and commit_to: "commit d k r d' \<Longrightarrow> revision d' k = Some (r + 1)"
    and commit_step: "commit d k r d' \<Longrightarrow> step d d'"
    and step_mono: "step d d' \<Longrightarrow> revision d k = Some r \<Longrightarrow> \<exists>r' \<ge> r. revision d' k = Some r'"
begin

lemma steps_mono:
  assumes "step\<^sup>*\<^sup>* d d'" and "revision d k = Some r"
  shows "\<exists>r' \<ge> r. revision d' k = Some r'"
  using assms
proof (induction rule: rtranclp_induct)
  case (step e f)
  then obtain r' where r': "r' \<ge> r" "revision e k = Some r'" by blast
  from step_mono [OF step.hyps(2) r'(2)] r'(1) show ?case by (meson order_trans)
qed blast

lemma no_lost_update:
  assumes "commit d k r d'" and "step\<^sup>*\<^sup>* d' e"
  shows "\<not> commit e k r e'"
proof
  assume c: "commit e k r e'"
  from steps_mono [OF assms(2) commit_to [OF assms(1)]] commit_from [OF c] show False by auto
qed

end

section \<open>The checkpoint store as a versioned store\<close>

inductive ck_step :: "wflib \<Rightarrow> int \<Rightarrow> ckdb \<Rightarrow> ckdb \<Rightarrow> bool" for lib seconds where
  cs_create: "ck_create lib seconds up t1 t2 db s lease = (r, db') \<Longrightarrow> ck_step lib seconds db db'"
| cs_save: "ck_save lib seconds up t1 t2 t3 db s expected lease keep = (r, db') \<Longrightarrow> ck_step lib seconds db db'"
| cs_acquire: "ck_acquire lib seconds up token now db run expected = (q, db') \<Longrightarrow> ck_step lib seconds db db'"
| cs_release: "ck_release up db run lease = (r, db') \<Longrightarrow> ck_step lib seconds db db'"

definition ck_revision_of :: "ckdb \<Rightarrow> string \<Rightarrow> int option" where
  "ck_revision_of db run = map_option ck_revision (map_of (ck_rows db) run)"

definition ck_commit :: "wflib \<Rightarrow> int \<Rightarrow> ckdb \<Rightarrow> string \<Rightarrow> int \<Rightarrow> ckdb \<Rightarrow> bool" where
  "ck_commit lib seconds db run expected db' =
     (\<exists>up t1 t2 t3 s lease keep. ws_run_id s = run \<and> ck_save lib seconds up t1 t2 t3 db s expected lease keep = (Inr (), db'))"

text \<open>What a successful call did to the tables; a failed call leaves them as they were.\<close>

lemma save_fails: "ck_save lib seconds up t1 t2 t3 db s expected lease keep = (Inl e, db') \<Longrightarrow> db' = db"
  by (simp add: ck_save_def split: if_splits sum.splits option.splits)

lemma save_ok:
  assumes "ck_save lib seconds up t1 t2 t3 db s expected lease keep = (Inr u, db')"
  shows "\<exists>payload row. up \<and> ws_revision s = expected + 1 \<and> encode_state s = Inr payload \<and>
    map_of (ck_rows db) (ws_run_id s) = Some row \<and> ck_revision row = expected \<and> lease_matches lib t2 row lease \<and>
    \<not> ck_recorded db (ws_run_id s) (ws_revision s) \<and>
    db' = db\<lparr>ck_rows := dict_set (ck_rows db) (ws_run_id s)
        \<lparr>ck_revision = ws_revision s, ck_schema = CHECKPOINT_SCHEMA_VERSION, ck_payload = payload,
         ck_status = ws_status s, ck_lease = (if keep then lease else None),
         ck_lease_expires = (if keep then lease_expiry lib seconds t3 lease else None), ck_updated = iso_format lib t1\<rparr>,
      ck_history := ck_history db @ [ck_note s (iso_format lib t1)]\<rparr>"
  using assms by (simp add: ck_save_def split: if_splits sum.splits option.splits)

lemma create_fails: "ck_create lib seconds up t1 t2 db s lease = (Inl e, db') \<Longrightarrow> db' = db"
  by (simp add: ck_create_def split: if_splits sum.splits)

lemma create_ok:
  assumes "ck_create lib seconds up t1 t2 db s lease = (Inr u, db')"
  shows "\<exists>payload. ws_run_id s \<notin> fst ` set (ck_rows db) \<and> encode_state s = Inr payload \<and>
    \<not> ck_recorded db (ws_run_id s) (ws_revision s) \<and>
    db' = db\<lparr>ck_rows := ck_rows db @ [(ws_run_id s,
        \<lparr>ck_revision = ws_revision s, ck_schema = CHECKPOINT_SCHEMA_VERSION, ck_payload = payload,
         ck_status = ws_status s, ck_lease = lease, ck_lease_expires = lease_expiry lib seconds t2 lease,
         ck_updated = iso_format lib t1\<rparr>)],
      ck_history := ck_history db @ [ck_note s (iso_format lib t1)]\<rparr>"
  using assms by (simp add: ck_create_def split: if_splits sum.splits)

lemma acquire_fails: "ck_acquire lib seconds up token now db run expected = (Inl e, db') \<Longrightarrow> db' = db"
  by (simp add: ck_acquire_def split: if_splits option.splits)

lemma acquire_ok:
  assumes "ck_acquire lib seconds up token now db run expected = (Inr q, db')"
  shows "\<exists>row. q = token \<and> map_of (ck_rows db) run = Some row \<and> ck_revision row = expected \<and> \<not> lease_active lib now row \<and>
    db' = db\<lparr>ck_rows := dict_set (ck_rows db) run
       (row\<lparr>ck_lease := Some token, ck_lease_expires := Some (iso_format lib (now + seconds * 1000000))\<rparr>)\<rparr>"
  using assms by (auto simp: ck_acquire_def split: if_splits option.splits)

lemma release_effect:
  assumes "ck_release up db run lease = (r, db')"
  shows "db' = db \<or> (\<exists>row. map_of (ck_rows db) run = Some row \<and>
    db' = db\<lparr>ck_rows := dict_set (ck_rows db) run (row\<lparr>ck_lease := None, ck_lease_expires := None\<rparr>)\<rparr>)"
  using assms by (auto simp: ck_release_def split: if_splits option.splits)

lemma map_of_snoc: "k \<notin> fst ` set xs \<Longrightarrow> map_of (xs @ [(k, v)]) = (map_of xs)(k \<mapsto> v)"
  by (induction xs) auto

text \<open>
  Every operation either leaves the tables as they were, adds the first row of a run, commits the next revision
  of a run, or changes only lease fields.
\<close>

lemma ck_step_cases:
  assumes "ck_step lib seconds db db'"
  obtains "db' = db"
  | run row n st t where "run \<notin> fst ` set (ck_rows db)" "ck_revision row = n" "\<not> ck_recorded db run n"
      "db' = db\<lparr>ck_rows := ck_rows db @ [(run, row)], ck_history := ck_history db @ [\<lparr>ch_run = run, ch_revision = n, ch_status = st, ch_saved_at = t\<rparr>]\<rparr>"
  | run row row' st t where "map_of (ck_rows db) run = Some row" "ck_revision row' = ck_revision row + 1"
      "db' = db\<lparr>ck_rows := dict_set (ck_rows db) run row',
         ck_history := ck_history db @ [\<lparr>ch_run = run, ch_revision = ck_revision row + 1, ch_status = st, ch_saved_at = t\<rparr>]\<rparr>"
  | run row row' where "map_of (ck_rows db) run = Some row" "ck_revision row' = ck_revision row"
      "db' = db\<lparr>ck_rows := dict_set (ck_rows db) run row'\<rparr>"
  using assms
proof cases
  case (cs_create up t1 t2 s lease r)
  show thesis
  proof (cases r)
    case (Inl e)
    with cs_create create_fails that(1) show thesis by blast
  next
    case (Inr u)
    with cs_create have "ck_create lib seconds up t1 t2 db s lease = (Inr u, db')" by simp
    from create_ok [OF this] obtain payload where cr: "ws_run_id s \<notin> fst ` set (ck_rows db)"
      "\<not> ck_recorded db (ws_run_id s) (ws_revision s)"
      "db' = db\<lparr>ck_rows := ck_rows db @ [(ws_run_id s,
        \<lparr>ck_revision = ws_revision s, ck_schema = CHECKPOINT_SCHEMA_VERSION, ck_payload = payload,
         ck_status = ws_status s, ck_lease = lease, ck_lease_expires = lease_expiry lib seconds t2 lease,
         ck_updated = iso_format lib t1\<rparr>)],
        ck_history := ck_history db @ [ck_note s (iso_format lib t1)]\<rparr>" by blast
    show thesis by (rule that(2) [OF cr(1) _ cr(2) cr(3) [unfolded ck_note_def]]) simp
  qed
next
  case (cs_save up t1 t2 t3 s expected lease keep r)
  show thesis
  proof (cases r)
    case (Inl e)
    with cs_save save_fails that(1) show thesis by blast
  next
    case (Inr u)
    with cs_save have "ck_save lib seconds up t1 t2 t3 db s expected lease keep = (Inr u, db')" by simp
    from save_ok [OF this] obtain payload row where sv: "ws_revision s = expected + 1" "map_of (ck_rows db) (ws_run_id s) = Some row"
      "ck_revision row = expected"
      "db' = db\<lparr>ck_rows := dict_set (ck_rows db) (ws_run_id s)
        \<lparr>ck_revision = ws_revision s, ck_schema = CHECKPOINT_SCHEMA_VERSION, ck_payload = payload,
         ck_status = ws_status s, ck_lease = (if keep then lease else None),
         ck_lease_expires = (if keep then lease_expiry lib seconds t3 lease else None), ck_updated = iso_format lib t1\<rparr>,
        ck_history := ck_history db @ [ck_note s (iso_format lib t1)]\<rparr>" by blast
    show thesis by (rule that(3) [OF sv(2) _ sv(4) [unfolded ck_note_def sv(1) sv(3) [symmetric]]]) simp
  qed
next
  case (cs_acquire up token now run expected q)
  show thesis
  proof (cases q)
    case (Inl e)
    with cs_acquire acquire_fails that(1) show thesis by blast
  next
    case (Inr u)
    with cs_acquire have "ck_acquire lib seconds up token now db run expected = (Inr u, db')" by simp
    from acquire_ok [OF this] obtain row where ac: "map_of (ck_rows db) run = Some row"
      "db' = db\<lparr>ck_rows := dict_set (ck_rows db) run
         (row\<lparr>ck_lease := Some token, ck_lease_expires := Some (iso_format lib (now + seconds * 1000000))\<rparr>)\<rparr>" by blast
    show thesis by (rule that(4) [OF ac(1) _ ac(2)]) simp
  qed
next
  case (cs_release up run lease r)
  from release_effect [OF this] consider "db' = db"
    | row where "map_of (ck_rows db) run = Some row"
      "db' = db\<lparr>ck_rows := dict_set (ck_rows db) run (row\<lparr>ck_lease := None, ck_lease_expires := None\<rparr>)\<rparr>" by blast
  then show thesis
  proof cases
    case 1
    then show thesis by (rule that(1))
  next
    case (2 row)
    show thesis by (rule that(4) [OF 2(1) _ 2(2)]) simp
  qed
qed

lemma ck_step_revision:
  assumes "ck_step lib seconds db db'" and "ck_revision_of db k = Some r"
  shows "\<exists>r' \<ge> r. ck_revision_of db' k = Some r'"
  using assms(1) by (rule ck_step_cases) (use assms(2) map_of_eq_None_iff [of "ck_rows db" k] in \<open>auto simp: ck_revision_of_def map_of_snoc map_of_dict_set simp del: map_of_append\<close>)

interpretation ck: versioned_store ck_revision_of "ck_step lib seconds" "ck_commit lib seconds" for lib seconds
proof
  fix d k r d' assume c: "ck_commit lib seconds d k r d'"
  then obtain up t1 t2 t3 s lease keep where s: "ws_run_id s = k" "ck_save lib seconds up t1 t2 t3 d s r lease keep = (Inr (), d')"
    by (auto simp: ck_commit_def)
  from save_ok [OF s(2)] s(1) show "ck_revision_of d k = Some r" "ck_revision_of d' k = Some (r + 1)"
    by (auto simp: ck_revision_of_def map_of_dict_set)
  show "ck_step lib seconds d d'" by (rule cs_save [OF s(2)])
next
  fix d d' k r assume "ck_step lib seconds d d'" "ck_revision_of d k = Some r"
  then show "\<exists>r' \<ge> r. ck_revision_of d' k = Some r'" by (rule ck_step_revision)
qed

section \<open>History\<close>

definition run_revisions :: "ckdb \<Rightarrow> string \<Rightarrow> int list" where
  "run_revisions db run = map ch_revision (filter (\<lambda>h. ch_run h = run) (ck_history db))"

text \<open>Every revision of a run, from the first one recorded to the current one, in order.\<close>

definition gapless :: "ckdb \<Rightarrow> bool" where
  "gapless db = (\<forall>run. case map_of (ck_rows db) run of
     None \<Rightarrow> run_revisions db run = []
   | Some row \<Rightarrow> \<exists>r0. r0 \<le> ck_revision row \<and> run_revisions db run = [r0..ck_revision row])"

lemma gapless_row:
  "gapless db \<Longrightarrow> map_of (ck_rows db) run = Some row \<Longrightarrow> \<exists>r0. r0 \<le> ck_revision row \<and> run_revisions db run = [r0..ck_revision row]"
  unfolding gapless_def by (drule spec [of _ run]) simp

lemma gapless_none: "gapless db \<Longrightarrow> map_of (ck_rows db) run = None \<Longrightarrow> run_revisions db run = []"
  unfolding gapless_def by (drule spec [of _ run]) simp

lemma gapless_update:
  assumes "gapless db" and "map_of (ck_rows db') = (map_of (ck_rows db))(run \<mapsto> row')"
    and "\<forall>k. k \<noteq> run \<longrightarrow> run_revisions db' k = run_revisions db k"
    and "r0 \<le> ck_revision row'" and "run_revisions db' run = [r0..ck_revision row']"
  shows "gapless db'"
  unfolding gapless_def
proof
  fix k show "case map_of (ck_rows db') k of None \<Rightarrow> run_revisions db' k = []
      | Some row \<Rightarrow> \<exists>r0. r0 \<le> ck_revision row \<and> run_revisions db' k = [r0..ck_revision row]"
  proof (cases "k = run")
    case True
    with assms(2,4,5) show ?thesis by auto
  next
    case False
    with assms(2,3) have "map_of (ck_rows db') k = map_of (ck_rows db) k" "run_revisions db' k = run_revisions db k" by simp_all
    with assms(1) show ?thesis by (simp only: gapless_def)
  qed
qed

lemma ck_step_gapless:
  assumes "ck_step lib seconds db db'" and g: "gapless db"
  shows "gapless db'"
  using assms(1)
proof (rule ck_step_cases)
  assume "db' = db"
  with g show ?thesis by simp
next
  fix run row n st t
  assume new: "run \<notin> fst ` set (ck_rows db)" "ck_revision row = n"
    and db': "db' = db\<lparr>ck_rows := ck_rows db @ [(run, row)], ck_history := ck_history db @ [\<lparr>ch_run = run, ch_revision = n, ch_status = st, ch_saved_at = t\<rparr>]\<rparr>"
  from gapless_none [OF g] new(1) have "run_revisions db run = []" by (simp add: map_of_eq_None_iff)
  then have rev: "run_revisions db' k = (if k = run then [n..n] else run_revisions db k)" for k
    by (simp add: db' run_revisions_def)
  have "map_of (ck_rows db') = (map_of (ck_rows db))(run \<mapsto> row)" unfolding db' using map_of_snoc [OF new(1)] by simp
  from gapless_update [OF g this, of n] rev new(2) show ?thesis by simp
next
  fix run row row' st t
  assume old: "map_of (ck_rows db) run = Some row" "ck_revision row' = ck_revision row + 1"
    and db': "db' = db\<lparr>ck_rows := dict_set (ck_rows db) run row',
         ck_history := ck_history db @ [\<lparr>ch_run = run, ch_revision = ck_revision row + 1, ch_status = st, ch_saved_at = t\<rparr>]\<rparr>"
  from gapless_row [OF g old(1)] obtain r0 where r0: "r0 \<le> ck_revision row" "run_revisions db run = [r0..ck_revision row]" by blast
  from r0 have "run_revisions db' run = [r0..ck_revision row']"
    using upto_rec2 [of r0 "ck_revision row + 1"] old(2) by (simp add: db' run_revisions_def)
  moreover have "\<forall>k. k \<noteq> run \<longrightarrow> run_revisions db' k = run_revisions db k" by (simp add: db' run_revisions_def)
  moreover have "map_of (ck_rows db') = (map_of (ck_rows db))(run \<mapsto> row')" by (simp add: db' map_of_dict_set)
  moreover have "r0 \<le> ck_revision row'" using r0(1) old(2) by simp
  ultimately show ?thesis using gapless_update [OF g] by blast
next
  fix run row row'
  assume old: "map_of (ck_rows db) run = Some row" "ck_revision row' = ck_revision row"
    and db': "db' = db\<lparr>ck_rows := dict_set (ck_rows db) run row'\<rparr>"
  have "run_revisions db' = run_revisions db" by (simp add: fun_eq_iff db' run_revisions_def)
  moreover have "map_of (ck_rows db') = (map_of (ck_rows db))(run \<mapsto> row')" by (simp add: db' map_of_dict_set)
  ultimately show ?thesis using gapless_update [OF g] gapless_row [OF g old(1)] old(2) by metis
qed

lemma ck_steps_gapless: "(ck_step lib seconds)\<^sup>*\<^sup>* db db' \<Longrightarrow> gapless db \<Longrightarrow> gapless db'"
  by (induction rule: rtranclp_induct) (auto intro: ck_step_gapless)

section \<open>Round trip\<close>

lemma safe_items_ok: "safe_items xs = Inr () \<longleftrightarrow> (\<forall>x \<in> set xs. safe_payload x = Inr ())"
  by (induction xs) (auto simp: result_simps)

lemma safe_entries_ok: "safe_entries d = Inr () \<longleftrightarrow> (\<forall>p \<in> set d. \<not> ck_SENSITIVE_KEY (fst p) \<and> safe_payload (snd p) = Inr ())"
  by (induction d) (auto simp: result_simps)

lemma safe_payload_canon: "safe_payload v = Inr () \<Longrightarrow> safe_payload (canon v) = Inr ()"
proof (induction v)
  case (PList xs)
  then show ?case by (simp add: canon_PList safe_items_ok del: canon.simps)
next
  case (PDict d)
  then have "\<forall>p \<in> set d. safe_payload (canon (snd p)) = Inr ()"
    by (auto simp: safe_entries_ok elim!: ballE)
  with PDict.prems show ?case by (auto simp: canon_PDict safe_entries_ok set_mapping_canon simp del: canon.simps)
qed simp_all

lemma json_dumps_canon: "is_ok (json_dumps v) \<Longrightarrow> is_ok (json_dumps (canon v))"
proof (induction v)
  case (PList xs)
  then show ?case by (simp add: canon_PList json_dumps_ok list_all_iff del: canon.simps json_dumps.simps)
next
  case (PDict d)
  then have "\<forall>p \<in> set d. is_ok (json_dumps (canon (snd p)))"
    by (auto simp: json_dumps_ok list_all_iff simp del: json_dumps.simps elim!: ballE)
  then show ?case by (simp add: canon_PDict json_dumps_ok list_all_iff set_mapping_canon del: canon.simps json_dumps.simps)
qed simp_all

lemma encode_ok: "encode_state s = Inr t \<longleftrightarrow> safe_payload (state_dump s) = Inr () \<and> agent_canonical_json (state_dump s) = Inr t"
  by (auto simp: encode_state_def result_simps split: sum.splits)

text \<open>What is assumed of \<open>json.loads\<close> for one value: it inverts the canonical text, up to key order.\<close>

definition loads_inverts :: "wflib \<Rightarrow> pyval \<Rightarrow> bool" where
  "loads_inverts lib v = (\<forall>t. agent_canonical_json v = Inr t \<longrightarrow> json_loads lib t = Inr (canon v))"

lemma decode_encoded:
  assumes "uuid_ok lib" and "valid_state lib s" and "loads_inverts lib (state_dump s)" and "encode_state s = Inr t"
  shows "decode_payload lib t = Inr (state_canon s)"
proof -
  from assms(4) have e: "safe_payload (state_dump s) = Inr ()" "agent_canonical_json (state_dump s) = Inr t" by (simp_all add: encode_ok)
  then have j: "json_loads lib t = Inr (canon (state_dump s))" using assms(3) by (simp add: loads_inverts_def)
  have "is_ok (json_dumps (canon (state_dump s)))" using e(2) by (intro json_dumps_canon) (simp add: agent_canonical_json_def)
  then obtain t' where t': "agent_canonical_json (canon (state_dump s)) = Inr t'"
    by (auto simp: agent_canonical_json_def is_ok_def split: sum.splits)
  have c: "canon (state_dump s) = PDict (mapping_canon (state_fields s))" by (simp only: state_dump_def canon_PDict)
  have "dget (mapping_canon (state_fields s)) ''schema_version'' = PStr ''1''"
    by (simp add: dget_def map_of_mapping_canon wire)
  then show ?thesis
    using j safe_payload_canon [OF e(1)] t' state_roundtrip [OF assms(1,2)] c
    by (simp add: decode_payload_def validate_payload_def)
qed

section \<open>Concrete calls\<close>

text \<open>Text without a colon or an equals sign is never secret-like, nor is text without an \<open>a\<close> or \<open>e\<close>.\<close>

lemma assigns_value_sep: "assigns_value s \<Longrightarrow> CHR '':'' \<in> set s \<or> CHR ''='' \<in> set s"
  unfolding assigns_value_def by (auto split: list.splits) (metis list.set_intros(1) set_dropWhileD)+

lemma text_safe_sep: "CHR '':'' \<notin> set s \<Longrightarrow> CHR ''='' \<notin> set s \<Longrightarrow> \<not> ck_SENSITIVE_TEXT s"
  unfolding ck_SENSITIVE_TEXT_def list_ex_iff using assigns_value_sep in_set_dropD by fastforce

lemma text_safe_letters:
  assumes "CHR ''a'' \<notin> set (py_lower s)" and "CHR ''e'' \<notin> set (py_lower s)"
  shows "\<not> ck_SENSITIVE_TEXT s"
proof
  assume "ck_SENSITIVE_TEXT s"
  then obtain i w where w: "w \<in> set CK_TEXT_WORDS" "starts_with w (py_lower (drop i s))"
    unfolding ck_SENSITIVE_TEXT_def list_ex_iff by blast
  then have "set w \<subseteq> set (py_lower s)"
    unfolding starts_with_def py_lower_def by (metis drop_map set_drop_subset set_take_subset subset_trans)
  moreover have "CHR ''a'' \<in> set w \<or> CHR ''e'' \<in> set w" using w(1) by (auto simp: CK_TEXT_WORDS_def)
  ultimately show False using assms by blast
qed

text \<open>Search for a word by recursion over the text.\<close>

fun prefix_at :: "string \<Rightarrow> string \<Rightarrow> bool" where
  "prefix_at [] s = True"
| "prefix_at (a # w) [] = False"
| "prefix_at (a # w) (b # s) = (a = b \<and> prefix_at w s)"

lemma prefix_at_take: "prefix_at w s \<longleftrightarrow> take (length w) s = w"
  by (induction w s rule: prefix_at.induct) auto

lemma has_infix_rec: "has_infix w [] = prefix_at w []" "has_infix w (c # s) = (prefix_at w (c # s) \<or> has_infix w s)"
proof -
  have "(\<exists>i \<in> set [0..<Suc (Suc n)]. P i) \<longleftrightarrow> P 0 \<or> (\<exists>i \<in> set [0..<Suc n]. P (Suc i))" for n and P :: "nat \<Rightarrow> bool"
    by (auto simp: less_Suc_eq_0_disj simp del: upt_Suc)
  then show "has_infix w (c # s) = (prefix_at w (c # s) \<or> has_infix w s)" by (simp add: has_infix_def prefix_at_take del: upt_Suc)
qed (simp add: has_infix_def prefix_at_take)

definition sample_tokens :: "string \<Rightarrow> pyval option" where
  "sample_tokens t = (if Inr t = agent_canonical_json (state_dump sample_started) then Some (canon (state_dump sample_started)) else None)"

definition sample_cklib :: wflib where
  "sample_cklib = sample_wflib\<lparr>wf_py := sample_lib\<lparr>json_tokens := sample_tokens\<rparr>\<rparr>"

definition sample_row :: ck_row where
  "sample_row = \<lparr>ck_revision = 0, ck_schema = ''1'', ck_payload = [], ck_status = ''READY'', ck_lease = None,
     ck_lease_expires = None, ck_updated = ''2025-12-31T00:00:00.000+00:00''\<rparr>"

definition sample_db :: ckdb where
  "sample_db = \<lparr>ck_rows = [(sample_run_id, sample_row)], ck_history = []\<rparr>"

lemma sample_keys_safe:
  "list_all (\<lambda>k. \<not> ck_SENSITIVE_KEY k)
     [''schema_version'', ''run_id'', ''revision'', ''plan_version'', ''graph_version'', ''status'', ''current_step_id'', ''steps'',
      ''clarification'', ''replan_reason'', ''budget'', ''deadline'', ''trace_id'', ''stop_reason'', ''crash_recovered'',
      ''step_id'', ''order'', ''type'', ''depends_on'', ''allowed_tools'', ''tool_name'', ''governed_action'', ''parameters'',
      ''observation_digest'', ''error'', ''completed_at'', ''max_steps'', ''max_elapsed_ms'', ''max_observation_bytes'']"
  by (simp add: ck_SENSITIVE_KEY_def CK_KEY_WORDS_def py_lower_def lower_char_def has_infix_rec)

lemma sample_texts_safe:
  "\<not> ck_SENSITIVE_TEXT ''2026-01-01T00:00:00+00:00''" "\<not> ck_SENSITIVE_TEXT sample_run_id"
  "\<And>s. CHR '':'' \<notin> set s \<Longrightarrow> CHR ''='' \<notin> set s \<Longrightarrow> \<not> ck_SENSITIVE_TEXT s"
proof -
  show "\<not> ck_SENSITIVE_TEXT ''2026-01-01T00:00:00+00:00''" 
  proof -
    have "char_of (116::nat) = CHR ''t''" by (simp add: char_of_eq_iff)
    then show ?thesis by (intro text_safe_letters) (simp_all add: py_lower_def lower_char_def)
  qed
  show "\<not> ck_SENSITIVE_TEXT sample_run_id" by (rule text_safe_sep) (simp_all add: sample_run_id_def)
qed (rule text_safe_sep)

lemma sample_safe: "safe_payload (state_dump sample_started) = Inr ()"
  using sample_keys_safe sample_texts_safe
  by (simp add: state_dump_def state_fields_def step_fields_def budget_fields_def dump_opt_def dump_texts_def sample_started_def
      sample_state_def sample_step_def)

lemma sample_text: "is_ok (agent_canonical_json (state_dump sample_started))"
  by (simp add: agent_canonical_json_def state_dump_def state_fields_def step_fields_def budget_fields_def dump_opt_def dump_texts_def
      sample_started_def sample_state_def sample_step_def default_budget_def json_dumps_ok int_digits_ok_def ndigits_def nat_str.simps
      del: json_dumps.simps(7,8))

lemma sample_cklib_ok: "uuid_ok sample_cklib" "valid_state sample_cklib sample_started" "loads_inverts sample_cklib (state_dump sample_started)"
proof -
  show "uuid_ok sample_cklib" by (simp add: uuid_ok_def sample_cklib_def sample_wflib_def)
  have "parse_deadline sample_cklib = parse_deadline sample_wflib" by (simp add: fun_eq_iff parse_deadline_def sample_cklib_def)
  moreover have "valid_state sample_wflib sample_started" using start_sound [OF sample_sound sample_start] by (simp add: sound_def)
  ultimately show "valid_state sample_cklib sample_started" by (simp add: valid_state_def state_shape_def)
  have "loads_value (canon (state_dump sample_started)) = canon (state_dump sample_started)"
    by (simp add: state_dump_def state_fields_def step_fields_def budget_fields_def dump_opt_def dump_texts_def
      sample_started_def sample_state_def sample_step_def default_budget_def)
  then show "loads_inverts sample_cklib (state_dump sample_started)"
    by (simp add: loads_inverts_def json_loads_def sample_cklib_def sample_tokens_def)
qed

lemma sample_save: "fst (ck_save sample_cklib 30 True 0 0 0 sample_db sample_started 0 None False) = Inr ()"
proof -
  obtain t where "encode_state sample_started = Inr t"
    using sample_text sample_safe by (auto simp: encode_state_def is_ok_def split: sum.splits)
  then show ?thesis
    by (simp add: ck_save_def sample_db_def sample_row_def lease_matches_def ck_recorded_def sample_started_def sample_state_def)
qed

section \<open>Properties\<close>

text \<open>
  C32: a checkpoint is durable.  After a successful save of a valid state, loading the run returns
  that state, with its dictionaries in key order, and every other run loads what it did before.
\<close>

theorem save_then_load:
  assumes "uuid_ok lib" and "valid_state lib s" and "loads_inverts lib (state_dump s)"
    and "ck_save lib seconds up t1 t2 t3 db s expected lease keep = (Inr (), db')"
  shows "ck_load lib True db' (ws_run_id s) = Inr (state_canon s) \<and>
    (\<forall>run. run \<noteq> ws_run_id s \<longrightarrow> ck_load lib True db' run = ck_load lib True db run)"
proof -
  from save_ok [OF assms(4)] obtain payload row where "encode_state s = Inr payload"
    and db': "db' = db\<lparr>ck_rows := dict_set (ck_rows db) (ws_run_id s)
        \<lparr>ck_revision = ws_revision s, ck_schema = CHECKPOINT_SCHEMA_VERSION, ck_payload = payload,
         ck_status = ws_status s, ck_lease = (if keep then lease else None),
         ck_lease_expires = (if keep then lease_expiry lib seconds t3 lease else None), ck_updated = iso_format lib t1\<rparr>,
      ck_history := ck_history db @ [ck_note s (iso_format lib t1)]\<rparr>" by blast
  then have "decode_payload lib payload = Inr (state_canon s)" using decode_encoded [OF assms(1-3)] by blast
  then show ?thesis by (simp add: ck_load_def db' map_of_dict_set)
qed

theorem save_then_load_witness:
  "ck_load sample_cklib True (snd (ck_save sample_cklib 30 True 0 0 0 sample_db sample_started 0 None False)) sample_run_id =
     Inr (state_canon sample_started)"
proof -
  have "ck_save sample_cklib 30 True 0 0 0 sample_db sample_started 0 None False =
      (Inr (), snd (ck_save sample_cklib 30 True 0 0 0 sample_db sample_started 0 None False))"
    using sample_save by (metis prod.collapse)
  from save_then_load [OF sample_cklib_ok this] show ?thesis by (simp add: sample_started_def sample_state_def)
qed

text \<open>
  C12: no update is lost.  Once a save at some expected revision succeeded, no later save at that
  revision on the same run succeeds, whatever operations happen in between, and a refused save changes nothing.
\<close>

theorem checkpoint_no_lost_update:
  assumes "ck_save lib seconds up t1 t2 t3 db s expected lease keep = (Inr (), db')"
    and "(ck_step lib seconds)\<^sup>*\<^sup>* db' db''" and "ws_run_id s' = ws_run_id s"
  shows "\<exists>e. ck_save lib seconds up' t1' t2' t3' db'' s' expected lease' keep' = (Inl e, db'')"
proof (cases "ck_save lib seconds up' t1' t2' t3' db'' s' expected lease' keep'")
  case (Pair r d)
  show ?thesis
  proof (cases r)
    case (Inl e)
    with Pair save_fails show ?thesis by blast
  next
    case (Inr u)
    with Pair have "ck_save lib seconds up' t1' t2' t3' db'' s' expected lease' keep' = (Inr (), d)" by simp
    with assms(3) have "ck_commit lib seconds db'' (ws_run_id s) expected d" unfolding ck_commit_def by blast
    moreover have "ck_commit lib seconds db (ws_run_id s) expected db'" using assms(1) unfolding ck_commit_def by blast
    ultimately show ?thesis using ck.no_lost_update [OF _ assms(2)] by blast
  qed
qed

theorem checkpoint_no_lost_update_witness:
  "\<exists>e db''. ck_save sample_cklib 30 True 0 0 0 (snd (ck_save sample_cklib 30 True 0 0 0 sample_db sample_started 0 None False))
     sample_started 0 None False = (Inl e, db'')"
proof -
  have "ck_save sample_cklib 30 True 0 0 0 sample_db sample_started 0 None False =
      (Inr (), snd (ck_save sample_cklib 30 True 0 0 0 sample_db sample_started 0 None False))"
    using sample_save by (metis prod.collapse)
  from checkpoint_no_lost_update [OF this rtranclp.rtrancl_refl refl] show ?thesis by blast
qed



text \<open>
  C34: the history is complete.  In every state of the tables reached from empty ones, the history of
  a run lists its revisions without gap or repetition, from the one it was created with to the
  current one.
\<close>

theorem checkpoint_history_gapless:
  assumes "(ck_step lib seconds)\<^sup>*\<^sup>* \<lparr>ck_rows = [], ck_history = []\<rparr> db" and "map_of (ck_rows db) run = Some row"
  shows "\<exists>r0 hs. r0 \<le> ck_revision row \<and> ck_history_of True db run = Inr hs \<and> map fst hs = [r0..ck_revision row]"
proof -
  have "gapless db" by (rule ck_steps_gapless [OF assms(1)]) (simp add: gapless_def run_revisions_def)
  from gapless_row [OF this assms(2)] obtain r0 where r0: "r0 \<le> ck_revision row" "run_revisions db run = [r0..ck_revision row]" by blast
  let ?h = "filter (\<lambda>h. ch_run h = run) (ck_history db)"
  from r0(2) have "map ch_revision ?h = [r0..ck_revision row]" by (simp add: run_revisions_def)
  then have "sort_key ch_revision ?h = ?h" by (intro sort_key_id_if_sorted) simp
  with r0 have "ck_history_of True db run = Inr (map (\<lambda>h. (ch_revision h, ch_status h, ch_saved_at h)) ?h)"
    "map fst (map (\<lambda>h. (ch_revision h, ch_status h, ch_saved_at h)) ?h) = [r0..ck_revision row]"
    by (simp_all add: ck_history_of_def run_revisions_def comp_def)
  with r0(1) show ?thesis by blast
qed

theorem checkpoint_history_gapless_witness:
  "\<exists>r0 hs. r0 \<le> 1 \<and> ck_history_of True (snd (ck_create sample_cklib 30 True 0 0 \<lparr>ck_rows = [], ck_history = []\<rparr> sample_started None)) sample_run_id
     = Inr hs \<and> map fst hs = [r0..1]"
proof -
  let ?c = "ck_create sample_cklib 30 True 0 0 \<lparr>ck_rows = [], ck_history = []\<rparr> sample_started None"
  obtain t where t: "encode_state sample_started = Inr t"
    using sample_text sample_safe by (auto simp: encode_state_def is_ok_def split: sum.splits)
  have "(ck_step sample_cklib 30)\<^sup>*\<^sup>* \<lparr>ck_rows = [], ck_history = []\<rparr> (snd ?c)"
    by (rule r_into_rtranclp, rule cs_create [of sample_cklib 30 True 0 0 _ sample_started None "fst ?c"]) simp
  moreover obtain row where "map_of (ck_rows (snd ?c)) sample_run_id = Some row" "ck_revision row = 1"
    using t by (simp add: ck_create_def ck_recorded_def sample_started_def sample_state_def)
  ultimately show ?thesis using checkpoint_history_gapless [of sample_cklib 30 "snd ?c" sample_run_id] by metis
qed

end
