(* ===== verification/Workflow_Runtime_Properties.thy ===== *)
theory Workflow_Runtime_Properties
  imports Workflow_Runtime Checkpoint_Properties
begin

text \<open>
  What the composition of engine and store promises to the Gateway and to the caller.  The
  calls of a service method on its world are followed through every branch by the laws of one locale: an
  invariant of the world that survives store operations, and survives a tool call made right after the save that records
  the step as running.  It is interpreted twice: for the write-ahead discipline, and for the requests that call no tool.
\<close>

section \<open>Store operations call no tool\<close>

definition grows :: "ckdb \<Rightarrow> ckdb \<Rightarrow> bool" where
  "grows db db' = (\<forall>run n. ck_revision_of db run = Some n \<longrightarrow> (\<exists>m \<ge> n. ck_revision_of db' run = Some m))"

definition quiet :: "world \<Rightarrow> world \<Rightarrow> bool" where
  "quiet w w' = (w_calls w' = w_calls w \<and> grows (w_db w) (w_db w'))"

lemma grows_refl [simp]: "grows db db" by (auto simp: grows_def)

lemma grows_trans: "grows a b \<Longrightarrow> grows b c \<Longrightarrow> grows a c"
  by (simp add: grows_def) (meson order_trans)

lemma grows_step: "ck_step lib seconds db db' \<Longrightarrow> grows db db'"
  using ck.steps_mono [OF r_into_rtranclp] by (auto simp: grows_def)

lemma quiet_refl [simp]: "quiet w w" by (simp add: quiet_def)

lemma quiet_trans: "quiet a b \<Longrightarrow> quiet b c \<Longrightarrow> quiet a c"
  by (auto simp: quiet_def intro: grows_trans)

definition silent :: "'a rt \<Rightarrow> bool" where
  "silent m = (\<forall>w. quiet w (snd (m w)))"

named_theorems silent_intros \<open>methods that only use the store\<close>

lemma silentD: "silent m \<Longrightarrow> m w = (r, w') \<Longrightarrow> quiet w w'"
  by (metis silent_def snd_conv)

lemma silent_pure [silent_intros]: "silent (rt_return x)" "silent (rt_raise e)" "silent (Pair r)"
  "silent (rt_at env f)" "silent (rt_at2 env g)" "silent (st_load env run)"
  by (simp_all add: silent_def rt_return_def rt_raise_def rt_at_def rt_at2_def st_load_def quiet_def)

lemma silent_store [silent_intros]: "silent (st_create env s)" "silent (st_save env s n lease keep)"
  "silent (st_acquire env run n)" "silent (st_release env run l)"
  by (auto simp: silent_def st_create_def st_save_def st_acquire_def st_release_def quiet_def
      intro: grows_step [OF cs_create] grows_step [OF cs_save] grows_step [OF cs_acquire] grows_step [OF cs_release] split: prod.splits)

section \<open>An invariant of the world\<close>

locale world_invariant =
  fixes env :: rtenv and P :: "world \<Rightarrow> bool" and may_call :: bool
  assumes quiet: "quiet w w' \<Longrightarrow> P w \<Longrightarrow> P w'"
    and called: "may_call \<Longrightarrow> P w0 \<Longrightarrow> begin_step (rt_lib env) t s0 (ps_step_id x) = Inr s \<Longrightarrow>
      st_save env s (ws_revision s0) (Some l) True w0 = (Inr (), w) \<Longrightarrow> valid_action a \<Longrightarrow> P (snd (call_tool env s x a w))"
begin

definition keeps :: "'a rt \<Rightarrow> bool" where
  "keeps m = (\<forall>w. P w \<longrightarrow> P (snd (m w)))"

lemma keepsD: "keeps m \<Longrightarrow> m w = (r, w') \<Longrightarrow> P w \<Longrightarrow> P w'"
  by (metis keeps_def snd_conv)

lemma keeps_silent: "silent m \<Longrightarrow> keeps m"
  by (auto simp: silent_def keeps_def intro: quiet)

lemmas keeps_store = silent_pure [THEN keeps_silent] silent_store [THEN keeps_silent]

lemma silent_step: "m w = (r, w') \<Longrightarrow> silent m \<Longrightarrow> P w \<Longrightarrow> P w'"
  by (auto dest: silentD intro: quiet)

lemma keeps_bind: "keeps m \<Longrightarrow> (\<And>x. keeps (f x)) \<Longrightarrow> keeps (rt_bind m f)"
  by (auto simp: keeps_def rt_bind_def split: prod.splits sum.splits)

lemma keeps_cleanup: "keeps m \<Longrightarrow> keeps h \<Longrightarrow> keeps (rt_cleanup m h)"
  by (auto simp: keeps_def rt_cleanup_def split: prod.splits sum.splits)

lemma dispatch_keeps:
  assumes "ar_capable rq \<Longrightarrow> may_call" and "P w0" and "begin_step (rt_lib env) t s0 (ps_step_id x) = Inr s"
    and "st_save env s (ws_revision s0) (Some l) True w0 = (Inr (), w)" and "dispatch env rq x s l w = (r, w')"
  shows "P w'"
proof -
  have w: "P w" by (rule silent_step [OF assms(4) silent_store(2) assms(2)])
  have ret: "P w2" if "save_return env s s2 l w1 = (r', w2)" "P w1" for s2 w1 w2 r'
    using that silent_step [OF _ silent_store(2)] by (fastforce simp: save_return_def split: prod.splits sum.splits)
  have at: "P w2" if "rt_at env f w1 = (r', w2)" "P w1" for f :: "int \<Rightarrow> WorkflowState result" and w1 w2 r'
    by (rule silent_step [OF that(1) silent_pure(4) that(2)])
  have call: "P w2" if "call_tool env s x a w = (q, w2)" "valid_action a" "ar_capable rq" for a q w2
    using called [OF assms(1) [OF that(3)] assms(2-4) that(2)] that(1) by simp
  have at2: "P w2" if "rt_at2 env f w1 = (r', w2)" "P w1" for f :: "int \<Rightarrow> int \<Rightarrow> WorkflowState result" and w1 w2 r'
    by (rule silent_step [OF that(1) silent_pure(5) that(2)])
  have save: "P w2" if "st_save env s2 n le k w1 = (r', w2)" "P w1" for s2 n le k w1 w2 r'
    by (rule silent_step [OF that(1) silent_store(2) that(2)])
  show ?thesis
    using assms(5) w unfolding dispatch_def Let_def
    by (auto split: if_splits option.splits prod.splits sum.splits tool_outcome.splits dest: at ret at2 save call)
qed

lemma loop_keeps:
  assumes "ar_capable rq \<Longrightarrow> may_call" and "P w" and "adv_loop env rq s moved held w = (r, w')"
  shows "P w'"
  using assms(2,3)
proof (induction "open_steps (ws_steps s)" arbitrary: s moved held w r w' rule: less_induct)
  case less
  have hold: "P w2" if "hold_lease env s held w = (q, w2)" for q w2
    using that less.prems(1) silent_step [OF _ silent_store(3)]
    by (auto simp: hold_lease_def rt_return_def split: option.splits if_splits)
  have at: "P w2" if "rt_at env f w1 = (q, w2)" "P w1" for f :: "int \<Rightarrow> WorkflowState result" and w1 w2 q
    by (rule silent_step [OF that(1) silent_pure(4) that(2)])
  have save: "P w2" if "st_save env s2 n le k w1 = (q, w2)" "P w1" for s2 n le k w1 w2 q
    by (rule silent_step [OF that(1) silent_store(2) that(2)])
  have disp: "P w4" if "P w2" "rt_at env (\<lambda>t. begin_step (rt_lib env) t s (ps_step_id x)) w1 = (Inr s1, w2)"
    "st_save env s1 (ws_revision s) (Some lease) True w2 = (Inr u, w3)" "dispatch env rq x s1 lease w3 = (q, w4)" for x w1 w2 w3 w4 s1 lease u q
  proof -
    from that(2) have "begin_step (rt_lib env) (rt_clock env (w_tick w1)) s (ps_step_id x) = Inr s1" by (simp add: rt_at_def)
    from dispatch_keeps [OF assms(1) that(1) this _ that(4)] that(3) show ?thesis by simp
  qed
  have next_round: "P w'" if "ready_step s = Inr (Some x)" "rt_at env (\<lambda>t. begin_step (rt_lib env) t s (ps_step_id x)) w1 = (Inr s1, w2)"
    "dispatch env rq x s1 lease w3 = (Inr s2, w4)" "P w4" "adv_loop env rq s2 True None w4 = (r, w')" for x w1 s1 w2 w3 w4 s2 lease
    by (rule less.hyps [OF adv_progress [OF that(1-3)] that(4,5)])
  show ?case
  proof (cases "\<exists>x. ws_status s = ''RUNNING'' \<and> ready_step s = Inr (Some x)")
    case False
    then show ?thesis using less.prems by (simp add: adv_loop.simps [of env rq s] split: if_splits sum.splits option.splits)
  next
    case True
    then obtain x where x: "ws_status s = ''RUNNING''" "ready_step s = Inr (Some x)" by blast
    obtain q1 w1 where h: "hold_lease env s held w = (q1, w1)" by fastforce
    note run = less.prems(2) [unfolded adv_loop.simps [of env rq s]]
    show ?thesis
    proof (cases q1)
      case (Inl e)
      with run x h hold [OF h] show ?thesis by simp
    next
      case (Inr lease)
      obtain q2 w2 where b: "rt_at env (\<lambda>t. begin_step (rt_lib env) t s (ps_step_id x)) w1 = (q2, w2)" by fastforce
      note w2 = at [OF b hold [OF h]]
      show ?thesis
      proof (cases q2)
        case (Inl e)
        with run x h b \<open>q1 = Inr lease\<close> w2 show ?thesis by simp
      next
        case (Inr s1)
        obtain q3 w3 where v: "st_save env s1 (ws_revision s) (Some lease) True w2 = (q3, w3)" by fastforce
        obtain q4 w4 where d: "dispatch env rq x s1 lease w3 = (q4, w4)" by fastforce
        have "P w4" if "q3 = Inr u" for u
          by (rule disp [OF w2 b [unfolded Inr] v [unfolded that] d])
        with run x h b v d \<open>q1 = Inr lease\<close> Inr save [OF v w2] show ?thesis
          by (cases q3; cases q4) (auto intro: next_round)
      qed
    qed
  qed
qed

lemma advance_keeps:
  assumes "ar_capable rq \<Longrightarrow> may_call"
  shows "keeps (advance env rq s lease)"
proof -
  have hold: "silent (hold_lease env s' held)" for s' held
    by (auto simp: hold_lease_def intro: silent_intros split: option.splits)
  have start: "P w'" if "adv_start env s lease w = (q, w')" "P w" for q w w'
    using that silent_step [OF _ hold] silent_step [OF _ silent_pure(4)] silent_step [OF _ silent_store(2)] unfolding adv_start_def
    by (fastforce split: if_splits prod.splits sum.splits)
  have body: "P w'" if "adv_body env rq s lease w = (q, w')" "P w" for q w w'
    using that start loop_keeps [OF assms] unfolding adv_body_def
    by (fastforce simp: Let_def split: if_splits prod.splits sum.splits option.splits)
  have release: "silent (release_held env s' held)" for s' held
    by (auto simp: release_held_def intro: silent_intros split: option.splits)
  have "keeps (adv_tool_failure env code s' held)" for code s' held
    by (auto simp: adv_tool_failure_def Let_def intro!: keeps_bind keeps_store)
  then have finish: "keeps (adv_finish env e)" for e
    by (auto simp: adv_finish_def intro!: keeps_bind keeps_store keeps_silent [OF release]
        split: adv_end.splits sum.splits pyexc.splits)
  show ?thesis
    using body finish by (auto simp: keeps_def advance_def split: prod.splits)
qed

lemma under_lease_keeps: "keeps change \<Longrightarrow> keeps (under_lease env run s change k)"
  by (auto simp: under_lease_def intro!: keeps_bind keeps_cleanup keeps_store)

lemma load_at_keeps: "keeps (load_at env run n)"
  by (auto simp: load_at_def intro!: keeps_bind keeps_store)

lemma start_keeps:
  assumes may_call
  shows "keeps (rt_start env rq)"
proof -
  have adv: "P (snd (advance env rq' s l w))" if "P w" for rq' s l w
    using advance_keeps [of rq'] assms that by (simp add: keeps_def)
  have load: "keeps (rt_bind (st_load env (sr_run_id rq)) (\<lambda>s. advance env rq' s None))" for rq'
    by (intro keeps_bind keeps_store advance_keeps assms)
  have create: "P w'" if "st_create env s w = (r, w')" "P w" for s r w w'
    by (rule silent_step [OF that(1) silent_store(1) that(2)])
  have "keeps (\<lambda>w. case st_create env s w of
          (Inr _, w1) \<Rightarrow> advance env \<lparr>ar_capable = True, ar_correlation_id = sr_correlation_id rq\<rparr> s None w1
        | (Inl e, w1) \<Rightarrow> (case e of
               CheckpointError code d \<Rightarrow>
                 if code = ''CHECKPOINT_CONFLICT''
                 then rt_bind (st_load env (sr_run_id rq))
                        (\<lambda>s. advance env \<lparr>ar_capable = True, ar_correlation_id = sr_correlation_id rq\<rparr> s None) w1
                 else (Inl e, w1)
             | _ \<Rightarrow> (Inl e, w1)))" for s
    using load by (auto simp: keeps_def intro: adv dest: create split: prod.splits sum.splits pyexc.splits)
  then show ?thesis
    unfolding rt_start_def Let_def by (intro keeps_bind keeps_store)
qed

lemma resume_keeps: "may_call \<Longrightarrow> keeps (rt_resume env run corr n interrupt_id answer)"
  unfolding rt_resume_def
  by (auto intro!: keeps_bind load_at_keeps under_lease_keeps advance_keeps keeps_store split: prod.splits)

lemma status_keeps: "keeps (rt_status env run)"
  unfolding rt_status_def
  by (auto intro!: keeps_bind under_lease_keeps keeps_store split: prod.splits)

lemma cancel_keeps: "keeps (rt_cancel env run n)"
  unfolding rt_cancel_def
  by (auto intro!: keeps_bind load_at_keeps under_lease_keeps keeps_store split: prod.splits)

lemma complete_keeps: "keeps (rt_complete_governed_action env run n i digest)"
  unfolding rt_complete_governed_action_def
  by (auto intro!: keeps_bind load_at_keeps under_lease_keeps keeps_store split: prod.splits)

lemma plan_keeps: "keeps (plan_governed_action env rq)"
proof -
  have create: "keeps (rt_bind (st_create env s) (\<lambda>_. rt_return s))" for s
    by (intro keeps_bind keeps_store)
  have load: "P w'" if "st_load env run w = (r, w')" "P w" for run r w w'
    by (rule silent_step [OF that(1) silent_pure(6) that(2)])
  have "keeps (p2p_load env rq i)" for i
    using create by (auto simp: keeps_def p2p_load_def dest: load split: prod.splits sum.splits if_splits)
  moreover have "keeps (p2p_replan env rq i s)" for i s
    unfolding p2p_replan_def
    by (auto intro!: keeps_bind under_lease_keeps advance_keeps keeps_store split: prod.splits sum.splits)
  ultimately show ?thesis
    unfolding plan_governed_action_def Let_def
    by (auto intro!: keeps_bind advance_keeps keeps_store split: sum.splits option.splits)
qed

lemma recover_keeps: "keeps (rt_recover env)"
proof -
  have "keeps (recover_one env s)" for s
    unfolding recover_one_def
    by (auto intro!: keeps_bind keeps_cleanup keeps_store split: sum.splits option.splits)
  then have "keeps (recover_all env ss)" for ss
    by (induction ss) (auto intro!: keeps_bind keeps_store)
  moreover have "keeps (\<lambda>w. (r w, w\<lparr>w_tick := w_tick w + 1\<rparr>))" for r :: "world \<Rightarrow> WorkflowState list result"
    by (rule keeps_silent) (simp add: silent_def quiet_def)
  ultimately show ?thesis
    unfolding rt_recover_def by (intro keeps_bind)
qed

end

section \<open>The write-ahead discipline\<close>

text \<open>
  A call was written ahead when, at the moment of the call, the stored row of its run is leased and holds a
  running state whose current step is the called one, itself running.
\<close>

definition call_revision :: "tool_call \<Rightarrow> int option" where
  "call_revision c = ck_revision_of (tc_db c) (tc_run c)"

definition written_ahead :: "tool_call \<Rightarrow> bool" where
  "written_ahead c = (\<exists>row s x. map_of (ck_rows (tc_db c)) (tc_run c) = Some row \<and> ck_lease row \<noteq> None \<and>
     encode_state s = Inr (ck_payload row) \<and> ws_run_id s = tc_run c \<and> ws_revision s = ck_revision row \<and>
     ws_plan_version s = tc_plan_version c \<and> ws_status s = ''RUNNING'' \<and> ws_current s = Some (tc_step_id c) \<and>
     find_step (ws_steps s) (tc_step_id c) = Some x \<and> ps_status x = ''RUNNING'' \<and> valid_action (tc_action c))"

definition fenced :: "world \<Rightarrow> bool" where
  "fenced w = ((\<forall>c \<in> set (w_calls w). written_ahead c \<and>
       (\<exists>n m. call_revision c = Some n \<and> ck_revision_of (w_db w) (tc_run c) = Some m \<and> n \<le> m)) \<and>
     distinct (map (\<lambda>c. (tc_run c, call_revision c)) (w_calls w)))"

lemma begun_running:
  assumes "begin_step lib t s i = Inr s'"
  shows "\<exists>x. ws_status s' = ''RUNNING'' \<and> ws_current s' = Some i \<and> ws_revision s' = ws_revision s + 1 \<and>
    find_step (ws_steps s') i = Some x \<and> ps_status x = ''RUNNING''"
proof -
  have "find_step (update_at steps i (\<lambda>y. y\<lparr>ps_status := ''RUNNING''\<rparr>)) i \<noteq> None"
    if "i \<in> set (map ps_step_id steps)" for steps
    using that by (induction steps) (auto simp: find_step_def update_at_def)
  moreover have "ps_status x = ''RUNNING''"
    if "find_step (update_at steps i (\<lambda>y. y\<lparr>ps_status := ''RUNNING''\<rparr>)) i = Some x" for steps x
    using that by (auto simp: find_step_def update_at_def find_Some_iff split: if_splits)
  moreover from assms have "ws_status s' = ''RUNNING''" "ws_current s' = Some i" "ws_revision s' = ws_revision s + 1"
    and "i \<in> set (map ps_step_id (ws_steps s))" "ws_steps s' = update_at (ws_steps s) i (\<lambda>y. y\<lparr>ps_status := ''RUNNING''\<rparr>)"
    by (auto simp: begin_step_def replace_step_def ensure_running_ok result_simps split: if_splits)
  ultimately show ?thesis by (metis not_None_eq)
qed

text \<open>What a successful save of the service leaves in the store.\<close>

lemma save_stored:
  assumes "st_save env s n lease keep w0 = (Inr u, w)"
  shows "\<exists>row row'. map_of (ck_rows (w_db w0)) (ws_run_id s) = Some row \<and> ck_revision row = n \<and> ws_revision s = n + 1 \<and>
    map_of (ck_rows (w_db w)) (ws_run_id s) = Some row' \<and> ck_lease row' = (if keep then lease else None) \<and>
    ck_revision row' = ws_revision s \<and> ck_status row' = ws_status s \<and> encode_state s = Inr (ck_payload row') \<and>
    w_calls w = w_calls w0"
proof -
  from assms have save: "ck_save (rt_lib env) (rt_seconds env) (rt_up env (w_tick w0)) (rt_clock env (w_tick w0))
      (rt_clock env (w_tick w0 + 1)) (rt_clock env (w_tick w0 + 2)) (w_db w0) s n lease keep = (Inr u, w_db w)"
    and calls: "w_calls w = w_calls w0"
    by (auto simp: st_save_def split: prod.splits)
  obtain row' where row': "map_of (ck_rows (w_db w)) (ws_run_id s) = Some row'" "ck_lease row' = (if keep then lease else None)"
    "ck_revision row' = ws_revision s" "ck_status row' = ws_status s" "encode_state s = Inr (ck_payload row')"
  proof
    let ?row = "the (map_of (ck_rows (w_db w)) (ws_run_id s))"
    from save_ok [OF save] show "map_of (ck_rows (w_db w)) (ws_run_id s) = Some ?row" "ck_lease ?row = (if keep then lease else None)"
      "ck_revision ?row = ws_revision s" "ck_status ?row = ws_status s" "encode_state s = Inr (ck_payload ?row)"
      by (auto simp: map_of_dict_set)
  qed
  from save_ok [OF save] obtain row where "map_of (ck_rows (w_db w0)) (ws_run_id s) = Some row" "ck_revision row = n" "ws_revision s = n + 1"
    by blast
  with row' calls show ?thesis by blast
qed

lemma fenced_call:
  assumes "fenced w0" and "begin_step (rt_lib env) t s0 (ps_step_id x) = Inr s"
    and "st_save env s (ws_revision s0) (Some l) True w0 = (Inr (), w)" and "valid_action a"
  shows "fenced (snd (call_tool env s x a w))"
proof -
  from begun_running [OF assms(2)] obtain y where s: "ws_status s = ''RUNNING''" "ws_current s = Some (ps_step_id x)"
    "ws_revision s = ws_revision s0 + 1" "find_step (ws_steps s) (ps_step_id x) = Some y" "ps_status y = ''RUNNING''" by blast
  from save_stored [OF assms(3)] obtain row row' where row: "map_of (ck_rows (w_db w0)) (ws_run_id s) = Some row"
    "ck_revision row = ws_revision s0" "map_of (ck_rows (w_db w)) (ws_run_id s) = Some row'" "ck_lease row' = Some l"
    "ck_revision row' = ws_revision s" "encode_state s = Inr (ck_payload row')" and calls: "w_calls w = w_calls w0"
    by auto
  have old: "call_revision c \<noteq> Some (ws_revision s)" if "c \<in> set (w_calls w0)" "tc_run c = ws_run_id s" for c
    using assms(1) that row s(3) by (fastforce simp: fenced_def ck_revision_of_def)
  have "quiet w0 w" by (rule silentD [OF silent_store(2) assms(3)])
  then have grown: "\<exists>m. ck_revision_of (w_db w) (tc_run c) = Some m \<and> n \<le> m"
    if "c \<in> set (w_calls w0)" "call_revision c = Some n" for c n
    using assms(1) that by (fastforce simp: fenced_def quiet_def grows_def)
  define new where "new = \<lparr>tc_run = ws_run_id s, tc_plan_version = ws_plan_version s, tc_step_id = ps_step_id x, tc_action = a, tc_db = w_db w\<rparr>"
  have new: "written_ahead new" "call_revision new = Some (ws_revision s)"
    using s row assms(4) by (auto simp: written_ahead_def call_revision_def ck_revision_of_def new_def)
  have after: "snd (call_tool env s x a w) = w\<lparr>w_calls := w_calls w0 @ [new]\<rparr>"
    by (simp add: call_tool_def new_def calls)
  have at_new: "ck_revision_of (w_db w) (tc_run new) = Some (ws_revision s)" "tc_run new = ws_run_id s"
    using row by (simp_all add: ck_revision_of_def new_def)
  have olds: "written_ahead c \<and> (\<exists>n m. call_revision c = Some n \<and> ck_revision_of (w_db w) (tc_run c) = Some m \<and> n \<le> m)"
    if "c \<in> set (w_calls w0)" for c
    using assms(1) that grown [OF that] by (auto simp: fenced_def)
  have "(tc_run new, call_revision new) \<notin> (\<lambda>c. (tc_run c, call_revision c)) ` set (w_calls w0)"
  proof
    assume "(tc_run new, call_revision new) \<in> (\<lambda>c. (tc_run c, call_revision c)) ` set (w_calls w0)"
    then obtain c where c: "c \<in> set (w_calls w0)" "tc_run c = tc_run new" "call_revision c = call_revision new" by auto
    from old [OF c(1)] c(2,3) new(2) at_new(2) show False by simp
  qed
  with assms(1) olds new at_new show ?thesis unfolding after by (auto simp: fenced_def)
qed

interpretation fence: world_invariant env fenced True for env
proof
  fix w w' assume q: "quiet w w'" and "fenced w"
  then show "fenced w'"
    by (simp add: fenced_def quiet_def grows_def) (meson order_trans)
qed (rule fenced_call)

interpretation mute: world_invariant env "\<lambda>w. w_calls w = calls" False for env calls
  by unfold_locales (simp_all add: quiet_def)

text \<open>One request to the service, or a recovery run, successful or not.\<close>

inductive rt_step :: "rtenv \<Rightarrow> world \<Rightarrow> world \<Rightarrow> bool" for env where
  rs_start: "rt_start env rq w = (r, w') \<Longrightarrow> rt_step env w w'"
| rs_plan: "plan_governed_action env pq w = (r, w') \<Longrightarrow> rt_step env w w'"
| rs_resume: "rt_resume env run corr n interrupt_id answer w = (r, w') \<Longrightarrow> rt_step env w w'"
| rs_status: "rt_status env run w = (r, w') \<Longrightarrow> rt_step env w w'"
| rs_cancel: "rt_cancel env run n w = (r, w') \<Longrightarrow> rt_step env w w'"
| rs_complete: "rt_complete_governed_action env run n i digest w = (r, w') \<Longrightarrow> rt_step env w w'"
| rs_recover: "rt_recover env w = (k, w') \<Longrightarrow> rt_step env w w'"

lemma rt_step_fenced: "rt_step env w w' \<Longrightarrow> fenced w \<Longrightarrow> fenced w'"
  by (induction rule: rt_step.induct)
    (blast intro: fence.keepsD fence.start_keeps fence.plan_keeps fence.resume_keeps fence.status_keeps fence.cancel_keeps
      fence.complete_keeps fence.recover_keeps)+

section \<open>Answers and the store\<close>

text \<open>
  What a caller can rely on: the part of the store that survives releases of leases, and a state stored with no lease left.
\<close>

definition content :: "ckdb \<Rightarrow> string \<Rightarrow> (int \<times> string \<times> string) option" where
  "content db run = map_option (\<lambda>r. (ck_revision r, ck_payload r, ck_status r)) (map_of (ck_rows db) run)"

definition stored :: "ckdb \<Rightarrow> WorkflowState \<Rightarrow> bool" where
  "stored db s = (\<exists>row. map_of (ck_rows db) (ws_run_id s) = Some row \<and> ck_lease row = None \<and> ck_revision row = ws_revision s \<and>
     ck_status row = ws_status s \<and> encode_state s = Inr (ck_payload row))"

lemma content_ck_acquire: "ck_acquire lib seconds up token now db run n = (r, db') \<Longrightarrow> content db' = content db"
  by (auto simp: ck_acquire_def content_def fun_eq_iff map_of_dict_set split: if_splits option.splits)

lemma content_ck_release: "ck_release up db run l = (r, db') \<Longrightarrow> content db' = content db"
  by (auto simp: ck_release_def content_def fun_eq_iff map_of_dict_set split: if_splits option.splits)

lemma content_acquire: "st_acquire env run n w = (r, w') \<Longrightarrow> content (w_db w') = content (w_db w)"
  by (auto simp: st_acquire_def split: prod.splits dest: content_ck_acquire)

lemma content_release: "st_release env run l w = (r, w') \<Longrightarrow> content (w_db w') = content (w_db w)"
  by (auto simp: st_release_def split: prod.splits dest: content_ck_release)

lemma save_fails_same: "st_save env s n lease keep w = (Inl e, w') \<Longrightarrow> w_db w' = w_db w"
  by (auto simp: st_save_def split: prod.splits dest: save_fails)

text \<open>Changing a stored state under a lease is all or nothing.\<close>

lemma under_lease_ok:
  assumes "under_lease env run s change keep w = (Inr (s', l), w')" and "\<not> keep s'"
  shows "stored (w_db w') s' \<and> ws_revision s' = ws_revision s + 1 \<and> (\<exists>v v'. change v = (Inr s', v'))"
proof -
  from assms(1) obtain w1 w2 u where c: "change w1 = (Inr s', w2)" and v: "st_save env s' (ws_revision s) (Some l) (keep s') w2 = (Inr u, w')"
    by (auto simp: under_lease_def rt_bind_def rt_cleanup_def rt_return_def split: prod.splits sum.splits)
  from save_stored [OF v] assms(2) c show ?thesis unfolding stored_def by auto
qed

lemma under_lease_fails:
  assumes "under_lease env run s change keep w = (Inl e, w')" and "\<And>v. w_db (snd (change v)) = w_db v"
  shows "content (w_db w') = content (w_db w)"
proof -
  have change: "w_db v' = w_db v" if "change v = (r, v')" for v r v' using assms(2) [of v] that by simp
  obtain q w1 where a: "st_acquire env run (ws_revision s) w = (q, w1)" by fastforce
  show ?thesis
  proof (cases q)
    case (Inl e')
    with a assms(1) content_acquire [OF a] show ?thesis by (simp add: under_lease_def rt_bind_def)
  next
    case (Inr l)
    obtain q2 w2 where b: "change w1 = (q2, w2)" by fastforce
    from change [OF b] have w2: "w_db w2 = w_db w1" .
    have "\<exists>w3. w_db w3 = w_db w1 \<and> w' = snd (st_release env run l w3)"
    proof (cases q2)
      case (Inl e2)
      with assms(1) a b \<open>q = Inr l\<close> w2 show ?thesis
        by (auto simp: under_lease_def rt_bind_def rt_cleanup_def split: prod.splits sum.splits intro!: exI [of _ w2])
    next
      case s': (Inr s')
      obtain q3 w3 where c: "st_save env s' (ws_revision s) (Some l) (keep s') w2 = (q3, w3)" by fastforce
      with assms(1) a b \<open>q = Inr l\<close> s' obtain e3 where e3: "q3 = Inl e3"
        by (cases q3) (auto simp: under_lease_def rt_bind_def rt_cleanup_def rt_return_def)
      with save_fails_same c have "w_db w3 = w_db w2" by blast
      with assms(1) a b c e3 \<open>q = Inr l\<close> s' w2 show ?thesis
        by (auto simp: under_lease_def rt_bind_def rt_cleanup_def split: prod.splits sum.splits intro!: exI [of _ w3])
    qed
    then obtain w3 where w3: "w_db w3 = w_db w1" "w' = snd (st_release env run l w3)" by blast
    have "content (w_db w') = content (w_db w3)" using content_release [of env run l w3] w3(2) by (metis prod.collapse)
    with w3(1) content_acquire [OF a] show ?thesis by simp
  qed
qed

lemma load_at_ok: "load_at env run n w = (Inr s, w') \<Longrightarrow> ws_revision s = n \<and> w_db w' = w_db w"
  by (auto simp: load_at_def rt_bind_def st_load_def rt_raise_def rt_return_def split: prod.splits sum.splits if_splits)

lemma load_at_fails: "load_at env run n w = (Inl e, w') \<Longrightarrow> w_db w' = w_db w"
  by (auto simp: load_at_def rt_bind_def st_load_def rt_raise_def rt_return_def split: prod.splits sum.splits if_splits)

text \<open>The common shape of \<open>cancel\<close> and \<open>complete_governed_action\<close>.\<close>

lemma lease_request:
  assumes "\<And>s v. w_db (snd (change s v)) = w_db v"
  shows "case rt_bind (load_at env run n) (\<lambda>s. rt_bind (under_lease env run s (change s) (\<lambda>_. False))
             (\<lambda>(s', lease) w. (engine_result s' [] flag, w))) w of
      (Inl e, w') \<Rightarrow> content (w_db w') = content (w_db w)
    | (Inr res, w') \<Rightarrow> stored (w_db w') (wr_state res) \<and> ws_revision (wr_state res) = n + 1 \<and>
        (\<exists>s v v'. ws_revision s = n \<and> change s v = (Inr (wr_state res), v'))"
proof -
  obtain q w1 where l: "load_at env run n w = (q, w1)" by fastforce
  show ?thesis
  proof (cases q)
    case (Inl e)
    with l load_at_fails show ?thesis by (auto simp: rt_bind_def)
  next
    case (Inr s)
    with l load_at_ok have s: "ws_revision s = n" "w_db w1 = w_db w" by blast+
    obtain q2 w2 where u: "under_lease env run s (change s) (\<lambda>_. False) w1 = (q2, w2)" by fastforce
    show ?thesis
    proof (cases q2)
      case e: (Inl e)
      with under_lease_fails [OF u [unfolded e] assms] l Inr u s show ?thesis by (simp add: rt_bind_def)
    next
      case p: (Inr p)
      obtain s' lease where "p = (s', lease)" by fastforce
      with under_lease_ok [OF u [unfolded p this]] l Inr u s p show ?thesis by (auto simp: rt_bind_def engine_result_def)
    qed
  qed
qed

section \<open>A sample call\<close>

definition sample_rtlib :: wflib where
  "sample_rtlib = sample_wflib\<lparr>iso_format := (\<lambda>_. ''2026-01-01T00:00:00+00:00'')\<rparr>"

definition sample_env :: rtenv where
  "sample_env = \<lparr>rt_lib = sample_rtlib, rt_clock = (\<lambda>_. 0), rt_up = (\<lambda>_. True), rt_token = (\<lambda>_. ''lease''),
     rt_tool = (\<lambda>_ _. ToolRaise ''down''), rt_uuid4 = sample_run_id, rt_seconds = 30, rt_exc_text = (\<lambda>_. ''down''),
     rt_question = ''?'', rt_crash_question = ''?''\<rparr>"

definition sample_world :: world where
  "sample_world = \<lparr>w_db = \<lparr>ck_rows = [], ck_history = []\<rparr>, w_tick = 0, w_tokens = 0, w_calls = []\<rparr>"

definition sample_request :: start_request where
  "sample_request = \<lparr>sr_run_id = sample_run_id, sr_correlation_id = sample_run_id, sr_goal = ''open requests'',
     sr_deadline = Some ''2026-01-01T00:00:00+00:00'', sr_steps = Some sample_plan\<rparr>"

lemmas sample_dump_defs = state_dump_def state_fields_def step_fields_def budget_fields_def dump_opt_def dump_texts_def
  sample_begun_def sample_started_def sample_state_def sample_plan_def sample_step_def

lemma sample_encodes:
  "is_ok (encode_state sample_state)" "is_ok (encode_state sample_started)" "is_ok (encode_state sample_begun)"
proof -
  have safe: "safe_payload (state_dump sample_state) = Inr ()" "safe_payload (state_dump sample_begun) = Inr ()"
    using sample_keys_safe sample_texts_safe by (simp_all add: sample_dump_defs)
  have json: "is_ok (agent_canonical_json (state_dump sample_state))" "is_ok (agent_canonical_json (state_dump sample_begun))"
    by (simp_all add: agent_canonical_json_def sample_dump_defs default_budget_def json_dumps_ok int_digits_ok_def ndigits_def nat_str.simps
        del: json_dumps.simps(7,8))
  from safe json sample_safe sample_text show "is_ok (encode_state sample_state)" "is_ok (encode_state sample_started)" "is_ok (encode_state sample_begun)"
    by (auto simp: encode_state_def is_ok_def split: sum.splits)
qed

lemma sample_rtlib_engine:
  "create_state sample_rtlib sample_run_id sample_run_id (Some sample_run_id) sample_plan ''2026-01-01T00:00:00+00:00'' ''workflow-v1'' = Inr sample_state"
  "engine_start sample_rtlib 0 sample_state = Inr sample_started" "begin_step sample_rtlib 0 sample_started ''read'' = Inr sample_begun"
  "parse_deadline sample_rtlib ''2026-01-01T00:00:00+00:00'' = Inr 1000"
proof -
  have p: "parse_deadline sample_rtlib = parse_deadline sample_wflib" by (simp add: fun_eq_iff parse_deadline_def sample_rtlib_def)
  then show "parse_deadline sample_rtlib ''2026-01-01T00:00:00+00:00'' = Inr 1000" by (simp add: sample_deadline)
  have e: "ensure_not_expired sample_rtlib = ensure_not_expired sample_wflib" by (simp add: fun_eq_iff ensure_not_expired_def p)
  from sample_start show "engine_start sample_rtlib 0 sample_state = Inr sample_started" by (simp add: engine_start_def e)
  from sample_begin show "begin_step sample_rtlib 0 sample_started ''read'' = Inr sample_begun" by (simp add: begin_step_def ensure_running_def e)
  from sample_created show "create_state sample_rtlib sample_run_id sample_run_id (Some sample_run_id) sample_plan ''2026-01-01T00:00:00+00:00'' ''workflow-v1'' = Inr sample_state"
    by (simp add: create_state_def make_state_def state_shape_def p)
qed

lemma sample_action: "valid_action (step_action \<lparr>ar_capable = True, ar_correlation_id = sample_run_id\<rparr> (sample_step ''read'' 1 []) ''item.lookup'')"
  using sample_uuid_shape
  by (simp add: valid_action_def step_action_def sample_step_def TOOL_NAMES_def)

lemma sample_calls: "w_calls (snd (rt_start sample_env sample_request sample_world)) \<noteq> []"
proof -
  obtain t0 t1 t2 where t: "encode_state sample_state = Inr t0" "encode_state sample_started = Inr t1" "encode_state sample_begun = Inr t2"
    using sample_encodes by (auto simp: is_ok_def split: sum.splits)
  have f: "ws_run_id sample_state = sample_run_id" "ws_revision sample_state = 0" "ws_status sample_state = ''READY''"
    "ws_run_id sample_started = sample_run_id" "ws_revision sample_started = 1" "ws_status sample_started = ''RUNNING''"
    "ws_current sample_started = None" "ws_run_id sample_begun = sample_run_id" "ws_revision sample_begun = 2"
    "ready_step sample_started = Inr (Some ((sample_step ''read'' 1 [])\<lparr>ps_status := ''READY''\<rparr>))"
    by (simp_all add: sample_begun_def sample_started_def sample_state_def engine_defs sample_step_def)
  have x: "ps_step_id ((sample_step ''read'' 1 [])\<lparr>ps_status := ''READY''\<rparr>) = ''read''"
    "ps_type ((sample_step ''read'' 1 [])\<lparr>ps_status := ''READY''\<rparr>) = ''TOOL''"
    "ps_tool_name ((sample_step ''read'' 1 [])\<lparr>ps_status := ''READY''\<rparr>) = Some ''item.lookup''"
    "valid_action (step_action \<lparr>ar_capable = True, ar_correlation_id = sample_run_id\<rparr> ((sample_step ''read'' 1 [])\<lparr>ps_status := ''READY''\<rparr>) ''item.lookup'')"
    using sample_action by (simp_all add: sample_step_def step_action_def)
  have iso: "iso_format sample_rtlib n = ''2026-01-01T00:00:00+00:00''" for n by (simp add: sample_rtlib_def)
  have plan: "sample_plan \<noteq> []" by (simp add: sample_plan_def)
  show ?thesis
    using t sample_rtlib_engine f x plan
    by (simp add: rt_start_def sample_env_def sample_request_def sample_world_def or_text_def rt_bind_def rt_at_def
        st_create_def ck_create_def ck_recorded_def ck_note_def advance_def adv_body_def adv_start_def hold_lease_def st_acquire_def ck_acquire_def
        lease_active_def st_save_def ck_save_def lease_matches_def lease_expiry_def iso adv_loop.simps [of _ _ sample_started]
        dispatch_def call_tool_def adv_finish_def release_held_def st_release_def ck_release_def rt_raise_def rt_return_def)
qed

section \<open>Properties\<close>

text \<open>
  C4: the service never calls a tool before the call is on record.  Whatever requests
  it has served since it started, each Gateway call was made while the stored checkpoint of its run was leased and
  showed exactly that step running, and no two calls of a run were made from the same checkpoint revision: a
  restart finds every call that may have happened.
\<close>

theorem tool_calls_written_ahead:
  assumes "(rt_step env)\<^sup>*\<^sup>* w0 w" and "w_calls w0 = []"
  shows "(\<forall>c \<in> set (w_calls w). written_ahead c) \<and> distinct (map (\<lambda>c. (tc_run c, call_revision c)) (w_calls w))"
proof -
  have "fenced w"
    using assms(1)
  proof (induction rule: rtranclp_induct)
    case base
    show ?case using assms(2) by (simp add: fenced_def)
  qed (rule rt_step_fenced)
  then show ?thesis by (simp add: fenced_def)
qed

theorem tool_calls_written_ahead_witness:
  "\<exists>c \<in> set (w_calls (snd (rt_start sample_env sample_request sample_world))). written_ahead c"
proof -
  have "(rt_step sample_env)\<^sup>*\<^sup>* sample_world (snd (rt_start sample_env sample_request sample_world))"
    by (rule r_into_rtranclp, rule rs_start [where r = "fst (rt_start sample_env sample_request sample_world)"]) simp
  from tool_calls_written_ahead [OF this] sample_calls show ?thesis by (simp add: sample_world_def) (metis last_in_set)
qed

text \<open>
  C35: planning a governed action only checkpoints the intent.  A P2P plan request calls no tool on any
  branch, and neither do status, cancellation, completion and recovery.
\<close>

theorem governed_planning_calls_no_tool:
  "w_calls (snd (plan_governed_action env pq w)) = w_calls w \<and> w_calls (snd (rt_status env run w)) = w_calls w \<and>
   w_calls (snd (rt_cancel env run n w)) = w_calls w \<and> w_calls (snd (rt_complete_governed_action env run n i digest w)) = w_calls w \<and>
   w_calls (snd (rt_recover env w)) = w_calls w"
  using mute.plan_keeps mute.status_keeps mute.cancel_keeps mute.complete_keeps mute.recover_keeps
  by (simp add: mute.keeps_def)


end
