(* ===== verification/Agent_Trace.thy ===== *)
theory Agent_Trace
  imports Checkpoint
begin

text \<open>
  What a run of the agent reports, the rest of \<open>agent/contracts.py\<close>: stop reasons, final answers, run results, and the trace,
  whose recorder numbers its events and removes secret-like material from their payloads.  Frozen
  models are records with one validity predicate each.
\<close>

section \<open>Results of a run\<close>

definition STOP_CODES :: "string list" where
  "STOP_CODES = [''FINAL_ANSWER'', ''MAX_STEPS'', ''REPEATED_CALL'', ''NO_PROGRESS'', ''TOKEN_BUDGET'', ''COST_BUDGET'',
     ''CONTEXT_INVALID'', ''CONTEXT_BUDGET'', ''WALL_TIME_BUDGET'', ''CANCELLED'', ''TOOL_NOT_ALLOWED'', ''TOOL_FREQUENCY'',
     ''INVALID_TOOL_ARGS'', ''TOOL_ERROR'', ''MODEL_ERROR'', ''UNSUPPORTED_FINAL_ANSWER'']"

definition EVENT_TYPES :: "string list" where
  "EVENT_TYPES = [''run.started'', ''model.requested'', ''skill.loaded'', ''context.assembled'', ''context.compressed'',
     ''action.proposed'', ''action.validated'', ''action.rejected'', ''tool.started'', ''tool.observed'', ''tool.failed'',
     ''guard.checked'', ''final.proposed'', ''final.validated'', ''final.rejected'', ''run.stopped'']"

record UsageSnapshot =
  us_prompt_tokens :: int
  us_completion_tokens :: int
  us_reasoning_tokens :: int
  us_cost_microusd :: int

definition no_usage :: UsageSnapshot where
  "no_usage = \<lparr>us_prompt_tokens = 0, us_completion_tokens = 0, us_reasoning_tokens = 0, us_cost_microusd = 0\<rparr>"

definition valid_usage :: "UsageSnapshot \<Rightarrow> bool" where
  "valid_usage u = (0 \<le> us_prompt_tokens u \<and> 0 \<le> us_completion_tokens u \<and> 0 \<le> us_reasoning_tokens u \<and> 0 \<le> us_cost_microusd u)"

record BudgetSnapshot =
  bs_steps :: int
  bs_usage :: UsageSnapshot
  bs_elapsed_ms :: int

definition valid_snapshot :: "BudgetSnapshot \<Rightarrow> bool" where
  "valid_snapshot b = (0 \<le> bs_steps b \<and> valid_usage (bs_usage b) \<and> 0 \<le> bs_elapsed_ms b)"

record StopReason =
  so_code :: string
  so_step :: int
  so_detail :: string
  so_budget :: BudgetSnapshot

definition valid_stop :: "StopReason \<Rightarrow> bool" where
  "valid_stop r = (so_code r \<in> set STOP_CODES \<and> 0 \<le> so_step r \<and> so_step r \<le> 64 \<and> length (so_detail r) \<le> 500 \<and> valid_snapshot (so_budget r))"

record FinalAnswer =
  fa_status :: string
  fa_summary :: string
  fa_refs :: "string list"
  fa_unknowns :: "string list"
  fa_stop :: "StopReason option"

definition valid_final :: "FinalAnswer \<Rightarrow> bool" where
  "valid_final f = (fa_status f \<in> {''SUCCEEDED'', ''NEEDS_INPUT'', ''FAILED''} \<and> text_between 1 4000 (fa_summary f) \<and>
     list_all sha_DIGEST (fa_refs f) \<and> length (fa_refs f) \<le> 32 \<and> length (fa_unknowns f) \<le> 32)"

record TraceEvent =
  te_run_id :: string
  te_sequence :: int
  te_type :: string
  te_timestamp :: string
  te_payload :: "(string \<times> pyval) list"

definition valid_event :: "TraceEvent \<Rightarrow> bool" where
  "valid_event e = (1 \<le> te_sequence e \<and> te_type e \<in> set EVENT_TYPES \<and> text_between 1 64 (te_timestamp e) \<and>
     json_typed (PDict (te_payload e)) \<and> validate_json_value (PDict (te_payload e)) \<and> is_ok (json_dumps (PDict (te_payload e))))"

record RunResult =
  rr_mode :: string
  rr_final :: "FinalAnswer option"
  rr_stop :: StopReason
  rr_events :: "TraceEvent list"
  rr_usage :: UsageSnapshot
  rr_elapsed_ms :: int

definition validate_final_answer :: "RunResult \<Rightarrow> bool" where
  "validate_final_answer r = (\<not> (so_code (rr_stop r) = ''FINAL_ANSWER'' \<and> rr_final r = None))"

definition valid_result :: "RunResult \<Rightarrow> bool" where
  "valid_result r = (rr_mode r \<in> {''DETERMINISTIC'', ''AGENT'', ''PLAN_EXECUTE''} \<and> 0 \<le> rr_elapsed_ms r \<and> validate_final_answer r)"

section \<open>Redaction\<close>

text \<open>
  The pattern \<open>_SENSITIVE_TEXT\<close> at one place of a text: \<open>p\<close> says whether a word character precedes, \<open>t\<close> is
  the text from there on.  A match is the word with the text that belongs to it: optional space, a colon or an equals
  sign, optional space, and the characters up to the next space.
\<close>

definition TRACE_TEXT_WORDS :: "string list" where
  "TRACE_TEXT_WORDS = [''apikey'', ''api_key'', ''api-key'', ''bearer'', ''token'', ''secret'', ''password'', ''passwd'', ''capability'',
     ''authorization'', ''cookie'']"

definition word_head :: "string \<Rightarrow> bool" where
  "word_head t = (t \<noteq> [] \<and> word_char (hd t))"

definition word_assigned :: "bool \<Rightarrow> string \<Rightarrow> string \<Rightarrow> bool" where
  "word_assigned p t w = (p \<noteq> word_head t \<and> starts_with w (py_lower t) \<and>
     word_head (drop (length w) t) \<noteq> word_char (last w) \<and> assigns_value (drop (length w) t))"

definition secret_at :: "bool \<Rightarrow> string \<Rightarrow> bool" where
  "secret_at p t = list_ex (word_assigned p t) TRACE_TEXT_WORDS"

definition after_value :: "string \<Rightarrow> string" where
  "after_value r = dropWhile (\<lambda>c. \<not> py_space c) (dropWhile py_space (tl (dropWhile py_space r)))"

definition after_secret :: "bool \<Rightarrow> string \<Rightarrow> string" where
  "after_secret p t = (case find (word_assigned p t) TRACE_TEXT_WORDS of
     None \<Rightarrow> t | Some w \<Rightarrow> after_value (drop (length w) t))"

lemma after_value_shorter: "assigns_value r \<Longrightarrow> length (after_value r) < length r"
proof -
  assume "assigns_value r"
  then obtain c t where r: "dropWhile py_space r = c # t" by (auto simp: assigns_value_def split: list.splits)
  have "length (after_value r) \<le> length t"
    unfolding after_value_def r list.sel by (rule order_trans [OF length_dropWhile_le length_dropWhile_le])
  also have "length t < length (dropWhile py_space r)" by (simp add: r)
  also have "\<dots> \<le> length r" by (rule length_dropWhile_le)
  finally show ?thesis .
qed

lemma after_secret_shorter:
  assumes "secret_at p t"
  shows "length (after_secret p t) < length t"
proof -
  from assms obtain w where w: "find (word_assigned p t) TRACE_TEXT_WORDS = Some w"
    by (cases "find (word_assigned p t) TRACE_TEXT_WORDS") (auto simp: secret_at_def find_None_iff list_ex_iff)
  then have "word_assigned p t w" by (auto simp: find_Some_iff)
  then have "length (after_value (drop (length w) t)) < length (drop (length w) t)"
    by (intro after_value_shorter) (simp add: word_assigned_def)
  with w show ?thesis by (simp add: after_secret_def)
qed

text \<open>\<open>_SENSITIVE_TEXT.sub("[REDACTED]", text)\<close>.  The text after a match starts with a space or is empty.\<close>

function redact_text :: "bool \<Rightarrow> string \<Rightarrow> string" where
  "redact_text p t =
     (if t = [] then []
      else if secret_at p t then ''[REDACTED]'' @ redact_text True (after_secret p t)
      else hd t # redact_text (word_char (hd t)) (tl t))"
  by pat_completeness auto
termination
  by (relation "measure (\<lambda>(p, t). length t)") (auto intro: after_secret_shorter)

declare redact_text.simps [simp del]

definition TRACE_KEY_WORDS :: "string list" where
  "TRACE_KEY_WORDS = [''secret'', ''password'', ''passwd'', ''token'', ''capability'', ''apikey'', ''api_key'', ''api-key'',
     ''authorization'', ''cookie'', ''prompt'']"

definition trace_SENSITIVE_KEY :: "string \<Rightarrow> bool" where
  "trace_SENSITIVE_KEY k = list_ex (\<lambda>w. has_infix w (py_lower k)) TRACE_KEY_WORDS"

definition SAFE_TRACE_USAGE_KEYS :: "string list" where
  "SAFE_TRACE_USAGE_KEYS = [''prompt_tokens'', ''completion_tokens'', ''reasoning_tokens'', ''actual_prompt_tokens'']"

definition hide_secrets :: "string list \<Rightarrow> string \<Rightarrow> string" where
  "hide_secrets secrets s = foldl (\<lambda>r x. if x = [] then r else replace_all x ''[REDACTED]'' r) s secrets"

definition usage_count :: "string \<Rightarrow> pyval \<Rightarrow> bool" where
  "usage_count k v = (k \<in> set SAFE_TRACE_USAGE_KEYS \<and> (case v of PInt n \<Rightarrow> 0 \<le> n | _ \<Rightarrow> False))"

fun redact :: "string list \<Rightarrow> nat \<Rightarrow> pyval \<Rightarrow> pyval"
and redact_list :: "string list \<Rightarrow> nat \<Rightarrow> nat \<Rightarrow> pyval list \<Rightarrow> pyval list"
and redact_items :: "string list \<Rightarrow> nat \<Rightarrow> nat \<Rightarrow> (string \<times> pyval) list \<Rightarrow> (string \<times> pyval) list" where
  "redact secrets depth (PStr s) =
     (if 4 < depth then PStr ''[TRUNCATED]'' else PStr (redact_text False (take 4000 (hide_secrets secrets s))))"
| "redact secrets depth (PList xs) = (if 4 < depth then PStr ''[TRUNCATED]'' else PList (redact_list secrets (depth + 1) 64 xs))"
| "redact secrets depth (PDict d) = (if 4 < depth then PStr ''[TRUNCATED]'' else PDict (redact_items secrets (depth + 1) 64 d))"
| "redact secrets depth v = (if 4 < depth then PStr ''[TRUNCATED]'' else v)"
| "redact_list secrets depth n [] = []"
| "redact_list secrets depth n (x # xs) = (if n = 0 then [] else redact secrets depth x # redact_list secrets depth (n - 1) xs)"
| "redact_items secrets depth n [] = []"
| "redact_items secrets depth n ((k, v) # d) =
     (if n = 0 then []
      else (k, if usage_count k v then v else if trace_SENSITIVE_KEY k then PStr ''[REDACTED]'' else redact secrets depth v)
           # redact_items secrets depth (n - 1) d)"

section \<open>The recorder\<close>

text \<open>\<open>TraceRecorder.add\<close>: \<open>stamp n\<close> is the time at which the \<open>n\<close>-th event is added.\<close>

definition trace_event :: "string \<Rightarrow> string list \<Rightarrow> (nat \<Rightarrow> string) \<Rightarrow> nat \<Rightarrow> string \<Rightarrow> (string \<times> pyval) list \<Rightarrow> TraceEvent" where
  "trace_event run secrets stamp n ty payload =
     \<lparr>te_run_id = run, te_sequence = int n + 1, te_type = ty, te_timestamp = stamp n, te_payload = redact_items secrets 1 64 payload\<rparr>"

definition trace_add ::
  "string \<Rightarrow> string list \<Rightarrow> (nat \<Rightarrow> string) \<Rightarrow> TraceEvent list \<Rightarrow> string \<Rightarrow> (string \<times> pyval) list \<Rightarrow> TraceEvent list result" where
  "trace_add run secrets stamp events ty payload =
     rbind (checked valid_event (trace_event run secrets stamp (length events) ty payload)) (\<lambda>e. Inr (events @ [e]))"

end
