(* ===== verification/Agent_Redaction.thy ===== *)
theory Agent_Redaction
  imports Agent_Trace
begin

text \<open>
  What redaction leaves behind.  A text is clean when the pattern of secret-like assignments matches nowhere in it; the substitution
  copies characters or writes its marker, so a match in its result would have been a match in the text it read.
\<close>

section \<open>Clean text\<close>

fun clean :: "bool \<Rightarrow> string \<Rightarrow> bool" where
  "clean p [] = True"
| "clean p (c # t) = (\<not> secret_at p (c # t) \<and> clean (word_char c) t)"

text \<open>Words of the pattern start and end with a letter and hold no marker character.\<close>

lemma trace_words:
  assumes "w \<in> set TRACE_TEXT_WORDS"
  shows "w \<noteq> []" "word_char (last w)" "CHR ''['' \<notin> set w" "hd w \<in> set ''abtspc''"
  using assms by (auto simp: TRACE_TEXT_WORDS_def word_char_def is_alnum_ascii_def)

lemma lower_not_marker: "lower_char (CHR ''['') = CHR ''[''"
  by (simp add: lower_char_def)

lemma starts_lower_head: "w \<noteq> [] \<Longrightarrow> starts_with w (py_lower t) \<Longrightarrow> t \<noteq> [] \<and> lower_char (hd t) = hd w"
  by (cases t; cases w) (auto simp: starts_with_def py_lower_def)

lemma of_char_lower:
  "(of_char (lower_char c) :: nat) =
     (let n = of_char c in if (65 \<le> n \<and> n \<le> 90) \<or> (192 \<le> n \<and> n \<le> 222 \<and> n \<noteq> 215) then n + 32 else n)"
  by (auto simp: lower_char_def Let_def)

lemma word_char_letter:
  assumes "lower_char c \<in> set ''abtspc''"
  shows "word_char c"
proof -
  from assms have "(of_char (lower_char c) :: nat) \<in> {97, 98, 116, 115, 112, 99}" by auto
  then have "(of_char c :: nat) \<in> {65..90} \<union> {97..122}" by (auto simp: of_char_lower Let_def split: if_splits)
  then show ?thesis by (auto simp: word_char_def is_alnum_ascii_def Let_def)
qed

lemma secret_head:
  assumes "secret_at p t"
  shows "\<not> p" "t \<noteq> []" "\<not> py_space (hd t)" "lower_char (hd t) \<in> set ''abtspc''"
proof -
  from assms obtain w where w: "w \<in> set TRACE_TEXT_WORDS" "word_assigned p t w" by (auto simp: secret_at_def list_ex_iff)
  with starts_lower_head [of w t] trace_words [of w] show t: "t \<noteq> []" and l: "lower_char (hd t) \<in> set ''abtspc''"
    by (auto simp: word_assigned_def)
  with w(2) word_char_letter [OF l] show "\<not> p" by (simp add: word_assigned_def word_head_def)
  from word_char_letter [OF l] show "\<not> py_space (hd t)" by (auto simp: word_char_def py_space_def is_alnum_ascii_def Let_def)
qed

text \<open>What the substitution writes first: a character it copies, or the marker in place of a word.\<close>

lemma redact_Nil [simp]: "redact_text p [] = []"
  by (simp add: redact_text.simps)

lemma redact_cases:
  obtains "t = []" "redact_text p t = []"
  | c t' where "t = c # t'" "\<not> secret_at p t" "redact_text p t = c # redact_text (word_char c) t'"
  | out where "t \<noteq> []" "secret_at p t" "redact_text p t = CHR ''['' # out"
proof (cases t)
  case t: (Cons c t')
  show thesis
  proof (cases "secret_at p t")
    case True
    then have "redact_text p t = CHR ''['' # ''REDACTED]'' @ redact_text True (after_secret p t)"
      using t by (subst redact_text.simps) simp
    with True t show thesis by (intro that(3)) simp_all
  next
    case False
    then have "redact_text p t = c # redact_text (word_char c) t'" using t by (subst redact_text.simps) simp
    with t False show thesis by (rule that(2))
  qed
qed (simp add: that(1))

lemma redact_spaces:
  "\<exists>q. dropWhile py_space (redact_text p t) = redact_text q (dropWhile py_space t)"
proof (induction t arbitrary: p)
  case (Cons c t)
  show ?case
  proof (cases rule: redact_cases [of "c # t" p])
    case (2 d t')
    show ?thesis
    proof (cases "py_space c")
      case True
      with 2 Cons.IH [of "word_char c"] show ?thesis by simp
    next
      case False
      with 2 show ?thesis by (metis dropWhile.simps(2) list.inject)
    qed
  next
    case (3 out)
    moreover from 3 secret_head(3) [OF 3(2)] have "\<not> py_space c" by simp
    moreover have "\<not> py_space (CHR ''['')" by (simp add: py_space_def)
    ultimately show ?thesis by (metis dropWhile.simps(2))
  qed simp
qed simp

lemma redact_assigns: "assigns_value (redact_text p t) \<Longrightarrow> assigns_value t"
proof -
  assume a: "assigns_value (redact_text p t)"
  obtain q where q: "dropWhile py_space (redact_text p t) = redact_text q (dropWhile py_space t)" using redact_spaces by blast
  show ?thesis
  proof (cases rule: redact_cases [of "dropWhile py_space t" q])
    case (2 c t')
    obtain q' where q': "dropWhile py_space (redact_text (word_char c) t') = redact_text q' (dropWhile py_space t')" using redact_spaces by blast
    from a 2(3) q have "c = CHR '':'' \<or> c = CHR ''=''" "dropWhile py_space (redact_text (word_char c) t') \<noteq> []"
      by (simp_all add: assigns_value_def)
    moreover from this q' have "dropWhile py_space t' \<noteq> []" by fastforce
    ultimately show ?thesis using 2(1) by (simp only: assigns_value_def list.case) blast
  next
    case 3
    with a q show ?thesis by (simp add: assigns_value_def)
  qed (use a q in \<open>simp add: assigns_value_def\<close>)
qed

lemma redact_starts:
  assumes "CHR ''['' \<notin> set w" and "starts_with w (py_lower (redact_text p t))"
  shows "starts_with w (py_lower t) \<and> (\<exists>q. drop (length w) (redact_text p t) = redact_text q (drop (length w) t))"
  using assms
proof (induction w arbitrary: p t)
  case (Cons x w)
  show ?case
  proof (cases rule: redact_cases [of t p])
    case (2 c t')
    with Cons.prems Cons.IH [of "word_char c" t'] show ?thesis by (simp add: starts_with_def py_lower_def)
  next
    case 3
    with Cons.prems show ?thesis by (simp add: starts_with_def py_lower_def lower_not_marker)
  qed (use Cons.prems in \<open>simp add: starts_with_def py_lower_def\<close>)
qed (auto simp: starts_with_def)

text \<open>Hence a match in the result of the substitution comes from a match in what it read.\<close>

lemma space_not_word: "py_space c \<Longrightarrow> \<not> word_char c"
  by (auto simp: word_char_def py_space_def is_alnum_ascii_def Let_def)

lemma assigns_no_word:
  assumes "assigns_value r"
  shows "\<not> word_head r"
proof (cases r)
  case (Cons c t)
  have sep: "\<not> word_char (CHR '':'')" "\<not> word_char (CHR ''='')" by (simp_all add: word_char_def is_alnum_ascii_def)
  show ?thesis
  proof (cases "py_space c")
    case True
    then show ?thesis using Cons by (simp add: word_head_def space_not_word)
  next
    case False
    with assms Cons sep show ?thesis by (auto simp: assigns_value_def word_head_def)
  qed
qed (simp add: word_head_def)

lemma redact_secret:
  assumes "secret_at p (c # redact_text (word_char c) t)"
  shows "secret_at p (c # t)"
proof -
  from assms obtain w where w: "w \<in> set TRACE_TEXT_WORDS" "word_assigned p (c # redact_text (word_char c) t) w"
    by (auto simp: secret_at_def list_ex_iff)
  from trace_words(1,3) [OF w(1)] obtain x v where v: "w = x # v" "CHR ''['' \<notin> set v" by (cases w) auto
  from w(2) v have s: "starts_with v (py_lower (redact_text (word_char c) t))" "lower_char c = x"
    by (auto simp: word_assigned_def starts_with_def py_lower_def)
  from redact_starts [OF v(2) s(1)] obtain q where q: "starts_with v (py_lower t)"
    "drop (length v) (redact_text (word_char c) t) = redact_text q (drop (length v) t)" by blast
  from w(2) v(1) q(2) have a: "assigns_value (drop (length v) t)" by (auto simp: word_assigned_def intro: redact_assigns)
  then have "\<not> word_head (drop (length v) t)" by (rule assigns_no_word)
  with a q(1) s(2) v(1) w trace_words(2) [OF w(1)] have "word_assigned p (c # t) w"
    by (simp add: word_assigned_def word_head_def starts_with_def py_lower_def)
  with w(1) show ?thesis by (auto simp: secret_at_def list_ex_iff)
qed

lemma no_secret_start: "lower_char c \<notin> set ''abtspc'' \<or> p \<Longrightarrow> \<not> secret_at p (c # t)"
  using secret_head [of p "c # t"] by auto

lemma clean_marker: "clean True t \<Longrightarrow> (t \<noteq> [] \<Longrightarrow> py_space (hd t)) \<Longrightarrow> clean p (''[REDACTED]'' @ t)"
proof -
  assume t: "clean True t" "t \<noteq> [] \<Longrightarrow> py_space (hd t)"
  have "clean False t"
  proof (cases t)
    case (Cons c u)
    with t secret_head(3) [of False t] show ?thesis by auto
  qed simp
  moreover have "\<not> word_char (CHR ''['')" "\<not> word_char (CHR '']'')" "word_char (CHR ''R'')" "word_char (CHR ''E'')" "word_char (CHR ''D'')"
    "word_char (CHR ''A'')" "word_char (CHR ''C'')" "word_char (CHR ''T'')"
    by (simp_all add: word_char_def is_alnum_ascii_def)
  moreover have "lower_char (CHR ''R'') = CHR ''r''" "lower_char (CHR '']'') = CHR '']''"
    by (simp_all add: lower_char_def char_of_eq_iff)
  ultimately show ?thesis by (simp add: no_secret_start lower_not_marker)
qed

lemma after_secret_head:
  assumes "secret_at p t" and "after_secret p t \<noteq> []"
  shows "py_space (hd (after_secret p t))"
proof -
  from assms(1) obtain w where "find (word_assigned p t) TRACE_TEXT_WORDS = Some w"
    by (cases "find (word_assigned p t) TRACE_TEXT_WORDS") (auto simp: secret_at_def find_None_iff list_ex_iff)
  then have "after_secret p t = after_value (drop (length w) t)" by (simp add: after_secret_def)
  with assms(2) show ?thesis using hd_dropWhile [of "\<lambda>c. \<not> py_space c"] by (auto simp: after_value_def)
qed

lemma redact_space_head: "t \<noteq> [] \<Longrightarrow> py_space (hd t) \<Longrightarrow> redact_text p t \<noteq> [] \<and> hd (redact_text p t) = hd t"
  using secret_head(3) [of p t] by (subst (1 2) redact_text.simps) auto

lemma redact_clean: "clean p (redact_text p t)"
proof (induction p t rule: redact_text.induct)
  case (1 p t)
  show ?case
  proof (cases rule: redact_cases [of t p])
    case (2 c t')
    with 1(2) have "clean (word_char c) (redact_text (word_char c) t')" by simp
    with 2 redact_secret [of p c t'] show ?thesis by auto
  next
    case 3
    then have "redact_text p t = ''[REDACTED]'' @ redact_text True (after_secret p t)" by (subst redact_text.simps) simp
    moreover have "clean p (''[REDACTED]'' @ redact_text True (after_secret p t))"
    proof (rule clean_marker)
      show "clean True (redact_text True (after_secret p t))" by (rule 1(1) [OF 3(1,2)])
      assume "redact_text True (after_secret p t) \<noteq> []"
      then have "after_secret p t \<noteq> []" by auto
      with after_secret_head [OF 3(2)] redact_space_head show "py_space (hd (redact_text True (after_secret p t)))" by fastforce
    qed
    ultimately show ?thesis by simp
  qed simp
qed

section \<open>Clean payloads\<close>

text \<open>A payload is clean when its texts are, to any depth, and nothing but the marker or a token count stands under a sensitive key.\<close>

fun clean_value :: "pyval \<Rightarrow> bool" where
  "clean_value (PStr s) = clean False s"
| "clean_value (PList xs) = list_all clean_value xs"
| "clean_value (PDict d) = list_all (\<lambda>p. clean_value (snd p) \<and>
     (trace_SENSITIVE_KEY (fst p) \<longrightarrow> usage_count (fst p) (snd p) \<or> snd p = PStr ''[REDACTED]'')) d"
| "clean_value _ = True"

lemma clean_no_separator: "CHR '':'' \<notin> set t \<Longrightarrow> CHR ''='' \<notin> set t \<Longrightarrow> clean p t"
proof (induction t arbitrary: p)
  case (Cons c t)
  have "\<not> assigns_value (drop n (c # t))" for n
    using Cons.prems set_dropWhileD [of _ py_space "drop n (c # t)"] in_set_dropD [of _ n "c # t"]
    by (auto simp: assigns_value_def split: list.splits) (metis list.set_intros(1) set_ConsD)+
  with Cons show ?case by (auto simp: secret_at_def list_ex_iff word_assigned_def)
qed simp

lemma clean_markers [simp]: "clean_value (PStr ''[TRUNCATED]'')" "clean_value (PStr ''[REDACTED]'')"
  unfolding clean_value.simps by (rule clean_no_separator, simp_all del: clean.simps)+

lemma redact_text_clean [simp]: "clean_value (PStr (redact_text False t))"
  by (simp add: redact_clean)

lemma usage_count_clean [simp]: "usage_count k v \<Longrightarrow> clean_value v"
  by (auto simp: usage_count_def split: pyval.splits)

lemma redact_value_clean:
  "clean_value (redact secrets depth v)"
  "list_all clean_value (redact_list secrets depth n xs)"
  "clean_value (PDict (redact_items secrets depth n d))"
  by (induction secrets depth v and secrets depth n xs and secrets depth n d rule: redact_redact_list_redact_items.induct)
    (auto simp del: clean.simps clean_value.simps(1))

text \<open>Redaction keeps a payload serialisable.\<close>

lemma redact_items_keys: "map fst (redact_items secrets depth n d) = take n (map fst d)"
proof (induction d arbitrary: n)
  case (Cons p d)
  then show ?case by (cases p; cases n) simp_all
qed simp

lemma redact_items_distinct: "distinct (map fst d) \<Longrightarrow> distinct (map fst (redact_items secrets depth n d))"
  by (simp add: redact_items_keys)

lemma json_good_text [simp]: "json_good (PStr s)"
  by (simp add: json_good_def)

lemma redact_json_good:
  "json_good v \<Longrightarrow> json_good (redact secrets depth v)"
  "list_all json_good xs \<Longrightarrow> list_all json_good (redact_list secrets depth n xs)"
  "list_all (\<lambda>p. json_good (snd p)) d \<Longrightarrow> list_all (\<lambda>p. json_good (snd p)) (redact_items secrets depth n d)"
  by (induction secrets depth v and secrets depth n xs and secrets depth n d rule: redact_redact_list_redact_items.induct)
    (auto simp: json_good_simps redact_items_distinct)

text \<open>So adding an event with a serialisable payload never fails.\<close>

lemma trace_add_ok:
  assumes "json_good (PDict payload)" and "ty \<in> set EVENT_TYPES" and "\<And>n. text_between 1 64 (stamp n)"
  shows "trace_add run secrets stamp events ty payload = Inr (events @ [trace_event run secrets stamp (length events) ty payload])"
proof -
  have "json_good (PDict (redact_items secrets 1 64 payload))"
    using redact_json_good(1) [OF assms(1), of secrets 0] by simp
  with assms(2,3) show ?thesis
    by (simp add: trace_add_def checked_def valid_event_def trace_event_def json_good_def)
qed

section \<open>Properties\<close>


end
