(* ===== verification/Agent_Guards.thy ===== *)
theory Agent_Guards
  imports Agent_Contracts
begin

text \<open>
  The stop guards of \<open>agent/guards.py\<close>, one state each, and the registry that lets one execution at a time claim a Run.
\<close>

section \<open>Repeated calls\<close>

definition repeat_check :: "string list \<Rightarrow> AgentAction \<Rightarrow> (bool \<times> string list) result" where
  "repeat_check seen a = rbind (call_key a) (\<lambda>key. if key \<in> set seen then Inr (True, seen) else Inr (False, seen @ [key]))"

section \<open>Calls per tool\<close>

definition frequency_count :: "(string \<times> int) list \<Rightarrow> string \<Rightarrow> int" where
  "frequency_count counts tool = (case map_of counts tool of None \<Rightarrow> 0 | Some n \<Rightarrow> n)"

definition frequency_check :: "int \<Rightarrow> (string \<times> int) list \<Rightarrow> AgentAction \<Rightarrow> bool \<times> (string \<times> int) list" where
  "frequency_check max_calls counts a =
     (let n = frequency_count counts (ac_tool_name a) + 1 in (n > max_calls, dict_set counts (ac_tool_name a) n))"

section \<open>No progress\<close>

record progress =
  pg_seen :: "string list"
  pg_stale :: int

definition progress_check :: "int \<Rightarrow> progress \<Rightarrow> Observation \<Rightarrow> bool \<times> progress" where
  "progress_check threshold g obs =
     (let g' = (if ob_digest obs \<in> set (pg_seen g) then g\<lparr>pg_stale := pg_stale g + 1\<rparr>
                else g\<lparr>pg_seen := pg_seen g @ [ob_digest obs], pg_stale := 0\<rparr>)
      in (pg_stale g' \<ge> threshold, g'))"

section \<open>One execution per Run\<close>

definition try_acquire :: "string list \<Rightarrow> string \<Rightarrow> bool \<times> string list" where
  "try_acquire active run = (if run \<in> set active then (False, active) else (True, active @ [run]))"

definition registry_release :: "string list \<Rightarrow> string \<Rightarrow> string list" where
  "registry_release active run = filter (\<lambda>r. r \<noteq> run) active"

definition is_active :: "string list \<Rightarrow> string \<Rightarrow> bool" where
  "is_active active run = (run \<in> set active)"

end
