(* ===== verification/Gateway_Tools.thy ===== *)
theory Gateway_Tools
  imports Agent_Contracts
begin

text \<open>
  The typed tool calls of the runtime's Gateway client, \<open>services/agent_runtime/.../gateway.py\<close>: a closed union
  selected by the tool name, with strict inputs.
\<close>

section \<open>Inputs\<close>

definition int_input :: "(string \<times> pyval) list \<Rightarrow> string \<Rightarrow> int \<Rightarrow> int \<Rightarrow> bool" where
  "int_input d k lo hi = (case map_of d k of None \<Rightarrow> True | Some (PInt n) \<Rightarrow> lo \<le> n \<and> n \<le> hi | _ \<Rightarrow> False)"

definition optional_input :: "(string \<times> pyval) list \<Rightarrow> string \<Rightarrow> bool" where
  "optional_input d k = (case map_of d k of None \<Rightarrow> True | Some PNone \<Rightarrow> True | Some (PStr s) \<Rightarrow> text_between 1 140 s | _ \<Rightarrow> False)"

definition required_input :: "(string \<times> pyval) list \<Rightarrow> string \<Rightarrow> bool" where
  "required_input d k = (case map_of d k of Some (PStr s) \<Rightarrow> text_between 1 140 s | _ \<Rightarrow> False)"

definition PageInput :: "(string \<times> pyval) list \<Rightarrow> bool" where
  "PageInput d = (int_input d ''offset'' 0 10000 \<and> int_input d ''limit'' 1 50)"

definition input_keys :: "(string \<times> pyval) list \<Rightarrow> string list \<Rightarrow> bool" where
  "input_keys d own = (set (dkeys d) \<subseteq> set ([''offset'', ''limit''] @ own))"

definition ItemLookupInput :: "(string \<times> pyval) list \<Rightarrow> bool" where
  "ItemLookupInput d = (input_keys d [''query''] \<and> PageInput d \<and> optional_input d ''query'')"

definition SupplierLookupInput :: "(string \<times> pyval) list \<Rightarrow> bool" where
  "SupplierLookupInput d = (input_keys d [''query''] \<and> PageInput d \<and> optional_input d ''query'')"

definition ProjectedStockInput :: "(string \<times> pyval) list \<Rightarrow> bool" where
  "ProjectedStockInput d = (input_keys d [''item_code'', ''warehouse''] \<and> PageInput d \<and>
     required_input d ''item_code'' \<and> optional_input d ''warehouse'')"

definition OpenDemandInput :: "(string \<times> pyval) list \<Rightarrow> bool" where
  "OpenDemandInput d = (input_keys d [''item_code'', ''warehouse''] \<and> PageInput d \<and>
     optional_input d ''item_code'' \<and> optional_input d ''warehouse'')"

definition OpenMaterialRequestInput :: "(string \<times> pyval) list \<Rightarrow> bool" where
  "OpenMaterialRequestInput d = (input_keys d [] \<and> PageInput d)"

definition OpenPurchaseOrderInput :: "(string \<times> pyval) list \<Rightarrow> bool" where
  "OpenPurchaseOrderInput d = (input_keys d [''supplier''] \<and> PageInput d \<and> optional_input d ''supplier'')"

definition CurrentDocumentInput :: "(string \<times> pyval) list \<Rightarrow> bool" where
  "CurrentDocumentInput d = (input_keys d [''name''] \<and> PageInput d \<and> required_input d ''name'' \<and>
     (case map_of d ''name'' of Some (PStr s) \<Rightarrow> py_strip s \<noteq> [] | _ \<Rightarrow> False))"

section \<open>Calls\<close>

definition tool_call_valid :: "string \<Rightarrow> (string \<times> pyval) list \<Rightarrow> bool" where
  "tool_call_valid name d =
     (if name = ''item.lookup'' then ItemLookupInput d
      else if name = ''supplier.lookup'' then SupplierLookupInput d
      else if name = ''stock.projected'' then ProjectedStockInput d
      else if name = ''demand.open'' then OpenDemandInput d
      else if name = ''material_request.open'' then OpenMaterialRequestInput d
      else if name = ''purchase_order.open'' then OpenPurchaseOrderInput d
      else if name \<in> {''material_request.current'', ''purchase_order.current''} then CurrentDocumentInput d
      else False)"

definition validate_action_tool :: "AgentAction \<Rightarrow> unit result" where
  "validate_action_tool a = (if tool_call_valid (ac_tool_name a) (ac_args a) then Inr () else Inl ValueError)"

end
