(* ===== verification/Agent_Kernel.thy ===== *)
theory Agent_Kernel
  imports Agent_Redaction Agent_Guards Gateway_Tools
begin

text \<open>
  The bounded loop of the agent, \<open>agent/kernel.py\<close>: model, validation, guards, tool, observation, stop.  The model, the tool adapter, the
  cancellation flag and the clock are functions of how often they were asked; the model is
  untrusted and may answer anything.  The state holds what the function keeps in local variables and guards, and the calls it made.
\<close>

section \<open>The environment\<close>

record KernelLimits =
  kl_max_steps :: int
  kl_max_wall_time_ms :: int
  kl_max_calls_per_tool :: int
  kl_no_progress_threshold :: int

definition valid_limits :: "KernelLimits \<Rightarrow> bool" where
  "valid_limits l = (1 \<le> kl_max_steps l \<and> kl_max_steps l \<le> 64 \<and> 1 \<le> kl_max_wall_time_ms l \<and> kl_max_wall_time_ms l \<le> 180000 \<and>
     1 \<le> kl_max_calls_per_tool l \<and> kl_max_calls_per_tool l \<le> 3 \<and> 1 \<le> kl_no_progress_threshold l \<and> kl_no_progress_threshold l \<le> 2)"

text \<open>What \<open>model.next\<close> may do: return a decoded object or a plain value, or raise.\<close>

datatype model_reply =
    ReplyAction AgentAction
  | ReplyFinal FinalAnswer
  | ReplyValue pyval
  | ReplyBad
  | ReplyRaise

datatype tool_reply =
    ToolObserved Observation
  | ToolFailed string bool
  | ToolCrash

record kenv =
  ke_lib :: wflib
  ke_run_id :: string
  ke_correlation_id :: string
  ke_goal :: string
  ke_allowed :: "string list"
  ke_tool_count :: int
  ke_limits :: KernelLimits
  ke_model :: "(string \<times> string) list \<Rightarrow> int \<Rightarrow> model_reply"
  ke_tool :: "nat \<Rightarrow> AgentAction \<Rightarrow> tool_reply"
  ke_cancelled :: "nat \<Rightarrow> bool"
  ke_elapsed :: "nat \<Rightarrow> int"
  ke_stamp :: "nat \<Rightarrow> string"

record kstate =
  ks_events :: "TraceEvent list"
  ks_messages :: "(string \<times> string) list"
  ks_observations :: "Observation list"
  ks_seen :: "string list"
  ks_counts :: "(string \<times> int) list"
  ks_progress :: progress
  ks_polls :: nat
  ks_reads :: nat
  ks_calls :: "AgentAction list"

text \<open>A step goes on with a value, or the run ends with a result or an exception that escapes.\<close>

datatype 'a kout = Go 'a | Halt "RunResult result"

type_synonym 'a kstep = "kstate \<Rightarrow> 'a kout \<times> kstate"

definition k_return :: "'a \<Rightarrow> 'a kstep" where
  "k_return x s = (Go x, s)"

definition k_bind :: "'a kstep \<Rightarrow> ('a \<Rightarrow> 'b kstep) \<Rightarrow> 'b kstep" where
  "k_bind m f s = (case m s of (Halt r, s') \<Rightarrow> (Halt r, s') | (Go x, s') \<Rightarrow> f x s')"

definition k_raise :: "pyexc \<Rightarrow> 'a kstep" where
  "k_raise e s = (Halt (Inl e), s)"

definition k_add :: "kenv \<Rightarrow> string \<Rightarrow> (string \<times> pyval) list \<Rightarrow> unit kstep" where
  "k_add env ty payload s =
     (case trace_add (ke_run_id env) [] (ke_stamp env) (ks_events s) ty payload of
        Inl e \<Rightarrow> (Halt (Inl e), s)
      | Inr es \<Rightarrow> (Go (), s\<lparr>ks_events := es\<rparr>))"

definition k_cancelled :: "kenv \<Rightarrow> bool kstep" where
  "k_cancelled env s = (Go (ke_cancelled env (ks_polls s)), s\<lparr>ks_polls := ks_polls s + 1\<rparr>)"

definition k_elapsed :: "kenv \<Rightarrow> int kstep" where
  "k_elapsed env s = (Go (max 0 (ke_elapsed env (ks_reads s))), s\<lparr>ks_reads := ks_reads s + 1\<rparr>)"

section \<open>Stopping\<close>

definition step_field :: "int \<Rightarrow> string \<times> pyval" where
  "step_field step = (''step'', PInt step)"

definition snapshot_of :: "int \<Rightarrow> int \<Rightarrow> BudgetSnapshot" where
  "snapshot_of step elapsed = \<lparr>bs_steps = step, bs_usage = no_usage, bs_elapsed_ms = elapsed\<rparr>"

definition run_result :: "StopReason \<Rightarrow> FinalAnswer option \<Rightarrow> TraceEvent list \<Rightarrow> RunResult" where
  "run_result reason fa events =
     \<lparr>rr_mode = ''AGENT'', rr_final = fa, rr_stop = reason, rr_events = events, rr_usage = no_usage,
      rr_elapsed_ms = bs_elapsed_ms (so_budget reason)\<rparr>"

definition k_finish :: "StopReason \<Rightarrow> FinalAnswer option \<Rightarrow> 'a kstep" where
  "k_finish reason fa s = (Halt (checked valid_result (run_result reason fa (ks_events s))), s)"

definition k_stop :: "kenv \<Rightarrow> string \<Rightarrow> int \<Rightarrow> string \<Rightarrow> FinalAnswer option \<Rightarrow> 'a kstep" where
  "k_stop env code step detail fa =
     k_bind (k_elapsed env) (\<lambda>ms.
       let reason = \<lparr>so_code = code, so_step = step, so_detail = detail, so_budget = snapshot_of step ms\<rparr> in
       if \<not> valid_stop reason then k_raise ValueError
       else k_bind (k_add env ''run.stopped'' [(''code'', PStr code), step_field step, (''detail'', PStr detail)]) (\<lambda>_.
         k_finish reason (map_option (\<lambda>f. f\<lparr>fa_stop := Some reason\<rparr>) fa)))"

section \<open>Decoding\<close>

record RawAction =
  ra_step :: int
  ra_tool_name :: string
  ra_args :: "(string \<times> pyval) list"
  ra_correlation_id :: string

definition raw_action :: "wflib \<Rightarrow> pyval \<Rightarrow> RawAction result" where
  "raw_action lib v =
     rbind (j_object [''schema_version'', ''type'', ''step'', ''tool_name'', ''canonical_args'', ''correlation_id''] v) (\<lambda>d.
     rbind (j_version d) (\<lambda>_. rbind (j_req d ''type'' j_text) (\<lambda>ty. rbind (j_req d ''step'' j_int) (\<lambda>n.
     rbind (j_req d ''tool_name'' j_text) (\<lambda>t. rbind (j_default d ''canonical_args'' [] j_dict) (\<lambda>args.
     rbind (j_req d ''correlation_id'' (j_uuid lib)) (\<lambda>c.
       checked (\<lambda>r. ty = ''action'' \<and> 1 \<le> n \<and> n \<le> 64 \<and> text_between 1 140 t \<and> json_typed (PDict args))
         \<lparr>ra_step = n, ra_tool_name = t, ra_args = args, ra_correlation_id = c\<rparr>)))))))"

definition raw_final :: "pyval \<Rightarrow> FinalAnswer result" where
  "raw_final v =
     rbind (j_object [''schema_version'', ''type'', ''status'', ''summary'', ''evidence_refs'', ''unknowns''] v) (\<lambda>d.
     rbind (j_version d) (\<lambda>_. rbind (j_req d ''type'' j_text) (\<lambda>ty. rbind (j_req d ''status'' j_text) (\<lambda>st.
     rbind (j_req d ''summary'' j_text) (\<lambda>su. rbind (j_default d ''evidence_refs'' [] (j_list j_text)) (\<lambda>refs.
     rbind (j_default d ''unknowns'' [] (j_list j_text)) (\<lambda>un.
       checked (\<lambda>f. ty = ''final'' \<and> valid_final f)
         \<lparr>fa_status = st, fa_summary = su, fa_refs = refs, fa_unknowns = un, fa_stop = None\<rparr>)))))))"

datatype decision =
    DecAction AgentAction
  | DecRaw RawAction
  | DecFinal FinalAnswer

definition decode :: "kenv \<Rightarrow> int \<Rightarrow> model_reply \<Rightarrow> decision result" where
  "decode env step raw = (case raw of
     ReplyFinal f \<Rightarrow> Inr (DecFinal f)
   | ReplyAction a \<Rightarrow> if ac_correlation_id a \<noteq> ke_correlation_id env then Inl ValueError else Inr (DecAction a)
   | ReplyValue (PDict d) \<Rightarrow>
       if py_eq (dget d ''type'') (PStr ''action'') then
         rbind (raw_action (ke_lib env) (PDict d)) (\<lambda>r.
           if ra_correlation_id r \<noteq> ke_correlation_id env \<or> ra_step r \<noteq> step then Inl ValueError else Inr (DecRaw r))
       else if py_eq (dget d ''type'') (PStr ''final'') then rbind (raw_final (PDict d)) (\<lambda>f. Inr (DecFinal f))
       else Inl ValueError
   | _ \<Rightarrow> Inl ValueError)"

section \<open>One step\<close>

text \<open>Before the model is asked: cancellation and the wall clock.\<close>

definition k_preflight :: "kenv \<Rightarrow> int \<Rightarrow> unit kstep" where
  "k_preflight env step =
     k_bind (k_cancelled env) (\<lambda>c.
     if c then k_stop env ''CANCELLED'' step ''execution was cancelled'' None
     else k_bind (k_elapsed env) (\<lambda>ms.
       if ms \<ge> kl_max_wall_time_ms (ke_limits env)
       then k_stop env ''WALL_TIME_BUDGET'' step ''wall-clock budget expired before model call'' None
       else k_add env ''model.requested'' [step_field step, (''tool_count'', PInt (ke_tool_count env))]))"

definition k_decide :: "kenv \<Rightarrow> int \<Rightarrow> decision kstep" where
  "k_decide env step s =
     (let raw = ke_model env (ks_messages s) step in
      case raw of
        ReplyRaise \<Rightarrow> k_stop env ''MODEL_ERROR'' step ''model adapter failed'' None s
      | _ \<Rightarrow> (case decode env step raw of
          Inl e \<Rightarrow> k_bind (k_add env ''final.rejected'' [step_field step, (''reason'', PStr ''invalid model decision'')])
            (\<lambda>_. k_stop env ''MODEL_ERROR'' step ''model decision could not be validated'' None) s
        | Inr d \<Rightarrow> k_bind (k_cancelled env) (\<lambda>c.
            if c then k_stop env ''CANCELLED'' step ''execution was cancelled after model response'' None else k_return d) s))"

definition known_digests :: "Observation list \<Rightarrow> string set" where
  "known_digests obs = ob_digest ` set (filter ob_ok obs)"

definition k_final :: "kenv \<Rightarrow> int \<Rightarrow> FinalAnswer \<Rightarrow> 'a kstep" where
  "k_final env step f s =
     k_bind (k_add env ''final.proposed'' [step_field step, (''status'', PStr (fa_status f)), (''summary'', PStr (fa_summary f)),
         (''evidence_refs'', PList (map PStr (fa_refs f))), (''unknowns'', PList (map PStr (fa_unknowns f)))]) (\<lambda>_.
       if fa_refs f = [] \<or> \<not> set (fa_refs f) \<subseteq> known_digests (ks_observations s)
       then k_bind (k_add env ''final.rejected'' [step_field step, (''reason'', PStr ''evidence ref is unknown'')])
         (\<lambda>_. k_stop env ''UNSUPPORTED_FINAL_ANSWER'' step ''final answer did not cite an observed digest'' None)
       else k_bind (k_add env ''final.validated'' [step_field step])
         (\<lambda>_. k_stop env ''FINAL_ANSWER'' step ''validated final answer'' (Some f))) s"

definition action_of :: "RawAction \<Rightarrow> AgentAction" where
  "action_of r = \<lparr>ac_step = ra_step r, ac_tool_name = ra_tool_name r, ac_args = ra_args r, ac_correlation_id = ra_correlation_id r\<rparr>"

definition rejected_args :: "kenv \<Rightarrow> int \<Rightarrow> string \<Rightarrow> 'a kstep" where
  "rejected_args env step detail =
     k_bind (k_add env ''action.rejected'' [step_field step, (''reason'', PStr ''tool arguments are invalid'')])
       (\<lambda>_. k_stop env ''INVALID_TOOL_ARGS'' step detail None)"

text \<open>The action the model proposed, once its tool is allowed and its arguments fit the Gateway schema.\<close>

definition k_typed :: "kenv \<Rightarrow> int \<Rightarrow> string \<Rightarrow> AgentAction result \<Rightarrow> AgentAction kstep" where
  "k_typed env step tool a =
     (if tool \<notin> set (ke_allowed env)
      then k_bind (k_add env ''action.rejected'' [step_field step, (''tool_name'', PStr tool)])
        (\<lambda>_. k_stop env ''TOOL_NOT_ALLOWED'' step ''tool is outside the current allowlist'' None)
      else (case a of
          Inl e \<Rightarrow> rejected_args env step ''known tool action failed typed validation''
        | Inr act \<Rightarrow> k_return act))"

definition k_action :: "kenv \<Rightarrow> int \<Rightarrow> string \<Rightarrow> AgentAction result \<Rightarrow> AgentAction kstep" where
  "k_action env step tool a =
     k_bind (k_typed env step tool a) (\<lambda>act.
     k_bind (k_add env ''action.proposed'' [step_field step, (''tool_name'', PStr (ac_tool_name act)), (''canonical_args'', PDict (ac_args act))]) (\<lambda>_.
     case validate_action_tool act of
       Inl e \<Rightarrow> rejected_args env step ''tool arguments failed the existing gateway schema''
     | Inr _ \<Rightarrow> k_bind (k_add env ''action.validated'' [step_field step, (''tool_name'', PStr (ac_tool_name act))]) (\<lambda>_. k_return act)))"

definition guard_event :: "kenv \<Rightarrow> int \<Rightarrow> string \<Rightarrow> bool \<Rightarrow> (string \<times> pyval) list \<Rightarrow> unit kstep" where
  "guard_event env step guard allowed extra =
     k_add env ''guard.checked'' ([step_field step, (''guard'', PStr guard), (''allowed'', PBool allowed)] @ extra)"

definition k_repeat :: "kenv \<Rightarrow> int \<Rightarrow> AgentAction \<Rightarrow> unit kstep" where
  "k_repeat env step act s =
     (case repeat_check (ks_seen s) act of
        Inl e \<Rightarrow> (Halt (Inl e), s)
      | Inr (repeated, seen) \<Rightarrow>
          k_bind (guard_event env step ''repeated_call'' (\<not> repeated) []) (\<lambda>_.
            if repeated then k_stop env ''REPEATED_CALL'' step ''the same tool and canonical arguments were already used'' None
            else k_return ()) (s\<lparr>ks_seen := seen\<rparr>))"

definition k_frequency :: "kenv \<Rightarrow> int \<Rightarrow> AgentAction \<Rightarrow> unit kstep" where
  "k_frequency env step act s =
     (case frequency_check (kl_max_calls_per_tool (ke_limits env)) (ks_counts s) act of
        (exceeded, counts) \<Rightarrow>
          k_bind (guard_event env step ''tool_frequency'' (\<not> exceeded) [(''count'', PInt (frequency_count counts (ac_tool_name act)))]) (\<lambda>_.
            if exceeded then k_stop env ''TOOL_FREQUENCY'' step ''the same tool exceeded its per-run call frequency'' None
            else k_return ()) (s\<lparr>ks_counts := counts\<rparr>))"

definition k_execute :: "kenv \<Rightarrow> AgentAction \<Rightarrow> tool_reply kstep" where
  "k_execute env act s = (Go (ke_tool env (length (ks_calls s)) act), s\<lparr>ks_calls := ks_calls s @ [act]\<rparr>)"

definition k_observe :: "Observation \<Rightarrow> unit kstep" where
  "k_observe obs s = (Go (), s\<lparr>ks_observations := ks_observations s @ [obs]\<rparr>)"

text \<open>The three ways a call may end.\<close>

definition k_failed :: "kenv \<Rightarrow> int \<Rightarrow> AgentAction \<Rightarrow> string \<Rightarrow> bool \<Rightarrow> 'a kstep" where
  "k_failed env step act code retryable =
     (case observation_from_summary (wf_py (ke_lib env)) step (ac_tool_name act) False ''tool execution failed'' (Some code) retryable of
        Inl e \<Rightarrow> k_raise e
      | Inr obs \<Rightarrow>
          k_bind (k_add env ''tool.failed'' [step_field step, (''tool_name'', PStr (ac_tool_name act)), (''error_code'', PStr code)]) (\<lambda>_.
          k_bind (k_observe obs) (\<lambda>_. k_stop env ''TOOL_ERROR'' step ''tool adapter returned a classified failure'' None)))"

definition k_crashed :: "kenv \<Rightarrow> int \<Rightarrow> AgentAction \<Rightarrow> 'a kstep" where
  "k_crashed env step act =
     k_bind (k_add env ''tool.failed'' [step_field step, (''tool_name'', PStr (ac_tool_name act))])
       (\<lambda>_. k_stop env ''TOOL_ERROR'' step ''tool adapter failed'' None)"

definition k_observed :: "kenv \<Rightarrow> int \<Rightarrow> AgentAction \<Rightarrow> Observation \<Rightarrow> Observation kstep" where
  "k_observed env step act obs =
     k_bind (k_cancelled env) (\<lambda>c.
     if c then k_stop env ''CANCELLED'' step ''execution was cancelled after tool response'' None
     else if ob_tool_name obs \<noteq> ac_tool_name act \<or> ob_step obs \<noteq> step
     then k_bind (k_add env ''tool.failed'' [step_field step, (''tool_name'', PStr (ac_tool_name act)), (''reason'', PStr ''observation context mismatch'')])
       (\<lambda>_. k_stop env ''TOOL_ERROR'' step ''tool observation did not match the action context'' None)
     else k_return obs)"

definition k_tool :: "kenv \<Rightarrow> int \<Rightarrow> AgentAction \<Rightarrow> Observation kstep" where
  "k_tool env step act =
     k_bind (k_add env ''tool.started'' [step_field step, (''tool_name'', PStr (ac_tool_name act)), (''canonical_args'', PDict (ac_args act))]) (\<lambda>_.
     k_bind (k_execute env act) (\<lambda>reply. case reply of
       ToolFailed code retryable \<Rightarrow> k_failed env step act code retryable
     | ToolCrash \<Rightarrow> k_crashed env step act
     | ToolObserved obs \<Rightarrow> k_observed env step act obs))"

definition k_progress :: "kenv \<Rightarrow> int \<Rightarrow> Observation \<Rightarrow> unit kstep" where
  "k_progress env step obs s =
     (case progress_check (kl_no_progress_threshold (ke_limits env)) (ks_progress s) obs of
        (stuck, g) \<Rightarrow>
          k_bind (guard_event env step ''no_progress'' (\<not> stuck) [(''stale_count'', PInt (pg_stale g))]) (\<lambda>_.
            if stuck then k_stop env ''NO_PROGRESS'' step ''observations produced no new digest'' None else k_return ())
            (s\<lparr>ks_progress := g\<rparr>))"

definition k_message :: "Observation \<Rightarrow> unit kstep" where
  "k_message obs s = (Go (), s\<lparr>ks_messages := ks_messages s @ [(''user'', ''Observation digest='' @ ob_digest obs @ ''; summary='' @ ob_summary obs)]\<rparr>)"

definition k_act :: "kenv \<Rightarrow> int \<Rightarrow> AgentAction \<Rightarrow> unit kstep" where
  "k_act env step act =
     k_bind (k_repeat env step act) (\<lambda>_.
     k_bind (k_frequency env step act) (\<lambda>_.
     k_bind (k_tool env step act) (\<lambda>obs.
     k_bind (k_observe obs) (\<lambda>_.
     k_bind (k_add env ''tool.observed'' [step_field step, (''tool_name'', PStr (ac_tool_name act)), (''ok'', PBool (ob_ok obs)),
         (''digest'', PStr (ob_digest obs)), (''summary'', PStr (ob_summary obs))]) (\<lambda>_.
     k_bind (k_progress env step obs) (\<lambda>_. k_message obs))))))"

definition react_step :: "kenv \<Rightarrow> int \<Rightarrow> unit kstep" where
  "react_step env step =
     k_bind (k_preflight env step) (\<lambda>_.
     k_bind (k_decide env step) (\<lambda>d. case d of
       DecFinal f \<Rightarrow> k_final env step f
     | DecAction a \<Rightarrow> k_bind (k_action env step (ac_tool_name a) (Inr a)) (k_act env step)
     | DecRaw r \<Rightarrow> k_bind (k_action env step (ra_tool_name r) (checked valid_action (action_of r))) (k_act env step)))"

section \<open>The run\<close>

fun react_loop :: "kenv \<Rightarrow> int \<Rightarrow> nat \<Rightarrow> unit kstep" where
  "react_loop env step 0 = k_stop env ''MAX_STEPS'' (kl_max_steps (ke_limits env)) ''maximum execution steps reached'' None"
| "react_loop env step (Suc n) = k_bind (react_step env step) (\<lambda>_. react_loop env (step + 1) n)"

definition initial_kstate :: "kenv \<Rightarrow> kstate" where
  "initial_kstate env =
     \<lparr>ks_events = [], ks_messages = [(''system'', ''Return one typed action or final answer.''), (''user'', ke_goal env)],
      ks_observations = [], ks_seen = [], ks_counts = [], ks_progress = \<lparr>pg_seen = [], pg_stale = 0\<rparr>, ks_polls = 0, ks_reads = 0, ks_calls = []\<rparr>"

definition run_bounded_react :: "kenv \<Rightarrow> unit kout \<times> kstate" where
  "run_bounded_react env =
     k_bind (k_add env ''run.started'' [(''execution_mode'', PStr ''AGENT''), (''max_steps'', PInt (kl_max_steps (ke_limits env)))]) (\<lambda>_.
       if ke_goal env = [] then k_raise ValueError
       else react_loop env 1 (nat (kl_max_steps (ke_limits env)))) (initial_kstate env)"

end
