(* ===== verification/Agent_Kernel_Properties.thy ===== *)
theory Agent_Kernel_Properties
  imports Agent_Kernel
begin

text \<open>
  What the bounded loop guarantees against an untrusted model.  A small Hoare logic for kernel steps separates the state in which a step
  goes on from the one in which the run halts; an invariant relates the calls made to the guards, and the
  observations to the answers of the tool adapter.
\<close>

section \<open>Triples\<close>

definition khoare :: "(kstate \<Rightarrow> bool) \<Rightarrow> 'a kstep \<Rightarrow> ('a \<Rightarrow> kstate \<Rightarrow> bool) \<Rightarrow> (RunResult result \<Rightarrow> kstate \<Rightarrow> bool) \<Rightarrow> bool" where
  "khoare P m Q H = (\<forall>s. P s \<longrightarrow> (case m s of (Go x, s') \<Rightarrow> Q x s' | (Halt r, s') \<Rightarrow> H r s'))"

lemma khoareD: "khoare P m Q H \<Longrightarrow> P s \<Longrightarrow> case m s of (Go x, s') \<Rightarrow> Q x s' | (Halt r, s') \<Rightarrow> H r s'"
  by (simp add: khoare_def)

lemma kh_bind: "khoare P m Q H \<Longrightarrow> (\<And>x. khoare (Q x) (f x) R H) \<Longrightarrow> khoare P (k_bind m f) R H"
  by (fastforce simp: khoare_def k_bind_def split: prod.splits kout.splits)

lemma kh_return: "(\<And>s. P s \<Longrightarrow> Q x s) \<Longrightarrow> khoare P (k_return x) Q H"
  by (simp add: khoare_def k_return_def)

lemma kh_pure: "(A \<Longrightarrow> khoare P m Q H) \<Longrightarrow> khoare (\<lambda>s. P s \<and> A) m Q H"
  by (auto simp: khoare_def)

lemma kh_pre: "khoare P m Q H \<Longrightarrow> (\<And>s. P' s \<Longrightarrow> P s) \<Longrightarrow> khoare P' m Q H"
  by (auto simp: khoare_def)

lemma kh_post: "khoare P m Q H \<Longrightarrow> (\<And>x s. Q x s \<Longrightarrow> Q' x s) \<Longrightarrow> khoare P m Q' H"
  by (fastforce simp: khoare_def split: prod.splits kout.splits)

lemma kh_at: "(\<And>s. P s \<Longrightarrow> khoare (\<lambda>s'. s' = s) (m s) Q H) \<Longrightarrow> khoare P (\<lambda>s. m s s) Q H"
  by (auto simp: khoare_def)

section \<open>The invariant\<close>

definition kenv_ok :: "kenv \<Rightarrow> bool" where
  "kenv_ok env = ((\<forall>n. text_between 1 64 (ke_stamp env n)) \<and> ke_goal env \<noteq> [] \<and> int_digits_ok (ke_tool_count env) \<and>
     (\<forall>b. sha_DIGEST (sha256_hex (wf_py (ke_lib env)) b)) \<and>
     (\<forall>ms n a. ke_model env ms n = ReplyAction a \<longrightarrow> valid_action a) \<and>
     (\<forall>i a code r. ke_tool env i a = ToolFailed code r \<longrightarrow> length code \<le> 80))"

lemma kenv_okD:
  assumes "kenv_ok env"
  shows "sha_DIGEST (sha256_hex (wf_py (ke_lib env)) b)" "ke_tool env i a = ToolFailed code r \<Longrightarrow> length code \<le> 80"
  using assms unfolding kenv_ok_def by blast+

text \<open>The trace is numbered without gaps.\<close>

definition numbered :: "TraceEvent list \<Rightarrow> bool" where
  "numbered es = (map te_sequence es = map int [1..<length es + 1])"

text \<open>A call of the adapter: allowed, fitting the Gateway schema.\<close>

definition call_ok :: "kenv \<Rightarrow> AgentAction \<Rightarrow> bool" where
  "call_ok env a = (ac_tool_name a \<in> set (ke_allowed env) \<and> tool_call_valid (ac_tool_name a) (ac_args a))"

definition calls_of :: "string \<Rightarrow> AgentAction list \<Rightarrow> int" where
  "calls_of t calls = int (length (filter (\<lambda>a. ac_tool_name a = t) calls))"

text \<open>An observation that the adapter returned for one of the calls made.\<close>

definition observed :: "kenv \<Rightarrow> AgentAction list \<Rightarrow> Observation \<Rightarrow> bool" where
  "observed env calls obs = (\<exists>i < length calls. ke_tool env i (calls ! i) = ToolObserved obs \<and> ob_tool_name obs = ac_tool_name (calls ! i))"

definition kbase :: "kenv \<Rightarrow> kstate \<Rightarrow> bool" where
  "kbase env s = (numbered (ks_events s) \<and> int (length (ks_calls s)) \<le> kl_max_steps (ke_limits env) \<and>
     list_all (call_ok env) (ks_calls s) \<and> distinct (map call_key (ks_calls s)) \<and>
     (\<forall>t. calls_of t (ks_calls s) \<le> kl_max_calls_per_tool (ke_limits env)) \<and>
     (\<forall>obs \<in> set (ks_observations s). ob_ok obs \<longrightarrow> observed env (ks_calls s) obs))"

definition kguards :: "kenv \<Rightarrow> kstate \<Rightarrow> bool" where
  "kguards env s = ((\<forall>a \<in> set (ks_calls s). \<exists>k \<in> set (ks_seen s). call_key a = Inr k) \<and>
     (\<forall>t. calls_of t (ks_calls s) \<le> frequency_count (ks_counts s) t \<and> frequency_count (ks_counts s) t \<le> kl_max_calls_per_tool (ke_limits env)) \<and>
     0 \<le> pg_stale (ks_progress s) \<and> pg_stale (ks_progress s) < kl_no_progress_threshold (ke_limits env))"

definition kinv :: "kenv \<Rightarrow> int \<Rightarrow> kstate \<Rightarrow> bool" where
  "kinv env step s = (kbase env s \<and> kguards env s \<and> int (length (ks_calls s)) < step)"

text \<open>What holds when the run ends.\<close>

definition answered :: "kenv \<Rightarrow> RunResult \<Rightarrow> kstate \<Rightarrow> bool" where
  "answered env r s = (rr_events r = ks_events s \<and> ks_events s \<noteq> [] \<and> te_type (last (ks_events s)) = ''run.stopped'' \<and>
     1 \<le> so_step (rr_stop r) \<and> so_step (rr_stop r) \<le> kl_max_steps (ke_limits env) \<and>
     (case rr_final r of
        None \<Rightarrow> so_code (rr_stop r) \<noteq> ''FINAL_ANSWER''
      | Some f \<Rightarrow> so_code (rr_stop r) = ''FINAL_ANSWER'' \<and> fa_refs f \<noteq> [] \<and> set (fa_refs f) \<subseteq> known_digests (ks_observations s)))"

definition khalt :: "kenv \<Rightarrow> RunResult result \<Rightarrow> kstate \<Rightarrow> bool" where
  "khalt env r s = (kbase env s \<and> (case r of Inl e \<Rightarrow> \<not> kenv_ok env | Inr rr \<Rightarrow> answered env rr s))"

text \<open>Predicates that survive what the loop does between two changes of its own state.\<close>

definition stable :: "kenv \<Rightarrow> (kstate \<Rightarrow> bool) \<Rightarrow> bool" where
  "stable env P = (\<forall>s. P s \<longrightarrow> kbase env s \<and>
     (\<forall>e. te_sequence e = int (length (ks_events s)) + 1 \<longrightarrow> P (s\<lparr>ks_events := ks_events s @ [e]\<rparr>)) \<and>
     (\<forall>n. P (s\<lparr>ks_polls := n\<rparr>)) \<and> (\<forall>n. P (s\<lparr>ks_reads := n\<rparr>)))"

lemma numbered_snoc: "numbered es \<Longrightarrow> te_sequence e = int (length es) + 1 \<Longrightarrow> numbered (es @ [e])"
  by (simp add: numbered_def)

lemma stable_kbase: "stable env (kbase env)"
  by (auto simp: stable_def kbase_def numbered_snoc)

lemma stable_kinv: "stable env (kinv env step)"
  by (auto simp: stable_def kinv_def kbase_def kguards_def numbered_snoc)

lemma stable_conj:
  assumes "stable env P" and "\<And>s es. X (s\<lparr>ks_events := es\<rparr>) = X s" "\<And>s n. X (s\<lparr>ks_polls := n\<rparr>) = X s" "\<And>s n. X (s\<lparr>ks_reads := n\<rparr>) = X s"
  shows "stable env (\<lambda>s. P s \<and> X s)"
  using assms by (auto simp: stable_def)

section \<open>Rules\<close>

lemma kh_add:
  assumes "stable env P" and "ty \<in> set EVENT_TYPES" and "kenv_ok env \<Longrightarrow> json_good (PDict payload)"
  shows "khoare P (k_add env ty payload) (\<lambda>_. P) (khalt env)"
  unfolding khoare_def
proof (intro allI impI)
  fix s assume s: "P s"
  show "case k_add env ty payload s of (Go x, s') \<Rightarrow> P s' | (Halt r, s') \<Rightarrow> khalt env r s'"
  proof (cases "trace_add (ke_run_id env) [] (ke_stamp env) (ks_events s) ty payload")
    case (Inl e)
    have "\<not> kenv_ok env"
    proof
      assume ok: "kenv_ok env"
      then have "text_between 1 64 (ke_stamp env n)" for n by (simp add: kenv_ok_def)
      from trace_add_ok [OF assms(3) [OF ok] assms(2) this] Inl show False by simp
    qed
    with Inl s assms(1) show ?thesis by (auto simp: k_add_def khalt_def stable_def)
  next
    case (Inr es)
    then obtain e where "es = ks_events s @ [e]" "te_sequence e = int (length (ks_events s)) + 1"
      by (auto simp: trace_add_def trace_event_def rbind_def checked_def split: sum.splits if_splits)
    with Inr s assms(1) show ?thesis by (auto simp: k_add_def stable_def)
  qed
qed

lemma kh_cancelled: "stable env P \<Longrightarrow> khoare P (k_cancelled env) (\<lambda>_. P) H"
  by (auto simp: khoare_def k_cancelled_def stable_def)

lemma kh_elapsed: "stable env P \<Longrightarrow> khoare P (k_elapsed env) (\<lambda>ms s. P s \<and> 0 \<le> ms) H"
  by (auto simp: khoare_def k_elapsed_def stable_def)

lemma kh_raise: "stable env P \<Longrightarrow> \<not> kenv_ok env \<Longrightarrow> khoare P (k_raise e) Q (khalt env)"
  by (auto simp: khoare_def k_raise_def khalt_def stable_def)

text \<open>Payloads of small numbers, flags and texts are serialisable.\<close>

lemma json_good_int: "0 \<le> n \<Longrightarrow> n \<le> 1000 \<Longrightarrow> json_good (PInt n)"
proof -
  assume n: "0 \<le> n" "n \<le> 1000"
  then have "ndigits (nat n) \<le> 4" by (simp add: ndigits_rec)
  with n show ?thesis by (simp add: json_good_def int_digits_ok_def)
qed

lemma json_good_flag [simp]: "json_good (PBool b)"
  by (simp add: json_good_def)

lemma json_good_texts [simp]: "json_good (PList (map PStr xs))"
  by (simp add: json_good_simps list_all_iff)

lemma json_good_step: "1 \<le> step \<Longrightarrow> step \<le> 64 \<Longrightarrow> json_good (snd (step_field step))"
  by (simp add: step_field_def json_good_int)

text \<open>A stop on any branch but the final answer.\<close>

lemma kh_stop_with:
  assumes P: "stable env P" and "code \<in> set STOP_CODES" and "1 \<le> step" "step \<le> kl_max_steps (ke_limits env)" "kl_max_steps (ke_limits env) \<le> 64"
    and "length detail \<le> 500"
    and fa: "case fa of None \<Rightarrow> code \<noteq> ''FINAL_ANSWER''
      | Some f \<Rightarrow> code = ''FINAL_ANSWER'' \<and> fa_refs f \<noteq> [] \<and> (\<forall>s. P s \<longrightarrow> set (fa_refs f) \<subseteq> known_digests (ks_observations s))"
  shows "khoare P (k_stop env code step detail fa) Q (khalt env)"
proof -
  have payload: "json_good (PDict [(''code'', PStr code), step_field step, (''detail'', PStr detail)])"
    using json_good_step [of step] assms(3-5) by (simp add: json_good_simps step_field_def)
  let ?stopped = "\<lambda>s. P s \<and> ks_events s \<noteq> [] \<and> te_type (last (ks_events s)) = ''run.stopped''"
  have add: "khoare P (k_add env ''run.stopped'' [(''code'', PStr code), step_field step, (''detail'', PStr detail)]) (\<lambda>_. ?stopped) (khalt env)"
  proof -
    have "''run.stopped'' \<in> set EVENT_TYPES" by (simp add: EVENT_TYPES_def)
    from kh_add [OF P this payload] show ?thesis
      by (auto simp: khoare_def k_add_def trace_add_def trace_event_def rbind_def checked_def split: sum.splits prod.splits if_splits)
  qed
  show ?thesis
    unfolding k_stop_def Let_def
  proof (rule kh_bind [OF kh_elapsed [OF P]], rule kh_pure)
    fix ms :: int assume ms: "0 \<le> ms"
    define reason where "reason = \<lparr>so_code = code, so_step = step, so_detail = detail, so_budget = snapshot_of step ms\<rparr>"
    have valid: "valid_stop reason"
      using assms ms by (simp add: reason_def valid_stop_def valid_snapshot_def snapshot_of_def no_usage_def valid_usage_def)
    have "khoare ?stopped (k_finish reason (map_option (\<lambda>f. f\<lparr>fa_stop := Some reason\<rparr>) fa)) Q (khalt env)"
      using P fa assms(3,4) ms
      by (auto simp: khoare_def k_finish_def checked_def valid_result_def run_result_def validate_final_answer_def khalt_def answered_def
          stable_def reason_def snapshot_of_def split: option.splits)
    then show "khoare P (if \<not> valid_stop \<lparr>so_code = code, so_step = step, so_detail = detail, so_budget = snapshot_of step ms\<rparr> then k_raise ValueError
        else k_bind (k_add env ''run.stopped'' [(''code'', PStr code), step_field step, (''detail'', PStr detail)])
          (\<lambda>_. k_finish \<lparr>so_code = code, so_step = step, so_detail = detail, so_budget = snapshot_of step ms\<rparr>
             (map_option (fa_stop_update (\<lambda>_. Some \<lparr>so_code = code, so_step = step, so_detail = detail, so_budget = snapshot_of step ms\<rparr>)) fa)))
        Q (khalt env)"
      using valid kh_bind [OF add] by (simp add: reason_def)
  qed
qed

lemma kh_get: "(\<And>v. khoare (\<lambda>s. P s \<and> g s = v) (m v) Q H) \<Longrightarrow> khoare P (\<lambda>s. m (g s) s) Q H"
  by (auto simp: khoare_def)

section \<open>One step keeps the invariant\<close>

text \<open>The step number is within the limits.\<close>

definition in_run :: "kenv \<Rightarrow> int \<Rightarrow> bool" where
  "in_run env step = (valid_limits (ke_limits env) \<and> 1 \<le> step \<and> step \<le> kl_max_steps (ke_limits env))"

lemma in_run_step: "in_run env step \<Longrightarrow> json_good (snd (step_field step))"
  by (rule json_good_step) (auto simp: in_run_def valid_limits_def)

lemma kh_stop:
  assumes "stable env P" and "in_run env step" and "code \<in> set STOP_CODES" and "code \<noteq> ''FINAL_ANSWER''" and "length detail \<le> 500"
  shows "khoare P (k_stop env code step detail None) Q (khalt env)"
  by (rule kh_stop_with) (use assms in \<open>auto simp: in_run_def valid_limits_def\<close>)

lemma kh_event:
  assumes "stable env P" and "in_run env step" and "ty \<in> set EVENT_TYPES" and "kenv_ok env \<Longrightarrow> json_good (PDict extra)" and "''step'' \<notin> fst ` set extra"
  shows "khoare P (k_add env ty (step_field step # extra)) (\<lambda>_. P) (khalt env)"
  using in_run_step [OF assms(2)] assms(4,5)
  by (intro kh_add [OF assms(1,3)]) (auto simp: json_good_simps step_field_def)

lemma kh_reject:
  assumes "stable env P" and "in_run env step" and "ty \<in> set EVENT_TYPES" and "kenv_ok env \<Longrightarrow> json_good (PDict extra)" and "''step'' \<notin> fst ` set extra"
    and "code \<in> set STOP_CODES" and "code \<noteq> ''FINAL_ANSWER''" and "length detail \<le> 500"
  shows "khoare P (k_bind (k_add env ty (step_field step # extra)) (\<lambda>_. k_stop env code step detail None)) Q (khalt env)"
  by (rule kh_bind [OF kh_event [OF assms(1-5)] kh_stop [OF assms(1,2,6-8)]])

lemmas code_defs = STOP_CODES_def EVENT_TYPES_def

lemma kh_if: "(b \<Longrightarrow> khoare P m Q H) \<Longrightarrow> (\<not> b \<Longrightarrow> khoare P m' Q H) \<Longrightarrow> khoare P (if b then m else m') Q H"
  by simp

lemma preflight_ok:
  assumes P: "stable env P" and "in_run env step"
  shows "khoare P (k_preflight env step) (\<lambda>_. P) (khalt env)"
  unfolding k_preflight_def
proof (rule kh_bind [OF kh_cancelled [OF P]], rule kh_if)
  show "khoare P (k_stop env ''CANCELLED'' step ''execution was cancelled'' None) (\<lambda>_. P) (khalt env)"
    by (rule kh_stop) (use assms in \<open>simp_all add: code_defs\<close>)
  have "khoare P (k_stop env ''WALL_TIME_BUDGET'' step ''wall-clock budget expired before model call'' None :: unit kstep) (\<lambda>_. P) (khalt env)"
    by (rule kh_stop) (use assms in \<open>simp_all add: code_defs\<close>)
  moreover have "khoare P (k_add env ''model.requested'' [step_field step, (''tool_count'', PInt (ke_tool_count env))]) (\<lambda>_. P) (khalt env)"
    by (rule kh_event) (use assms in \<open>simp_all add: code_defs kenv_ok_def json_good_def\<close>)
  ultimately show "khoare P (k_bind (k_elapsed env) (\<lambda>ms.
      if ms \<ge> kl_max_wall_time_ms (ke_limits env)
      then k_stop env ''WALL_TIME_BUDGET'' step ''wall-clock budget expired before model call'' None
      else k_add env ''model.requested'' [step_field step, (''tool_count'', PInt (ke_tool_count env))])) (\<lambda>_. P) (khalt env)"
    by (intro kh_bind [OF kh_elapsed [OF P]] kh_pure) simp
qed

definition decided :: "kenv \<Rightarrow> decision \<Rightarrow> bool" where
  "decided env d = (kenv_ok env \<longrightarrow> (case d of DecAction a \<Rightarrow> valid_action a | _ \<Rightarrow> True))"

lemma decide_ok:
  assumes P: "stable env P" and r: "in_run env step"
  shows "khoare P (k_decide env step) (\<lambda>d s. P s \<and> decided env d) (khalt env)"
proof -
  define after where "after raw = (case raw of
        ReplyRaise \<Rightarrow> k_stop env ''MODEL_ERROR'' step ''model adapter failed'' None
      | _ \<Rightarrow> (case decode env step raw of
          Inl e \<Rightarrow> k_bind (k_add env ''final.rejected'' [step_field step, (''reason'', PStr ''invalid model decision'')])
            (\<lambda>_. k_stop env ''MODEL_ERROR'' step ''model decision could not be validated'' None)
        | Inr d \<Rightarrow> k_bind (k_cancelled env) (\<lambda>c.
            if c then k_stop env ''CANCELLED'' step ''execution was cancelled after model response'' None else k_return d)))" for raw
  have fail: "khoare P (k_stop env ''MODEL_ERROR'' step ''model adapter failed'' None) Q (khalt env)"
    "khoare P (k_bind (k_add env ''final.rejected'' [step_field step, (''reason'', PStr ''invalid model decision'')])
       (\<lambda>_. k_stop env ''MODEL_ERROR'' step ''model decision could not be validated'' None)) Q (khalt env)" for Q :: "decision \<Rightarrow> kstate \<Rightarrow> bool"
    by (rule kh_stop kh_reject; use P r in \<open>simp add: code_defs json_good_simps\<close>)+
  have go: "khoare P (k_bind (k_cancelled env) (\<lambda>c.
      if c then k_stop env ''CANCELLED'' step ''execution was cancelled after model response'' None else k_return d))
      (\<lambda>d s. P s \<and> decided env d) (khalt env)" if "decided env d" for d
    by (intro kh_bind [OF kh_cancelled [OF P]] kh_if kh_stop kh_return) (use P r that in \<open>simp_all add: code_defs\<close>)
  have dec: "decided env d" if "decode env step (ke_model env ms step) = Inr d" for ms d
    using that by (auto simp: decided_def decode_def kenv_ok_def result_simps split: model_reply.splits pyval.splits if_splits)
  have "khoare P (after (ke_model env ms step)) (\<lambda>d s. P s \<and> decided env d) (khalt env)" for ms
    using fail go dec [of ms] unfolding after_def
    by (cases "ke_model env ms step"; cases "decode env step (ke_model env ms step)") simp_all
  moreover have "k_decide env step s = after (ke_model env (ks_messages s) step) s" for s
    by (simp add: k_decide_def after_def Let_def split: model_reply.splits sum.splits)
  ultimately show ?thesis by (auto simp: khoare_def)
qed

lemma final_ok:
  assumes P: "stable env P" and r: "in_run env step"
  shows "khoare P (k_final env step f) Q (khalt env)"
  unfolding k_final_def
proof (rule kh_get [where g = ks_observations], rule kh_bind, rule kh_event, rule stable_conj [OF P])
  fix obs x
  have obs: "stable env (\<lambda>s. P s \<and> ks_observations s = obs)" by (rule stable_conj [OF P]) simp_all
  show "khoare (\<lambda>s. P s \<and> ks_observations s = obs)
      (if fa_refs f = [] \<or> \<not> set (fa_refs f) \<subseteq> known_digests obs
       then k_bind (k_add env ''final.rejected'' [step_field step, (''reason'', PStr ''evidence ref is unknown'')])
         (\<lambda>_. k_stop env ''UNSUPPORTED_FINAL_ANSWER'' step ''final answer did not cite an observed digest'' None)
       else k_bind (k_add env ''final.validated'' [step_field step])
         (\<lambda>_. k_stop env ''FINAL_ANSWER'' step ''validated final answer'' (Some f))) Q (khalt env)"
  proof (rule kh_if)
    assume ok: "\<not> (fa_refs f = [] \<or> \<not> set (fa_refs f) \<subseteq> known_digests obs)"
    show "khoare (\<lambda>s. P s \<and> ks_observations s = obs) (k_bind (k_add env ''final.validated'' [step_field step])
         (\<lambda>_. k_stop env ''FINAL_ANSWER'' step ''validated final answer'' (Some f))) Q (khalt env)"
      by (rule kh_bind [OF kh_event kh_stop_with])
        (use obs r ok in \<open>auto simp: code_defs json_good_simps in_run_def valid_limits_def\<close>)
  qed (rule kh_reject; use obs r in \<open>simp add: code_defs json_good_simps\<close>)
qed (use r in \<open>simp_all add: code_defs json_good_simps list_all_iff\<close>)

text \<open>A proposed action is allowed, typed and fits the schema before it is used.\<close>

lemma valid_action_args: "valid_action a \<Longrightarrow> json_good (PDict (ac_args a))"
  by (simp add: valid_action_def json_good_def)

lemma rejected_args_ok:
  assumes "stable env P" and "in_run env step" and "length detail \<le> 500"
  shows "khoare P (rejected_args env step detail) Q (khalt env)"
  unfolding rejected_args_def by (rule kh_reject) (use assms in \<open>simp_all add: code_defs json_good_simps\<close>)

lemma typed_ok:
  assumes P: "stable env P" and r: "in_run env step"
    and a: "\<And>act. a = Inr act \<Longrightarrow> ac_tool_name act = tool \<and> (kenv_ok env \<longrightarrow> valid_action act)"
  shows "khoare P (k_typed env step tool a) (\<lambda>act s. P s \<and> ac_tool_name act \<in> set (ke_allowed env) \<and> (kenv_ok env \<longrightarrow> valid_action act)) (khalt env)"
  unfolding k_typed_def
proof (rule kh_if)
  assume t: "\<not> tool \<notin> set (ke_allowed env)"
  show "khoare P (case a of Inl e \<Rightarrow> rejected_args env step ''known tool action failed typed validation'' | Inr act \<Rightarrow> k_return act)
      (\<lambda>act s. P s \<and> ac_tool_name act \<in> set (ke_allowed env) \<and> (kenv_ok env \<longrightarrow> valid_action act)) (khalt env)"
    using a t by (cases a) (auto intro!: rejected_args_ok [OF P r] kh_return)
qed (rule kh_reject; use P r in \<open>simp add: code_defs json_good_simps\<close>)

lemma action_ok:
  assumes P: "stable env P" and r: "in_run env step"
    and a: "\<And>act. a = Inr act \<Longrightarrow> ac_tool_name act = tool \<and> (kenv_ok env \<longrightarrow> valid_action act)"
  shows "khoare P (k_action env step tool a) (\<lambda>act s. P s \<and> call_ok env act \<and> (kenv_ok env \<longrightarrow> valid_action act)) (khalt env)"
  unfolding k_action_def
proof (rule kh_bind [OF typed_ok [OF P r a]], assumption, rule kh_pure, rule kh_bind [OF kh_event [OF P r]])
  fix act
  assume act: "ac_tool_name act \<in> set (ke_allowed env) \<and> (kenv_ok env \<longrightarrow> valid_action act)"
  show "''action.proposed'' \<in> set EVENT_TYPES" by (simp add: code_defs)
  show "json_good (PDict [(''tool_name'', PStr (ac_tool_name act)), (''canonical_args'', PDict (ac_args act))])" if "kenv_ok env"
    using valid_action_args [of act] act that by (simp add: json_good_simps)
  show "khoare P (case validate_action_tool act of
       Inl e \<Rightarrow> rejected_args env step ''tool arguments failed the existing gateway schema''
     | Inr _ \<Rightarrow> k_bind (k_add env ''action.validated'' [step_field step, (''tool_name'', PStr (ac_tool_name act))]) (\<lambda>_. k_return act))
      (\<lambda>act s. P s \<and> call_ok env act \<and> (kenv_ok env \<longrightarrow> valid_action act)) (khalt env)" for x :: unit
  proof (cases "tool_call_valid (ac_tool_name act) (ac_args act)")
    case True
    have "khoare P (k_bind (k_add env ''action.validated'' [step_field step, (''tool_name'', PStr (ac_tool_name act))]) (\<lambda>_. k_return act))
        (\<lambda>act s. P s \<and> call_ok env act \<and> (kenv_ok env \<longrightarrow> valid_action act)) (khalt env)"
      by (rule kh_bind [OF kh_event kh_return]) (use P r act True in \<open>auto simp: code_defs json_good_simps call_ok_def\<close>)
    with True show ?thesis by (simp add: validate_action_tool_def)
  next
    case False
    then show ?thesis by (simp add: validate_action_tool_def rejected_args_ok [OF P r])
  qed
qed simp

text \<open>The guards.\<close>

definition fresh_call :: "AgentAction \<Rightarrow> kstate \<Rightarrow> bool" where
  "fresh_call act s = (\<exists>k \<in> set (ks_seen s). call_key act = Inr k \<and> (\<forall>a \<in> set (ks_calls s). call_key a \<noteq> Inr k))"

definition counted_call :: "AgentAction \<Rightarrow> kstate \<Rightarrow> bool" where
  "counted_call act s = (calls_of (ac_tool_name act) (ks_calls s) < frequency_count (ks_counts s) (ac_tool_name act))"

lemma call_key_ok: "valid_action a \<Longrightarrow> is_ok (call_key a)"
  using valid_action_args [of a]
  by (simp add: call_key_def agent_canonical_json_def json_dumps_ok json_good_def del: json_dumps.simps(7,8))

lemma guard_event_ok:
  assumes "stable env P" and "in_run env step" and "list_all (\<lambda>p. json_good (snd p)) extra" and "set (map fst extra) \<inter> {''step'', ''guard'', ''allowed''} = {}"
    and "distinct (map fst extra)"
  shows "khoare P (guard_event env step guard allowed extra) (\<lambda>_. P) (khalt env)"
  unfolding guard_event_def append_Cons append_Nil
  by (rule kh_event) (use assms in \<open>auto simp: code_defs json_good_simps image_iff\<close>)

lemma repeat_ok:
  assumes r: "in_run env step" and act: "kenv_ok env \<longrightarrow> valid_action act"
  shows "khoare (kinv env step) (k_repeat env step act) (\<lambda>_ s. kinv env step s \<and> fresh_call act s) (khalt env)"
proof -
  have inner: "khoare (\<lambda>s. kinv env step s \<and> (\<not> rep \<longrightarrow> fresh_call act s))
      (k_bind (guard_event env step ''repeated_call'' (\<not> rep) []) (\<lambda>_.
         if rep then k_stop env ''REPEATED_CALL'' step ''the same tool and canonical arguments were already used'' None else k_return ()))
      (\<lambda>_ s. kinv env step s \<and> fresh_call act s) (khalt env)" for rep
  proof -
    have st: "stable env (\<lambda>s. kinv env step s \<and> (\<not> rep \<longrightarrow> fresh_call act s))"
      by (rule stable_conj [OF stable_kinv]) (simp_all add: fresh_call_def)
    show ?thesis
      by (intro kh_bind [OF guard_event_ok [OF st r]] kh_if kh_stop [OF st r] kh_return) (simp_all add: code_defs)
  qed
  show ?thesis
    unfolding khoare_def
  proof (intro allI impI)
    fix s assume s: "kinv env step s"
    show "case k_repeat env step act s of (Go x, s') \<Rightarrow> kinv env step s' \<and> fresh_call act s' | (Halt h, s') \<Rightarrow> khalt env h s'"
    proof (cases "repeat_check (ks_seen s) act")
      case (Inl e)
      then have "\<not> is_ok (call_key act)" by (auto simp: repeat_check_def rbind_def is_ok_def split: sum.splits if_splits)
      with act call_key_ok have "\<not> kenv_ok env" by blast
      with Inl s show ?thesis by (simp add: k_repeat_def khalt_def kinv_def)
    next
      case (Inr q)
      then obtain rep seen k where q: "q = (rep, seen)" "call_key act = Inr k" "rep = (k \<in> set (ks_seen s))" "set seen = insert k (set (ks_seen s))"
        by (auto simp: repeat_check_def result_simps split: if_splits)
      have "kinv env step (s\<lparr>ks_seen := seen\<rparr>)"
        using s q(4) by (simp add: kinv_def kbase_def kguards_def)
      moreover have "fresh_call act (s\<lparr>ks_seen := seen\<rparr>)" if "\<not> rep"
        using s q that by (auto simp: kinv_def kguards_def fresh_call_def)
      ultimately show ?thesis
        using inner [of rep] Inr q(1) by (simp add: khoare_def k_repeat_def)
    qed
  qed
qed

lemma frequency_count_set: "frequency_count (dict_set counts t n) u = (if u = t then n else frequency_count counts u)"
  by (simp add: frequency_count_def map_of_dict_set)

lemma frequency_ok:
  assumes r: "in_run env step"
  shows "khoare (\<lambda>s. kinv env step s \<and> fresh_call act s) (k_frequency env step act)
    (\<lambda>_ s. (kinv env step s \<and> fresh_call act s) \<and> counted_call act s) (khalt env)"
proof -
  let ?t = "ac_tool_name act" and ?max = "kl_max_calls_per_tool (ke_limits env)"
  have lim: "1 \<le> ?max" "?max \<le> 3" using r by (auto simp: in_run_def valid_limits_def)
  let ?Q = "\<lambda>s. (kinv env step s \<and> fresh_call act s) \<and> counted_call act s"
  have inner: "khoare (\<lambda>s. kbase env s \<and> (\<not> ex \<longrightarrow> ?Q s))
      (k_bind (guard_event env step ''tool_frequency'' (\<not> ex) [(''count'', PInt n)]) (\<lambda>_.
         if ex then k_stop env ''TOOL_FREQUENCY'' step ''the same tool exceeded its per-run call frequency'' None else k_return ()))
      (\<lambda>_. ?Q) (khalt env)" if n: "0 \<le> n" "n \<le> 4" for ex n
  proof -
    have st: "stable env (\<lambda>s. kbase env s \<and> (\<not> ex \<longrightarrow> ?Q s))"
      using stable_kbase [of env] stable_kinv [of env step]
      by (auto simp: stable_def fresh_call_def counted_call_def)
    show ?thesis
      by (intro kh_bind [OF guard_event_ok [OF st r]] kh_if kh_stop [OF st r] kh_return) (use n in \<open>simp_all add: code_defs json_good_int\<close>)
  qed
  show ?thesis
    unfolding khoare_def
  proof (intro allI impI)
    fix s assume s: "kinv env step s \<and> fresh_call act s"
    define n where "n = frequency_count (ks_counts s) ?t + 1"
    have old: "calls_of u (ks_calls s) \<le> frequency_count (ks_counts s) u" "frequency_count (ks_counts s) u \<le> ?max" for u
      using s by (auto simp: kinv_def kguards_def)
    have n: "0 \<le> n" "n \<le> 4" using old [of ?t] lim by (auto simp: n_def calls_of_def)
    let ?s = "s\<lparr>ks_counts := dict_set (ks_counts s) ?t n\<rparr>"
    have base: "kbase env ?s" using s by (simp add: kinv_def kbase_def)
    have go: "?Q ?s" if "\<not> n > ?max"
      using s that old by (auto simp: kinv_def kbase_def kguards_def fresh_call_def counted_call_def frequency_count_set n_def)
        (meson order_trans zle_add1_eq_le order_less_imp_le)+
    have "k_frequency env step act s = k_bind (guard_event env step ''tool_frequency'' (\<not> n > ?max) [(''count'', PInt n)]) (\<lambda>_.
         if n > ?max then k_stop env ''TOOL_FREQUENCY'' step ''the same tool exceeded its per-run call frequency'' None else k_return ()) ?s"
      by (simp add: k_frequency_def frequency_check_def Let_def n_def frequency_count_set)
    then show "case k_frequency env step act s of (Go x, s') \<Rightarrow> ?Q s' | (Halt h, s') \<Rightarrow> khalt env h s'"
      using khoareD [OF inner [OF n, of "n > ?max"], of ?s] base go by simp
  qed
qed

text \<open>The call and its observation.\<close>

definition returned :: "kenv \<Rightarrow> AgentAction \<Rightarrow> tool_reply \<Rightarrow> kstate \<Rightarrow> bool" where
  "returned env act reply s = (\<exists>i < length (ks_calls s). ks_calls s ! i = act \<and> ke_tool env i act = reply)"

lemma observed_snoc: "observed env calls obs \<Longrightarrow> observed env (calls @ [a]) obs"
  by (auto simp: observed_def nth_append intro: less_SucI)

lemma execute_ok:
  assumes r: "in_run env step" and act: "call_ok env act"
  shows "khoare (\<lambda>s. (kinv env step s \<and> fresh_call act s) \<and> counted_call act s) (k_execute env act)
    (\<lambda>reply s. kinv env (step + 1) s \<and> returned env act reply s) H"
  unfolding khoare_def
proof (intro allI impI)
  fix s assume s: "(kinv env step s \<and> fresh_call act s) \<and> counted_call act s"
  let ?s = "s\<lparr>ks_calls := ks_calls s @ [act]\<rparr>"
  have calls: "calls_of t (ks_calls s @ [act]) = calls_of t (ks_calls s) + (if ac_tool_name act = t then 1 else 0)" for t
    by (simp add: calls_of_def)
  have key: "call_key act \<notin> call_key ` set (ks_calls s)" using s by (auto simp: fresh_call_def)
  have "calls_of t (ks_calls s @ [act]) \<le> frequency_count (ks_counts s) t" for t
    using s by (auto simp: calls kinv_def kguards_def counted_call_def)
  moreover have "frequency_count (ks_counts s) t \<le> kl_max_calls_per_tool (ke_limits env)" for t
    using s by (auto simp: kinv_def kguards_def)
  ultimately have freq: "\<forall>t. calls_of t (ks_calls s @ [act]) \<le> frequency_count (ks_counts s) t \<and>
      frequency_count (ks_counts s) t \<le> kl_max_calls_per_tool (ke_limits env)" by blast
  have "kguards env ?s" using s freq by (auto simp: kinv_def kguards_def fresh_call_def)
  moreover have "kbase env ?s"
    using s freq key act r by (auto simp: kinv_def kbase_def in_run_def observed_snoc intro: order_trans)
  moreover have "returned env act (ke_tool env (length (ks_calls s)) act) ?s"
    by (auto simp: returned_def intro!: exI [of _ "length (ks_calls s)"])
  ultimately show "case k_execute env act s of (Go x, s') \<Rightarrow> kinv env (step + 1) s' \<and> returned env act x s' | (Halt h, s') \<Rightarrow> H h s'"
    using s by (simp add: k_execute_def kinv_def)
qed

lemma observe_ok:
  "khoare (\<lambda>s. kinv env n s \<and> (ob_ok obs \<longrightarrow> observed env (ks_calls s) obs)) (k_observe obs) (\<lambda>_. kinv env n) H"
  by (auto simp: khoare_def k_observe_def kinv_def kbase_def kguards_def)

lemma progress_ok:
  assumes r: "in_run env step"
  shows "khoare (kinv env n) (k_progress env step obs) (\<lambda>_. kinv env n) (khalt env)"
proof -
  let ?th = "kl_no_progress_threshold (ke_limits env)"
  have lim: "1 \<le> ?th" "?th \<le> 2" using r by (auto simp: in_run_def valid_limits_def)
  have inner: "khoare (\<lambda>s. kbase env s \<and> (\<not> stuck \<longrightarrow> kinv env n s))
      (k_bind (guard_event env step ''no_progress'' (\<not> stuck) [(''stale_count'', PInt k)]) (\<lambda>_.
         if stuck then k_stop env ''NO_PROGRESS'' step ''observations produced no new digest'' None else k_return ()))
      (\<lambda>_. kinv env n) (khalt env)" if k: "0 \<le> k" "k \<le> 2" for stuck k
  proof -
    have st: "stable env (\<lambda>s. kbase env s \<and> (\<not> stuck \<longrightarrow> kinv env n s))"
      using stable_kbase [of env] stable_kinv [of env n] by (auto simp: stable_def)
    show ?thesis
      by (intro kh_bind [OF guard_event_ok [OF st r]] kh_if kh_stop [OF st r] kh_return) (use k in \<open>simp_all add: code_defs json_good_int\<close>)
  qed
  show ?thesis
    unfolding khoare_def
  proof (intro allI impI)
    fix s assume s: "kinv env n s"
    obtain stuck g where g: "progress_check ?th (ks_progress s) obs = (stuck, g)" by fastforce
    then have bounds: "0 \<le> pg_stale g" "pg_stale g \<le> 2" "stuck = (pg_stale g \<ge> ?th)"
      using s lim by (auto simp: progress_check_def Let_def kinv_def kguards_def split: if_splits)
    let ?s = "s\<lparr>ks_progress := g\<rparr>"
    have "kbase env ?s" "\<not> stuck \<longrightarrow> kinv env n ?s"
      using s bounds by (auto simp: kinv_def kbase_def kguards_def)
    then show "case k_progress env step obs s of (Go x, s') \<Rightarrow> kinv env n s' | (Halt h, s') \<Rightarrow> khalt env h s'"
      using khoareD [OF inner [OF bounds(1,2), of stuck], of ?s] by (simp add: k_progress_def g)
  qed
qed

lemma message_ok: "khoare (kinv env n) (k_message obs) (\<lambda>_. kinv env n) H"
  by (auto simp: khoare_def k_message_def kinv_def kbase_def kguards_def)

lemma failed_ok:
  assumes P: "stable env (kinv env n)" and r: "in_run env step" and act: "kenv_ok env \<longrightarrow> valid_action act \<and> length code \<le> 80"
  shows "khoare (kinv env n) (k_failed env step act code retryable) Q (khalt env)"
proof (cases "observation_from_summary (wf_py (ke_lib env)) step (ac_tool_name act) False ''tool execution failed'' (Some code) retryable")
  case (Inl e)
  have "\<not> kenv_ok env"
  proof
    assume ok: "kenv_ok env"
    with act have "ac_tool_name act \<in> set TOOL_NAMES" "length code \<le> 80" by (auto simp: valid_action_def)
    with Inl r kenv_okD(1) [OF ok] show False
      by (simp add: observation_from_summary_def Let_def valid_observation_def in_run_def valid_limits_def text_between_def opt_max_def split: if_splits)
  qed
  then show ?thesis by (simp add: k_failed_def Inl kh_raise [OF P])
next
  case (Inr obs)
  then have "\<not> ob_ok obs" by (auto simp: observation_from_summary_def Let_def split: if_splits)
  then have obs: "khoare (kinv env n) (k_observe obs) (\<lambda>_. kinv env n) (khalt env)" by (intro kh_pre [OF observe_ok]) simp
  show ?thesis
    unfolding k_failed_def Inr sum.case
    by (rule kh_bind [OF kh_event [OF P r] kh_bind [OF obs kh_stop [OF P r]]]) (auto simp: code_defs json_good_simps)
qed

lemma crashed_ok: "stable env P \<Longrightarrow> in_run env step \<Longrightarrow> khoare P (k_crashed env step act) Q (khalt env)"
  unfolding k_crashed_def by (rule kh_reject) (simp_all add: code_defs json_good_simps)

lemma observed_ok:
  assumes r: "in_run env step"
  shows "khoare (\<lambda>s. kinv env n s \<and> returned env act (ToolObserved obs) s) (k_observed env step act obs)
    (\<lambda>obs s. kinv env n s \<and> observed env (ks_calls s) obs) (khalt env)"
proof -
  have st: "stable env (\<lambda>s. kinv env n s \<and> returned env act (ToolObserved obs) s)"
    by (rule stable_conj [OF stable_kinv]) (simp_all add: returned_def)
  show ?thesis
    unfolding k_observed_def
    by (intro kh_bind [OF kh_cancelled [OF st]] kh_if kh_stop [OF st r] kh_reject [OF st r] kh_return)
      (auto simp: returned_def observed_def code_defs json_good_simps)
qed

lemma tool_ok:
  assumes r: "in_run env step" and act: "call_ok env act" and valid: "kenv_ok env \<longrightarrow> valid_action act"
  shows "khoare (\<lambda>s. (kinv env step s \<and> fresh_call act s) \<and> counted_call act s) (k_tool env step act)
    (\<lambda>obs s. kinv env (step + 1) s \<and> observed env (ks_calls s) obs) (khalt env)"
proof -
  have st: "stable env (\<lambda>s. (kinv env step s \<and> fresh_call act s) \<and> counted_call act s)"
    by (intro stable_conj stable_kinv) (simp_all add: fresh_call_def counted_call_def)
  have replies: "khoare (\<lambda>s. kinv env (step + 1) s \<and> returned env act reply s) (case reply of
       ToolFailed code retryable \<Rightarrow> k_failed env step act code retryable
     | ToolCrash \<Rightarrow> k_crashed env step act
     | ToolObserved obs \<Rightarrow> k_observed env step act obs) (\<lambda>obs s. kinv env (step + 1) s \<and> observed env (ks_calls s) obs) (khalt env)" for reply
  proof (cases reply)
    case (ToolFailed code retryable)
    have "khoare (\<lambda>s. kinv env (step + 1) s \<and> (kenv_ok env \<longrightarrow> valid_action act \<and> length code \<le> 80))
        (k_failed env step act code retryable) (\<lambda>obs s. kinv env (step + 1) s \<and> observed env (ks_calls s) obs) (khalt env)"
      by (intro kh_pure failed_ok [OF stable_kinv r])
    then show ?thesis
      unfolding ToolFailed tool_reply.case by (rule kh_pre) (use valid kenv_okD(2) in \<open>auto simp: returned_def\<close>)
  next
    case ToolCrash
    show ?thesis unfolding ToolCrash tool_reply.case by (rule kh_pre [OF crashed_ok [OF stable_kinv [of env "step + 1"] r]]) simp
  qed (simp add: observed_ok [OF r])
  show ?thesis
    unfolding k_tool_def
    by (rule kh_bind [OF kh_event [OF st r] kh_bind [OF execute_ok [OF r act] replies]])
      (use valid valid_action_args [of act] in \<open>auto simp: code_defs json_good_simps\<close>)
qed

lemma act_ok:
  assumes r: "in_run env step" and act: "call_ok env act \<and> (kenv_ok env \<longrightarrow> valid_action act)"
  shows "khoare (kinv env step) (k_act env step act) (\<lambda>_. kinv env (step + 1)) (khalt env)"
proof -
  have obs: "khoare (\<lambda>s. kinv env (step + 1) s \<and> observed env (ks_calls s) obs) (k_observe obs) (\<lambda>_. kinv env (step + 1)) (khalt env)" for obs
    by (rule kh_pre [OF observe_ok]) simp
  have ev: "khoare (kinv env (step + 1)) (k_add env ''tool.observed'' [step_field step, (''tool_name'', PStr (ac_tool_name act)), (''ok'', PBool (ob_ok obs)),
         (''digest'', PStr (ob_digest obs)), (''summary'', PStr (ob_summary obs))]) (\<lambda>_. kinv env (step + 1)) (khalt env)" for obs
    by (rule kh_event [OF stable_kinv r]) (simp_all add: code_defs json_good_simps)
  show ?thesis
    unfolding k_act_def using act
    by (intro kh_bind [OF repeat_ok [OF r]] kh_bind [OF frequency_ok [OF r]] kh_bind [OF tool_ok [OF r]] kh_bind [OF obs] kh_bind [OF ev]
        kh_bind [OF progress_ok [OF r]] message_ok) simp_all
qed

lemma step_ok:
  assumes r: "in_run env step"
  shows "khoare (kinv env step) (react_step env step) (\<lambda>_. kinv env (step + 1)) (khalt env)"
  unfolding react_step_def
proof (rule kh_bind [OF preflight_ok [OF stable_kinv r]], rule kh_bind [OF decide_ok [OF stable_kinv r]], rule kh_pure)
  fix d assume d: "decided env d"
  have go: "khoare (kinv env step) (k_bind (k_action env step tool a) (k_act env step)) (\<lambda>_. kinv env (step + 1)) (khalt env)"
    if "\<And>act. a = Inr act \<Longrightarrow> ac_tool_name act = tool \<and> (kenv_ok env \<longrightarrow> valid_action act)" for tool a
    by (rule kh_bind [OF action_ok [OF stable_kinv r that] kh_pure [OF act_ok [OF r]]])
  show "khoare (kinv env step) (case d of
       DecFinal f \<Rightarrow> k_final env step f
     | DecAction a \<Rightarrow> k_bind (k_action env step (ac_tool_name a) (Inr a)) (k_act env step)
     | DecRaw q \<Rightarrow> k_bind (k_action env step (ra_tool_name q) (checked valid_action (action_of q))) (k_act env step))
     (\<lambda>_. kinv env (step + 1)) (khalt env)"
    using d by (cases d) (auto intro!: final_ok [OF stable_kinv r] go simp: decided_def checked_ok action_of_def)
qed

section \<open>The whole run\<close>

lemma loop_ok:
  assumes "valid_limits (ke_limits env)" and "1 \<le> step" and "step + int n = kl_max_steps (ke_limits env) + 1"
  shows "khoare (kinv env step) (react_loop env step n) (\<lambda>_ _. False) (khalt env)"
  using assms(2,3)
proof (induction n arbitrary: step)
  case 0
  have r: "in_run env (kl_max_steps (ke_limits env))" using assms(1) by (simp add: in_run_def valid_limits_def)
  show ?case unfolding react_loop.simps by (rule kh_stop [OF stable_kinv r]) (simp_all add: code_defs)
next
  case (Suc n)
  then have r: "in_run env step" using assms(1) by (simp add: in_run_def)
  have "khoare (kinv env (step + 1)) (react_loop env (step + 1) n) (\<lambda>_ _. False) (khalt env)"
    using Suc by (intro Suc.IH) simp_all
  then show ?case unfolding react_loop.simps by (rule kh_bind [OF step_ok [OF r]])
qed

lemma initial_ok: "valid_limits (ke_limits env) \<Longrightarrow> kinv env 1 (initial_kstate env)"
  by (simp add: kinv_def kbase_def kguards_def initial_kstate_def numbered_def calls_of_def frequency_count_def valid_limits_def)

lemma run_ok:
  assumes "valid_limits (ke_limits env)"
  shows "\<exists>r. fst (run_bounded_react env) = Halt r \<and> khalt env r (snd (run_bounded_react env))"
proof -
  have started: "khoare (kinv env 1) (k_add env ''run.started'' [(''execution_mode'', PStr ''AGENT''), (''max_steps'', PInt (kl_max_steps (ke_limits env)))])
      (\<lambda>_. kinv env 1) (khalt env)"
    by (rule kh_add [OF stable_kinv]) (use assms in \<open>simp_all add: code_defs json_good_simps json_good_int valid_limits_def\<close>)
  have "khoare (kinv env 1) (k_bind (k_add env ''run.started'' [(''execution_mode'', PStr ''AGENT''), (''max_steps'', PInt (kl_max_steps (ke_limits env)))]) (\<lambda>_.
       if ke_goal env = [] then k_raise ValueError
       else react_loop env 1 (nat (kl_max_steps (ke_limits env))))) (\<lambda>_ _. False) (khalt env)"
    by (intro kh_bind [OF started] kh_if kh_raise [OF stable_kinv] loop_ok)
      (use assms in \<open>simp_all add: kenv_ok_def valid_limits_def\<close>)
  from khoareD [OF this initial_ok [OF assms]] show ?thesis
    by (auto simp: run_bounded_react_def split: prod.splits kout.splits)
qed

section \<open>A sample run\<close>

text \<open>The model looks up an item and then cites what it saw.\<close>

definition sample_digest :: string where
  "sample_digest = replicate 64 (CHR ''0'')"

definition sample_seen :: Observation where
  "sample_seen = \<lparr>ob_step = 1, ob_tool_name = ''item.lookup'', ob_ok = True, ob_summary = ''one item'', ob_digest = sample_digest,
     ob_error_code = None, ob_retryable = False\<rparr>"

definition sample_call :: AgentAction where
  "sample_call = \<lparr>ac_step = 1, ac_tool_name = ''item.lookup'', ac_args = [], ac_correlation_id = ''0f8fad5b-d9cb-469f-a165-70867728950e''\<rparr>"

definition sample_answer :: FinalAnswer where
  "sample_answer = \<lparr>fa_status = ''SUCCEEDED'', fa_summary = ''found'', fa_refs = [sample_digest], fa_unknowns = [], fa_stop = None\<rparr>"

definition sample_kenv :: kenv where
  "sample_kenv =
     \<lparr>ke_lib = \<lparr>wf_py = \<lparr>sha256_hex = (\<lambda>_. sample_digest), utc_timestamp = (\<lambda>_. TsValueError), json_tokens = (\<lambda>_. None)\<rparr>,
        iso_parse = (\<lambda>_. None), iso_format = (\<lambda>_. ''now''), uuid_text = Some, uuid_url = (\<lambda>_. [])\<rparr>,
      ke_run_id = ''0f8fad5b-d9cb-469f-a165-70867728950e'', ke_correlation_id = ''0f8fad5b-d9cb-469f-a165-70867728950e'',
      ke_goal = ''find it'', ke_allowed = [''item.lookup''], ke_tool_count = 1,
      ke_limits = \<lparr>kl_max_steps = 2, kl_max_wall_time_ms = 1000, kl_max_calls_per_tool = 3, kl_no_progress_threshold = 2\<rparr>,
      ke_model = (\<lambda>ms n. if n = 1 then ReplyAction sample_call else ReplyFinal sample_answer),
      ke_tool = (\<lambda>_ _. ToolObserved sample_seen), ke_cancelled = (\<lambda>_. False), ke_elapsed = (\<lambda>_. 0), ke_stamp = (\<lambda>_. ''now'')\<rparr>"

lemma sample_kenv_ok: "valid_limits (ke_limits sample_kenv)" "kenv_ok sample_kenv"
proof -
  show "valid_limits (ke_limits sample_kenv)" by (simp add: sample_kenv_def valid_limits_def)
  have "uuid_shape ''0f8fad5b-d9cb-469f-a165-70867728950e''" using py_UUID_shape sample_uuid by (simp add: gov_uuid_ok)
  then have "valid_action sample_call" by (simp add: valid_action_def sample_call_def TOOL_NAMES_def)
  then show "kenv_ok sample_kenv"
    by (simp add: kenv_ok_def sample_kenv_def text_between_def int_digits_ok_def ndigits_def nat_str.simps sample_digest_def
        sha_DIGEST_def is_lower_hex_def list_all_iff)
qed

lemma sample_add:
  "ty \<in> set EVENT_TYPES \<Longrightarrow> json_good (PDict p) \<Longrightarrow> k_add sample_kenv ty p s =
     (Go (), s\<lparr>ks_events := ks_events s @ [trace_event (ke_run_id sample_kenv) [] (ke_stamp sample_kenv) (length (ks_events s)) ty p]\<rparr>)"
  using kenv_okD [OF sample_kenv_ok(2)] by (simp add: k_add_def trace_add_ok text_between_def sample_kenv_def)

lemma sample_fields:
  "ke_goal sample_kenv = ''find it''" "ke_allowed sample_kenv = [''item.lookup'']" "ke_correlation_id sample_kenv = ac_correlation_id sample_call"
  "ke_limits sample_kenv = \<lparr>kl_max_steps = 2, kl_max_wall_time_ms = 1000, kl_max_calls_per_tool = 3, kl_no_progress_threshold = 2\<rparr>"
  "ke_model sample_kenv ms n = (if n = 1 then ReplyAction sample_call else ReplyFinal sample_answer)"
  "ke_tool sample_kenv i a = ToolObserved sample_seen" "\<not> ke_cancelled sample_kenv i" "ke_elapsed sample_kenv i = 0" "ke_tool_count sample_kenv = 1"
  by (simp_all add: sample_kenv_def sample_call_def)

lemmas kernel_defs = k_bind_def k_return_def react_step_def k_preflight_def k_cancelled_def k_elapsed_def k_decide_def decode_def
  k_action_def k_typed_def validate_action_tool_def k_act_def k_repeat_def repeat_check_def guard_event_def k_frequency_def frequency_check_def
  frequency_count_def k_tool_def k_execute_def k_observed_def k_observe_def k_progress_def progress_check_def k_message_def k_final_def known_digests_def
  k_stop_def k_finish_def snapshot_of_def run_result_def step_field_def

lemma sample_run:
  "\<exists>r. fst (run_bounded_react sample_kenv) = Halt (Inr r) \<and> rr_final r \<noteq> None \<and> ks_calls (snd (run_bounded_react sample_kenv)) = [sample_call]"
proof -
  obtain k where k: "call_key sample_call = Inr k"
    using call_key_ok [of sample_call] sample_kenv_ok(2) by (auto simp: kenv_ok_def sample_kenv_def is_ok_def split: sum.splits)
  have call: "tool_call_valid ''item.lookup'' []" "ac_tool_name sample_call = ''item.lookup''" "ac_args sample_call = []"
    by (simp_all add: tool_call_valid_def ItemLookupInput_def input_keys_def PageInput_def int_input_def optional_input_def dkeys_def sample_call_def)
  have seen: "ob_tool_name sample_seen = ''item.lookup''" "ob_step sample_seen = 1" "ob_ok sample_seen" "ob_digest sample_seen = sample_digest"
    "fa_refs sample_answer = [sample_digest]" "fa_unknowns sample_answer = []"
    by (simp_all add: sample_seen_def sample_answer_def)
  have two: "react_loop env step 2 = k_bind (react_step env step) (\<lambda>_. k_bind (react_step env (step + 1)) (\<lambda>_. react_loop env (step + 1 + 1) 0))" for env step
    by (simp add: numeral_2_eq_2)
  show ?thesis
    using k call seen
    by (simp add: run_bounded_react_def initial_kstate_def kernel_defs sample_add sample_fields code_defs json_good_simps json_good_int two
        checked_def valid_stop_def valid_snapshot_def valid_usage_def no_usage_def valid_result_def validate_final_answer_def Let_def del: One_nat_def)
qed

section \<open>Properties\<close>

text \<open>
  C10: the model cannot make the kernel call anything else, anything twice, or anything too often.  Whatever the
  model answers and the tools return, every call made uses an allowed tool with arguments that fit the Gateway schema; no two calls have the
  same tool and canonical arguments; no tool is called more than \<open>max_calls_per_tool\<close> times; and there are at most \<open>max_steps\<close> calls.
\<close>

theorem kernel_calls_confined:
  assumes "valid_limits (ke_limits env)"
  shows "let calls = ks_calls (snd (run_bounded_react env)) in
    (\<forall>a \<in> set calls. ac_tool_name a \<in> set (ke_allowed env) \<and> tool_call_valid (ac_tool_name a) (ac_args a)) \<and>
    distinct (map call_key calls) \<and>
    (\<forall>t. int (length (filter (\<lambda>a. ac_tool_name a = t) calls)) \<le> kl_max_calls_per_tool (ke_limits env)) \<and>
    int (length calls) \<le> kl_max_steps (ke_limits env)"
proof -
  from run_ok [OF assms] have "kbase env (snd (run_bounded_react env))" by (auto simp: khalt_def)
  then show ?thesis by (auto simp: kbase_def calls_of_def call_ok_def list_all_iff Let_def)
qed

theorem kernel_calls_confined_witness:
  "ks_calls (snd (run_bounded_react sample_kenv)) = [sample_call] \<and> tool_call_valid (ac_tool_name sample_call) (ac_args sample_call)"
  using kernel_calls_confined [OF sample_kenv_ok(1)] sample_run by (auto simp: Let_def)

text \<open>
  C14: a final answer rests on evidence.  If the run ends with a final answer, its stop code says so, it cites at least
  one digest, and every digest it cites is that of a successful observation which the tool adapter returned in this run for a
  call the kernel made.  A run that stops for any other reason carries no final answer.
\<close>

theorem kernel_answer_has_evidence:
  assumes "valid_limits (ke_limits env)" and "fst (run_bounded_react env) = Halt (Inr r)"
  shows "(rr_final r = None \<longleftrightarrow> so_code (rr_stop r) \<noteq> ''FINAL_ANSWER'') \<and>
    (\<forall>f. rr_final r = Some f \<longrightarrow> fa_refs f \<noteq> [] \<and>
      (\<forall>d \<in> set (fa_refs f). \<exists>i obs. i < length (ks_calls (snd (run_bounded_react env))) \<and>
         ke_tool env i (ks_calls (snd (run_bounded_react env)) ! i) = ToolObserved obs \<and> ob_ok obs \<and> ob_digest obs = d))"
proof -
  let ?s = "snd (run_bounded_react env)"
  from run_ok [OF assms(1)] assms(2) have k: "kbase env ?s" "answered env r ?s" by (auto simp: khalt_def)
  have "\<exists>i obs. i < length (ks_calls ?s) \<and> ke_tool env i (ks_calls ?s ! i) = ToolObserved obs \<and> ob_ok obs \<and> ob_digest obs = d"
    if "d \<in> known_digests (ks_observations ?s)" for d
  proof -
    from that obtain obs where obs: "obs \<in> set (ks_observations ?s)" "ob_ok obs" "ob_digest obs = d" by (auto simp: known_digests_def)
    with k(1) have "observed env (ks_calls ?s) obs" by (simp add: kbase_def)
    with obs(2,3) show ?thesis by (auto simp: observed_def)
  qed
  with k(2) show ?thesis by (auto simp: answered_def split: option.splits)
qed

theorem kernel_answer_has_evidence_witness:
  "\<exists>r f. fst (run_bounded_react sample_kenv) = Halt (Inr r) \<and> rr_final r = Some f \<and> fa_refs f \<noteq> []"
proof -
  from sample_run obtain r f where "fst (run_bounded_react sample_kenv) = Halt (Inr r)" "rr_final r = Some f" by blast
  with kernel_answer_has_evidence [OF sample_kenv_ok(1)] show ?thesis by blast
qed



end
