(* ===== verification/Gateway_Site.thy ===== *)
theory Gateway_Site
  imports Checkpoint Lifecycle
begin

text \<open>
  The documents of the Frappe site that the tool gateway keeps: Agent Runs, Gateway audit rows and the ledger of workflow tool
  invocations, each with the controller that guards its changes
  (\<open>doctype/synora_agent_run\<close>, \<open>doctype/synora_gateway_audit\<close>, \<open>doctype/synora_workflow_tool_invocation\<close>).  A table is a
  list of rows by name.  A request works on the site in a monad of state and exception; a change stays in
  the open transaction when an exception is raised later.

  Frappe itself is a parameter, \<open>genv\<close>: the session's user and headers, the clock, fresh identifiers, and the answers of its
  permission queries.  A datetime is an integer of microseconds.
\<close>

section \<open>Documents\<close>

record p2p_goal =
  pg_schema_version :: string
  pg_json :: "string option"
  pg_version :: int
  pg_digest :: "string option"
  pg_state :: string
  pg_confirmed_by :: "string option"
  pg_confirmed_at :: "int option"

record agent_run =
  ar_name :: string
  ar_initiator :: string
  ar_goal :: string
  ar_purpose :: string
  ar_execution_mode :: string
  ar_time_window_days :: int
  ar_company_scope :: string
  ar_warehouse_scope :: "string option"
  ar_p2p_goal :: p2p_goal
  ar_capability_digest :: string
  ar_capability_audience :: string
  ar_issued_at :: int
  ar_expires_at :: int
  ar_workflow_expires_at :: "int option"
  ar_revoked :: bool
  ar_status :: string
  ar_run_state :: string
  ar_state_version :: int
  ar_correlation_id :: string
  ar_revoked_at :: "int option"
  ar_revoked_by :: "string option"
  ar_revocation_correlation_id :: "string option"

record run_flags =
  fl_revocation :: bool
  fl_state_change :: bool
  fl_capability_rotation :: bool
  fl_p2p_goal_update :: bool

definition no_flags :: run_flags where
  "no_flags = \<lparr>fl_revocation = False, fl_state_change = False, fl_capability_rotation = False, fl_p2p_goal_update = False\<rparr>"

record tool_invocation =
  ti_invocation_id :: string
  ti_run :: string
  ti_initiator :: string
  ti_plan_version :: int
  ti_step_id :: string
  ti_tool_name :: string
  ti_tool_version :: string
  ti_args_digest :: string
  ti_status :: string
  ti_started_at :: int
  ti_correlation_id :: string
  ti_response_json :: "string option"
  ti_observation_digest :: "string option"
  ti_completed_at :: "int option"

record gateway_audit =
  ga_run :: string
  ga_initiator :: string
  ga_company_scope :: string
  ga_warehouse_scope :: "string option"
  ga_tool_name :: string
  ga_tool_version :: string
  ga_correlation_id :: string
  ga_outcome :: string
  ga_error_code :: "string option"
  ga_occurred_at :: int

record site_db =
  db_runs :: "(string \<times> agent_run) list"
  db_invocations :: "(string \<times> tool_invocation) list"
  db_audits :: "gateway_audit list"

section \<open>Document controllers\<close>

definition frappe_throw :: pyexc where
  "frappe_throw = OtherError ''ValidationError''"

text \<open>\<open>SynoraAgentRun.validate\<close> on a document that replaces \<open>old\<close>; a new document passes.\<close>

definition run_identity_changed :: "agent_run \<Rightarrow> agent_run \<Rightarrow> bool" where
  "run_identity_changed old new \<longleftrightarrow>
     ar_initiator new \<noteq> ar_initiator old \<or> ar_company_scope new \<noteq> ar_company_scope old \<or>
     ar_warehouse_scope new \<noteq> ar_warehouse_scope old \<or> ar_goal new \<noteq> ar_goal old \<or>
     ar_execution_mode new \<noteq> ar_execution_mode old \<or> ar_time_window_days new \<noteq> ar_time_window_days old \<or>
     ar_capability_audience new \<noteq> ar_capability_audience old \<or>
     ar_workflow_expires_at new \<noteq> ar_workflow_expires_at old \<or> ar_correlation_id new \<noteq> ar_correlation_id old"

definition run_capability_changed :: "agent_run \<Rightarrow> agent_run \<Rightarrow> bool" where
  "run_capability_changed old new \<longleftrightarrow>
     ar_capability_digest new \<noteq> ar_capability_digest old \<or> ar_issued_at new \<noteq> ar_issued_at old \<or>
     ar_expires_at new \<noteq> ar_expires_at old"

definition run_lifecycle_changed :: "agent_run \<Rightarrow> agent_run \<Rightarrow> bool" where
  "run_lifecycle_changed old new \<longleftrightarrow>
     ar_revoked new \<noteq> ar_revoked old \<or> ar_status new \<noteq> ar_status old \<or> ar_run_state new \<noteq> ar_run_state old \<or>
     ar_state_version new \<noteq> ar_state_version old \<or> ar_revoked_at new \<noteq> ar_revoked_at old \<or>
     ar_revoked_by new \<noteq> ar_revoked_by old \<or>
     ar_revocation_correlation_id new \<noteq> ar_revocation_correlation_id old"

definition validate_agent_run :: "run_flags \<Rightarrow> agent_run \<Rightarrow> agent_run \<Rightarrow> unit result" where
  "validate_agent_run fl old new =
     (if run_identity_changed old new \<or> (run_capability_changed old new \<and> \<not> fl_capability_rotation fl)
      then Inl frappe_throw
      else if ar_p2p_goal new \<noteq> ar_p2p_goal old \<and> \<not> fl_p2p_goal_update fl then Inl frappe_throw
      else if run_lifecycle_changed old new \<and>
              \<not> (fl_revocation fl \<or> fl_state_change fl \<or> fl_capability_rotation fl)
      then Inl frappe_throw
      else Inr ())"

text \<open>\<open>SynoraWorkflowToolInvocation.validate\<close>; \<open>completion\<close> is the flag \<open>synora_invocation_completion\<close>.\<close>

definition validate_invocation :: "bool \<Rightarrow> tool_invocation \<Rightarrow> tool_invocation \<Rightarrow> unit result" where
  "validate_invocation completion old new =
     (if \<not> completion then Inl frappe_throw
      else if ti_invocation_id new \<noteq> ti_invocation_id old \<or> ti_run new \<noteq> ti_run old \<or>
              ti_initiator new \<noteq> ti_initiator old \<or> ti_plan_version new \<noteq> ti_plan_version old \<or>
              ti_step_id new \<noteq> ti_step_id old \<or> ti_tool_name new \<noteq> ti_tool_name old \<or>
              ti_tool_version new \<noteq> ti_tool_version old \<or> ti_args_digest new \<noteq> ti_args_digest old \<or>
              ti_started_at new \<noteq> ti_started_at old \<or> ti_correlation_id new \<noteq> ti_correlation_id old
      then Inl frappe_throw
      else if ti_status new \<noteq> ''SUCCEEDED'' then Inl frappe_throw
      else Inr ())"

section \<open>The request's environment and the site\<close>

text \<open>
  \<open>ge_clock\<close> and \<open>ge_audit_up\<close> are indexed by the number of readings so far.  \<open>ge_get_list doctype filters user\<close> is
  \<open>frappe.get_list(doctype, pluck="name", filters=filters, user=user)\<close>; \<open>ge_str_time\<close> is \<open>str\<close> of a datetime;
  \<open>ge_elapsed_ns\<close> the time a dispatch takes, in nanoseconds.
\<close>

record genv =
  ge_lib :: wflib
  ge_user :: string
  ge_headers :: "(string \<times> string) list"
  ge_clock :: "nat \<Rightarrow> int"
  ge_audit_up :: "nat \<Rightarrow> bool"
  ge_uuid4 :: string
  ge_token :: string
  ge_roles :: "string \<Rightarrow> string list"
  ge_get_list :: "string \<Rightarrow> (string \<times> pyval) list \<Rightarrow> string \<Rightarrow> string list"
  ge_user_enabled :: "string \<Rightarrow> bool"
  ge_can_read :: "string \<Rightarrow> string \<Rightarrow> bool"
  ge_str_time :: "int \<Rightarrow> string"
  ge_elapsed_ns :: int
  ge_request_ip :: string
  ge_cache_up :: bool

record security_event =
  ev_title :: string
  ev_message :: string

record RunContext =
  rc_run_id :: string
  rc_initiator :: string
  rc_company :: string
  rc_warehouse :: "string option"
  rc_state_version :: int

text \<open>A call of a tool handler: the run it was made for, the ledger entry it belongs to, the tool and the validated input.\<close>

record handler_call =
  hc_run :: RunContext
  hc_invocation :: "string option"
  hc_tool :: "string \<times> string"
  hc_input :: "(string \<times> pyval) list"

record site =
  si_db :: site_db
  si_ticks :: nat
  si_calls :: "handler_call list"
  si_events :: "security_event list"
  si_event_cache :: "(int \<times> int) list"

text \<open>Steps of a state with exceptions; \<open>gact\<close> are those of the site.\<close>

type_synonym ('s, 'a) sact = "'s \<Rightarrow> 'a result \<times> 's"
type_synonym 'a gact = "(site, 'a) sact"

definition g_return :: "'a \<Rightarrow> ('s, 'a) sact" where
  "g_return x s = (Inr x, s)"

definition g_raise :: "pyexc \<Rightarrow> ('s, 'a) sact" where
  "g_raise e s = (Inl e, s)"

definition g_bind :: "('s, 'a) sact \<Rightarrow> ('a \<Rightarrow> ('s, 'b) sact) \<Rightarrow> ('s, 'b) sact" where
  "g_bind m f s = (case m s of (Inl e, s') \<Rightarrow> (Inl e, s') | (Inr x, s') \<Rightarrow> f x s')"

text \<open>\<open>try: x = m\<close>, with \<open>h\<close> the handler of what \<open>m\<close> raises and \<open>f\<close> the code after it.\<close>

definition g_try :: "('s, 'a) sact \<Rightarrow> ('a \<Rightarrow> ('s, 'b) sact) \<Rightarrow> (pyexc \<Rightarrow> ('s, 'b) sact) \<Rightarrow> ('s, 'b) sact" where
  "g_try m f h s = (case m s of (Inl e, s') \<Rightarrow> h e s' | (Inr x, s') \<Rightarrow> f x s')"

definition g_lift :: "'a result \<Rightarrow> ('s, 'a) sact" where
  "g_lift r s = (r, s)"

text \<open>\<open>if b: raise e\<close>.\<close>

definition g_reject :: "bool \<Rightarrow> pyexc \<Rightarrow> ('s, unit) sact" where
  "g_reject b e = (if b then g_raise e else g_return ())"

definition now_datetime :: "genv \<Rightarrow> int gact" where
  "now_datetime env s = (Inr (ge_clock env (si_ticks s)), s\<lparr>si_ticks := Suc (si_ticks s)\<rparr>)"

section \<open>Table operations\<close>

text \<open>\<open>frappe.db.exists\<close> with \<open>frappe.get_doc\<close>, \<open>doc.insert\<close> on a table keyed by name, and \<open>doc.save\<close> after the
  controller has agreed.\<close>

definition find_run :: "string \<Rightarrow> agent_run option gact" where
  "find_run name s = (Inr (map_of (db_runs (si_db s)) name), s)"

definition insert_run :: "agent_run \<Rightarrow> unit gact" where
  "insert_run run s =
     (if ar_name run \<in> set (map fst (db_runs (si_db s))) then (Inl (OtherError ''DuplicateEntryError''), s)
      else (Inr (), s\<lparr>si_db := (si_db s)\<lparr>db_runs := db_runs (si_db s) @ [(ar_name run, run)]\<rparr>\<rparr>))"

definition save_run :: "run_flags \<Rightarrow> agent_run \<Rightarrow> agent_run \<Rightarrow> unit gact" where
  "save_run fl old new s =
     (case validate_agent_run fl old new of
        Inl e \<Rightarrow> (Inl e, s)
      | Inr _ \<Rightarrow> (Inr (), s\<lparr>si_db := (si_db s)\<lparr>db_runs := dict_set (db_runs (si_db s)) (ar_name old) new\<rparr>\<rparr>))"

definition find_invocation :: "string \<Rightarrow> tool_invocation option gact" where
  "find_invocation name s = (Inr (map_of (db_invocations (si_db s)) name), s)"

definition insert_invocation :: "tool_invocation \<Rightarrow> unit gact" where
  "insert_invocation doc s =
     (if ti_invocation_id doc \<in> set (map fst (db_invocations (si_db s))) then (Inl (OtherError ''DuplicateEntryError''), s)
      else (Inr (), s\<lparr>si_db := (si_db s)\<lparr>db_invocations := db_invocations (si_db s) @ [(ti_invocation_id doc, doc)]\<rparr>\<rparr>))"

text \<open>A ledger row is saved under the name it was loaded by.\<close>

definition save_invocation :: "bool \<Rightarrow> string \<Rightarrow> tool_invocation \<Rightarrow> tool_invocation \<Rightarrow> unit gact" where
  "save_invocation completion name old new s =
     (case validate_invocation completion old new of
        Inl e \<Rightarrow> (Inl e, s)
      | Inr _ \<Rightarrow> (Inr (), s\<lparr>si_db := (si_db s)\<lparr>db_invocations := dict_set (db_invocations (si_db s)) name new\<rparr>\<rparr>))"

end
