(* ===== verification/Gateway_Security.thy ===== *)
theory Gateway_Security
  imports Gateway_Site
begin

text \<open>
  \<open>gateway/security.py\<close>: issuing, rotating, revoking, cancelling and expiring Agent Runs, resolving a run from a
  capability, re-checking its scope before each read, and the audit row.  The code's \<open>run\<close> object, loaded by
  \<open>get_doc\<close>, changed and saved, is an \<open>agent_run\<close> value here.
\<close>

definition CAPABILITY_AUDIENCE :: string where "CAPABILITY_AUDIENCE = ''synora-agent-runtime''"
definition CAPABILITY_TTL :: int where "CAPABILITY_TTL = 5 * 60 * 1000000"
definition WORKFLOW_TTL :: int where "WORKFLOW_TTL = 24 * 3600 * 1000000"
definition EXECUTION_MODES :: "string list" where "EXECUTION_MODES = [''DETERMINISTIC'', ''AGENT'', ''PLAN_EXECUTE'']"
definition RUN_PURPOSES :: "string list" where "RUN_PURPOSES = [''ANALYSIS'', ''P2P_EXECUTION'']"

definition capability_digest :: "wflib \<Rightarrow> string \<Rightarrow> string \<Rightarrow> string" where
  "capability_digest lib run_id capability = sha256_hex (wf_py lib) (utf8_encode (run_id @ '':'' @ capability))"

text \<open>A header counts when it is present and not empty.\<close>

definition has_header :: "genv \<Rightarrow> string \<Rightarrow> bool" where
  "has_header env name \<longleftrightarrow> (case map_of (ge_headers env) name of None \<Rightarrow> False | Some v \<Rightarrow> v \<noteq> [])"

definition require_capability_only_request :: "genv \<Rightarrow> unit result" where
  "require_capability_only_request env =
     (if ge_user env \<noteq> ''Guest'' \<or> list_ex (has_header env) [''Authorization'', ''Cookie'', ''X-Frappe-CSRF-Token'']
      then Inl (GatewayFault ''AUTHENTICATION_REJECTED'' ''gateway accepts only run capability'' 401)
      else Inr ())"

definition reject_mixed_user_credentials :: "genv \<Rightarrow> unit result" where
  "reject_mixed_user_credentials env =
     (if has_header env ''Authorization'' \<and> has_header env ''Cookie''
      then Inl (GatewayFault ''AUTHENTICATION_REJECTED'' ''mixed user credentials are not allowed'' 401)
      else Inr ())"

text \<open>\<open>company in frappe.get_list("Company", \<dots>)\<close> and \<open>warehouse in frappe.get_list("Warehouse", \<dots>)\<close>.\<close>

definition company_listed :: "genv \<Rightarrow> string \<Rightarrow> string \<Rightarrow> bool" where
  "company_listed env user company \<longleftrightarrow>
     company \<in> set (ge_get_list env ''Company'' [(''name'', PStr company)] user)"

definition warehouse_listed :: "genv \<Rightarrow> string \<Rightarrow> string \<Rightarrow> string \<Rightarrow> bool" where
  "warehouse_listed env user company warehouse \<longleftrightarrow>
     warehouse \<in> set (ge_get_list env ''Warehouse''
       [(''name'', PStr warehouse), (''company'', PStr company), (''disabled'', PInt 0)] user)"

text \<open>\<open>if warehouse:\<close> on an optional text.\<close>

definition given :: "string option \<Rightarrow> bool" where
  "given w \<longleftrightarrow> w \<noteq> None \<and> w \<noteq> Some []"

definition no_p2p_goal :: p2p_goal where
  "no_p2p_goal = \<lparr>pg_schema_version = ''1'', pg_json = None, pg_version = 0, pg_digest = None, pg_state = ''MISSING'',
     pg_confirmed_by = None, pg_confirmed_at = None\<rparr>"

record issued_run =
  ir_run_id :: string
  ir_capability :: string
  ir_audience :: string
  ir_expires_at :: string
  ir_workflow_expires_at :: "string option"
  ir_state_version :: int
  ir_run_state :: string
  ir_execution_mode :: string
  ir_purpose :: string

definition issue_run ::
  "genv \<Rightarrow> string \<Rightarrow> string \<Rightarrow> string option \<Rightarrow> int \<Rightarrow> string \<Rightarrow> string \<Rightarrow> string \<Rightarrow> issued_run gact" where
  "issue_run env company goal warehouse time_window_days cid execution_mode purpose =
     g_bind (g_reject (ge_user env = [] \<or> ge_user env = ''Guest'')
       (GatewayFault ''AUTHENTICATION_REQUIRED'' ''authenticated user required'' 401)) (\<lambda>_.
     g_bind (g_reject (execution_mode \<notin> set EXECUTION_MODES) (invalid_input ''execution_mode is invalid'')) (\<lambda>_.
     g_bind (g_reject (purpose \<notin> set RUN_PURPOSES) (invalid_input ''purpose is invalid'')) (\<lambda>_.
     g_bind (g_reject (\<not> company_listed env (ge_user env) company)
       (GatewayFault ''SCOPE_DENIED'' ''requested scope is not available'' 403)) (\<lambda>_.
     g_bind (g_reject (given warehouse \<and> \<not> warehouse_listed env (ge_user env) company (the warehouse))
       (GatewayFault ''SCOPE_DENIED'' ''requested scope is not available'' 403)) (\<lambda>_.
     g_bind (now_datetime env) (\<lambda>issued_at.
       (let run_id = ge_uuid4 env; capability = ge_token env; expires_at = issued_at + CAPABILITY_TTL;
            deadline = (if execution_mode = ''PLAN_EXECUTE'' then Some (issued_at + WORKFLOW_TTL) else None)
        in g_bind (insert_run
             \<lparr>ar_name = run_id, ar_initiator = ge_user env, ar_goal = goal, ar_purpose = purpose,
              ar_execution_mode = execution_mode, ar_time_window_days = time_window_days,
              ar_company_scope = company, ar_warehouse_scope = warehouse, ar_p2p_goal = no_p2p_goal,
              ar_capability_digest = capability_digest (ge_lib env) run_id capability,
              ar_capability_audience = CAPABILITY_AUDIENCE, ar_issued_at = issued_at, ar_expires_at = expires_at,
              ar_workflow_expires_at = deadline, ar_revoked = False, ar_status = ''ACTIVE'', ar_run_state = ''CREATED'',
              ar_state_version = 1, ar_correlation_id = cid, ar_revoked_at = None, ar_revoked_by = None,
              ar_revocation_correlation_id = None\<rparr>) (\<lambda>_.
           g_return \<lparr>ir_run_id = run_id, ir_capability = capability, ir_audience = CAPABILITY_AUDIENCE,
             ir_expires_at = ge_str_time env expires_at, ir_workflow_expires_at = map_option (ge_str_time env) deadline,
             ir_state_version = 1, ir_run_state = ''CREATED'', ir_execution_mode = execution_mode,
             ir_purpose = purpose\<rparr>))))))))"

record run_change =
  ch_run_id :: string
  ch_run_state :: "string option"
  ch_status :: string
  ch_state_version :: int

text \<open>\<open>db.exists\<close>, \<open>get_doc\<close> and the check of the actor shared by \<open>revoke_run\<close>, \<open>cancel_run\<close> and \<open>expire_run\<close>.\<close>

definition load_own_run :: "genv \<Rightarrow> string \<Rightarrow> agent_run gact" where
  "load_own_run env run_id =
     g_bind (find_run run_id) (\<lambda>found.
     case found of
       None \<Rightarrow> g_raise (GatewayFault ''RUN_REJECTED'' ''run is not available'' 404)
     | Some run \<Rightarrow>
         g_bind (g_reject (ge_user env \<noteq> ar_initiator run \<and> ''System Manager'' \<notin> set (ge_roles env (ge_user env)))
           (GatewayFault ''PERMISSION_DENIED'' ''run is not available'' 403)) (\<lambda>_. g_return run))"

text \<open>\<open>revoke_run\<close>, \<open>cancel_run\<close> and \<open>rotate_run_capability\<close> are given in two parts, the second with the run loaded and the deadline
  checked.\<close>

definition revoke_loaded_run :: "genv \<Rightarrow> string \<Rightarrow> agent_run \<Rightarrow> run_change gact" where
  "revoke_loaded_run env cid run =
     g_bind (g_reject (ar_status run \<noteq> ''ACTIVE'' \<or> ar_revoked run) (GatewayFault ''CONFLICT'' ''run is not active'' 409)) (\<lambda>_.
     g_bind (now_datetime env) (\<lambda>now.
       (let new = run\<lparr>ar_revoked := True, ar_status := ''REVOKED'', ar_revoked_at := Some now,
              ar_revoked_by := Some (ge_user env), ar_revocation_correlation_id := Some cid,
              ar_state_version := ar_state_version run + 1\<rparr>
        in g_bind (save_run (no_flags\<lparr>fl_revocation := True\<rparr>) run new) (\<lambda>_.
           g_return \<lparr>ch_run_id = ar_name new, ch_run_state = None, ch_status = ar_status new,
             ch_state_version = ar_state_version new\<rparr>))))"

definition revoke_run :: "genv \<Rightarrow> string \<Rightarrow> string \<Rightarrow> run_change gact" where
  "revoke_run env run_id cid = g_bind (load_own_run env run_id) (revoke_loaded_run env cid)"

text \<open>A deadline is absent or a datetime, so \<open>get_datetime\<close> does not fail on it.  The clock is read only when there is one.\<close>

definition workflow_expired :: "genv \<Rightarrow> string \<Rightarrow> int option \<Rightarrow> bool gact" where
  "workflow_expired env execution_mode deadline =
     (if execution_mode \<noteq> ''PLAN_EXECUTE'' then g_return False
      else case deadline of
             None \<Rightarrow> g_return True
           | Some d \<Rightarrow> g_bind (now_datetime env) (\<lambda>now. g_return (d \<le> now)))"

definition run_expired :: "genv \<Rightarrow> agent_run \<Rightarrow> bool gact" where
  "run_expired env run = workflow_expired env (ar_execution_mode run) (ar_workflow_expires_at run)"

definition rotate_unexpired_run :: "genv \<Rightarrow> agent_run \<Rightarrow> bool \<Rightarrow> string gact" where
  "rotate_unexpired_run env run expired =
     g_bind (g_reject expired (GatewayFault ''CONFLICT'' ''workflow has expired'' 409)) (\<lambda>_.
     g_bind (now_datetime env) (\<lambda>issued_at.
     g_bind (save_run (no_flags\<lparr>fl_capability_rotation := True\<rparr>) run
       (run\<lparr>ar_capability_digest := capability_digest (ge_lib env) (ar_name run) (ge_token env),
            ar_issued_at := issued_at, ar_expires_at := issued_at + CAPABILITY_TTL\<rparr>)) (\<lambda>_.
     g_return (ge_token env))))"

definition rotate_run_capability :: "genv \<Rightarrow> agent_run \<Rightarrow> string gact" where
  "rotate_run_capability env run =
     g_bind (g_reject (ar_status run \<noteq> ''ACTIVE'' \<or> ar_revoked run \<or> ar_run_state run \<noteq> ''ANALYZING'')
       (GatewayFault ''CONFLICT'' ''run is not active'' 409)) (\<lambda>_.
     g_bind (run_expired env run) (rotate_unexpired_run env run))"

text \<open>The end of a run with a new state: the part \<open>cancel_run\<close> and \<open>_expire_loaded_run\<close> have in common.\<close>

definition close_run :: "genv \<Rightarrow> string \<Rightarrow> string \<Rightarrow> string \<Rightarrow> agent_run \<Rightarrow> run_change gact" where
  "close_run env run_state status cid run =
     g_bind (g_lift (run_validate_transition (ar_run_state run) run_state)) (\<lambda>_.
     g_bind (now_datetime env) (\<lambda>now.
       (let new = run\<lparr>ar_run_state := run_state, ar_revoked := True, ar_status := status, ar_revoked_at := Some now,
              ar_revoked_by := Some (ge_user env), ar_revocation_correlation_id := Some cid,
              ar_state_version := ar_state_version run + 1\<rparr>
        in g_bind (save_run (no_flags\<lparr>fl_state_change := True, fl_revocation := True\<rparr>) run new) (\<lambda>_.
           g_return \<lparr>ch_run_id = ar_name new, ch_run_state = Some (ar_run_state new), ch_status = ar_status new,
             ch_state_version = ar_state_version new\<rparr>))))"

definition expire_loaded_run :: "genv \<Rightarrow> agent_run \<Rightarrow> string \<Rightarrow> run_change gact" where
  "expire_loaded_run env run cid =
     g_bind (g_reject (ar_status run \<noteq> ''ACTIVE'' \<or> ar_revoked run) (GatewayFault ''CONFLICT'' ''run is not active'' 409)) (\<lambda>_.
     g_bind (g_reject (ar_run_state run \<notin> {''CREATED'', ''ANALYZING''}) (GatewayFault ''CONFLICT'' ''run cannot expire'' 409)) (\<lambda>_.
     close_run env ''EXPIRED'' ''EXPIRED'' cid run))"

definition cancel_loaded_run :: "genv \<Rightarrow> string \<Rightarrow> agent_run \<Rightarrow> bool \<Rightarrow> run_change gact" where
  "cancel_loaded_run env cid run expired =
     (if expired then expire_loaded_run env run cid
      else g_bind (g_reject (ar_run_state run \<notin> set CANCELLABLE_STATES \<or> ar_status run \<noteq> ''ACTIVE'' \<or> ar_revoked run)
             (GatewayFault ''CONFLICT'' ''run cannot be cancelled'' 409)) (\<lambda>_.
           close_run env ''CANCELLED'' ''REVOKED'' cid run))"

definition cancel_run :: "genv \<Rightarrow> string \<Rightarrow> string \<Rightarrow> run_change gact" where
  "cancel_run env run_id cid =
     g_bind (load_own_run env run_id) (\<lambda>run.
     g_bind (if ar_execution_mode run = ''PLAN_EXECUTE'' then run_expired env run else g_return False)
       (cancel_loaded_run env cid run))"

definition expire_run :: "genv \<Rightarrow> string \<Rightarrow> string \<Rightarrow> run_change gact" where
  "expire_run env run_id cid =
     g_bind (load_own_run env run_id) (\<lambda>run.
     g_bind (if ar_execution_mode run \<noteq> ''PLAN_EXECUTE'' then g_return False else run_expired env run) (\<lambda>expired.
     g_bind (g_reject (\<not> expired) (GatewayFault ''CONFLICT'' ''workflow has not expired'' 409)) (\<lambda>_.
     expire_loaded_run env run cid)))"

text \<open>The conjunction of \<open>resolve_run\<close>, in its order: the clock is read only once the earlier conjuncts hold.\<close>

definition run_is_valid :: "genv \<Rightarrow> agent_run \<Rightarrow> string \<Rightarrow> string \<Rightarrow> bool gact" where
  "run_is_valid env run run_id capability =
     (if ar_status run \<noteq> ''ACTIVE'' \<or> ar_revoked run \<or> ar_capability_audience run \<noteq> CAPABILITY_AUDIENCE
      then g_return False
      else g_bind (now_datetime env) (\<lambda>now.
        if \<not> ar_expires_at run > now then g_return False
        else g_bind (run_expired env run) (\<lambda>expired.
          g_return (\<not> expired \<and> ar_capability_digest run = capability_digest (ge_lib env) run_id capability))))"

definition resolve_run :: "genv \<Rightarrow> string \<Rightarrow> string \<Rightarrow> RunContext gact" where
  "resolve_run env run_id capability =
     g_bind (find_run run_id) (\<lambda>found.
     case found of
       None \<Rightarrow> g_raise (GatewayFault ''RUN_REJECTED'' ''run capability is invalid'' 401)
     | Some run \<Rightarrow>
         g_bind (run_is_valid env run run_id capability) (\<lambda>valid.
         g_bind (g_reject (\<not> valid) (GatewayFault ''RUN_REJECTED'' ''run capability is invalid'' 401)) (\<lambda>_.
         g_return \<lparr>rc_run_id = ar_name run, rc_initiator = ar_initiator run, rc_company = ar_company_scope run,
           rc_warehouse = (if given (ar_warehouse_scope run) then ar_warehouse_scope run else None),
           rc_state_version = ar_state_version run\<rparr>)))"

text \<open>The disjunction of \<open>recheck_run_scope\<close> on the locked row.\<close>

definition run_is_stale :: "genv \<Rightarrow> RunContext \<Rightarrow> agent_run \<Rightarrow> bool gact" where
  "run_is_stale env ctx current =
     (if ar_status current \<noteq> ''ACTIVE'' \<or> ar_revoked current \<or> ar_state_version current \<noteq> rc_state_version ctx
      then g_return True
      else g_bind (now_datetime env) (\<lambda>now.
        if ar_expires_at current \<le> now then g_return True
        else if ar_execution_mode current = ''PLAN_EXECUTE'' then run_expired env current else g_return False))"

definition recheck_run_scope :: "genv \<Rightarrow> RunContext \<Rightarrow> string list \<Rightarrow> unit gact" where
  "recheck_run_scope env ctx required_doctypes =
     g_bind (find_run (rc_run_id ctx)) (\<lambda>found.
     case found of
       None \<Rightarrow> g_raise (GatewayFault ''RUN_REJECTED'' ''run is not available'' 401)
     | Some current \<Rightarrow>
         g_bind (run_is_stale env ctx current) (\<lambda>stale.
         g_bind (g_reject stale (GatewayFault ''CONFLICT'' ''run is no longer active'' 409)) (\<lambda>_.
         g_reject (\<not> ge_user_enabled env (rc_initiator ctx) \<or>
                   \<not> company_listed env (rc_initiator ctx) (rc_company ctx) \<or>
                   (given (rc_warehouse ctx) \<and>
                    \<not> warehouse_listed env (rc_initiator ctx) (rc_company ctx) (the (rc_warehouse ctx))) \<or>
                   list_ex (\<lambda>doctype. \<not> ge_can_read env doctype (rc_initiator ctx)) required_doctypes)
           (GatewayFault ''PERMISSION_DENIED'' ''requested resource is not available'' 403))))"

text \<open>The audit row; its insertion fails when the database does.\<close>

definition record_gateway_audit ::
  "genv \<Rightarrow> RunContext \<Rightarrow> string \<Rightarrow> string \<Rightarrow> string \<Rightarrow> string \<Rightarrow> string option \<Rightarrow> unit gact" where
  "record_gateway_audit env ctx tool_name tool_version cid outc error_code =
     g_bind (now_datetime env) (\<lambda>now s.
       if \<not> ge_audit_up env (si_ticks s) then (Inl (OtherError ''DatabaseError''), s)
       else (Inr (), s\<lparr>si_db := (si_db s)\<lparr>db_audits := db_audits (si_db s) @
         [\<lparr>ga_run = rc_run_id ctx, ga_initiator = rc_initiator ctx, ga_company_scope = rc_company ctx,
           ga_warehouse_scope = rc_warehouse ctx, ga_tool_name = tool_name, ga_tool_version = tool_version,
           ga_correlation_id = cid, ga_outcome = outc, ga_error_code = error_code, ga_occurred_at = now\<rparr>]\<rparr>\<rparr>))"

end
