(* ===== verification/Gateway_Registry.thy ===== *)
theory Gateway_Registry
  imports Gateway_Security
begin

text \<open>
  \<open>gateway/registry.py\<close> and \<open>agent/invocation.py\<close>: the closed registry of read-only tools, the dispatch of a request to its
  handler with the checks on the result, and the ledger that makes a workflow call happen at most once.  The table
  \<open>_TOOLS\<close> is an argument.  A handler is a function of the moment it is called, since it reads ERP data that other
  users change.
\<close>

section \<open>Registry\<close>

record ToolResult =
  tr_items :: "pyval list"
  tr_source_modified_at :: "string option"
  tr_omissions :: "(string \<times> int) list"

record ToolSpec =
  sp_name :: string
  sp_version :: string
  sp_risk :: string
  sp_timeout_ms :: int
  sp_max_page_size :: int
  sp_required_doctypes :: "string list"
  sp_input_fields :: "(string \<times> InputField) list"
  sp_handler :: "nat \<Rightarrow> RunContext \<Rightarrow> (string \<times> pyval) list \<Rightarrow> ToolResult result"

type_synonym tools = "((string \<times> string) \<times> ToolSpec) list"

definition register ::
  "string \<Rightarrow> string \<Rightarrow> string list \<Rightarrow> (string \<times> InputField) list \<Rightarrow> int \<Rightarrow> int \<Rightarrow>
   (nat \<Rightarrow> RunContext \<Rightarrow> (string \<times> pyval) list \<Rightarrow> ToolResult result) \<Rightarrow> tools \<Rightarrow> tools result" where
  "register name version required_doctypes input_fields timeout_ms max_page_size handler tools =
     (if (name, version) \<in> set (map fst tools) then Inl (OtherError ''RuntimeError'')
      else Inr (dict_set tools (name, version)
        \<lparr>sp_name = name, sp_version = version, sp_risk = ''READ'', sp_timeout_ms = timeout_ms,
         sp_max_page_size = max_page_size, sp_required_doctypes = required_doctypes,
         sp_input_fields = input_fields, sp_handler = handler\<rparr>))"

definition get_tool_spec :: "tools \<Rightarrow> string \<Rightarrow> string \<Rightarrow> ToolSpec result" where
  "get_tool_spec tools name version =
     (case map_of tools (name, version) of
        None \<Rightarrow> Inl (GatewayFault ''TOOL_NOT_ALLOWED'' ''tool name or version is not allowed'' 404)
      | Some spec \<Rightarrow> Inr spec)"

definition opt_str :: "string option \<Rightarrow> pyval" where
  "opt_str t = (case t of None \<Rightarrow> PNone | Some x \<Rightarrow> PStr x)"

text \<open>A row is a dictionary of scalars.\<close>

definition scalar_row :: "pyval \<Rightarrow> bool" where
  "scalar_row row = (case row of
     PDict d \<Rightarrow> list_all (\<lambda>(k, v). case v of PDict _ \<Rightarrow> False | PList _ \<Rightarrow> False | _ \<Rightarrow> True) d
   | _ \<Rightarrow> False)"

text \<open>The call of the handler, on record.\<close>

definition call_handler ::
  "ToolSpec \<Rightarrow> GatewayRequest \<Rightarrow> RunContext \<Rightarrow> (string \<times> pyval) list \<Rightarrow> ToolResult gact" where
  "call_handler spec request ctx input s =
     (sp_handler spec (si_ticks s) ctx input,
      s\<lparr>si_calls := si_calls s @ [\<lparr>hc_run = ctx, hc_invocation = rq_invocation_id request,
           hc_tool = (sp_name spec, sp_version spec), hc_input = input\<rparr>]\<rparr>)"

text \<open>The response of a dispatch, from the page that was asked for and the rows that came back.\<close>

definition dispatch_response ::
  "genv \<Rightarrow> GatewayRequest \<Rightarrow> RunContext \<Rightarrow> ToolSpec \<Rightarrow> ToolResult \<Rightarrow> int \<Rightarrow> int \<Rightarrow> int \<Rightarrow> pyval" where
  "dispatch_response env request ctx spec res limit offset now =
     (let rows = take (nat limit) (tr_items res) in
      PDict
       [(''ok'', PBool True),
        (''schema_version'', PStr SCHEMA_VERSION),
        (''run_id'', PStr (rc_run_id ctx)),
        (''state_version'', PInt (rc_state_version ctx)),
        (''correlation_id'', PStr (rq_correlation_id request)),
        (''tool'', PDict
          [(''name'', PStr (sp_name spec)), (''version'', PStr (sp_version spec)), (''risk'', PStr (sp_risk spec)),
           (''caller_authorization'', PStr ''FRAPPE_PERMISSION_AND_RUN_SCOPE''),
           (''timeout_ms'', PInt (sp_timeout_ms spec)), (''max_page_size'', PInt (sp_max_page_size spec))]),
        (''authorized_scope'', PDict [(''company'', PStr (rc_company ctx)), (''warehouse'', opt_str (rc_warehouse ctx))]),
        (''snapshot'', PDict
          [(''captured_at'', PStr (ge_str_time env now)), (''source_modified_at'', opt_str (tr_source_modified_at res)),
           (''frappe_revision'', PStr ''6a329d068416768ec47ccd3326b9cc95a8d7bf99''),
           (''erpnext_revision'', PStr ''11e0ba0a1c45f217e2e73e885f699102d06da325'')]),
        (''completeness'', PDict
          [(''status'', PStr (if tr_omissions res \<noteq> [] then ''PARTIAL'' else ''COMPLETE'')),
           (''omissions'', PDict (map (\<lambda>(k, n). (k, PInt n)) (tr_omissions res)))]),
        (''page'', PDict
          [(''offset'', PInt offset), (''limit'', PInt limit), (''returned'', PInt (int (length rows))),
           (''has_more'', PBool (int (length (tr_items res)) > limit))]),
        (''data'', PList rows)])"

text \<open>The rest of \<open>dispatch\<close>, after the handler has returned: the time it took, the size and the shape of its result.\<close>

definition dispatch_checks :: "genv \<Rightarrow> GatewayRequest \<Rightarrow> RunContext \<Rightarrow> ToolSpec \<Rightarrow> (string \<times> pyval) list \<Rightarrow> ToolResult \<Rightarrow> pyval gact" where
  "dispatch_checks env request ctx spec input res =
     g_bind (g_reject (ge_elapsed_ns env > sp_timeout_ms spec * 1000000)
       (GatewayFault ''TIMEOUT'' ''tool execution exceeded its post-hoc timeout classification budget'' 504)) (\<lambda>_.
     case (dget input ''limit'', dget input ''offset'') of
       (PInt limit, PInt offset) \<Rightarrow>
         g_bind (g_reject (int (length (tr_items res)) > limit + 1)
           (GatewayFault ''ERP_ERROR'' ''tool exceeded its result limit'' 502)) (\<lambda>_.
         g_bind (g_reject (\<not> list_all scalar_row (tr_items res))
           (GatewayFault ''ERP_ERROR'' ''tool returned an invalid result'' 502)) (\<lambda>_.
         g_bind (now_datetime env) (\<lambda>now.
         g_return (dispatch_response env request ctx spec res limit offset now))))
     | _ \<Rightarrow> g_raise TypeError)"

definition gateway_dispatch :: "genv \<Rightarrow> tools \<Rightarrow> GatewayRequest \<Rightarrow> RunContext \<Rightarrow> pyval gact" where
  "gateway_dispatch env tools request ctx =
     g_bind (g_lift (get_tool_spec tools (tc_name (rq_tool request)) (tc_version (rq_tool request)))) (\<lambda>spec.
     g_bind (recheck_run_scope env ctx (sp_required_doctypes spec)) (\<lambda>_.
     g_bind (g_lift (parse_tool_input (tc_input (rq_tool request)) (sp_input_fields spec) (sp_max_page_size spec))) (\<lambda>input.
     g_bind (call_handler spec request ctx input) (dispatch_checks env request ctx spec input))))"

section \<open>Invocation ledger\<close>

definition MAX_RESPONSE_BYTES :: nat where "MAX_RESPONSE_BYTES = 2000000"

definition inv_canonical_json :: "pyval \<Rightarrow> string result" where
  "inv_canonical_json value = (case json_dumps value of
     Inl e \<Rightarrow> if e = TypeError \<or> e = ValueError then Inl (invalid_input ''workflow invocation arguments are invalid'') else Inl e
   | Inr t \<Rightarrow> Inr t)"

definition inv_args_digest :: "wflib \<Rightarrow> pyval \<Rightarrow> string result" where
  "inv_args_digest lib value =
     rbind (inv_canonical_json value) (\<lambda>t. Inr (sha256_hex (wf_py lib) (utf8_encode t)))"

definition invocation_id ::
  "wflib \<Rightarrow> string \<Rightarrow> int \<Rightarrow> string \<Rightarrow> string \<Rightarrow> string \<Rightarrow> string \<Rightarrow> string" where
  "invocation_id lib run_id plan_version step_id tool_name tool_version digest =
     sha256_hex (wf_py lib) (utf8_encode
       (run_id @ ''|'' @ int_str plan_version @ ''|'' @ step_id @ ''|'' @ tool_name @ ''|'' @ tool_version @ ''|'' @ digest))"

definition bounded_response :: "wflib \<Rightarrow> pyval \<Rightarrow> (pyval \<times> string) result" where
  "bounded_response lib value =
     (case value of
        PDict _ \<Rightarrow>
          rbind (inv_canonical_json value) (\<lambda>t.
          if length (utf8_encode t) > MAX_RESPONSE_BYTES
          then Inl (GatewayFault ''RESULT_LIMIT'' ''tool result is too large'' 502)
          else (case json_loads lib t of
             Inr (PDict d) \<Rightarrow> Inr (PDict d, sha256_hex (wf_py lib) (utf8_encode t))
           | _ \<Rightarrow> Inl (GatewayFault ''ERP_ERROR'' ''tool returned an invalid result'' 502)))
      | _ \<Rightarrow> Inl (GatewayFault ''ERP_ERROR'' ''tool returned an invalid result'' 502))"

definition load_cached :: "wflib \<Rightarrow> tool_invocation \<Rightarrow> pyval result" where
  "load_cached lib doc =
     (let raw = (case ti_response_json doc of None \<Rightarrow> [] | Some t \<Rightarrow> t) in
      if length (utf8_encode raw) > MAX_RESPONSE_BYTES
      then Inl (GatewayFault ''ERP_ERROR'' ''cached tool result is invalid'' 502)
      else (case json_loads lib raw of
        Inl _ \<Rightarrow> Inl (GatewayFault ''ERP_ERROR'' ''cached tool result is invalid'' 502)
      | Inr value \<Rightarrow>
          rbind (bounded_response lib value) (\<lambda>(response, digest).
          if given (ti_observation_digest doc) \<and> ti_observation_digest doc \<noteq> Some digest
          then Inl (GatewayFault ''ERP_ERROR'' ''cached tool result digest is invalid'' 502)
          else Inr response)))"

record InvocationReservation =
  rs_invocation_id :: string
  rs_cached_response :: "pyval option"

definition validate_workflow_metadata ::
  "wflib \<Rightarrow> GatewayRequest \<Rightarrow> (string \<times> int \<times> string \<times> string) result" where
  "validate_workflow_metadata lib request =
     (case (rq_invocation_id request, rq_plan_version request, rq_step_id request, rq_args_digest request) of
        (Some identity, Some plan_version, Some step_id, Some digest) \<Rightarrow>
          rbind (inv_args_digest lib (PDict (tc_input (rq_tool request)))) (\<lambda>computed.
          if computed \<noteq> digest
          then Inl (GatewayFault ''CONFLICT'' ''workflow invocation arguments conflict'' 409)
          else if invocation_id lib (rq_run_id request) plan_version step_id (tc_name (rq_tool request))
                    (tc_version (rq_tool request)) digest \<noteq> identity
          then Inl (GatewayFault ''CONFLICT'' ''workflow invocation identity conflicts'' 409)
          else Inr (identity, plan_version, step_id, digest))
      | _ \<Rightarrow> Inl (invalid_input ''workflow invocation metadata is incomplete''))"

definition existing_reservation :: "wflib \<Rightarrow> tool_invocation \<Rightarrow> string \<Rightarrow> InvocationReservation result" where
  "existing_reservation lib doc expected_digest =
     (if ti_args_digest doc \<noteq> expected_digest
      then Inl (GatewayFault ''CONFLICT'' ''workflow invocation digest conflicts'' 409)
      else if ti_status doc = ''SUCCEEDED''
      then rbind (load_cached lib doc) (\<lambda>r.
             Inr \<lparr>rs_invocation_id = ti_invocation_id doc, rs_cached_response = Some r\<rparr>)
      else Inl (GatewayFault ''CONFLICT'' ''workflow tool result is uncertain'' 409))"

text \<open>The \<open>except\<close> around the insertion: after a duplicate entry, the row of the request that won is read.\<close>

definition insert_raised :: "genv \<Rightarrow> string \<Rightarrow> string \<Rightarrow> pyexc \<Rightarrow> InvocationReservation gact" where
  "insert_raised env identity digest e =
     (if e \<notin> {OtherError ''DuplicateEntryError'', OtherError ''UniqueValidationError''} then g_raise e
      else g_bind (find_invocation identity) (\<lambda>found.
        case found of
          None \<Rightarrow> g_raise (GatewayFault ''CONFLICT'' ''workflow invocation reservation raced'' 409)
        | Some doc \<Rightarrow> g_lift (existing_reservation (ge_lib env) doc digest)))"

definition reserve_invocation ::
  "genv \<Rightarrow> tools \<Rightarrow> GatewayRequest \<Rightarrow> RunContext \<Rightarrow> InvocationReservation option gact" where
  "reserve_invocation env tools request ctx =
     (case rq_invocation_id request of
        None \<Rightarrow>
          g_bind (g_reject (rq_plan_version request \<noteq> None \<or> rq_step_id request \<noteq> None \<or> rq_args_digest request \<noteq> None)
            (invalid_input ''workflow invocation metadata is incomplete'')) (\<lambda>_. g_return None)
      | Some _ \<Rightarrow>
          g_bind (g_lift (validate_workflow_metadata (ge_lib env) request)) (\<lambda>(identity, plan_version, step_id, digest).
          g_bind (g_lift (get_tool_spec tools (tc_name (rq_tool request)) (tc_version (rq_tool request)))) (\<lambda>spec.
          g_bind (recheck_run_scope env ctx (sp_required_doctypes spec)) (\<lambda>_.
          g_bind (find_invocation identity) (\<lambda>existing.
          case existing of
            Some doc \<Rightarrow> g_bind (g_lift (existing_reservation (ge_lib env) doc digest)) (\<lambda>r. g_return (Some r))
          | None \<Rightarrow>
              g_bind (now_datetime env) (\<lambda>now.
              g_try (insert_invocation
                \<lparr>ti_invocation_id = identity, ti_run = rc_run_id ctx, ti_initiator = rc_initiator ctx,
                 ti_plan_version = plan_version, ti_step_id = step_id, ti_tool_name = tc_name (rq_tool request),
                 ti_tool_version = tc_version (rq_tool request), ti_args_digest = digest, ti_status = ''STARTED'',
                 ti_started_at = now, ti_correlation_id = rq_correlation_id request,
                 ti_response_json = None, ti_observation_digest = None, ti_completed_at = None\<rparr>)
                (\<lambda>_. g_return (Some \<lparr>rs_invocation_id = identity, rs_cached_response = None\<rparr>))
                (\<lambda>e. g_bind (insert_raised env identity digest e) (\<lambda>r. g_return (Some r)))))))))"

definition complete_invocation :: "genv \<Rightarrow> InvocationReservation \<Rightarrow> pyval \<Rightarrow> pyval gact" where
  "complete_invocation env reservation response =
     (case rs_cached_response reservation of
        Some cached \<Rightarrow> g_return cached
      | None \<Rightarrow>
          g_bind (g_lift (bounded_response (ge_lib env) response)) (\<lambda>(safe_response, observation_digest).
          g_bind (find_invocation (rs_invocation_id reservation)) (\<lambda>found.
          case found of
            None \<Rightarrow> g_raise (OtherError ''DoesNotExistError'')
          | Some doc \<Rightarrow>
              if ti_status doc \<noteq> ''STARTED''
              then (if ti_status doc = ''SUCCEEDED'' then g_lift (load_cached (ge_lib env) doc)
                    else g_raise (GatewayFault ''CONFLICT'' ''workflow tool result is uncertain'' 409))
              else
                g_bind (g_lift (inv_canonical_json safe_response)) (\<lambda>response_json.
                g_bind (now_datetime env) (\<lambda>now.
                g_bind (save_invocation True (rs_invocation_id reservation) doc
                  (doc\<lparr>ti_status := ''SUCCEEDED'', ti_response_json := Some response_json,
                       ti_observation_digest := Some observation_digest, ti_completed_at := Some now\<rparr>)) (\<lambda>_.
                g_return safe_response))))))"

end
