(* ===== verification/Gateway_Server.thy ===== *)
theory Gateway_Server
  imports Gateway_Registry
begin

text \<open>
  The gateway's endpoints in \<open>api.py\<close>: \<open>execute\<close>, which a guest calls with nothing but a run capability, and
  \<open>issue_run\<close> and \<open>revoke_run\<close> of the signed-in user.  \<open>execute\<close> is cut at its commits: \<open>execute_open\<close> reads the request and
  resolves the run, \<open>execute_reserve\<close> ends with the commit of the \<open>STARTED\<close> row, \<open>execute_finish\<close> dispatches and
  publishes the result.  Between two of these pieces other requests may run and the process may die.
\<close>

section \<open>Security events\<close>

definition SECURITY_EVENT_BUDGET :: int where "SECURITY_EVENT_BUDGET = 60"

definition opt_text :: "string option \<Rightarrow> string" where
  "opt_text t = (case t of None \<Rightarrow> ''None'' | Some x \<Rightarrow> x)"

text \<open>The count of the current minute in the cache; \<open>None\<close> when the cache cannot be reached.  The wall clock of
  \<open>time.time\<close> is read like the site's.\<close>

definition security_event_budget_allowed :: "genv \<Rightarrow> site \<Rightarrow> bool option \<times> site" where
  "security_event_budget_allowed env s =
     (let window = ge_clock env (si_ticks s) div 60000000;
          n = (case map_of (si_event_cache s) window of None \<Rightarrow> 0 | Some n \<Rightarrow> n);
          s' = s\<lparr>si_ticks := Suc (si_ticks s)\<rparr>
      in if \<not> ge_cache_up env then (None, s')
         else if n \<ge> SECURITY_EVENT_BUDGET then (Some False, s')
         else (Some True, s'\<lparr>si_event_cache := dict_set (si_event_cache s) window (n + 1)\<rparr>))"

definition log_security_event :: "genv \<Rightarrow> string \<Rightarrow> string option \<Rightarrow> site \<Rightarrow> site" where
  "log_security_event env code cid s =
     (case security_event_budget_allowed env s of
        (Some True, s') \<Rightarrow>
          s'\<lparr>si_events := si_events s' @
            [\<lparr>ev_title = ''Synora Gateway Security Event'',
              ev_message = ''synora gateway security event (code='' @ code @ '', correlation='' @ opt_text cid @ '', ip='' @
                (if ge_request_ip env = [] then ''-'' else ge_request_ip env) @ '')''\<rparr>]\<rparr>
      | (_, s') \<Rightarrow> s')"

definition log_internal_error :: "RunContext option \<Rightarrow> string option \<Rightarrow> site \<Rightarrow> site" where
  "log_internal_error run cid s = s\<lparr>si_events := si_events s @
     [\<lparr>ev_title = ''Synora Gateway Internal Error'',
       ev_message = ''synora gateway internal error (run='' @ (case run of None \<Rightarrow> ''-'' | Some c \<Rightarrow> rc_run_id c) @
         '', correlation='' @ opt_text cid @ '')''\<rparr>]\<rparr>"

section \<open>execute\<close>

record http_response =
  hr_status :: int
  hr_body :: pyval

definition audit_failed :: pyexc where
  "audit_failed = GatewayFault ''ERP_ERROR'' ''gateway audit failed'' 502"

text \<open>
  The two \<open>except\<close> clauses of \<open>execute\<close>.  Before a run is resolved a fault is logged as a security event; afterwards it is
  audited.  Any other exception is answered as \<open>ERP_ERROR\<close>.
\<close>

definition internal_fault :: pyexc where
  "internal_fault = GatewayFault ''ERP_ERROR'' ''ERP request failed'' 502"

definition fault_response :: "pyexc \<Rightarrow> string option \<Rightarrow> http_response" where
  "fault_response fault cid = \<lparr>hr_status = fault_status fault, hr_body = error_response fault cid\<rparr>"

definition execute_unresolved :: "genv \<Rightarrow> string option \<Rightarrow> pyexc \<Rightarrow> site \<Rightarrow> http_response \<times> site" where
  "execute_unresolved env cid e s =
     (case e of
        GatewayFault code msg status \<Rightarrow> (fault_response e cid, log_security_event env code cid s)
      | _ \<Rightarrow> (fault_response internal_fault cid, log_internal_error None cid s))"

definition audited_response ::
  "genv \<Rightarrow> GatewayRequest \<Rightarrow> RunContext \<Rightarrow> pyexc \<Rightarrow> site \<Rightarrow> http_response \<times> site" where
  "audited_response env request ctx fault s =
     (case record_gateway_audit env ctx (tc_name (rq_tool request)) (tc_version (rq_tool request))
             (rq_correlation_id request) ''REJECTED'' (Some (fault_code fault)) s of
        (Inl _, s') \<Rightarrow> (fault_response audit_failed (Some (rq_correlation_id request)), s')
      | (Inr _, s') \<Rightarrow> (fault_response fault (Some (rq_correlation_id request)), s'))"

definition execute_failed ::
  "genv \<Rightarrow> GatewayRequest \<Rightarrow> RunContext \<Rightarrow> pyexc \<Rightarrow> site \<Rightarrow> http_response \<times> site" where
  "execute_failed env request ctx e s =
     (case e of
        GatewayFault code msg status \<Rightarrow> audited_response env request ctx e s
      | _ \<Rightarrow> audited_response env request ctx internal_fault
               (log_internal_error (Some ctx) (Some (rq_correlation_id request)) s))"

datatype 'a progress = Answered http_response | Proceed 'a

definition drop_cmd :: "(string \<times> pyval) list \<Rightarrow> (string \<times> pyval) list" where
  "drop_cmd payload = filter (\<lambda>(k, v). k \<noteq> ''cmd'') payload"

definition execute_open ::
  "genv \<Rightarrow> (string \<times> pyval) list \<Rightarrow> site \<Rightarrow> (GatewayRequest \<times> RunContext) progress \<times> site" where
  "execute_open env payload s =
     (case rbind (require_capability_only_request env) (\<lambda>_. parse_request (PDict (drop_cmd payload))) of
        Inl e \<Rightarrow> (case execute_unresolved env None e s of (r, s') \<Rightarrow> (Answered r, s'))
      | Inr request \<Rightarrow>
          (case resolve_run env (rq_run_id request) (rq_capability request) s of
             (Inl e, s') \<Rightarrow>
               (case execute_unresolved env (Some (rq_correlation_id request)) e s' of (r, s'') \<Rightarrow> (Answered r, s''))
           | (Inr ctx, s') \<Rightarrow> (Proceed (request, ctx), s')))"

definition ok_response :: "pyval \<Rightarrow> http_response" where
  "ok_response body = \<lparr>hr_status = 200, hr_body = body\<rparr>"

definition audited_success ::
  "genv \<Rightarrow> GatewayRequest \<Rightarrow> RunContext \<Rightarrow> string \<Rightarrow> pyval \<Rightarrow> site \<Rightarrow> http_response \<times> site" where
  "audited_success env request ctx outc body s =
     (case record_gateway_audit env ctx (tc_name (rq_tool request)) (tc_version (rq_tool request))
             (rq_correlation_id request) outc None s of
        (Inl e, s') \<Rightarrow> execute_failed env request ctx e s'
      | (Inr _, s') \<Rightarrow> (ok_response body, s'))"

text \<open>Up to the commit that makes the reservation durable.\<close>

definition execute_reserve ::
  "genv \<Rightarrow> tools \<Rightarrow> GatewayRequest \<Rightarrow> RunContext \<Rightarrow> site \<Rightarrow> InvocationReservation option progress \<times> site" where
  "execute_reserve env tools request ctx s =
     (case reserve_invocation env tools request ctx s of
        (Inl e, s') \<Rightarrow> (case execute_failed env request ctx e s' of (r, s'') \<Rightarrow> (Answered r, s''))
      | (Inr reservation, s') \<Rightarrow>
          (case reservation of
             None \<Rightarrow> (Proceed None, s')
           | Some r \<Rightarrow>
               (case rs_cached_response r of
                  None \<Rightarrow> (Proceed (Some r), s')
                | Some cached \<Rightarrow>
                    (case audited_success env request ctx ''CACHED'' cached s' of (resp, s'') \<Rightarrow> (Answered resp, s'')))))"

text \<open>The dispatch, the completion of the reservation and the audit row.\<close>

definition execute_finish ::
  "genv \<Rightarrow> tools \<Rightarrow> GatewayRequest \<Rightarrow> RunContext \<Rightarrow> InvocationReservation option \<Rightarrow> site \<Rightarrow> http_response \<times> site" where
  "execute_finish env tools request ctx reservation s =
     (case g_bind (gateway_dispatch env tools request ctx) (\<lambda>body.
             case reservation of None \<Rightarrow> g_return body | Some r \<Rightarrow> complete_invocation env r body) s of
        (Inl e, s') \<Rightarrow> execute_failed env request ctx e s'
      | (Inr body, s') \<Rightarrow> audited_success env request ctx ''SUCCEEDED'' body s')"

definition execute :: "genv \<Rightarrow> tools \<Rightarrow> (string \<times> pyval) list \<Rightarrow> site \<Rightarrow> http_response \<times> site" where
  "execute env tools payload s =
     (case execute_open env payload s of
        (Answered r, s') \<Rightarrow> (r, s')
      | (Proceed (request, ctx), s') \<Rightarrow>
          (case execute_reserve env tools request ctx s' of
             (Answered r, s'') \<Rightarrow> (r, s'')
           | (Proceed reservation, s'') \<Rightarrow> execute_finish env tools request ctx reservation s''))"

section \<open>issue\_run and revoke\_run\<close>

definition GOAL_MAX_LENGTH :: nat where "GOAL_MAX_LENGTH = 1000"
definition DEFAULT_TIME_WINDOW_DAYS :: int where "DEFAULT_TIME_WINDOW_DAYS = 90"
definition MAX_TIME_WINDOW_DAYS :: int where "MAX_TIME_WINDOW_DAYS = 365"

text \<open>The endpoint validates the arguments in the order of the source; \<open>PNone\<close> is an argument that was not given.\<close>

definition member_text :: "pyval \<Rightarrow> string list \<Rightarrow> string \<Rightarrow> string result" where
  "member_text v options message =
     (case v of PStr t \<Rightarrow> if t \<in> set options then Inr t else Inl (invalid_input message) | _ \<Rightarrow> Inl (invalid_input message))"

definition window_days :: "pyval \<Rightarrow> int result" where
  "window_days v =
     (if v = PNone then Inr DEFAULT_TIME_WINDOW_DAYS
      else rbind (positive_int v ''time_window_days'' MAX_TIME_WINDOW_DAYS) (\<lambda>d.
        if d = 0 then Inl (invalid_input ''time_window_days is invalid'') else Inr d))"

definition issue_arguments ::
  "pyval \<Rightarrow> pyval \<Rightarrow> pyval \<Rightarrow> pyval \<Rightarrow> pyval \<Rightarrow> pyval \<Rightarrow> (string \<times> string \<times> string option \<times> int \<times> string \<times> string) result" where
  "issue_arguments company goal warehouse time_window_days execution_mode purpose =
     rbind (bounded_text company ''company'' 140) (\<lambda>safe_company.
     rbind (bounded_text goal ''goal'' GOAL_MAX_LENGTH) (\<lambda>safe_goal.
     if py_strip safe_goal = [] then Inl (invalid_input ''goal is invalid'') else
     rbind (optional_text warehouse ''warehouse'' 140) (\<lambda>safe_warehouse.
     rbind (window_days time_window_days) (\<lambda>safe_days.
     rbind (member_text (if execution_mode = PNone then PStr ''DETERMINISTIC'' else execution_mode) EXECUTION_MODES
       ''execution_mode is invalid'') (\<lambda>mode.
     rbind (member_text (if purpose = PNone then PStr ''ANALYSIS'' else purpose) RUN_PURPOSES ''purpose is invalid'') (\<lambda>safe_purpose.
     Inr (safe_company, safe_goal, safe_warehouse, safe_days, mode, safe_purpose)))))))"

text \<open>The answer of a run: the capability is left out for a durable workflow.\<close>

definition issued_dict :: "issued_run \<Rightarrow> (string \<times> pyval) list" where
  "issued_dict r =
     [(''run_id'', PStr (ir_run_id r)), (''capability'', PStr (ir_capability r)), (''audience'', PStr (ir_audience r)),
      (''expires_at'', PStr (ir_expires_at r)), (''workflow_expires_at'', opt_str (ir_workflow_expires_at r)),
      (''state_version'', PInt (ir_state_version r)), (''run_state'', PStr (ir_run_state r)),
      (''execution_mode'', PStr (ir_execution_mode r)), (''purpose'', PStr (ir_purpose r))]"

definition public_run :: "issued_run \<Rightarrow> (string \<times> pyval) list" where
  "public_run r =
     (if ir_execution_mode r = ''PLAN_EXECUTE'' then filter (\<lambda>(k, v). k \<noteq> ''capability'') (issued_dict r) else issued_dict r)"

text \<open>
  What the endpoints have in common: a fault is answered with its status, any other exception leaves the endpoint, and
  the correlation id is known once it has been checked.
\<close>

definition answer_run :: "string \<Rightarrow> (string \<times> pyval) list \<Rightarrow> http_response" where
  "answer_run cid run = ok_response (PDict [(''ok'', PBool True), (''schema_version'', PStr SCHEMA_VERSION),
     (''correlation_id'', PStr cid), (''run'', PDict run)])"

definition answer_fault :: "string option \<Rightarrow> pyexc \<Rightarrow> http_response result" where
  "answer_fault cid e = (case e of GatewayFault code msg status \<Rightarrow> Inr (fault_response e cid) | _ \<Rightarrow> Inl e)"

definition api_endpoint :: "genv \<Rightarrow> pyval \<Rightarrow> (string \<Rightarrow> (string \<times> pyval) list gact) \<Rightarrow> http_response gact" where
  "api_endpoint env cid body s =
     (case rbind (reject_mixed_user_credentials env) (\<lambda>_. correlation_id cid) of
        Inl e \<Rightarrow> (answer_fault None e, s)
      | Inr safe_cid \<Rightarrow>
          (case body safe_cid s of
             (Inl e, s') \<Rightarrow> (answer_fault (Some safe_cid) e, s')
           | (Inr run, s') \<Rightarrow> (Inr (answer_run safe_cid run), s')))"

definition api_issue_run ::
  "genv \<Rightarrow> pyval \<Rightarrow> pyval \<Rightarrow> pyval \<Rightarrow> pyval \<Rightarrow> pyval \<Rightarrow> pyval \<Rightarrow> pyval \<Rightarrow> string \<Rightarrow> http_response gact" where
  "api_issue_run env company goal warehouse time_window_days cid execution_mode purpose fresh_cid =
     api_endpoint env (if cid = PNone then PStr fresh_cid else cid) (\<lambda>safe_cid.
       g_bind (g_lift (issue_arguments company goal warehouse time_window_days execution_mode purpose))
         (\<lambda>(safe_company, safe_goal, safe_warehouse, safe_days, mode, safe_purpose).
       g_bind (issue_run env safe_company safe_goal safe_warehouse safe_days safe_cid mode safe_purpose) (\<lambda>run.
       g_return (public_run run))))"

definition change_dict :: "run_change \<Rightarrow> (string \<times> pyval) list" where
  "change_dict c = [(''run_id'', PStr (ch_run_id c))] @
     (case ch_run_state c of None \<Rightarrow> [] | Some t \<Rightarrow> [(''run_state'', PStr t)]) @
     [(''status'', PStr (ch_status c)), (''state_version'', PInt (ch_state_version c))]"

definition api_revoke_run :: "genv \<Rightarrow> pyval \<Rightarrow> pyval \<Rightarrow> http_response gact" where
  "api_revoke_run env run_id cid =
     api_endpoint env cid (\<lambda>safe_cid.
       g_bind (g_lift (canonical_uuid run_id ''run_id'')) (\<lambda>safe_run_id.
       g_bind (revoke_run env safe_run_id safe_cid) (\<lambda>c. g_return (change_dict c))))"

end
