(* ===== verification/Gateway_Frames.thy ===== *)
theory Gateway_Frames
  imports Gateway_Server
begin

text \<open>
  What each gateway operation may change.  \<open>g_keeps R m\<close> says that the site before and after \<open>m\<close> are related by \<open>R\<close>, whether
  \<open>m\<close> returns or raises.  The locale \<open>state_relation\<close> has the rules for the monad, for any preorder \<open>R\<close>, and \<open>site_relation\<close> extends it to the site; it is interpreted with
  \<open>quiet\<close>, where only the clock, the audit and the event log move, with \<open>same_keys\<close>, where the ledger has the same rows, and later with \<open>keeps_published\<close>.
\<close>

definition g_keeps :: "('s \<Rightarrow> 's \<Rightarrow> bool) \<Rightarrow> ('s, 'a) sact \<Rightarrow> bool" where
  "g_keeps R m \<longleftrightarrow> (\<forall>s. R s (snd (m s)))"

lemma g_keepsI: "(\<And>s. R s (snd (m s))) \<Longrightarrow> g_keeps R m"
  by (simp add: g_keeps_def)

lemma g_keepsD: "g_keeps R m \<Longrightarrow> m s = (r, s') \<Longrightarrow> R s s'"
  unfolding g_keeps_def by (metis snd_conv)

locale state_relation =
  fixes R :: "'s \<Rightarrow> 's \<Rightarrow> bool"
  assumes refl: "R s s" and trans: "R s t \<Longrightarrow> R t u \<Longrightarrow> R s u"
begin

lemma return_keeps: "g_keeps R (g_return x)"
  by (simp add: g_keeps_def g_return_def refl)

lemma raise_keeps: "g_keeps R (g_raise e)"
  by (simp add: g_keeps_def g_raise_def refl)

lemma lift_keeps: "g_keeps R (g_lift r)"
  by (simp add: g_keeps_def g_lift_def refl)

lemma reject_keeps: "g_keeps R (g_reject b e)"
  by (simp add: g_reject_def return_keeps raise_keeps)

lemma bind_keeps:
  assumes "g_keeps R m" and "\<And>x. g_keeps R (f x)"
  shows "g_keeps R (g_bind m f)"
proof (rule g_keepsI)
  fix s
  obtain r s' where m: "m s = (r, s')" by (cases "m s")
  with assms(1) have "R s s'" by (rule g_keepsD)
  moreover have "R s' (snd (f x s'))" for x using assms(2) by (simp add: g_keeps_def)
  ultimately show "R s (snd (g_bind m f s))" using m by (auto simp: g_bind_def intro: trans split: sum.split)
qed

lemma try_keeps:
  assumes "g_keeps R m" and "\<And>x. g_keeps R (f x)" and "\<And>e. g_keeps R (h e)"
  shows "g_keeps R (g_try m f h)"
proof (rule g_keepsI)
  fix s
  obtain r s' where m: "m s = (r, s')" by (cases "m s")
  with assms(1) have "R s s'" by (rule g_keepsD)
  moreover have "R s' (snd (f x s'))" "R s' (snd (h e s'))" for x e using assms(2,3) by (simp_all add: g_keeps_def)
  ultimately show "R s (snd (g_try m f h s))" using m by (auto simp: g_try_def intro: trans split: sum.split)
qed

lemma if_keeps: "g_keeps R m \<Longrightarrow> g_keeps R n \<Longrightarrow> g_keeps R (if b then m else n)"
  by simp

lemma option_keeps: "g_keeps R m \<Longrightarrow> (\<And>x. g_keeps R (f x)) \<Longrightarrow> g_keeps R (case v of None \<Rightarrow> m | Some x \<Rightarrow> f x)"
  by (cases v) simp_all

lemma prod_keeps: "(\<And>x y. g_keeps R (f x y)) \<Longrightarrow> g_keeps R (case v of (x, y) \<Rightarrow> f x y)"
  by (cases v) simp

lemma let_keeps: "g_keeps R (f x) \<Longrightarrow> g_keeps R (Let x f)"
  by simp

lemmas step_keeps = return_keeps raise_keeps lift_keeps reject_keeps bind_keeps try_keeps if_keeps option_keeps prod_keeps let_keeps

end

text \<open>For the site, looking up a row keeps every relation.\<close>

locale site_relation = state_relation R for R :: "site \<Rightarrow> site \<Rightarrow> bool"
begin

lemma find_run_keeps: "g_keeps R (find_run n)"
  by (simp add: g_keeps_def find_run_def refl)

lemma find_invocation_keeps: "g_keeps R (find_invocation n)"
  by (simp add: g_keeps_def find_invocation_def refl)

lemmas monad_keeps = step_keeps find_run_keeps find_invocation_keeps

end

section \<open>Quiet operations\<close>

definition quiet_site :: "site \<Rightarrow> site \<Rightarrow> bool" where
  "quiet_site s s' \<longleftrightarrow> db_runs (si_db s') = db_runs (si_db s) \<and> db_invocations (si_db s') = db_invocations (si_db s) \<and>
     si_calls s' = si_calls s"

interpretation qs: site_relation quiet_site
  by unfold_locales (simp_all add: quiet_site_def)

lemma now_quiet: "g_keeps quiet_site (now_datetime env)"
  by (simp add: g_keeps_def now_datetime_def quiet_site_def)

lemma expired_quiet: "g_keeps quiet_site (workflow_expired env m d)"
  unfolding workflow_expired_def by (intro qs.monad_keeps now_quiet)

lemma run_expired_quiet: "g_keeps quiet_site (run_expired env run)"
  unfolding run_expired_def by (rule expired_quiet)

lemma resolve_quiet: "g_keeps quiet_site (resolve_run env run_id capability)"
  unfolding resolve_run_def run_is_valid_def by (intro qs.monad_keeps now_quiet run_expired_quiet)

lemma recheck_quiet: "g_keeps quiet_site (recheck_run_scope env ctx ds)"
  unfolding recheck_run_scope_def run_is_stale_def by (intro qs.monad_keeps now_quiet run_expired_quiet)

lemma audit_quiet: "g_keeps quiet_site (record_gateway_audit env ctx t v cid outc code)"
  unfolding record_gateway_audit_def
  by (intro qs.bind_keeps now_quiet) (simp add: g_keeps_def quiet_site_def)

lemma log_quiet: "quiet_site s (log_security_event env code cid s)" "quiet_site s (log_internal_error run cid s)"
  by (simp_all add: quiet_site_def log_security_event_def log_internal_error_def security_event_budget_allowed_def Let_def)

lemma unresolved_quiet: "quiet_site s (snd (execute_unresolved env cid e s))"
  unfolding execute_unresolved_def by (cases e) (simp_all add: log_quiet)

lemma audited_quiet: "quiet_site s (snd (audited_response env request ctx fault s))"
  using g_keepsD [OF audit_quiet] unfolding audited_response_def by (auto split: prod.split sum.split)

lemma failed_quiet: "quiet_site s (snd (execute_failed env request ctx e s))"
proof -
  have "quiet_site s (snd (audited_response env request ctx internal_fault (log_internal_error run cid s)))" for run cid
    using qs.trans [OF log_quiet(2) audited_quiet] .
  then show ?thesis unfolding execute_failed_def by (cases e) (simp_all add: audited_quiet)
qed

lemma success_quiet: "quiet_site s (snd (audited_success env request ctx outc body s))"
proof -
  obtain r s' where r: "record_gateway_audit env ctx (tc_name (rq_tool request)) (tc_version (rq_tool request))
    (rq_correlation_id request) outc None s = (r, s')" by (rule prod.exhaust)
  then have "quiet_site s s'" by (rule g_keepsD [OF audit_quiet])
  then show ?thesis
    using qs.trans [OF _ failed_quiet] by (cases r) (simp_all add: audited_success_def r)
qed

lemma failed_quietD: "execute_failed env request ctx e s = (r, s') \<Longrightarrow> quiet_site s s'"
  and success_quietD: "audited_success env request ctx outc body s = (r, s') \<Longrightarrow> quiet_site s s'"
  using failed_quiet [of s env request ctx e] success_quiet [of s env request ctx outc body] by simp_all

lemma open_quiet: "quiet_site s (snd (execute_open env payload s))"
proof (cases "rbind (require_capability_only_request env) (\<lambda>_. parse_request (PDict (drop_cmd payload)))")
  case (Inl e)
  then show ?thesis using unresolved_quiet [of s env None e] by (auto simp: execute_open_def split: prod.split)
next
  case (Inr request)
  obtain r s' where r: "resolve_run env (rq_run_id request) (rq_capability request) s = (r, s')" by (rule prod.exhaust)
  then have q: "quiet_site s s'" by (rule g_keepsD [OF resolve_quiet])
  show ?thesis
  proof (cases r)
    case (Inl e)
    then show ?thesis
      using Inr r qs.trans [OF q unresolved_quiet [of s' env "Some (rq_correlation_id request)" e]]
      by (auto simp: execute_open_def split: prod.split)
  next
    case (Inr ctx)
    then show ?thesis using \<open>rbind _ _ = Inr request\<close> r q by (simp add: execute_open_def)
  qed
qed

section \<open>Operations on the ledger\<close>

text \<open>\<open>ledger_keys\<close> names the rows of the ledger.  \<open>recorded\<close>: the operation keeps runs and handler calls, and no row is renamed.\<close>

definition ledger_keys :: "site \<Rightarrow> string list" where
  "ledger_keys s = map fst (db_invocations (si_db s))"

definition same_keys :: "site \<Rightarrow> site \<Rightarrow> bool" where
  "same_keys s s' \<longleftrightarrow> db_runs (si_db s') = db_runs (si_db s) \<and> ledger_keys s' = ledger_keys s \<and> si_calls s' = si_calls s"

interpretation sk: site_relation same_keys
  by unfold_locales (simp_all add: same_keys_def)

lemma quiet_same_keys: "quiet_site s s' \<Longrightarrow> same_keys s s'"
  by (simp add: quiet_site_def same_keys_def ledger_keys_def)

lemma keeps_mono: "g_keeps R m \<Longrightarrow> (\<And>s s'. R s s' \<Longrightarrow> R' s s') \<Longrightarrow> g_keeps R' m"
  by (simp add: g_keeps_def)

lemmas now_same_keys = keeps_mono [OF now_quiet quiet_same_keys]

lemma dict_set_same_keys: "k \<in> set (map fst d) \<Longrightarrow> map fst (dict_set d k v) = map fst d"
  by (induction d) force+

text \<open>Completing a reservation never adds a row: it saves the row it has found.\<close>

lemma complete_same_keys: "same_keys s (snd (complete_invocation env r response s))"
proof (cases "rs_cached_response r")
  case (Some c)
  then show ?thesis by (simp add: complete_invocation_def g_return_def sk.refl)
next
  case None
  show ?thesis
  proof (cases "bounded_response (ge_lib env) response")
    case (Inl e)
    with None show ?thesis by (simp add: complete_invocation_def g_bind_def g_lift_def sk.refl)
  next
    case (Inr p)
    then obtain safe d where p: "bounded_response (ge_lib env) response = Inr (safe, d)" by (cases p) simp
    show ?thesis
    proof (cases "map_of (db_invocations (si_db s)) (rs_invocation_id r)")
      case None
      with \<open>rs_cached_response r = None\<close> p show ?thesis
        by (simp add: complete_invocation_def g_bind_def g_lift_def find_invocation_def g_raise_def sk.refl)
    next
      case (Some doc)
      with \<open>rs_cached_response r = None\<close> p show ?thesis
        by (force simp: complete_invocation_def g_bind_def g_lift_def g_return_def find_invocation_def g_raise_def
            now_datetime_def save_invocation_def same_keys_def ledger_keys_def validate_invocation_def
            intro!: dict_set_same_keys dest: map_of_SomeD split: sum.split)
    qed
  qed
qed

lemma complete_same_keysD: "complete_invocation env r response s = (x, s') \<Longrightarrow> same_keys s s'"
  using complete_same_keys [of s env r response] by simp

section \<open>Dispatch and reservation\<close>

lemma g_bind_step: "m s = (Inr x, s') \<Longrightarrow> g_bind m f s = f x s'"
  by (simp add: g_bind_def)

lemma g_bind_fails: "m s = (Inl e, s') \<Longrightarrow> g_bind m f s = (Inl e, s')"
  by (simp add: g_bind_def)

lemma g_bind_lift: "g_bind (g_lift r) f s = (case r of Inl e \<Rightarrow> (Inl e, s) | Inr x \<Rightarrow> f x s)"
  by (cases r) (simp_all add: g_bind_def g_lift_def)

lemma g_bind_reject: "g_bind (g_reject b e) f s = (if b then (Inl e, s) else f () s)"
  by (simp add: g_bind_def g_reject_def g_raise_def g_return_def)

lemma g_bind_now: "g_bind (now_datetime env) f s = f (ge_clock env (si_ticks s)) (s\<lparr>si_ticks := Suc (si_ticks s)\<rparr>)"
  by (simp add: g_bind_def now_datetime_def)

lemma g_bind_insert_run:
  "g_bind (insert_run run) f s =
     (if ar_name run \<in> set (map fst (db_runs (si_db s))) then (Inl (OtherError ''DuplicateEntryError''), s)
      else f () (s\<lparr>si_db := (si_db s)\<lparr>db_runs := db_runs (si_db s) @ [(ar_name run, run)]\<rparr>\<rparr>))"
  by (simp add: g_bind_def insert_run_def)

lemmas g_eval = g_bind_def g_lift_def g_return_def g_raise_def g_reject_def now_datetime_def find_run_def

text \<open>A dispatch calls the handler once, under the request's own ledger entry, or not at all; it calls it only after the
  tool was found, the run re-checked and the input parsed.\<close>

definition dispatched :: "genv \<Rightarrow> tools \<Rightarrow> GatewayRequest \<Rightarrow> RunContext \<Rightarrow> site \<Rightarrow> handler_call \<Rightarrow> bool" where
  "dispatched env tools request ctx s c \<longleftrightarrow>
     (\<exists>spec input s'. map_of tools (tc_name (rq_tool request), tc_version (rq_tool request)) = Some spec \<and>
        recheck_run_scope env ctx (sp_required_doctypes spec) s = (Inr (), s') \<and>
        parse_tool_input (tc_input (rq_tool request)) (sp_input_fields spec) (sp_max_page_size spec) = Inr input \<and>
        c = \<lparr>hc_run = ctx, hc_invocation = rq_invocation_id request, hc_tool = (sp_name spec, sp_version spec), hc_input = input\<rparr>)"

definition after_call :: "handler_call \<Rightarrow> site \<Rightarrow> site \<Rightarrow> bool" where
  "after_call c s s' \<longleftrightarrow> db_runs (si_db s') = db_runs (si_db s) \<and> ledger_keys s' = ledger_keys s \<and> si_calls s' = si_calls s @ [c]"

lemma after_call_keys: "after_call c s t \<Longrightarrow> same_keys t u \<Longrightarrow> after_call c s u"
  and same_keys_call: "same_keys s t \<Longrightarrow> after_call c t u \<Longrightarrow> after_call c s u"
  by (simp_all add: after_call_def same_keys_def)

lemma dispatch_checks_quiet: "g_keeps quiet_site (dispatch_checks env request ctx spec input res)"
  unfolding dispatch_checks_def
  by (intro qs.bind_keeps qs.reject_keeps qs.prod_keeps)
    (auto intro!: qs.monad_keeps now_quiet split: pyval.split)

lemma dispatch_unfold:
  "gateway_dispatch env tools request ctx s =
     (case get_tool_spec tools (tc_name (rq_tool request)) (tc_version (rq_tool request)) of
        Inl e \<Rightarrow> (Inl e, s)
      | Inr spec \<Rightarrow> g_bind (recheck_run_scope env ctx (sp_required_doctypes spec)) (\<lambda>_ s'.
          case parse_tool_input (tc_input (rq_tool request)) (sp_input_fields spec) (sp_max_page_size spec) of
            Inl e \<Rightarrow> (Inl e, s')
          | Inr input \<Rightarrow> g_bind (call_handler spec request ctx input) (dispatch_checks env request ctx spec input) s') s)"
  by (simp add: gateway_dispatch_def g_bind_lift [abs_def] split: sum.split)

lemma dispatch_effect:
  assumes "gateway_dispatch env tools request ctx s = (r, s')"
  shows "same_keys s s' \<or> (\<exists>c. dispatched env tools request ctx s c \<and> after_call c s s')"
proof (cases "get_tool_spec tools (tc_name (rq_tool request)) (tc_version (rq_tool request))")
  case (Inl e)
  with assms show ?thesis by (simp add: dispatch_unfold sk.refl)
next
  case (Inr spec)
  obtain rr t where t: "recheck_run_scope env ctx (sp_required_doctypes spec) s = (rr, t)" by (rule prod.exhaust)
  then have q: "same_keys s t" using g_keepsD [OF recheck_quiet] quiet_same_keys by blast
  show ?thesis
  proof (cases rr)
    case (Inl e)
    with assms Inr t q show ?thesis by (simp add: dispatch_unfold g_bind_fails)
  next
    case (Inr u)
    note rr = this
    show ?thesis
    proof (cases "parse_tool_input (tc_input (rq_tool request)) (sp_input_fields spec) (sp_max_page_size spec)")
      case (Inl e)
      with assms \<open>get_tool_spec _ _ _ = Inr spec\<close> t q rr show ?thesis by (simp add: dispatch_unfold g_bind_step)
    next
      case (Inr input)
      let ?c = "\<lparr>hc_run = ctx, hc_invocation = rq_invocation_id request, hc_tool = (sp_name spec, sp_version spec), hc_input = input\<rparr>"
      from Inr t rr \<open>get_tool_spec _ _ _ = Inr spec\<close> have c: "dispatched env tools request ctx s ?c"
        by (auto simp: dispatched_def get_tool_spec_def split: option.splits)
      from assms \<open>get_tool_spec _ _ _ = Inr spec\<close> t rr Inr
      have d: "g_bind (call_handler spec request ctx input) (dispatch_checks env request ctx spec input) t = (r, s')"
        by (simp add: dispatch_unfold g_bind_step)
      obtain h u where h: "call_handler spec request ctx input t = (h, u)" by (rule prod.exhaust)
      then have a: "after_call ?c t u" by (auto simp: call_handler_def after_call_def ledger_keys_def)
      have "same_keys u s'"
      proof (cases h)
        case (Inl e)
        with d h show ?thesis by (simp add: g_bind_fails sk.refl)
      next
        case (Inr res)
        with d h have "dispatch_checks env request ctx spec input res u = (r, s')" by (simp add: g_bind_step)
        then show ?thesis using g_keepsD [OF dispatch_checks_quiet] quiet_same_keys by blast
      qed
      with a q have "after_call ?c s s'" using same_keys_call after_call_keys by blast
      with c show ?thesis by blast
    qed
  qed
qed

text \<open>The commit of a reservation: one new row, in state \<open>STARTED\<close>.\<close>

definition started :: "string \<Rightarrow> site \<Rightarrow> site \<Rightarrow> bool" where
  "started i s s' \<longleftrightarrow> db_runs (si_db s') = db_runs (si_db s) \<and> si_calls s' = si_calls s \<and> i \<notin> set (ledger_keys s) \<and>
     (\<exists>doc. db_invocations (si_db s') = db_invocations (si_db s) @ [(i, doc)] \<and> ti_status doc = ''STARTED'')"

lemma started_keys: "started i s s' \<Longrightarrow> ledger_keys s' = ledger_keys s @ [i]"
  by (auto simp: started_def ledger_keys_def)

lemma quiet_started: "quiet_site s t \<Longrightarrow> started i t u \<Longrightarrow> started i s u"
  and started_quiet: "started i s t \<Longrightarrow> quiet_site t u \<Longrightarrow> started i s u"
  by (simp_all add: quiet_site_def started_def ledger_keys_def)

lemma existing_cached: "existing_reservation lib doc d = Inr r \<Longrightarrow> \<exists>c. rs_cached_response r = Some c"
  by (auto simp: existing_reservation_def result_simps split: if_splits)

lemma metadata_identity:
  "validate_workflow_metadata lib request = Inr (i, v, t, d) \<Longrightarrow>
     rq_invocation_id request = Some i \<and> rq_args_digest request = Some d"
  by (auto simp: validate_workflow_metadata_def result_simps split: option.splits if_splits)

text \<open>The part of \<open>reserve_invocation\<close> that follows the checks.\<close>

definition reserve_row :: "genv \<Rightarrow> GatewayRequest \<Rightarrow> RunContext \<Rightarrow> string \<Rightarrow> int \<Rightarrow> string \<Rightarrow> string \<Rightarrow> int \<Rightarrow> tool_invocation" where
  "reserve_row env request ctx identity plan_version step_id digest now =
     \<lparr>ti_invocation_id = identity, ti_run = rc_run_id ctx, ti_initiator = rc_initiator ctx,
      ti_plan_version = plan_version, ti_step_id = step_id, ti_tool_name = tc_name (rq_tool request),
      ti_tool_version = tc_version (rq_tool request), ti_args_digest = digest, ti_status = ''STARTED'',
      ti_started_at = now, ti_correlation_id = rq_correlation_id request,
      ti_response_json = None, ti_observation_digest = None, ti_completed_at = None\<rparr>"

lemma reserve_unfold:
  assumes "rq_invocation_id request = Some i"
  shows "reserve_invocation env tools request ctx s =
    (case validate_workflow_metadata (ge_lib env) request of
       Inl e \<Rightarrow> (Inl e, s)
     | Inr (identity, plan_version, step_id, digest) \<Rightarrow>
         (case get_tool_spec tools (tc_name (rq_tool request)) (tc_version (rq_tool request)) of
            Inl e \<Rightarrow> (Inl e, s)
          | Inr spec \<Rightarrow>
              (case recheck_run_scope env ctx (sp_required_doctypes spec) s of
                 (Inl e, s') \<Rightarrow> (Inl e, s')
               | (Inr u, s') \<Rightarrow>
                   (case map_of (db_invocations (si_db s')) identity of
                      Some doc \<Rightarrow> (rbind (existing_reservation (ge_lib env) doc digest) (\<lambda>r. Inr (Some r)), s')
                    | None \<Rightarrow>
                        (Inr (Some \<lparr>rs_invocation_id = identity, rs_cached_response = None\<rparr>),
                         s'\<lparr>si_ticks := Suc (si_ticks s'),
                           si_db := (si_db s')\<lparr>db_invocations := db_invocations (si_db s') @
                             [(identity, reserve_row env request ctx identity plan_version step_id digest (ge_clock env (si_ticks s')))]\<rparr>\<rparr>)))))"
proof -
  have fresh: "k \<in> fst ` set d \<longleftrightarrow> map_of d k \<noteq> None" for d :: "(string \<times> tool_invocation) list" and k
    by (simp add: map_of_eq_None_iff)
  show ?thesis using assms
    by (auto simp: reserve_invocation_def g_bind_lift g_bind_def g_try_def g_return_def g_lift_def find_invocation_def now_datetime_def
        insert_invocation_def reserve_row_def rbind_def fresh split: sum.split prod.split option.split)
qed

lemma reserve_effect:
  assumes "reserve_invocation env tools request ctx s = (r, s')"
  shows "quiet_site s s' \<and>
      (\<forall>x. r = Inr x \<longrightarrow> (x = None \<and> rq_invocation_id request = None) \<or> (\<exists>v. x = Some v \<and> rs_cached_response v \<noteq> None)) \<or>
    (\<exists>i. r = Inr (Some \<lparr>rs_invocation_id = i, rs_cached_response = None\<rparr>) \<and> rq_invocation_id request = Some i \<and> started i s s')"
proof (cases "rq_invocation_id request")
  case None
  with assms show ?thesis
    by (auto simp: reserve_invocation_def g_bind_reject g_return_def quiet_site_def split: if_splits)
next
  case (Some i)
  note u = reserve_unfold [OF Some, of env tools ctx s]
  show ?thesis
  proof (cases "validate_workflow_metadata (ge_lib env) request")
    case (Inl e)
    with assms u show ?thesis by (auto simp: qs.refl)
  next
    case (Inr p)
    then obtain v t d where p: "validate_workflow_metadata (ge_lib env) request = Inr (i, v, t, d)"
      using metadata_identity [of "ge_lib env" request] Some by (cases p) auto
    show ?thesis
    proof (cases "get_tool_spec tools (tc_name (rq_tool request)) (tc_version (rq_tool request))")
      case (Inl e)
      with assms u p show ?thesis by (auto simp: qs.refl)
    next
      case (Inr spec)
      obtain rr w where w: "recheck_run_scope env ctx (sp_required_doctypes spec) s = (rr, w)" by (rule prod.exhaust)
      then have q: "quiet_site s w" by (rule g_keepsD [OF recheck_quiet])
      show ?thesis
      proof (cases "\<exists>e. rr = Inl e \<or> map_of (db_invocations (si_db w)) i \<noteq> None")
        case True
        with assms u p Inr w q show ?thesis
          by (cases rr) (auto simp: result_simps dest!: existing_cached)
      next
        case False
        then have n: "map_of (db_invocations (si_db w)) i = None" and rr: "rr = Inr ()" by (cases rr; auto)+
        from n have "i \<notin> set (ledger_keys w)" by (simp add: map_of_eq_None_iff ledger_keys_def)
        with assms u p Inr w rr n have "started i w s'"
          by (auto simp: started_def reserve_row_def)
        with q have "started i s s'" by (rule quiet_started)
        with assms u p Inr w rr n Some show ?thesis by auto
      qed
    qed
  qed
qed

text \<open>The two later pieces of \<open>execute\<close>.\<close>

lemma execute_reserve_effect:
  assumes "execute_reserve env tools request ctx s = (p, s')"
  shows "quiet_site s s' \<and> (\<forall>x. p = Proceed x \<longrightarrow> x = None \<and> rq_invocation_id request = None) \<or>
    (\<exists>i. p = Proceed (Some \<lparr>rs_invocation_id = i, rs_cached_response = None\<rparr>) \<and> rq_invocation_id request = Some i \<and> started i s s')"
proof -
  obtain r t where r: "reserve_invocation env tools request ctx s = (r, t)" by (rule prod.exhaust)
  from reserve_effect [OF r] show ?thesis
  proof (elim disjE conjE exE)
    assume q: "quiet_site s t" and x: "\<forall>x. r = Inr x \<longrightarrow> x = None \<and> rq_invocation_id request = None \<or> (\<exists>v. x = Some v \<and> rs_cached_response v \<noteq> None)"
    show ?thesis
    proof (cases r)
      case (Inl e)
      with assms r q show ?thesis by (auto simp: execute_reserve_def split: prod.splits dest!: failed_quietD intro: qs.trans)
    next
      case (Inr y)
      show ?thesis
      proof (cases y)
        case None
        with Inr x assms r q show ?thesis by (auto simp: execute_reserve_def)
      next
        case (Some v)
        with Inr x obtain c where "rs_cached_response v = Some c" by auto
        with Inr Some assms r q show ?thesis by (auto simp: execute_reserve_def split: prod.splits dest!: success_quietD intro: qs.trans)
      qed
    qed
  next
    fix i assume "r = Inr (Some \<lparr>rs_invocation_id = i, rs_cached_response = None\<rparr>)" "rq_invocation_id request = Some i" "started i s t"
    with assms r show ?thesis by (auto simp: execute_reserve_def)
  qed
qed

lemma finish_after_dispatch:
  assumes "execute_finish env tools request ctx reservation s = (resp, s')" and d: "gateway_dispatch env tools request ctx s = (d, t)"
  shows "same_keys t s'"
proof -
  let ?k = "\<lambda>body. case reservation of None \<Rightarrow> g_return body | Some r \<Rightarrow> complete_invocation env r body"
  obtain r u where r: "g_bind (gateway_dispatch env tools request ctx) ?k s = (r, u)" by (rule prod.exhaust)
  have "same_keys t u"
  proof (cases d)
    case (Inl e)
    with d r show ?thesis by (simp add: g_bind_fails sk.refl)
  next
    case (Inr body)
    with d r have "?k body t = (r, u)" by (simp add: g_bind_step)
    then show ?thesis by (cases reservation) (auto simp: g_return_def sk.refl dest: complete_same_keysD)
  qed
  moreover have "same_keys u s'"
    using assms r
    by (cases r) (auto simp: execute_finish_def intro!: quiet_same_keys dest: failed_quietD success_quietD)
  ultimately show ?thesis by (rule sk.trans)
qed

lemma execute_finish_effect:
  assumes "execute_finish env tools request ctx reservation s = (resp, s')"
  shows "same_keys s s' \<or> (\<exists>c. dispatched env tools request ctx s c \<and> after_call c s s')"
proof -
  obtain d t where d: "gateway_dispatch env tools request ctx s = (d, t)" by (rule prod.exhaust)
  note k = finish_after_dispatch [OF assms d]
  from dispatch_effect [OF d] show ?thesis
    using sk.trans [OF _ k] after_call_keys [OF _ k] by blast
qed

end
