(* ===== verification/Gateway_Concurrency.thy ===== *)
theory Gateway_Concurrency
  imports Gateway_Frames "HOL-Library.Multiset"
begin

text \<open>
  The gateway under load.  Requests run at the same time, cut at the commits of \<open>execute\<close>; a worker may die at any
  point; users issue, rotate, revoke, cancel and expire runs meanwhile, and other services change runs as a relation \<open>others\<close> allows.
  Within one piece the lock on the run's row (\<open>FOR UPDATE\<close>) keeps requests of the same run apart.
\<close>

section \<open>Steps\<close>

text \<open>A request in flight: past \<open>execute_open\<close>, or past \<open>execute_reserve\<close>.\<close>

datatype in_flight =
    Opened GatewayRequest RunContext
  | Reserved GatewayRequest RunContext "InvocationReservation option"

text \<open>The operations of \<open>security.py\<close> on runs; a rotation acts on the row as it is.\<close>

inductive run_op :: "site \<Rightarrow> site \<Rightarrow> bool" where
  op_issue: "issue_run env company goal warehouse days cid mode purpose s = (r, s') \<Longrightarrow> run_op s s'"
| op_revoke: "revoke_run env run_id cid s = (r, s') \<Longrightarrow> run_op s s'"
| op_cancel: "cancel_run env run_id cid s = (r, s') \<Longrightarrow> run_op s s'"
| op_expire: "expire_run env run_id cid s = (r, s') \<Longrightarrow> run_op s s'"
| op_rotate: "map_of (db_runs (si_db s)) n = Some run \<Longrightarrow> rotate_run_capability env run s = (r, s') \<Longrightarrow> run_op s s'"

type_synonym run_table = "(string \<times> agent_run) list"

inductive gstep :: "(run_table \<Rightarrow> run_table \<Rightarrow> bool) \<Rightarrow> tools \<Rightarrow> in_flight multiset \<times> site \<Rightarrow> in_flight multiset \<times> site \<Rightarrow> bool"
  for others tools where
  g_open: "execute_open env payload s = (Proceed (rq, ctx), s') \<Longrightarrow> gstep others tools (P, s) (add_mset (Opened rq ctx) P, s')"
| g_refuse: "execute_open env payload s = (Answered r, s') \<Longrightarrow> gstep others tools (P, s) (P, s')"
| g_reserve: "execute_reserve env tools rq ctx s = (Proceed v, s') \<Longrightarrow>
    gstep others tools (add_mset (Opened rq ctx) P, s) (add_mset (Reserved rq ctx v) P, s')"
| g_answer: "execute_reserve env tools rq ctx s = (Answered r, s') \<Longrightarrow> gstep others tools (add_mset (Opened rq ctx) P, s) (P, s')"
| g_finish: "execute_finish env tools rq ctx v s = (r, s') \<Longrightarrow> gstep others tools (add_mset (Reserved rq ctx v) P, s) (P, s')"
| g_die: "gstep others tools (add_mset p P, s) (P, s)"
| g_die_late: "execute_finish env tools rq ctx v s = (r, s') \<Longrightarrow>
    gstep others tools (add_mset (Reserved rq ctx v) P, s) (P, s\<lparr>si_calls := si_calls s'\<rparr>)"
| g_user: "run_op s s' \<Longrightarrow> gstep others tools (P, s) (P, s')"
| g_other: "others (db_runs (si_db s)) runs \<Longrightarrow> gstep others tools (P, s) (P, s\<lparr>si_db := (si_db s)\<lparr>db_runs := runs\<rparr>\<rparr>)"

inductive gsteps :: "(run_table \<Rightarrow> run_table \<Rightarrow> bool) \<Rightarrow> tools \<Rightarrow> in_flight multiset \<times> site \<Rightarrow> in_flight multiset \<times> site \<Rightarrow> bool"
  for others tools where
  gsteps_refl: "gsteps others tools c c"
| gsteps_step: "gsteps others tools c d \<Longrightarrow> gstep others tools d e \<Longrightarrow> gsteps others tools c e"

section \<open>What user operations do to runs\<close>

definition live :: "agent_run \<Rightarrow> bool" where
  "live run \<longleftrightarrow> ar_status run = ''ACTIVE'' \<and> \<not> ar_revoked run"

text \<open>A run that is changed was live.  Its identity stays; either it gets a new capability, or it is closed for good by someone who is
  named, with the next version.\<close>

definition run_moves :: "agent_run \<Rightarrow> agent_run \<Rightarrow> bool" where
  "run_moves run new \<longleftrightarrow> live run \<and> ar_name new = ar_name run \<and> \<not> run_identity_changed run new \<and> ar_p2p_goal new = ar_p2p_goal run \<and>
     (\<not> run_lifecycle_changed run new \<and> ar_run_state run = ''ANALYZING'' \<or>
      \<not> run_capability_changed run new \<and> ar_revoked new \<and> ar_status new \<in> {''REVOKED'', ''EXPIRED''} \<and>
      ar_state_version new = ar_state_version run + 1 \<and> ar_revoked_by new \<noteq> None \<and> ar_revoked_at new \<noteq> None \<and>
      (ar_run_state new = ar_run_state run \<or> run_validate_transition (ar_run_state run) (ar_run_state new) = Inr ()))"

definition run_saved :: "agent_run \<Rightarrow> agent_run \<Rightarrow> site \<Rightarrow> site \<Rightarrow> bool" where
  "run_saved run new s s' \<longleftrightarrow> db_runs (si_db s') = dict_set (db_runs (si_db s)) (ar_name run) new \<and>
     db_invocations (si_db s') = db_invocations (si_db s) \<and> si_calls s' = si_calls s"

lemma quiet_saved: "quiet_site s t \<Longrightarrow> run_saved run new t u \<Longrightarrow> run_saved run new s u"
  by (simp add: quiet_site_def run_saved_def)

lemma load_own_run_ok:
  "load_own_run env run_id s = (r, s') \<Longrightarrow> s' = s \<and> (\<forall>run. r = Inr run \<longrightarrow> map_of (db_runs (si_db s)) run_id = Some run \<and>
     (ge_user env = ar_initiator run \<or> ''System Manager'' \<in> set (ge_roles env (ge_user env))))"
  by (auto simp: load_own_run_def g_eval split: option.splits if_splits)

text \<open>\<open>changes\<close>: the operation leaves the tables alone, or saves the row named \<open>run_id\<close> by a move.\<close>

definition changes :: "agent_run \<Rightarrow> site \<Rightarrow> site \<Rightarrow> bool" where
  "changes run s s' \<longleftrightarrow> quiet_site s s' \<or> (\<exists>new. run_moves run new \<and> run_saved run new s s')"

lemma changes_quiet: "quiet_site s t \<Longrightarrow> changes run t u \<Longrightarrow> changes run s u"
  unfolding changes_def using qs.trans quiet_saved by blast

lemma changes_refl [simp]: "changes run s s"
  by (simp add: changes_def qs.refl)

lemma close_changes:
  assumes "live run" and "st \<in> {''REVOKED'', ''EXPIRED''}"
  shows "changes run s (snd (close_run env rs st cid run s))"
proof (cases "run_validate_transition (ar_run_state run) rs")
  case (Inl e)
  then show ?thesis by (simp add: close_run_def g_bind_lift)
next
  case (Inr u)
  let ?new = "run\<lparr>ar_run_state := rs, ar_revoked := True, ar_status := st, ar_revoked_at := Some (ge_clock env (si_ticks s)),
    ar_revoked_by := Some (ge_user env), ar_revocation_correlation_id := Some cid, ar_state_version := ar_state_version run + 1\<rparr>"
  have "run_moves run ?new"
    using assms Inr by (simp add: run_moves_def run_identity_changed_def run_capability_changed_def)
  moreover have "run_saved run ?new s (snd (close_run env rs st cid run s))"
    using Inr by (simp add: close_run_def g_eval save_run_def validate_agent_run_def no_flags_def
        run_identity_changed_def run_capability_changed_def run_saved_def)
  ultimately show ?thesis unfolding changes_def by blast
qed

lemma expire_loaded_changes: "changes run s (snd (expire_loaded_run env run cid s))"
  using close_changes [of run "''EXPIRED''" s env "''EXPIRED''" cid]
  by (auto simp: expire_loaded_run_def g_bind_reject live_def)

text \<open>An operation on the row named \<open>run_id\<close>, if there is one.\<close>

definition changes_at :: "string \<Rightarrow> site \<Rightarrow> site \<Rightarrow> bool" where
  "changes_at run_id s s' \<longleftrightarrow> quiet_site s s' \<or> (\<exists>run. map_of (db_runs (si_db s)) run_id = Some run \<and> changes run s s')"

lemma on_loaded:
  assumes "\<And>run. map_of (db_runs (si_db s)) run_id = Some run \<Longrightarrow> changes run s (snd (f run s))"
  shows "changes_at run_id s (snd (g_bind (load_own_run env run_id) f s))"
proof -
  obtain r t where "load_own_run env run_id s = (r, t)" by (rule prod.exhaust)
  with load_own_run_ok [OF this] assms show ?thesis
    by (cases r) (auto simp: g_bind_fails g_bind_step changes_at_def qs.refl)
qed

lemma revoke_changes: "changes_at run_id s (snd (revoke_run env run_id cid s))"
  unfolding revoke_run_def
proof (rule on_loaded)
  fix run :: agent_run
  let ?new = "run\<lparr>ar_revoked := True, ar_status := ''REVOKED'', ar_revoked_at := Some (ge_clock env (si_ticks s)),
    ar_revoked_by := Some (ge_user env), ar_revocation_correlation_id := Some cid, ar_state_version := ar_state_version run + 1\<rparr>"
  show "changes run s (snd (revoke_loaded_run env cid run s))"
  proof (cases "live run")
    case False
    then show ?thesis by (auto simp: revoke_loaded_run_def g_bind_reject live_def)
  next
    case True
    then have "run_moves run ?new" by (simp add: run_moves_def run_identity_changed_def run_capability_changed_def)
    moreover from True have "run_saved run ?new s (snd (revoke_loaded_run env cid run s))"
      by (simp add: revoke_loaded_run_def live_def g_eval save_run_def validate_agent_run_def no_flags_def run_identity_changed_def
          run_capability_changed_def run_saved_def)
    ultimately show ?thesis unfolding changes_def by blast
  qed
qed

text \<open>A quiet question first, then an operation that depends on its answer.\<close>

lemma after_question:
  assumes "g_keeps quiet_site m" and "\<And>x t. changes run t (snd (f x t))"
  shows "changes run s (snd (g_bind m f s))"
proof -
  obtain r t where r: "m s = (r, t)" by (rule prod.exhaust)
  with assms(1) have q: "quiet_site s t" by (rule g_keepsD)
  with r show ?thesis
    using changes_quiet [OF q assms(2)] by (cases r) (simp_all add: g_bind_fails g_bind_step changes_def)
qed

lemma cancel_loaded_changes: "changes run s (snd (cancel_loaded_run env cid run expired s))"
  using expire_loaded_changes [of run s env cid] close_changes [of run "''REVOKED''" s env "''CANCELLED''" cid]
  by (auto simp: cancel_loaded_run_def g_bind_reject live_def)

lemma cancel_changes: "changes_at run_id s (snd (cancel_run env run_id cid s))"
  unfolding cancel_run_def
  by (intro on_loaded after_question cancel_loaded_changes qs.monad_keeps run_expired_quiet)

lemma expire_changes: "changes_at run_id s (snd (expire_run env run_id cid s))"
  unfolding expire_run_def
  by (intro on_loaded after_question expire_loaded_changes qs.monad_keeps run_expired_quiet)

lemma rotate_changes: "changes run s (snd (rotate_run_capability env run s))"
proof (cases "live run \<and> ar_run_state run = ''ANALYZING''")
  case False
  then show ?thesis by (auto simp: rotate_run_capability_def g_bind_reject live_def)
next
  case True
  have "changes run t (snd (rotate_unexpired_run env run x t))" for x t
  proof (cases x)
    case False
    let ?new = "run\<lparr>ar_capability_digest := capability_digest (ge_lib env) (ar_name run) (ge_token env),
      ar_issued_at := ge_clock env (si_ticks t), ar_expires_at := ge_clock env (si_ticks t) + CAPABILITY_TTL\<rparr>"
    from True have "run_moves run ?new" by (simp add: run_moves_def run_identity_changed_def run_lifecycle_changed_def)
    moreover from False have "run_saved run ?new t (snd (rotate_unexpired_run env run x t))"
      by (simp add: rotate_unexpired_run_def g_eval save_run_def validate_agent_run_def no_flags_def run_identity_changed_def
          run_lifecycle_changed_def run_saved_def)
    ultimately show ?thesis unfolding changes_def by blast
  qed (simp add: rotate_unexpired_run_def g_bind_reject)
  from after_question [OF run_expired_quiet this] True show ?thesis
    by (auto simp: rotate_run_capability_def g_bind_reject live_def)
qed

lemma issue_effect:
  assumes "issue_run env company goal warehouse days cid mode purpose s = (r, s')"
  shows "quiet_site s s' \<or> (\<exists>run. live run \<and> ar_name run \<notin> set (map fst (db_runs (si_db s))) \<and>
    db_runs (si_db s') = db_runs (si_db s) @ [(ar_name run, run)] \<and>
    db_invocations (si_db s') = db_invocations (si_db s) \<and> si_calls s' = si_calls s)"
  using assms
  by (auto simp: issue_run_def g_bind_reject Let_def g_bind_now g_bind_insert_run g_return_def quiet_site_def live_def
      split: if_splits)

section \<open>Runs evolve\<close>

definition rows_named :: "run_table \<Rightarrow> bool" where
  "rows_named runs \<longleftrightarrow> (\<forall>n run. map_of runs n = Some run \<longrightarrow> ar_name run = n)"

definition runs_evolve :: "run_table \<Rightarrow> run_table \<Rightarrow> bool" where
  "runs_evolve runs runs' \<longleftrightarrow> rows_named runs' \<and>
     (\<forall>n run. map_of runs n = Some run \<longrightarrow> (\<exists>new. map_of runs' n = Some new \<and> (new = run \<or> run_moves run new)))"

lemma changes_evolve:
  assumes "changes_at n s s'" and "rows_named (db_runs (si_db s))"
  shows "runs_evolve (db_runs (si_db s)) (db_runs (si_db s'))"
proof -
  have same: "runs_evolve (db_runs (si_db s)) (db_runs (si_db s'))" if "quiet_site s s'"
    using that assms(2) by (simp add: runs_evolve_def quiet_site_def)
  from assms(1) consider "quiet_site s s'" | run new where "map_of (db_runs (si_db s)) n = Some run" "run_moves run new" "run_saved run new s s'"
    unfolding changes_at_def changes_def by blast
  then show ?thesis
  proof cases
    case 2
    with assms(2) have "ar_name run = n" "ar_name new = n" by (auto simp: rows_named_def run_moves_def)
    with 2 assms(2) show ?thesis by (auto simp: runs_evolve_def rows_named_def run_saved_def map_of_dict_set)
  qed (rule same)
qed

lemma changes_keep: "changes_at n s s' \<Longrightarrow> db_invocations (si_db s') = db_invocations (si_db s) \<and> si_calls s' = si_calls s"
  by (auto simp: changes_at_def changes_def quiet_site_def run_saved_def)

lemma run_op_cases:
  assumes "run_op s s'"
  obtains n where "changes_at n s s'"
  | run where "live run" "ar_name run \<notin> set (map fst (db_runs (si_db s)))" "db_runs (si_db s') = db_runs (si_db s) @ [(ar_name run, run)]"
      "db_invocations (si_db s') = db_invocations (si_db s)" "si_calls s' = si_calls s"
  using assms
proof cases
  case (op_issue env company goal warehouse days cid mode purpose r)
  from issue_effect [OF this] that show ?thesis unfolding changes_at_def by blast
next
  case (op_revoke env run_id cid r)
  with that(1) revoke_changes [of run_id s env cid] show ?thesis by simp
next
  case (op_cancel env run_id cid r)
  with that(1) cancel_changes [of run_id s env cid] show ?thesis by simp
next
  case (op_expire env run_id cid r)
  with that(1) expire_changes [of run_id s env cid] show ?thesis by simp
next
  case (op_rotate n run env r)
  with that(1) [of n] rotate_changes [of run s env] show ?thesis unfolding changes_at_def by auto
qed

lemma run_op_keeps: "run_op s s' \<Longrightarrow> db_invocations (si_db s') = db_invocations (si_db s) \<and> si_calls s' = si_calls s"
  by (erule run_op_cases) (auto dest: changes_keep)

lemma run_op_evolves:
  assumes "run_op s s'" and "rows_named (db_runs (si_db s))"
  shows "runs_evolve (db_runs (si_db s)) (db_runs (si_db s'))"
  using assms(1)
proof (cases rule: run_op_cases)
  case (1 n)
  with assms(2) show ?thesis by (intro changes_evolve)
next
  case (2 run)
  then have "map_of (db_runs (si_db s)) (ar_name run) = None" by (simp add: map_of_eq_None_iff)
  with 2 assms(2) show ?thesis
    by (auto simp: runs_evolve_def rows_named_def map_add_def split: option.splits)
qed

section \<open>At most one handler call per invocation\<close>

definition called_ids :: "site \<Rightarrow> string list" where
  "called_ids s = List.map_filter hc_invocation (si_calls s)"

fun reserved_id :: "in_flight \<Rightarrow> string multiset" where
  "reserved_id (Opened rq ctx) = {#}"
| "reserved_id (Reserved rq ctx v) = (case rq_invocation_id rq of None \<Rightarrow> {#} | Some i \<Rightarrow> {#i#})"

definition reserved_ids :: "in_flight multiset \<Rightarrow> string multiset" where
  "reserved_ids P = (\<Sum>p\<in>#P. reserved_id p)"

lemma reserved_ids_add [simp]: "reserved_ids (add_mset p P) = reserved_id p + reserved_ids P"
  by (simp add: reserved_ids_def)

text \<open>Every call made and every call that may still be made has a ledger row of its own.\<close>

definition ledger_covers :: "in_flight multiset \<times> site \<Rightarrow> bool" where
  "ledger_covers c \<longleftrightarrow> distinct (ledger_keys (snd c)) \<and>
     mset (called_ids (snd c)) + reserved_ids (fst c) \<subseteq># mset (ledger_keys (snd c))"

lemma called_ids_after:
  "after_call c s s' \<Longrightarrow> mset (called_ids s') = mset (called_ids s) + (case hc_invocation c of None \<Rightarrow> {#} | Some i \<Rightarrow> {#i#})"
  by (simp add: called_ids_def after_call_def map_filter_def split: option.split)

lemma called_ids_same: "si_calls s' = si_calls s \<Longrightarrow> called_ids s' = called_ids s"
  by (simp add: called_ids_def)

end
