(* ===== verification/Gateway_Replay.thy ===== *)
theory Gateway_Replay
  imports Gateway_Concurrency
begin

text \<open>
  A completed call is answered from the ledger.  Canonical JSON of a value and of its canonical form are the same text, so
  the stored response reads back as the response that was sent, with the digest that was stored; and no step of the
  gateway changes a completed row.
\<close>

section \<open>Canonical text is stable\<close>

lemma dumps_of_jtext: "is_ok (json_dumps v) \<Longrightarrow> json_dumps v = Inr (jtext v)"
  by (simp add: jtext.simps is_ok_def split: sum.splits)

lemma dumps_list_eq:
  assumes "\<And>x. x \<in> set xs \<Longrightarrow> json_dumps (f x) = json_dumps x"
  shows "json_dumps_list (map f xs) = json_dumps_list xs"
  using assms by (induction xs) simp_all

lemma dumps_dict:
  assumes "\<And>p. p \<in> set d \<Longrightarrow> is_ok (json_dumps (snd p))"
  shows "json_dumps (PDict d) = Inr (''{'' @ join '','' (map jpair (sort_key fst d)) @ ''}'')"
proof -
  have "json_dumps_items d = Inr (map (\<lambda>p. (fst p, jtext (snd p))) d)"
    using assms by (intro json_dumps_items_total dumps_of_jtext)
  then show ?thesis by (simp add: sort_key_fst_map jpair_def [abs_def] comp_def)
qed

lemma dumps_canon_eq: "is_ok (json_dumps v) \<Longrightarrow> json_dumps (canon v) = json_dumps v"
proof (induction v)
  case (PList xs)
  then have "json_dumps_list (map canon xs) = json_dumps_list xs"
    by (intro dumps_list_eq) (simp add: json_dumps_ok list_all_iff del: json_dumps.simps)
  then show ?case by (simp add: canon_PList del: canon.simps)
next
  case (PDict d)
  then have each: "\<forall>p \<in> set d. is_ok (json_dumps (snd p))" by (simp add: json_dumps_ok list_all_iff del: json_dumps.simps)
  have ok: "is_ok (json_dumps (snd p))" "json_dumps (canon (snd p)) = json_dumps (snd p)" if "p \<in> set d" for p
  proof -
    show k: "is_ok (json_dumps (snd p))" using that each by blast
    have "snd p \<in> Basic_BNFs.snds p" by (cases p) simp
    from PDict.IH [OF that this k] show "json_dumps (canon (snd p)) = json_dumps (snd p)" .
  qed
  let ?c = "map (\<lambda>p. (fst p, canon (snd p))) (sort_key fst d)"
  have "json_dumps (PDict ?c) = Inr (''{'' @ join '','' (map jpair (sort_key fst ?c)) @ ''}'')"
    using ok by (intro dumps_dict) fastforce
  moreover have "sort_key fst ?c = ?c"
    by (intro sort_key_id_if_sorted) (simp add: comp_def)
  moreover have "map jpair ?c = map jpair (sort_key fst d)"
    by (auto simp: jpair_def jtext.simps ok)
  ultimately show ?case using dumps_dict [OF ok(1)] by (simp only: canon_dict)
qed simp_all

section \<open>Completed rows\<close>

lemma canonical_json_ok: "inv_canonical_json v = Inr t \<longleftrightarrow> json_dumps v = Inr t"
  by (auto simp: inv_canonical_json_def split: sum.splits)

definition published :: "wflib \<Rightarrow> tool_invocation \<Rightarrow> pyval \<Rightarrow> bool" where
  "published lib doc v \<longleftrightarrow> ti_status doc = ''SUCCEEDED'' \<and> load_cached lib doc = Inr v"

lemma completes_published:
  assumes "complete_invocation env r body s = (Inr v, s')" and "rs_cached_response r = None"
    and "map_of (db_invocations (si_db s)) (rs_invocation_id r) = Some doc" and "ti_status doc = ''STARTED''"
    and law: "\<And>t. json_dumps body = Inr t \<Longrightarrow> json_loads (ge_lib env) t = Inr (canon body)"
  shows "\<exists>row. map_of (db_invocations (si_db s')) (rs_invocation_id r) = Some row \<and> published (ge_lib env) row v \<and>
    ti_args_digest row = ti_args_digest doc \<and> v = canon body"
proof -
  obtain safe d where b: "bounded_response (ge_lib env) body = Inr (safe, d)"
    using assms(1,2) by (cases "bounded_response (ge_lib env) body") (auto simp: complete_invocation_def g_bind_lift)
  then obtain t where t: "json_dumps body = Inr t" "length (utf8_encode t) \<le> MAX_RESPONSE_BYTES"
      "safe = canon body" "d = sha256_hex (wf_py (ge_lib env)) (utf8_encode t)" "\<exists>e. canon body = PDict e"
    using law by (cases body) (auto simp: bounded_response_def result_simps canonical_json_ok split: if_splits)
  have c: "json_dumps (canon body) = Inr t" using dumps_canon_eq [of body] t(1) by simp
  let ?row = "doc\<lparr>ti_status := ''SUCCEEDED'', ti_response_json := Some t, ti_observation_digest := Some d,
    ti_completed_at := Some (ge_clock env (si_ticks s))\<rparr>"
  have "v = canon body" "map_of (db_invocations (si_db s')) (rs_invocation_id r) = Some ?row"
    using assms(1-4) b t(3) canonical_json_ok [THEN iffD2, OF c]
    by (auto simp: complete_invocation_def g_eval find_invocation_def save_invocation_def validate_invocation_def map_of_dict_set)
  moreover have "published (ge_lib env) ?row (canon body)"
    using t(2,4,5) law [OF t(1)] canonical_json_ok [THEN iffD2, OF c] by (auto simp: published_def load_cached_def bounded_response_def)
  ultimately show ?thesis by (intro exI [of _ ?row]) simp
qed

section \<open>Rows stay\<close>

definition keeps_published :: "site \<Rightarrow> site \<Rightarrow> bool" where
  "keeps_published s s' \<longleftrightarrow> (\<forall>i row. map_of (db_invocations (si_db s)) i = Some row \<longrightarrow> ti_status row = ''SUCCEEDED'' \<longrightarrow>
     map_of (db_invocations (si_db s')) i = Some row)"

interpretation kp: site_relation keeps_published
  by unfold_locales (auto simp: keeps_published_def)

lemma same_ledger_published: "db_invocations (si_db s') = db_invocations (si_db s) \<Longrightarrow> keeps_published s s'"
  by (simp add: keeps_published_def)

lemma quiet_published: "quiet_site s s' \<Longrightarrow> keeps_published s s'"
  by (intro same_ledger_published) (simp add: quiet_site_def)

lemma started_published: "started i s s' \<Longrightarrow> keeps_published s s'"
  by (auto simp: keeps_published_def started_def map_add_def split: option.split)

lemma complete_published: "complete_invocation env r body s = (x, s') \<Longrightarrow> keeps_published s s'"
proof -
  assume a: "complete_invocation env r body s = (x, s')"
  show ?thesis
  proof (cases "\<exists>doc. rs_cached_response r = None \<and> map_of (db_invocations (si_db s)) (rs_invocation_id r) = Some doc \<and> ti_status doc = ''STARTED''")
    case False
    with a have "quiet_site s s'"
      by (auto simp: complete_invocation_def g_eval find_invocation_def quiet_site_def split: option.splits sum.splits prod.splits if_splits)
    then show ?thesis by (rule quiet_published)
  next
    case True
    then obtain doc where doc: "rs_cached_response r = None" "map_of (db_invocations (si_db s)) (rs_invocation_id r) = Some doc" "ti_status doc = ''STARTED''"
      by blast
    with a have "db_invocations (si_db s') = db_invocations (si_db s) \<or>
        (\<exists>new. db_invocations (si_db s') = dict_set (db_invocations (si_db s)) (rs_invocation_id r) new)"
      by (auto simp: complete_invocation_def g_eval find_invocation_def save_invocation_def split: sum.splits prod.splits)
    with doc(2,3) show ?thesis by (auto simp: keeps_published_def map_of_dict_set)
  qed
qed

lemma call_handler_published: "g_keeps keeps_published (call_handler spec request ctx input)"
  by (simp add: g_keeps_def call_handler_def same_ledger_published)

lemma dispatch_published: "g_keeps keeps_published (gateway_dispatch env tools request ctx)"
  unfolding gateway_dispatch_def
  by (intro kp.bind_keeps kp.lift_keeps call_handler_published keeps_mono [OF recheck_quiet quiet_published]
      keeps_mono [OF dispatch_checks_quiet quiet_published])

lemma finish_published:
  assumes "execute_finish env tools request ctx v s = (r, s')"
  shows "keeps_published s s'"
proof -
  let ?k = "\<lambda>body. case v of None \<Rightarrow> g_return body | Some r \<Rightarrow> complete_invocation env r body"
  have c: "g_keeps keeps_published (?k body)" for body
    by (intro kp.option_keeps kp.return_keeps) (metis g_keepsI complete_published prod.collapse)
  obtain x u where x: "g_bind (gateway_dispatch env tools request ctx) ?k s = (x, u)" by (rule prod.exhaust)
  with kp.bind_keeps [OF dispatch_published c] have "keeps_published s u" by (rule g_keepsD)
  moreover have "quiet_site u s'"
    using assms x by (cases x) (auto simp: execute_finish_def dest: failed_quietD success_quietD)
  ultimately show ?thesis using kp.trans quiet_published by blast
qed

lemma gstep_published: "gstep others tools c d \<Longrightarrow> keeps_published (snd c) (snd d)"
proof (induction rule: gstep.induct)
  case (g_open env payload s rq ctx s' P)
  then show ?case using open_quiet [of s env payload] by (simp add: quiet_published)
next
  case (g_refuse env payload s r s' P)
  then show ?case using open_quiet [of s env payload] by (simp add: quiet_published)
next
  case (g_reserve env rq ctx s v s' P)
  from execute_reserve_effect [OF this] show ?case by (auto intro: quiet_published started_published)
next
  case (g_answer env rq ctx s r s' P)
  from execute_reserve_effect [OF this] show ?case by (auto intro: quiet_published started_published)
next
  case (g_finish env rq ctx v s r s' P)
  then show ?case by (simp add: finish_published)
next
  case (g_user s s' P)
  from run_op_keeps [OF this] show ?case by (simp add: same_ledger_published)
qed (simp_all add: same_ledger_published)

lemma gsteps_published: "gsteps others tools c d \<Longrightarrow> keeps_published (snd c) (snd d)"
proof (induction rule: gsteps.induct)
  case (gsteps_step c d e)
  then show ?case using kp.trans gstep_published by blast
qed (simp add: kp.refl)

text \<open>A later request with the same identity is answered; if the answer is a success, it is the published response.\<close>

lemma failed_is_fault: "\<exists>fault. fst (execute_failed env rq ctx e s) = fault_response fault (Some (rq_correlation_id rq))"
proof -
  have a: "\<exists>fault. fst (audited_response env rq ctx f t) = fault_response fault (Some (rq_correlation_id rq))" for f t
    by (auto simp: audited_response_def split: prod.split sum.split)
  then show ?thesis by (cases e) (simp_all add: execute_failed_def)
qed

lemma success_or_fault:
  "fst (audited_success env rq ctx outc body s) = ok_response body \<or>
   (\<exists>fault. fst (audited_success env rq ctx outc body s) = fault_response fault (Some (rq_correlation_id rq)))"
  using failed_is_fault by (auto simp: audited_success_def split: prod.split sum.split)

lemma reserve_finds:
  assumes "reserve_invocation env tools rq ctx s = (Inr x, s')" and "rq_invocation_id rq = Some i"
    and "map_of (db_invocations (si_db s)) i = Some row" and "published (ge_lib env) row v"
  shows "x = Some \<lparr>rs_invocation_id = ti_invocation_id row, rs_cached_response = Some v\<rparr>"
proof -
  have m: "identity = i" if "validate_workflow_metadata (ge_lib env) rq = Inr (identity, p, t, d)" for identity p t d
    using metadata_identity [OF that] assms(2) by simp
  have r: "map_of (db_invocations (si_db t)) i = Some row" if "recheck_run_scope env ctx ds s = (y, t)" for ds y t
    using g_keepsD [OF recheck_quiet that] assms(3) by (simp add: quiet_site_def)
  from assms(1,4) show ?thesis
    unfolding reserve_unfold [OF assms(2)]
    by (auto split: sum.splits prod.splits option.splits if_splits dest!: m r simp: result_simps existing_reservation_def published_def)
qed

lemma reserve_published:
  assumes "execute_reserve env tools rq ctx s = (p, s')" and "rq_invocation_id rq = Some i"
    and "map_of (db_invocations (si_db s)) i = Some row" and "published (ge_lib env) row v"
  shows "\<exists>resp. p = Answered resp \<and> si_calls s' = si_calls s \<and>
    (resp = ok_response v \<or> (\<exists>fault. resp = fault_response fault (Some (rq_correlation_id rq))))"
proof -
  obtain r t where r: "reserve_invocation env tools rq ctx s = (r, t)" by (rule prod.exhaust)
  have "\<exists>resp. p = Answered resp \<and> (resp = ok_response v \<or> (\<exists>fault. resp = fault_response fault (Some (rq_correlation_id rq))))"
  proof (cases r)
    case (Inl e)
    with assms(1) r failed_is_fault [of env rq ctx e t] show ?thesis by (auto simp: execute_reserve_def split: prod.splits)
  next
    case (Inr x)
    with reserve_finds [OF _ assms(2-4)] r have "x = Some \<lparr>rs_invocation_id = ti_invocation_id row, rs_cached_response = Some v\<rparr>" by blast
    with Inr assms(1) r success_or_fault [of env rq ctx "''CACHED''" v t] show ?thesis by (auto simp: execute_reserve_def split: prod.splits)
  qed
  moreover from this execute_reserve_effect [OF assms(1)] have "si_calls s' = si_calls s" by (auto simp: quiet_site_def)
  ultimately show ?thesis by blast
qed

end
