(* ===== verification/Gateway_Properties.thy ===== *)
theory Gateway_Properties
  imports Gateway_Replay
begin

text \<open>
  What the gateway guarantees: a workflow call reaches the ERP at most once, a handler is called only for a live run on behalf of its
  initiator, a run that was closed is closed for every request in flight, and a completed call is answered from the ledger.
\<close>

section \<open>Preservation\<close>

lemma distinct_sub_mset:
  assumes "mset xs \<subseteq># mset ys" and "distinct ys"
  shows "distinct xs"
proof -
  from assms(1) obtain zs where "mset ys = mset (xs @ zs)" by (metis ex_mset mset_append subset_mset.le_iff_add)
  with assms(2) have "distinct (xs @ zs)" by (metis mset_eq_imp_distinct_iff)
  then show ?thesis by simp
qed

lemma covers_same_keys:
  assumes "ledger_covers (P, s)" and "same_keys s s'"
  shows "ledger_covers (P, s')"
  using assms called_ids_same [of s' s] by (simp add: ledger_covers_def same_keys_def)

lemma covers_fewer:
  assumes "ledger_covers (P, s)" and "reserved_ids Q \<subseteq># reserved_ids P"
  shows "ledger_covers (Q, s)"
proof -
  have "mset (called_ids s) + reserved_ids Q \<subseteq># mset (called_ids s) + reserved_ids P"
    using assms(2) by (rule subset_mset.add_left_mono)
  also have "\<dots> \<subseteq># mset (ledger_keys s)" using assms(1) by (simp add: ledger_covers_def)
  finally show ?thesis using assms(1) by (simp add: ledger_covers_def)
qed

lemma covers_call:
  assumes "ledger_covers (add_mset (Reserved rq ctx v) P, s)" and "after_call c s s'" and "hc_invocation c = rq_invocation_id rq"
  shows "ledger_covers (P, s')"
proof -
  have "mset (called_ids s') + reserved_ids P = mset (called_ids s) + reserved_ids (add_mset (Reserved rq ctx v) P)"
    using called_ids_after [OF assms(2)] assms(3) by (simp add: ac_simps)
  moreover from assms(2) have "ledger_keys s' = ledger_keys s" by (simp add: after_call_def)
  ultimately show ?thesis using assms(1) unfolding ledger_covers_def by (simp del: reserved_ids_add)
qed

lemma covers_started:
  assumes "ledger_covers (add_mset (Opened rq ctx) P, s)" and "started i s s'" and "rq_invocation_id rq = Some i"
  shows "ledger_covers (add_mset (Reserved rq ctx v) P, s')"
proof -
  have k: "ledger_keys s' = ledger_keys s @ [i]" using started_keys [OF assms(2)] .
  have c: "called_ids s' = called_ids s" using assms(2) by (intro called_ids_same) (simp add: started_def)
  from assms(2) have "i \<notin> set (ledger_keys s)" by (simp add: started_def)
  with assms(1,3) show ?thesis by (simp add: ledger_covers_def k c)
qed

lemma dispatched_invocation: "dispatched env tools rq ctx s c \<Longrightarrow> hc_invocation c = rq_invocation_id rq \<and> hc_run c = ctx"
  by (auto simp: dispatched_def)

lemma finish_covers:
  assumes "ledger_covers (add_mset (Reserved rq ctx v) P, s)" and "execute_finish env tools rq ctx v s = (r, s')"
  shows "ledger_covers (P, s')" and "ledger_covers (P, s\<lparr>si_calls := si_calls s'\<rparr>)"
proof -
  let ?t = "s\<lparr>si_calls := si_calls s'\<rparr>"
  have less: "ledger_covers (P, s)" using assms(1) by (rule covers_fewer) simp
  from execute_finish_effect [OF assms(2)] consider "same_keys s s'" | c where "dispatched env tools rq ctx s c" "after_call c s s'" by blast
  then have "ledger_covers (P, s') \<and> ledger_covers (P, ?t)"
  proof cases
    case 1
    then have "same_keys s ?t" by (simp add: same_keys_def ledger_keys_def)
    with 1 less covers_same_keys show ?thesis by blast
  next
    case 2
    then have "after_call c s ?t" by (simp add: after_call_def ledger_keys_def)
    with 2 assms(1) dispatched_invocation covers_call show ?thesis by blast
  qed
  then show "ledger_covers (P, s')" "ledger_covers (P, ?t)" by simp_all
qed

lemma gstep_covers: "gstep others tools c d \<Longrightarrow> ledger_covers c \<Longrightarrow> ledger_covers d"
proof (induction rule: gstep.induct)
  case (g_open env payload s rq ctx s' P)
  then have "same_keys s s'" using open_quiet [of s env payload] quiet_same_keys by simp
  with g_open.prems have "ledger_covers (P, s')" by (rule covers_same_keys)
  then show ?case by (rule covers_fewer) simp
next
  case (g_refuse env payload s r s' P)
  then have "same_keys s s'" using open_quiet [of s env payload] quiet_same_keys by simp
  with g_refuse.prems show ?case by (rule covers_same_keys)
next
  case (g_reserve env rq ctx s v s' P)
  from execute_reserve_effect [OF g_reserve.hyps] show ?case
  proof (elim disjE conjE exE)
    assume "quiet_site s s'" "\<forall>x. Proceed v = Proceed x \<longrightarrow> x = None \<and> rq_invocation_id rq = None"
    then have "rq_invocation_id rq = None" "ledger_covers (add_mset (Opened rq ctx) P, s')"
      using covers_same_keys [OF g_reserve.prems quiet_same_keys] by auto
    then show ?thesis by (auto elim: covers_fewer)
  next
    fix i assume "rq_invocation_id rq = Some i" "started i s s'"
    with g_reserve.prems show ?thesis using covers_started by blast
  qed
next
  case (g_answer env rq ctx s r s' P)
  from execute_reserve_effect [OF g_answer.hyps] have "same_keys s s'" using quiet_same_keys by auto
  with g_answer.prems have "ledger_covers (add_mset (Opened rq ctx) P, s')" by (rule covers_same_keys)
  then show ?case by (rule covers_fewer) simp
next
  case (g_finish env rq ctx v s r s' P)
  then show ?case using finish_covers(1) by blast
next
  case (g_die p P s)
  then show ?case by (rule covers_fewer) simp
next
  case (g_die_late env rq ctx v s r s' P)
  then show ?case using finish_covers(2) by blast
next
  case (g_user s s' P)
  from run_op_keeps [OF g_user.hyps] have "ledger_keys s' = ledger_keys s" "called_ids s' = called_ids s"
    by (simp_all add: ledger_keys_def called_ids_def)
  with g_user.prems show ?case by (simp add: ledger_covers_def)
next
  case (g_other s runs P)
  then show ?case by (simp add: ledger_covers_def ledger_keys_def called_ids_def)
qed

lemma gsteps_covers: "gsteps others tools c d \<Longrightarrow> ledger_covers c \<Longrightarrow> ledger_covers d"
  by (induction rule: gsteps.induct) (auto intro: gstep_covers)

section \<open>Authority\<close>

text \<open>What the re-check has established about the run when it passes; \<open>s\<close> is the site before it.\<close>

definition authorized :: "genv \<Rightarrow> RunContext \<Rightarrow> string list \<Rightarrow> site \<Rightarrow> agent_run \<Rightarrow> bool" where
  "authorized env ctx doctypes s run \<longleftrightarrow>
     map_of (db_runs (si_db s)) (rc_run_id ctx) = Some run \<and> live run \<and> ar_state_version run = rc_state_version ctx \<and>
     ge_clock env (si_ticks s) < ar_expires_at run \<and>
     (ar_execution_mode run = ''PLAN_EXECUTE'' \<longrightarrow>
        (\<exists>d. ar_workflow_expires_at run = Some d \<and> ge_clock env (Suc (si_ticks s)) < d)) \<and>
     ge_user_enabled env (rc_initiator ctx) \<and> company_listed env (rc_initiator ctx) (rc_company ctx) \<and>
     (given (rc_warehouse ctx) \<longrightarrow> warehouse_listed env (rc_initiator ctx) (rc_company ctx) (the (rc_warehouse ctx))) \<and>
     list_all (\<lambda>d. ge_can_read env d (rc_initiator ctx)) doctypes"

definition fresh_run :: "genv \<Rightarrow> RunContext \<Rightarrow> site \<Rightarrow> agent_run \<Rightarrow> bool" where
  "fresh_run env ctx s run \<longleftrightarrow> live run \<and> ar_state_version run = rc_state_version ctx \<and>
     ge_clock env (si_ticks s) < ar_expires_at run \<and>
     (ar_execution_mode run = ''PLAN_EXECUTE'' \<longrightarrow>
        (\<exists>d. ar_workflow_expires_at run = Some d \<and> ge_clock env (Suc (si_ticks s)) < d))"

lemma not_stale:
  assumes "run_is_stale env ctx run s = (Inr False, s')"
  shows "fresh_run env ctx s run"
proof -
  have "live run" "ar_state_version run = rc_state_version ctx"
    using assms by (auto simp: run_is_stale_def live_def g_return_def split: if_splits)
  moreover from this have now: "ge_clock env (si_ticks s) < ar_expires_at run"
    using assms by (auto simp: run_is_stale_def live_def g_bind_now g_return_def split: if_splits)
  ultimately show ?thesis
    using assms by (auto simp: fresh_run_def run_is_stale_def live_def g_bind_now run_expired_def workflow_expired_def g_return_def
        split: option.splits)
qed

lemma recheck_ok:
  assumes "recheck_run_scope env ctx ds s = (Inr (), s')"
  shows "\<exists>run. authorized env ctx ds s run"
proof (cases "map_of (db_runs (si_db s)) (rc_run_id ctx)")
  case None
  with assms show ?thesis by (simp add: recheck_run_scope_def g_bind_def find_run_def g_raise_def)
next
  case (Some run)
  obtain r t where r: "run_is_stale env ctx run s = (r, t)" by (rule prod.exhaust)
  show ?thesis
  proof (cases r)
    case (Inl e)
    with assms Some r show ?thesis by (simp add: recheck_run_scope_def g_bind_def find_run_def)
  next
    case (Inr stale)
    from assms Some Inr r have c: "\<not> stale" "ge_user_enabled env (rc_initiator ctx)" "company_listed env (rc_initiator ctx) (rc_company ctx)"
      "given (rc_warehouse ctx) \<longrightarrow> warehouse_listed env (rc_initiator ctx) (rc_company ctx) (the (rc_warehouse ctx))"
      "\<not> list_ex (\<lambda>d. \<not> ge_can_read env d (rc_initiator ctx)) ds"
      by (simp_all add: recheck_run_scope_def g_bind_def find_run_def g_reject_def g_raise_def g_return_def split: if_splits)
    with Inr r not_stale have "fresh_run env ctx s run" by simp
    with Some c have "authorized env ctx ds s run"
      by (simp add: authorized_def fresh_run_def list_ex_iff list_all_iff)
    then show ?thesis ..
  qed
qed

text \<open>What a resolved context is made of.\<close>

definition context_of :: "agent_run \<Rightarrow> RunContext" where
  "context_of run = \<lparr>rc_run_id = ar_name run, rc_initiator = ar_initiator run, rc_company = ar_company_scope run,
     rc_warehouse = (if given (ar_warehouse_scope run) then ar_warehouse_scope run else None),
     rc_state_version = ar_state_version run\<rparr>"

lemma run_is_valid_ok:
  assumes "run_is_valid env run run_id capability s = (Inr True, s')"
  shows "live run" and "ar_capability_audience run = CAPABILITY_AUDIENCE"
    and "ar_capability_digest run = capability_digest (ge_lib env) run_id capability"
proof -
  show live: "live run" "ar_capability_audience run = CAPABILITY_AUDIENCE"
    using assms by (auto simp: run_is_valid_def live_def g_return_def split: if_splits)
  with assms have "ge_clock env (si_ticks s) < ar_expires_at run"
    by (auto simp: run_is_valid_def live_def g_bind_now g_return_def split: if_splits)
  with live assms obtain x t where "run_expired env run (s\<lparr>si_ticks := Suc (si_ticks s)\<rparr>) = (x, t)"
      "g_bind (run_expired env run) (\<lambda>expired. g_return (\<not> expired \<and> ar_capability_digest run = capability_digest (ge_lib env) run_id capability))
         (s\<lparr>si_ticks := Suc (si_ticks s)\<rparr>) = (Inr True, s')"
    by (cases "run_expired env run (s\<lparr>si_ticks := Suc (si_ticks s)\<rparr>)") (auto simp: run_is_valid_def live_def g_bind_now)
  then show "ar_capability_digest run = capability_digest (ge_lib env) run_id capability"
    by (cases x) (simp_all add: g_bind_fails g_bind_step g_return_def)
qed

lemma resolve_ok:
  assumes "resolve_run env run_id capability s = (Inr ctx, s')"
  shows "\<exists>run. map_of (db_runs (si_db s)) run_id = Some run \<and> live run \<and> ar_capability_audience run = CAPABILITY_AUDIENCE \<and>
    ar_capability_digest run = capability_digest (ge_lib env) run_id capability \<and> ctx = context_of run"
proof (cases "map_of (db_runs (si_db s)) run_id")
  case None
  with assms show ?thesis by (simp add: resolve_run_def g_bind_def find_run_def g_raise_def)
next
  case (Some run)
  obtain r t where r: "run_is_valid env run run_id capability s = (r, t)" by (rule prod.exhaust)
  with assms Some have "r = Inr True \<and> ctx = context_of run"
    by (cases r) (auto simp: resolve_run_def g_bind_def find_run_def g_reject_def g_raise_def g_return_def context_of_def split: if_splits)
  with Some r run_is_valid_ok show ?thesis by blast
qed

lemma open_ok:
  assumes "execute_open env payload s = (Proceed (request, ctx), s')"
  shows "require_capability_only_request env = Inr () \<and> parse_request (PDict (drop_cmd payload)) = Inr request \<and>
    resolve_run env (rq_run_id request) (rq_capability request) s = (Inr ctx, s')"
  using assms by (auto simp: execute_open_def rbind_def split: sum.splits prod.splits)

text \<open>A run that is not live stays so, and no handler is called for it.\<close>

definition keep_dead :: "(run_table \<Rightarrow> run_table \<Rightarrow> bool) \<Rightarrow> bool" where
  "keep_dead others \<longleftrightarrow> (\<forall>runs runs'. others runs runs' \<longrightarrow> rows_named runs \<longrightarrow> rows_named runs' \<and>
     (\<forall>n run. map_of runs n = Some run \<longrightarrow> \<not> live run \<longrightarrow> (\<exists>new. map_of runs' n = Some new \<and> \<not> live new)))"

definition dead_in :: "string \<Rightarrow> site \<Rightarrow> bool" where
  "dead_in n s \<longleftrightarrow> rows_named (db_runs (si_db s)) \<and> (\<exists>run. map_of (db_runs (si_db s)) n = Some run \<and> \<not> live run)"

definition calls_for :: "string \<Rightarrow> site \<Rightarrow> handler_call list" where
  "calls_for n s = filter (\<lambda>c. rc_run_id (hc_run c) = n) (si_calls s)"

lemma dead_same_runs: "dead_in n s \<Longrightarrow> db_runs (si_db s') = db_runs (si_db s) \<Longrightarrow> dead_in n s'"
  by (simp add: dead_in_def)

lemma finish_dead:
  assumes "dead_in n s" and "execute_finish env tools rq ctx v s = (r, s')"
  shows "dead_in n s' \<and> calls_for n s' = calls_for n s"
  using execute_finish_effect [OF assms(2)]
proof (elim disjE exE conjE)
  assume "same_keys s s'"
  with assms(1) show ?thesis by (auto simp: same_keys_def calls_for_def intro: dead_same_runs)
next
  fix c assume c: "dispatched env tools rq ctx s c" "after_call c s s'"
  then obtain ds t where "recheck_run_scope env ctx ds s = (Inr (), t)" by (auto simp: dispatched_def)
  from recheck_ok [OF this] assms(1) have "rc_run_id ctx \<noteq> n" by (auto simp: dead_in_def authorized_def)
  with dispatched_invocation [OF c(1)] have "rc_run_id (hc_run c) \<noteq> n" by simp
  with c(2) assms(1) show ?thesis by (auto simp: after_call_def calls_for_def intro: dead_same_runs)
qed

lemma gstep_dead:
  "gstep others tools c d \<Longrightarrow> keep_dead others \<Longrightarrow> dead_in n (snd c) \<Longrightarrow> dead_in n (snd d) \<and> calls_for n (snd d) = calls_for n (snd c)"
proof (induction rule: gstep.induct)
  case (g_open env payload s rq ctx s' P)
  then show ?case using open_quiet [of s env payload] by (auto simp: quiet_site_def calls_for_def intro: dead_same_runs)
next
  case (g_refuse env payload s r s' P)
  then show ?case using open_quiet [of s env payload] by (auto simp: quiet_site_def calls_for_def intro: dead_same_runs)
next
  case (g_reserve env rq ctx s v s' P)
  from execute_reserve_effect [OF g_reserve.hyps] g_reserve.prems show ?case
    by (auto simp: quiet_site_def started_def calls_for_def intro: dead_same_runs)
next
  case (g_answer env rq ctx s r s' P)
  from execute_reserve_effect [OF g_answer.hyps] g_answer.prems show ?case
    by (auto simp: quiet_site_def started_def calls_for_def intro: dead_same_runs)
next
  case (g_finish env rq ctx v s r s' P)
  then show ?case using finish_dead [of n s] by simp
next
  case (g_die_late env rq ctx v s r s' P)
  then show ?case using finish_dead [of n s] by (simp add: calls_for_def dead_in_def)
next
  case (g_user s s' P)
  then have named: "rows_named (db_runs (si_db s))" by (simp add: dead_in_def)
  note e = run_op_evolves [OF g_user.hyps named]
  from g_user.prems obtain run where run: "map_of (db_runs (si_db s)) n = Some run" "\<not> live run" by (auto simp: dead_in_def)
  with e have "map_of (db_runs (si_db s')) n = Some run" by (auto simp: runs_evolve_def run_moves_def)
  with run(2) e run_op_keeps [OF g_user.hyps] show ?case by (auto simp: dead_in_def runs_evolve_def calls_for_def)
next
  case (g_other s runs P)
  then show ?case by (auto simp: dead_in_def keep_dead_def calls_for_def)
qed simp

lemma gsteps_dead:
  "gsteps others tools c d \<Longrightarrow> keep_dead others \<Longrightarrow> dead_in n (snd c) \<Longrightarrow> dead_in n (snd d) \<and> calls_for n (snd d) = calls_for n (snd c)"
proof (induction rule: gsteps.induct)
  case (gsteps_step c d e)
  then show ?case using gstep_dead [OF gsteps_step.hyps(2)] by auto
qed simp

section \<open>A small site\<close>

text \<open>One run, one tool that finds nothing, and a workflow request for it; the digest function is constant.\<close>

definition zeros :: string where "zeros = replicate 64 (CHR ''0'')"

definition one_run_id :: string where "one_run_id = ''0f8fad5b-d9cb-469f-a165-70867728950e''"

definition one_lib :: wflib where
  "one_lib = \<lparr>wf_py = \<lparr>sha256_hex = (\<lambda>_. zeros), utc_timestamp = (\<lambda>_. TsValueError),
       json_tokens = (\<lambda>t. if t = ''{}'' then Some (PDict []) else None)\<rparr>,
     iso_parse = (\<lambda>_. None), iso_format = (\<lambda>_. []), uuid_text = Some, uuid_url = (\<lambda>_. [])\<rparr>"

definition one_env :: genv where
  "one_env = \<lparr>ge_lib = one_lib, ge_user = ''Guest'', ge_headers = [], ge_clock = (\<lambda>_. 0), ge_audit_up = (\<lambda>_. True),
     ge_uuid4 = one_run_id, ge_token = ''cap'', ge_roles = (\<lambda>_. []), ge_get_list = (\<lambda>_ _ _. [''C'']), ge_user_enabled = (\<lambda>_. True),
     ge_can_read = (\<lambda>_ _. True), ge_str_time = (\<lambda>_. ''now''), ge_elapsed_ns = 0, ge_request_ip = [], ge_cache_up = True\<rparr>"

definition one_run :: agent_run where
  "one_run = \<lparr>ar_name = one_run_id, ar_initiator = ''u'', ar_goal = ''g'', ar_purpose = ''ANALYSIS'', ar_execution_mode = ''AGENT'',
     ar_time_window_days = 90, ar_company_scope = ''C'', ar_warehouse_scope = None, ar_p2p_goal = no_p2p_goal,
     ar_capability_digest = zeros, ar_capability_audience = CAPABILITY_AUDIENCE, ar_issued_at = 0, ar_expires_at = 1,
     ar_workflow_expires_at = None, ar_revoked = False, ar_status = ''ACTIVE'', ar_run_state = ''ANALYZING'', ar_state_version = 1,
     ar_correlation_id = one_run_id, ar_revoked_at = None, ar_revoked_by = None, ar_revocation_correlation_id = None\<rparr>"

definition site_of :: "agent_run \<Rightarrow> site" where
  "site_of run = \<lparr>si_db = \<lparr>db_runs = [(ar_name run, run)], db_invocations = [], db_audits = []\<rparr>, si_ticks = 0, si_calls = [],
     si_events = [], si_event_cache = []\<rparr>"

definition one_tools :: tools where
  "one_tools = [((''item.lookup'', ''1''), \<lparr>sp_name = ''item.lookup'', sp_version = ''1'', sp_risk = ''READ'', sp_timeout_ms = 5000,
     sp_max_page_size = 50, sp_required_doctypes = [''Item''], sp_input_fields = [],
     sp_handler = (\<lambda>_ _ _. Inr \<lparr>tr_items = [], tr_source_modified_at = None, tr_omissions = []\<rparr>)\<rparr>)]"

definition one_payload :: "(string \<times> pyval) list" where
  "one_payload = [(''schema_version'', PStr ''1''), (''run_id'', PStr one_run_id), (''capability'', PStr ''cap''),
     (''correlation_id'', PStr one_run_id),
     (''tool'', PDict [(''name'', PStr ''item.lookup''), (''version'', PStr ''1''), (''input'', PDict [])]),
     (''invocation_id'', PStr zeros), (''plan_version'', PInt 1), (''step_id'', PStr ''s''), (''args_digest'', PStr zeros),
     (''cmd'', PStr ''execute'')]"

definition one_request :: GatewayRequest where
  "one_request = \<lparr>rq_run_id = one_run_id, rq_capability = ''cap'', rq_correlation_id = one_run_id,
     rq_tool = \<lparr>tc_name = ''item.lookup'', tc_version = ''1'', tc_input = []\<rparr>,
     rq_invocation_id = Some zeros, rq_plan_version = Some 1, rq_step_id = Some ''s'', rq_args_digest = Some zeros\<rparr>"

lemma one_payload_parses: "parse_request (PDict (drop_cmd one_payload)) = Inr one_request"
proof -
  have u: "canonical_uuid (PStr one_run_id) l = Inr one_run_id" for l
    unfolding one_run_id_def by (rule canonical_uuid_text [OF sample_uuid_lower sample_uuid])
  have z: "hex_digest (PStr zeros) l = Inr zeros" for l
    by (simp add: hex_digest_ok zeros_def is_lower_hex_def list_all_iff)
  show ?thesis
    by (simp add: parse_request_def one_payload_def drop_cmd_def strict_object_def request_required_def metadata_fields_def
        dkeys_def SCHEMA_VERSION_def parse_metadata_def u z gw_required_text_def correlation_id_def positive_int_def one_request_def)
qed

lemma one_capability: "capability_digest one_lib r c = zeros"
  by (simp add: capability_digest_def one_lib_def)

lemma one_opens: "execute_open one_env one_payload (site_of one_run) = (Proceed (one_request, context_of one_run), (site_of one_run)\<lparr>si_ticks := Suc 0\<rparr>)"
  by (simp add: execute_open_def one_payload_parses require_capability_only_request_def has_header_def one_env_def one_request_def
      resolve_run_def run_is_valid_def run_expired_def workflow_expired_def g_eval site_of_def one_run_def one_capability context_of_def given_def)

lemma one_fields: "ge_lib one_env = one_lib" "ge_elapsed_ns one_env = 0" "ge_clock one_env n = 0"
  "rq_tool one_request = \<lparr>tc_name = ''item.lookup'', tc_version = ''1'', tc_input = []\<rparr>" "rq_invocation_id one_request = Some zeros"
  by (simp_all add: one_env_def one_request_def)

lemma one_metadata: "validate_workflow_metadata one_lib one_request = Inr (zeros, 1, ''s'', zeros)"
  by (simp add: validate_workflow_metadata_def one_request_def inv_args_digest_def inv_canonical_json_def one_lib_def invocation_id_def)

lemma one_recheck:
  assumes "map_of (db_runs (si_db s)) one_run_id = Some one_run"
  shows "recheck_run_scope one_env (context_of one_run) ds s = (Inr (), s\<lparr>si_ticks := Suc (si_ticks s)\<rparr>)"
  using assms by (simp add: recheck_run_scope_def run_is_stale_def g_eval context_of_def one_run_def one_env_def company_listed_def given_def list_ex_iff)

lemma one_reserves:
  assumes "map_of (db_runs (si_db s)) one_run_id = Some one_run" and "db_invocations (si_db s) = []"
  shows "\<exists>s'. execute_reserve one_env one_tools one_request (context_of one_run) s =
    (Proceed (Some \<lparr>rs_invocation_id = zeros, rs_cached_response = None\<rparr>), s') \<and> started zeros s s'"
proof -
  obtain x t where x: "reserve_invocation one_env one_tools one_request (context_of one_run) s = (x, t)" by (rule prod.exhaust)
  then have "x = Inr (Some \<lparr>rs_invocation_id = zeros, rs_cached_response = None\<rparr>)"
    using one_metadata one_recheck [OF assms(1)] assms(2)
    by (auto simp: reserve_unfold [OF one_fields(5)] get_tool_spec_def one_tools_def one_fields)
  with x reserve_effect [OF x] show ?thesis by (auto simp: execute_reserve_def)
qed

definition one_call :: handler_call where
  "one_call = \<lparr>hc_run = context_of one_run, hc_invocation = Some zeros, hc_tool = (''item.lookup'', ''1''),
     hc_input = [(''offset'', PInt 0), (''limit'', PInt 20)]\<rparr>"

lemma one_finishes:
  assumes "map_of (db_runs (si_db s)) one_run_id = Some one_run"
  shows "\<exists>r s'. execute_finish one_env one_tools one_request (context_of one_run) v s = (r, s') \<and>
    si_calls s' = si_calls s @ [one_call] \<and> db_runs (si_db s') = db_runs (si_db s)"
proof -
  have p: "parse_tool_input [] [] 50 = Inr [(''offset'', PInt 0), (''limit'', PInt 20)]"
    by (simp add: parse_tool_input_def all_input_fields_def dkeys_def int_field_def parse_field_def positive_int_def)
  obtain d t where d: "gateway_dispatch one_env one_tools one_request (context_of one_run) s = (d, t)" by (rule prod.exhaust)
  then have t: "si_calls t = si_calls s @ [one_call]" "db_runs (si_db t) = db_runs (si_db s)"
    by (auto simp: dispatch_unfold get_tool_spec_def one_tools_def one_fields one_recheck [OF assms] p g_bind_def call_handler_def
        dispatch_checks_def g_reject_def g_raise_def g_return_def now_datetime_def one_call_def)
  obtain r s' where r: "execute_finish one_env one_tools one_request (context_of one_run) v s = (r, s')" by (rule prod.exhaust)
  with finish_after_dispatch [OF r d] t show ?thesis by (simp add: same_keys_def)
qed

lemma execute_steps:
  assumes "execute env tools payload s = (resp, s')" and "si_calls s' \<noteq> si_calls s"
  obtains request ctx t v u where "execute_open env payload s = (Proceed (request, ctx), t)"
    "execute_reserve env tools request ctx t = (Proceed v, u)" "execute_finish env tools request ctx v u = (resp, s')"
proof -
  obtain p t where p: "execute_open env payload s = (p, t)" by (rule prod.exhaust)
  then have q: "si_calls t = si_calls s" using open_quiet [of s env payload] by (simp add: quiet_site_def)
  with assms p obtain request ctx where pr: "p = Proceed (request, ctx)" by (cases p) (auto simp: execute_def)
  obtain w u where w: "execute_reserve env tools request ctx t = (w, u)" by (rule prod.exhaust)
  then have "si_calls u = si_calls t" using execute_reserve_effect [OF w] by (auto simp: quiet_site_def started_def)
  with assms p pr q w obtain v where "w = Proceed v" by (cases w) (auto simp: execute_def)
  with that assms(1) p pr w show ?thesis by (auto simp: execute_def)
qed

lemma open_runs: "execute_open env payload s = (x, t) \<Longrightarrow> db_runs (si_db t) = db_runs (si_db s) \<and> si_calls t = si_calls s"
  using open_quiet [of s env payload] by (simp add: quiet_site_def)

lemma reserve_runs: "execute_reserve env tools request ctx s = (x, t) \<Longrightarrow> db_runs (si_db t) = db_runs (si_db s) \<and> si_calls t = si_calls s"
  by (drule execute_reserve_effect) (auto simp: quiet_site_def started_def)

lemma one_history:
  "\<exists>s. gsteps others one_tools ({#}, site_of one_run) ({#}, s) \<and> si_calls s = [one_call] \<and> db_runs (si_db s) = [(one_run_id, one_run)]"
proof -
  let ?s1 = "(site_of one_run)\<lparr>si_ticks := Suc 0\<rparr>" and ?v = "Some \<lparr>rs_invocation_id = zeros, rs_cached_response = None\<rparr>"
  have r1: "db_runs (si_db ?s1) = [(one_run_id, one_run)]" by (simp add: site_of_def one_run_def)
  have "gstep others one_tools ({#}, site_of one_run) ({#Opened one_request (context_of one_run)#}, ?s1)"
    using g_open [OF one_opens, of others one_tools "{#}"] .
  moreover obtain s2 where s2: "execute_reserve one_env one_tools one_request (context_of one_run) ?s1 = (Proceed ?v, s2)" "started zeros ?s1 s2"
    using one_reserves [of ?s1] r1 by (auto simp: site_of_def)
  moreover from s2(2) r1 have r2: "db_runs (si_db s2) = [(one_run_id, one_run)]" "si_calls s2 = []"
    by (simp_all add: started_def site_of_def)
  moreover obtain r s3 where s3: "execute_finish one_env one_tools one_request (context_of one_run) ?v s2 = (r, s3)"
      "si_calls s3 = [one_call]" "db_runs (si_db s3) = [(one_run_id, one_run)]"
    using one_finishes [of s2 ?v] r2 by auto
  ultimately show ?thesis
    using g_reserve [OF s2(1), of others "{#}"] g_finish [OF s3(1), of others "{#}"] by (meson gsteps.intros)
qed

section \<open>Theorems\<close>

text \<open>
  C3: at most once.  Take any interleaving of requests in flight, of workers that die before, during or after a
  handler call, of users who issue, rotate, revoke, cancel or expire runs, and of any change other services make to runs.  No
  workflow invocation reaches a handler twice, and each one that reached it has its row in the ledger.
\<close>

theorem gateway_calls_at_most_once:
  assumes "gsteps others tools ({#}, s0) (P, s)" and "si_calls s0 = []" and "distinct (ledger_keys s0)"
  shows "distinct (called_ids s) \<and> set (called_ids s) \<subseteq> set (ledger_keys s)"
proof -
  have "ledger_covers ({#}, s0)"
    using assms(2,3) by (simp add: ledger_covers_def called_ids_def reserved_ids_def map_filter_def)
  from gsteps_covers [OF assms(1) this] have c: "distinct (ledger_keys s)" "mset (called_ids s) + reserved_ids P \<subseteq># mset (ledger_keys s)"
    by (simp_all add: ledger_covers_def)
  from c(2) have sub: "mset (called_ids s) \<subseteq># mset (ledger_keys s)" by (rule subset_mset.order_trans [rotated]) simp
  then have "distinct (called_ids s)" using c(1) by (rule distinct_sub_mset)
  then show ?thesis using set_mset_mono [OF sub] by simp
qed

theorem gateway_calls_at_most_once_witness:
  "\<exists>P s. gsteps (\<lambda>_ _. True) one_tools ({#}, site_of one_run) (P, s) \<and> si_calls s \<noteq> [] \<and> distinct (called_ids s)"
proof -
  obtain s where s: "gsteps (\<lambda>_ _. True) one_tools ({#}, site_of one_run) ({#}, s)" "si_calls s = [one_call]"
    using one_history [of "\<lambda>_ _. True"] by blast
  have "distinct (called_ids s)"
    using gateway_calls_at_most_once [OF s(1)] by (simp add: site_of_def ledger_keys_def)
  with s show ?thesis by (intro exI [of _ "{#}"] exI [of _ s]) simp
qed

text \<open>
  C5: every read is authorised when it happens.  If a request makes the gateway call a handler, then it came from a guest session
  without user credentials and was well formed; the capability it presents is the one the run was issued; the run is active, not revoked, within its
  deadlines and unchanged since it was resolved; the run's initiator is enabled, may see the run's company and warehouse, and may read every
  document type the tool needs; the tool is registered and the input fits its schema.  The call is the only one, and it
  runs under the run's own scope.
\<close>

theorem gateway_call_authorized:
  assumes "execute env tools payload s = (resp, s')" and "si_calls s' \<noteq> si_calls s" and "rows_named (db_runs (si_db s))"
  shows "\<exists>request run spec input t.
    ge_user env = ''Guest'' \<and> \<not> has_header env ''Authorization'' \<and> \<not> has_header env ''Cookie'' \<and>
    parse_request (PDict (drop_cmd payload)) = Inr request \<and>
    map_of (db_runs (si_db s)) (rq_run_id request) = Some run \<and>
    ar_capability_digest run = capability_digest (ge_lib env) (rq_run_id request) (rq_capability request) \<and>
    map_of tools (tc_name (rq_tool request), tc_version (rq_tool request)) = Some spec \<and>
    db_runs (si_db t) = db_runs (si_db s) \<and> authorized env (context_of run) (sp_required_doctypes spec) t run \<and>
    parse_tool_input (tc_input (rq_tool request)) (sp_input_fields spec) (sp_max_page_size spec) = Inr input \<and>
    si_calls s' = si_calls s @ [\<lparr>hc_run = context_of run, hc_invocation = rq_invocation_id request,
      hc_tool = (sp_name spec, sp_version spec), hc_input = input\<rparr>]"
proof -
  from execute_steps [OF assms(1,2)] obtain request ctx t v u where st: "execute_open env payload s = (Proceed (request, ctx), t)"
    "execute_reserve env tools request ctx t = (Proceed v, u)" "execute_finish env tools request ctx v u = (resp, s')" .
  note same = open_runs [OF st(1)] reserve_runs [OF st(2)]
  from open_ok [OF st(1)] have o: "require_capability_only_request env = Inr ()" "parse_request (PDict (drop_cmd payload)) = Inr request"
    "resolve_run env (rq_run_id request) (rq_capability request) s = (Inr ctx, t)" by simp_all
  from resolve_ok [OF o(3)] obtain run where run: "map_of (db_runs (si_db s)) (rq_run_id request) = Some run"
    "ar_capability_digest run = capability_digest (ge_lib env) (rq_run_id request) (rq_capability request)" "ctx = context_of run" by blast
  from execute_finish_effect [OF st(3)] same assms(2) obtain c where c: "dispatched env tools request ctx u c" "after_call c u s'"
    by (auto simp: same_keys_def)
  from c(1) obtain spec input w where sp: "map_of tools (tc_name (rq_tool request), tc_version (rq_tool request)) = Some spec"
    "recheck_run_scope env ctx (sp_required_doctypes spec) u = (Inr (), w)"
    "parse_tool_input (tc_input (rq_tool request)) (sp_input_fields spec) (sp_max_page_size spec) = Inr input"
    "c = \<lparr>hc_run = ctx, hc_invocation = rq_invocation_id request, hc_tool = (sp_name spec, sp_version spec), hc_input = input\<rparr>"
    by (auto simp: dispatched_def)
  from recheck_ok [OF sp(2)] obtain run' where a: "authorized env ctx (sp_required_doctypes spec) u run'" by blast
  from run(1) assms(3) have "ar_name run = rq_run_id request" by (simp add: rows_named_def)
  with run(3) have "rc_run_id ctx = rq_run_id request" by (simp add: context_of_def)
  moreover from a have "map_of (db_runs (si_db u)) (rc_run_id ctx) = Some run'" by (simp add: authorized_def)
  moreover from same have runs: "db_runs (si_db u) = db_runs (si_db s)" by simp
  ultimately have "run' = run" using run(1) by simp
  with a run(3) have auth: "authorized env (context_of run) (sp_required_doctypes spec) u run" by simp
  from o(1) have guest: "ge_user env = ''Guest''" "\<not> has_header env ''Authorization''" "\<not> has_header env ''Cookie''"
    by (simp_all add: require_capability_only_request_def split: if_splits)
  from c(2) same sp(4) run(3) have calls: "si_calls s' = si_calls s @ [\<lparr>hc_run = context_of run, hc_invocation = rq_invocation_id request,
      hc_tool = (sp_name spec, sp_version spec), hc_input = input\<rparr>]" by (simp add: after_call_def)
  show ?thesis
    by (intro exI [of _ request] exI [of _ run] exI [of _ spec] exI [of _ input] exI [of _ u] conjI
        guest o(2) run(1,2) sp(1,3) auth calls runs)
qed

theorem gateway_call_authorized_witness:
  "\<exists>resp s' (request :: GatewayRequest) run. execute one_env one_tools one_payload (site_of one_run) = (resp, s') \<and> si_calls s' = [one_call] \<and>
     map_of (db_runs (si_db (site_of one_run))) (rq_run_id request) = Some run \<and>
     ar_capability_digest run = capability_digest one_lib (rq_run_id request) (rq_capability request)"
proof -
  let ?s1 = "(site_of one_run)\<lparr>si_ticks := Suc 0\<rparr>"
  have r1: "map_of (db_runs (si_db ?s1)) one_run_id = Some one_run" by (simp add: site_of_def one_run_def)
  from one_reserves [OF r1] obtain s2 where s2: "execute_reserve one_env one_tools one_request (context_of one_run) ?s1 =
      (Proceed (Some \<lparr>rs_invocation_id = zeros, rs_cached_response = None\<rparr>), s2)" "started zeros ?s1 s2" by (auto simp: site_of_def)
  from s2(2) r1 have r2: "map_of (db_runs (si_db s2)) one_run_id = Some one_run" "si_calls s2 = []" by (simp_all add: started_def site_of_def)
  from one_finishes [OF r2(1)] r2(2) obtain r s3 where
    s3: "execute_finish one_env one_tools one_request (context_of one_run) (Some \<lparr>rs_invocation_id = zeros, rs_cached_response = None\<rparr>) s2 = (r, s3)"
      "si_calls s3 = [one_call]" by fastforce
  have e: "execute one_env one_tools one_payload (site_of one_run) = (r, s3)" by (simp add: execute_def one_opens s2(1) s3(1))
  have "si_calls s3 \<noteq> si_calls (site_of one_run)" "rows_named (db_runs (si_db (site_of one_run)))"
    using s3(2) by (simp_all add: site_of_def rows_named_def)
  from gateway_call_authorized [OF e this] e s3(2) show ?thesis unfolding one_fields(1) by blast
qed

text \<open>
  C9: closing a run is final, also for requests already in flight.  Once a run is revoked, cancelled or expired, then whatever
  requests were past their first checks, whoever dies, and whatever other services do short of reviving it, the run stays closed
  and no handler is called for it again.
\<close>

theorem closed_run_is_dead:
  assumes "gsteps others tools (P, s) (P', s')" and "keep_dead others" and "rows_named (db_runs (si_db s))"
    and "map_of (db_runs (si_db s)) n = Some run" and "\<not> live run"
  shows "(\<exists>run'. map_of (db_runs (si_db s')) n = Some run' \<and> \<not> live run') \<and> calls_for n s' = calls_for n s"
  using gsteps_dead [OF assms(1,2), of n] assms(3-5) by (auto simp: dead_in_def)

theorem closed_run_is_dead_witness:
  "\<exists>s. gsteps (=) one_tools ({#Reserved one_request (context_of one_run) None#}, site_of (one_run\<lparr>ar_status := ''REVOKED'', ar_revoked := True\<rparr>)) ({#}, s) \<and>
     calls_for one_run_id s = []"
proof -
  let ?run = "one_run\<lparr>ar_status := ''REVOKED'', ar_revoked := True\<rparr>"
  obtain r s where "execute_finish one_env one_tools one_request (context_of one_run) None (site_of ?run) = (r, s)" by (rule prod.exhaust)
  then have "gstep (=) one_tools ({#Reserved one_request (context_of one_run) None#}, site_of ?run) ({#}, s)" by (rule g_finish)
  then have g: "gsteps (=) one_tools ({#Reserved one_request (context_of one_run) None#}, site_of ?run) ({#}, s)" by (meson gsteps.intros)
  have "map_of (db_runs (si_db (site_of ?run))) one_run_id = Some ?run" "\<not> live ?run" "rows_named (db_runs (si_db (site_of ?run)))" "keep_dead (=)"
    by (auto simp: site_of_def one_run_def live_def rows_named_def keep_dead_def)
  from closed_run_is_dead [OF g this(4,3,1,2)] g show ?thesis by (auto simp: calls_for_def site_of_def)
qed

text \<open>
  C39: a completed call is answered from the ledger.  When the result of a reserved call has been published, the caller has got the canonical form
  of the response.  Whatever happens afterwards, a request that names the same invocation is never dispatched again: it is answered,
  and the answer is either that same response or a fault.  The reader of JSON is assumed to invert the printer on this response.
\<close>

theorem completed_call_replayed:
  assumes "complete_invocation env r body s = (Inr v, s')" and "rs_cached_response r = None"
    and "map_of (db_invocations (si_db s)) (rs_invocation_id r) = Some doc" and "ti_status doc = ''STARTED''"
    and "\<And>t. json_dumps body = Inr t \<Longrightarrow> json_loads (ge_lib env) t = Inr (canon body)"
    and "gsteps others tools (P, s') (P', u)"
    and "execute_reserve env' tools rq ctx u = (p, u')" and "rq_invocation_id rq = Some (rs_invocation_id r)" and "ge_lib env' = ge_lib env"
  shows "v = canon body \<and> (\<exists>resp. p = Answered resp \<and> si_calls u' = si_calls u \<and>
    (resp = ok_response v \<or> (\<exists>fault. resp = fault_response fault (Some (rq_correlation_id rq)))))"
proof -
  from completes_published [OF assms(1-5)] obtain row where
    row: "map_of (db_invocations (si_db s')) (rs_invocation_id r) = Some row" "published (ge_lib env) row v" "v = canon body" by blast
  with gsteps_published [OF assms(6)] have "map_of (db_invocations (si_db u)) (rs_invocation_id r) = Some row"
    by (auto simp: keeps_published_def published_def)
  from reserve_published [OF assms(7,8) this] row assms(9) show ?thesis by simp
qed

theorem completed_call_replayed_witness:
  "\<exists>s'. complete_invocation one_env \<lparr>rs_invocation_id = zeros, rs_cached_response = None\<rparr> (PDict [])
       ((site_of one_run)\<lparr>si_db := (si_db (site_of one_run))\<lparr>db_invocations :=
          [(zeros, reserve_row one_env one_request (context_of one_run) zeros 1 ''s'' zeros 0)]\<rparr>\<rparr>) = (Inr (PDict []), s') \<and>
     (\<exists>resp u. execute_reserve one_env one_tools one_request (context_of one_run) s' = (Answered resp, u))"
proof -
  let ?r = "\<lparr>rs_invocation_id = zeros, rs_cached_response = None\<rparr>"
  let ?doc = "reserve_row one_env one_request (context_of one_run) zeros 1 ''s'' zeros 0"
  let ?s = "(site_of one_run)\<lparr>si_db := (si_db (site_of one_run))\<lparr>db_invocations := [(zeros, ?doc)]\<rparr>\<rparr>"
  have law: "json_loads (ge_lib one_env) t = Inr (canon (PDict []))" if "json_dumps (PDict []) = Inr t" for t
    using that by (simp add: json_loads_def one_fields one_lib_def)
  have b: "bounded_response one_lib (PDict []) = Inr (PDict [], zeros)"
    by (simp add: bounded_response_def inv_canonical_json_def json_loads_def one_lib_def MAX_RESPONSE_BYTES_def utf8_encode_def utf8_char_def)
  have "\<exists>s'. complete_invocation one_env ?r (PDict []) ?s = (Inr (PDict []), s')"
    by (simp add: complete_invocation_def g_eval one_fields b find_invocation_def reserve_row_def inv_canonical_json_def
        save_invocation_def validate_invocation_def)
  then obtain s' where c: "complete_invocation one_env ?r (PDict []) ?s = (Inr (PDict []), s')" by blast
  obtain p u where p: "execute_reserve one_env one_tools one_request (context_of one_run) s' = (p, u)" by (rule prod.exhaust)
  have "map_of (db_invocations (si_db ?s)) (rs_invocation_id ?r) = Some ?doc" "ti_status ?doc = ''STARTED''" by (simp_all add: reserve_row_def)
  from completed_call_replayed [OF c _ this law gsteps_refl [of "(=)" one_tools "({#}, s')"] p _ refl] p c
  show ?thesis by (auto simp: one_fields)
qed

end
