(* ===== verification/Agent_Budget.thy ===== *)
theory Agent_Budget
  imports Agent_Trace
begin

text \<open>
  \<open>agent/budget.py\<close>: limits, prices in micro-dollars per million tokens, the estimate of a request before it is sent, and the account
  of a run, which refuses a call before it is paid for and records what was used.  Prices are decimals of the
  default context.  A reading of the clock is an integer of nanoseconds.
\<close>

section \<open>Limits and prices\<close>

record BudgetLimits =
  bl_max_steps :: int
  bl_max_output_tokens :: int
  bl_max_total_output_tokens :: int
  bl_max_wall_time_ms :: int
  bl_max_cost_microusd :: int
  bl_max_calls_per_tool :: int
  bl_no_progress_threshold :: int

definition valid_budget_limits :: "BudgetLimits \<Rightarrow> bool" where
  "valid_budget_limits l \<longleftrightarrow> 1 \<le> bl_max_steps l \<and> bl_max_steps l \<le> 64 \<and> 1 \<le> bl_max_output_tokens l \<and> bl_max_output_tokens l \<le> 512 \<and>
     1 \<le> bl_max_total_output_tokens l \<and> bl_max_total_output_tokens l \<le> 3072 \<and>
     1 \<le> bl_max_wall_time_ms l \<and> bl_max_wall_time_ms l \<le> 180000 \<and>
     0 \<le> bl_max_cost_microusd l \<and> bl_max_cost_microusd l \<le> 50000 \<and>
     1 \<le> bl_max_calls_per_tool l \<and> bl_max_calls_per_tool l \<le> 3 \<and>
     1 \<le> bl_no_progress_threshold l \<and> bl_no_progress_threshold l \<le> 2"

record Pricing =
  pr_input :: pydec
  pr_output :: pydec
  pr_reasoning :: pydec

text \<open>
  \<open>Decimal(n)\<close>; division by \<open>MICROUSD_PER_MILLION\<close>, a power of ten, which moves the exponent; and \<open>int\<close> of
  \<open>to_integral_value(rounding=ROUND_CEILING)\<close>.
\<close>

definition dec_of_int :: "int \<Rightarrow> pydec" where
  "dec_of_int n = DFin (n < 0) (nat \<bar>n\<bar>) 0"

definition dec_per_million :: "pydec \<Rightarrow> pydec result" where
  "dec_per_million d = (case d of
     DFin s c e \<Rightarrow> rbind (dec_finalize c (e - 6)) (\<lambda>(c', e'). Inr (DFin s c' e'))
   | _ \<Rightarrow> Inr d)"

definition dec_ceiling :: "pydec \<Rightarrow> int result" where
  "dec_ceiling d = (case d of
     DFin s c e \<Rightarrow> Inr (if e \<ge> 0 then dec_signed s c * 10 ^ nat e else - ((- dec_signed s c) div 10 ^ nat (- e)))
   | DInf _ \<Rightarrow> Inl OverflowError
   | DNaN \<Rightarrow> Inl ValueError)"

definition token_price :: "int \<Rightarrow> pydec \<Rightarrow> pydec result" where
  "token_price tokens price = rbind (dec_mult (dec_of_int tokens) price) dec_per_million"

definition cost_microusd :: "Pricing \<Rightarrow> int \<Rightarrow> int \<Rightarrow> int \<Rightarrow> int result" where
  "cost_microusd p prompt_tokens completion_tokens reasoning_tokens =
     rbind (token_price prompt_tokens (pr_input p)) (\<lambda>a.
     rbind (dec_add (dec_of_int 0) a) (\<lambda>s1.
     rbind (token_price completion_tokens (pr_output p)) (\<lambda>b.
     rbind (dec_add s1 b) (\<lambda>s2.
     rbind (token_price reasoning_tokens (pr_reasoning p)) (\<lambda>c.
     rbind (dec_add s2 c) dec_ceiling)))))"

definition maximum_output_cost_microusd :: "Pricing \<Rightarrow> int \<Rightarrow> int result" where
  "maximum_output_cost_microusd p output_tokens =
     (let highest = (if dec_le (pr_reasoning p) (pr_output p) then pr_output p else pr_reasoning p)
      in rbind (token_price output_tokens highest) dec_ceiling)"

definition PRICE_ENV :: "string list" where
  "PRICE_ENV = [''SYNORA_PRICE_INPUT_MICROUSD_PER_MILLION'', ''SYNORA_PRICE_OUTPUT_MICROUSD_PER_MILLION'',
     ''SYNORA_PRICE_REASONING_MICROUSD_PER_MILLION'']"

definition pricing_error :: pyexc where "pricing_error = OtherError ''PricingConfigurationError''"

definition parse_price :: "string \<Rightarrow> pydec result" where
  "parse_price value = (case py_Decimal value of
     None \<Rightarrow> Inl pricing_error
   | Some price \<Rightarrow>
       if \<not> dec_is_finite price \<or> dec_less price (dec_of_int 0) then Inl pricing_error else Inr price)"

definition pricing_from_environment :: "(string \<times> string) list \<Rightarrow> Pricing option result" where
  "pricing_from_environment environ =
     (let present = map (map_of environ) PRICE_ENV in
      if list_all (\<lambda>v. v = None \<or> v = Some []) present then Inr None
      else if list_ex (\<lambda>v. v = None \<or> v = Some []) present then Inl pricing_error
      else rbind (rmap (\<lambda>v. parse_price (the v)) present) (\<lambda>parsed.
        Inr (Some \<lparr>pr_input = parsed ! 0, pr_output = parsed ! 1, pr_reasoning = parsed ! 2\<rparr>)))"

section \<open>Requests and responses\<close>

record ProviderToolCall =
  ptc_id :: string
  ptc_name :: string
  ptc_arguments :: string

record ProviderMessage =
  pm_role :: string
  pm_content :: string
  pm_tool_calls :: "ProviderToolCall list"
  pm_tool_call_id :: "string option"
  pm_name :: "string option"

record ProviderToolSpec =
  pts_name :: string
  pts_description :: string
  pts_parameters :: "(string \<times> pyval) list"

record ProviderResponse =
  pp_text :: string
  pp_tool_calls :: "ProviderToolCall list"
  pp_prompt_tokens :: int
  pp_completion_tokens :: int
  pp_reasoning_tokens :: int
  pp_reasoning_content_present :: bool

definition text_or_none :: "string option \<Rightarrow> pyval" where
  "text_or_none t = (case t of None \<Rightarrow> PNone | Some x \<Rightarrow> PStr x)"

text \<open>\<open>model_dump(mode="json")\<close> of a message and of a tool.\<close>

definition message_dump :: "ProviderMessage \<Rightarrow> pyval" where
  "message_dump m = PDict [(''role'', PStr (pm_role m)), (''content'', PStr (pm_content m)),
     (''tool_calls'', PList (map (\<lambda>c. PDict [(''id'', PStr (ptc_id c)), (''name'', PStr (ptc_name c)),
        (''arguments'', PStr (ptc_arguments c))]) (pm_tool_calls m))),
     (''tool_call_id'', text_or_none (pm_tool_call_id m)), (''name'', text_or_none (pm_name m))]"

definition tool_dump :: "ProviderToolSpec \<Rightarrow> pyval" where
  "tool_dump t = PDict [(''name'', PStr (pts_name t)), (''description'', PStr (pts_description t)),
     (''parameters'', PDict (pts_parameters t))]"

definition json_bytes :: "pyval \<Rightarrow> int result" where
  "json_bytes v = rbind (agent_canonical_json v) (\<lambda>t. Inr (int (length (utf8_encode t))))"

definition estimate_input_units :: "ProviderMessage list \<Rightarrow> ProviderToolSpec list \<Rightarrow> int result" where
  "estimate_input_units messages tools =
     rbind (rmap (\<lambda>m. json_bytes (message_dump m)) messages) (\<lambda>ms.
     rbind (rmap (\<lambda>t. json_bytes (tool_dump t)) tools) (\<lambda>ts. Inr (sum_list ms + sum_list ts)))"

definition estimate_input_tokens :: "ProviderMessage list \<Rightarrow> ProviderToolSpec list \<Rightarrow> int result" where
  "estimate_input_tokens messages tools = estimate_input_units messages tools"

section \<open>The account\<close>

record BudgetAccount =
  ba_limits :: BudgetLimits
  ba_pricing :: "Pricing option"
  ba_require_pricing :: bool
  ba_started :: int
  ba_usage :: UsageSnapshot

text \<open>\<open>now\<close> is the reading of the account's clock.\<close>

definition budget_elapsed_ms :: "BudgetAccount \<Rightarrow> int \<Rightarrow> int" where
  "budget_elapsed_ms a now = max 0 ((now - ba_started a) div 1000000)"

definition budget_snapshot :: "BudgetAccount \<Rightarrow> int \<Rightarrow> int \<Rightarrow> BudgetSnapshot" where
  "budget_snapshot a now steps = \<lparr>bs_steps = steps, bs_usage = ba_usage a, bs_elapsed_ms = budget_elapsed_ms a now\<rparr>"

definition used_output :: "BudgetAccount \<Rightarrow> int" where
  "used_output a = us_completion_tokens (ba_usage a) + us_reasoning_tokens (ba_usage a)"

definition preflight ::
  "BudgetAccount \<Rightarrow> int \<Rightarrow> ProviderMessage list \<Rightarrow> ProviderToolSpec list \<Rightarrow> string option result" where
  "preflight a now messages tools =
     (if budget_elapsed_ms a now \<ge> bl_max_wall_time_ms (ba_limits a) then Inr (Some ''WALL_TIME_BUDGET'')
      else if used_output a + bl_max_output_tokens (ba_limits a) > bl_max_total_output_tokens (ba_limits a)
      then Inr (Some ''TOKEN_BUDGET'')
      else (case ba_pricing a of
        None \<Rightarrow> Inr (if ba_require_pricing a then Some ''COST_BUDGET'' else None)
      | Some p \<Rightarrow>
          rbind (estimate_input_units messages tools) (\<lambda>units.
          rbind (cost_microusd p units 0 0) (\<lambda>x.
          rbind (maximum_output_cost_microusd p (bl_max_output_tokens (ba_limits a))) (\<lambda>y.
          Inr (if us_cost_microusd (ba_usage a) + (x + y) > bl_max_cost_microusd (ba_limits a)
               then Some ''COST_BUDGET'' else None))))))"

definition record_usage :: "BudgetAccount \<Rightarrow> int \<Rightarrow> ProviderResponse \<Rightarrow> (string option \<times> BudgetAccount) result" where
  "record_usage a now r =
     (let per_call = pp_completion_tokens r + pp_reasoning_tokens r in
      if min (pp_prompt_tokens r) (min (pp_completion_tokens r) (pp_reasoning_tokens r)) < 0
      then Inr (Some ''TOKEN_BUDGET'', a)
      else
        rbind (case ba_pricing a of
                 None \<Rightarrow> Inr 0
               | Some p \<Rightarrow> cost_microusd p (pp_prompt_tokens r) (pp_completion_tokens r) (pp_reasoning_tokens r)) (\<lambda>cost.
          (let u = ba_usage a;
               next_cost = us_cost_microusd u + cost;
               a' = a\<lparr>ba_usage := \<lparr>us_prompt_tokens = us_prompt_tokens u + pp_prompt_tokens r,
                      us_completion_tokens = us_completion_tokens u + pp_completion_tokens r,
                      us_reasoning_tokens = us_reasoning_tokens u + pp_reasoning_tokens r,
                      us_cost_microusd = next_cost\<rparr>\<rparr>
           in Inr (if per_call > bl_max_output_tokens (ba_limits a) then Some ''TOKEN_BUDGET''
                   else if used_output a + per_call > bl_max_total_output_tokens (ba_limits a) then Some ''TOKEN_BUDGET''
                   else if next_cost > bl_max_cost_microusd (ba_limits a) then Some ''COST_BUDGET''
                   else if budget_elapsed_ms a now \<ge> bl_max_wall_time_ms (ba_limits a) then Some ''WALL_TIME_BUDGET''
                   else None, a'))))"

end
