(* ===== verification/Agent_Budget_Properties.thy ===== *)
theory Agent_Budget_Properties
  imports Agent_Budget
begin

text \<open>
  A run does not overspend.  For prices with at most ten digits and six decimal places the decimal arithmetic is exact, so the cost of
  a call is a rounded-up linear form, and the reservation made before the call covers every response that keeps to it.
\<close>

section \<open>Exact decimals\<close>

text \<open>\<open>units12 d x\<close>: \<open>d\<close> is a non-negative decimal worth \<open>x\<close> units of \<open>10\<close> to the power \<open>-12\<close>, small enough to be added exactly.\<close>

definition units12 :: "pydec \<Rightarrow> nat \<Rightarrow> bool" where
  "units12 d x \<longleftrightarrow> (\<exists>c e. d = DFin False c e \<and> - 12 \<le> e \<and> e \<le> 0 \<and> x = c * 10 ^ nat (e + 12))"

lemma finalize_exact:
  assumes "c < 10 ^ 28" and "- 12 \<le> e" and "e \<le> 0"
  shows "dec_finalize c e = Inr (c, e)"
proof (cases "c = 0")
  case True
  with assms show ?thesis by (simp add: dec_finalize_def)
next
  case False
  moreover from assms(1) have "ndigits c \<le> 28" using ndigits_le_iff [of 28 c] by simp
  ultimately show ?thesis using assms by (intro dec_finalize_fits) auto
qed

lemma units12_bound: "units12 (DFin False c e) x \<Longrightarrow> c \<le> x"
  by (auto simp: units12_def)

lemma split_power: "- 12 \<le> (m::int) \<Longrightarrow> m \<le> e \<Longrightarrow> (10::nat) ^ nat (e + 12) = 10 ^ nat (e - m) * 10 ^ nat (m + 12)"
  by (simp flip: power_add nat_add_distrib)

lemma dec_add_exact:
  assumes "units12 a x" and "units12 b y" and "x + y < 10 ^ 28"
  shows "\<exists>d. dec_add a b = Inr d \<and> units12 d (x + y)"
proof -
  from assms(1,2) obtain c e d f where a: "a = DFin False c e" "- 12 \<le> e" "e \<le> 0" "x = c * 10 ^ nat (e + 12)"
    and b: "b = DFin False d f" "- 12 \<le> f" "f \<le> 0" "y = d * 10 ^ nat (f + 12)" unfolding units12_def by blast
  define m where "m = min e f"
  define n where "n = c * 10 ^ nat (e - m) + d * 10 ^ nat (f - m)"
  have m: "- 12 \<le> m" "m \<le> e" "m \<le> f" "m \<le> 0" using a b by (auto simp: m_def)
  have xy: "x + y = n * 10 ^ nat (m + 12)"
    using a(4) b(4) split_power [OF m(1,2)] split_power [OF m(1,3)] by (simp add: n_def algebra_simps)
  then have "n \<le> x + y" by simp
  with assms(3) have "n < 10 ^ 28" by linarith
  with m have fin: "dec_finalize n m = Inr (n, m)" by (intro finalize_exact)
  have "dec_signed False c * 10 ^ nat (e - m) + dec_signed False d * 10 ^ nat (f - m) = int n"
    by (simp add: dec_signed_def n_def)
  then have "dec_add a b = rbind (dec_finalize n m) (\<lambda>(c', e'). Inr (DFin False c' e'))"
    using a(1) b(1) by (simp add: Let_def flip: m_def)
  with fin xy m show ?thesis by (auto simp: units12_def)
qed

definition ceil12 :: "nat \<Rightarrow> int" where
  "ceil12 x = - ((- int x) div 10 ^ 12)"

lemma ceil_scaled: "0 < (q::int) \<Longrightarrow> - ((- a) div p) = - ((- (a * q)) div (p * q))"
  using div_mult_mult1_if [of q "- a" p] by (simp add: mult.commute)

lemma dec_ceiling_exact: "units12 d x \<Longrightarrow> dec_ceiling d = Inr (ceil12 x)"
proof -
  assume "units12 d x"
  then obtain c e where d: "d = DFin False c e" "- 12 \<le> e" "e \<le> 0" "x = c * 10 ^ nat (e + 12)" unfolding units12_def by blast
  have p: "(10::int) ^ 12 = 10 ^ nat (- e) * 10 ^ nat (e + 12)" using d(2,3) by (simp flip: power_add nat_add_distrib)
  have "- ((- int c) div 10 ^ nat (- e)) = ceil12 x"
    unfolding ceil12_def d(4) p using ceil_scaled [of "10 ^ nat (e + 12)" "int c" "10 ^ nat (- e)"] by simp
  moreover have "int c * 10 ^ nat e = - ((- int c) div 10 ^ nat (- e))" if "e \<ge> 0" using that d(3) by simp
  ultimately show ?thesis using d(1) by (auto simp: dec_ceiling_def dec_signed_def)
qed

lemma ceil12_mono: "x \<le> y \<Longrightarrow> ceil12 x \<le> ceil12 y"
  by (simp add: ceil12_def zdiv_mono1)

lemma ceil12_nonneg: "0 \<le> ceil12 x"
  by (simp add: ceil12_def div_nonpos_pos_le0)

lemma ceil12_add: "ceil12 (x + y) \<le> ceil12 x + ceil12 y"
proof -
  have "(- int x) div 10 ^ 12 + (- int y) div 10 ^ 12 \<le> (- int x + - int y) div 10 ^ 12"
    using div_add1_eq [of "- int x" "- int y" "10 ^ 12 :: int"] by (simp add: pos_imp_zdiv_nonneg_iff)
  then show ?thesis by (simp add: ceil12_def)
qed

section \<open>Prices\<close>

text \<open>A price of at most ten digits with at most six decimal places, in millionths.\<close>

definition plain_price :: "pydec \<Rightarrow> bool" where
  "plain_price d \<longleftrightarrow> (\<exists>c e. d = DFin False c e \<and> - 6 \<le> e \<and> e \<le> 0 \<and> c < 10 ^ 10)"

fun price_units :: "pydec \<Rightarrow> nat" where
  "price_units (DFin s c e) = c * 10 ^ nat (e + 6)"
| "price_units _ = 0"

lemma price_units_bound: "plain_price d \<Longrightarrow> price_units d < 10 ^ 16"
proof -
  assume "plain_price d"
  then obtain c e where d: "d = DFin False c e" "- 6 \<le> e" "e \<le> 0" "c < 10 ^ 10" by (auto simp: plain_price_def)
  have "(10::nat) ^ nat (e + 6) \<le> 10 ^ 6" using d(3) by (intro power_increasing) auto
  then have "c * 10 ^ nat (e + 6) \<le> c * 10 ^ 6" by (rule mult_le_mono2)
  also have "\<dots> < 10 ^ 16" using d(4) by simp
  finally show ?thesis using d(1) by simp
qed

lemma token_price_exact:
  assumes "plain_price d" and "0 \<le> t" and "t < 10 ^ 9"
  shows "\<exists>r. token_price t d = Inr r \<and> units12 r (nat t * price_units d)"
proof -
  from assms(1) obtain c e where d: "d = DFin False c e" "- 6 \<le> e" "e \<le> 0" "c < 10 ^ 10" by (auto simp: plain_price_def)
  have "nat t * c \<le> 10 ^ 9 * 10 ^ 10" using assms(2,3) d(4) by (intro mult_le_mono) auto
  then have n: "nat t * c < 10 ^ 28" by simp
  have f: "dec_finalize (nat t * c) e = Inr (nat t * c, e)" "dec_finalize (nat t * c) (e - 6) = Inr (nat t * c, e - 6)"
    using n d(2,3) by (auto intro!: finalize_exact)
  have "token_price t d = Inr (DFin False (nat t * c) (e - 6))"
    using assms(2) d(1) f by (simp add: token_price_def dec_of_int_def dec_per_million_def)
  moreover have "nat (e - 6 + 12) = nat (e + 6)" by simp
  ultimately show ?thesis using d(2,3) by (auto simp: units12_def d(1) mult.assoc)
qed

definition plain_pricing :: "Pricing \<Rightarrow> bool" where
  "plain_pricing p \<longleftrightarrow> plain_price (pr_input p) \<and> plain_price (pr_output p) \<and> plain_price (pr_reasoning p)"

lemma charge_bound:
  assumes "plain_price d" and "0 \<le> t" and "t < 10 ^ 9"
  shows "nat t * price_units d \<le> 10 ^ 25"
proof -
  have "nat t * price_units d \<le> 10 ^ 9 * 10 ^ 16"
    using assms(2,3) price_units_bound [OF assms(1)] by (intro mult_le_mono) auto
  then show ?thesis by simp
qed

lemma cost_exact:
  assumes "plain_pricing p" and "0 \<le> a" "a < 10 ^ 9" and "0 \<le> b" "b < 10 ^ 9" and "0 \<le> c" "c < 10 ^ 9"
  shows "cost_microusd p a b c =
    Inr (ceil12 (nat a * price_units (pr_input p) + nat b * price_units (pr_output p) + nat c * price_units (pr_reasoning p)))"
proof -
  let ?x = "nat a * price_units (pr_input p)" and ?y = "nat b * price_units (pr_output p)" and ?z = "nat c * price_units (pr_reasoning p)"
  have pr: "plain_price (pr_input p)" "plain_price (pr_output p)" "plain_price (pr_reasoning p)" using assms(1) by (auto simp: plain_pricing_def)
  note bounds = charge_bound [OF pr(1) assms(2,3)] charge_bound [OF pr(2) assms(4,5)] charge_bound [OF pr(3) assms(6,7)]
  obtain u where u: "token_price a (pr_input p) = Inr u" "units12 u ?x" using token_price_exact [OF pr(1) assms(2,3)] by blast
  obtain v where v: "token_price b (pr_output p) = Inr v" "units12 v ?y" using token_price_exact [OF pr(2) assms(4,5)] by blast
  obtain w where w: "token_price c (pr_reasoning p) = Inr w" "units12 w ?z" using token_price_exact [OF pr(3) assms(6,7)] by blast
  have z: "units12 (dec_of_int 0) 0" by (simp add: units12_def dec_of_int_def)
  have "0 + ?x < 10 ^ 28" using bounds(1) by simp
  from dec_add_exact [OF z u(2) this] obtain s1 where s1: "dec_add (dec_of_int 0) u = Inr s1" "units12 s1 ?x" by auto
  have "?x + ?y < 10 ^ 28" using bounds(1,2) by simp
  from dec_add_exact [OF s1(2) v(2) this] obtain s2 where s2: "dec_add s1 v = Inr s2" "units12 s2 (?x + ?y)" by blast
  have "?x + ?y + ?z < 10 ^ 28" using bounds by simp
  from dec_add_exact [OF s2(2) w(2) this] obtain s3 where s3: "dec_add s2 w = Inr s3" "units12 s3 (?x + ?y + ?z)" by blast
  show ?thesis by (simp add: cost_microusd_def u(1) v(1) w(1) s1(1) s2(1) s3(1) dec_ceiling_exact [OF s3(2)])
qed

lemma dec_le_price:
  assumes "plain_price d" and "plain_price f"
  shows "dec_le d f \<longleftrightarrow> price_units d \<le> price_units f"
proof -
  from assms obtain c e c' e' where d: "d = DFin False c e" "- 6 \<le> e" and f: "f = DFin False c' e'" "- 6 \<le> e'"
    by (auto simp: plain_price_def)
  define m where "m = min e e'"
  have m: "- 6 \<le> m" "m \<le> e" "m \<le> e'" using d f by (auto simp: m_def)
  have s: "(10::nat) ^ nat (k + 6) = 10 ^ nat (k - m) * 10 ^ nat (m + 6)" if "m \<le> k" for k
    using that m(1) by (simp flip: power_add nat_add_distrib)
  have "price_units d \<le> price_units f \<longleftrightarrow> c * 10 ^ nat (e - m) * 10 ^ nat (m + 6) \<le> c' * 10 ^ nat (e' - m) * 10 ^ nat (m + 6)"
    using d(1) f(1) s [OF m(2)] s [OF m(3)] by (simp add: mult.assoc)
  also have "\<dots> \<longleftrightarrow> c * 10 ^ nat (e - m) \<le> c' * 10 ^ nat (e' - m)" by simp
  also have "\<dots> \<longleftrightarrow> int (c * 10 ^ nat (e - m)) \<le> int (c' * 10 ^ nat (e' - m))" by (simp only: of_nat_le_iff)
  also have "\<dots> \<longleftrightarrow> dec_le d f" using d(1) f(1) by (simp add: Let_def dec_signed_def flip: m_def)
  finally show ?thesis by simp
qed

lemma output_cost_exact:
  assumes "plain_pricing p" and "0 \<le> n" "n < 10 ^ 9"
  shows "maximum_output_cost_microusd p n =
    Inr (ceil12 (nat n * max (price_units (pr_output p)) (price_units (pr_reasoning p))))"
proof -
  have pr: "plain_price (pr_output p)" "plain_price (pr_reasoning p)" using assms(1) by (auto simp: plain_pricing_def)
  let ?h = "if dec_le (pr_reasoning p) (pr_output p) then pr_output p else pr_reasoning p"
  have h: "plain_price ?h" "price_units ?h = max (price_units (pr_output p)) (price_units (pr_reasoning p))"
    using pr dec_le_price [OF pr(2,1)] by (auto simp: max_def)
  from token_price_exact [OF h(1) assms(2,3)] obtain r where "token_price n ?h = Inr r" "units12 r (nat n * price_units ?h)" by blast
  then show ?thesis using dec_ceiling_exact by (simp add: maximum_output_cost_microusd_def Let_def h(2))
qed

lemma output_charge:
  assumes "0 \<le> (b::int)" "0 \<le> c" "b + c \<le> n"
  shows "nat b * x + nat c * y \<le> nat n * max x y"
proof -
  have "nat b * x + nat c * y \<le> nat b * max x y + nat c * max x y" by (intro add_mono mult_le_mono2) simp_all
  also have "\<dots> = nat (b + c) * max x y" using assms by (simp add: nat_add_distrib algebra_simps)
  also have "\<dots> \<le> nat n * max x y" using assms by (intro mult_le_mono1 nat_mono)
  finally show ?thesis .
qed

text \<open>What is reserved covers what is charged.\<close>

lemma reservation_covers:
  assumes "plain_pricing p" and "0 \<le> a" "a \<le> units" "units < 10 ^ 9" and "0 \<le> b" "0 \<le> c" "b + c \<le> n" "n < 10 ^ 9"
  shows "\<exists>cost x y. cost_microusd p a b c = Inr cost \<and> cost_microusd p units 0 0 = Inr x \<and>
    maximum_output_cost_microusd p n = Inr y \<and> 0 \<le> cost \<and> cost \<le> x + y"
proof -
  let ?i = "price_units (pr_input p)" and ?o = "price_units (pr_output p)" and ?r = "price_units (pr_reasoning p)"
  have "nat a * ?i + (nat b * ?o + nat c * ?r) \<le> nat units * ?i + nat n * max ?o ?r"
    using assms by (intro add_mono mult_le_mono1 nat_mono output_charge) auto
  then have "ceil12 (nat a * ?i + nat b * ?o + nat c * ?r) \<le> ceil12 (nat units * ?i) + ceil12 (nat n * max ?o ?r)"
    using order_trans [OF ceil12_mono ceil12_add] by (simp only: add.assoc)
  moreover have "cost_microusd p a b c = Inr (ceil12 (nat a * ?i + nat b * ?o + nat c * ?r))"
    using assms by (intro cost_exact) auto
  moreover have "cost_microusd p units 0 0 = Inr (ceil12 (nat units * ?i))"
    using assms cost_exact [of p units 0 0] by simp
  moreover have "maximum_output_cost_microusd p n = Inr (ceil12 (nat n * max ?o ?r))"
    using assms by (intro output_cost_exact) auto
  ultimately show ?thesis using ceil12_nonneg by blast
qed

text \<open>
  C40: a run that passed the check before a call does not overspend.  Let the check before a paid call pass, and let the provider answer with no
  more prompt tokens than the estimate and no more output than it was allowed.  Then recording the response succeeds, the cost stays
  within the limit and so does the total output, and nothing but the wall clock can stop the run.
\<close>

theorem budget_never_overspent:
  assumes "preflight a now messages tools = Inr None" and "valid_budget_limits (ba_limits a)"
    and "ba_pricing a = Some p" and "plain_pricing p"
    and "estimate_input_units messages tools = Inr units" and "units < 10 ^ 9"
    and "0 \<le> pp_prompt_tokens r" and "pp_prompt_tokens r \<le> units"
    and "0 \<le> pp_completion_tokens r" and "0 \<le> pp_reasoning_tokens r"
    and "pp_completion_tokens r + pp_reasoning_tokens r \<le> bl_max_output_tokens (ba_limits a)"
  shows "\<exists>code a'. record_usage a later r = Inr (code, a') \<and> code \<in> {None, Some ''WALL_TIME_BUDGET''} \<and>
    us_cost_microusd (ba_usage a) \<le> us_cost_microusd (ba_usage a') \<and>
    us_cost_microusd (ba_usage a') \<le> bl_max_cost_microusd (ba_limits a) \<and>
    used_output a' \<le> bl_max_total_output_tokens (ba_limits a)"
proof -
  let ?n = "bl_max_output_tokens (ba_limits a)"
  have n: "?n < 10 ^ 9" using assms(2) by (simp add: valid_budget_limits_def)
  from reservation_covers [OF assms(4,7,8,6,9,10,11) n] obtain cost x y where
    c: "cost_microusd p (pp_prompt_tokens r) (pp_completion_tokens r) (pp_reasoning_tokens r) = Inr cost"
    "cost_microusd p units 0 0 = Inr x" "maximum_output_cost_microusd p ?n = Inr y" "0 \<le> cost" "cost \<le> x + y" by blast
  from assms(1,3,5) c(2,3) have pre: "used_output a + ?n \<le> bl_max_total_output_tokens (ba_limits a)"
    "us_cost_microusd (ba_usage a) + (x + y) \<le> bl_max_cost_microusd (ba_limits a)"
    by (auto simp: preflight_def split: if_splits)
  show ?thesis
    using assms(3,7,9-11) c(1,4,5) pre by (auto simp: record_usage_def Let_def used_output_def)
qed

definition sample_account :: BudgetAccount where
  "sample_account = \<lparr>ba_limits = \<lparr>bl_max_steps = 6, bl_max_output_tokens = 512, bl_max_total_output_tokens = 3072,
       bl_max_wall_time_ms = 180000, bl_max_cost_microusd = 50000, bl_max_calls_per_tool = 3, bl_no_progress_threshold = 2\<rparr>,
     ba_pricing = Some \<lparr>pr_input = DFin False 15 (- 1), pr_output = DFin False 2 0, pr_reasoning = DFin False 3 0\<rparr>,
     ba_require_pricing = True, ba_started = 0, ba_usage = no_usage\<rparr>"

definition sample_response :: ProviderResponse where
  "sample_response = \<lparr>pp_text = [], pp_tool_calls = [], pp_prompt_tokens = 0, pp_completion_tokens = 100, pp_reasoning_tokens = 7,
     pp_reasoning_content_present = False\<rparr>"

theorem budget_never_overspent_witness:
  "\<exists>code a'. record_usage sample_account 5 sample_response = Inr (code, a') \<and> us_cost_microusd (ba_usage a') \<le> 50000 \<and> used_output a' \<le> 3072"
proof -
  let ?p = "\<lparr>pr_input = DFin False 15 (- 1), pr_output = DFin False 2 0, pr_reasoning = DFin False 3 0\<rparr>"
  have e: "estimate_input_units [] [] = Inr 0" by (simp add: estimate_input_units_def)
  have p: "ba_pricing sample_account = Some ?p" "valid_budget_limits (ba_limits sample_account)"
    by (simp_all add: sample_account_def valid_budget_limits_def)
  have pl: "plain_pricing ?p" by (simp add: plain_pricing_def plain_price_def)
  have c: "cost_microusd ?p 0 0 0 = Inr 0" "maximum_output_cost_microusd ?p 512 = Inr 1"
    using cost_exact [OF pl, of 0 0 0] output_cost_exact [OF pl, of 512] by (simp_all add: ceil12_def)
  have "preflight sample_account 0 [] [] = Inr None"
    by (simp add: preflight_def p(1) e c budget_elapsed_ms_def used_output_def) (simp add: sample_account_def no_usage_def c)
  from budget_never_overspent [OF this p(2,1) pl e, of sample_response 5] show ?thesis
    by (simp add: sample_response_def) (auto simp: sample_account_def)
qed

end
