(* ===== verification/Governance_Store.thy ===== *)
theory Governance_Store
  imports Gateway_Site Execution_Contracts
begin

text \<open>
  \<open>governance/service.py\<close> and the controllers of the four governance documents (\<open>doctype/synora_proposed_action\<close>,
  \<open>synora_policy_decision\<close>, \<open>synora_approval_decision\<close>, \<open>synora_execution_receipt\<close>): how actions, decisions and receipts are stored, how the state
  of an action moves, and what a caller may read.  A table is a list of rows.  Operations run in the monad of
  \<open>Gateway_Site\<close>.

  Frappe is again a parameter.  To \<open>genv\<close> the record \<open>gov_env\<close> adds: whether the framework's own checks (links, options, lengths)
  accept a document of the given type and name, whether the stored document is still the one that was read when it is saved, and
  \<open>p2p_action_calculation\<close>, which reads the amounts to show from ERP documents.
\<close>

section \<open>Documents\<close>

record action_row =
  sa_schema_version :: string
  sa_action_type :: string
  sa_run :: string
  sa_action_id :: string
  sa_initiator :: string
  sa_payload_json :: string
  sa_evidence_refs_json :: string
  sa_calculation_refs_json :: string
  sa_risk_class :: string
  sa_approval_class :: string
  sa_snapshot_ref :: string
  sa_idempotency_key :: string
  sa_expires_at :: string
  sa_revalidation_rule :: pyval
  sa_proposal_digest :: string
  sa_summary :: string
  sa_correlation_id :: string
  sa_state :: string
  sa_state_version :: int
  sa_state_reason :: string
  sa_state_changed_at :: string
  sa_state_changed_by :: string

record policy_row =
  spd_decision_id :: string
  spd_action :: string
  spd_proposal_digest :: string
  spd_actor :: string
  spd_identity_outcome :: pyval
  spd_scope_outcome :: pyval
  spd_permission_outcome :: pyval
  spd_deterministic_outcome :: pyval
  spd_workflow_policy_outcome :: pyval
  spd_matched_rule :: string
  spd_rule_version :: string
  spd_outcome :: pyval
  spd_reason :: string
  spd_snapshot_ref :: string
  spd_expires_at :: string
  spd_decided_at :: string
  spd_correlation_id :: string

record approval_row =
  sd_decision_id :: string
  sd_action :: string
  sd_proposal_digest :: string
  sd_actor :: string
  sd_decision :: pyval
  sd_matched_rule :: string
  sd_snapshot_ref :: string
  sd_expires_at :: string
  sd_reason :: string
  sd_decided_at :: string
  sd_correlation_id :: string

record receipt_row =
  sr_receipt_id :: string
  sr_action :: string
  sr_run :: string
  sr_idempotency_key :: string
  sr_initiator :: string
  sr_approver :: "string option"
  sr_executor :: string
  sr_proposal_digest :: string
  sr_target_doctype :: pyval
  sr_target_name :: "string option"
  sr_verified_fields_json :: string
  sr_response_category :: pyval
  sr_failure_category :: "string option"
  sr_final_state :: pyval
  sr_started_at :: string
  sr_completed_at :: "string option"
  sr_correlation_id :: string
  sr_reconciliation_evidence_json :: string

record gov_site =
  gv_runs :: "(string \<times> agent_run) list"
  gv_actions :: "action_row list"
  gv_policies :: "policy_row list"
  gv_approvals :: "approval_row list"
  gv_receipts :: "receipt_row list"
  gv_ticks :: nat

record gov_env =
  gv_env :: genv
  gv_accepts :: "string \<Rightarrow> string \<Rightarrow> bool"
  gv_unchanged :: bool
  gv_p2p_calculation :: "ProposedAction \<Rightarrow> (string \<times> pyval) list result"

type_synonym 'a vact = "(gov_site, 'a) sact"

definition gov_lib :: "gov_env \<Rightarrow> wflib" where
  "gov_lib env = ge_lib (gv_env env)"

text \<open>An argument that is an instance of its contract class already, or a value still to be parsed.\<close>

datatype 'a contract = Typed 'a | Raw pyval

definition contract_of :: "(pylib \<Rightarrow> pyval \<Rightarrow> 'a result) \<Rightarrow> gov_env \<Rightarrow> 'a contract \<Rightarrow> 'a result" where
  "contract_of parse env value = (case value of Typed x \<Rightarrow> Inr x | Raw v \<Rightarrow> parse (wf_py (gov_lib env)) v)"

section \<open>Reading stored actions\<close>

definition or_none :: "string option \<Rightarrow> pyval" where
  "or_none t = (case t of None \<Rightarrow> PNone | Some x \<Rightarrow> if x = [] then PNone else PStr x)"

definition action_dict :: "wflib \<Rightarrow> action_row \<Rightarrow> (string \<times> pyval) list result" where
  "action_dict lib doc =
     rbind (json_loads lib (sa_payload_json doc)) (\<lambda>payload.
     rbind (json_loads lib (sa_evidence_refs_json doc)) (\<lambda>evidence_refs.
     rbind (json_loads lib (sa_calculation_refs_json doc)) (\<lambda>calculation_refs.
     Inr [(''schema_version'', PStr (sa_schema_version doc)), (''action_type'', PStr (sa_action_type doc)),
          (''run_id'', PStr (sa_run doc)), (''action_id'', PStr (sa_action_id doc)),
          (''initiator'', PStr (sa_initiator doc)), (''payload'', payload), (''evidence_refs'', evidence_refs),
          (''calculation_refs'', calculation_refs), (''risk_class'', PStr (sa_risk_class doc)),
          (''approval_class'', PStr (sa_approval_class doc)), (''snapshot_ref'', PStr (sa_snapshot_ref doc)),
          (''idempotency_key'', PStr (sa_idempotency_key doc)), (''expires_at'', PStr (sa_expires_at doc)),
          (''revalidation_rule'', sa_revalidation_rule doc), (''proposal_digest'', PStr (sa_proposal_digest doc)),
          (''summary'', PStr (sa_summary doc)), (''correlation_id'', PStr (sa_correlation_id doc))])))"

definition read_action :: "wflib \<Rightarrow> action_row \<Rightarrow> ProposedAction result" where
  "read_action lib doc = rbind (action_dict lib doc) (\<lambda>d. build_proposed_action (wf_py lib) (PDict d))"

definition find_action :: "string \<Rightarrow> action_row option vact" where
  "find_action action_id s = (Inr (find (\<lambda>r. sa_action_id r = action_id) (gv_actions s)), s)"

definition load_action :: "gov_env \<Rightarrow> string \<Rightarrow> ProposedAction vact" where
  "load_action env action_id =
     g_bind (find_action action_id) (\<lambda>doc. case doc of
       None \<Rightarrow> g_raise (GatewayFault ''NOT_FOUND'' ''governed action is not available'' 404)
     | Some row \<Rightarrow> (case read_action (gov_lib env) row of
         Inl e \<Rightarrow> g_raise (GatewayFault ''CONFLICT'' ''governed action record is invalid'' 409)
       | Inr action \<Rightarrow> g_return action))"

definition authenticated_actor :: "gov_env \<Rightarrow> string result" where
  "authenticated_actor env =
     (let actor = (if ge_user (gv_env env) = [] then ''Guest'' else ge_user (gv_env env)) in
      if actor = ''Guest'' then Inl (GatewayFault ''AUTHENTICATION_REQUIRED'' ''authenticated user required'' 401)
      else Inr actor)"

definition is_manager :: "gov_env \<Rightarrow> string \<Rightarrow> bool" where
  "is_manager env actor \<longleftrightarrow> ''System Manager'' \<in> set (ge_roles (gv_env env) actor)"

definition read_authorized :: "gov_env \<Rightarrow> string \<Rightarrow> string option \<Rightarrow> unit result" where
  "read_authorized env initiator allowed_actor =
     rbind (authenticated_actor env) (\<lambda>actor.
     if actor = initiator \<or> allowed_actor = Some actor \<or> is_manager env actor then Inr ()
     else Inl (GatewayFault ''PERMISSION_DENIED'' ''governed action is not available'' 403))"

definition read_action_owner :: "gov_env \<Rightarrow> string \<Rightarrow> string option \<Rightarrow> unit vact" where
  "read_action_owner env action_id allowed_actor =
     g_bind (find_action action_id) (\<lambda>doc. case doc of
       None \<Rightarrow> g_raise (OtherError ''DoesNotExistError'')
     | Some row \<Rightarrow> g_lift (read_authorized env (sa_initiator row) allowed_actor))"

section \<open>What a caller sees\<close>

definition CALCULATED_ACTIONS :: "string list" where
  "CALCULATED_ACTIONS = [''CREATE_PI_DRAFT'', ''SUBMIT_PI'', ''CANCEL_PI'', ''CREATE_PAYMENT_ENTRY_DRAFT'', ''SUBMIT_PAYMENT_ENTRY'',
     ''CANCEL_PAYMENT_ENTRY'', ''CANCEL_PO'', ''CANCEL_PR'']"

definition action_calculation :: "gov_env \<Rightarrow> ProposedAction \<Rightarrow> (string \<times> pyval) list result" where
  "action_calculation env action =
     (if pa_action_type action = ''CREATE_PO_DRAFT''
      then rbind (purchase_order_calculation action) (\<lambda>c. Inr [(''calculation'', PDict c)])
      else if pa_action_type action \<in> set CALCULATED_ACTIONS
      then rbind (gv_p2p_calculation env action) (\<lambda>c. Inr [(''calculation'', PDict c)])
      else Inr [])"

definition serialize_action :: "gov_env \<Rightarrow> action_row \<Rightarrow> string option \<Rightarrow> (string \<times> pyval) list result" where
  "serialize_action env doc allowed_actor =
     rbind (read_authorized env (sa_initiator doc) allowed_actor) (\<lambda>_.
     rbind (read_action (gov_lib env) doc) (\<lambda>action.
     rbind (action_calculation env action) (\<lambda>calculation.
     Inr (action_to_dict action True @ calculation @
       [(''state'', PStr (sa_state doc)), (''state_version'', PInt (sa_state_version doc)),
        (''state_reason'', PStr (sa_state_reason doc)), (''state_changed_at'', PStr (sa_state_changed_at doc)),
        (''state_changed_by'', PStr (sa_state_changed_by doc))]))))"

definition policy_dict :: "policy_row \<Rightarrow> (string \<times> pyval) list" where
  "policy_dict doc =
     [(''decision_id'', PStr (spd_decision_id doc)), (''action_id'', PStr (spd_action doc)),
      (''proposal_digest'', PStr (spd_proposal_digest doc)), (''actor'', PStr (spd_actor doc)),
      (''checks'', PDict [(''identity'', spd_identity_outcome doc), (''scope'', spd_scope_outcome doc),
         (''permission'', spd_permission_outcome doc), (''deterministic'', spd_deterministic_outcome doc),
         (''workflow_policy'', spd_workflow_policy_outcome doc)]),
      (''matched_rule'', PStr (spd_matched_rule doc)), (''rule_version'', PStr (spd_rule_version doc)),
      (''outcome'', spd_outcome doc), (''reason'', PStr (spd_reason doc)), (''snapshot_ref'', PStr (spd_snapshot_ref doc)),
      (''expires_at'', PStr (spd_expires_at doc)), (''decided_at'', PStr (spd_decided_at doc)),
      (''correlation_id'', PStr (spd_correlation_id doc))]"

definition serialize_policy_decision :: "gov_env \<Rightarrow> policy_row \<Rightarrow> (string \<times> pyval) list vact" where
  "serialize_policy_decision env doc =
     g_bind (read_action_owner env (spd_action doc) None) (\<lambda>_. g_return (policy_dict doc))"

definition approval_dict :: "approval_row \<Rightarrow> (string \<times> pyval) list" where
  "approval_dict doc =
     [(''decision_id'', PStr (sd_decision_id doc)), (''action_id'', PStr (sd_action doc)),
      (''proposal_digest'', PStr (sd_proposal_digest doc)), (''actor'', PStr (sd_actor doc)),
      (''decision'', sd_decision doc), (''matched_rule'', PStr (sd_matched_rule doc)),
      (''snapshot_ref'', PStr (sd_snapshot_ref doc)), (''expires_at'', PStr (sd_expires_at doc)),
      (''reason'', PStr (sd_reason doc)), (''decided_at'', PStr (sd_decided_at doc)),
      (''correlation_id'', PStr (sd_correlation_id doc))]"

definition serialize_approval_decision :: "gov_env \<Rightarrow> approval_row \<Rightarrow> (string \<times> pyval) list vact" where
  "serialize_approval_decision env doc =
     g_bind (read_action_owner env (sd_action doc) (Some (sd_actor doc))) (\<lambda>_. g_return (approval_dict doc))"

definition or_none_val :: "pyval \<Rightarrow> pyval" where
  "or_none_val v = (if truthy v then v else PNone)"

definition receipt_dict :: "wflib \<Rightarrow> receipt_row \<Rightarrow> (string \<times> pyval) list result" where
  "receipt_dict lib doc =
     rbind (json_loads lib (sr_verified_fields_json doc)) (\<lambda>verified.
     rbind (json_loads lib (sr_reconciliation_evidence_json doc)) (\<lambda>evidence.
     Inr [(''receipt_id'', PStr (sr_receipt_id doc)), (''action_id'', PStr (sr_action doc)), (''run_id'', PStr (sr_run doc)),
          (''idempotency_key'', PStr (sr_idempotency_key doc)), (''initiator'', PStr (sr_initiator doc)),
          (''approver'', or_none (sr_approver doc)), (''executor'', PStr (sr_executor doc)),
          (''proposal_digest'', PStr (sr_proposal_digest doc)), (''target_doctype'', or_none_val (sr_target_doctype doc)),
          (''target_name'', or_none (sr_target_name doc)), (''verified_fields'', verified),
          (''response_category'', sr_response_category doc), (''failure_category'', or_none (sr_failure_category doc)),
          (''final_state'', sr_final_state doc), (''started_at'', PStr (sr_started_at doc)),
          (''completed_at'', or_none (sr_completed_at doc)), (''correlation_id'', PStr (sr_correlation_id doc)),
          (''reconciliation_evidence'', evidence)]))"

definition serialize_receipt :: "gov_env \<Rightarrow> receipt_row \<Rightarrow> string option \<Rightarrow> (string \<times> pyval) list vact" where
  "serialize_receipt env doc allowed_actor =
     g_bind (read_action_owner env (sr_action doc) allowed_actor) (\<lambda>_. g_lift (receipt_dict (gov_lib env) doc))"

section \<open>Controllers and inserts\<close>

text \<open>\<open>SynoraProposedAction.validate\<close> of a new document, and of one that replaces \<open>old\<close>; the service flag is set by every caller.\<close>

definition same_reviewed_columns :: "action_row \<Rightarrow> action_row \<Rightarrow> bool" where
  "same_reviewed_columns old new \<longleftrightarrow>
     new\<lparr>sa_state := sa_state old, sa_state_version := sa_state_version old, sa_state_reason := sa_state_reason old,
        sa_state_changed_at := sa_state_changed_at old, sa_state_changed_by := sa_state_changed_by old\<rparr> = old"

definition same_state_columns :: "action_row \<Rightarrow> action_row \<Rightarrow> bool" where
  "same_state_columns old new \<longleftrightarrow>
     sa_state new = sa_state old \<and> sa_state_version new = sa_state_version old \<and> sa_state_reason new = sa_state_reason old \<and>
     sa_state_changed_at new = sa_state_changed_at old \<and> sa_state_changed_by new = sa_state_changed_by old"

definition validate_action_row :: "gov_env \<Rightarrow> action_row option \<Rightarrow> bool \<Rightarrow> action_row \<Rightarrow> unit result" where
  "validate_action_row env before state_flag doc =
     (case read_action (gov_lib env) doc of
        Inl e \<Rightarrow> Inl frappe_throw
      | Inr action \<Rightarrow>
          if pa_proposal_digest action \<noteq> sa_proposal_digest doc then Inl frappe_throw
          else (case before of
            None \<Rightarrow> if sa_state doc \<noteq> ''DRAFT'' \<or> sa_state_version doc \<noteq> 1 then Inl frappe_throw else Inr ()
          | Some old \<Rightarrow>
              if \<not> same_reviewed_columns old doc then Inl frappe_throw
              else if \<not> same_state_columns old doc \<and> \<not> state_flag then Inl frappe_throw
              else if same_state_columns old doc \<and> state_flag then Inl frappe_throw
              else Inr ()))"

text \<open>\<open>_insert\<close>: the controller and the framework check the document, then the unique columns are compared.\<close>

definition already_exists :: pyexc where
  "already_exists = GatewayFault ''CONFLICT'' ''governance record already exists'' 409"

definition insert_action :: "gov_env \<Rightarrow> action_row \<Rightarrow> unit vact" where
  "insert_action env doc s =
     (case validate_action_row env None False doc of
        Inl e \<Rightarrow> (Inl e, s)
      | Inr _ \<Rightarrow>
          if \<not> gv_accepts env ''Synora Proposed Action'' (sa_action_id doc) then (Inl frappe_throw, s)
          else if list_ex (\<lambda>r. sa_action_id r = sa_action_id doc \<or> sa_idempotency_key r = sa_idempotency_key doc \<or>
                 sa_proposal_digest r = sa_proposal_digest doc) (gv_actions s)
          then (Inl already_exists, s)
          else (Inr (), s\<lparr>gv_actions := gv_actions s @ [doc]\<rparr>))"

text \<open>\<open>SynoraPolicyDecision.validate\<close> and \<open>SynoraApprovalDecision.validate\<close> of a new document; the service never saves a decision again.\<close>

definition validate_policy_row :: "gov_env \<Rightarrow> policy_row \<Rightarrow> unit result" where
  "validate_policy_row env doc =
     (case parse_policy_decision (wf_py (gov_lib env)) (PDict (policy_dict doc)) of
        Inl e \<Rightarrow> Inl frappe_throw
      | Inr _ \<Rightarrow> Inr ())"

definition validate_approval_row :: "gov_env \<Rightarrow> approval_row \<Rightarrow> unit result" where
  "validate_approval_row env doc =
     (case parse_approval_decision (wf_py (gov_lib env)) (PDict (approval_dict doc)) of
        Inl e \<Rightarrow> Inl frappe_throw
      | Inr _ \<Rightarrow> Inr ())"

definition insert_policy :: "gov_env \<Rightarrow> policy_row \<Rightarrow> unit vact" where
  "insert_policy env doc s =
     (case validate_policy_row env doc of
        Inl e \<Rightarrow> (Inl e, s)
      | Inr _ \<Rightarrow>
          if \<not> gv_accepts env ''Synora Policy Decision'' (spd_decision_id doc) then (Inl frappe_throw, s)
          else if list_ex (\<lambda>r. spd_decision_id r = spd_decision_id doc) (gv_policies s) then (Inl already_exists, s)
          else (Inr (), s\<lparr>gv_policies := gv_policies s @ [doc]\<rparr>))"

definition insert_approval :: "gov_env \<Rightarrow> approval_row \<Rightarrow> unit vact" where
  "insert_approval env doc s =
     (case validate_approval_row env doc of
        Inl e \<Rightarrow> (Inl e, s)
      | Inr _ \<Rightarrow>
          if \<not> gv_accepts env ''Synora Approval Decision'' (sd_decision_id doc) then (Inl frappe_throw, s)
          else if list_ex (\<lambda>r. sd_decision_id r = sd_decision_id doc) (gv_approvals s) then (Inl already_exists, s)
          else (Inr (), s\<lparr>gv_approvals := gv_approvals s @ [doc]\<rparr>))"

text \<open>\<open>SynoraExecutionReceipt.validate\<close>, with the flags for verified execution and for reconciliation.\<close>

definition RECONCILED_STATES :: "string list" where
  "RECONCILED_STATES = [''RECONCILED_SUCCESS'', ''RECONCILED_FAILURE'', ''MANUAL_INTERVENTION'']"

definition same_receipt_identity :: "receipt_row \<Rightarrow> receipt_row \<Rightarrow> bool" where
  "same_receipt_identity old new \<longleftrightarrow>
     sr_receipt_id new = sr_receipt_id old \<and> sr_action new = sr_action old \<and> sr_run new = sr_run old \<and>
     sr_idempotency_key new = sr_idempotency_key old \<and> sr_initiator new = sr_initiator old \<and>
     sr_approver new = sr_approver old \<and> sr_executor new = sr_executor old \<and>
     sr_proposal_digest new = sr_proposal_digest old \<and> sr_started_at new = sr_started_at old \<and>
     sr_correlation_id new = sr_correlation_id old"

definition validate_receipt_row :: "gov_env \<Rightarrow> receipt_row option \<Rightarrow> bool \<Rightarrow> bool \<Rightarrow> receipt_row \<Rightarrow> unit result" where
  "validate_receipt_row env before verified reconciliation doc =
     (case rbind (receipt_dict (gov_lib env) doc) (\<lambda>d. create_execution_receipt (wf_py (gov_lib env)) (PDict d)) of
        Inl e \<Rightarrow> Inl frappe_throw
      | Inr receipt \<Rightarrow>
          if er_final_state receipt \<in> set (map PStr SUCCESS_STATES) \<and> \<not> verified then Inl frappe_throw
          else (case before of
            None \<Rightarrow> Inr ()
          | Some old \<Rightarrow>
              if \<not> reconciliation then Inl frappe_throw
              else if sr_final_state old \<noteq> PStr ''RECONCILIATION_REQUIRED'' \<or> sr_final_state doc \<notin> set (map PStr RECONCILED_STATES)
              then Inl frappe_throw
              else if \<not> same_receipt_identity old doc then Inl frappe_throw
              else Inr ()))"

definition insert_receipt :: "gov_env \<Rightarrow> bool \<Rightarrow> receipt_row \<Rightarrow> unit vact" where
  "insert_receipt env verified doc s =
     (case validate_receipt_row env None verified False doc of
        Inl e \<Rightarrow> (Inl e, s)
      | Inr _ \<Rightarrow>
          if \<not> gv_accepts env ''Synora Execution Receipt'' (sr_receipt_id doc) then (Inl frappe_throw, s)
          else if list_ex (\<lambda>r. sr_receipt_id r = sr_receipt_id doc \<or> sr_idempotency_key r = sr_idempotency_key doc) (gv_receipts s)
          then (Inl (GatewayFault ''CONFLICT'' ''execution receipt already exists'' 409), s)
          else (Inr (), s\<lparr>gv_receipts := gv_receipts s @ [doc]\<rparr>))"

text \<open>\<open>doc.save\<close> of an action and of a receipt: the row with the old one's key is replaced.\<close>

definition replace_row :: "('a \<Rightarrow> string) \<Rightarrow> 'a \<Rightarrow> 'a \<Rightarrow> 'a list \<Rightarrow> 'a list" where
  "replace_row key old doc rows = map (\<lambda>r. if key r = key old then doc else r) rows"

definition save_action :: "gov_env \<Rightarrow> action_row \<Rightarrow> action_row \<Rightarrow> unit vact" where
  "save_action env old doc s =
     (if \<not> gv_unchanged env then (Inl (GatewayFault ''CONFLICT'' ''governed action changed concurrently'' 409), s)
      else (case validate_action_row env (Some old) True doc of
        Inl e \<Rightarrow> (Inl e, s)
      | Inr _ \<Rightarrow>
          if \<not> gv_accepts env ''Synora Proposed Action'' (sa_action_id doc) then (Inl frappe_throw, s)
          else (Inr (), s\<lparr>gv_actions := replace_row sa_action_id old doc (gv_actions s)\<rparr>)))"

definition save_receipt :: "gov_env \<Rightarrow> bool \<Rightarrow> receipt_row \<Rightarrow> receipt_row \<Rightarrow> unit vact" where
  "save_receipt env verified old doc s =
     (if \<not> gv_unchanged env then (Inl (GatewayFault ''CONFLICT'' ''execution receipt changed concurrently'' 409), s)
      else (case validate_receipt_row env (Some old) verified True doc of
        Inl e \<Rightarrow> (Inl e, s)
      | Inr _ \<Rightarrow>
          if \<not> gv_accepts env ''Synora Execution Receipt'' (sr_receipt_id doc) then (Inl frappe_throw, s)
          else (Inr (), s\<lparr>gv_receipts := replace_row sr_receipt_id old doc (gv_receipts s)\<rparr>)))"

definition gov_now :: "gov_env \<Rightarrow> string vact" where
  "gov_now env s = (Inr (ge_str_time (gv_env env) (ge_clock (gv_env env) (gv_ticks s))), s\<lparr>gv_ticks := Suc (gv_ticks s)\<rparr>)"

section \<open>Persisting facts\<close>

definition action_values :: "gov_env \<Rightarrow> ProposedAction \<Rightarrow> action_row vact" where
  "action_values env action =
     g_bind (g_lift (json_dumps (PDict (pa_payload action)))) (\<lambda>payload.
     g_bind (g_lift (json_dumps (PList (map PStr (pa_evidence_refs action))))) (\<lambda>evidence_refs.
     g_bind (g_lift (json_dumps (PList (map PStr (pa_calculation_refs action))))) (\<lambda>calculation_refs.
     g_bind (gov_now env) (\<lambda>changed_at.
     g_return \<lparr>sa_schema_version = pa_schema_version action, sa_action_type = pa_action_type action,
          sa_run = pa_run_id action, sa_action_id = pa_action_id action, sa_initiator = pa_initiator action,
          sa_payload_json = payload, sa_evidence_refs_json = evidence_refs, sa_calculation_refs_json = calculation_refs,
          sa_risk_class = pa_risk_class action, sa_approval_class = pa_approval_class action,
          sa_snapshot_ref = pa_snapshot_ref action, sa_idempotency_key = pa_idempotency_key action,
          sa_expires_at = pa_expires_at action, sa_revalidation_rule = pa_revalidation_rule action,
          sa_proposal_digest = pa_proposal_digest action, sa_summary = pa_summary action,
          sa_correlation_id = pa_correlation_id action, sa_state = ''DRAFT'', sa_state_version = 1,
          sa_state_reason = ''created'', sa_state_changed_at = changed_at, sa_state_changed_by = pa_initiator action\<rparr>))))"

definition gov_denied :: "string \<Rightarrow> pyexc" where
  "gov_denied message = GatewayFault ''PERMISSION_DENIED'' message 403"

definition gov_conflict :: "string \<Rightarrow> pyexc" where
  "gov_conflict message = GatewayFault ''CONFLICT'' message 409"

definition find_gov_run :: "string \<Rightarrow> agent_run option vact" where
  "find_gov_run name s = (Inr (map_of (gv_runs s) name), s)"

definition key_taken :: "string \<Rightarrow> bool vact" where
  "key_taken key s = (Inr (list_ex (\<lambda>r. sa_idempotency_key r = key) (gv_actions s)), s)"

definition persist_proposed_action :: "gov_env \<Rightarrow> ProposedAction contract \<Rightarrow> (string \<times> pyval) list vact" where
  "persist_proposed_action env value =
     g_bind (g_lift (contract_of build_proposed_action env value)) (\<lambda>action.
     g_bind (g_lift (authenticated_actor env)) (\<lambda>actor.
     g_bind (g_reject (actor \<noteq> pa_initiator action) (gov_denied ''action initiator does not match session'')) (\<lambda>_.
     g_bind (find_gov_run (pa_run_id action)) (\<lambda>run. case run of
       None \<Rightarrow> g_raise (GatewayFault ''RUN_REJECTED'' ''run is not available'' 404)
     | Some r \<Rightarrow>
         g_bind (g_reject (ar_initiator r \<noteq> pa_initiator action) (gov_denied ''action run initiator does not match'')) (\<lambda>_.
         g_bind (key_taken (pa_idempotency_key action)) (\<lambda>taken.
         g_bind (g_reject taken (gov_conflict ''idempotency key already exists'')) (\<lambda>_.
         g_bind (action_values env action) (\<lambda>doc.
         g_bind (insert_action env doc) (\<lambda>_.
         g_lift (serialize_action env doc None))))))))))"

text \<open>\<open>decision.checks[name]\<close> raises when the name is missing.\<close>

definition policy_values :: "PolicyDecision \<Rightarrow> policy_row result" where
  "policy_values d =
     rbind (dict_at (pd_checks d) ''identity'') (\<lambda>identity.
     rbind (dict_at (pd_checks d) ''scope'') (\<lambda>scope.
     rbind (dict_at (pd_checks d) ''permission'') (\<lambda>permission.
     rbind (dict_at (pd_checks d) ''deterministic'') (\<lambda>deterministic.
     rbind (dict_at (pd_checks d) ''workflow_policy'') (\<lambda>workflow_policy.
     Inr \<lparr>spd_decision_id = pd_decision_id d, spd_action = pd_action_id d, spd_proposal_digest = pd_proposal_digest d,
          spd_actor = pd_actor d, spd_identity_outcome = identity, spd_scope_outcome = scope,
          spd_permission_outcome = permission, spd_deterministic_outcome = deterministic,
          spd_workflow_policy_outcome = workflow_policy, spd_matched_rule = pd_matched_rule d,
          spd_rule_version = pd_rule_version d, spd_outcome = pd_outcome d, spd_reason = pd_reason d,
          spd_snapshot_ref = pd_snapshot_ref d, spd_expires_at = pd_expires_at d, spd_decided_at = pd_decided_at d,
          spd_correlation_id = pd_correlation_id d\<rparr>)))))"

definition persist_policy_decision :: "gov_env \<Rightarrow> PolicyDecision contract \<Rightarrow> (string \<times> pyval) list vact" where
  "persist_policy_decision env value =
     g_bind (g_lift (contract_of parse_policy_decision env value)) (\<lambda>decision.
     g_bind (g_lift (authenticated_actor env)) (\<lambda>actor.
     g_bind (g_reject (actor \<noteq> pd_actor decision) (gov_denied ''policy actor does not match session'')) (\<lambda>_.
     g_bind (load_action env (pd_action_id decision)) (\<lambda>action.
     g_bind (g_reject (pa_proposal_digest action \<noteq> pd_proposal_digest decision)
       (gov_conflict ''policy decision digest conflicts'')) (\<lambda>_.
     g_bind (g_lift (policy_values decision)) (\<lambda>doc.
     g_bind (insert_policy env doc) (\<lambda>_.
     serialize_policy_decision env doc)))))))"

definition approval_values :: "ApprovalDecision \<Rightarrow> approval_row" where
  "approval_values d =
     \<lparr>sd_decision_id = ad_decision_id d, sd_action = ad_action_id d, sd_proposal_digest = ad_proposal_digest d,
      sd_actor = ad_actor d, sd_decision = ad_decision d, sd_matched_rule = ad_matched_rule d,
      sd_snapshot_ref = ad_snapshot_ref d, sd_expires_at = ad_expires_at d, sd_reason = ad_reason d,
      sd_decided_at = ad_decided_at d, sd_correlation_id = ad_correlation_id d\<rparr>"

definition persist_approval_decision :: "gov_env \<Rightarrow> ApprovalDecision contract \<Rightarrow> (string \<times> pyval) list vact" where
  "persist_approval_decision env value =
     g_bind (g_lift (contract_of parse_approval_decision env value)) (\<lambda>decision.
     g_bind (g_lift (authenticated_actor env)) (\<lambda>actor.
     g_bind (g_reject (actor \<noteq> ad_actor decision) (gov_denied ''approval actor does not match session'')) (\<lambda>_.
     g_bind (load_action env (ad_action_id decision)) (\<lambda>action.
     g_bind (g_reject (pa_proposal_digest action \<noteq> ad_proposal_digest decision)
       (gov_conflict ''approval decision digest conflicts'')) (\<lambda>_.
     g_bind (insert_approval env (approval_values decision)) (\<lambda>_.
     serialize_approval_decision env (approval_values decision)))))))"

section \<open>Receipts\<close>

definition receipt_values :: "ExecutionReceipt \<Rightarrow> receipt_row result" where
  "receipt_values r =
     rbind (json_dumps (PDict (er_verified_fields r))) (\<lambda>verified.
     rbind (json_dumps (PDict (case er_reconciliation_evidence r of None \<Rightarrow> [] | Some d \<Rightarrow> d))) (\<lambda>evidence.
     Inr \<lparr>sr_receipt_id = er_receipt_id r, sr_action = er_action_id r, sr_run = er_run_id r,
          sr_idempotency_key = er_idempotency_key r, sr_initiator = er_initiator r, sr_approver = er_approver r,
          sr_executor = er_executor r, sr_proposal_digest = er_proposal_digest r, sr_target_doctype = er_target_doctype r,
          sr_target_name = er_target_name r, sr_verified_fields_json = verified,
          sr_response_category = er_response_category r, sr_failure_category = er_failure_category r,
          sr_final_state = er_final_state r, sr_started_at = er_started_at r, sr_completed_at = er_completed_at r,
          sr_correlation_id = er_correlation_id r, sr_reconciliation_evidence_json = evidence\<rparr>))"

definition receipt_conflicts :: "ProposedAction \<Rightarrow> ExecutionReceipt \<Rightarrow> bool" where
  "receipt_conflicts action r \<longleftrightarrow>
     pa_run_id action \<noteq> er_run_id r \<or> pa_initiator action \<noteq> er_initiator r \<or>
     pa_idempotency_key action \<noteq> er_idempotency_key r \<or> pa_proposal_digest action \<noteq> er_proposal_digest r"

definition persist_execution_receipt :: "gov_env \<Rightarrow> ExecutionReceipt contract \<Rightarrow> bool \<Rightarrow> (string \<times> pyval) list vact" where
  "persist_execution_receipt env value verified_execution =
     g_bind (g_lift (contract_of create_execution_receipt env value)) (\<lambda>receipt.
     g_bind (g_lift (authenticated_actor env)) (\<lambda>actor.
     g_bind (g_reject (actor \<noteq> er_executor receipt) (gov_denied ''receipt executor does not match session'')) (\<lambda>_.
     g_bind (g_lift (in_texts (er_final_state receipt) SUCCESS_STATES)) (\<lambda>success.
     g_bind (g_reject (success \<and> \<not> verified_execution) (gov_denied ''verified execution evidence is required'')) (\<lambda>_.
     g_bind (load_action env (er_action_id receipt)) (\<lambda>action.
     g_bind (g_reject (receipt_conflicts action receipt) (gov_conflict ''receipt action identity conflicts'')) (\<lambda>_.
     g_bind (g_lift (receipt_values receipt)) (\<lambda>doc.
     g_bind (insert_receipt env verified_execution doc) (\<lambda>_.
     serialize_receipt env doc (Some actor))))))))))"

definition or_empty :: "string option \<Rightarrow> string" where
  "or_empty t = (case t of None \<Rightarrow> [] | Some x \<Rightarrow> x)"

definition receipt_matches :: "receipt_row \<Rightarrow> ExecutionReceipt \<Rightarrow> bool" where
  "receipt_matches doc r \<longleftrightarrow>
     sr_receipt_id doc = er_receipt_id r \<and> sr_action doc = er_action_id r \<and> sr_run doc = er_run_id r \<and>
     sr_idempotency_key doc = er_idempotency_key r \<and> sr_initiator doc = er_initiator r \<and>
     or_empty (sr_approver doc) = or_empty (er_approver r) \<and> sr_executor doc = er_executor r \<and>
     sr_proposal_digest doc = er_proposal_digest r \<and> sr_started_at doc = er_started_at r \<and>
     sr_correlation_id doc = er_correlation_id r"

definition find_receipt :: "string \<Rightarrow> receipt_row option vact" where
  "find_receipt receipt_id s = (Inr (find (\<lambda>r. sr_receipt_id r = receipt_id) (gv_receipts s)), s)"

text \<open>The assignments of \<open>transition_execution_receipt\<close> to the loaded document.\<close>

definition reconciled_row :: "receipt_row \<Rightarrow> ExecutionReceipt \<Rightarrow> receipt_row result" where
  "reconciled_row doc r =
     rbind (json_dumps (PDict (er_verified_fields r))) (\<lambda>verified.
     rbind (json_dumps (PDict (case er_reconciliation_evidence r of None \<Rightarrow> [] | Some d \<Rightarrow> d))) (\<lambda>evidence.
     Inr (doc\<lparr>sr_target_doctype := er_target_doctype r, sr_target_name := er_target_name r,
         sr_verified_fields_json := verified, sr_response_category := er_response_category r,
         sr_failure_category := er_failure_category r, sr_final_state := er_final_state r,
         sr_completed_at := er_completed_at r, sr_reconciliation_evidence_json := evidence\<rparr>)))"

definition transition_execution_receipt :: "gov_env \<Rightarrow> ExecutionReceipt contract \<Rightarrow> (string \<times> pyval) list vact" where
  "transition_execution_receipt env value =
     g_bind (g_lift (contract_of create_execution_receipt env value)) (\<lambda>receipt.
     g_bind (g_lift (authenticated_actor env)) (\<lambda>actor.
     g_bind (g_reject (actor \<noteq> er_executor receipt) (gov_denied ''receipt executor does not match session'')) (\<lambda>_.
     g_bind (g_lift (in_texts (er_final_state receipt) RECONCILED_STATES)) (\<lambda>known.
     g_bind (g_reject (\<not> known) (gov_conflict ''receipt reconciliation state is invalid'')) (\<lambda>_.
     g_bind (find_receipt (er_receipt_id receipt)) (\<lambda>found. case found of
       None \<Rightarrow> g_raise (GatewayFault ''NOT_FOUND'' ''execution receipt is not available'' 404)
     | Some old \<Rightarrow>
         g_bind (g_reject (sr_final_state old \<noteq> PStr ''RECONCILIATION_REQUIRED'')
           (gov_conflict ''execution receipt is already finalized'')) (\<lambda>_.
         g_bind (g_reject (\<not> receipt_matches old receipt) (gov_conflict ''receipt reconciliation identity conflicts'')) (\<lambda>_.
         g_bind (g_lift (reconciled_row old receipt)) (\<lambda>doc.
         g_bind (save_receipt env (er_final_state receipt = PStr ''RECONCILED_SUCCESS'') old doc) (\<lambda>_.
         serialize_receipt env doc (Some actor)))))))))))"

section \<open>Transitions of an action\<close>

definition policy_exists :: "string \<Rightarrow> string \<Rightarrow> bool vact" where
  "policy_exists action_id digest s =
     (Inr (list_ex (\<lambda>p. spd_action p = action_id \<and> spd_proposal_digest p = digest \<and> spd_outcome p = PStr ''ALLOW'') (gv_policies s)), s)"

definition approval_exists :: "string \<Rightarrow> string \<Rightarrow> string \<Rightarrow> string \<Rightarrow> bool vact" where
  "approval_exists action_id digest actor decision s =
     (Inr (list_ex (\<lambda>d. sd_action d = action_id \<and> sd_proposal_digest d = digest \<and> sd_actor d = actor \<and>
        sd_decision d = PStr decision) (gv_approvals s)), s)"

text \<open>The proof asked for before \<open>APPROVED\<close> and \<open>DECLINED\<close>.\<close>

definition approval_proof :: "gov_env \<Rightarrow> action_row \<Rightarrow> string \<Rightarrow> string \<Rightarrow> string option \<Rightarrow> unit vact" where
  "approval_proof env row actor target approval_digest =
     g_bind (g_reject (or_empty approval_digest = [] \<or> approval_digest \<noteq> Some (sa_proposal_digest row))
       (gov_denied ''approval proof is required'')) (\<lambda>_.
     g_bind (policy_exists (sa_action_id row) (or_empty approval_digest)) (\<lambda>policy.
     g_bind (approval_exists (sa_action_id row) (or_empty approval_digest) actor
       (if target = ''APPROVED'' then ''ALLOW'' else ''DECLINE'')) (\<lambda>approval.
     g_bind (g_reject (\<not> policy \<or> \<not> approval) (gov_denied ''approval proof is not available'')) (\<lambda>_.
     if actor \<noteq> sa_initiator row \<and> \<not> is_manager env actor then
       g_bind (load_action env (sa_action_id row)) (\<lambda>action.
       g_bind (g_reject (pa_approval_class action = ''INITIATOR_CONFIRMATION'' \<and> actor \<noteq> pa_initiator action)
         (gov_denied ''initiator confirmation is required'')) (\<lambda>_.
       g_reject (pa_approval_class action = ''INDEPENDENT_APPROVER'' \<and> actor = pa_initiator action)
         (gov_denied ''independent approval requires a different user'')))
     else g_return ()))))"

text \<open>The check before every other state when the actor is neither the initiator nor a manager.\<close>

definition bound_execution :: "gov_env \<Rightarrow> action_row \<Rightarrow> string \<Rightarrow> string \<Rightarrow> string option \<Rightarrow> unit vact" where
  "bound_execution env row actor target approval_digest =
     g_bind (load_action env (sa_action_id row)) (\<lambda>action.
     g_bind (approval_exists (sa_action_id row) (sa_proposal_digest row) actor ''ALLOW'') (\<lambda>approval.
     g_reject (\<not> (target \<in> {''EXECUTED'', ''EXPIRED''} \<and> pa_approval_class action = ''INDEPENDENT_APPROVER'' \<and>
         approval_digest = Some (sa_proposal_digest row) \<and> approval))
       (gov_denied ''governed action is not available'')))"

text \<open>The argument \<open>correlation_id\<close> of the source is not used there.\<close>

definition transition_action_state ::
  "gov_env \<Rightarrow> string \<Rightarrow> string \<Rightarrow> pyval \<Rightarrow> string \<Rightarrow> string option \<Rightarrow> (string \<times> pyval) list vact" where
  "transition_action_state env action_id target expected_version reason approval_digest =
     g_bind (g_lift (authenticated_actor env)) (\<lambda>actor.
     g_bind (find_action action_id) (\<lambda>found. case found of
       None \<Rightarrow> g_raise (GatewayFault ''NOT_FOUND'' ''governed action is not available'' 404)
     | Some row \<Rightarrow>
         g_bind (if target \<in> {''APPROVED'', ''DECLINED''} then approval_proof env row actor target approval_digest
                 else if actor \<noteq> sa_initiator row \<and> \<not> is_manager env actor
                 then bound_execution env row actor target approval_digest
                 else g_return ()) (\<lambda>_.
         g_bind (g_lift (transition_state (sa_state row) target (PInt (sa_state_version row)) expected_version)) (\<lambda>(new_state, new_version).
         g_bind (g_reject (reason = [] \<or> length reason > 2000)
           (GatewayFault ''INVALID_INPUT'' ''state transition reason is invalid'' 400)) (\<lambda>_.
         g_bind (gov_now env) (\<lambda>now.
         let doc = row\<lparr>sa_state := new_state, sa_state_version := new_version, sa_state_reason := reason,
               sa_state_changed_at := now, sa_state_changed_by := actor\<rparr> in
         g_bind (save_action env row doc) (\<lambda>_.
         g_lift (serialize_action env doc (Some actor)))))))))"

section \<open>Histories of the store\<close>

text \<open>
  A request of the service, by any user at any time.  Between requests the Gateway and the agent change Agent Runs as they like.
\<close>

datatype gov_op =
    PersistAction "ProposedAction contract"
  | PersistPolicy "PolicyDecision contract"
  | PersistApproval "ApprovalDecision contract"
  | PersistReceipt "ExecutionReceipt contract" bool
  | TransitionReceipt "ExecutionReceipt contract"
  | TransitionAction string string pyval string "string option"
  | ChangeRuns "(string \<times> agent_run) list"

definition gov_run :: "gov_env \<Rightarrow> gov_op \<Rightarrow> gov_site \<Rightarrow> gov_site" where
  "gov_run env oper s = (case oper of
     PersistAction v \<Rightarrow> snd (persist_proposed_action env v s)
   | PersistPolicy v \<Rightarrow> snd (persist_policy_decision env v s)
   | PersistApproval v \<Rightarrow> snd (persist_approval_decision env v s)
   | PersistReceipt v verified \<Rightarrow> snd (persist_execution_receipt env v verified s)
   | TransitionReceipt v \<Rightarrow> snd (transition_execution_receipt env v s)
   | TransitionAction i t v r d \<Rightarrow> snd (transition_action_state env i t v r d s)
   | ChangeRuns rs \<Rightarrow> s\<lparr>gv_runs := rs\<rparr>)"

definition empty_store :: gov_site where
  "empty_store = \<lparr>gv_runs = [], gv_actions = [], gv_policies = [], gv_approvals = [], gv_receipts = [], gv_ticks = 0\<rparr>"

text \<open>\<open>managers\<close> are the users who hold the role of System Manager at some time.\<close>

inductive gov_history :: "wflib \<Rightarrow> string set \<Rightarrow> gov_site \<Rightarrow> bool" for lib managers where
  start: "gov_history lib managers empty_store"
| step: "gov_history lib managers s \<Longrightarrow> gov_lib env = lib \<Longrightarrow> (\<And>u. is_manager env u \<Longrightarrow> u \<in> managers) \<Longrightarrow>
    gov_history lib managers (gov_run env oper s)"

end
