(* ===== verification/Governance_Policy.thy ===== *)
theory Governance_Policy
  imports Governance_Store
begin

text \<open>
  \<open>governance/policy.py\<close>: the five ordered gates, and the three requests built on them: \<open>evaluate_proposal\<close> stores a proposal
  with the policy's verdict, \<open>decide_action\<close> records an approval, \<open>pre_execute_recheck\<close> gives the writer its proof.  They work on
  the tables of \<open>Governance_Store\<close> through its operations.

  Parameters, in \<open>policy_env\<close>: the answers of Frappe's user, permission and list queries (which may raise), the text \<open>now\<close>, a fresh identifier,
  the reading of a stored time, the deterministic gate, which compares the action with ERP documents,
  and the projection of plan steps, which writes no governance table.  Within one request these answers do not change.
\<close>

section \<open>Gates\<close>

definition RULE_ID :: string where "RULE_ID = ''P6-MAP-20260827-v1''"
definition RULE_VERSION :: string where "RULE_VERSION = ''1''"
definition GATE_ORDER :: "string list" where
  "GATE_ORDER = [''identity'', ''scope'', ''permission'', ''deterministic'', ''workflow_policy'']"
definition GATE_STATUSES :: "string list" where
  "GATE_STATUSES = [''PASS'', ''FAIL'', ''UNKNOWN'']"

record GateResult =
  gr_status :: string
  gr_reason :: string

definition make_gate :: "string \<Rightarrow> string \<Rightarrow> GateResult result" where
  "make_gate status reason =
     (if status \<notin> set GATE_STATUSES then Inl (invalid_input ''policy gate result is invalid'')
      else if reason = [] \<or> length reason > 2000 then Inl (invalid_input ''policy gate reason is invalid'')
      else Inr \<lparr>gr_status = status, gr_reason = reason\<rparr>)"

text \<open>A result with one of the texts of the source.\<close>

definition gate :: "string \<Rightarrow> string \<Rightarrow> GateResult vact" where
  "gate status reason = g_lift (make_gate status reason)"

definition gate_of_error :: "pyexc \<Rightarrow> string" where
  "gate_of_error e = (case e of GatewayFault code message status \<Rightarrow> if status < 500 then ''FAIL'' else ''UNKNOWN'' | _ \<Rightarrow> ''UNKNOWN'')"

fun run_gates :: "(string \<times> GateResult vact) list \<Rightarrow> (string \<times> GateResult) list \<Rightarrow> string option \<Rightarrow> (string \<times> GateResult) list vact" where
  "run_gates [] results blocked_by = g_return results"
| "run_gates ((name, check) # gates) results blocked_by =
     (if name \<notin> set GATE_ORDER \<or> name \<in> set (map fst results) then g_raise (invalid_input ''policy gate order is invalid'')
      else (case blocked_by of
        Some b \<Rightarrow>
          g_bind (gate ''UNKNOWN'' (''blocked by '' @ b)) (\<lambda>r. run_gates gates (results @ [(name, r)]) blocked_by)
      | None \<Rightarrow>
          g_bind (g_try check g_return (\<lambda>e. gate (gate_of_error e) ''policy gate could not be verified'')) (\<lambda>r.
          run_gates gates (results @ [(name, r)]) (if gr_status r \<noteq> ''PASS'' then Some name else None))))"

definition evaluate_gate_sequence :: "(string \<times> GateResult vact) list \<Rightarrow> (string \<times> GateResult) list vact" where
  "evaluate_gate_sequence gates = run_gates gates [] None"

definition outcome_rank :: "string \<Rightarrow> nat option" where
  "outcome_rank = map_of [(''PASS'', 0), (''UNKNOWN'', 1), (''FAIL'', 2)]"

definition stricter_outcome :: "string \<Rightarrow> string \<Rightarrow> string result" where
  "stricter_outcome left right =
     (case (outcome_rank left, outcome_rank right) of
        (Some l, Some r) \<Rightarrow> Inr (if l \<ge> r then left else right)
      | _ \<Rightarrow> Inl (invalid_input ''policy outcome is invalid''))"

section \<open>The environment\<close>

record policy_env =
  pe_gov :: gov_env
  pe_user_enabled :: "string \<Rightarrow> bool result"
  pe_list :: "string \<Rightarrow> (string \<times> pyval) list \<Rightarrow> string option \<Rightarrow> string \<Rightarrow> string list result"
  pe_has_permission :: "string \<Rightarrow> string \<Rightarrow> string \<Rightarrow> bool result"
  pe_active_workflows :: "string \<Rightarrow> string list result"
  pe_datetime :: "string \<Rightarrow> int option"
  pe_timestamp :: string
  pe_decision_id :: string
  pe_deterministic :: "ProposedAction \<Rightarrow> string \<Rightarrow> GateResult result"
  pe_sync_plan_steps :: "string \<Rightarrow> unit result"

definition policy_now :: "policy_env \<Rightarrow> int vact" where
  "policy_now env s = (Inr (ge_clock (gv_env (pe_gov env)) (gv_ticks s)), s\<lparr>gv_ticks := Suc (gv_ticks s)\<rparr>)"

definition safe_digest :: "pyval \<Rightarrow> string result" where
  "safe_digest value = (case value of
     PStr t \<Rightarrow> if digest_shape t then Inr t else Inl (invalid_input ''proposal_digest is invalid'')
   | _ \<Rightarrow> Inl (invalid_input ''proposal_digest is invalid''))"

definition safe_decision :: "pyval \<Rightarrow> string result" where
  "safe_decision value = rbind (in_texts value [''ALLOW'', ''DECLINE'', ''CHANGES_REQUESTED'']) (\<lambda>known.
     case value of
       PStr t \<Rightarrow> if known then Inr t else Inl (invalid_input ''approval decision is invalid'')
     | _ \<Rightarrow> Inl (invalid_input ''approval decision is invalid''))"

definition safe_reason :: "pyval \<Rightarrow> string result" where
  "safe_reason value = bounded_text value ''reason'' 2000"

definition safe_target :: "ProposedAction \<Rightarrow> string result" where
  "safe_target action = (case map_of TARGET_DOCTYPES (pa_action_type action) of
     None \<Rightarrow> Inl (invalid_input ''action_type is invalid'')
   | Some target \<Rightarrow> Inr target)"

definition run_unavailable :: pyexc where
  "run_unavailable = GatewayFault ''RUN_REJECTED'' ''run is not available'' 404"

definition load_run :: "string \<Rightarrow> agent_run vact" where
  "load_run run_id = g_bind (find_gov_run run_id) (\<lambda>run. case run of None \<Rightarrow> g_raise run_unavailable | Some r \<Rightarrow> g_return r)"

text \<open>\<open>_lock_action\<close>: the row, which is also what \<open>locked\<close> reads, and the typed action.\<close>

definition lock_action :: "policy_env \<Rightarrow> string \<Rightarrow> (action_row \<times> ProposedAction) vact" where
  "lock_action env action_id =
     g_bind (find_action action_id) (\<lambda>doc. case doc of
       None \<Rightarrow> g_raise (GatewayFault ''NOT_FOUND'' ''governed action is not available'' 404)
     | Some row \<Rightarrow> (case read_action (gov_lib (pe_gov env)) row of
         Inl e \<Rightarrow> g_raise (GatewayFault ''CONFLICT'' ''governed action record is invalid'' 409)
       | Inr action \<Rightarrow> g_return (row, action)))"

definition lock_run_for_action :: "string \<Rightarrow> agent_run vact" where
  "lock_run_for_action action_id =
     g_bind (find_action action_id) (\<lambda>doc. case doc of
       None \<Rightarrow> g_raise (GatewayFault ''NOT_FOUND'' ''governed action is not available'' 404)
     | Some row \<Rightarrow>
         if sa_run row = [] then g_raise (GatewayFault ''NOT_FOUND'' ''governed action is not available'' 404)
         else load_run (sa_run row))"

section \<open>The five gates\<close>

definition run_identity ::
  "policy_env \<Rightarrow> ProposedAction \<Rightarrow> agent_run \<Rightarrow> string \<Rightarrow> string option \<Rightarrow> GateResult vact" where
  "run_identity env action run actor approved_actor =
     (if actor = ''Guest'' \<or> ar_initiator run = [] then gate ''FAIL'' ''authenticated identity is unavailable''
      else if pa_initiator action \<noteq> ar_initiator run then gate ''FAIL'' ''action and Run initiators conflict''
      else if approved_actor = None \<and> actor \<noteq> ar_initiator run then gate ''FAIL'' ''session user is not the Run initiator''
      else if approved_actor \<noteq> None \<and> approved_actor \<noteq> Some actor then gate ''FAIL'' ''session user is not the approved executor''
      else (case pe_user_enabled env (ar_initiator run) of
        Inl e \<Rightarrow> gate ''UNKNOWN'' ''Run identity could not be verified''
      | Inr enabled \<Rightarrow>
      if \<not> enabled then gate ''FAIL'' ''Run initiator is disabled''
      else if ar_status run \<noteq> ''ACTIVE'' \<or> ar_revoked run \<or>
              ar_run_state run \<notin> {''CREATED'', ''ANALYZING'', ''PROPOSED'', ''AWAITING_APPROVAL'', ''EXECUTING''}
      then gate ''FAIL'' ''Run is no longer active''
      else
        (let deadline = (if ar_execution_mode run = ''PLAN_EXECUTE''
             then (case ar_workflow_expires_at run of None \<Rightarrow> ar_expires_at run | Some d \<Rightarrow> d) else ar_expires_at run) in
         g_bind (policy_now env) (\<lambda>now.
         if deadline \<le> now then gate ''FAIL'' ''Run has expired''
         else gate ''PASS'' ''server session and Run identity match''))))"

text \<open>\<open>str(item.get("warehouse", ""))\<close> for the items of a payload.\<close>

definition warehouse_of :: "pyval \<Rightarrow> string result" where
  "warehouse_of item = (case item of
     PDict d \<Rightarrow> Inr (case map_of d ''warehouse'' of None \<Rightarrow> [] | Some v \<Rightarrow> py_str v)
   | _ \<Rightarrow> Inl AttributeError)"

definition payload_warehouses :: "ProposedAction \<Rightarrow> string list result" where
  "payload_warehouses action = (case map_of (pa_payload action) ''items'' of
     None \<Rightarrow> Inr []
   | Some (PList items) \<Rightarrow> rmap warehouse_of items
   | Some _ \<Rightarrow> Inl TypeError)"

definition CHILD_TABLES :: "(string \<times> string option) list" where
  "CHILD_TABLES = [(''Purchase Order'', Some ''Purchase Order Item''), (''Purchase Receipt'', Some ''Purchase Receipt Item''),
     (''Purchase Invoice'', Some ''Purchase Invoice Item''), (''Payment Entry'', None)]"

text \<open>An answer of a query: \<open>on_error\<close> when it raises, \<open>on_empty\<close> when nothing is visible.\<close>

definition visible_or :: "string list result \<Rightarrow> GateResult vact \<Rightarrow> GateResult vact \<Rightarrow> GateResult vact \<Rightarrow> GateResult vact" where
  "visible_or answer on_error on_empty next = (case answer of
     Inl e \<Rightarrow> on_error
   | Inr names \<Rightarrow> if names = [] then on_empty else next)"

definition source_scope :: "policy_env \<Rightarrow> ProposedAction \<Rightarrow> agent_run \<Rightarrow> string \<Rightarrow> GateResult vact" where
  "source_scope env action run actor =
     (let target = text_or_empty (dget (pa_payload action) ''source_doctype'');
          source = text_or_empty (dget (pa_payload action) ''source_name'');
          pass = gate ''PASS'' ''source document company and scope match current permissions'' in
      if target = [] \<or> source = [] then gate ''FAIL'' ''source document scope is incomplete''
      else visible_or (pe_list env target [(''name'', PStr source), (''company'', PStr (ar_company_scope run))] None actor)
        (gate ''UNKNOWN'' ''source document scope could not be verified'')
        (gate ''FAIL'' ''source document is outside the current user scope'')
        (case ar_warehouse_scope run of
           None \<Rightarrow> pass
         | Some w \<Rightarrow>
             if w = [] then pass
             else (case map_of CHILD_TABLES target of
               Some (Some child) \<Rightarrow>
                 visible_or (pe_list env child [(''parent'', PStr source), (''warehouse'', PStr w)] (Some target) actor)
                   (gate ''UNKNOWN'' ''source warehouse scope could not be verified'')
                   (gate ''FAIL'' ''source document is outside the Run warehouse scope'')
                   pass
             | _ \<Rightarrow> pass)))"

fun warehouses_visible :: "policy_env \<Rightarrow> agent_run \<Rightarrow> string \<Rightarrow> string list \<Rightarrow> GateResult vact" where
  "warehouses_visible env run actor [] = gate ''PASS'' ''company and warehouse scope match current permissions''"
| "warehouses_visible env run actor (w # ws) =
     visible_or (pe_list env ''Warehouse'' [(''name'', PStr w), (''company'', PStr (ar_company_scope run)), (''disabled'', PInt 0)] None actor)
       (gate ''UNKNOWN'' ''company or warehouse scope could not be verified'')
       (gate ''FAIL'' ''warehouse is outside the current user scope'')
       (warehouses_visible env run actor ws)"

definition scope_identity :: "policy_env \<Rightarrow> ProposedAction \<Rightarrow> agent_run \<Rightarrow> string \<Rightarrow> GateResult vact" where
  "scope_identity env action run actor =
     (if dget (pa_payload action) ''company'' \<noteq> PStr (ar_company_scope run) then gate ''FAIL'' ''company scope does not match the Run''
      else g_bind (g_lift (payload_warehouses action)) (\<lambda>warehouses.
        if pa_action_type action \<in> set P2P_ACTION_TYPES \<and> warehouses = [] then source_scope env action run actor
        else if warehouses = [] \<or> [] \<in> set warehouses then gate ''FAIL'' ''warehouse scope is incomplete''
        else if (case ar_warehouse_scope run of None \<Rightarrow> False | Some w \<Rightarrow> w \<noteq> [] \<and> list_ex (\<lambda>x. x \<noteq> w) warehouses)
        then gate ''FAIL'' ''warehouse scope does not match the Run''
        else visible_or (pe_list env ''Company'' [(''name'', PStr (ar_company_scope run))] None actor)
          (gate ''UNKNOWN'' ''company or warehouse scope could not be verified'')
          (gate ''FAIL'' ''company is outside the current user scope'')
          (warehouses_visible env run actor (sort (remdups warehouses)))))"

definition write_permission :: "string \<Rightarrow> string" where
  "write_permission action_type =
     (if starts_with ''CREATE_'' action_type then ''create'' else if starts_with ''SUBMIT_'' action_type then ''submit'' else ''cancel'')"

definition required_permissions :: "ProposedAction \<Rightarrow> string \<Rightarrow> string \<Rightarrow> (string \<times> string) list" where
  "required_permissions action target actor =
     (let own = (pa_approval_class action = ''INDEPENDENT_APPROVER'' \<and> actor = pa_initiator action) in
      [(''Company'', ''read''), (''Warehouse'', ''read'')] @
      (if pa_action_type action = ''CREATE_PAYMENT_ENTRY_DRAFT'' \<and> own then []
       else [(target, if own then ''read'' else write_permission (pa_action_type action)), (target, ''read'')]) @
      (if starts_with ''CREATE_'' (pa_action_type action) then [(''Item'', ''read'')] else []) @
      (if target = ''Purchase Order'' then [(''Supplier'', ''read''), (''Currency'', ''read''), (''Price List'', ''read'')] else []) @
      (if target \<in> {''Purchase Receipt'', ''Purchase Invoice''} then [(''Supplier'', ''read'')] else []) @
      (if target = ''Payment Entry'' then [(''Account'', ''read''), (''Supplier'', ''read''), (''Purchase Invoice'', ''read'')] else []))"

text \<open>\<open>any(not has_permission(...))\<close> stops at the first that is missing.\<close>

fun all_permitted :: "policy_env \<Rightarrow> string \<Rightarrow> (string \<times> string) list \<Rightarrow> bool result" where
  "all_permitted env actor [] = Inr True"
| "all_permitted env actor ((doctype, ptype) # rest) =
     rbind (pe_has_permission env doctype ptype actor) (\<lambda>b. if b then all_permitted env actor rest else Inr False)"

definition permission_gate :: "policy_env \<Rightarrow> ProposedAction \<Rightarrow> string \<Rightarrow> GateResult vact" where
  "permission_gate env action actor =
     g_bind (g_lift (safe_target action)) (\<lambda>target.
     case all_permitted env actor (required_permissions action target actor) of
       Inl e \<Rightarrow> gate ''UNKNOWN'' ''current ERP permission could not be verified''
     | Inr False \<Rightarrow> gate ''FAIL'' ''current ERP permission is insufficient''
     | Inr True \<Rightarrow> gate ''PASS'' ''current ERP permissions are sufficient'')"

definition workflow_policy :: "policy_env \<Rightarrow> ProposedAction \<Rightarrow> GateResult vact" where
  "workflow_policy env action =
     g_bind (g_lift (safe_target action)) (\<lambda>target.
     case pe_active_workflows env target of
       Inl e \<Rightarrow> gate ''UNKNOWN'' ''active ERP Workflow could not be verified''
     | Inr names \<Rightarrow>
         if names \<noteq> [] then gate ''UNKNOWN'' ''active ERP Workflow requires a new mapping''
         else gate ''PASS'' ''fixed development mapping permits explicit confirmation'')"

definition gate_checks ::
  "policy_env \<Rightarrow> ProposedAction \<Rightarrow> agent_run \<Rightarrow> string \<Rightarrow> string option \<Rightarrow> (string \<times> GateResult) list vact" where
  "gate_checks env action run actor approved_actor =
     evaluate_gate_sequence
       [(''identity'', run_identity env action run actor approved_actor),
        (''scope'', scope_identity env action run actor),
        (''permission'', permission_gate env action actor),
        (''deterministic'', g_lift (pe_deterministic env action actor)),
        (''workflow_policy'', workflow_policy env action)]"

definition expiry_passes :: "policy_env \<Rightarrow> string \<Rightarrow> bool vact" where
  "expiry_passes env expires_at = (case pe_datetime env expires_at of
     None \<Rightarrow> g_return False
   | Some t \<Rightarrow> g_bind (policy_now env) (\<lambda>now. g_return (t > now)))"

section \<open>Latest decisions\<close>

text \<open>\<open>order_by="decided_at desc, creation desc", limit=1\<close>, over rows in the order of their creation.\<close>

fun latest_by :: "('a \<Rightarrow> string) \<Rightarrow> 'a option \<Rightarrow> 'a list \<Rightarrow> 'a option" where
  "latest_by decided best [] = best"
| "latest_by decided best (r # rs) =
     latest_by decided (case best of None \<Rightarrow> Some r | Some b \<Rightarrow> if decided r \<ge> decided b then Some r else Some b) rs"

definition latest_policy :: "string \<Rightarrow> string \<Rightarrow> policy_row option vact" where
  "latest_policy action_id digest s =
     (Inr (latest_by spd_decided_at None
        (filter (\<lambda>p. spd_action p = action_id \<and> spd_proposal_digest p = digest \<and> spd_outcome p = PStr ''ALLOW'') (gv_policies s))), s)"

definition latest_approval :: "string \<Rightarrow> string \<Rightarrow> string \<Rightarrow> approval_row option vact" where
  "latest_approval action_id digest decision s =
     (Inr (latest_by sd_decided_at None
        (filter (\<lambda>d. sd_action d = action_id \<and> sd_proposal_digest d = digest \<and> sd_decision d = PStr decision) (gv_approvals s))), s)"

text \<open>A policy decision still stands when it has the snapshot and rule of the action and has not expired; \<open>ok\<close> is that last check.\<close>

definition policy_stands :: "ProposedAction \<Rightarrow> policy_row option \<Rightarrow> bool" where
  "policy_stands action policy = (case policy of
     None \<Rightarrow> False
   | Some p \<Rightarrow> spd_snapshot_ref p = pa_snapshot_ref action \<and>
       (pa_action_type action \<in> set P2P_ACTION_TYPES \<longrightarrow> spd_matched_rule p = RULE_ID \<and> spd_rule_version p = RULE_VERSION))"

definition require_policy :: "policy_env \<Rightarrow> ProposedAction \<Rightarrow> string \<Rightarrow> policy_row vact" where
  "require_policy env action message =
     g_bind (latest_policy (pa_action_id action) (pa_proposal_digest action)) (\<lambda>policy.
     g_bind (g_reject (\<not> policy_stands action policy) (gov_conflict message)) (\<lambda>_.
     g_bind (expiry_passes env (spd_expires_at (the policy))) (\<lambda>ok.
     g_bind (g_reject (\<not> ok) (gov_conflict message)) (\<lambda>_. g_return (the policy)))))"

section \<open>Proposals\<close>

definition status_at :: "(string \<times> GateResult) list \<Rightarrow> string \<Rightarrow> string result" where
  "status_at checks name = (case map_of checks name of None \<Rightarrow> Inl KeyError | Some r \<Rightarrow> Inr (gr_status r))"

fun first_failed :: "(string \<times> GateResult) list \<Rightarrow> string list \<Rightarrow> string option" where
  "first_failed checks [] = None"
| "first_failed checks (name # names) =
     (case map_of checks name of
        Some r \<Rightarrow> if gr_status r \<noteq> ''PASS'' then Some name else first_failed checks names
      | None \<Rightarrow> Some name)"

definition policy_reason :: "(string \<times> GateResult) list \<Rightarrow> bool \<Rightarrow> string" where
  "policy_reason checks expired =
     (if expired then ''proposal expiry is no longer valid''
      else (case first_failed checks GATE_ORDER of
        None \<Rightarrow> ''all policy gates passed''
      | Some name \<Rightarrow> name @ '' gate did not pass: '' @ (case map_of checks name of None \<Rightarrow> [] | Some r \<Rightarrow> gr_reason r)))"

definition policy_decision ::
  "policy_env \<Rightarrow> ProposedAction \<Rightarrow> string \<Rightarrow> string list \<Rightarrow> string \<Rightarrow> string \<Rightarrow> PolicyDecision" where
  "policy_decision env action actor statuses outcm reason =
     \<lparr>pd_decision_id = pe_decision_id env, pd_action_id = pa_action_id action, pd_proposal_digest = pa_proposal_digest action,
      pd_actor = actor, pd_checks = zip GATE_ORDER (map PStr statuses), pd_matched_rule = RULE_ID, pd_rule_version = RULE_VERSION,
      pd_outcome = PStr outcm, pd_reason = reason, pd_snapshot_ref = pa_snapshot_ref action, pd_expires_at = pa_expires_at action,
      pd_decided_at = pe_timestamp env, pd_correlation_id = pa_correlation_id action\<rparr>"

definition sync_steps :: "policy_env \<Rightarrow> ProposedAction \<Rightarrow> unit vact" where
  "sync_steps env action =
     (if pa_action_type action \<in> set P2P_ACTION_TYPES then g_lift (pe_sync_plan_steps env (pa_run_id action)) else g_return ())"

definition evaluate_proposal :: "policy_env \<Rightarrow> pyval \<Rightarrow> (string \<times> pyval) list vact" where
  "evaluate_proposal env value =
     g_bind (g_lift (build_proposed_action (wf_py (gov_lib (pe_gov env))) value)) (\<lambda>action.
     g_bind (g_lift (authenticated_actor (pe_gov env))) (\<lambda>actor.
     g_bind (load_run (pa_run_id action)) (\<lambda>run.
     g_bind (run_identity env action run actor None) (\<lambda>identity.
     g_bind (g_reject (gr_status identity \<noteq> ''PASS'') (gov_denied (gr_reason identity))) (\<lambda>_.
     g_bind (persist_proposed_action (pe_gov env) (Typed action)) (\<lambda>_.
     g_bind (gate_checks env action run actor None) (\<lambda>checks.
     g_bind (expiry_passes env (pa_expires_at action)) (\<lambda>fresh.
     g_bind (g_lift (rmap (status_at checks) GATE_ORDER)) (\<lambda>statuses.
     g_bind (g_lift (stricter_outcome (if list_all (\<lambda>x. x = ''PASS'') statuses then ''PASS'' else ''FAIL'') (last statuses))) (\<lambda>effective.
     let outcm = (if fresh \<and> effective = ''PASS'' then ''ALLOW'' else ''REJECT'');
         decision = policy_decision env action actor statuses outcm (policy_reason checks (\<not> fresh)) in
     g_bind (persist_policy_decision (pe_gov env) (Typed decision)) (\<lambda>stored_policy.
     g_bind (transition_action_state (pe_gov env) (pa_action_id action)
       (if outcm = ''ALLOW'' then ''AWAITING_APPROVAL'' else ''POLICY_REJECTED'') (PInt 1) (pd_reason decision) None) (\<lambda>stored_action.
     g_bind (sync_steps env action) (\<lambda>_.
     g_return [(''action'', PDict stored_action), (''policy'', PDict stored_policy)])))))))))))))"

section \<open>Approvals\<close>

definition approver_allowed :: "policy_env \<Rightarrow> ProposedAction \<Rightarrow> string \<Rightarrow> unit result" where
  "approver_allowed env action actor =
     (if pa_approval_class action = ''INITIATOR_CONFIRMATION'' then
        if actor \<noteq> pa_initiator action then Inl (gov_denied ''initiator confirmation is required'') else Inr ()
      else if actor = pa_initiator action then Inl (gov_denied ''independent approval requires a different user'')
      else rbind (safe_target action) (\<lambda>target.
        case all_permitted env actor [(target, ''read''), (target, write_permission (pa_action_type action))] of
          Inl (GatewayFault c m st) \<Rightarrow> Inl (GatewayFault c m st)
        | Inl e \<Rightarrow> Inl (GatewayFault ''UNKNOWN'' ''approver permission could not be verified'' 409)
        | Inr b \<Rightarrow> if b then Inr () else Inl (gov_denied ''approver permission is insufficient'')))"

text \<open>Scope and permission of an independent approver.\<close>

definition approver_scope :: "policy_env \<Rightarrow> ProposedAction \<Rightarrow> agent_run \<Rightarrow> string \<Rightarrow> unit vact" where
  "approver_scope env action run actor =
     (if pa_approval_class action = ''INDEPENDENT_APPROVER'' then
        g_bind (scope_identity env action run actor) (\<lambda>scope.
        g_bind (permission_gate env action actor) (\<lambda>permission.
        g_reject (gr_status scope \<noteq> ''PASS'' \<or> gr_status permission \<noteq> ''PASS'')
          (gov_denied ''approver scope or permission is insufficient'')))
      else g_return ())"

definition approval_decision ::
  "policy_env \<Rightarrow> ProposedAction \<Rightarrow> string \<Rightarrow> string \<Rightarrow> string \<Rightarrow> string \<Rightarrow> ApprovalDecision" where
  "approval_decision env action actor decision reason cid =
     \<lparr>ad_decision_id = pe_decision_id env, ad_action_id = pa_action_id action, ad_proposal_digest = pa_proposal_digest action,
      ad_actor = actor, ad_decision = PStr decision, ad_matched_rule = RULE_ID, ad_snapshot_ref = pa_snapshot_ref action,
      ad_expires_at = pa_expires_at action, ad_reason = reason, ad_decided_at = pe_timestamp env, ad_correlation_id = cid\<rparr>"

definition action_response :: "policy_env \<Rightarrow> ProposedAction \<Rightarrow> action_row \<Rightarrow> (string \<times> pyval) list result" where
  "action_response env action doc =
     rbind (action_calculation (pe_gov env) action) (\<lambda>calculation.
     Inr (action_to_dict action True @ calculation @
       [(''state'', PStr (sa_state doc)), (''state_version'', PInt (sa_state_version doc)),
        (''state_reason'', PStr (sa_state_reason doc)), (''state_changed_at'', PStr (sa_state_changed_at doc)),
        (''state_changed_by'', PStr (sa_state_changed_by doc))]))"

text \<open>The checks of \<open>decide_action\<close> up to the approval, and the recording of it.\<close>

definition decide_checks ::
  "policy_env \<Rightarrow> string \<Rightarrow> agent_run \<Rightarrow> action_row \<Rightarrow> ProposedAction \<Rightarrow> string \<Rightarrow> unit vact" where
  "decide_checks env actor run row action digest =
     g_bind (g_reject (pa_run_id action \<noteq> ar_name run \<or> pa_proposal_digest action \<noteq> digest)
       (gov_conflict ''approval digest or Run conflicts'')) (\<lambda>_.
     g_bind (g_reject (sa_state row \<noteq> ''AWAITING_APPROVAL'') (gov_conflict ''governed action is not awaiting approval'')) (\<lambda>_.
     g_bind (expiry_passes env (pa_expires_at action)) (\<lambda>fresh.
     g_bind (g_reject (\<not> fresh \<or> ar_status run \<noteq> ''ACTIVE'' \<or> ar_revoked run) (gov_conflict ''governed action has expired'')) (\<lambda>_.
     g_bind (g_lift (approver_allowed env action actor)) (\<lambda>_.
     g_bind (approver_scope env action run actor) (\<lambda>_.
     g_bind (gate_checks env action run (pa_initiator action) None) (\<lambda>checks.
     g_bind (g_reject (list_ex (\<lambda>(n, r). gr_status r \<noteq> ''PASS'') checks)
       (gov_conflict ''current policy no longer permits approval'')) (\<lambda>_.
     g_bind (require_policy env action ''approved policy is stale'') (\<lambda>_. g_return ())))))))))"

definition decide_record ::
  "policy_env \<Rightarrow> string \<Rightarrow> action_row \<Rightarrow> ProposedAction \<Rightarrow> string \<Rightarrow> string \<Rightarrow> string \<Rightarrow> (string \<times> pyval) list vact" where
  "decide_record env actor row action decision reason cid =
     g_bind (persist_approval_decision (pe_gov env) (Typed (approval_decision env action actor decision reason cid))) (\<lambda>stored_approval.
     if decision = ''CHANGES_REQUESTED'' then
       g_bind (sync_steps env action) (\<lambda>_.
       g_bind (g_lift (action_response env action row)) (\<lambda>response.
       g_return [(''action'', PDict response), (''approval'', PDict stored_approval)]))
     else
       g_bind (transition_action_state (pe_gov env) (pa_action_id action)
         (if decision = ''ALLOW'' then ''APPROVED'' else ''DECLINED'') (PInt (sa_state_version row)) reason
         (Some (pa_proposal_digest action))) (\<lambda>stored_action.
       g_bind (sync_steps env action) (\<lambda>_.
       g_return [(''action'', PDict stored_action), (''approval'', PDict stored_approval)])))"

definition decide_action ::
  "policy_env \<Rightarrow> pyval \<Rightarrow> pyval \<Rightarrow> pyval \<Rightarrow> pyval \<Rightarrow> pyval \<Rightarrow> (string \<times> pyval) list vact" where
  "decide_action env action_id decision digest reason cid =
     g_bind (g_lift (canonical_uuid action_id ''action_id'')) (\<lambda>safe_action_id.
     g_bind (g_lift (safe_digest digest)) (\<lambda>safe_digest.
     g_bind (g_lift (safe_decision decision)) (\<lambda>safe_decision.
     g_bind (g_lift (safe_reason reason)) (\<lambda>safe_reason.
     g_bind (g_lift (canonical_uuid cid ''correlation_id'')) (\<lambda>safe_correlation.
     g_bind (g_lift (authenticated_actor (pe_gov env))) (\<lambda>actor.
     g_bind (lock_run_for_action safe_action_id) (\<lambda>run.
     g_bind (lock_action env safe_action_id) (\<lambda>(row, action).
     g_bind (decide_checks env actor run row action safe_digest) (\<lambda>_.
     decide_record env actor row action safe_decision safe_reason safe_correlation)))))))))"

section \<open>The re-check before execution\<close>

record PreExecuteContext =
  px_action_id :: string
  px_run_id :: string
  px_initiator :: string
  px_executor :: string
  px_target_doctype :: string
  px_payload :: "(string \<times> pyval) list"
  px_proposal_digest :: string
  px_idempotency_key :: string
  px_snapshot_ref :: string
  px_expires_at :: string
  px_approval_id :: string

definition expire_if_owner :: "policy_env \<Rightarrow> ProposedAction \<Rightarrow> action_row \<Rightarrow> string \<Rightarrow> string \<Rightarrow> unit vact" where
  "expire_if_owner env action row actor reason =
     (if actor \<noteq> pa_initiator action then g_return ()
      else if sa_state row = ''APPROVED'' then
        g_bind (transition_action_state (pe_gov env) (pa_action_id action) ''EXPIRED'' (PInt (sa_state_version row)) reason None)
          (\<lambda>_. g_return ())
      else g_return ())"

definition receipt_exists :: "string \<Rightarrow> bool vact" where
  "receipt_exists key s = (Inr (list_ex (\<lambda>r. sr_idempotency_key r = key) (gv_receipts s)), s)"

definition require_approval :: "policy_env \<Rightarrow> ProposedAction \<Rightarrow> approval_row vact" where
  "require_approval env action =
     g_bind (latest_approval (pa_action_id action) (pa_proposal_digest action) ''ALLOW'') (\<lambda>approval. case approval of
       None \<Rightarrow> g_raise (gov_conflict ''approval is missing or stale'')
     | Some a \<Rightarrow>
         g_bind (g_reject (sd_snapshot_ref a \<noteq> pa_snapshot_ref action) (gov_conflict ''approval is missing or stale'')) (\<lambda>_.
         g_bind (expiry_passes env (sd_expires_at a)) (\<lambda>ok.
         g_bind (g_reject (\<not> ok) (gov_conflict ''approval is missing or stale'')) (\<lambda>_. g_return a))))"

text \<open>The part after the gates: an owner's action that cannot be executed any more expires.\<close>

definition recheck_result ::
  "policy_env \<Rightarrow> ProposedAction \<Rightarrow> action_row \<Rightarrow> string \<Rightarrow> approval_row \<Rightarrow> (string \<times> GateResult) list \<Rightarrow> PreExecuteContext vact" where
  "recheck_result env action row actor approval checks =
     g_bind (expiry_passes env (pa_expires_at action)) (\<lambda>fresh.
     if \<not> fresh then
       g_bind (expire_if_owner env action row actor ''execution proof expired'') (\<lambda>_. g_raise (gov_conflict ''governed action has expired''))
     else (case first_failed checks GATE_ORDER of
       Some name \<Rightarrow>
         g_bind (expire_if_owner env action row actor (''execution proof stale at '' @ name @ '' gate'')) (\<lambda>_.
         g_raise (gov_conflict (''execution proof failed at '' @ name @ '' gate'')))
     | None \<Rightarrow>
         g_bind (g_lift (safe_target action)) (\<lambda>target.
         g_return \<lparr>px_action_id = pa_action_id action, px_run_id = pa_run_id action, px_initiator = pa_initiator action,
           px_executor = actor, px_target_doctype = target, px_payload = pa_payload action,
           px_proposal_digest = pa_proposal_digest action, px_idempotency_key = pa_idempotency_key action,
           px_snapshot_ref = pa_snapshot_ref action, px_expires_at = pa_expires_at action,
           px_approval_id = sd_decision_id approval\<rparr>)))"

definition pre_execute_recheck :: "policy_env \<Rightarrow> pyval \<Rightarrow> pyval \<Rightarrow> pyval \<Rightarrow> PreExecuteContext vact" where
  "pre_execute_recheck env action_id expected_digest key =
     g_bind (g_lift (canonical_uuid action_id ''action_id'')) (\<lambda>safe_action_id.
     g_bind (g_lift (safe_digest expected_digest)) (\<lambda>safe_digest.
     g_bind (g_lift (idempotency_key key)) (\<lambda>safe_key.
     g_bind (g_lift (authenticated_actor (pe_gov env))) (\<lambda>actor.
     g_bind (lock_run_for_action safe_action_id) (\<lambda>run.
     g_bind (lock_action env safe_action_id) (\<lambda>(row, action).
     g_bind (g_reject (pa_action_type action \<in> set P2P_ACTION_TYPES \<and> pa_action_type action \<notin> set ENABLED_P2P_ACTION_TYPES)
       (gov_conflict ''P2P action is not enabled in the current Phase 10 increment'')) (\<lambda>_.
     g_bind (g_reject (pa_run_id action \<noteq> ar_name run \<or> pa_proposal_digest action \<noteq> safe_digest)
       (gov_conflict ''execution digest or Run conflicts'')) (\<lambda>_.
     g_bind (g_reject (pa_idempotency_key action \<noteq> safe_key) (gov_conflict ''idempotency key conflicts'')) (\<lambda>_.
     g_bind (g_reject (sa_state row \<noteq> ''APPROVED'') (gov_conflict ''governed action is not approved'')) (\<lambda>_.
     g_bind (receipt_exists safe_key) (\<lambda>reserved.
     g_bind (g_reject reserved (gov_conflict ''idempotency key is already reserved'')) (\<lambda>_.
     g_bind (require_policy env action ''policy is missing or stale'') (\<lambda>_.
     g_bind (require_approval env action) (\<lambda>approval.
     let approved_actor = (if pa_approval_class action = ''INITIATOR_CONFIRMATION'' then None else Some (sd_actor approval)) in
     g_bind (g_reject (pa_approval_class action = ''INDEPENDENT_APPROVER'' \<and> approved_actor \<noteq> Some actor)
       (gov_denied ''executor is not the approving user'')) (\<lambda>_.
     g_bind (gate_checks env action run actor approved_actor) (\<lambda>checks.
     recheck_result env action row actor approval checks))))))))))))))))"

section \<open>Reading\<close>

definition get_action :: "policy_env \<Rightarrow> pyval \<Rightarrow> (string \<times> pyval) list vact" where
  "get_action env action_id =
     g_bind (g_lift (canonical_uuid action_id ''action_id'')) (\<lambda>safe_action_id.
     g_bind (g_lift (authenticated_actor (pe_gov env))) (\<lambda>actor.
     g_bind (lock_action env safe_action_id) (\<lambda>(row, action).
     g_bind (if actor \<noteq> pa_initiator action \<and> \<not> is_manager (pe_gov env) actor then
         g_bind (g_reject (sa_state row \<noteq> ''AWAITING_APPROVAL'') (gov_denied ''governed action is not available'')) (\<lambda>_.
         g_bind (g_lift (approver_allowed env action actor)) (\<lambda>_.
         g_bind (load_run (pa_run_id action)) (\<lambda>run.
         g_bind (scope_identity env action run actor) (\<lambda>scope.
         g_bind (g_reject (gr_status scope \<noteq> ''PASS'') (gov_denied ''governed action is not available'')) (\<lambda>_.
         g_bind (permission_gate env action actor) (\<lambda>permission.
         g_reject (gr_status permission \<noteq> ''PASS'') (gov_denied ''governed action is not available'')))))))
       else g_return ()) (\<lambda>_.
     g_lift (action_response env action row)))))"

text \<open>One row of \<open>list_pending_approvals\<close>; \<open>None\<close> is \<open>continue\<close>.\<close>

definition pending_row :: "policy_env \<Rightarrow> string \<Rightarrow> action_row \<Rightarrow> (string \<times> pyval) list option vact" where
  "pending_row env actor listed =
     g_bind (lock_action env (sa_action_id listed)) (\<lambda>(row, action).
     if pa_action_type action \<notin> set ENABLED_P2P_ACTION_TYPES then g_return None
     else
       g_bind (g_lift (approver_allowed env action actor)) (\<lambda>_.
       g_bind (load_run (pa_run_id action)) (\<lambda>run.
       g_bind (if sa_state row = ''AWAITING_APPROVAL'' then
           g_bind (expiry_passes env (pa_expires_at action)) (\<lambda>fresh.
           g_return (fresh \<and> ar_status run = ''ACTIVE'' \<and> \<not> ar_revoked run))
         else if sa_state row = ''APPROVED'' then
           g_bind (latest_approval (pa_action_id action) (pa_proposal_digest action) ''ALLOW'') (\<lambda>approval. case approval of
             None \<Rightarrow> g_return False
           | Some a \<Rightarrow> if sd_actor a \<noteq> actor then g_return False else expiry_passes env (sd_expires_at a))
         else g_return False) (\<lambda>listable.
       if \<not> listable then g_return None
       else
         g_bind (scope_identity env action run actor) (\<lambda>scope.
         if gr_status scope \<noteq> ''PASS'' then g_return None
         else
           g_bind (permission_gate env action actor) (\<lambda>permission.
           if gr_status permission \<noteq> ''PASS'' then g_return None
           else g_bind (g_lift (action_response env action row)) (\<lambda>response. g_return (Some response))))))))"

text \<open>A fault drops the row; any other exception ends the request.\<close>

fun pending_rows :: "policy_env \<Rightarrow> string \<Rightarrow> action_row list \<Rightarrow> pyval list vact" where
  "pending_rows env actor [] = g_return []"
| "pending_rows env actor (row # rows) =
     g_bind (g_try (pending_row env actor row) g_return
       (\<lambda>e. case e of GatewayFault c m st \<Rightarrow> g_return None | _ \<Rightarrow> g_raise e)) (\<lambda>response.
     g_bind (pending_rows env actor rows) (\<lambda>rest.
     g_return (case response of None \<Rightarrow> rest | Some d \<Rightarrow> PDict d # rest)))"

definition list_pending_approvals :: "policy_env \<Rightarrow> pyval \<Rightarrow> pyval list vact" where
  "list_pending_approvals env limit =
     (case limit of
        PInt n \<Rightarrow>
          if n < 1 \<or> n > 200 then g_raise (invalid_input ''approval list limit is invalid'')
          else g_bind (g_lift (authenticated_actor (pe_gov env))) (\<lambda>actor s.
            pending_rows env actor
              (take (nat n) (rev (filter (\<lambda>r. sa_approval_class r = ''INDEPENDENT_APPROVER'') (gv_actions s)))) s)
      | _ \<Rightarrow> g_raise (invalid_input ''approval list limit is invalid''))"

section \<open>Histories of requests\<close>

text \<open>
  What the program calls: proposals, approvals and re-checks come through this module; the execution and orchestration modules store
  and reconcile receipts and move an action to other states; runs change at any time.  A request that raises keeps what it wrote so far;
  one whose writes are rolled back is no step.
\<close>

datatype policy_op =
    Propose pyval
  | Decide pyval pyval pyval pyval pyval
  | Recheck pyval pyval pyval
  | StoreReceipt "ExecutionReceipt contract" bool
  | ReconcileReceipt "ExecutionReceipt contract"
  | MoveAction string string pyval string "string option"
  | RunsChanged "(string \<times> agent_run) list"

definition policy_run :: "policy_env \<Rightarrow> policy_op \<Rightarrow> gov_site \<Rightarrow> gov_site" where
  "policy_run env oper s = (case oper of
     Propose v \<Rightarrow> snd (evaluate_proposal env v s)
   | Decide i d g r c \<Rightarrow> snd (decide_action env i d g r c s)
   | Recheck i d k \<Rightarrow> snd (pre_execute_recheck env i d k s)
   | StoreReceipt v verified \<Rightarrow> snd (persist_execution_receipt (pe_gov env) v verified s)
   | ReconcileReceipt v \<Rightarrow> snd (transition_execution_receipt (pe_gov env) v s)
   | MoveAction i t v r d \<Rightarrow> snd (transition_action_state (pe_gov env) i t v r d s)
   | RunsChanged rs \<Rightarrow> s\<lparr>gv_runs := rs\<rparr>)"

inductive policy_history :: "wflib \<Rightarrow> gov_site \<Rightarrow> bool" for lib where
  start: "policy_history lib empty_store"
| step: "policy_history lib s \<Longrightarrow> gov_lib (pe_gov env) = lib \<Longrightarrow> policy_history lib (policy_run env oper s)"

end
