(* ===== verification/Governance_Store_Invariants.thy ===== *)
theory Governance_Store_Invariants
  imports Governance_Store Gateway_Frames Action_Properties
begin

text \<open>
  The invariant of the governance store and its preservation by every operation of the service.  \<open>keeping I P m Q\<close> is a Hoare triple with an
  invariant: from a state with \<open>I\<close> and \<open>P\<close>, \<open>m\<close> ends with \<open>I\<close>, also when it raises, and with \<open>Q\<close> when it returns.
\<close>

section \<open>Reading steps and triples\<close>

interpretation rd: state_relation "(=) :: gov_site \<Rightarrow> gov_site \<Rightarrow> bool"
  by unfold_locales simp_all

lemma find_reads:
  "g_keeps (=) (find_action i)" "g_keeps (=) (find_receipt i)" "g_keeps (=) (find_gov_run i)" "g_keeps (=) (key_taken i)"
  "g_keeps (=) (policy_exists i d)" "g_keeps (=) (approval_exists i d u x)"
  by (simp_all add: g_keeps_def find_action_def find_receipt_def find_gov_run_def key_taken_def policy_exists_def approval_exists_def)

lemma load_action_reads: "g_keeps (=) (load_action env i)"
  unfolding load_action_def by (intro rd.bind_keeps find_reads rd.option_keeps rd.raise_keeps) (simp add: rd.step_keeps split: sum.split)

lemma owner_reads: "g_keeps (=) (read_action_owner env i u)"
  unfolding read_action_owner_def by (intro rd.step_keeps find_reads)

lemma serialize_reads:
  "g_keeps (=) (serialize_policy_decision env p)" "g_keeps (=) (serialize_approval_decision env d)" "g_keeps (=) (serialize_receipt env r u)"
  unfolding serialize_policy_decision_def serialize_approval_decision_def serialize_receipt_def
  by (intro rd.step_keeps owner_reads)+

lemma proof_reads: "g_keeps (=) (approval_proof env row u t d)" "g_keeps (=) (bound_execution env row u t d)"
  unfolding approval_proof_def bound_execution_def by (intro rd.step_keeps find_reads load_action_reads)+

lemmas store_reads = find_reads load_action_reads owner_reads serialize_reads proof_reads rd.lift_keeps rd.reject_keeps

definition keeping :: "('s \<Rightarrow> bool) \<Rightarrow> ('s \<Rightarrow> bool) \<Rightarrow> ('s, 'a) sact \<Rightarrow> ('a \<Rightarrow> 's \<Rightarrow> bool) \<Rightarrow> bool" where
  "keeping I P m Q \<longleftrightarrow> (\<forall>s. I s \<longrightarrow> P s \<longrightarrow> I (snd (m s)) \<and> (\<forall>x. fst (m s) = Inr x \<longrightarrow> Q x (snd (m s))))"

lemma keepingI:
  "(\<And>s. I s \<Longrightarrow> P s \<Longrightarrow> I (snd (m s))) \<Longrightarrow> (\<And>s x. I s \<Longrightarrow> P s \<Longrightarrow> fst (m s) = Inr x \<Longrightarrow> Q x (snd (m s))) \<Longrightarrow> keeping I P m Q"
  by (simp add: keeping_def)

lemma keeping_bind:
  assumes "keeping I P m Q" and "\<And>x. keeping I (Q x) (f x) R"
  shows "keeping I P (g_bind m f) R"
  unfolding keeping_def
proof (intro allI impI)
  fix s assume "I s" "P s"
  obtain r s' where m: "m s = (r, s')" by (rule prod.exhaust)
  with assms(1) \<open>I s\<close> \<open>P s\<close> have "I s'" "\<And>x. r = Inr x \<Longrightarrow> Q x s'" unfolding keeping_def by force+
  then show "I (snd (g_bind m f s)) \<and> (\<forall>x. fst (g_bind m f s) = Inr x \<longrightarrow> R x (snd (g_bind m f s)))"
    using assms(2) m unfolding keeping_def by (cases r) (auto simp: g_bind_def)
qed

lemma keeping_read: "g_keeps (=) m \<Longrightarrow> keeping I P m (\<lambda>x s. P s \<and> fst (m s) = Inr x)"
  unfolding keeping_def g_keeps_def by simp

lemma keeping_last: "g_keeps (=) m \<Longrightarrow> keeping I P m (\<lambda>_ _. True)"
  unfolding keeping_def g_keeps_def by simp

lemma keeping_pre: "keeping I P m Q \<Longrightarrow> (\<And>s. I s \<Longrightarrow> P' s \<Longrightarrow> P s) \<Longrightarrow> keeping I P' m Q"
  unfolding keeping_def by blast

lemma keeping_raise: "keeping I P (g_raise e) Q"
  by (simp add: keeping_def g_raise_def)

lemma keeping_option: "(v = None \<Longrightarrow> keeping I P m Q) \<Longrightarrow> (\<And>x. v = Some x \<Longrightarrow> keeping I P (f x) Q) \<Longrightarrow>
  keeping I P (case v of None \<Rightarrow> m | Some x \<Rightarrow> f x) Q"
  by (cases v) simp_all

lemma keeping_run: "keeping I (\<lambda>_. True) m Q \<Longrightarrow> I s \<Longrightarrow> I (snd (m s))"
  unfolding keeping_def by simp

text \<open>What a reading step has established when it returns.\<close>

lemma read_facts [simp]:
  "fst (g_lift r s) = Inr x \<longleftrightarrow> r = Inr x"
  "fst (g_reject b e s) = Inr u \<longleftrightarrow> \<not> b"
  "fst (find_action i s) = Inr found \<longleftrightarrow> found = find (\<lambda>r. sa_action_id r = i) (gv_actions s)"
  "fst (find_receipt i s) = Inr got \<longleftrightarrow> got = find (\<lambda>r. sr_receipt_id r = i) (gv_receipts s)"
  by (auto simp: g_lift_def g_reject_def g_raise_def g_return_def find_action_def find_receipt_def)

lemma load_action_fact [simp]:
  "fst (load_action env i s) = Inr a \<longleftrightarrow>
     (\<exists>row. find (\<lambda>r. sa_action_id r = i) (gv_actions s) = Some row \<and> read_action (gov_lib env) row = Inr a)"
  by (auto simp: load_action_def g_bind_def find_action_def g_raise_def g_return_def split: option.split sum.split)

section \<open>Rows that can be read\<close>

text \<open>Reading a row gives back the columns the checks rely on.\<close>

lemma read_action_columns:
  assumes "read_action lib row = Inr a"
  shows "pa_approval_class a = sa_approval_class row" and "pa_initiator a = sa_initiator row"
    and "pa_proposal_digest a = sa_proposal_digest row" and "pa_idempotency_key a = sa_idempotency_key row"
    and "proposal_digest (wf_py lib) a = Inr (sa_proposal_digest row)" and "sa_summary row \<noteq> []"
    and "pa_action_id a = py_lower (sa_action_id row)"
proof -
  from assms obtain d where d: "action_dict lib row = Inr d" and b: "build_proposed_action (wf_py lib) (PDict d) = Inr a"
    by (auto simp: read_action_def rbind_eq_Inr)
  from build_proposed_action_ok [OF b] obtain raw t sv y where raw: "action_raw (wf_py lib) (PDict d) = Inr raw"
    and body: "action_body (wf_py lib) raw t sv = Inr y" and chk: "check_action (wf_py lib) (dget raw ''proposal_digest'') y = Inr a" by blast
  from raw have [simp]: "raw = d" by (auto simp: action_raw_def gov_object_def rbind_eq_Inr split: if_splits)
  have g: "dget d ''approval_class'' = PStr (sa_approval_class row)" "dget d ''initiator'' = PStr (sa_initiator row)"
    "dget d ''proposal_digest'' = PStr (sa_proposal_digest row)" "dget d ''idempotency_key'' = PStr (sa_idempotency_key row)"
    "dget d ''summary'' = PStr (sa_summary row)" "dget d ''action_id'' = PStr (sa_action_id row)"
    using d by (auto simp: action_dict_def rbind_eq_Inr)
  from body have y: "pa_approval_class y = known_class (dget d ''approval_class'') APPROVAL_CLASSES"
    "required_text (dget d ''initiator'') ''initiator'' 140 = Inr (pa_initiator y)"
    "idempotency_key (dget d ''idempotency_key'') = Inr (pa_idempotency_key y)" "parse_summary d = Inr (pa_summary y)" "gov_uuid (dget d ''action_id'') ''action_id'' = Inr (pa_action_id y)"
    unfolding action_body_def rbind_eq_Inr by auto
  from chk [unfolded check_action_iff] obtain e where e: "a = y\<lparr>pa_proposal_digest := e\<rparr>" "sa_proposal_digest row = e"
    "pa_approval_class y \<in> set APPROVAL_CLASSES" using g by auto
  then show "pa_approval_class a = sa_approval_class row" using y(1) g(1)
    by (auto simp: known_class_def APPROVAL_CLASSES_def split: if_splits)
  show "pa_initiator a = sa_initiator row" "pa_proposal_digest a = sa_proposal_digest row" "pa_idempotency_key a = sa_idempotency_key row"
    using y(2,3) g e by (auto simp: required_text_def idempotency_key_def rbind_eq_Inr split: if_splits)
  show "proposal_digest (wf_py lib) a = Inr (sa_proposal_digest row)"
    using built_action(7) [OF b] \<open>pa_proposal_digest a = sa_proposal_digest row\<close> by simp
  show "sa_summary row \<noteq> []" using y(4) g(5) by (auto simp: parse_summary_def required_text_def)
  show "pa_action_id a = py_lower (sa_action_id row)" using y(5) g(6) e(1) by (simp add: gov_uuid_ok)
qed

section \<open>The invariant\<close>

definition row_ok :: "wflib \<Rightarrow> action_row \<Rightarrow> bool" where
  "row_ok lib row \<longleftrightarrow> (\<exists>a. read_action lib row = Inr a)"

definition has_action :: "gov_site \<Rightarrow> string \<Rightarrow> string \<Rightarrow> bool" where
  "has_action s i d \<longleftrightarrow> (\<exists>row \<in> set (gv_actions s). sa_action_id row = i \<and> sa_proposal_digest row = d)"

definition all_pass :: "policy_row \<Rightarrow> bool" where
  "all_pass p \<longleftrightarrow> spd_identity_outcome p = PStr ''PASS'' \<and> spd_scope_outcome p = PStr ''PASS'' \<and> spd_permission_outcome p = PStr ''PASS'' \<and>
     spd_deterministic_outcome p = PStr ''PASS'' \<and> spd_workflow_policy_outcome p = PStr ''PASS''"

definition allowed_by :: "action_row \<Rightarrow> policy_row \<Rightarrow> bool" where
  "allowed_by row p \<longleftrightarrow> spd_action p = sa_action_id row \<and> spd_proposal_digest p = sa_proposal_digest row \<and> spd_outcome p = PStr ''ALLOW''"

definition approved_by :: "string set \<Rightarrow> action_row \<Rightarrow> approval_row \<Rightarrow> bool" where
  "approved_by managers row d \<longleftrightarrow> sd_action d = sa_action_id row \<and> sd_proposal_digest d = sa_proposal_digest row \<and>
     sd_decision d = PStr ''ALLOW'' \<and>
     (sa_approval_class row = ''INITIATOR_CONFIRMATION'' \<longrightarrow> sd_actor d = sa_initiator row \<or> sd_actor d \<in> managers)"

definition approved :: "string set \<Rightarrow> gov_site \<Rightarrow> action_row \<Rightarrow> bool" where
  "approved managers s row \<longleftrightarrow>
     (\<exists>p \<in> set (gv_policies s). allowed_by row p) \<and> (\<exists>d \<in> set (gv_approvals s). approved_by managers row d)"

definition receipt_of :: "wflib \<Rightarrow> action_row \<Rightarrow> receipt_row \<Rightarrow> bool" where
  "receipt_of lib row r \<longleftrightarrow> sr_action r = sa_action_id row \<and> sr_initiator r = sa_initiator row \<and>
     sr_idempotency_key r = sa_idempotency_key row \<and> sr_proposal_digest r = sa_proposal_digest row \<and>
     (\<exists>a. read_action lib row = Inr a \<and> sr_run r = pa_run_id a)"

definition store_ok :: "wflib \<Rightarrow> string set \<Rightarrow> gov_site \<Rightarrow> bool" where
  "store_ok lib managers s \<longleftrightarrow>
     distinct (map sa_action_id (gv_actions s)) \<and> distinct (map sr_receipt_id (gv_receipts s)) \<and>
     distinct (map sr_idempotency_key (gv_receipts s)) \<and>
     (\<forall>row \<in> set (gv_actions s). row_ok lib row \<and> (sa_state row \<in> {''APPROVED'', ''EXECUTED''} \<longrightarrow> approved managers s row)) \<and>
     (\<forall>p \<in> set (gv_policies s). spd_outcome p = PStr ''ALLOW'' \<longrightarrow> all_pass p) \<and>
     (\<forall>r \<in> set (gv_receipts s). \<exists>row \<in> set (gv_actions s). receipt_of lib row r)"

lemma store_ok_ticks: "store_ok lib managers (s\<lparr>gv_ticks := n\<rparr>) = store_ok lib managers s"
  "store_ok lib managers (s\<lparr>gv_runs := rs\<rparr>) = store_ok lib managers s"
  by (simp_all add: store_ok_def approved_def)

lemma find_row: "find (\<lambda>r. key r = i) rows = Some row \<Longrightarrow> row \<in> set rows \<and> key row = i"
  by (auto simp: find_Some_iff)

lemma row_unique:
  "store_ok lib managers s \<Longrightarrow> row \<in> set (gv_actions s) \<Longrightarrow> row' \<in> set (gv_actions s) \<Longrightarrow> sa_action_id row' = sa_action_id row \<Longrightarrow> row' = row"
  by (auto simp: store_ok_def distinct_map dest: inj_onD)

subsection \<open>Inserts\<close>

lemma insert_action_ok:
  assumes "store_ok (gov_lib env) managers s"
  shows "store_ok (gov_lib env) managers (snd (insert_action env doc s))"
proof (cases "snd (insert_action env doc s) = s")
  case False
  then have v: "validate_action_row env None False doc = Inr ()"
    and new: "\<not> list_ex (\<lambda>r. sa_action_id r = sa_action_id doc \<or> sa_idempotency_key r = sa_idempotency_key doc \<or>
      sa_proposal_digest r = sa_proposal_digest doc) (gv_actions s)"
    and s': "snd (insert_action env doc s) = s\<lparr>gv_actions := gv_actions s @ [doc]\<rparr>"
    by (auto simp: insert_action_def split: sum.splits if_splits)
  from v have "row_ok (gov_lib env) doc" "sa_state doc = ''DRAFT''"
    by (auto simp: validate_action_row_def row_ok_def split: sum.splits if_splits)
  moreover have "sa_action_id doc \<notin> sa_action_id ` set (gv_actions s)"
    using new by (auto simp: list_ex_iff)
  moreover have "approved managers (s\<lparr>gv_actions := rs\<rparr>) row = approved managers s row" for rs row by (simp add: approved_def)
  ultimately show ?thesis using assms unfolding s' store_ok_def by auto
qed (use assms in simp)

lemma allow_needs_passes:
  assumes "parse_policy_decision lib (PDict (policy_dict doc)) = Inr d" and "spd_outcome doc = PStr ''ALLOW''"
  shows "all_pass doc"
proof -
  from assms(1) obtain raw checks where
    o: "gov_object (PDict (policy_dict doc)) POLICY_FIELDS POLICY_FIELDS ''policy decision'' = Inr raw"
      "gov_object (dget raw ''checks'') CHECKS CHECKS ''policy checks'' = Inr checks"
    and allow: "\<not> (py_eq (dget raw ''outcome'') (PStr ''ALLOW'') \<and>
        list_ex (\<lambda>v. \<not> py_eq v (PStr ''PASS'')) (map snd (map (\<lambda>key. (key, dget checks key)) (sort CHECKS))))"
    unfolding parse_policy_decision_def Let_def rbind_eq_Inr if_error_ok by auto
  from o(1) have raw: "raw = policy_dict doc" by (auto simp: gov_object_def split: if_splits)
  with o(2) have checks: "PDict checks = dget (policy_dict doc) ''checks''"
    by (auto simp: gov_object_def policy_dict_def split: if_splits)
  have "dget (policy_dict doc) ''outcome'' = PStr ''ALLOW''" using assms(2) by (simp add: policy_dict_def)
  with allow raw have "\<forall>k \<in> set CHECKS. dget checks k = PStr ''PASS''" by (auto simp: list_ex_iff)
  with checks show ?thesis by (simp add: CHECKS_def all_pass_def policy_dict_def)
qed

lemma insert_policy_ok:
  assumes "store_ok (gov_lib env) managers s"
  shows "store_ok (gov_lib env) managers (snd (insert_policy env doc s))"
proof (cases "snd (insert_policy env doc s) = s")
  case False
  then obtain d where v: "parse_policy_decision (wf_py (gov_lib env)) (PDict (policy_dict doc)) = Inr d"
    and s': "snd (insert_policy env doc s) = s\<lparr>gv_policies := gv_policies s @ [doc]\<rparr>"
    by (auto simp: insert_policy_def validate_policy_row_def split: sum.splits if_splits)
  have "approved managers s row \<Longrightarrow> approved managers (s\<lparr>gv_policies := gv_policies s @ [doc]\<rparr>) row" for row
    by (auto simp: approved_def)
  then show ?thesis using assms allow_needs_passes [OF v] unfolding s' store_ok_def by auto
qed (use assms in simp)

lemma insert_approval_ok:
  assumes "store_ok (gov_lib env) managers s"
  shows "store_ok (gov_lib env) managers (snd (insert_approval env doc s))"
proof (cases "snd (insert_approval env doc s) = s")
  case False
  then have s': "snd (insert_approval env doc s) = s\<lparr>gv_approvals := gv_approvals s @ [doc]\<rparr>"
    by (auto simp: insert_approval_def validate_approval_row_def split: sum.splits if_splits)
  have "approved managers s row \<Longrightarrow> approved managers (s\<lparr>gv_approvals := gv_approvals s @ [doc]\<rparr>) row" for row
    by (auto simp: approved_def)
  then show ?thesis using assms unfolding s' store_ok_def by auto
qed (use assms in simp)

lemma insert_receipt_ok:
  assumes "store_ok (gov_lib env) managers s" and "row \<in> set (gv_actions s)" and "receipt_of (gov_lib env) row doc"
  shows "store_ok (gov_lib env) managers (snd (insert_receipt env verified doc s))"
proof (cases "snd (insert_receipt env verified doc s) = s")
  case False
  then have new: "\<not> list_ex (\<lambda>r. sr_receipt_id r = sr_receipt_id doc \<or> sr_idempotency_key r = sr_idempotency_key doc) (gv_receipts s)"
    and s': "snd (insert_receipt env verified doc s) = s\<lparr>gv_receipts := gv_receipts s @ [doc]\<rparr>"
    by (auto simp: insert_receipt_def split: sum.splits if_splits)
  have "approved managers (s\<lparr>gv_receipts := rs\<rparr>) row = approved managers s row" for rs row by (simp add: approved_def)
  moreover have "sr_idempotency_key doc \<notin> sr_idempotency_key ` set (gv_receipts s)" "sr_receipt_id doc \<notin> sr_receipt_id ` set (gv_receipts s)"
    using new by (auto simp: list_ex_iff)
  ultimately show ?thesis using assms unfolding s' store_ok_def by auto
qed (use assms in simp)

subsection \<open>Saves\<close>

lemma replaced_keys:
  assumes "\<And>r. r \<in> set rows \<Longrightarrow> key r = key old \<Longrightarrow> f doc = f r"
  shows "map f (replace_row key old doc rows) = map f rows"
  unfolding replace_row_def using assms by (induction rows) auto

lemma replaced_row: "r \<in> set (replace_row key old doc rows) \<Longrightarrow> r = doc \<or> r \<in> set rows \<and> key r \<noteq> key old"
  by (auto simp: replace_row_def)

lemma kept_row: "r \<in> set rows \<Longrightarrow> key r \<noteq> key old \<Longrightarrow> r \<in> set (replace_row key old doc rows)"
  and new_row: "old \<in> set rows \<Longrightarrow> doc \<in> set (replace_row key old doc rows)"
  by (force simp: replace_row_def)+

text \<open>A saved action has the reviewed columns of the old one, so whatever was said of the old row holds of it.\<close>

lemma same_reviewed_reads:
  assumes "same_reviewed_columns old doc"
  shows "read_action lib doc = read_action lib old" "sa_action_id doc = sa_action_id old" "sa_approval_class doc = sa_approval_class old"
    "receipt_of lib doc r = receipt_of lib old r" "allowed_by doc p = allowed_by old p" "approved_by managers doc d = approved_by managers old d"
    "sa_proposal_digest doc = sa_proposal_digest old" "sa_initiator doc = sa_initiator old"
proof -
  have eq: "old = doc\<lparr>sa_state := sa_state old, sa_state_version := sa_state_version old, sa_state_reason := sa_state_reason old,
        sa_state_changed_at := sa_state_changed_at old, sa_state_changed_by := sa_state_changed_by old\<rparr>" (is "_ = ?d")
    using assms by (simp add: same_reviewed_columns_def)
  have "read_action lib doc = read_action lib ?d" by (simp add: read_action_def action_dict_def)
  then show r: "read_action lib doc = read_action lib old" using eq by simp
  have c: "sa_action_id doc = sa_action_id ?d" "sa_approval_class doc = sa_approval_class ?d" "sa_initiator doc = sa_initiator ?d"
    "sa_idempotency_key doc = sa_idempotency_key ?d" "sa_proposal_digest doc = sa_proposal_digest ?d" by simp_all
  then show "sa_action_id doc = sa_action_id old" "sa_approval_class doc = sa_approval_class old"
    "sa_proposal_digest doc = sa_proposal_digest old" "sa_initiator doc = sa_initiator old" using eq by simp_all
  show "receipt_of lib doc r = receipt_of lib old r" "allowed_by doc p = allowed_by old p" "approved_by managers doc d = approved_by managers old d"
    unfolding receipt_of_def allowed_by_def approved_by_def r using c eq by simp_all
qed

lemma save_action_ok:
  assumes ok: "store_ok (gov_lib env) managers s" and old: "old \<in> set (gv_actions s)"
    and new: "sa_state doc \<in> {''APPROVED'', ''EXECUTED''} \<Longrightarrow> approved managers s old"
  shows "store_ok (gov_lib env) managers (snd (save_action env old doc s))"
proof (cases "snd (save_action env old doc s) = s")
  case False
  let ?rows = "replace_row sa_action_id old doc (gv_actions s)"
  from False have same: "same_reviewed_columns old doc"
    and s': "snd (save_action env old doc s) = s\<lparr>gv_actions := ?rows\<rparr>"
    by (auto simp: save_action_def validate_action_row_def split: sum.splits if_splits)
  note r = same_reviewed_reads [OF same]
  have only: "row = old" if "row \<in> set (gv_actions s)" "sa_action_id row = sa_action_id old" for row
    using row_unique [OF ok old that] .
  have ids: "map sa_action_id ?rows = map sa_action_id (gv_actions s)" by (rule replaced_keys) (simp add: r(2))
  have approved: "approved managers (s\<lparr>gv_actions := rs\<rparr>) row = approved managers s row" for rs row by (simp add: approved_def)
  have "row_ok (gov_lib env) old" using ok old by (simp add: store_ok_def)
  then have doc: "row_ok (gov_lib env) doc" "approved managers s doc = approved managers s old"
    by (simp_all add: row_ok_def r(1) approved_def r(5,6))
  have rows: "row_ok (gov_lib env) row \<and> (sa_state row \<in> {''APPROVED'', ''EXECUTED''} \<longrightarrow> approved managers s row)"
    if "row \<in> set ?rows" for row
    using replaced_row [OF that] doc new ok by (auto simp: store_ok_def)
  have recs: "\<exists>row \<in> set ?rows. receipt_of (gov_lib env) row rc" if "rc \<in> set (gv_receipts s)" for rc
  proof -
    from ok that obtain row where row: "row \<in> set (gv_actions s)" "receipt_of (gov_lib env) row rc" by (auto simp: store_ok_def)
    show ?thesis
      using row only [OF row(1)] kept_row [OF row(1)] new_row [OF old] r(4) by (cases "sa_action_id row = sa_action_id old") blast+
  qed
  show ?thesis using ok rows recs unfolding s' store_ok_def by (simp add: approved ids)
qed (use ok in simp)

lemma save_receipt_ok:
  assumes ok: "store_ok (gov_lib env) managers s" and old: "old \<in> set (gv_receipts s)"
  shows "store_ok (gov_lib env) managers (snd (save_receipt env verified old doc s))"
proof (cases "snd (save_receipt env verified old doc s) = s")
  case False
  let ?rows = "replace_row sr_receipt_id old doc (gv_receipts s)"
  from False have same: "same_receipt_identity old doc"
    and s': "snd (save_receipt env verified old doc s) = s\<lparr>gv_receipts := ?rows\<rparr>"
    by (auto simp: save_receipt_def validate_receipt_row_def split: sum.splits if_splits)
  have only: "r = old" if "r \<in> set (gv_receipts s)" "sr_receipt_id r = sr_receipt_id old" for r
    using ok old that by (auto simp: store_ok_def distinct_map dest: inj_onD)
  have keys: "map sr_idempotency_key ?rows = map sr_idempotency_key (gv_receipts s)"
    "map sr_receipt_id ?rows = map sr_receipt_id (gv_receipts s)"
    by (rule replaced_keys, use only same in \<open>auto simp: same_receipt_identity_def\<close>)+
  have approved: "approved managers (s\<lparr>gv_receipts := rs\<rparr>) row = approved managers s row" for rs row by (simp add: approved_def)
  have "receipt_of (gov_lib env) row doc = receipt_of (gov_lib env) row old" for row
    using same by (simp add: receipt_of_def same_receipt_identity_def)
  then have recs: "\<exists>row \<in> set (gv_actions s). receipt_of (gov_lib env) row r" if "r \<in> set ?rows" for r
    using replaced_row [OF that] old ok by (auto simp: store_ok_def)
  show ?thesis using ok recs unfolding s' store_ok_def by (simp add: approved keys)
qed (use ok in simp)

section \<open>Operations\<close>

text \<open>The steps of an operation before its insert or save only read; \<open>keeping_steps\<close> collects what they found out.\<close>

lemma keeping_reads:
  assumes "g_keeps (=) m" and "\<And>x. keeping I (\<lambda>s. P s \<and> fst (m s) = Inr x) (f x) Q"
  shows "keeping I P (g_bind m f) Q"
  using keeping_bind [OF keeping_read [OF assms(1)] assms(2)] .

lemma keeping_write:
  assumes "\<And>s. I s \<Longrightarrow> P s \<Longrightarrow> I (snd (m s))" and "\<And>x. g_keeps (=) (f x)"
  shows "keeping I P (g_bind m f) (\<lambda>_ _. True)"
  by (rule keeping_bind [where Q = "\<lambda>_ _. True"]) (use assms in \<open>auto intro: keepingI keeping_last\<close>)

lemmas keeping_checks = store_reads [THEN keeping_reads] keeping_option keeping_raise

text \<open>The checks of \<open>persist_execution_receipt\<close> tie the receipt to the stored action.\<close>

lemma receipt_values_of:
  assumes "receipt_values r = Inr doc" and "\<not> receipt_conflicts a r" and "read_action lib row = Inr a" and "sa_action_id row = er_action_id r"
  shows "receipt_of lib row doc"
  using assms read_action_columns [OF assms(3)]
  by (auto simp: receipt_values_def receipt_conflicts_def receipt_of_def rbind_eq_Inr)

subsection \<open>Transitions of an action\<close>

lemma transition_target:
  assumes "transition_state cur target (PInt v) e = Inr (n, v')"
  shows "n = target \<and> (target = ''EXECUTED'' \<longrightarrow> cur = ''APPROVED'')"
  using assms unfolding transition_state_ok by (auto simp: action_table_defs split: if_splits)

lemma exists_facts [simp]:
  "fst (policy_exists i d s) = Inr b \<longleftrightarrow>
     b = (\<exists>p \<in> set (gv_policies s). spd_action p = i \<and> spd_proposal_digest p = d \<and> spd_outcome p = PStr ''ALLOW'')"
  "fst (approval_exists i d u x s) = Inr b \<longleftrightarrow>
     b = (\<exists>a \<in> set (gv_approvals s). sd_action a = i \<and> sd_proposal_digest a = d \<and> sd_actor a = u \<and> sd_decision a = PStr x)"
  by (auto simp: policy_exists_def approval_exists_def list_ex_iff)

lemma bind_fact: "g_keeps (=) m \<Longrightarrow> fst (g_bind m f s) = Inr y \<longleftrightarrow> (\<exists>x. fst (m s) = Inr x \<and> fst (f x s) = Inr y)"
  unfolding g_keeps_def g_bind_def by (cases "fst (m s)") (auto split: prod.split dest: spec [of _ s])

text \<open>An approval that passes \<open>approval_proof\<close> rests on decisions in the store.\<close>

lemma approval_proof_approves:
  assumes "fst (approval_proof env row actor ''APPROVED'' digest s) = Inr u" and "store_ok (gov_lib env) managers s"
    and "row \<in> set (gv_actions s)" and "\<And>u. is_manager env u \<Longrightarrow> u \<in> managers"
  shows "approved managers s row"
proof -
  from assms(1) obtain p where p: "p \<in> set (gv_policies s)" "allowed_by row p"
    by (auto simp: approval_proof_def bind_fact store_reads allowed_by_def or_empty_def)
  from assms(1) obtain d where d: "d \<in> set (gv_approvals s)" "sd_action d = sa_action_id row"
    "sd_proposal_digest d = sa_proposal_digest row" "sd_actor d = actor" "sd_decision d = PStr ''ALLOW''"
    by (auto simp: approval_proof_def bind_fact store_reads or_empty_def)
  have "actor = sa_initiator row \<or> actor \<in> managers" if cls: "sa_approval_class row = ''INITIATOR_CONFIRMATION''"
  proof (rule ccontr)
    assume "\<not> ?thesis"
    then have out: "actor \<noteq> sa_initiator row" "\<not> is_manager env actor" using assms(4) by auto
    with assms(1) obtain row' a where row': "find (\<lambda>r. sa_action_id r = sa_action_id row) (gv_actions s) = Some row'"
      and a: "read_action (gov_lib env) row' = Inr a" "pa_approval_class a \<noteq> ''INITIATOR_CONFIRMATION'' \<or> actor = pa_initiator a"
      by (auto simp: approval_proof_def bind_fact store_reads)
    from find_row [OF row'] assms(2,3) have "row' = row" using row_unique by blast
    with read_action_columns(1,2) [OF a(1)] a(2) cls out(1) show False by simp
  qed
  with d have "approved_by managers row d" by (simp add: approved_by_def)
  with p d(1) show ?thesis by (auto simp: approved_def)
qed

text \<open>
  The interface between the operations and an invariant of the tables: an invariant that the single writes keep under the conditions the
  operations establish is kept by the operations.  \<open>store_ok\<close> is one instance; a stronger one follows with the policy.
\<close>

locale store_invariant =
  fixes I :: "gov_site \<Rightarrow> bool" and lib :: wflib and managers :: "string set"
  assumes I_ok: "I s \<Longrightarrow> store_ok lib managers s"
    and ticks: "I (s\<lparr>gv_ticks := n\<rparr>) = I s"
    and insert_action: "gov_lib env = lib \<Longrightarrow> I s \<Longrightarrow> I (snd (insert_action env doc s))"
    and insert_policy: "gov_lib env = lib \<Longrightarrow> I s \<Longrightarrow> I (snd (insert_policy env pol s))"
    and insert_receipt: "gov_lib env = lib \<Longrightarrow> I s \<Longrightarrow> row \<in> set (gv_actions s) \<Longrightarrow> receipt_of lib row rec \<Longrightarrow> I (snd (insert_receipt env verified rec s))"
    and save_receipt: "gov_lib env = lib \<Longrightarrow> I s \<Longrightarrow> rec \<in> set (gv_receipts s) \<Longrightarrow> I (snd (save_receipt env verified rec rec' s))"
    and save_action: "gov_lib env = lib \<Longrightarrow> I s \<Longrightarrow> row \<in> set (gv_actions s) \<Longrightarrow>
      (sa_state doc \<in> {''APPROVED'', ''EXECUTED''} \<Longrightarrow> approved managers s row) \<Longrightarrow> I (snd (save_action env row doc s))"
begin

lemma gov_now_keeping:
  assumes "\<And>s n. P (s\<lparr>gv_ticks := n\<rparr>) = P s"
  shows "keeping (I) P (gov_now env) (\<lambda>_. P)"
  by (simp add: keeping_def gov_now_def ticks assms)

lemma action_values_keeping: "keeping (I) (\<lambda>_. True) (action_values env a) (\<lambda>_ _. True)"
  unfolding action_values_def
  by (intro keeping_bind [OF keeping_last] keeping_bind [OF gov_now_keeping] rd.step_keeps keeping_last) simp_all

lemma persist_action:
  assumes [simp]: "gov_lib env = lib"
  shows "keeping (I) (\<lambda>_. True) (persist_proposed_action env v) (\<lambda>_ _. True)"
  unfolding persist_proposed_action_def
  by ((rule keeping_checks)+, rule keeping_bind [OF keeping_pre [OF action_values_keeping TrueI]], rule keeping_write)
    (auto intro: store_reads insert_action [OF assms])

lemma persist_policy:
  assumes [simp]: "gov_lib env = lib"
  shows "keeping (I) (\<lambda>_. True) (persist_policy_decision env v) (\<lambda>_ _. True)"
  unfolding persist_policy_decision_def
  by ((rule keeping_checks)+, rule keeping_write) (auto intro: store_reads insert_policy [OF assms])

lemma persist_receipt:
  assumes [simp]: "gov_lib env = lib"
  shows "keeping (I) (\<lambda>_. True) (persist_execution_receipt env v verified) (\<lambda>_ _. True)"
  unfolding persist_execution_receipt_def
  by ((rule keeping_checks)+, rule keeping_write)
    (auto intro: store_reads receipt_values_of insert_receipt [OF assms] dest!: find_row)

lemma transition_receipt:
  assumes [simp]: "gov_lib env = lib"
  shows "keeping (I) (\<lambda>_. True) (transition_execution_receipt env v) (\<lambda>_ _. True)"
  unfolding transition_execution_receipt_def
  by ((rule keeping_checks)+, rule keeping_write)
    (auto intro: store_reads save_receipt [OF assms] dest!: find_row [OF sym])

lemma transition_action:
  assumes [simp]: "gov_lib env = lib" and m: "\<And>u. is_manager env u \<Longrightarrow> u \<in> managers"
  shows "keeping (I) (\<lambda>_. True) (transition_action_state env i t v r d) (\<lambda>_ _. True)"
proof -
  let ?P = "\<lambda>row s. row \<in> set (gv_actions s) \<and> (t = ''APPROVED'' \<or> t = ''EXECUTED'' \<and> sa_state row = ''APPROVED'' \<longrightarrow> approved managers s row)"
  let ?check = "\<lambda>actor row. if t \<in> {''APPROVED'', ''DECLINED''} then approval_proof env row actor t d
      else if actor \<noteq> sa_initiator row \<and> \<not> is_manager env actor then bound_execution env row actor t d else g_return ()"
  have check: "keeping (I) (\<lambda>s. row \<in> set (gv_actions s)) (?check actor row) (\<lambda>_. ?P row)" for row actor
  proof (rule keepingI)
    have reads: "g_keeps (=) (?check actor row)" by (intro rd.if_keeps proof_reads rd.return_keeps)
    then have st: "snd (?check actor row s) = s" for s unfolding g_keeps_def by metis
    fix s assume s: "I s" "row \<in> set (gv_actions s)"
    show "I (snd (?check actor row s))" using s st by metis
    fix u assume u: "fst (?check actor row s) = Inr u"
    have "approved managers s row" if "t = ''APPROVED''"
      using approval_proof_approves [of env row actor d s u managers] u s m that I_ok by simp
    moreover have "approved managers s row" if "sa_state row = ''APPROVED''"
      using I_ok [OF s(1)] s(2) that by (simp add: store_ok_def)
    ultimately show "?P row (snd (?check actor row s))" using s(2) st by metis
  qed
  have rest: "keeping (I) (\<lambda>s. ?P row s \<and> transition_state (sa_state row) t (PInt (sa_state_version row)) v = Inr (n, k))
      (g_bind (gov_now env) (\<lambda>now. let doc = row\<lparr>sa_state := n, sa_state_version := k, sa_state_reason := r,
         sa_state_changed_at := now, sa_state_changed_by := actor\<rparr> in
       g_bind (save_action env row doc) (\<lambda>_. g_lift (serialize_action env doc (Some actor))))) (\<lambda>_ _. True)" for row n k actor
    unfolding Let_def
    by (rule keeping_bind [OF gov_now_keeping], simp add: approved_def, rule keeping_write)
      (auto intro!: save_action [OF assms(1)] rd.lift_keeps dest!: transition_target)
  show ?thesis
    unfolding transition_action_state_def
    apply (rule keeping_checks)+
    apply (rule keeping_bind [OF keeping_pre [OF check]])
     apply (auto dest!: find_row [OF sym])[1]
    apply (rule keeping_checks)
    apply (clarsimp split: prod.split)
    apply (rule keeping_checks)
    apply (rule keeping_pre [OF rest])
    apply simp
    done
qed

end

interpretation so: store_invariant "store_ok lib managers" lib managers for lib managers
  by unfold_locales (auto simp: store_ok_ticks intro: insert_action_ok insert_policy_ok insert_receipt_ok save_receipt_ok save_action_ok)

lemma persist_approval_ok:
  assumes [simp]: "gov_lib env = lib"
  shows "keeping (store_ok lib managers) (\<lambda>_. True) (persist_approval_decision env v) (\<lambda>_ _. True)"
  unfolding persist_approval_decision_def
  by ((rule keeping_checks)+, rule keeping_write) (use insert_approval_ok [of env] in \<open>auto intro: store_reads\<close>)

section \<open>Every history\<close>

lemma gov_run_ok:
  assumes "gov_lib env = lib" and "\<And>u. is_manager env u \<Longrightarrow> u \<in> managers" and "store_ok lib managers s"
  shows "store_ok lib managers (gov_run env oper s)"
proof (cases oper)
  case (TransitionAction i t v r d)
  then show ?thesis using keeping_run [OF so.transition_action] assms by (simp add: gov_run_def)
qed (simp_all add: gov_run_def store_ok_ticks assms(3) keeping_run [OF so.persist_action [OF assms(1)]]
    keeping_run [OF so.persist_policy [OF assms(1)]] keeping_run [OF persist_approval_ok [OF assms(1)]]
    keeping_run [OF so.persist_receipt [OF assms(1)]] keeping_run [OF so.transition_receipt [OF assms(1)]])

lemma history_ok: "gov_history lib managers s \<Longrightarrow> store_ok lib managers s"
proof (induction rule: gov_history.induct)
  case start
  show ?case by (simp add: store_ok_def empty_store_def)
next
  case (step s env oper)
  then show ?case by (blast intro: gov_run_ok)
qed

end
