(* ===== verification/Governance_Policy_Invariants.thy ===== *)
theory Governance_Policy_Invariants
  imports Governance_Policy Governance_Store_Invariants
begin

text \<open>
  What the requests of \<open>Governance_Policy\<close> keep.  The gates and the other checks only read the clock (\<open>ticks_only\<close>, an interpretation of
  \<open>state_relation\<close>), so they keep every invariant of the tables.  The requests keep what the interface \<open>store_invariant\<close> asks of an invariant;
  \<open>duties_ok\<close>, which adds the separation of duties to \<open>store_ok\<close>, is one, and the recording of an approval keeps it too.
\<close>

section \<open>Steps that read the clock\<close>

definition ticks_only :: "gov_site \<Rightarrow> gov_site \<Rightarrow> bool" where
  "ticks_only s s' \<longleftrightarrow> (\<exists>n. s' = s\<lparr>gv_ticks := n\<rparr>)"

interpretation tk: state_relation ticks_only
proof
  show "ticks_only s s" for s by (auto simp: ticks_only_def intro: exI [of _ "gv_ticks s"])
qed (auto simp: ticks_only_def)

lemma read_ticks: "g_keeps (=) m \<Longrightarrow> g_keeps ticks_only m"
  by (simp add: g_keeps_def tk.refl)

lemma now_ticks: "g_keeps ticks_only (policy_now env)" "g_keeps ticks_only (gov_now e)"
  by (auto simp: g_keeps_def policy_now_def gov_now_def ticks_only_def)

lemma gate_ticks: "g_keeps ticks_only (gate st r)"
  unfolding gate_def by (rule tk.lift_keeps)

lemma visible_ticks:
  "g_keeps ticks_only a \<Longrightarrow> g_keeps ticks_only b \<Longrightarrow> g_keeps ticks_only c \<Longrightarrow> g_keeps ticks_only (visible_or answer a b c)"
  by (auto simp: visible_or_def split: sum.split)

lemma run_identity_ticks: "g_keeps ticks_only (run_identity env action run actor ap)"
  unfolding run_identity_def Let_def by (cases "pe_user_enabled env (ar_initiator run)") (simp_all add: tk.step_keeps gate_ticks now_ticks)

lemma warehouses_ticks: "g_keeps ticks_only (warehouses_visible env run actor ws)"
  by (induction ws) (simp_all add: gate_ticks visible_ticks)

lemma source_scope_ticks: "g_keeps ticks_only (source_scope env action run actor)"
  unfolding source_scope_def Let_def
  by (intro tk.if_keeps visible_ticks gate_ticks tk.option_keeps)

lemma scope_ticks: "g_keeps ticks_only (scope_identity env action run actor)"
  unfolding scope_identity_def by (intro tk.step_keeps visible_ticks gate_ticks warehouses_ticks source_scope_ticks)

lemma permission_ticks: "g_keeps ticks_only (permission_gate env action actor)"
  unfolding permission_gate_def by (intro tk.step_keeps) (simp add: gate_ticks split: sum.split bool.split)

lemma workflow_ticks: "g_keeps ticks_only (workflow_policy env action)"
  unfolding workflow_policy_def by (intro tk.step_keeps) (simp add: gate_ticks split: sum.split)

lemma run_gates_ticks: "(\<And>n c. (n, c) \<in> set gates \<Longrightarrow> g_keeps ticks_only c) \<Longrightarrow> g_keeps ticks_only (run_gates gates res b)"
proof (induction gates arbitrary: res b)
  case (Cons g gates)
  obtain n c where g: "g = (n, c)" by (rule prod.exhaust)
  have "g_keeps ticks_only c" using Cons.prems [of n c] g by simp
  moreover have "g_keeps ticks_only (run_gates gates res' b')" for res' b'
    by (intro Cons.IH) (rule Cons.prems, auto)
  ultimately show ?case unfolding g run_gates.simps by (intro tk.step_keeps gate_ticks)
qed (simp add: tk.return_keeps)

lemma gate_checks_ticks: "g_keeps ticks_only (gate_checks env action run actor ap)"
  unfolding gate_checks_def evaluate_gate_sequence_def
  by (rule run_gates_ticks) (auto intro: run_identity_ticks scope_ticks permission_ticks workflow_ticks tk.lift_keeps)

lemma expiry_ticks: "g_keeps ticks_only (expiry_passes env t)"
  unfolding expiry_passes_def by (intro tk.step_keeps now_ticks)

lemma lookup_reads:
  "g_keeps (=) (load_run i)" "g_keeps (=) (lock_action env i)" "g_keeps (=) (lock_run_for_action i)"
  "g_keeps (=) (latest_policy i d)" "g_keeps (=) (latest_approval i d x)" "g_keeps (=) (receipt_exists k)" "g_keeps (=) (sync_steps env action)"
proof -
  show load: "g_keeps (=) (load_run i)" for i unfolding load_run_def by (intro rd.step_keeps find_reads)
  then show "g_keeps (=) (lock_run_for_action i)" unfolding lock_run_for_action_def by (intro rd.step_keeps find_reads)
  show "g_keeps (=) (lock_action env i)"
    unfolding lock_action_def by (intro rd.step_keeps find_reads) (simp add: rd.step_keeps split: sum.split)
  show "g_keeps (=) (sync_steps env action)" unfolding sync_steps_def by (intro rd.step_keeps)
qed (simp_all add: g_keeps_def latest_policy_def latest_approval_def receipt_exists_def)

lemmas lookup_ticks = lookup_reads [THEN read_ticks]

lemma require_ticks: "g_keeps ticks_only (require_policy env action m)" "g_keeps ticks_only (require_approval env action)"
  unfolding require_policy_def require_approval_def by (intro tk.step_keeps lookup_ticks expiry_ticks)+

lemma approver_scope_ticks: "g_keeps ticks_only (approver_scope env action run actor)"
  unfolding approver_scope_def by (intro tk.step_keeps scope_ticks permission_ticks)

lemma decide_checks_ticks: "g_keeps ticks_only (decide_checks env actor run row action d)"
  unfolding decide_checks_def by (intro tk.step_keeps expiry_ticks approver_scope_ticks gate_checks_ticks require_ticks)

lemmas check_ticks = lookup_ticks require_ticks approver_scope_ticks decide_checks_ticks expiry_ticks gate_checks_ticks run_identity_ticks
  tk.lift_keeps tk.reject_keeps tk.return_keeps

lemma keeping_if: "keeping I P m Q \<Longrightarrow> keeping I P n Q \<Longrightarrow> keeping I P (if b then m else n) Q"
  by simp

section \<open>Separation of duties\<close>

text \<open>An approval is the initiator's own where confirmation is asked for, and somebody else's otherwise.\<close>

definition duty :: "action_row \<Rightarrow> approval_row \<Rightarrow> bool" where
  "duty row d \<longleftrightarrow> (if sa_approval_class row = ''INITIATOR_CONFIRMATION'' then sd_actor d = sa_initiator row else sd_actor d \<noteq> sa_initiator row)"

definition decided :: "gov_site \<Rightarrow> approval_row \<Rightarrow> bool" where
  "decided s d \<longleftrightarrow> (\<exists>row \<in> set (gv_actions s). sd_action d = sa_action_id row \<and> sd_proposal_digest d = sa_proposal_digest row \<and> duty row d)"

definition duties_ok :: "wflib \<Rightarrow> gov_site \<Rightarrow> bool" where
  "duties_ok lib s \<longleftrightarrow> store_ok lib UNIV s \<and> (\<forall>d \<in> set (gv_approvals s). decided s d)"

lemma decided_mono: "decided s d \<Longrightarrow> set (gv_actions s) \<subseteq> set (gv_actions s') \<Longrightarrow> decided s' d"
  unfolding decided_def by blast

lemma writes_keep_approvals:
  "gv_approvals (snd (insert_action env doc s)) = gv_approvals s" "gv_approvals (snd (insert_policy env pol s)) = gv_approvals s"
  "gv_approvals (snd (insert_receipt env v rec s)) = gv_approvals s" "gv_approvals (snd (save_receipt env v rec rec' s)) = gv_approvals s"
  "gv_approvals (snd (save_action env row doc s)) = gv_approvals s"
  by (auto simp: insert_action_def insert_policy_def insert_receipt_def save_receipt_def save_action_def split: sum.split)

lemma writes_keep_actions:
  "gv_actions (snd (insert_policy env pol s)) = gv_actions s" "gv_actions (snd (insert_receipt env v rec s)) = gv_actions s"
  "gv_actions (snd (save_receipt env v rec rec' s)) = gv_actions s" "set (gv_actions s) \<subseteq> set (gv_actions (snd (insert_action env doc s)))"
  by (auto simp: insert_action_def insert_policy_def insert_receipt_def save_receipt_def split: sum.split)

lemma save_action_decided:
  assumes "store_ok lib managers s" and "row \<in> set (gv_actions s)" and "decided s d"
  shows "decided (snd (save_action env row doc s)) d"
proof (cases "snd (save_action env row doc s) = s")
  case False
  let ?rows = "replace_row sa_action_id row doc (gv_actions s)"
  from False have same: "same_reviewed_columns row doc" and s': "gv_actions (snd (save_action env row doc s)) = ?rows"
    by (auto simp: save_action_def validate_action_row_def split: sum.splits if_splits)
  from assms(3) obtain old where old: "old \<in> set (gv_actions s)" "sd_action d = sa_action_id old"
    "sd_proposal_digest d = sa_proposal_digest old" "duty old d" by (auto simp: decided_def)
  show ?thesis
  proof (cases "sa_action_id old = sa_action_id row")
    case True
    then have "old = row" using row_unique assms(1,2) old(1) by blast
    moreover have "sa_action_id doc = sa_action_id row \<and> sa_proposal_digest doc = sa_proposal_digest row \<and> duty doc d = duty row d"
      using same_reviewed_reads(2,3,7,8) [OF same] by (simp add: duty_def)
    ultimately show ?thesis using old new_row [OF assms(2), of doc sa_action_id] unfolding decided_def s' by metis
  qed (use old kept_row [OF old(1), of sa_action_id row doc] in \<open>auto simp: decided_def s'\<close>)
qed (use assms in simp)

interpretation du: store_invariant "duties_ok lib" lib UNIV for lib
proof
  fix s n show "duties_ok lib (s\<lparr>gv_ticks := n\<rparr>) = duties_ok lib s" by (simp add: duties_ok_def store_ok_ticks decided_def)
next
  fix env s doc assume "gov_lib env = lib" "duties_ok lib s"
  then show "duties_ok lib (snd (insert_action env doc s))"
    unfolding duties_ok_def writes_keep_approvals using insert_action_ok decided_mono [OF _ writes_keep_actions(4)] by blast
next
  fix env s row and doc :: action_row
  assume "gov_lib env = lib" "duties_ok lib s" "row \<in> set (gv_actions s)"
    "sa_state doc \<in> {''APPROVED'', ''EXECUTED''} \<Longrightarrow> approved UNIV s row"
  then show "duties_ok lib (snd (save_action env row doc s))"
    unfolding duties_ok_def writes_keep_approvals using save_action_ok save_action_decided by blast
qed (auto simp: duties_ok_def decided_def writes_keep_approvals writes_keep_actions intro: insert_policy_ok insert_receipt_ok save_receipt_ok)

section \<open>Requests\<close>

text \<open>\<open>keeping\<close> for any invariant of the interface, with steps that read the clock in between.\<close>

context store_invariant
begin

lemma after_ticks:
  assumes "g_keeps ticks_only m" and "\<And>x. keeping I (\<lambda>_. True) (f x) Q"
  shows "keeping I (\<lambda>_. True) (g_bind m f) Q"
proof (rule keeping_bind [OF _ assms(2)])
  show "keeping I (\<lambda>_. True) m (\<lambda>_ _. True)"
    using assms(1) ticks unfolding keeping_def g_keeps_def ticks_only_def by metis
qed

lemma ticks_end: "g_keeps ticks_only m \<Longrightarrow> keeping I (\<lambda>_. True) m (\<lambda>_ _. True)"
  using ticks unfolding keeping_def g_keeps_def ticks_only_def by metis

lemma transition: "gov_lib env = lib \<Longrightarrow> managers = UNIV \<Longrightarrow>
  keeping I (\<lambda>_. True) (transition_action_state env i t v r d) (\<lambda>_ _. True)"
  by (rule transition_action) simp_all

lemma evaluate_proposal_keeps:
  assumes "gov_lib (pe_gov env) = lib" and "managers = UNIV"
  shows "keeping I (\<lambda>_. True) (evaluate_proposal env v) (\<lambda>_ _. True)"
  unfolding evaluate_proposal_def Let_def
  by (intro after_ticks check_ticks keeping_bind [OF persist_action [OF assms(1)]] keeping_bind [OF persist_policy [OF assms(1)]]
      keeping_bind [OF transition [OF assms]] ticks_end)

lemma recheck_result_keeps:
  assumes "gov_lib (pe_gov env) = lib" and "managers = UNIV"
  shows "keeping I (\<lambda>_. True) (recheck_result env action row actor a checks) (\<lambda>_ _. True)"
proof -
  have expire: "keeping I (\<lambda>_. True) (expire_if_owner env action row actor r) (\<lambda>_ _. True)" for r
    unfolding expire_if_owner_def
    by (intro keeping_if keeping_bind [OF transition [OF assms]] ticks_end check_ticks)
  show ?thesis
    unfolding recheck_result_def
    by (intro after_ticks check_ticks keeping_if keeping_bind [OF expire] keeping_raise keeping_option ticks_end)
qed

lemma pre_execute_recheck_keeps:
  assumes "gov_lib (pe_gov env) = lib" and "managers = UNIV"
  shows "keeping I (\<lambda>_. True) (pre_execute_recheck env i d k) (\<lambda>_ _. True)"
  unfolding pre_execute_recheck_def Let_def
  by (intro after_ticks check_ticks) (auto intro!: after_ticks check_ticks recheck_result_keeps [OF assms] split: prod.split)

end

section \<open>Decisions\<close>

lemma approver_duty:
  assumes "read_action lib row = Inr action" and "approver_allowed env action actor = Inr ()" and "sd_actor d = actor"
  shows "duty row d"
  using assms read_action_columns(1,2) [OF assms(1)] by (auto simp: approver_allowed_def duty_def split: if_splits)

lemma insert_approval_duties:
  assumes "gov_lib env = lib" and "duties_ok lib s" and "decided s doc"
  shows "duties_ok lib (snd (insert_approval env doc s))"
proof (cases "snd (insert_approval env doc s) = s")
  case False
  then have s': "snd (insert_approval env doc s) = s\<lparr>gv_approvals := gv_approvals s @ [doc]\<rparr>"
    by (auto simp: insert_approval_def split: sum.splits if_splits)
  have "store_ok lib UNIV (snd (insert_approval env doc s))"
    using insert_approval_ok [of env UNIV s doc] assms(1,2) by (simp add: duties_ok_def)
  then show ?thesis using assms(2,3) unfolding s' by (auto simp: duties_ok_def decided_def)
qed (use assms in simp)

lemma persist_approval_duties:
  assumes [simp]: "gov_lib env = lib"
  shows "keeping (duties_ok lib) (\<lambda>s. row \<in> set (gv_actions s) \<and> sa_action_id row = ad_action_id d \<and> duty row (approval_values d))
    (persist_approval_decision env (Typed d)) (\<lambda>_. \<lambda>_. True)"
proof -
  have dec: "decided s (approval_values d)" if s: "duties_ok lib s" "row \<in> set (gv_actions s)" "sa_action_id row = ad_action_id d"
    "duty row (approval_values d)" "find (\<lambda>r. sa_action_id r = ad_action_id d) (gv_actions s) = Some row'" "read_action lib row' = Inr a"
    "pa_proposal_digest a = ad_proposal_digest d" for s row' a
  proof -
    have "row' = row" using row_unique [of lib UNIV s row' row] find_row [OF s(5)] s(1-3) by (simp add: duties_ok_def)
    then have "sa_proposal_digest row = ad_proposal_digest d" using read_action_columns(3) [OF s(6)] s(7) by simp
    then have "sd_action (approval_values d) = sa_action_id row \<and> sd_proposal_digest (approval_values d) = sa_proposal_digest row \<and>
      duty row (approval_values d)" using s(3,4) by (simp add: approval_values_def)
    then show ?thesis unfolding decided_def using s(2) by (rule bexI)
  qed
  show ?thesis
    unfolding persist_approval_decision_def
    by ((rule keeping_checks)+, rule keeping_write)
      (auto simp: contract_of_def intro!: insert_approval_duties [OF assms] store_reads elim!: dec)
qed

lemma returns_bind: "fst (g_bind m f s) = Inr y \<longleftrightarrow> (\<exists>x s'. m s = (Inr x, s') \<and> fst (f x s') = Inr y)"
  by (cases "m s") (auto simp: g_bind_def split: sum.split)

lemma decide_checks_fact:
  "fst (decide_checks env actor run row action dg s) = Inr u \<Longrightarrow> approver_allowed env action actor = Inr ()"
  by (auto simp: decide_checks_def returns_bind g_lift_def)

lemma locked_row:
  assumes "fst (lock_action env i s) = Inr (row, action)"
  shows "row \<in> set (gv_actions s)" "sa_action_id row = i" "read_action (gov_lib (pe_gov env)) row = Inr action"
  using assms find_row [of sa_action_id i "gv_actions s" row]
  by (auto simp: lock_action_def g_bind_def find_action_def g_raise_def g_return_def split: option.splits sum.splits)

lemma decide_record_duties:
  assumes lib: "gov_lib (pe_gov env) = lib"
  shows "keeping (duties_ok lib) (\<lambda>s. row \<in> set (gv_actions s) \<and> sa_action_id row = pa_action_id action \<and>
      read_action lib row = Inr action \<and> approver_allowed env action actor = Inr ())
    (decide_record env actor row action dec reason cid) (\<lambda>_ _. True)"
proof -
  let ?d = "approval_decision env action actor dec reason cid"
  have d: "ad_action_id ?d = pa_action_id action" "sd_actor (approval_values ?d) = actor"
    by (simp_all add: approval_decision_def approval_values_def)
  have rest: "keeping (duties_ok lib) (\<lambda>_. True)
     (if dec = ''CHANGES_REQUESTED'' then
       g_bind (sync_steps env action) (\<lambda>_. g_bind (g_lift (action_response env action row)) (\<lambda>response.
       g_return [(''action'', PDict response), (''approval'', PDict x)]))
     else
       g_bind (transition_action_state (pe_gov env) (pa_action_id action) (if dec = ''ALLOW'' then ''APPROVED'' else ''DECLINED'')
         (PInt (sa_state_version row)) reason (Some (pa_proposal_digest action))) (\<lambda>stored_action.
       g_bind (sync_steps env action) (\<lambda>_. g_return [(''action'', PDict stored_action), (''approval'', PDict x)])))
     (\<lambda>_ _. True)" for x
    by (intro keeping_if du.after_ticks du.ticks_end check_ticks keeping_bind [OF du.transition [OF lib refl]])
  show ?thesis
    unfolding decide_record_def
    by (rule keeping_bind [OF keeping_pre [OF persist_approval_duties [OF lib]] rest])
      (auto simp: d intro: approver_duty)
qed

lemma decide_action_keeps:
  assumes lib: "gov_lib (pe_gov env) = lib"
  shows "keeping (duties_ok lib) (\<lambda>_. True) (decide_action env i dec dg r c) (\<lambda>_ _. True)"
proof -
  have checked: "keeping (duties_ok lib) (\<lambda>s. fst (lock_action env i' s) = Inr (row, action) \<and> uuid_shape i')
      (g_bind (decide_checks env actor run row action dg') (\<lambda>_. decide_record env actor row action dec' r' c')) (\<lambda>_ _. True)"
    (is "keeping _ ?P _ _") for i' row action actor run dg' dec' r' c'
  proof (rule keeping_bind [OF _ keeping_pre [OF decide_record_duties [OF lib]]])
    let ?m = "decide_checks env actor run row action dg'"
    show "keeping (duties_ok lib) ?P ?m (\<lambda>_ s. row \<in> set (gv_actions s) \<and> sa_action_id row = pa_action_id action \<and>
      read_action lib row = Inr action \<and> approver_allowed env action actor = Inr ())"
    proof (rule keepingI)
      fix s assume s: "duties_ok lib s" "?P s"
      have "ticks_only s (snd (?m s))" using decide_checks_ticks unfolding g_keeps_def by blast
      then obtain n where n: "snd (?m s) = s\<lparr>gv_ticks := n\<rparr>" by (auto simp: ticks_only_def)
      show "duties_ok lib (snd (?m s))" using s(1) by (simp add: n du.ticks)
      fix u assume u: "fst (?m s) = Inr u"
      from s(2) locked_row [of env i' s row action] have row: "row \<in> set (gv_actions s)" "sa_action_id row = i'"
        "read_action lib row = Inr action" by (simp_all add: lib)
      moreover have "pa_action_id action = i'"
        using read_action_columns(7) [OF row(3)] row(2) s(2) by (simp add: uuid_shape_lower)
      ultimately show "row \<in> set (gv_actions (snd (?m s))) \<and> sa_action_id row = pa_action_id action \<and>
        read_action lib row = Inr action \<and> approver_allowed env action actor = Inr ()"
        using decide_checks_fact [OF u] by (simp add: n)
    qed
  qed simp
  show ?thesis
    unfolding decide_action_def
    by ((rule keeping_checks lookup_reads [THEN keeping_reads])+, clarsimp split: prod.split, rule keeping_pre [OF checked])
      (auto simp: canonical_uuid_ok)
qed

lemma policy_run_duties:
  assumes "gov_lib (pe_gov env) = lib" and "duties_ok lib s"
  shows "duties_ok lib (policy_run env oper s)"
proof (cases oper)
  case (RunsChanged rs)
  then show ?thesis using assms(2) by (simp add: policy_run_def duties_ok_def store_ok_ticks decided_def)
qed (simp_all add: policy_run_def assms(2) keeping_run [OF du.evaluate_proposal_keeps [OF assms(1) refl]] keeping_run [OF decide_action_keeps [OF assms(1)]]
    keeping_run [OF du.pre_execute_recheck_keeps [OF assms(1) refl]] keeping_run [OF du.persist_receipt [OF assms(1)]]
    keeping_run [OF du.transition_receipt [OF assms(1)]] keeping_run [OF du.transition [OF assms(1) refl]])

lemma policy_history_duties: "policy_history lib s \<Longrightarrow> duties_ok lib s"
proof (induction rule: policy_history.induct)
  case start
  show ?case by (simp add: duties_ok_def store_ok_def empty_store_def)
next
  case (step s env oper)
  then show ?case by (blast intro: policy_run_duties)
qed

end
