(* ===== verification/Governance_Store_Properties.thy ===== *)
theory Governance_Store_Properties
  imports Governance_Store_Invariants Governance_Records
begin

text \<open>
  What the governance store guarantees after any history of requests: an approved action rests on decisions about its own content,
  and a receipt belongs to its action alone.  A small store at the end serves the witnesses, and shows what the primitive that moves
  an action does not check.
\<close>

section \<open>Guarantees\<close>


text \<open>
  C7: a receipt belongs to one action, and an action has at most one receipt.  After any history of requests a stored receipt names a
  stored action and carries its initiator, idempotency key, proposal digest and run, and it is the only receipt of that action.
\<close>

theorem receipt_unique_for_action:
  assumes "gov_history lib managers s" and "r \<in> set (gv_receipts s)"
  shows "(\<exists>row \<in> set (gv_actions s). receipt_of lib row r) \<and> (\<forall>r' \<in> set (gv_receipts s). sr_action r' = sr_action r \<longrightarrow> r' = r)"
proof -
  note ok = history_ok [OF assms(1)]
  have "r' = r" if r': "r' \<in> set (gv_receipts s)" "sr_action r' = sr_action r" for r'
  proof -
    from ok assms(2) r'(1) obtain row row' where row: "row \<in> set (gv_actions s)" "row' \<in> set (gv_actions s)"
      "receipt_of lib row r" "receipt_of lib row' r'" unfolding store_ok_def by meson
    then have "sa_action_id row' = sa_action_id row" using r'(2) by (simp add: receipt_of_def)
    then have "row' = row" using row_unique [OF ok] row by blast
    then have "sr_idempotency_key r' = sr_idempotency_key r" using row by (simp add: receipt_of_def)
    then show ?thesis using ok assms(2) r'(1) by (auto simp: store_ok_def distinct_map dest: inj_onD)
  qed
  moreover have "\<exists>row \<in> set (gv_actions s). receipt_of lib row r" using ok assms(2) by (simp add: store_ok_def)
  ultimately show ?thesis by blast
qed

section \<open>Summaries\<close>

text \<open>The contract makes the summary optional, but a stored action without one cannot be read, so it is never stored.\<close>

lemma empty_summary_unreadable: "sa_summary row = [] \<Longrightarrow> \<exists>e. read_action lib row = Inl e"
  using read_action_columns(6) by (cases "read_action lib row") auto

lemma empty_summary_not_stored:
  assumes "sa_summary doc = []"
  shows "insert_action env doc s = (Inl frappe_throw, s)"
proof -
  obtain e where "read_action (gov_lib env) doc = Inl e" using empty_summary_unreadable [OF assms] by blast
  then show ?thesis by (simp add: insert_action_def validate_action_row_def)
qed

section \<open>A small store\<close>

text \<open>The purchase order of \<open>Action_Properties\<close>, proposed, allowed and approved by the buyer.  The JSON reader knows the three texts stored.\<close>

definition store_tokens :: "string \<Rightarrow> pyval option" where
  "store_tokens t = (if json_dumps (PList [PStr ''e1'']) = Inr t then Some (PList [PStr ''e1''])
     else if json_dumps (PList [PStr ''c1'']) = Inr t then Some (PList [PStr ''c1''])
     else if json_dumps (PDict sample_payload) = Inr t then Some (PDict sample_payload)
     else if json_dumps (PDict []) = Inr t then Some (PDict []) else None)"

definition store_lib :: wflib where
  "store_lib = \<lparr>wf_py = sample_lib\<lparr>json_tokens := store_tokens\<rparr>, iso_parse = (\<lambda>_. None), iso_format = (\<lambda>_. []),
     uuid_text = Some, uuid_url = (\<lambda>_. [])\<rparr>"

definition store_env :: gov_env where
  "store_env = \<lparr>gv_env = \<lparr>ge_lib = store_lib, ge_user = ''buyer'', ge_headers = [], ge_clock = (\<lambda>_. 0), ge_audit_up = (\<lambda>_. True),
       ge_uuid4 = [], ge_token = [], ge_roles = (\<lambda>_. []), ge_get_list = (\<lambda>_ _ _. []), ge_user_enabled = (\<lambda>_. True),
       ge_can_read = (\<lambda>_ _. True), ge_str_time = (\<lambda>_. ''now''), ge_elapsed_ns = 0, ge_request_ip = [], ge_cache_up = True\<rparr>,
     gv_accepts = (\<lambda>_ _. True), gv_unchanged = True, gv_p2p_calculation = (\<lambda>_. Inr [])\<rparr>"

lemma store_env_fields [simp]:
  "gov_lib store_env = store_lib" "authenticated_actor store_env = Inr ''buyer''" "gv_accepts store_env dt n" "gv_unchanged store_env"
  "\<not> is_manager store_env u" "wf_py store_lib = sample_lib\<lparr>json_tokens := store_tokens\<rparr>"
  by (simp_all add: store_env_def gov_lib_def authenticated_actor_def is_manager_def store_lib_def)

lemma store_now: "gov_now store_env s = (Inr ''now'', s\<lparr>gv_ticks := Suc (gv_ticks s)\<rparr>)"
  by (simp add: gov_now_def store_env_def)

text \<open>Parsing a dictionary does not ask the JSON reader.\<close>

lemma json_free [simp]:
  "gov_timestamp (lib\<lparr>json_tokens := f\<rparr>) = gov_timestamp lib" "proposal_digest (lib\<lparr>json_tokens := f\<rparr>) = proposal_digest lib"
  by (simp_all add: gov_timestamp_def proposal_digest_def fun_eq_iff)

lemma parse_json_free:
  "action_raw (lib\<lparr>json_tokens := f\<rparr>) (PDict d) = action_raw lib (PDict d)" "action_body (lib\<lparr>json_tokens := f\<rparr>) = action_body lib"
  "check_action (lib\<lparr>json_tokens := f\<rparr>) = check_action lib" "parse_policy_decision (lib\<lparr>json_tokens := f\<rparr>) = parse_policy_decision lib"
  "parse_approval_decision (lib\<lparr>json_tokens := f\<rparr>) = parse_approval_decision lib"
  "create_execution_receipt (lib\<lparr>json_tokens := f\<rparr>) = create_execution_receipt lib"
  unfolding fun_eq_iff action_raw_def action_body_def check_action_def parse_policy_decision_def parse_approval_decision_def
    create_execution_receipt_def json_free pyval.case by (rule refl allI)+

lemma build_json_free: "build_proposed_action (lib\<lparr>json_tokens := f\<rparr>) (PDict d) = build_proposed_action lib (PDict d)"
  unfolding build_proposed_action_def parse_json_free ..

text \<open>Reading looks at the fields of a dictionary, not at their order.\<close>

lemma build_reordered:
  assumes "action_raw lib (PDict d) = Inr d" "action_raw lib (PDict d') = Inr d'" and "\<And>k. dget d k = dget d' k"
  shows "build_proposed_action lib (PDict d) = build_proposed_action lib (PDict d')"
proof -
  have body: "action_body lib d = action_body lib d'" unfolding fun_eq_iff action_body_def parse_summary_def assms(3) by (rule refl allI)+
  show ?thesis unfolding build_proposed_action_def assms(1,2) rbind_Inr assms(3) body ..
qed

text \<open>The row of the action, and that it is read back.\<close>

definition json_text :: "pyval \<Rightarrow> string" where
  "json_text v = (case json_dumps v of Inr t \<Rightarrow> t | Inl _ \<Rightarrow> [])"

definition store_row :: action_row where
  "store_row =
     \<lparr>sa_schema_version = ''2'', sa_action_type = ''SUBMIT_PO'', sa_run = pa_run_id sample_built, sa_action_id = pa_action_id sample_built,
      sa_initiator = ''buyer'', sa_payload_json = json_text (PDict sample_payload), sa_evidence_refs_json = json_text (PList [PStr ''e1'']),
      sa_calculation_refs_json = json_text (PList [PStr ''c1'']), sa_risk_class = ''HIGH'', sa_approval_class = ''INDEPENDENT_APPROVER'',
      sa_snapshot_ref = ''s1'', sa_idempotency_key = ''key-0001'', sa_expires_at = ''2026-01-01T00:00:00Z'',
      sa_revalidation_rule = PStr ''FULL_PRE_EXECUTE_RECHECK_P2P_V1'', sa_proposal_digest = replicate 64 (CHR ''0''), sa_summary = ''Submit'',
      sa_correlation_id = pa_correlation_id sample_built, sa_state = ''DRAFT'', sa_state_version = 1, sa_state_reason = ''created'',
      sa_state_changed_at = ''now'', sa_state_changed_by = ''buyer''\<rparr>"

lemma store_texts:
  "json_dumps (PList [PStr ''e1'']) = Inr (json_text (PList [PStr ''e1'']))" "json_dumps (PList [PStr ''c1'']) = Inr (json_text (PList [PStr ''c1'']))"
  "json_dumps (PDict sample_payload) = Inr (json_text (PDict sample_payload))"
  "json_text (PList [PStr ''e1'']) \<noteq> json_text (PList [PStr ''c1''])"
  "json_text (PList [PStr ''e1'']) \<noteq> json_text (PDict sample_payload)" "json_text (PList [PStr ''c1'']) \<noteq> json_text (PDict sample_payload)"
  by (simp_all add: json_text_def sample_payload_def json_string_def json_escape_char_def)

lemma store_loads:
  "json_loads store_lib (json_text (PList [PStr ''e1''])) = Inr (PList [PStr ''e1''])"
  "json_loads store_lib (json_text (PList [PStr ''c1''])) = Inr (PList [PStr ''c1''])"
  "json_loads store_lib (json_text (PDict sample_payload)) = Inr (PDict sample_payload)"
  using store_texts(4-6)
  by (simp_all add: json_loads_def store_tokens_def store_texts(1-3) del: json_dumps.simps) (simp_all add: sample_payload_def)

lemma dget_swap: "x \<noteq> y \<Longrightarrow> dget (p @ [(x, v), (y, w)]) k = dget (p @ [(y, w), (x, v)]) k"
  by (auto simp: dget_def map_add_def split: option.split)

lemma store_row_read: "read_action store_lib store_row = Inr sample_built"
proof -
  let ?pre = "butlast (butlast (action_to_dict sample_built True))"
  define d where "d = ?pre @ [(''summary'', PStr ''Submit''), (''correlation_id'', PStr (pa_correlation_id sample_built))]"
  have d: "action_dict store_lib store_row = Inr d"
    by (simp add: action_dict_def store_row_def store_loads d_def action_to_dict_def sample_built_def)
  have "action_to_dict sample_built True = ?pre @ [(''correlation_id'', PStr (pa_correlation_id sample_built)), (''summary'', PStr ''Submit'')]"
    by (simp add: action_to_dict_def sample_built_def)
  then have full: "dget d k = dget (action_to_dict sample_built True) k" for k
    unfolding d_def using dget_swap [of "''summary''" "''correlation_id''" ?pre] by simp
  have "action_raw sample_lib (PDict d) = Inr d"
    by (simp add: d_def action_to_dict_def action_raw_def reparse ACTION_FIELDS_def ACTION_REQUIRED_def)
  then have "build_proposed_action sample_lib (PDict d) = build_proposed_action sample_lib (PDict (action_to_dict sample_built True))"
    by (rule build_reordered [OF _ action_raw_dict full])
  moreover have "payload_complete (pa_action_type sample_built) (pa_payload sample_built)" "pa_summary sample_built \<noteq> []"
    by (simp_all add: payload_complete_def sample_built_def sample_payload_def currency_fits_def)
  ultimately show ?thesis
    using build_again [OF sample_build sample_lib_ok, of True] d by (simp add: read_action_def build_json_free)
qed

definition buyer_run :: agent_run where
  "buyer_run = \<lparr>ar_name = pa_run_id sample_built, ar_initiator = ''buyer'', ar_goal = ''g'', ar_purpose = ''ANALYSIS'', ar_execution_mode = ''AGENT'',
     ar_time_window_days = 90, ar_company_scope = ''Acme'', ar_warehouse_scope = None, ar_p2p_goal = no_p2p_goal,
     ar_capability_digest = [], ar_capability_audience = [], ar_issued_at = 0, ar_expires_at = 1,
     ar_workflow_expires_at = None, ar_revoked = False, ar_status = ''ACTIVE'', ar_run_state = ''PROPOSED'', ar_state_version = 1,
     ar_correlation_id = [], ar_revoked_at = None, ar_revoked_by = None, ar_revocation_correlation_id = None\<rparr>"

definition store_policy :: PolicyDecision where
  "store_policy = \<lparr>pd_decision_id = pa_action_id sample_built, pd_action_id = pa_action_id sample_built,
     pd_proposal_digest = replicate 64 (CHR ''0''), pd_actor = ''buyer'', pd_checks = map (\<lambda>k. (k, PStr ''PASS'')) CHECKS,
     pd_matched_rule = ''s1'', pd_rule_version = ''v'', pd_outcome = PStr ''ALLOW'', pd_reason = ''Submit'', pd_snapshot_ref = ''s1'',
     pd_expires_at = ''2026-01-01T00:00:00Z'', pd_decided_at = ''2026-01-01T00:00:00Z'', pd_correlation_id = pa_correlation_id sample_built\<rparr>"

definition store_approval :: ApprovalDecision where
  "store_approval = \<lparr>ad_decision_id = pa_action_id sample_built, ad_action_id = pa_action_id sample_built,
     ad_proposal_digest = replicate 64 (CHR ''0''), ad_actor = ''buyer'', ad_decision = PStr ''ALLOW'', ad_matched_rule = ''s1'',
     ad_snapshot_ref = ''s1'', ad_expires_at = ''2026-01-01T00:00:00Z'', ad_reason = ''Submit'', ad_decided_at = ''2026-01-01T00:00:00Z'',
     ad_correlation_id = pa_correlation_id sample_built\<rparr>"

lemma sample_built_columns [simp]:
  "pa_initiator sample_built = ''buyer''" "pa_idempotency_key sample_built = ''key-0001''" "pa_proposal_digest sample_built = replicate 64 (CHR ''0'')"
  by (simp_all add: sample_built_def)

lemma store_row_columns [simp]:
  "sa_action_id store_row = pa_action_id sample_built" "sa_initiator store_row = ''buyer''" "sa_proposal_digest store_row = replicate 64 (CHR ''0'')"
  "sa_state store_row = ''DRAFT''" "sa_state_version store_row = 1"
  by (simp_all add: store_row_def)

lemma store_action_values:
  "action_values store_env sample_built s = (Inr store_row, s\<lparr>gv_ticks := Suc (gv_ticks s)\<rparr>)"
  using store_texts(1-3)
  by (simp add: action_values_def g_bind_def g_lift_def g_return_def store_now del: json_dumps.simps)
    (simp add: sample_built_def g_bind_def g_lift_def g_return_def store_now store_row_def del: json_dumps.simps)

lemma store_proposes:
  assumes "map_of (gv_runs s) (pa_run_id sample_built) = Some buyer_run" and "gv_actions s = []"
  shows "snd (persist_proposed_action store_env (Typed sample_built) s) = s\<lparr>gv_actions := [store_row], gv_ticks := Suc (gv_ticks s)\<rparr>"
  using assms
  by (simp add: persist_proposed_action_def contract_of_def g_bind_lift g_bind_reject)
    (simp add: g_bind_def find_gov_run_def key_taken_def g_reject_def g_return_def g_lift_def buyer_run_def store_action_values
      insert_action_def validate_action_row_def store_row_read)

lemma store_load:
  "gv_actions s = [store_row] \<Longrightarrow> load_action store_env (pa_action_id sample_built) s = (Inr sample_built, s)"
  by (simp add: load_action_def g_bind_def find_action_def store_row_read g_return_def)

lemma store_bind_load:
  "gv_actions s = [store_row] \<Longrightarrow> g_bind (load_action store_env (pa_action_id sample_built)) f s = f sample_built s"
  by (simp add: g_bind_def store_load)

lemma store_bind_now: "g_bind (gov_now store_env) f s = f ''now'' (s\<lparr>gv_ticks := Suc (gv_ticks s)\<rparr>)"
  by (simp add: g_bind_def store_now)

definition store_policy_row :: policy_row where
  "store_policy_row =
     \<lparr>spd_decision_id = pa_action_id sample_built, spd_action = pa_action_id sample_built, spd_proposal_digest = replicate 64 (CHR ''0''),
      spd_actor = ''buyer'', spd_identity_outcome = PStr ''PASS'', spd_scope_outcome = PStr ''PASS'', spd_permission_outcome = PStr ''PASS'',
      spd_deterministic_outcome = PStr ''PASS'', spd_workflow_policy_outcome = PStr ''PASS'', spd_matched_rule = ''s1'', spd_rule_version = ''v'',
      spd_outcome = PStr ''ALLOW'', spd_reason = ''Submit'', spd_snapshot_ref = ''s1'', spd_expires_at = ''2026-01-01T00:00:00Z'',
      spd_decided_at = ''2026-01-01T00:00:00Z'', spd_correlation_id = pa_correlation_id sample_built\<rparr>"

lemma store_policy_values: "policy_values store_policy = Inr store_policy_row"
  by (simp add: policy_values_def store_policy_def store_policy_row_def dict_at_def CHECKS_def)

lemma store_decisions_parse:
  "\<exists>d. parse_policy_decision sample_lib (PDict (policy_dict store_policy_row)) = Inr d"
  "\<exists>d. parse_approval_decision sample_lib (PDict (approval_dict (approval_values store_approval))) = Inr d"
proof -
  have v: "good_text 64 ''v''" by code_simp
  show "\<exists>d. parse_policy_decision sample_lib (PDict (policy_dict store_policy_row)) = Inr d"
    by (simp add: parse_policy_decision_def policy_dict_def store_policy_row_def reparse POLICY_FIELDS_def CHECKS_def sample_texts sample_uuid v
        sample_digest_shape sample_timestamp sort_CHECKS [unfolded CHECKS_def] CHECK_VALUES_def sample_built_def)
  show "\<exists>d. parse_approval_decision sample_lib (PDict (approval_dict (approval_values store_approval))) = Inr d"
    by (simp add: parse_approval_decision_def approval_dict_def approval_values_def store_approval_def reparse APPROVAL_FIELDS_def sample_texts
        sample_uuid sample_digest_shape sample_timestamp sample_built_def)
qed

lemma store_allows:
  assumes "gv_actions s = [store_row]" and "gv_policies s = []"
  shows "snd (persist_policy_decision store_env (Typed store_policy) s) = s\<lparr>gv_policies := [store_policy_row]\<rparr>"
proof -
  have [simp]: "pd_actor store_policy = ''buyer''" "pd_action_id store_policy = pa_action_id sample_built"
    "pd_proposal_digest store_policy = replicate 64 (CHR ''0'')" by (simp_all add: store_policy_def)
  obtain d where d: "parse_policy_decision sample_lib (PDict (policy_dict store_policy_row)) = Inr d" using store_decisions_parse by blast
  have "g_keeps (=) (serialize_policy_decision store_env store_policy_row)" by (rule store_reads)
  then show ?thesis using assms
    by (simp add: persist_policy_decision_def contract_of_def g_bind_lift g_bind_reject store_bind_load [OF assms(1)]
        store_policy_values, simp add: g_bind_def insert_policy_def validate_policy_row_def parse_json_free d g_keeps_def)
qed

lemma store_approves:
  assumes "gv_actions s = [store_row]" and "gv_approvals s = []"
  shows "snd (persist_approval_decision store_env (Typed store_approval) s) = s\<lparr>gv_approvals := [approval_values store_approval]\<rparr>"
proof -
  have [simp]: "ad_actor store_approval = ''buyer''" "ad_action_id store_approval = pa_action_id sample_built"
    "ad_proposal_digest store_approval = replicate 64 (CHR ''0'')" by (simp_all add: store_approval_def)
  obtain d where d: "parse_approval_decision sample_lib (PDict (approval_dict (approval_values store_approval))) = Inr d"
    using store_decisions_parse by blast
  have "g_keeps (=) (serialize_approval_decision store_env (approval_values store_approval))" by (rule store_reads)
  then show ?thesis using assms
    by (simp add: persist_approval_decision_def contract_of_def g_bind_lift g_bind_reject store_bind_load [OF assms(1)],
        simp add: g_bind_def insert_approval_def validate_approval_row_def parse_json_free d g_keeps_def)
qed

text \<open>A transition of the row, once its checks have passed.\<close>

definition moved :: "string \<Rightarrow> int \<Rightarrow> action_row" where
  "moved st v = store_row\<lparr>sa_state := st, sa_state_version := v, sa_state_reason := ''ok'', sa_state_changed_at := ''now'', sa_state_changed_by := ''buyer''\<rparr>"

lemma moved_read: "read_action store_lib (moved st v) = Inr sample_built"
proof -
  have "read_action store_lib (moved st v) = read_action store_lib store_row" by (simp add: read_action_def action_dict_def moved_def)
  then show ?thesis using store_row_read by simp
qed

lemma store_moves:
  assumes row: "gv_actions s = [row]" "row = store_row \<or> row = moved st v"
    and ok: "t \<in> {''APPROVED'', ''DECLINED''} \<Longrightarrow> approval_proof store_env row ''buyer'' t d s = (Inr (), s)"
    and tr: "transition_state (sa_state row) t (PInt (sa_state_version row)) e = Inr (t, k)"
  shows "snd (transition_action_state store_env (pa_action_id sample_built) t e ''ok'' d s) = s\<lparr>gv_actions := [moved t k], gv_ticks := Suc (gv_ticks s)\<rparr>"
proof -
  have id: "sa_action_id row = pa_action_id sample_built" "sa_initiator row = ''buyer''" "sa_proposal_digest row = replicate 64 (CHR ''0'')"
    and rd: "row\<lparr>sa_state := t, sa_state_version := k, sa_state_reason := ''ok'', sa_state_changed_at := ''now'', sa_state_changed_by := ''buyer''\<rparr> = moved t k"
    using row(2) by (auto simp: moved_def)
  have ne: "\<not> same_state_columns row (moved t k)" using tr
    by (auto simp: same_state_columns_def moved_def transition_state_ok)
  have "same_reviewed_columns row (moved t k)" using row(2) by (auto simp: same_reviewed_columns_def moved_def)
  then have v: "validate_action_row store_env (Some row) True (moved t k) = Inr ()"
    using ne by (simp add: validate_action_row_def moved_read) (simp add: moved_def)
  have check: "g_bind (if t \<in> {''APPROVED'', ''DECLINED''} then approval_proof store_env row ''buyer'' t d
      else if ''buyer'' \<noteq> sa_initiator row \<and> \<not> is_manager store_env ''buyer'' then bound_execution store_env row ''buyer'' t d else g_return ()) f s
    = f () s" for f using ok id(2) by (auto simp: g_return_def g_bind_def)
  have found: "g_bind (find_action (pa_action_id sample_built)) f s = f (Some row) s" for f using row(1) id(1) by (simp add: find_action_def g_bind_def)
  show ?thesis
    unfolding transition_action_state_def g_bind_lift store_env_fields sum.case found option.case check tr prod.case
    by (simp add: g_bind_reject store_bind_now rd Let_def) (simp add: save_action_def g_bind_def v row(1) replace_row_def id(1) g_lift_def)
qed

definition store_receipt :: ExecutionReceipt where
  "store_receipt = \<lparr>er_receipt_id = pa_action_id sample_built, er_action_id = pa_action_id sample_built, er_run_id = pa_run_id sample_built,
     er_idempotency_key = ''key-0001'', er_initiator = ''buyer'', er_approver = None, er_executor = ''buyer'',
     er_proposal_digest = replicate 64 (CHR ''0''), er_target_doctype = PNone, er_target_name = None, er_verified_fields = [],
     er_response_category = PStr ''TIMEOUT'', er_failure_category = None, er_final_state = PStr ''RECONCILIATION_REQUIRED'',
     er_started_at = ''2026-01-01T00:00:00Z'', er_completed_at = None, er_correlation_id = pa_correlation_id sample_built,
     er_reconciliation_evidence = None\<rparr>"

definition store_receipt_row :: receipt_row where
  "store_receipt_row = \<lparr>sr_receipt_id = pa_action_id sample_built, sr_action = pa_action_id sample_built, sr_run = pa_run_id sample_built,
     sr_idempotency_key = ''key-0001'', sr_initiator = ''buyer'', sr_approver = None, sr_executor = ''buyer'',
     sr_proposal_digest = replicate 64 (CHR ''0''), sr_target_doctype = PNone, sr_target_name = None, sr_verified_fields_json = ''{}'',
     sr_response_category = PStr ''TIMEOUT'', sr_failure_category = None, sr_final_state = PStr ''RECONCILIATION_REQUIRED'',
     sr_started_at = ''2026-01-01T00:00:00Z'', sr_completed_at = None, sr_correlation_id = pa_correlation_id sample_built,
     sr_reconciliation_evidence_json = ''{}''\<rparr>"

lemma store_receipt_valid: "validate_receipt_row store_env None False False store_receipt_row = Inr ()"
proof -
  have "store_tokens ''{}'' = Some (PDict [])"
    using store_texts(1-3) by (auto simp: store_tokens_def sample_payload_def json_string_def)
  then have "json_loads store_lib ''{}'' = Inr (PDict [])" by (simp add: json_loads_def)
  then obtain d where d: "receipt_dict store_lib store_receipt_row = Inr d" by (simp add: receipt_dict_def store_receipt_row_def)
  have "\<exists>r. create_execution_receipt sample_lib (PDict d) = Inr r \<and> er_final_state r = PStr ''RECONCILIATION_REQUIRED''"
    using d \<open>json_loads store_lib ''{}'' = Inr (PDict [])\<close>
    by (auto simp: receipt_dict_def store_receipt_row_def create_execution_receipt_def receipt_outcome_def or_none_def or_none_val_def reparse
        RECEIPT_FIELDS_def RECEIPT_REQUIRED_def RECEIPT_STATES_def RESPONSE_CATEGORIES_def optional_value_def safe_fields_def SUCCESS_STATES_def
        sample_texts sample_uuid sample_digest_shape sample_timestamp sample_built_def)
  then show ?thesis using d by (auto simp: validate_receipt_row_def parse_json_free SUCCESS_STATES_def)
qed

lemma store_receives:
  assumes "gv_actions s = [store_row]" and "gv_receipts s = []"
  shows "snd (persist_execution_receipt store_env (Typed store_receipt) False s) = s\<lparr>gv_receipts := [store_receipt_row]\<rparr>"
proof -
  have [simp]: "er_executor store_receipt = ''buyer''" "er_final_state store_receipt = PStr ''RECONCILIATION_REQUIRED''"
    "er_action_id store_receipt = pa_action_id sample_built" "\<not> receipt_conflicts sample_built store_receipt"
    "receipt_values store_receipt = Inr store_receipt_row"
    by (simp_all add: store_receipt_def receipt_conflicts_def receipt_values_def store_receipt_row_def)
  have "g_keeps (=) (serialize_receipt store_env store_receipt_row (Some ''buyer''))" by (rule store_reads)
  then show ?thesis using assms
    by (simp add: persist_execution_receipt_def contract_of_def g_bind_lift g_bind_reject store_bind_load [OF assms(1)] SUCCESS_STATES_def,
        simp add: g_bind_def insert_receipt_def store_receipt_valid g_keeps_def)
qed

text \<open>The history: a run, the action, the decisions of the buyer, and the receipt; then the action is approved.\<close>

definition store_before :: gov_site where
  "store_before = \<lparr>gv_runs = [(pa_run_id sample_built, buyer_run)], gv_actions = [store_row], gv_policies = [store_policy_row],
     gv_approvals = [approval_values store_approval], gv_receipts = [store_receipt_row], gv_ticks = 1\<rparr>"

lemma store_step: "gov_history store_lib {} s \<Longrightarrow> gov_history store_lib {} (gov_run store_env oper s)"
  by (rule gov_history.step) simp_all

lemma store_before_reached: "gov_history store_lib {} store_before"
proof -
  let ?ops = "[ChangeRuns [(pa_run_id sample_built, buyer_run)], PersistAction (Typed sample_built), PersistPolicy (Typed store_policy),
    PersistApproval (Typed store_approval), PersistReceipt (Typed store_receipt) False]"
  have "fold (gov_run store_env) ?ops empty_store = store_before"
    by (simp add: gov_run_def empty_store_def store_proposes store_allows store_approves store_receives store_before_def)
  moreover have "gov_history store_lib {} (fold (gov_run store_env) ops s)" if "gov_history store_lib {} s" for ops s
    using that by (induction ops arbitrary: s) (simp_all add: store_step)
  ultimately show ?thesis using gov_history.start by metis
qed

theorem receipt_unique_for_action_witness:
  "gov_history store_lib {} store_before \<and> (\<exists>row \<in> set (gv_actions store_before). receipt_of store_lib row store_receipt_row)"
proof -
  have "store_receipt_row \<in> set (gv_receipts store_before)" by (simp add: store_before_def)
  from receipt_unique_for_action [OF store_before_reached this] show ?thesis using store_before_reached by blast
qed

lemma store_proof: "approval_proof store_env row ''buyer'' ''APPROVED'' (Some (replicate 64 (CHR ''0''))) s = (Inr (), s)"
  if "gv_policies s = [store_policy_row]" "gv_approvals s = [approval_values store_approval]" "row = moved st v"
  using that
  by (simp add: approval_proof_def g_bind_reject or_empty_def moved_def)
    (simp add: g_bind_def policy_exists_def approval_exists_def store_policy_row_def approval_values_def store_approval_def g_reject_def g_return_def)

definition store_after :: gov_site where
  "store_after = store_before\<lparr>gv_actions := [moved ''APPROVED'' 3], gv_ticks := 3\<rparr>"

lemma store_after_reached: "gov_history store_lib {} store_after"
proof -
  let ?i = "pa_action_id sample_built" and ?d = "Some (replicate 64 (CHR ''0''))"
  let ?s = "store_before\<lparr>gv_actions := [moved ''AWAITING_APPROVAL'' 2], gv_ticks := 2\<rparr>"
  have t1: "snd (transition_action_state store_env ?i ''AWAITING_APPROVAL'' (PInt 1) ''ok'' None store_before) = ?s"
    using store_moves [of store_before store_row "''DRAFT''" 1 "''AWAITING_APPROVAL''" None "PInt 1" 2]
    by (simp add: store_before_def transition_state_ok action_succs_cases)
  have t2: "snd (transition_action_state store_env ?i ''APPROVED'' (PInt 2) ''ok'' ?d ?s) = store_after"
  proof -
    have pr: "approval_proof store_env (moved ''AWAITING_APPROVAL'' 2) ''buyer'' ''APPROVED'' ?d ?s = (Inr (), ?s)"
      by (rule store_proof) (simp_all add: store_before_def)
    have tr: "transition_state ''AWAITING_APPROVAL'' ''APPROVED'' (PInt 2) (PInt 2) = Inr (''APPROVED'', 3)"
      by (simp add: transition_state_ok action_succs_cases)
    have "sa_state (moved ''AWAITING_APPROVAL'' 2) = ''AWAITING_APPROVAL''" "sa_state_version (moved ''AWAITING_APPROVAL'' 2) = 2"
      by (simp_all add: moved_def)
    then have "snd (transition_action_state store_env ?i ''APPROVED'' (PInt 2) ''ok'' ?d ?s) =
        ?s\<lparr>gv_actions := [moved ''APPROVED'' 3], gv_ticks := Suc (gv_ticks ?s)\<rparr>"
      using store_moves [of ?s, OF _ disjI2 [OF refl] pr] tr by simp
    then show ?thesis by (simp add: store_after_def)
  qed
  have "gov_run store_env (TransitionAction ?i ''APPROVED'' (PInt 2) ''ok'' ?d)
    (gov_run store_env (TransitionAction ?i ''AWAITING_APPROVAL'' (PInt 1) ''ok'' None) store_before) = store_after"
    by (simp add: gov_run_def t1 t2)
  then show ?thesis using store_step [OF store_step [OF store_before_reached]] by metis
qed


text \<open>
  The same history shows that the primitive does not keep approver and initiator apart: the action asks for an independent approver,
  and the only approval is the initiator's, who is no manager.  The check for it stands in a branch that is taken only when the actor is not the initiator.
\<close>

lemma self_approval_reachable:
  "\<exists>s row d. gov_history store_lib {} s \<and> row \<in> set (gv_actions s) \<and> sa_state row = ''APPROVED'' \<and>
     sa_approval_class row = ''INDEPENDENT_APPROVER'' \<and> gv_approvals s = [d] \<and> sd_actor d = sa_initiator row"
  by (intro exI [of _ store_after] exI [of _ "moved ''APPROVED'' 3"] exI [of _ "approval_values store_approval"])
    (simp add: store_after_reached, simp add: store_after_def store_before_def moved_def store_row_def approval_values_def store_approval_def)

end
