(* ===== verification/Governance_Policy_Sample.thy ===== *)
theory Governance_Policy_Sample
  imports Governance_Policy_Invariants Governance_Store_Properties
begin

text \<open>
  A purchase order from proposal to the writer's proof, on the small store of \<open>Governance_Store_Properties\<close>: the buyer proposes, the boss
  approves and asks for the proof.  Every query answers as it does for users with access.
\<close>

section \<open>Users\<close>

definition user_env :: "string \<Rightarrow> policy_env" where
  "user_env u = \<lparr>pe_gov = store_env\<lparr>gv_env := (gv_env store_env)\<lparr>ge_user := u\<rparr>\<rparr>, pe_user_enabled = (\<lambda>_. Inr True),
     pe_list = (\<lambda>_ _ _ _. Inr [''x'']), pe_has_permission = (\<lambda>_ _ _. Inr True), pe_active_workflows = (\<lambda>_. Inr []), pe_datetime = (\<lambda>_. Some 10),
     pe_timestamp = ''2026-01-01T00:00:00Z'', pe_decision_id = pa_action_id sample_built,
     pe_deterministic = (\<lambda>_ _. Inr \<lparr>gr_status = ''PASS'', gr_reason = ''document unchanged''\<rparr>), pe_sync_plan_steps = (\<lambda>_. Inr ())\<rparr>"

abbreviation user_gov :: "string \<Rightarrow> gov_env" where "user_gov u \<equiv> pe_gov (user_env u)"

lemma user_env_fields [simp]:
  "gov_lib (user_gov u) = store_lib" "gv_accepts (user_gov u) dt n" "gv_unchanged (user_gov u)" "\<not> is_manager (user_gov u) v"
  "pe_list (user_env u) dt fs pa v = Inr [''x'']" "pe_has_permission (user_env u) dt p v = Inr True" "pe_active_workflows (user_env u) dt = Inr []"
  "pe_datetime (user_env u) t = Some 10" "pe_timestamp (user_env u) = ''2026-01-01T00:00:00Z''" "pe_decision_id (user_env u) = pa_action_id sample_built"
  "pe_sync_plan_steps (user_env u) r = Inr ()" "pe_user_enabled (user_env u) v = Inr True"
  "pe_deterministic (user_env u) action v = Inr \<lparr>gr_status = ''PASS'', gr_reason = ''document unchanged''\<rparr>"
  by (simp_all add: user_env_def store_env_def gov_lib_def is_manager_def)

lemma user_actor [simp]: "u \<in> {''buyer'', ''boss''} \<Longrightarrow> authenticated_actor (user_gov u) = Inr u"
  by (auto simp: user_env_def store_env_def authenticated_actor_def)

lemma buyer_gov: "user_gov ''buyer'' = store_env"
  by (simp add: user_env_def store_env_def)

lemma user_now:
  "policy_now (user_env u) s = (Inr 0, s\<lparr>gv_ticks := Suc (gv_ticks s)\<rparr>)" "gov_now (user_gov u) s = (Inr ''now'', s\<lparr>gv_ticks := Suc (gv_ticks s)\<rparr>)"
  by (simp_all add: policy_now_def gov_now_def user_env_def store_env_def)

lemma bindI: "m s = (Inr x, s') \<Longrightarrow> g_bind m f s = f x s'"
  by (simp add: g_bind_def)

section \<open>The gates\<close>

definition sample_gates :: "(string \<times> GateResult) list" where
  "sample_gates =
     [(''identity'', \<lparr>gr_status = ''PASS'', gr_reason = ''server session and Run identity match''\<rparr>),
      (''scope'', \<lparr>gr_status = ''PASS'', gr_reason = ''source document company and scope match current permissions''\<rparr>),
      (''permission'', \<lparr>gr_status = ''PASS'', gr_reason = ''current ERP permissions are sufficient''\<rparr>),
      (''deterministic'', \<lparr>gr_status = ''PASS'', gr_reason = ''document unchanged''\<rparr>),
      (''workflow_policy'', \<lparr>gr_status = ''PASS'', gr_reason = ''fixed development mapping permits explicit confirmation''\<rparr>)]"

lemma sample_identity:
  assumes "ap = None \<and> actor = ''buyer'' \<or> ap = Some actor \<and> actor \<noteq> ''Guest''"
  shows "run_identity (user_env u) sample_built buyer_run actor ap s =
    (Inr \<lparr>gr_status = ''PASS'', gr_reason = ''server session and Run identity match''\<rparr>, s\<lparr>gv_ticks := Suc (gv_ticks s)\<rparr>)"
  using assms by (auto simp: run_identity_def buyer_run_def bindI [OF user_now(1)] gate_def make_gate_def GATE_STATUSES_def g_lift_def)

lemma sample_columns [simp]:
  "pa_action_type sample_built = ''SUBMIT_PO''" "pa_payload sample_built = sample_payload" "pa_approval_class sample_built = ''INDEPENDENT_APPROVER''"
  "pa_snapshot_ref sample_built = ''s1''" "pa_expires_at sample_built = ''2026-01-01T00:00:00Z''" "pa_run_id sample_built \<noteq> []" "ar_name buyer_run = pa_run_id sample_built"
  by (simp_all add: sample_built_def buyer_run_def)

lemma submit_po [simp]: "''SUBMIT_PO'' \<in> set P2P_ACTION_TYPES" "''SUBMIT_PO'' \<in> set ENABLED_P2P_ACTION_TYPES"
  "write_permission ''SUBMIT_PO'' = ''submit''" "safe_target sample_built = Inr ''Purchase Order''"
  by (simp_all add: P2P_ACTION_TYPES_def ACTION_TYPES_def ENABLED_P2P_ACTION_TYPES_def write_permission_def starts_with_def safe_target_def TARGET_DOCTYPES_def)

lemma sample_scope:
  "scope_identity (user_env u) sample_built buyer_run actor s =
    (Inr \<lparr>gr_status = ''PASS'', gr_reason = ''source document company and scope match current permissions''\<rparr>, s)"
  by (simp add: scope_identity_def sample_payload_def payload_warehouses_def g_bind_def g_lift_def source_scope_def visible_or_def text_or_empty_def buyer_run_def
      dget_def gate_def make_gate_def GATE_STATUSES_def py_or_def truthy_def Let_def)

lemma sample_permitted: "all_permitted (user_env u) actor ps = Inr True"
  by (induction ps) auto

lemma sample_permission:
  "permission_gate (user_env u) sample_built actor s = (Inr \<lparr>gr_status = ''PASS'', gr_reason = ''current ERP permissions are sufficient''\<rparr>, s)"
  by (simp add: permission_gate_def g_bind_def g_lift_def sample_permitted gate_def make_gate_def GATE_STATUSES_def)

lemma sample_workflow:
  "workflow_policy (user_env u) sample_built s =
    (Inr \<lparr>gr_status = ''PASS'', gr_reason = ''fixed development mapping permits explicit confirmation''\<rparr>, s)"
  by (simp add: workflow_policy_def g_bind_def g_lift_def gate_def make_gate_def GATE_STATUSES_def)

lemma sample_checks:
  assumes "ap = None \<and> actor = ''buyer'' \<or> ap = Some actor \<and> actor \<noteq> ''Guest''"
  shows "gate_checks (user_env u) sample_built buyer_run actor ap s = (Inr sample_gates, s\<lparr>gv_ticks := Suc (gv_ticks s)\<rparr>)"
  by (simp add: gate_checks_def evaluate_gate_sequence_def GATE_ORDER_def g_bind_def g_try_def sample_identity [OF assms] sample_scope sample_permission
      sample_workflow g_lift_def g_return_def sample_gates_def)

lemma sample_expiry: "expiry_passes (user_env u) t s = (Inr True, s\<lparr>gv_ticks := Suc (gv_ticks s)\<rparr>)"
  by (simp add: expiry_passes_def g_bind_def user_now g_return_def)

lemma sample_passed: "first_failed sample_gates GATE_ORDER = None" "\<not> list_ex (\<lambda>(n, r). gr_status r \<noteq> ''PASS'') sample_gates"
  "rmap (status_at sample_gates) GATE_ORDER = Inr (replicate 5 ''PASS'')" "policy_reason sample_gates False = ''all policy gates passed''"
  by (simp_all add: sample_gates_def GATE_ORDER_def status_at_def policy_reason_def numeral_eq_Suc)

lemma loaded_run: "map_of (gv_runs s) (pa_run_id sample_built) = Some buyer_run \<Longrightarrow> load_run (pa_run_id sample_built) s = (Inr buyer_run, s)"
  by (simp add: load_run_def g_bind_def find_gov_run_def g_return_def)

section \<open>The row and its moves\<close>

definition state_row :: "string \<Rightarrow> int \<Rightarrow> string \<Rightarrow> string \<Rightarrow> action_row" where
  "state_row st v r u = store_row\<lparr>sa_state := st, sa_state_version := v, sa_state_reason := r, sa_state_changed_by := u\<rparr>"

lemma state_row_read [simp]: "read_action store_lib (state_row st v r u) = Inr sample_built"
proof -
  have "read_action store_lib (state_row st v r u) = read_action store_lib store_row" by (simp add: read_action_def action_dict_def state_row_def)
  then show ?thesis using store_row_read by simp
qed

lemma state_row_columns [simp]:
  "sa_action_id (state_row st v r u) = pa_action_id sample_built" "sa_initiator (state_row st v r u) = ''buyer''"
  "sa_proposal_digest (state_row st v r u) = replicate 64 (CHR ''0'')" "sa_state (state_row st v r u) = st" "sa_state_version (state_row st v r u) = v"
  "sa_run (state_row st v r u) = pa_run_id sample_built" "sa_approval_class (state_row st v r u) = ''INDEPENDENT_APPROVER''"
  by (simp_all add: state_row_def store_row_def)

lemma first_row: "store_row = state_row ''DRAFT'' 1 ''created'' ''buyer''"
  by (simp add: state_row_def store_row_def)

lemma state_row_serialized: "u \<in> {''buyer'', ''boss''} \<Longrightarrow> \<exists>x. serialize_action (user_gov u) (state_row st v r w) (Some u) = Inr x"
  by (auto simp: serialize_action_def read_authorized_def action_calculation_def CALCULATED_ACTIONS_def)

lemma user_moves:
  assumes u: "u \<in> {''buyer'', ''boss''}" and row: "gv_actions s = [state_row st v r w]"
    and check: "(if t \<in> {''APPROVED'', ''DECLINED''} then approval_proof (user_gov u) (state_row st v r w) u t d
      else if u \<noteq> ''buyer'' then bound_execution (user_gov u) (state_row st v r w) u t d else g_return ()) s = (Inr (), s)"
    and tr: "transition_state st t (PInt v) (PInt v) = Inr (t, v + 1)" and reason: "r' \<noteq> []" "length r' \<le> 2000"
  shows "\<exists>x. transition_action_state (user_gov u) (pa_action_id sample_built) t (PInt v) r' d s =
    (Inr x, s\<lparr>gv_actions := [state_row t (v + 1) r' u], gv_ticks := Suc (gv_ticks s)\<rparr>)"
proof -
  let ?row = "state_row st v r w" and ?doc = "state_row t (v + 1) r' u"
  have doc: "?row\<lparr>sa_state := t, sa_state_version := v + 1, sa_state_reason := r', sa_state_changed_at := ''now'', sa_state_changed_by := u\<rparr> = ?doc"
    by (simp add: state_row_def store_row_def)
  have "same_reviewed_columns ?row ?doc" "\<not> same_state_columns ?row ?doc"
    by (simp_all add: same_reviewed_columns_def same_state_columns_def state_row_def)
  then have v: "validate_action_row (user_gov u) (Some ?row) True ?doc = Inr ()" by (simp add: validate_action_row_def)
  obtain x where x: "serialize_action (user_gov u) ?doc (Some u) = Inr x" using state_row_serialized [OF u] by blast
  have found: "g_bind (find_action (pa_action_id sample_built)) f s = f (Some ?row) s" for f using row by (simp add: find_action_def g_bind_def)
  have saved: "save_action (user_gov u) ?row ?doc s' = (Inr (), s'\<lparr>gv_actions := [?doc]\<rparr>)" if "gv_actions s' = [?row]" for s'
    using that by (simp add: save_action_def v replace_row_def)
  have checked: "g_bind (if t \<in> {''APPROVED'', ''DECLINED''} then approval_proof (user_gov u) ?row u t d
      else if u \<noteq> sa_initiator ?row \<and> \<not> is_manager (user_gov u) u then bound_execution (user_gov u) ?row u t d else g_return ()) f s = f () s" for f
    by (rule bindI) (use check in \<open>auto simp: g_return_def split: if_splits\<close>)
  show ?thesis
    unfolding transition_action_state_def g_bind_lift user_actor [OF u] sum.case found option.case checked
    using reason saved [of "s\<lparr>gv_ticks := Suc (gv_ticks s)\<rparr>"] row
    by (simp add: g_bind_lift tr g_bind_reject bindI [OF user_now(2)] doc Let_def) (simp add: g_bind_def g_lift_def x)
qed

section \<open>The proposal\<close>

definition proposed_policy :: PolicyDecision where
  "proposed_policy = policy_decision (user_env ''buyer'') sample_built ''buyer'' (replicate 5 ''PASS'') ''ALLOW'' ''all policy gates passed''"

definition proposed_policy_row :: policy_row where
  "proposed_policy_row = store_policy_row\<lparr>spd_matched_rule := RULE_ID, spd_rule_version := RULE_VERSION, spd_reason := ''all policy gates passed''\<rparr>"

lemma proposed_policy_values: "policy_values proposed_policy = Inr proposed_policy_row"
  by (simp add: policy_values_def proposed_policy_def policy_decision_def proposed_policy_row_def store_policy_row_def dict_at_def CHECKS_def GATE_ORDER_def
      numeral_eq_Suc)

lemma rule_texts: "good_text 256 RULE_ID" "good_text 64 RULE_VERSION" "good_text 2000 ''all policy gates passed''" "good_text 140 ''boss''"
  by (simp_all add: RULE_ID_def RULE_VERSION_def) (code_simp+)

lemma proposed_policy_parses: "\<exists>d. parse_policy_decision sample_lib (PDict (policy_dict proposed_policy_row)) = Inr d"
  by (simp add: parse_policy_decision_def policy_dict_def proposed_policy_row_def store_policy_row_def reparse POLICY_FIELDS_def CHECKS_def sample_texts sample_uuid
      rule_texts sample_digest_shape sample_timestamp sort_CHECKS [unfolded CHECKS_def] CHECK_VALUES_def sample_built_def)

lemma sample_allows:
  assumes "gv_actions s = [store_row]" and "gv_policies s = []"
  shows "\<exists>x. persist_policy_decision store_env (Typed proposed_policy) s = (Inr x, s\<lparr>gv_policies := [proposed_policy_row]\<rparr>)"
proof -
  have [simp]: "pd_actor proposed_policy = ''buyer''" "pd_action_id proposed_policy = pa_action_id sample_built"
    "pd_proposal_digest proposed_policy = replicate 64 (CHR ''0'')" by (simp_all add: proposed_policy_def policy_decision_def)
  obtain d where d: "parse_policy_decision sample_lib (PDict (policy_dict proposed_policy_row)) = Inr d" using proposed_policy_parses by blast
  have [simp]: "spd_action proposed_policy_row = pa_action_id sample_built" by (simp add: proposed_policy_row_def store_policy_row_def)
  show ?thesis using assms
    by (simp add: persist_policy_decision_def contract_of_def g_bind_lift g_bind_reject store_bind_load [OF assms(1)] proposed_policy_values)
      (simp add: g_bind_def insert_policy_def validate_policy_row_def parse_json_free d serialize_policy_decision_def read_action_owner_def find_action_def
        g_lift_def read_authorized_def g_return_def)
qed

lemma sample_proposes:
  assumes "map_of (gv_runs s) (pa_run_id sample_built) = Some buyer_run" and "gv_actions s = []"
  shows "\<exists>x. persist_proposed_action store_env (Typed sample_built) s = (Inr x, s\<lparr>gv_actions := [store_row], gv_ticks := Suc (gv_ticks s)\<rparr>)"
proof -
  obtain x where "serialize_action store_env store_row None = Inr x"
    by (simp add: serialize_action_def read_authorized_def action_calculation_def CALCULATED_ACTIONS_def store_row_read)
  then show ?thesis using assms
    by (simp add: persist_proposed_action_def contract_of_def g_bind_lift g_bind_reject)
      (simp add: g_bind_def find_gov_run_def key_taken_def g_reject_def g_return_def g_lift_def buyer_run_def store_action_values
        insert_action_def validate_action_row_def store_row_read)
qed

definition site_at :: "action_row list \<Rightarrow> policy_row list \<Rightarrow> approval_row list \<Rightarrow> nat \<Rightarrow> gov_site" where
  "site_at actions policies approvals k = \<lparr>gv_runs = [(pa_run_id sample_built, buyer_run)], gv_actions = actions, gv_policies = policies,
     gv_approvals = approvals, gv_receipts = [], gv_ticks = k\<rparr>"

lemma site_at_fields [simp]:
  "gv_runs (site_at a p d k) = [(pa_run_id sample_built, buyer_run)]" "gv_actions (site_at a p d k) = a" "gv_policies (site_at a p d k) = p"
  "gv_approvals (site_at a p d k) = d" "gv_receipts (site_at a p d k) = []" "gv_ticks (site_at a p d k) = k"
  "(site_at a p d k)\<lparr>gv_ticks := k'\<rparr> = site_at a p d k'" "(site_at a p d k)\<lparr>gv_actions := a'\<rparr> = site_at a' p d k"
  "(site_at a p d k)\<lparr>gv_policies := p'\<rparr> = site_at a p' d k" "(site_at a p d k)\<lparr>gv_approvals := d'\<rparr> = site_at a p d' k"
  by (simp_all add: site_at_def)

definition proposed_row :: action_row where
  "proposed_row = state_row ''AWAITING_APPROVAL'' 2 ''all policy gates passed'' ''buyer''"

lemma sample_evaluated:
  "snd (evaluate_proposal (user_env ''buyer'') (PDict sample_action) (site_at [] [] [] k)) = site_at [proposed_row] [proposed_policy_row] [] (k + 5)"
proof -
  have built: "build_proposed_action (wf_py (gov_lib (user_gov ''buyer''))) (PDict sample_action) = Inr sample_built"
    by (simp add: build_json_free sample_build)
  have id: "run_identity (user_env ''buyer'') sample_built buyer_run ''buyer'' None s =
    (Inr \<lparr>gr_status = ''PASS'', gr_reason = ''server session and Run identity match''\<rparr>, s\<lparr>gv_ticks := Suc (gv_ticks s)\<rparr>)" for s
    by (rule sample_identity) simp
  have checks: "gate_checks (user_env ''buyer'') sample_built buyer_run ''buyer'' None s = (Inr sample_gates, s\<lparr>gv_ticks := Suc (gv_ticks s)\<rparr>)" for s
    by (rule sample_checks) simp
  have run: "load_run (pa_run_id sample_built) (site_at [] [] [] k) = (Inr buyer_run, site_at [] [] [] k)" by (rule loaded_run) simp
  obtain x where x: "persist_proposed_action store_env (Typed sample_built) (site_at [] [] [] (Suc k)) = (Inr x, site_at [store_row] [] [] (Suc (Suc k)))"
    using sample_proposes [of "site_at [] [] [] (Suc k)"] by auto
  obtain y where y: "persist_policy_decision store_env (Typed proposed_policy) (site_at [store_row] [] [] (Suc (Suc (Suc (Suc k))))) = (Inr y, site_at [store_row] [proposed_policy_row] [] (Suc (Suc (Suc (Suc k)))))"
    using sample_allows [of "site_at [store_row] [] [] (Suc (Suc (Suc (Suc k))))"] by auto
  have tr: "transition_state ''DRAFT'' ''AWAITING_APPROVAL'' (PInt 1) (PInt 1) = Inr (''AWAITING_APPROVAL'', 1 + 1)"
    by (simp add: transition_state_ok action_succs_cases)
  obtain z where z: "transition_action_state store_env (pa_action_id sample_built) ''AWAITING_APPROVAL'' (PInt 1) ''all policy gates passed'' None
      (site_at [store_row] [proposed_policy_row] [] (Suc (Suc (Suc (Suc k))))) = (Inr z, site_at [proposed_row] [proposed_policy_row] [] (Suc (Suc (Suc (Suc (Suc k))))))"
    using user_moves [of "''buyer''" "site_at [store_row] [proposed_policy_row] [] (Suc (Suc (Suc (Suc k))))" "''DRAFT''" 1 "''created''" "''buyer''" "''AWAITING_APPROVAL''" None
      "''all policy gates passed''", OF _ _ _ tr]
    by (auto simp: first_row buyer_gov proposed_row_def g_return_def)
  have strict: "list_all (\<lambda>x. x = ''PASS'') (replicate 5 ''PASS'')" "stricter_outcome ''PASS'' ''PASS'' = Inr ''PASS''"
    by (simp_all add: stricter_outcome_def outcome_rank_def list_all_iff)
  have "policy_decision (user_env ''buyer'') sample_built ''buyer'' (replicate 5 ''PASS'') ''ALLOW'' ''all policy gates passed'' = proposed_policy"
    "pd_reason proposed_policy = ''all policy gates passed''" by (simp_all add: proposed_policy_def policy_decision_def)
  then show ?thesis
    unfolding evaluate_proposal_def g_bind_def built
    by (simp add: run id buyer_gov x checks sample_expiry sample_passed strict y z Let_def g_lift_def g_reject_def g_return_def sync_steps_def
        del: replicate.simps)
qed

section \<open>The approval\<close>

abbreviation sample_digest :: string where "sample_digest \<equiv> replicate 64 (CHR ''0'')"

definition given_approval :: ApprovalDecision where
  "given_approval = approval_decision (user_env ''boss'') sample_built ''boss'' ''ALLOW'' ''Submit'' (pa_action_id sample_built)"

definition approved_row :: action_row where
  "approved_row = state_row ''APPROVED'' 3 ''Submit'' ''boss''"

lemma given_approval_parses: "\<exists>d. parse_approval_decision sample_lib (PDict (approval_dict (approval_values given_approval))) = Inr d"
  by (simp add: parse_approval_decision_def approval_dict_def approval_values_def given_approval_def approval_decision_def reparse APPROVAL_FIELDS_def
      sample_texts rule_texts sample_uuid sample_digest_shape sample_timestamp sample_built_def)

lemma given_approval_columns [simp]:
  "sd_action (approval_values given_approval) = pa_action_id sample_built" "sd_proposal_digest (approval_values given_approval) = sample_digest"
  "sd_actor (approval_values given_approval) = ''boss''" "sd_decision (approval_values given_approval) = PStr ''ALLOW''"
  "sd_snapshot_ref (approval_values given_approval) = ''s1''" "ad_actor given_approval = ''boss''" "ad_action_id given_approval = pa_action_id sample_built"
  "ad_proposal_digest given_approval = sample_digest"
  by (simp_all add: approval_values_def given_approval_def approval_decision_def)

lemma proposed_policy_columns [simp]:
  "spd_action proposed_policy_row = pa_action_id sample_built" "spd_proposal_digest proposed_policy_row = sample_digest"
  "spd_outcome proposed_policy_row = PStr ''ALLOW''" "policy_stands sample_built (Some proposed_policy_row)"
  by (simp_all add: proposed_policy_row_def store_policy_row_def policy_stands_def)

lemma sample_loaded: "gv_actions s = [state_row st v r w] \<Longrightarrow> load_action (user_gov u) (pa_action_id sample_built) s = (Inr sample_built, s)"
  by (simp add: load_action_def g_bind_def find_action_def g_return_def)

lemma sample_approves:
  assumes "gv_actions s = [state_row st v r w]" and "gv_approvals s = []"
  shows "\<exists>x. persist_approval_decision (user_gov ''boss'') (Typed given_approval) s = (Inr x, s\<lparr>gv_approvals := [approval_values given_approval]\<rparr>)"
proof -
  obtain d where d: "parse_approval_decision sample_lib (PDict (approval_dict (approval_values given_approval))) = Inr d"
    using given_approval_parses by blast
  show ?thesis using assms
    by (simp add: persist_approval_decision_def contract_of_def g_bind_lift g_bind_reject)
      (simp add: g_bind_def sample_loaded g_reject_def insert_approval_def validate_approval_row_def parse_json_free d serialize_approval_decision_def
        read_action_owner_def find_action_def g_lift_def read_authorized_def g_return_def)
qed

lemma boss_proof:
  assumes "gv_actions s = [state_row st v r w]" and "gv_policies s = [proposed_policy_row]" and "gv_approvals s = [approval_values given_approval]"
  shows "approval_proof (user_gov ''boss'') (state_row st v r w) ''boss'' ''APPROVED'' (Some sample_digest) s = (Inr (), s)"
  using assms by (simp add: approval_proof_def g_bind_def or_empty_def g_reject_def g_return_def policy_exists_def approval_exists_def sample_loaded)

lemma sample_required:
  assumes "gv_policies s = [proposed_policy_row]"
  shows "require_policy (user_env u) sample_built m s = (Inr proposed_policy_row, s\<lparr>gv_ticks := Suc (gv_ticks s)\<rparr>)"
  using assms by (simp add: require_policy_def g_bind_def latest_policy_def g_reject_def g_return_def sample_expiry)

lemma sample_lookups:
  assumes "gv_actions s = [state_row st v r w]" and "map_of (gv_runs s) (pa_run_id sample_built) = Some buyer_run"
  shows "lock_action (user_env u) (pa_action_id sample_built) s = (Inr (state_row st v r w, sample_built), s)"
    "lock_run_for_action (pa_action_id sample_built) s = (Inr buyer_run, s)"
  using assms by (simp_all add: lock_action_def lock_run_for_action_def g_bind_def find_action_def g_return_def loaded_run)

lemma sample_arguments:
  "canonical_uuid (PStr (pa_action_id sample_built)) l = Inr (pa_action_id sample_built)" "safe_digest (PStr sample_digest) = Inr sample_digest"
  "safe_decision (PStr ''ALLOW'') = Inr ''ALLOW''" "safe_reason (PStr ''Submit'') = Inr ''Submit''" "idempotency_key (PStr ''key-0001'') = Inr ''key-0001''"
proof -
  show "canonical_uuid (PStr (pa_action_id sample_built)) l = Inr (pa_action_id sample_built)"
    by (simp add: sample_built_def canonical_uuid_ok sample_uuid sample_uuid_lower)
  show "safe_digest (PStr sample_digest) = Inr sample_digest" using sample_digest_shape by (simp add: safe_digest_def)
  show "safe_reason (PStr ''Submit'') = Inr ''Submit''" unfolding safe_reason_def by code_simp
qed (simp_all add: safe_decision_def in_texts_def hashable_def reparse sample_texts)

lemma boss_checks:
  assumes "gv_policies s = [proposed_policy_row]"
  shows "decide_checks (user_env ''boss'') ''boss'' buyer_run proposed_row sample_built sample_digest s = (Inr (), s\<lparr>gv_ticks := gv_ticks s + 3\<rparr>)"
proof -
  have allowed: "approver_allowed (user_env ''boss'') sample_built ''boss'' = Inr ()" by (simp add: approver_allowed_def sample_permitted)
  have scope: "approver_scope (user_env ''boss'') sample_built buyer_run ''boss'' s = (Inr (), s)" for s
    by (simp add: approver_scope_def g_bind_def sample_scope sample_permission g_reject_def g_return_def)
  have checks: "gate_checks (user_env ''boss'') sample_built buyer_run ''buyer'' None s = (Inr sample_gates, s\<lparr>gv_ticks := Suc (gv_ticks s)\<rparr>)" for s
    by (rule sample_checks) simp
  have "ar_status buyer_run = ''ACTIVE''" "\<not> ar_revoked buyer_run" by (simp_all add: buyer_run_def)
  then show ?thesis using assms
    by (simp add: decide_checks_def g_bind_def g_reject_def g_return_def g_lift_def proposed_row_def sample_expiry allowed scope checks sample_passed sample_required)
qed

lemma sample_decided:
  "snd (decide_action (user_env ''boss'') (PStr (pa_action_id sample_built)) (PStr ''ALLOW'') (PStr sample_digest) (PStr ''Submit'')
      (PStr (pa_action_id sample_built)) (site_at [proposed_row] [proposed_policy_row] [] k))
    = site_at [approved_row] [proposed_policy_row] [approval_values given_approval] (k + 4)"
proof -
  let ?s = "site_at [proposed_row] [proposed_policy_row] []" and ?t = "site_at [proposed_row] [proposed_policy_row] [approval_values given_approval]"
  obtain x where x: "persist_approval_decision (user_gov ''boss'') (Typed given_approval) (?s (k + 3)) = (Inr x, ?t (k + 3))"
    using sample_approves [of "?s (k + 3)" "''AWAITING_APPROVAL''" 2 "''all policy gates passed''" "''buyer''"] by (auto simp: proposed_row_def)
  have tr: "transition_state ''AWAITING_APPROVAL'' ''APPROVED'' (PInt 2) (PInt 2) = Inr (''APPROVED'', 2 + 1)"
    by (simp add: transition_state_ok action_succs_cases)
  obtain z where z: "transition_action_state (user_gov ''boss'') (pa_action_id sample_built) ''APPROVED'' (PInt 2) ''Submit'' (Some sample_digest) (?t (k + 3)) =
      (Inr z, site_at [approved_row] [proposed_policy_row] [approval_values given_approval] (k + 4))"
    using user_moves [of "''boss''" "?t (k + 3)" "''AWAITING_APPROVAL''" 2 "''all policy gates passed''" "''buyer''" "''APPROVED''" "Some sample_digest" "''Submit''", OF _ _ _ tr]
      boss_proof [of "?t (k + 3)" "''AWAITING_APPROVAL''" 2 "''all policy gates passed''" "''buyer''"] by (auto simp: proposed_row_def approved_row_def)
  have look: "lock_action (user_env ''boss'') (pa_action_id sample_built) (?s k) = (Inr (proposed_row, sample_built), ?s k)"
    "lock_run_for_action (pa_action_id sample_built) (?s k) = (Inr buyer_run, ?s k)"
    unfolding proposed_row_def by (rule sample_lookups; simp)+
  have checks: "decide_checks (user_env ''boss'') ''boss'' buyer_run proposed_row sample_built sample_digest (?s k) = (Inr (), ?s (k + 3))"
    using boss_checks [of "?s k"] by simp
  have "decide_record (user_env ''boss'') ''boss'' proposed_row sample_built ''ALLOW'' ''Submit'' (pa_action_id sample_built) (?s (k + 3)) =
      (Inr [(''action'', PDict z), (''approval'', PDict x)], site_at [approved_row] [proposed_policy_row] [approval_values given_approval] (k + 4))"
    using z by (simp add: decide_record_def g_bind_def given_approval_def [symmetric] x) (simp add: proposed_row_def sync_steps_def g_bind_def g_lift_def g_return_def)
  then show ?thesis
    by (simp add: decide_action_def sample_arguments g_bind_lift) (simp add: g_bind_def look checks)
qed

section \<open>The history\<close>

definition sample_site :: gov_site where
  "sample_site = site_at [approved_row] [proposed_policy_row] [approval_values given_approval] 9"

lemma sample_history: "policy_history store_lib sample_site"
proof -
  let ?runs = "policy_run (user_env ''buyer'') (RunsChanged [(pa_run_id sample_built, buyer_run)]) empty_store"
  let ?propose = "policy_run (user_env ''buyer'') (Propose (PDict sample_action)) ?runs"
  let ?i = "PStr (pa_action_id sample_built)"
  have "?runs = site_at [] [] [] 0" by (simp add: policy_run_def empty_store_def site_at_def)
  then have "policy_run (user_env ''boss'') (Decide ?i (PStr ''ALLOW'') (PStr sample_digest) (PStr ''Submit'') ?i) ?propose = sample_site"
    by (simp add: policy_run_def sample_evaluated sample_decided sample_site_def)
  moreover have "policy_history store_lib (policy_run (user_env ''boss'') oper ?propose)" for oper
    by (intro policy_history.intros) simp_all
  ultimately show ?thesis by metis
qed

lemma sample_recheck:
  "\<exists>ctx s'. pre_execute_recheck (user_env ''boss'') (PStr (pa_action_id sample_built)) (PStr sample_digest) (PStr ''key-0001'') sample_site = (Inr ctx, s')"
proof -
  have checks: "gate_checks (user_env ''boss'') sample_built buyer_run ''boss'' (Some ''boss'') s = (Inr sample_gates, s\<lparr>gv_ticks := Suc (gv_ticks s)\<rparr>)" for s
    by (rule sample_checks) simp
  have look: "lock_action (user_env ''boss'') (pa_action_id sample_built) sample_site = (Inr (approved_row, sample_built), sample_site)"
    "lock_run_for_action (pa_action_id sample_built) sample_site = (Inr buyer_run, sample_site)"
    unfolding approved_row_def sample_site_def by (rule sample_lookups; simp)+
  have site: "gv_policies sample_site = [proposed_policy_row]" "gv_approvals sample_site = [approval_values given_approval]" "gv_receipts sample_site = []"
    by (simp_all add: sample_site_def)
  have approval: "require_approval (user_env ''boss'') sample_built s = (Inr (approval_values given_approval), s\<lparr>gv_ticks := Suc (gv_ticks s)\<rparr>)"
    if "gv_approvals s = [approval_values given_approval]" for s
    using that by (simp add: require_approval_def g_bind_def latest_approval_def g_reject_def g_return_def sample_expiry)
  have "sa_state approved_row = ''APPROVED''" by (simp add: approved_row_def)
  then show ?thesis
    by (simp add: pre_execute_recheck_def sample_arguments g_bind_lift)
      (simp add: g_bind_def look g_reject_def g_return_def receipt_exists_def site sample_required approval Let_def checks recheck_result_def sample_expiry
        sample_passed g_lift_def)
qed

end
