(* ===== verification/Governance_Policy_Properties.thy ===== *)
theory Governance_Policy_Properties
  imports Governance_Policy_Sample
begin

text \<open>
  What the policy guarantees: the gates fail closed and a failed gate asks no further question; an approved action was approved by the right
  person; and what the writer is given rests on an approved action, a live run and an approval of the exact content.
\<close>

section \<open>The sequence of gates\<close>

definition known_gate :: "string \<Rightarrow> string \<Rightarrow> GateResult" where
  "known_gate st r = \<lparr>gr_status = st, gr_reason = r\<rparr>"

lemma gate_known:
  assumes "st \<in> set GATE_STATUSES" and "r \<noteq> []" and "length r \<le> 2000"
  shows "gate st r s = (Inr (known_gate st r), s)"
  using assms by (simp add: gate_def make_gate_def known_gate_def g_lift_def)

lemma gate_names: "n \<in> set GATE_ORDER \<Longrightarrow> length n \<le> 15"
  by (auto simp: GATE_ORDER_def)

text \<open>A check that ran, or the result that stands for its failure.\<close>

definition tried :: "GateResult vact \<Rightarrow> GateResult vact" where
  "tried check = g_try check g_return (\<lambda>e. gate (gate_of_error e) ''policy gate could not be verified'')"

lemma tried_returns:
  assumes "g_keeps ticks_only check"
  obtains r k where "tried check s = (Inr r, s\<lparr>gv_ticks := k\<rparr>)" and "gr_status r = ''PASS'' \<Longrightarrow> check s = (Inr r, s\<lparr>gv_ticks := k\<rparr>)"
proof -
  from assms obtain k where k: "snd (check s) = s\<lparr>gv_ticks := k\<rparr>" by (auto simp: g_keeps_def ticks_only_def)
  show thesis
  proof (cases "fst (check s)")
    case (Inr r)
    with k have "check s = (Inr r, s\<lparr>gv_ticks := k\<rparr>)" by (simp add: prod_eq_iff)
    then show thesis by (intro that) (auto simp: tried_def g_try_def g_return_def)
  next
    case (Inl e)
    then have c: "check s = (Inl e, s\<lparr>gv_ticks := k\<rparr>)" using k by (simp add: prod_eq_iff)
    have st: "gate_of_error e \<in> set GATE_STATUSES" "gate_of_error e \<noteq> ''PASS''"
      by (auto simp: gate_of_error_def GATE_STATUSES_def split: pyexc.split)
    have "tried check s = (Inr (known_gate (gate_of_error e) ''policy gate could not be verified''), s\<lparr>gv_ticks := k\<rparr>)"
      using gate_known [OF st(1)] by (simp add: tried_def g_try_def c)
    then show thesis using st(2) by (intro that) (auto simp: known_gate_def)
  qed
qed

lemma run_gates_blocked:
  assumes "distinct (map fst res @ map fst gates)" and "set (map fst gates) \<subseteq> set GATE_ORDER" and "b \<in> set GATE_ORDER"
  shows "run_gates gates res (Some b) s = (Inr (res @ map (\<lambda>g. (fst g, known_gate ''UNKNOWN'' (''blocked by '' @ b))) gates), s)"
  using assms(1,2)
proof (induction gates arbitrary: res)
  case (Cons g gates)
  have "gate ''UNKNOWN'' (''blocked by '' @ b) s = (Inr (known_gate ''UNKNOWN'' (''blocked by '' @ b)), s)"
    using gate_names [OF assms(3)] by (intro gate_known) (simp_all add: GATE_STATUSES_def)
  then show ?case using Cons by (cases g) (auto simp: g_bind_def image_iff)
qed (simp add: g_return_def)

text \<open>What the later gates would do does not matter once one has failed.\<close>

lemma run_gates_unasked: "map fst gates = map fst gates' \<Longrightarrow> run_gates gates res (Some b) = run_gates gates' res (Some b)"
proof (induction gates arbitrary: gates' res)
  case (Cons g gates)
  then obtain g' rest where "gates' = g' # rest" "fst g' = fst g" "map fst gates = map fst rest" by (cases gates') auto
  then show ?case using Cons.IH by (cases g; cases g') simp
qed simp

definition fails_closed :: "(string \<times> GateResult) list \<Rightarrow> bool" where
  "fails_closed checks \<longleftrightarrow>
     list_all (\<lambda>(n, r). gr_status r = ''UNKNOWN'') (tl (dropWhile (\<lambda>(n, r). gr_status r = ''PASS'') checks))"

lemma closed_indices:
  "fails_closed checks \<Longrightarrow> i < j \<and> j < length checks \<and> gr_status (snd (checks ! i)) \<noteq> ''PASS'' \<Longrightarrow> gr_status (snd (checks ! j)) = ''UNKNOWN''"
proof (induction checks arbitrary: i j)
  case (Cons c checks)
  obtain n r where c: "c = (n, r)" by (rule prod.exhaust)
  obtain j' where j: "j = Suc j'" "j' < length checks" using Cons.prems(2) by (cases j) auto
  show ?case
  proof (cases "gr_status r = ''PASS''")
    case True
    then obtain i' where "i = Suc i'" using Cons.prems(2) by (cases i) (auto simp: c)
    then show ?thesis using Cons.IH [of i' j'] Cons.prems True by (simp add: c j fails_closed_def)
  next
    case False
    then show ?thesis using Cons.prems(1) j by (simp add: c fails_closed_def list_all_length case_prod_unfold)
  qed
qed simp

lemma run_gates_returns:
  assumes "distinct (map fst res @ map fst gates)" and "set (map fst gates) \<subseteq> set GATE_ORDER" and "\<And>n c. (n, c) \<in> set gates \<Longrightarrow> g_keeps ticks_only c"
  shows "\<exists>rs k. run_gates gates res None s = (Inr (res @ rs), s\<lparr>gv_ticks := k\<rparr>) \<and> map fst rs = map fst gates \<and> fails_closed rs"
  using assms
proof (induction gates arbitrary: res s)
  case Nil
  show ?case by (intro exI [of _ "[]"] exI [of _ "gv_ticks s"]) (simp add: g_return_def fails_closed_def)
next
  case (Cons g gates)
  obtain n c where g: "g = (n, c)" by (rule prod.exhaust)
  have "g_keeps ticks_only c" using Cons.prems(3) [of n c] g by simp
  then obtain r k where r: "tried c s = (Inr r, s\<lparr>gv_ticks := k\<rparr>)" using tried_returns by metis
  have step: "run_gates (g # gates) res None s = run_gates gates (res @ [(n, r)]) (if gr_status r \<noteq> ''PASS'' then Some n else None) (s\<lparr>gv_ticks := k\<rparr>)"
    using Cons.prems(1,2) r by (auto simp: g g_bind_def tried_def)
  have pre: "distinct (map fst (res @ [(n, r)]) @ map fst gates)" "set (map fst gates) \<subseteq> set GATE_ORDER" "n \<in> set GATE_ORDER"
    using Cons.prems(1,2) by (auto simp: g)
  show ?case
  proof (cases "gr_status r = ''PASS''")
    case True
    from Cons.IH [OF pre(1,2)] Cons.prems(3) obtain rs k' where
      "run_gates gates (res @ [(n, r)]) None (s\<lparr>gv_ticks := k\<rparr>) = (Inr ((res @ [(n, r)]) @ rs), s\<lparr>gv_ticks := k\<rparr>\<lparr>gv_ticks := k'\<rparr>)"
      "map fst rs = map fst gates" "fails_closed rs" by (metis list.set_intros(2))
    then show ?thesis unfolding step using True
      by (intro exI [of _ "(n, r) # rs"] exI [of _ k']) (simp add: g fails_closed_def)
  next
    case False
    then show ?thesis unfolding step using run_gates_blocked [OF pre]
      by (intro exI [of _ "(n, r) # map (\<lambda>g. (fst g, known_gate ''UNKNOWN'' (''blocked by '' @ n))) gates"] exI [of _ k])
        (simp add: g fails_closed_def known_gate_def list_all_iff)
  qed
qed

text \<open>One step of the sequence, seen from the first gate.\<close>

lemma run_gates_step:
  assumes "tried c s = (Inr r, s')" and "n \<in> set GATE_ORDER" and "n \<notin> set (map fst res)"
  shows "run_gates ((n, c) # gates) res None s = run_gates gates (res @ [(n, r)]) (if gr_status r = ''PASS'' then None else Some n) s'"
  using assms by (simp add: g_bind_def tried_def)

lemma run_gates_prefix: "run_gates gates res b s = (Inr checks, s') \<Longrightarrow> \<exists>rs. checks = res @ rs"
proof (induction gates arbitrary: res b s)
  case (Cons g gates)
  obtain n c where g: "g = (n, c)" by (rule prod.exhaust)
  from Cons.prems obtain r b' s1 where "run_gates gates (res @ [(n, r)]) b' s1 = (Inr checks, s')"
    by (auto simp: g g_bind_def g_raise_def split: if_splits option.splits sum.splits prod.splits)
  from Cons.IH [OF this] show ?case by auto
qed (auto simp: g_return_def)

text \<open>The gates after the identity gate.\<close>

definition later_gates :: "policy_env \<Rightarrow> ProposedAction \<Rightarrow> agent_run \<Rightarrow> string \<Rightarrow> (string \<times> GateResult vact) list" where
  "later_gates env action run actor =
     [(''permission'', permission_gate env action actor), (''deterministic'', g_lift (pe_deterministic env action actor)),
      (''workflow_policy'', workflow_policy env action)]"

lemma gate_checks_later:
  "gate_checks env action run actor ap =
     run_gates ((''identity'', run_identity env action run actor ap) # (''scope'', scope_identity env action run actor) # later_gates env action run actor) [] None"
  by (simp add: gate_checks_def evaluate_gate_sequence_def later_gates_def)

lemma gate_checks_step:
  assumes "tried (run_identity env action run actor ap) s = (Inr r, s')"
  shows "gate_checks env action run actor ap s =
    run_gates ((''scope'', scope_identity env action run actor) # later_gates env action run actor) [(''identity'', r)]
      (if gr_status r = ''PASS'' then None else Some ''identity'') s'"
  unfolding gate_checks_later by (rule trans [OF run_gates_step [OF assms]]) (simp_all add: GATE_ORDER_def del: run_gates.simps)

lemma gate_checks_returns:
  "\<exists>checks k. gate_checks env action run actor ap s = (Inr checks, s\<lparr>gv_ticks := k\<rparr>) \<and> map fst checks = GATE_ORDER \<and> fails_closed checks"
proof -
  have "distinct (map fst [] @ map fst ((''identity'', run_identity env action run actor ap) # (''scope'', scope_identity env action run actor) # later_gates env action run actor))"
    "set (map fst ((''identity'', run_identity env action run actor ap) # (''scope'', scope_identity env action run actor) # later_gates env action run actor)) \<subseteq> set GATE_ORDER"
    by (simp_all add: later_gates_def GATE_ORDER_def)
  from run_gates_returns [OF this, of s] show ?thesis
    unfolding gate_checks_later
    by (auto simp: later_gates_def GATE_ORDER_def intro: run_identity_ticks scope_ticks permission_ticks workflow_ticks tk.lift_keeps)
qed

text \<open>The first two gates of a finished sequence.\<close>

lemma gate_checks_identity:
  assumes "gate_checks env action run actor ap s = (Inr checks, s')"
  obtains r k where "tried (run_identity env action run actor ap) s = (Inr r, s\<lparr>gv_ticks := k\<rparr>)"
    and "gr_status r = ''PASS'' \<Longrightarrow> run_identity env action run actor ap s = (Inr r, s\<lparr>gv_ticks := k\<rparr>)" and "checks ! 0 = (''identity'', r)"
    and "run_gates ((''scope'', scope_identity env action run actor) # later_gates env action run actor) [(''identity'', r)]
      (if gr_status r = ''PASS'' then None else Some ''identity'') (s\<lparr>gv_ticks := k\<rparr>) = (Inr checks, s')"
proof -
  obtain r k where r: "tried (run_identity env action run actor ap) s = (Inr r, s\<lparr>gv_ticks := k\<rparr>)"
    "gr_status r = ''PASS'' \<Longrightarrow> run_identity env action run actor ap s = (Inr r, s\<lparr>gv_ticks := k\<rparr>)"
    using tried_returns [OF run_identity_ticks] by metis
  have rest: "run_gates ((''scope'', scope_identity env action run actor) # later_gates env action run actor) [(''identity'', r)]
      (if gr_status r = ''PASS'' then None else Some ''identity'') (s\<lparr>gv_ticks := k\<rparr>) = (Inr checks, s')"
    using assms unfolding gate_checks_step [OF r(1)] .
  from run_gates_prefix [OF rest] have "checks ! 0 = (''identity'', r)" by auto
  then show thesis using that r rest by blast
qed

lemma identity_failure_unasked:
  assumes "pe_gov env' = pe_gov env \<and> pe_user_enabled env' = pe_user_enabled env" and "gate_checks env action run actor ap s = (Inr checks, s')" and "gr_status (snd (checks ! 0)) \<noteq> ''PASS''"
  shows "gate_checks env' action run actor ap s = (Inr checks, s')"
proof -
  have "policy_now env' = policy_now env" by (simp add: fun_eq_iff policy_now_def assms(1))
  then have same: "run_identity env' action run actor ap = run_identity env action run actor ap" using assms(1) by (simp only: run_identity_def)
  from gate_checks_identity [OF assms(2)] obtain r k where r: "tried (run_identity env action run actor ap) s = (Inr r, s\<lparr>gv_ticks := k\<rparr>)"
    "checks ! 0 = (''identity'', r)" and rest: "run_gates ((''scope'', scope_identity env action run actor) # later_gates env action run actor) [(''identity'', r)]
      (if gr_status r = ''PASS'' then None else Some ''identity'') (s\<lparr>gv_ticks := k\<rparr>) = (Inr checks, s')" by metis
  have "run_gates ((''scope'', scope_identity env' action run actor) # later_gates env' action run actor) [(''identity'', r)] (Some ''identity'')
    = run_gates ((''scope'', scope_identity env action run actor) # later_gates env action run actor) [(''identity'', r)] (Some ''identity'')"
    by (rule run_gates_unasked) (simp add: later_gates_def)
  then show ?thesis
    using rest assms(3) r(2) gate_checks_step [of env' action run actor ap s r "s\<lparr>gv_ticks := k\<rparr>"] r(1)
    by (simp add: same del: run_gates.simps)
qed

lemma scope_failure_unasked:
  assumes env: "pe_gov env' = pe_gov env \<and> pe_user_enabled env' = pe_user_enabled env" "pe_list env' = pe_list env" and checks: "gate_checks env action run actor ap s = (Inr checks, s')"
    and fail: "gr_status (snd (checks ! 0)) \<noteq> ''PASS'' \<or> gr_status (snd (checks ! 1)) \<noteq> ''PASS''"
  shows "gate_checks env' action run actor ap s = (Inr checks, s')"
proof (cases "gr_status (snd (checks ! 0)) = ''PASS''")
  case False
  then show ?thesis using identity_failure_unasked [OF env(1) checks] by simp
next
  case True
  have "policy_now env' = policy_now env" by (simp add: fun_eq_iff policy_now_def env)
  then have id: "run_identity env' action run actor ap = run_identity env action run actor ap" using env(1) by (simp only: run_identity_def)
  have "warehouses_visible env' run actor ws = warehouses_visible env run actor ws" for ws by (induction ws) (simp_all add: env(2))
  then have sc: "scope_identity env' action run actor = scope_identity env action run actor"
    by (simp only: scope_identity_def source_scope_def env(2))
  from gate_checks_identity [OF checks] obtain r k where r: "tried (run_identity env action run actor ap) s = (Inr r, s\<lparr>gv_ticks := k\<rparr>)"
    "checks ! 0 = (''identity'', r)" by metis
  then have pass: "gr_status r = ''PASS''" using True by simp
  obtain q j where q: "tried (scope_identity env action run actor) (s\<lparr>gv_ticks := k\<rparr>) = (Inr q, s\<lparr>gv_ticks := k\<rparr>\<lparr>gv_ticks := j\<rparr>)"
    using tried_returns [OF scope_ticks] by metis
  have two: "gate_checks e action run actor ap s = run_gates (later_gates e action run actor) [(''identity'', r), (''scope'', q)]
      (if gr_status q = ''PASS'' then None else Some ''scope'') (s\<lparr>gv_ticks := k\<rparr>\<lparr>gv_ticks := j\<rparr>)"
    if "run_identity e action run actor ap = run_identity env action run actor ap" "scope_identity e action run actor = scope_identity env action run actor" for e
  proof -
    have g: "tried (run_identity e action run actor ap) s = (Inr r, s\<lparr>gv_ticks := k\<rparr>)"
      "tried (scope_identity e action run actor) (s\<lparr>gv_ticks := k\<rparr>) = (Inr q, s\<lparr>gv_ticks := k\<rparr>\<lparr>gv_ticks := j\<rparr>)" using r(1) q that by simp_all
    show ?thesis using gate_checks_step [OF g(1)] run_gates_step [OF g(2), of "''scope''" "[(''identity'', r)]"] pass
      by (simp add: GATE_ORDER_def del: run_gates.simps)
  qed
  from checks have first: "run_gates (later_gates env action run actor) [(''identity'', r), (''scope'', q)]
      (if gr_status q = ''PASS'' then None else Some ''scope'') (s\<lparr>gv_ticks := k\<rparr>\<lparr>gv_ticks := j\<rparr>) = (Inr checks, s')"
    using two [of env] by simp
  from run_gates_prefix [OF this] have "gr_status q \<noteq> ''PASS''" using fail r(2) pass by auto
  moreover have "run_gates (later_gates env' action run actor) res (Some b) = run_gates (later_gates env action run actor) res (Some b)" for res b
    by (rule run_gates_unasked) (simp add: later_gates_def)
  ultimately show ?thesis using first two [OF id sc] by simp
qed

text \<open>
  C13: the gates fail closed, and a failed gate asks no further question.  For every action, run and actor, whatever the queries answer or raise,
  the sequence ends with a result for each of the five gates in their order and changes no table; after the first gate that does not pass all
  others are \<open>UNKNOWN\<close>.  When identity does not pass, the result is the same whatever the list, permission, document and workflow queries would
  answer; when scope does not pass, it is the same whatever the permission, document and workflow queries would answer.
\<close>

theorem gates_fail_closed:
  "\<exists>checks k. gate_checks env action run actor ap s = (Inr checks, s\<lparr>gv_ticks := k\<rparr>) \<and> map fst checks = GATE_ORDER \<and>
     (\<forall>i j. i < j \<and> j < length checks \<and> gr_status (snd (checks ! i)) \<noteq> ''PASS'' \<longrightarrow> gr_status (snd (checks ! j)) = ''UNKNOWN'') \<and>
     (\<forall>env'. pe_gov env' = pe_gov env \<and> pe_user_enabled env' = pe_user_enabled env \<and> gr_status (snd (checks ! 0)) \<noteq> ''PASS'' \<longrightarrow>
        gate_checks env' action run actor ap s = gate_checks env action run actor ap s) \<and>
     (\<forall>env'. pe_gov env' = pe_gov env \<and> pe_user_enabled env' = pe_user_enabled env \<and> pe_list env' = pe_list env \<and> gr_status (snd (checks ! 1)) \<noteq> ''PASS'' \<longrightarrow>
        gate_checks env' action run actor ap s = gate_checks env action run actor ap s)"
proof -
  obtain checks k where c: "gate_checks env action run actor ap s = (Inr checks, s\<lparr>gv_ticks := k\<rparr>)" "map fst checks = GATE_ORDER" "fails_closed checks"
    using gate_checks_returns by metis
  show ?thesis
    by (intro exI [of _ checks] exI [of _ k] conjI allI impI; (rule closed_indices [OF c(3)], assumption)?)
      (simp_all add: c(1,2) identity_failure_unasked [OF _ c(1)] scope_failure_unasked [OF _ _ c(1)])
qed

section \<open>Separation of duties\<close>

lemma duty_row:
  assumes "duties_ok lib s" and "row \<in> set (gv_actions s)" and "d \<in> set (gv_approvals s)" and "sd_action d = sa_action_id row"
  shows "duty row d"
proof -
  have "decided s d" using assms(1,3) by (simp add: duties_ok_def)
  then obtain row' where row': "row' \<in> set (gv_actions s)" "sd_action d = sa_action_id row'" "duty row' d"
    unfolding decided_def by blast
  have "store_ok lib UNIV s" using assms(1) by (simp add: duties_ok_def)
  then have "row' = row" by (rule row_unique [OF _ assms(2) row'(1)]) (rule trans [OF row'(2) [symmetric] assms(4)])
  then show ?thesis using row'(3) by simp
qed

text \<open>
  C2: nobody approves their own action where an independent approver is required, and nobody else confirms an action where the initiator must.
  After any history of proposals, approvals, re-checks, receipts and moves, by any users, the row of an action that is approved or executed has an
  approval of its very digest in the store, and every approval of it, whatever it decides, is the initiator's own where the class is
  \<open>INITIATOR_CONFIRMATION\<close> and another user's otherwise.
\<close>

theorem separation_of_duties:
  assumes "policy_history lib s" and "row \<in> set (gv_actions s)" and "sa_state row \<in> {''APPROVED'', ''EXECUTED''}"
  shows "(\<exists>d \<in> set (gv_approvals s). sd_action d = sa_action_id row \<and> sd_proposal_digest d = sa_proposal_digest row \<and> sd_decision d = PStr ''ALLOW'') \<and>
    (\<forall>d \<in> set (gv_approvals s). sd_action d = sa_action_id row \<longrightarrow>
       (if sa_approval_class row = ''INITIATOR_CONFIRMATION'' then sd_actor d = sa_initiator row else sd_actor d \<noteq> sa_initiator row))"
proof -
  note ok = policy_history_duties [OF assms(1)]
  then have "approved UNIV s row" using assms(2,3) by (auto simp: duties_ok_def store_ok_def)
  then have "\<exists>d \<in> set (gv_approvals s). sd_action d = sa_action_id row \<and> sd_proposal_digest d = sa_proposal_digest row \<and> sd_decision d = PStr ''ALLOW''"
    unfolding approved_def approved_by_def by blast
  then show ?thesis using duty_row [OF ok assms(2)] unfolding duty_def by blast
qed

section \<open>The writer's proof\<close>

lemma bind_ok: "g_bind m f s = (Inr y, s') \<longleftrightarrow> (\<exists>x t. m s = (Inr x, t) \<and> f x t = (Inr y, s'))"
  by (cases "m s") (auto simp: g_bind_def split: sum.split)

lemma lift_ok: "g_lift x s = (Inr v, t) \<longleftrightarrow> x = Inr v \<and> t = s"
  by (auto simp: g_lift_def)

lemma reject_ok: "g_reject b e s = (Inr u, t) \<longleftrightarrow> \<not> b \<and> t = s"
  by (auto simp: g_reject_def g_raise_def g_return_def)

lemma return_ok: "g_return v s = (Inr u, t) \<longleftrightarrow> u = v \<and> t = s"
  by (auto simp: g_return_def)

lemma raise_ok [simp]: "g_raise e s \<noteq> (Inr u, t)"
  by (simp add: g_raise_def)

lemmas step_ok = bind_ok lift_ok reject_ok return_ok

lemma keeps_ok: "g_keeps R m \<Longrightarrow> m s = (x, t) \<Longrightarrow> R s t"
  unfolding g_keeps_def by (metis snd_conv)

lemma latest_by_in: "latest_by f best xs = Some x \<Longrightarrow> x \<in> set xs \<or> best = Some x"
  by (induction xs arbitrary: best) (force split: option.splits if_splits)+

lemma first_failed_none: "first_failed checks names = None \<Longrightarrow> n \<in> set names \<Longrightarrow> \<exists>r. map_of checks n = Some r \<and> gr_status r = ''PASS''"
  by (induction names) (auto split: option.splits if_splits)

lemma identity_passes:
  assumes "run_identity env action run actor ap s = (Inr r, s')" and "gr_status r = ''PASS''"
  shows "pa_initiator action = ar_initiator run" "ap = None \<Longrightarrow> actor = ar_initiator run" "ap \<noteq> None \<Longrightarrow> ap = Some actor"
    "ar_status run = ''ACTIVE''" "\<not> ar_revoked run" "actor \<noteq> ''Guest''"
  using assms by (auto simp: run_identity_def gate_def make_gate_def lift_ok split: if_splits sum.splits)

lemma gates_pass:
  assumes "gate_checks env action run actor ap s = (Inr checks, s')" and "first_failed checks GATE_ORDER = None"
  shows "list_all (\<lambda>(n, r). gr_status r = ''PASS'') checks" "\<exists>r t. run_identity env action run actor ap s = (Inr r, t) \<and> gr_status r = ''PASS''"
proof -
  have names: "map fst checks = GATE_ORDER" using gate_checks_returns [of env action run actor ap s] assms(1) by auto
  have "distinct (map fst checks)" by (simp add: names GATE_ORDER_def)
  have pass: "gr_status r = ''PASS''" if "(n, r) \<in> set checks" for n r
  proof -
    have "n \<in> set (map fst checks)" using that by force
    then have "n \<in> set GATE_ORDER" by (simp only: names)
    then show ?thesis using first_failed_none [OF assms(2)] map_of_is_SomeI [OF \<open>distinct (map fst checks)\<close> that] by fastforce
  qed
  then show "list_all (\<lambda>(n, r). gr_status r = ''PASS'') checks" by (auto simp: list_all_iff)
  from gate_checks_identity [OF assms(1)] obtain r k where
    r: "gr_status r = ''PASS'' \<Longrightarrow> run_identity env action run actor ap s = (Inr r, s\<lparr>gv_ticks := k\<rparr>)" "checks ! 0 = (''identity'', r)" by metis
  have "0 < length checks" using arg_cong [OF names, of length] by (simp add: GATE_ORDER_def)
  then have "(''identity'', r) \<in> set checks" using nth_mem r(2) by metis
  then show "\<exists>r t. run_identity env action run actor ap s = (Inr r, t) \<and> gr_status r = ''PASS''" using r(1) pass by blast
qed

lemma recheck_result_ok:
  assumes "recheck_result env action row actor approval checks s = (Inr ctx, s')"
  shows "first_failed checks GATE_ORDER = None" "ticks_only s s'"
    "px_action_id ctx = pa_action_id action" "px_run_id ctx = pa_run_id action" "px_initiator ctx = pa_initiator action" "px_executor ctx = actor"
    "px_payload ctx = pa_payload action" "px_proposal_digest ctx = pa_proposal_digest action" "px_idempotency_key ctx = pa_idempotency_key action"
    "px_approval_id ctx = sd_decision_id approval"
  using assms keeps_ok [OF expiry_ticks]
  by (auto simp: recheck_result_def step_ok split: if_splits option.splits)

text \<open>The approval the re-check rests on.\<close>

lemma require_approval_ok:
  assumes "require_approval env action s = (Inr a, s')"
  shows "a \<in> set (gv_approvals s)" "sd_action a = pa_action_id action" "sd_proposal_digest a = pa_proposal_digest action"
    "sd_decision a = PStr ''ALLOW''" "sd_snapshot_ref a = pa_snapshot_ref action"
proof -
  from assms obtain b where b: "latest_by sd_decided_at None (filter (\<lambda>d. sd_action d = pa_action_id action \<and>
      sd_proposal_digest d = pa_proposal_digest action \<and> sd_decision d = PStr ''ALLOW'') (gv_approvals s)) = Some b"
    "sd_snapshot_ref b = pa_snapshot_ref action" "a = b"
    by (auto simp: require_approval_def step_ok latest_approval_def split: option.splits)
  from latest_by_in [OF b(1)] b(2,3) show "a \<in> set (gv_approvals s)" "sd_action a = pa_action_id action"
    "sd_proposal_digest a = pa_proposal_digest action" "sd_decision a = PStr ''ALLOW''" "sd_snapshot_ref a = pa_snapshot_ref action" by auto
qed

lemma lock_run_ok: "lock_run_for_action i s = (Inr run, t) \<Longrightarrow> \<exists>n. map_of (gv_runs s) n = Some run"
  by (auto simp: lock_run_for_action_def load_run_def bind_ok return_ok find_action_def find_gov_run_def split: option.splits if_splits)

lemma safe_digest_ok: "safe_digest g = Inr d \<longleftrightarrow> g = PStr d \<and> digest_shape d"
  by (auto simp: safe_digest_def split: pyval.splits if_splits)

text \<open>The steps of the re-check.\<close>

lemma recheck_steps:
  assumes "pre_execute_recheck env i g k s = (Inr ctx, s')"
  obtains safe_i actor run row action a checks t u where
    "authenticated_actor (pe_gov env) = Inr actor" "lock_run_for_action safe_i s = (Inr run, s)"
    "lock_action env safe_i s = (Inr (row, action), s)" "uuid_shape safe_i" "g = PStr (pa_proposal_digest action)" "ar_name run = pa_run_id action" "sa_state row = ''APPROVED''"
    "\<not> list_ex (\<lambda>r. sr_idempotency_key r = pa_idempotency_key action) (gv_receipts s)"
    "ticks_only s t" "require_approval env action t = (Inr a, u)"
    "\<exists>w. gate_checks env action run actor (if pa_approval_class action = ''INITIATOR_CONFIRMATION'' then None else Some (sd_actor a)) u = (Inr checks, w) \<and>
       recheck_result env action row actor a checks w = (Inr ctx, s')"
proof -
  from assms obtain safe_i actor run s1 row action s2 p t a u checks w where
    raw: "lock_run_for_action safe_i s = (Inr run, s1)" "lock_action env safe_i s1 = (Inr (row, action), s2)"
      "require_policy env action ''policy is missing or stale'' s2 = (Inr p, t)"
    and rest: "authenticated_actor (pe_gov env) = Inr actor" "g = PStr (pa_proposal_digest action)" "ar_name run = pa_run_id action" "sa_state row = ''APPROVED''"
      "\<not> list_ex (\<lambda>r. sr_idempotency_key r = pa_idempotency_key action) (gv_receipts s2)" "require_approval env action t = (Inr a, u)"
      "gate_checks env action run actor (if pa_approval_class action = ''INITIATOR_CONFIRMATION'' then None else Some (sd_actor a)) u = (Inr checks, w)"
      "recheck_result env action row actor a checks w = (Inr ctx, s')"
      "uuid_shape safe_i"
    by (auto simp: pre_execute_recheck_def step_ok Let_def receipt_exists_def safe_digest_ok canonical_uuid_ok intro!: that)
  have "s1 = s" "s2 = s1" "ticks_only s2 t"
    using keeps_ok [OF lookup_reads(3) raw(1)] keeps_ok [OF lookup_reads(2) raw(2)] keeps_ok [OF require_ticks(1) raw(3)] by simp_all
  then show thesis using that raw rest by blast
qed


section \<open>Witnesses\<close>

theorem separation_of_duties_witness:
  "policy_history store_lib sample_site \<and> approved_row \<in> set (gv_actions sample_site) \<and>
   (\<exists>d \<in> set (gv_approvals sample_site). sd_decision d = PStr ''ALLOW'' \<and> sd_actor d \<noteq> sa_initiator approved_row)"
proof -
  have row: "approved_row \<in> set (gv_actions sample_site)" "sa_state approved_row \<in> {''APPROVED'', ''EXECUTED''}"
    "sa_approval_class approved_row = ''INDEPENDENT_APPROVER''" by (simp_all add: sample_site_def approved_row_def)
  from separation_of_duties [OF sample_history row(1,2)] row(3) show ?thesis using sample_history row(1) by auto
qed


text \<open>The boss cannot propose in the buyer's run: identity fails, whatever the document queries would say.\<close>

theorem gates_fail_closed_witness:
  "gate_checks (user_env ''boss'') sample_built buyer_run ''boss'' None sample_site =
   gate_checks (user_env ''boss''\<lparr>pe_list := (\<lambda>_ _ _ _. Inr []), pe_has_permission := (\<lambda>_ _ _. Inl TypeError)\<rparr>) sample_built buyer_run ''boss'' None sample_site"
proof -
  let ?env' = "user_env ''boss''\<lparr>pe_list := (\<lambda>_ _ _ _. Inr []), pe_has_permission := (\<lambda>_ _ _. Inl TypeError)\<rparr>"
  obtain checks k where c: "gate_checks (user_env ''boss'') sample_built buyer_run ''boss'' None sample_site = (Inr checks, sample_site\<lparr>gv_ticks := k\<rparr>)"
    "\<forall>env'. pe_gov env' = user_gov ''boss'' \<and> pe_user_enabled env' = pe_user_enabled (user_env ''boss'') \<and> gr_status (snd (checks ! 0)) \<noteq> ''PASS'' \<longrightarrow>
        gate_checks env' sample_built buyer_run ''boss'' None sample_site = gate_checks (user_env ''boss'') sample_built buyer_run ''boss'' None sample_site"
    using gates_fail_closed [of "user_env ''boss''" sample_built buyer_run "''boss''" None sample_site] by (elim exE conjE) (rule that)
  from gate_checks_identity [OF c(1)] obtain r k' where r: "checks ! 0 = (''identity'', r)"
    "gr_status r = ''PASS'' \<Longrightarrow> run_identity (user_env ''boss'') sample_built buyer_run ''boss'' None sample_site = (Inr r, sample_site\<lparr>gv_ticks := k'\<rparr>)" by metis
  have "gr_status r \<noteq> ''PASS''" using identity_passes(2) [OF r(2)] by (auto simp: buyer_run_def)
  then have "gr_status (snd (checks ! 0)) \<noteq> ''PASS''" by (simp only: r(1) snd_conv not_False_eq_True)
  moreover have "pe_gov ?env' = user_gov ''boss''" "pe_user_enabled ?env' = pe_user_enabled (user_env ''boss'')" by simp_all
  ultimately show ?thesis using c(2) by metis
qed

end
