(* ===== verification/Spec2Isabelle.thy ===== *)
theory Spec2Isabelle
  imports Lifecycle Execution_Properties Workflow_Runtime_Properties Agent_Kernel_Properties
    Gateway_Properties Agent_Budget_Properties Governance_Policy_Properties
begin

text \<open>
  Synora Agentic ERP lets an agent analyse purchasing data in an ERP system and propose writes.  The
  repository has two halves.  The Frappe application (\<open>synora_agentic_erp/\<close>) owns the data: a Gateway answers typed
  read requests of the agent, and the governance package turns proposals into typed actions that are reviewed, approved,
  executed and read back.  The agent runtime (\<open>services/agent_runtime/\<close>) runs the agent: a workflow engine
  with durable checkpoints drives plan steps, each of which reads through the Gateway, asks the user, or waits for a governed action.
  What is modelled is the deterministic core of both halves: the contracts at the boundary, the state machines, and
  the workflow service with its store.

  \<^bold>\<open>Conventions.\<close>  A Python value is a \<open>pyval\<close>; text is a list of characters below
  code point 256; a dictionary is an association list in insertion order; integers are unbounded, and a decimal is a coefficient with an
  exponent (\<open>Py_Decimal\<close>).  An operation that may raise returns \<open>pyexc + 'a\<close>, with \<open>Inl\<close> the
  exception, and every \<open>raise\<close> of the source is a branch.  Code outside the
  repository is a parameter: \<open>pylib\<close> (SHA-256, JSON tokens, date parsing), \<open>wflib\<close> (ISO times, name-based UUIDs) \<open>genv\<close> (Frappe's session, permission queries, clock) and \<open>rtenv\<close> (clock,
  availability of the database, lease tokens, answers of the Gateway).  What a theorem needs of a parameter is a hypothesis that
  states documented behaviour (a digest has 64 hexadecimal digits, the JSON reader inverts the printer), and its witness
  instantiates the parameter.

  \<^bold>\<open>Shared theories.\<close>  \<open>Prelude\<close> holds the result combinators, the outcome calculus for exceptions, and lemmas on lists and association
  lists; \<open>Py_Lib\<close> the Python values, text functions and UUIDs; \<open>Py_Decimal\<close> decimal arithmetic and printing.

  \<^bold>\<open>Governance and Gateway.\<close>
  \<^item> \<open>Lifecycle\<close>: the tables and transition functions of \<open>governance/state.py\<close> and \<open>agent/state_machine.py\<close>.  An action is executed
    only after approval, a Run only after a proposal awaited approval, and a stale version is refused.
  \<^item> \<open>Gateway_Contract\<close>: \<open>gateway/contract.py\<close>.  Requests that parse are closed and typed, every other value
    is refused with a known code, and paging stays within bounds.
  \<^item> \<open>Governance_Contracts\<close>, \<open>Governance_Actions\<close>: \<open>governance/contracts.py\<close>, from scalar parsers to payload grammars, actions, policy
    decisions, approvals and receipts.  \<open>Canonical_Json\<close> shows that canonical JSON is injective, \<open>Action_Roundtrip\<close> that each payload grammar reads its
    own output.  \<open>Action_Properties\<close> and \<open>Governance_Records\<close> hold the results: the type alone decides approval, a digest binds the
    reviewed content, parsing is idempotent, an allowing policy decision has five passing checks, a successful receipt has evidence, and which exceptions escape.
  \<^item> \<open>Execution_Contracts\<close>, \<open>Execution_Properties\<close>: \<open>governance/execution_contracts.py\<close>.  A document that passes the read-back
    agrees with the approved payload line by line, reconciliation never permits a retry, the execution key identifies the content.
  \<^item> \<open>Governance_Store\<close>: \<open>governance/service.py\<close> and the controllers of the four governance documents, on tables of rows.
    \<open>Governance_Store_Invariants\<close> has Hoare triples for the monad (\<open>keeping\<close>) and one preservation lemma per operation, in the locale \<open>store_invariant\<close>,
    which asks of an invariant only that the single writes keep it;
    \<open>Governance_Store_Properties\<close> concludes that after any history of requests an approved action has its policy decision and its approval in the store, and a receipt
    belongs to one action alone.
  \<^item> \<open>Governance_Policy\<close>: \<open>governance/policy.py\<close>, on the same tables: the five gates, \<open>evaluate_proposal\<close>, \<open>decide_action\<close>, \<open>pre_execute_recheck\<close>
    and the reads.  \<open>Governance_Policy_Invariants\<close> shows that checks only read the clock and interprets \<open>store_invariant\<close> for the separation of duties.
    \<open>Governance_Policy_Properties\<close> concludes that the gates fail closed without asking further questions, that
    nobody approves their own action where an independent approver is required, and that the proof handed to the writer rests on an approved, unexecuted
    action, a live run and an approval of the exact content; \<open>Governance_Policy_Sample\<close> follows one purchase order for the witnesses.

  \<^bold>\<open>Gateway server.\<close>
  \<^item> \<open>Gateway_Site\<close>: the Frappe documents (Agent Runs, the ledger of workflow calls, audit rows), their controllers, the monad of a request,
    and the record \<open>genv\<close> of what Frappe answers.
  \<^item> \<open>Gateway_Security\<close>: \<open>gateway/security.py\<close>.  \<open>Gateway_Registry\<close>: \<open>gateway/registry.py\<close> and \<open>agent/invocation.py\<close>; the tool handlers are the
    functions in the registry.  \<open>Gateway_Server\<close>: \<open>execute\<close>, \<open>issue_run\<close> and \<open>revoke_run\<close> of \<open>api.py\<close>, with \<open>execute\<close> cut at its commits.
  \<^item> \<open>Gateway_Frames\<close>: what each operation may change, through the locale \<open>site_relation\<close>.  \<open>Gateway_Concurrency\<close>: requests in
    flight, workers that die and user operations as a step relation.  \<open>Gateway_Replay\<close>: completed calls are read back from the ledger.
  \<^item> \<open>Gateway_Properties\<close>: a workflow call reaches its handler at most once, a handler runs only with full authority at that moment, a closed run
    is dead even for requests in flight, and a repeated request gets the published response.

  \<^bold>\<open>Workflow.\<close>
  \<^item> \<open>Agent_Contracts\<close>: observations, actions and JSON values of \<open>agent/contracts.py\<close>.
  \<^item> \<open>Workflow_Contracts\<close>: \<open>workflow/contracts.py\<close>; its depth-first search for cycles is shown to decide exactly the acyclic plans.
  \<^item> \<open>Workflow_Engine\<close>: one definition per method of \<open>workflow/engine.py\<close>.  \<open>Workflow_Invariants\<close> proves preservation operation by operation;
    \<open>Workflow_Properties\<close> concludes that engine states stay valid, that completed steps are immutable, and that a run of valid tool steps completes.
  \<^item> \<open>Workflow_Runner\<close>: the loop of \<open>workflow/engines.py\<close>.
  \<^item> \<open>Workflow_Wire\<close>, \<open>Checkpoint\<close>: the JSON form of a state and the store of \<open>workflow/checkpoint.py\<close>, whose tables are lists of rows.
    \<open>Checkpoint_Properties\<close> states the store as a versioned store (locale \<open>versioned_store\<close>): no update is lost, a lease
    excludes others, the history has no gap, and a saved state is loaded back.
  \<^item> \<open>Workflow_Runtime\<close>: every method of \<open>workflow/runtime.py\<close> as a function of the world (tables, clock readings, calls made).
    \<open>Workflow_Runtime_Properties\<close> proves, through the locale \<open>world_invariant\<close>, that each Gateway call is on record before it is made, that
    planning a governed action calls no tool, and that a cancellation is acknowledged only once stored.

  \<^bold>\<open>Agent runtime.\<close>
  \<^item> \<open>Agent_Trace\<close>, \<open>Agent_Redaction\<close>: trace events and redaction of \<open>agent/contracts.py\<close>; the text of a trace payload
    holds no secret pattern once it is redacted.
  \<^item> \<open>Agent_Guards\<close>: the loop, stall, frequency and concurrency guards of \<open>agent/guards.py\<close>.
  \<^item> \<open>Gateway_Tools\<close>: the typed tool calls of the runtime's Gateway client, up to the request it sends.
  \<^item> \<open>Agent_Kernel\<close>: the decision loop of \<open>agent/kernel.py\<close>, in a monad over the kernel's state whose exceptions are the stop and the failure;
    the model, the tools and the clock are fields of \<open>kenv\<close>.  \<open>Agent_Kernel_Properties\<close> has a Hoare logic for it (\<open>khoare\<close>) and proves
    that only allowed tools are called, none twice with the same arguments and no more often than the limits allow, that an answer rests on evidence collected in the run,
    and that a run always ends with a result.
  \<^item> \<open>Agent_Budget\<close>: prices, estimates and the account of a run (\<open>agent/budget.py\<close>).  \<open>Agent_Budget_Properties\<close> shows that prices of at most ten
    digits with six decimals are exact, and that the reservation made before a call covers what the call is charged.

  \<^bold>\<open>Termination.\<close>  No definition uses fuel.  The plan search ends because the set of unvisited steps shrinks; the runner and
  the service loop end because each round completes a step that was open; the kernel recurses on the remaining
  number of steps.

  \<^bold>\<open>Not modelled.\<close>  The ERP queries of the Gateway's tool handlers, the deterministic gate of the policy, which compares an
  action with ERP documents (a field of \<open>policy_env\<close>), the execution and orchestration of governed actions on Frappe, the ERP side of the agent, the other endpoints, HTTP, model providers and prompts, retrieval, memory and coaching, the labs, scripts and
  evaluation harnesses.  Within the modelled files: Unicode above code point 255, file creation and permissions of the
  checkpoint database, pydantic's generated error texts, interleaving of other requests inside one service call, and
  the closing of HTTP clients, and the exchange of the Gateway client with the server.
\<close>

end
